(* ===== verification/Prelude.thy ===== *)
theory Prelude
  imports Main "HOL-Library.Word" "HOL-Library.State_Monad"
begin

text \<open>
  Shared vocabulary of the development: the machine integer types of the firmware, the state
  monad the C functions are written in, and the generic facts on lists, options and words that
  several components use.  The collection \<open>run_simps\<close> holds the equations that execute monadic
  code symbolically; \<open>wire_simps\<close> the equations that read what a trace of calls put on a socket.
\<close>

unbundle bit_operations_syntax

named_theorems run_simps "symbolic execution of the firmware's state-passing code"
named_theorems wire_simps "observation of traces of external calls"

type_synonym byte = "8 word"
type_synonym u16 = "16 word"
type_synonym u32 = "32 word"

section \<open>The state monad\<close>

abbreviation return :: "'a \<Rightarrow> ('s, 'a) state" where
  "return \<equiv> State_Monad.return"

abbreviation get_state :: "('s, 's) state" where
  "get_state \<equiv> State_Monad.get"

abbreviation modify :: "('s \<Rightarrow> 's) \<Rightarrow> ('s, unit) state" where
  "modify \<equiv> State_Monad.update"

definition gets :: "('s \<Rightarrow> 'a) \<Rightarrow> ('s, 'a) state" where
  "gets f = State (\<lambda>s. (f s, s))"

definition do_when :: "bool \<Rightarrow> ('s, unit) state \<Rightarrow> ('s, unit) state" where
  "do_when b m = (if b then m else return ())"

definition final_state :: "('s, 'a) state \<Rightarrow> 's \<Rightarrow> 's" where
  "final_state m s = snd (run_state m s)"

definition result :: "('s, 'a) state \<Rightarrow> 's \<Rightarrow> 'a" where
  "result m s = fst (run_state m s)"

lemma run_gets [simp, run_simps]: "run_state (gets f) s = (f s, s)"
  by (simp add: gets_def)

lemma run_modify [simp, run_simps]: "run_state (modify f) s = ((), f s)"
  by (simp add: State_Monad.update_def)

lemma run_do_when [simp, run_simps]:
  "run_state (do_when b m) s = (if b then run_state m s else ((), s))"
  by (simp add: do_when_def)

lemma run_state_if [run_simps]:
  "run_state (if b then m else n) s = (if b then run_state m s else run_state n s)"
  by simp

lemma run_state_split: "run_state m s = (result m s, final_state m s)"
  by (simp add: result_def final_state_def)

lemmas run_basic [run_simps] =
  State_Monad.run_state_bind State_Monad.run_state_return State_Monad.run_state_get
  State_Monad.run_state_set

text \<open>Inversion of a run, one statement at a time.\<close>

lemma run_bindE:
  assumes "run_state (State_Monad.bind m f) s = (x, s')"
  obtains a t where "run_state m s = (a, t)" "run_state (f a) t = (x, s')"
  using assms by (cases "run_state m s") (auto simp: State_Monad.run_state_bind)

section \<open>Lists in fixed-size chunks\<close>

text \<open>The complete chunks of \<open>n\<close> elements of a list, and what is left over after them.\<close>

function chunks :: "nat \<Rightarrow> 'a list \<Rightarrow> 'a list list" where
  "chunks n xs = (if n = 0 \<or> length xs < n then [] else take n xs # chunks n (drop n xs))"
  by pat_completeness auto
termination
  by (relation "measure (\<lambda>(n, xs). length xs)") auto

declare chunks.simps [simp del]

definition leftover :: "nat \<Rightarrow> 'a list \<Rightarrow> 'a list" where
  "leftover n xs = drop (n * (length xs div n)) xs"

lemma chunks_short [simp]: "length xs < n \<Longrightarrow> chunks n xs = []"
  by (subst chunks.simps) simp

lemma chunks_Nil [simp]: "chunks n [] = []"
  by (subst chunks.simps) auto

lemma chunks_cons: "0 < n \<Longrightarrow> length c = n \<Longrightarrow> chunks n (c @ xs) = c # chunks n xs"
  by (subst chunks.simps) simp

lemma leftover_short [simp]: "length xs < n \<Longrightarrow> leftover n xs = xs"
  by (simp add: leftover_def)

lemma leftover_cons:
  assumes "0 < n" and "length c = n"
  shows "leftover n (c @ xs) = leftover n xs"
proof -
  have "n * ((n + length xs) div n) = n + n * (length xs div n)"
    using assms(1) by (simp add: div_add_self1 distrib_left)
  then show ?thesis using assms(2) by (simp add: leftover_def)
qed

lemma length_leftover: "length (leftover n xs) = length xs mod n"
proof -
  have "length xs - n * (length xs div n) = length xs mod n"
    by (simp add: minus_mult_div_eq_mod)
  then show ?thesis by (simp add: leftover_def)
qed

lemma leftover_less: "0 < n \<Longrightarrow> length (leftover n xs) < n"
  by (simp add: length_leftover)

lemma chunks_leftover: "0 < n \<Longrightarrow> concat (chunks n xs) @ leftover n xs = xs"
proof (induction n xs rule: chunks.induct)
  case (1 n xs)
  show ?case
  proof (cases "length xs < n")
    case False
    then have IH: "concat (chunks n (drop n xs)) @ leftover n (drop n xs) = drop n xs"
      using 1 by simp
    have "leftover n (take n xs @ drop n xs) = leftover n (drop n xs)"
      by (rule leftover_cons) (use 1 False in auto)
    then have "leftover n xs = leftover n (drop n xs)" by simp
    then show ?thesis
      using False 1(2) IH by (subst chunks.simps) simp
  qed simp
qed

text \<open>Chunking is compatible with cutting the input anywhere: the rest is prepended to what follows.\<close>

lemma chunks_append:
  assumes "0 < n"
  shows "chunks n (xs @ ys) = chunks n xs @ chunks n (leftover n xs @ ys)"
    and "leftover n (xs @ ys) = leftover n (leftover n xs @ ys)"
proof -
  have "chunks n (xs @ ys) = chunks n xs @ chunks n (leftover n xs @ ys) \<and>
        leftover n (xs @ ys) = leftover n (leftover n xs @ ys)"
    using assms
  proof (induction n xs rule: chunks.induct)
    case (1 n xs)
    show ?case
    proof (cases "length xs < n")
      case False
      then obtain c zs where xs: "xs = c @ zs" and c: "length c = n"
        by (metis append_take_drop_id length_take min.absorb4 not_less_iff_gr_or_eq min.idem)
      then have "drop n xs = zs" by simp
      then show ?thesis
        using 1 False by (simp add: xs chunks_cons c leftover_cons)
    qed simp
  qed
  then show "chunks n (xs @ ys) = chunks n xs @ chunks n (leftover n xs @ ys)"
    and "leftover n (xs @ ys) = leftover n (leftover n xs @ ys)"
    by simp_all
qed

lemma length_in_chunks: "c \<in> set (chunks n xs) \<Longrightarrow> length c = n"
proof (induction n xs rule: chunks.induct)
  case (1 n xs)
  then show ?case
    by (subst (asm) (2) chunks.simps) (auto split: if_splits)
qed

section \<open>Bytes\<close>

lemma byte_eqI: "(\<And>n. n < 8 \<Longrightarrow> bit (a :: byte) n = bit b n) \<Longrightarrow> a = b"
  by (rule bit_word_eqI) simp

lemma less_8_cases:
  "(n :: nat) < 8 \<Longrightarrow> n = 0 \<or> n = 1 \<or> n = 2 \<or> n = 3 \<or> n = 4 \<or> n = 5 \<or> n = 6 \<or> n = 7"
  by auto

section \<open>Segments of a buffer\<close>

definition slice :: "nat \<Rightarrow> nat \<Rightarrow> 'a list \<Rightarrow> 'a list" where
  "slice i n xs = take n (drop i xs)"

lemma length_slice: "i + n \<le> length xs \<Longrightarrow> length (slice i n xs) = n"
  by (simp add: slice_def)

lemma take_slice: "take i xs @ slice i n xs = take (i + n) xs"
  by (simp add: slice_def take_add)

lemma take_slice_le: "m \<le> n \<Longrightarrow> take m (slice i n xs) = slice i m xs"
  by (simp add: slice_def min_def)

end
