(* ===== verification/Platform.thy ===== *)
theory Platform
  imports Prelude
begin

text \<open>
  The boundary of the model.  Everything the firmware calls that is not under \<open>src/\<close> (lwIP sockets,
  FreeRTOS, ESP-IDF drivers, the ESP-ADF audio framework, the I2C and GPIO drivers under the camera
  driver) is an external call: a value of a call type, performed by \<open>call\<close>, which asks the
  environment what the call returns and appends call and return value to the trace.

  The environment is a parameter of every definition that performs calls: \<open>env k c\<close> is what
  the call \<open>c\<close> returns when it is the \<open>k\<close>-th external call since boot.  Any run of the real
  system is the run for one such function, so a statement for every environment holds for every
  behaviour of the code outside; a statement that needs documented behaviour of that code names it
  as a hypothesis on \<open>env\<close> (\<open>send_bounded\<close>, \<open>recv_sane\<close> and others).

  The order of calls in the trace is the order in which the source performs them.  Log output
  (\<open>ESP_LOGx\<close>) is not part of the trace.
\<close>

section \<open>Return values and termination of tasks\<close>

datatype esp_err =
    ESP_OK
  | ESP_FAIL
  | ESP_ERR_NO_MEM
  | ESP_ERR_INVALID_ARG
  | ESP_ERR_INVALID_STATE
  | ESP_ERR_NOT_FOUND
  | ESP_ERR_NOT_SUPPORTED
  | ESP_ERR_NVS_NO_FREE_PAGES
  | ESP_ERR_NVS_NEW_VERSION_FOUND
  | ESP_ERR_CAMERA_NOT_DETECTED
  | ESP_ERR_CAMERA_FAILED_TO_SET_FRAME_SIZE
  | ESP_ERR_OTHER int

text \<open>
  What an external call gives back: an integer (a count, a descriptor, or a handle, where 0 is
  \<open>NULL\<close>), an error code, and the bytes it stored through a buffer argument.
\<close>

record ret =
  rval :: int
  rerr :: esp_err
  rdata :: "byte list"

abbreviation ret_int :: "int \<Rightarrow> ret" where
  "ret_int n \<equiv> \<lparr>rval = n, rerr = ESP_OK, rdata = []\<rparr>"

text \<open>
  The ways control leaves a task for good: \<open>ESP_ERROR_CHECK\<close> aborts with the failing code,
  \<open>vTaskDelete(NULL)\<close> ends the task, dereferencing a null pointer is a processor fault, and a failed
  \<open>mem_assert\<close> stops the program.
\<close>

datatype halt = Aborted esp_err | Deleted | Fault | Assert_failed

section \<open>Performing external calls\<close>

record 'c plat =
  trace :: "('c \<times> ret) list"

type_synonym 'c env = "nat \<Rightarrow> 'c \<Rightarrow> ret"

definition call :: "'c env \<Rightarrow> 'c \<Rightarrow> (('c, 'z) plat_scheme, ret) state" where
  "call env c = State (\<lambda>s. let r = env (length (trace s)) c
                           in (r, s\<lparr>trace := trace s @ [(c, r)]\<rparr>))"

definition perform :: "'c env \<Rightarrow> 'c \<Rightarrow> (('c, 'z) plat_scheme, unit) state" where
  "perform env c = do { _ \<leftarrow> call env c; return () }"

text \<open>\<open>ESP_ERROR_CHECK(c); k\<close>\<close>

definition checked ::
  "'c env \<Rightarrow> 'c \<Rightarrow> (('c, 'z) plat_scheme, halt + 'a) state \<Rightarrow> (('c, 'z) plat_scheme, halt + 'a) state" where
  "checked env c k = do {
     r \<leftarrow> call env c;
     if rerr r = ESP_OK then k else return (Inl (Aborted (rerr r)))
   }"

fun perform_all :: "'c env \<Rightarrow> 'c list \<Rightarrow> (('c, 'z) plat_scheme, unit) state" where
  "perform_all env [] = return ()"
| "perform_all env (c # cs) = do { perform env c; perform_all env cs }"

section \<open>The external calls of the firmware\<close>

datatype sockopt = SO_REUSEADDR | SO_SNDTIMEO nat nat | SO_RCVTIMEO nat nat

datatype net_call =
    Socket
  | Setsockopt int sockopt
  | Bind int nat
  | Listen int nat
  | Accept int
  | Send int "byte list"
  | Recv int nat
  | Shutdown int
  | Close int

datatype mem_caps = MALLOC_CAP_INTERNAL | MALLOC_CAP_SPIRAM | MALLOC_DEFAULT | MALLOC_CAP_DMA

text \<open>\<open>Call_null\<close> is no call of the operating system but a call through a function pointer that is \<open>NULL\<close>: the
  processor raises an exception and the chip restarts, so what follows it in a trace is void.\<close>

datatype os_call =
    Timer_get_time
  | Tick_count
  | Task_delay nat
  | Task_create string nat nat
  | Malloc nat mem_caps
  | Free int
  | Heap_free_size mem_caps
  | Heap_largest_block mem_caps
  | Nvs_flash_init
  | Nvs_flash_erase
  | Mutex_create
  | Mutex_take int
  | Mutex_give int
  | Stack_high_water_mark
  | Call_null

text \<open>The LEDC (PWM) driver.\<close>

datatype ledc_mode = LEDC_LOW_SPEED_MODE | LEDC_HIGH_SPEED_MODE
datatype ledc_res = LEDC_TIMER_1_BIT | LEDC_TIMER_10_BIT
datatype ledc_clk = LEDC_AUTO_CLK
datatype ledc_intr = LEDC_INTR_DISABLE

record ledc_timer_config_t =
  lt_speed_mode :: ledc_mode
  lt_duty_resolution :: ledc_res
  lt_timer_num :: nat
  lt_freq_hz :: nat
  lt_clk_cfg :: ledc_clk

record ledc_channel_config_t =
  lc_gpio_num :: int
  lc_speed_mode :: ledc_mode
  lc_channel :: nat
  lc_timer_sel :: nat
  lc_duty :: u32
  lc_hpoint :: int
  lc_intr_type :: ledc_intr

datatype ledc_call =
    Ledc_timer_config ledc_timer_config_t
  | Ledc_channel_config ledc_channel_config_t
  | Ledc_set_duty ledc_mode nat u32
  | Ledc_update_duty ledc_mode nat

text \<open>The Wi-Fi driver.\<close>

datatype wifi_auth = WIFI_AUTH_OPEN | WIFI_AUTH_WPA_WPA2_PSK
datatype wifi_mode = WIFI_MODE_AP
datatype wifi_if = WIFI_IF_AP
datatype wifi_bw = WIFI_BW_HT40
datatype wifi_ps = WIFI_PS_NONE

record wifi_ap_config_t =
  ap_ssid :: string
  ap_ssid_len :: nat
  ap_channel :: nat
  ap_password :: string
  ap_max_connection :: nat
  ap_authmode :: wifi_auth
  ap_pmf_required :: bool

datatype wifi_call =
    Netif_init
  | Event_loop_create_default
  | Netif_create_default_wifi_ap
  | Wifi_init
  | Wifi_set_mode wifi_mode
  | Wifi_set_config wifi_if wifi_ap_config_t
  | Wifi_set_bandwidth wifi_if wifi_bw
  | Wifi_set_ps wifi_ps
  | Wifi_start

text \<open>The ESP-ADF audio framework: streams, decoder, pipelines, event interfaces, recorder.
  Elements, pipelines and other objects are named by the handle their constructor returned.\<close>

datatype stream_type = AUDIO_STREAM_READER | AUDIO_STREAM_WRITER
datatype i2s_channel = I2S_CHANNEL_TYPE_DEFAULT | I2S_CHANNEL_TYPE_ONLY_LEFT

datatype ael_state =
    AEL_STATE_NONE
  | AEL_STATE_INIT
  | AEL_STATE_INITIALIZING
  | AEL_STATE_RUNNING
  | AEL_STATE_PAUSED
  | AEL_STATE_STOPPED
  | AEL_STATE_FINISHED
  | AEL_STATE_ERROR

record i2s_stream_cfg_t =
  i2s_port :: nat
  i2s_rate :: nat
  i2s_bits :: nat
  i2s_type :: stream_type
  i2s_channel_type :: i2s_channel
  i2s_out_rb_size :: "nat option"

record recorder_sr_cfg_t =
  sr_input_fmt :: string
  sr_partition :: string
  sr_wakenet_init :: bool
  sr_aec_init :: bool
  sr_sample_rate :: nat
  sr_mic_num :: nat
  sr_ref_num :: nat
  sr_total_ch_num :: nat
  sr_multinet_init :: bool

datatype adf_call =
    I2s_stream_init i2s_stream_cfg_t
  | Raw_stream_init stream_type nat
  | Mp3_decoder_init
  | Element_set_input_timeout int
  | Element_set_output_timeout int
  | Element_set_read_cb int
  | Element_get_state int
  | Element_getinfo int
  | Element_deinit int
  | I2s_stream_set_clk int nat nat nat
  | Raw_stream_read int nat
  | Pipeline_init
  | Pipeline_register int int string
  | Pipeline_unregister int int
  | Pipeline_link int "string list"
  | Pipeline_run int
  | Pipeline_stop int
  | Pipeline_wait_for_stop int
  | Pipeline_terminate int
  | Pipeline_reset_ringbuffer int
  | Pipeline_reset_elements int
  | Pipeline_change_state int ael_state
  | Pipeline_set_listener int int
  | Pipeline_remove_listener int
  | Pipeline_deinit int
  | Event_iface_init
  | Event_iface_listen int
  | Event_iface_destroy int
  | Recorder_sr_create recorder_sr_cfg_t
  | Recorder_create int nat
  | Recorder_wakenet_enable int bool
  | Recorder_vad_check_enable int bool
  | Recorder_trigger_start int
  | Recorder_data_read int nat
  | Recorder_destroy int

text \<open>The audio board and its codec (HAL), and the key inputs of the board.\<close>

datatype board_call =
    Board_init
  | Board_hal int
  | Hal_ctrl_codec_start int
  | Hal_set_volume int int
  | Hal_get_volume int
  | Periph_set_init
  | Board_key_init int
  | Key_event_iface_init
  | Key_set_listener int int
  | Key_event_listen int

text \<open>The camera peripheral and what the camera driver uses of the operating system: memory-mapped
  registers of the LCD\_CAM module and of the GDMA channel, pins, interrupts, queues, the I2C master
  (a command link is the list of the operations queued on it) and non-volatile storage.
  \<open>Dma_memory\<close> is what the DMA engine has written at an address when the processor reads it.\<close>

datatype gdma_field =
    INT_CLR | INT_ENA | CONF0 | IN_RST | INDSCR_BURST_EN | IN_DATA_BURST_EN | IN_CHECK_OWNER
  | PERI_SEL | INT_ENA_SUC_EOF | INT_CLR_SUC_EOF | INT_ST | LINK_STOP | LINK_ADDR | LINK_START
  | IN_EXT_MEM_BK_SIZE

datatype lcd_field =
    CAM_START | CAM_RESET | CAM_AFIFO_RESET | CAM_REC_DATA_BYTELEN | CAM_UPDATE | CAM_CTRL
  | CAM_CLKM_DIV_B | CAM_CLKM_DIV_A | CAM_CLKM_DIV_NUM | CAM_CLK_SEL | CAM_STOP_EN
  | CAM_VSYNC_FILTER_THRES | CAM_BYTE_ORDER | CAM_BIT_ORDER | CAM_LINE_INT_EN | CAM_VS_EOF_EN
  | CAM_CTRL1 | CAM_LINE_INT_NUM | CAM_CLK_INV | CAM_VSYNC_FILTER_EN | CAM_2BYTE_EN | CAM_DE_INV
  | CAM_HSYNC_INV | CAM_VSYNC_INV | CAM_VH_DE_MODE_EN | CAM_RGB_YUV
  | CAM_VSYNC_INT_CLR | CAM_VSYNC_INT_ENA | LC_DMA_INT_ST | LC_DMA_INT_CLR

datatype cam_reg = Gdma_in nat gdma_field | Lcd_cam lcd_field
datatype periph = PERIPH_GDMA_MODULE | PERIPH_LCD_CAM_MODULE
datatype cam_signal = CAM_PCLK_IDX | CAM_V_SYNC_IDX | CAM_H_ENABLE_IDX | CAM_DATA_IN_IDX nat | CAM_CLK_IDX
datatype gpio_mode = GPIO_MODE_INPUT | GPIO_MODE_OUTPUT
datatype intr_source = GDMA_IN_CH nat | LCD_CAM_INTR
datatype cam_event_t = CAM_IN_SUC_EOF_EVENT | CAM_VSYNC_EVENT
datatype i2c_op = I2C_START | I2C_WRITE byte | I2C_READ_ACK | I2C_READ_NACK | I2C_STOP

datatype cam_call =
    Reg_set cam_reg int
  | Reg_get cam_reg
  | Periph_enabled periph
  | Periph_disable_clk_set_rst periph
  | Periph_enable_clk_clear_rst periph
  | Gdma_new_channel
  | Gdma_get_channel_id int
  | Gdma_disconnect int
  | Gdma_del_channel int
  | Pin_func_gpio int
  | Gpio_set_direction int gpio_mode
  | Gpio_set_floating int
  | Gpio_matrix_in int cam_signal bool
  | Gpio_matrix_out int cam_signal
  | Gpio_config_output int
  | Gpio_set_level int nat
  | Delay_us nat
  | Intr_alloc intr_source
  | Intr_free int
  | Dma_memory int nat
  | Queue_create nat
  | Queue_delete int
  | Queue_reset int
  | Queue_send int nat
  | Queue_send_from_isr int cam_event_t
  | Queue_receive int u32
  | Task_delete int
  | I2c_param_config int int int nat
  | I2c_driver_install int
  | I2c_driver_delete int
  | I2c_cmd_begin int "i2c_op list"
  | Nvs_open string
  | Nvs_set_blob int string "byte list"
  | Nvs_set_u8 int string byte
  | Nvs_get_blob int string nat
  | Nvs_get_u8 int string
  | Nvs_close int

datatype fw_call =
    Net net_call
  | Os os_call
  | Ledc ledc_call
  | Wifi wifi_call
  | Adf adf_call
  | Board board_call
  | Cam cam_call

type_synonym fw_env = "fw_call env"

section \<open>Documented behaviour of the socket calls\<close>

definition send_bounded :: "fw_env \<Rightarrow> bool" where
  "send_bounded env \<longleftrightarrow> (\<forall>k s bs. rval (env k (Net (Send s bs))) \<le> int (length bs))"

definition recv_sane :: "fw_env \<Rightarrow> bool" where
  "recv_sane env \<longleftrightarrow>
     (\<forall>k s n. let r = env k (Net (Recv s n))
              in rval r \<le> int n \<and> (0 < rval r \<longrightarrow> length (rdata r) = nat (rval r)))"

section \<open>Observing a trace\<close>

text \<open>The bytes the TCP stack has accepted on a socket, in order: what the peer will read.\<close>

fun sent :: "int \<Rightarrow> (fw_call \<times> ret) list \<Rightarrow> byte list" where
  "sent s [] = []"
| "sent s ((Net (Send t bs), r) # tr) =
     (if t = s then take (nat (rval r)) bs else []) @ sent s tr"
| "sent s (_ # tr) = sent s tr"

definition performed :: "'c \<Rightarrow> ('c \<times> ret) list \<Rightarrow> nat" where
  "performed c tr = length (filter (\<lambda>(d, _). d = c) tr)"

text \<open>\<open>after cs s s'\<close>: state \<open>s'\<close> is \<open>s\<close> after exactly the external calls \<open>cs\<close>, in that order, and no
  other change.\<close>

definition after :: "'c list \<Rightarrow> ('c, 'z) plat_scheme \<Rightarrow> ('c, 'z) plat_scheme \<Rightarrow> bool" where
  "after cs s s' \<longleftrightarrow> (\<exists>tr. s' = s\<lparr>trace := trace s @ tr\<rparr> \<and> map fst tr = cs)"

section \<open>Basic facts\<close>

lemma run_call [run_simps]:
  "run_state (call env c) s =
     (env (length (trace s)) c, s\<lparr>trace := trace s @ [(c, env (length (trace s)) c)]\<rparr>)"
  by (simp add: call_def Let_def)

lemma run_perform [run_simps]:
  "run_state (perform env c) s =
     ((), s\<lparr>trace := trace s @ [(c, env (length (trace s)) c)]\<rparr>)"
  by (simp add: perform_def run_call)

lemma run_checked [run_simps]:
  "run_state (checked env c k) s =
     (let r = env (length (trace s)) c; s' = s\<lparr>trace := trace s @ [(c, r)]\<rparr>
      in if rerr r = ESP_OK then run_state k s' else (Inl (Aborted (rerr r)), s'))"
  by (simp add: checked_def run_call Let_def)

lemma after_refl [simp]: "after [] s s"
  by (auto simp: after_def)

lemma after_trans: "after cs s t \<Longrightarrow> after ds t u \<Longrightarrow> after (cs @ ds) s u"
  by (auto simp: after_def)

lemma after_call: "after [c] s (snd (run_state (call env c) s))"
  by (auto simp: after_def run_call)

lemma after_perform: "after [c] s (snd (run_state (perform env c) s))"
  by (auto simp: after_def run_perform)

lemma after_perform_all: "after cs s (snd (run_state (perform_all env cs) s))"
proof (induction cs arbitrary: s)
  case (Cons c cs)
  have "after [c] s (snd (run_state (perform env c) s))" by (rule after_perform)
  from after_trans [OF this Cons.IH] show ?case by (simp add: run_perform)
qed simp

lemma after_calls: "after cs s s' \<Longrightarrow> map fst (trace s') = map fst (trace s) @ cs"
  by (auto simp: after_def)

lemma after_frame: "after cs s s' \<Longrightarrow> plat.more s' = plat.more s"
  by (auto simp: after_def)

lemma sent_append [simp, wire_simps]: "sent s (tr @ tr') = sent s tr @ sent s tr'"
  by (induction s tr rule: sent.induct) auto

lemma performed_append [simp, wire_simps]:
  "performed c (tr @ tr') = performed c tr + performed c tr'"
  by (simp add: performed_def)

lemma performed_Nil [simp, wire_simps]: "performed c [] = 0"
  by (simp add: performed_def)

lemma performed_Cons [simp, wire_simps]:
  "performed c ((d, r) # tr) = (if d = c then 1 else 0) + performed c tr"
  by (simp add: performed_def)

lemma send_boundedD: "send_bounded env \<Longrightarrow> rval (env k (Net (Send s bs))) \<le> int (length bs)"
  by (simp add: send_bounded_def)

lemma recv_saneD:
  assumes "recv_sane env"
  shows "rval (env k (Net (Recv s n))) \<le> int n"
    and "0 < rval (env k (Net (Recv s n))) \<Longrightarrow>
         length (rdata (env k (Net (Recv s n)))) = nat (rval (env k (Net (Recv s n))))"
  using assms by (simp_all add: recv_sane_def Let_def)

end
