(* ===== verification/Sensor.thy ===== *)
theory Sensor
  imports Platform
begin

text \<open>
  The sensor abstraction of the camera driver (\<open>sensor.h\<close>, \<open>sensor.c\<close>): enumerations, the table of
  supported sensors, the table of resolutions indexed by \<open>framesize_t\<close>, and the look-up of a sensor
  by its product identifier.  The enumerations that the code compares or uses as array indices
  carry their C value; \<open>framesize_t\<close> is ordered by it.
\<close>

section \<open>Enumerations of \<open>sensor.h\<close>\<close>

datatype camera_model_t =
    CAMERA_OV7725 | CAMERA_OV2640 | CAMERA_OV3660 | CAMERA_OV5640 | CAMERA_OV7670
  | CAMERA_NT99141 | CAMERA_GC2145 | CAMERA_GC032A | CAMERA_GC0308 | CAMERA_BF3005
  | CAMERA_BF20A6 | CAMERA_SC101IOT | CAMERA_SC030IOT | CAMERA_SC031GS | CAMERA_MEGA_CCM
  | CAMERA_MODEL_MAX | CAMERA_NONE

definition camera_models :: "camera_model_t list" where
  "camera_models =
     [CAMERA_OV7725, CAMERA_OV2640, CAMERA_OV3660, CAMERA_OV5640, CAMERA_OV7670,
      CAMERA_NT99141, CAMERA_GC2145, CAMERA_GC032A, CAMERA_GC0308, CAMERA_BF3005,
      CAMERA_BF20A6, CAMERA_SC101IOT, CAMERA_SC030IOT, CAMERA_SC031GS, CAMERA_MEGA_CCM]"

datatype pixformat_t =
    PIXFORMAT_RGB565 | PIXFORMAT_YUV422 | PIXFORMAT_YUV420 | PIXFORMAT_GRAYSCALE
  | PIXFORMAT_JPEG | PIXFORMAT_RGB888 | PIXFORMAT_RAW | PIXFORMAT_RGB444 | PIXFORMAT_RGB555
  | PIXFORMAT_VALUE byte

text \<open>\<open>PIXFORMAT_VALUE\<close> is a variable of the enumeration type that holds a value outside it; the byte read
  from non-volatile storage can be one.\<close>

definition pixformats :: "pixformat_t list" where
  "pixformats = [PIXFORMAT_RGB565, PIXFORMAT_YUV422, PIXFORMAT_YUV420, PIXFORMAT_GRAYSCALE,
     PIXFORMAT_JPEG, PIXFORMAT_RGB888, PIXFORMAT_RAW, PIXFORMAT_RGB444, PIXFORMAT_RGB555]"

fun pixformat_value :: "pixformat_t \<Rightarrow> byte" where
  "pixformat_value PIXFORMAT_RGB565 = 0"
| "pixformat_value PIXFORMAT_YUV422 = 1"
| "pixformat_value PIXFORMAT_YUV420 = 2"
| "pixformat_value PIXFORMAT_GRAYSCALE = 3"
| "pixformat_value PIXFORMAT_JPEG = 4"
| "pixformat_value PIXFORMAT_RGB888 = 5"
| "pixformat_value PIXFORMAT_RAW = 6"
| "pixformat_value PIXFORMAT_RGB444 = 7"
| "pixformat_value PIXFORMAT_RGB555 = 8"
| "pixformat_value (PIXFORMAT_VALUE v) = v"

definition pixformat_of_value :: "byte \<Rightarrow> pixformat_t" where
  "pixformat_of_value v = (if unat v < 9 then pixformats ! unat v else PIXFORMAT_VALUE v)"

datatype framesize_t =
    FRAMESIZE_96X96 | FRAMESIZE_QQVGA | FRAMESIZE_128X128 | FRAMESIZE_QCIF | FRAMESIZE_HQVGA
  | FRAMESIZE_240X240 | FRAMESIZE_QVGA | FRAMESIZE_320X320 | FRAMESIZE_CIF | FRAMESIZE_HVGA
  | FRAMESIZE_VGA | FRAMESIZE_SVGA | FRAMESIZE_XGA | FRAMESIZE_HD | FRAMESIZE_SXGA
  | FRAMESIZE_UXGA | FRAMESIZE_FHD | FRAMESIZE_P_HD | FRAMESIZE_P_3MP | FRAMESIZE_QXGA
  | FRAMESIZE_QHD | FRAMESIZE_WQXGA | FRAMESIZE_P_FHD | FRAMESIZE_QSXGA | FRAMESIZE_5MP
  | FRAMESIZE_INVALID

fun framesize_value :: "framesize_t \<Rightarrow> nat" where
  "framesize_value FRAMESIZE_96X96 = 0"
| "framesize_value FRAMESIZE_QQVGA = 1"
| "framesize_value FRAMESIZE_128X128 = 2"
| "framesize_value FRAMESIZE_QCIF = 3"
| "framesize_value FRAMESIZE_HQVGA = 4"
| "framesize_value FRAMESIZE_240X240 = 5"
| "framesize_value FRAMESIZE_QVGA = 6"
| "framesize_value FRAMESIZE_320X320 = 7"
| "framesize_value FRAMESIZE_CIF = 8"
| "framesize_value FRAMESIZE_HVGA = 9"
| "framesize_value FRAMESIZE_VGA = 10"
| "framesize_value FRAMESIZE_SVGA = 11"
| "framesize_value FRAMESIZE_XGA = 12"
| "framesize_value FRAMESIZE_HD = 13"
| "framesize_value FRAMESIZE_SXGA = 14"
| "framesize_value FRAMESIZE_UXGA = 15"
| "framesize_value FRAMESIZE_FHD = 16"
| "framesize_value FRAMESIZE_P_HD = 17"
| "framesize_value FRAMESIZE_P_3MP = 18"
| "framesize_value FRAMESIZE_QXGA = 19"
| "framesize_value FRAMESIZE_QHD = 20"
| "framesize_value FRAMESIZE_WQXGA = 21"
| "framesize_value FRAMESIZE_P_FHD = 22"
| "framesize_value FRAMESIZE_QSXGA = 23"
| "framesize_value FRAMESIZE_5MP = 24"
| "framesize_value FRAMESIZE_INVALID = 25"

definition framesizes :: "framesize_t list" where
  "framesizes =
     [FRAMESIZE_96X96, FRAMESIZE_QQVGA, FRAMESIZE_128X128, FRAMESIZE_QCIF, FRAMESIZE_HQVGA,
      FRAMESIZE_240X240, FRAMESIZE_QVGA, FRAMESIZE_320X320, FRAMESIZE_CIF, FRAMESIZE_HVGA,
      FRAMESIZE_VGA, FRAMESIZE_SVGA, FRAMESIZE_XGA, FRAMESIZE_HD, FRAMESIZE_SXGA, FRAMESIZE_UXGA,
      FRAMESIZE_FHD, FRAMESIZE_P_HD, FRAMESIZE_P_3MP, FRAMESIZE_QXGA, FRAMESIZE_QHD,
      FRAMESIZE_WQXGA, FRAMESIZE_P_FHD, FRAMESIZE_QSXGA, FRAMESIZE_5MP]"

text \<open>Any value beyond the table is \<open>FRAMESIZE_INVALID\<close>.  Such a value can only come from a damaged entry in non-volatile storage; the
  program would then index \<open>resolution\<close> past its end, and what it reads there is unknown for every such value alike.\<close>

definition framesize_of_value :: "nat \<Rightarrow> framesize_t" where
  "framesize_of_value n = (if n < length framesizes then framesizes ! n else FRAMESIZE_INVALID)"

lemma framesize_of_value [simp]: "framesize_of_value (framesize_value fs) = fs"
  by (cases fs) (simp_all add: framesize_of_value_def framesizes_def)

lemma framesize_value_inject: "framesize_value a = framesize_value b \<Longrightarrow> a = b"
  by (cases a; cases b) simp_all

text \<open>The order the C code uses when it compares frame sizes.\<close>

instantiation framesize_t :: linorder
begin

definition less_eq_framesize_t :: "framesize_t \<Rightarrow> framesize_t \<Rightarrow> bool" where
  "less_eq_framesize_t a b \<longleftrightarrow> framesize_value a \<le> framesize_value b"

definition less_framesize_t :: "framesize_t \<Rightarrow> framesize_t \<Rightarrow> bool" where
  "less_framesize_t a b \<longleftrightarrow> framesize_value a < framesize_value b"

instance
  by standard
     (auto simp: less_eq_framesize_t_def less_framesize_t_def intro: framesize_value_inject)

end

datatype aspect_ratio_t =
    ASPECT_RATIO_4X3 | ASPECT_RATIO_3X2 | ASPECT_RATIO_16X10 | ASPECT_RATIO_5X3
  | ASPECT_RATIO_16X9 | ASPECT_RATIO_21X9 | ASPECT_RATIO_5X4 | ASPECT_RATIO_1X1
  | ASPECT_RATIO_9X16

datatype gainceiling_t =
    GAINCEILING_2X | GAINCEILING_4X | GAINCEILING_8X | GAINCEILING_16X | GAINCEILING_32X
  | GAINCEILING_64X | GAINCEILING_128X

fun gainceiling_value :: "gainceiling_t \<Rightarrow> nat" where
  "gainceiling_value GAINCEILING_2X = 0"
| "gainceiling_value GAINCEILING_4X = 1"
| "gainceiling_value GAINCEILING_8X = 2"
| "gainceiling_value GAINCEILING_16X = 3"
| "gainceiling_value GAINCEILING_32X = 4"
| "gainceiling_value GAINCEILING_64X = 5"
| "gainceiling_value GAINCEILING_128X = 6"

section \<open>The sensor table\<close>

record camera_sensor_info_t =
  info_model :: camera_model_t
  info_name :: string
  info_sccb_addr :: byte
  info_pid :: u16
  info_max_size :: framesize_t
  info_support_jpeg :: bool

definition sensor_row ::
  "camera_model_t \<Rightarrow> string \<Rightarrow> byte \<Rightarrow> u16 \<Rightarrow> framesize_t \<Rightarrow> bool \<Rightarrow> camera_sensor_info_t" where
  "sensor_row m n a p f j = \<lparr>info_model = m, info_name = n, info_sccb_addr = a, info_pid = p,
     info_max_size = f, info_support_jpeg = j\<rparr>"

definition OV2640_PID :: u16 where "OV2640_PID = 0x26"
definition OV2640_SCCB_ADDR :: byte where "OV2640_SCCB_ADDR = 0x30"

definition camera_sensor :: "camera_sensor_info_t list" where
  "camera_sensor =
     [sensor_row CAMERA_OV7725 ''OV7725'' 0x21 0x77 FRAMESIZE_VGA False,
      sensor_row CAMERA_OV2640 ''OV2640'' OV2640_SCCB_ADDR OV2640_PID FRAMESIZE_UXGA True,
      sensor_row CAMERA_OV3660 ''OV3660'' 0x3C 0x3660 FRAMESIZE_QXGA True,
      sensor_row CAMERA_OV5640 ''OV5640'' 0x3C 0x5640 FRAMESIZE_QSXGA True,
      sensor_row CAMERA_OV7670 ''OV7670'' 0x21 0x76 FRAMESIZE_VGA False,
      sensor_row CAMERA_NT99141 ''NT99141'' 0x2A 0x1410 FRAMESIZE_HD True,
      sensor_row CAMERA_GC2145 ''GC2145'' 0x3C 0x2145 FRAMESIZE_UXGA False,
      sensor_row CAMERA_GC032A ''GC032A'' 0x21 0x232A FRAMESIZE_VGA False,
      sensor_row CAMERA_GC0308 ''GC0308'' 0x21 0x9B FRAMESIZE_VGA False,
      sensor_row CAMERA_BF3005 ''BF3005'' 0x6E 0x30 FRAMESIZE_VGA False,
      sensor_row CAMERA_BF20A6 ''BF20A6'' 0x6E 0x20A6 FRAMESIZE_VGA False,
      sensor_row CAMERA_SC101IOT ''SC101IOT'' 0x68 0xDA4A FRAMESIZE_HD False,
      sensor_row CAMERA_SC030IOT ''SC030IOT'' 0x68 0x9A46 FRAMESIZE_VGA False,
      sensor_row CAMERA_SC031GS ''SC031GS'' 0x30 0x31 FRAMESIZE_VGA False,
      sensor_row CAMERA_MEGA_CCM ''MEGA_CCM'' 0x1F 0x39E FRAMESIZE_5MP True]"

record sensor_id_t =
  MIDH :: byte
  MIDL :: byte
  PID :: u16
  VER :: byte

text \<open>\<open>for (i = 0; i < CAMERA_MODEL_MAX; i++) if (id->PID == camera_sensor[i].pid) return &...\<close>\<close>

definition esp_camera_sensor_get_info :: "sensor_id_t \<Rightarrow> camera_sensor_info_t option" where
  "esp_camera_sensor_get_info ident = find (\<lambda>row. PID ident = info_pid row) camera_sensor"

section \<open>The resolution table\<close>

definition resolution :: "(nat \<times> nat \<times> aspect_ratio_t) list" where
  "resolution =
     [(96, 96, ASPECT_RATIO_1X1),
      (128, 128, ASPECT_RATIO_1X1),
      (160, 120, ASPECT_RATIO_4X3),
      (176, 144, ASPECT_RATIO_5X4),
      (240, 176, ASPECT_RATIO_4X3),
      (240, 240, ASPECT_RATIO_1X1),
      (320, 240, ASPECT_RATIO_4X3),
      (320, 320, ASPECT_RATIO_1X1),
      (400, 296, ASPECT_RATIO_4X3),
      (480, 320, ASPECT_RATIO_3X2),
      (640, 480, ASPECT_RATIO_4X3),
      (800, 600, ASPECT_RATIO_4X3),
      (1024, 768, ASPECT_RATIO_4X3),
      (1280, 720, ASPECT_RATIO_16X9),
      (1280, 1024, ASPECT_RATIO_5X4),
      (1600, 1200, ASPECT_RATIO_4X3),
      (1920, 1080, ASPECT_RATIO_16X9),
      (720, 1280, ASPECT_RATIO_9X16),
      (864, 1536, ASPECT_RATIO_9X16),
      (2048, 1536, ASPECT_RATIO_4X3),
      (2560, 1440, ASPECT_RATIO_16X9),
      (2560, 1600, ASPECT_RATIO_16X10),
      (1088, 1920, ASPECT_RATIO_9X16),
      (2560, 1920, ASPECT_RATIO_4X3),
      (2592, 1944, ASPECT_RATIO_4X3)]"

definition res_width :: "framesize_t \<Rightarrow> nat" where
  "res_width f = fst (resolution ! framesize_value f)"

definition res_height :: "framesize_t \<Rightarrow> nat" where
  "res_height f = fst (snd (resolution ! framesize_value f))"

definition res_ratio :: "framesize_t \<Rightarrow> aspect_ratio_t" where
  "res_ratio f = snd (snd (resolution ! framesize_value f))"

text \<open>The size \<open>sensor.h\<close> documents for each enumerator.\<close>

fun documented_size :: "framesize_t \<Rightarrow> (nat \<times> nat) option" where
  "documented_size FRAMESIZE_96X96 = Some (96, 96)"
| "documented_size FRAMESIZE_QQVGA = Some (160, 120)"
| "documented_size FRAMESIZE_128X128 = Some (128, 128)"
| "documented_size FRAMESIZE_QCIF = Some (176, 144)"
| "documented_size FRAMESIZE_HQVGA = Some (240, 176)"
| "documented_size FRAMESIZE_240X240 = Some (240, 240)"
| "documented_size FRAMESIZE_QVGA = Some (320, 240)"
| "documented_size FRAMESIZE_320X320 = Some (320, 320)"
| "documented_size FRAMESIZE_CIF = Some (400, 296)"
| "documented_size FRAMESIZE_HVGA = Some (480, 320)"
| "documented_size FRAMESIZE_VGA = Some (640, 480)"
| "documented_size FRAMESIZE_SVGA = Some (800, 600)"
| "documented_size FRAMESIZE_XGA = Some (1024, 768)"
| "documented_size FRAMESIZE_HD = Some (1280, 720)"
| "documented_size FRAMESIZE_SXGA = Some (1280, 1024)"
| "documented_size FRAMESIZE_UXGA = Some (1600, 1200)"
| "documented_size FRAMESIZE_FHD = Some (1920, 1080)"
| "documented_size FRAMESIZE_P_HD = Some (720, 1280)"
| "documented_size FRAMESIZE_P_3MP = Some (864, 1536)"
| "documented_size FRAMESIZE_QXGA = Some (2048, 1536)"
| "documented_size FRAMESIZE_QHD = Some (2560, 1440)"
| "documented_size FRAMESIZE_WQXGA = Some (2560, 1600)"
| "documented_size FRAMESIZE_P_FHD = Some (1080, 1920)"
| "documented_size FRAMESIZE_QSXGA = Some (2560, 1920)"
| "documented_size FRAMESIZE_5MP = Some (2592, 1944)"
| "documented_size FRAMESIZE_INVALID = None"

section \<open>Properties of the tables\<close>

lemma camera_sensor_models: "map info_model camera_sensor = camera_models"
  by (simp add: camera_sensor_def camera_models_def sensor_row_def)

lemma camera_sensor_pids_distinct: "distinct (map info_pid camera_sensor)"
  by (simp add: camera_sensor_def sensor_row_def OV2640_PID_def)

lemma find_distinct_key:
  "distinct (map f xs) \<Longrightarrow> x \<in> set xs \<Longrightarrow> find (\<lambda>y. f x = f y) xs = Some x"
  by (induction xs) (auto simp: image_iff)

text \<open>The sensor table follows the order of \<open>camera_model_t\<close>, as its comment demands
  (so indexing it by a detected model gives that model's row), and looking a sensor up by the product
  identifier of any row returns that row.\<close>

theorem sensor_lookup_correct:
  "map info_model camera_sensor = camera_models \<and>
   (\<forall>row \<in> set camera_sensor. \<forall>ident. PID ident = info_pid row \<longrightarrow>
      esp_camera_sensor_get_info ident = Some row)"
  using camera_sensor_models find_distinct_key [OF camera_sensor_pids_distinct]
  by (auto simp: esp_camera_sensor_get_info_def)

theorem sensor_lookup_correct_witness:
  "esp_camera_sensor_get_info \<lparr>MIDH = 0x7F, MIDL = 0xA2, PID = 0x26, VER = 0x42\<rparr>
     = Some (sensor_row CAMERA_OV2640 ''OV2640'' OV2640_SCCB_ADDR OV2640_PID FRAMESIZE_UXGA True)"
proof -
  have "sensor_row CAMERA_OV2640 ''OV2640'' OV2640_SCCB_ADDR OV2640_PID FRAMESIZE_UXGA True
          \<in> set camera_sensor"
    by (simp add: camera_sensor_def)
  then show ?thesis
    using sensor_lookup_correct by (simp add: sensor_row_def OV2640_PID_def)
qed

text \<open>The resolution table disagrees with \<open>framesize_t\<close> at exactly three
  enumerators: the rows of \<open>FRAMESIZE_QQVGA\<close> and \<open>FRAMESIZE_128X128\<close> are exchanged, and the row of
  \<open>FRAMESIZE_P_FHD\<close> is 8 pixels wider than documented.  For every other frame size the table holds
  the documented width and height.\<close>

theorem resolution_table_mismatch:
  "f \<noteq> FRAMESIZE_INVALID \<Longrightarrow>
     documented_size f = Some (res_width f, res_height f) \<longleftrightarrow>
     f \<notin> {FRAMESIZE_QQVGA, FRAMESIZE_128X128, FRAMESIZE_P_FHD}"
  by (cases f) (simp_all add: res_width_def res_height_def resolution_def)

theorem resolution_table_mismatch_witness:
  "documented_size FRAMESIZE_QVGA = Some (res_width FRAMESIZE_QVGA, res_height FRAMESIZE_QVGA) \<and>
   documented_size FRAMESIZE_QQVGA \<noteq> Some (res_width FRAMESIZE_QQVGA, res_height FRAMESIZE_QQVGA) \<and>
   (res_width FRAMESIZE_QQVGA, res_height FRAMESIZE_QQVGA) = (128, 128)"
  using resolution_table_mismatch [of FRAMESIZE_QVGA] resolution_table_mismatch [of FRAMESIZE_QQVGA]
  by (simp add: res_width_def res_height_def resolution_def)

end
