(* ===== verification/CamTypes.thy ===== *)
theory CamTypes
  imports Sensor
begin

text \<open>
  The data of the camera driver: the configuration and the frame buffer descriptor of
  \<open>esp_camera.h\<close>, the driver object of \<open>ll_cam.h\<close>, the sensor object of \<open>sensor.h\<close>.

  Addresses are integers with 0 for \<open>NULL\<close>.  The bytes a frame buffer address points to are part of
  the frame (\<open>fb_bytes\<close>), with the length of the allocation.  A pointer to a frame buffer descriptor
  is its index in \<open>frames\<close>; every such pointer in the driver is \<open>&frames[i].fb\<close>.  Sizes that the C code
  keeps in \<open>uint32_t\<close> or \<open>size_t\<close> are natural numbers: \<open>CamHal\<close> shows that for every entry of the
  resolution table they stay below \<open>2 ^ 31\<close>, so that no operation of the source wraps.
\<close>

section \<open>\<open>esp_camera.h\<close>\<close>

datatype camera_grab_mode_t = CAMERA_GRAB_WHEN_EMPTY | CAMERA_GRAB_LATEST
datatype camera_fb_location_t = CAMERA_FB_IN_PSRAM | CAMERA_FB_IN_DRAM

record camera_config_t =
  pin_pwdn :: int
  pin_reset :: int
  pin_xclk :: int
  pin_sccb_sda :: int
  pin_sccb_scl :: int
  pin_d7 :: int
  pin_d6 :: int
  pin_d5 :: int
  pin_d4 :: int
  pin_d3 :: int
  pin_d2 :: int
  pin_d1 :: int
  pin_d0 :: int
  pin_vsync :: int
  pin_href :: int
  pin_pclk :: int
  xclk_freq_hz :: int
  cfg_ledc_timer :: nat
  cfg_ledc_channel :: nat
  pixel_format :: pixformat_t
  frame_size :: framesize_t
  jpeg_quality :: int
  fb_count :: nat
  fb_location :: camera_fb_location_t
  grab_mode :: camera_grab_mode_t
  cfg_sccb_i2c_port :: int

record camera_fb_t =
  fb_buf :: int
  fb_bytes :: "byte list"
  fb_len :: nat
  fb_width :: nat
  fb_height :: nat
  fb_format :: pixformat_t
  fb_tv_sec :: int
  fb_tv_usec :: int

section \<open>\<open>ll_cam.h\<close>\<close>

datatype cam_state_t = CAM_STATE_IDLE | CAM_STATE_READ_BUF

text \<open>A DMA descriptor: the fields \<open>allocate_dma_descriptors\<close> sets, with \<open>empty\<close> as the index of the
  next descriptor of the ring.\<close>

record lldesc_t =
  lld_size :: nat
  lld_length :: nat
  lld_sosf :: nat
  lld_eof :: nat
  lld_owner :: nat
  lld_buf :: int
  lld_next :: nat

record cam_frame_t =
  fr_fb :: camera_fb_t
  fr_en :: bool
  fr_dma :: int
  fr_descs :: "lldesc_t list"
  fb_offset :: nat

text \<open>\<open>cam_addr\<close> is the address of the object itself, \<open>frames_ptr\<close> the address of the array \<open>frames\<close>,
  \<open>dma_descs\<close> the descriptors \<open>dma\<close> points to.\<close>

record cam_obj_t =
  cam_addr :: int
  dma_bytes_per_item :: nat
  dma_buffer_size :: nat
  dma_half_buffer_size :: nat
  dma_half_buffer_cnt :: nat
  dma_node_buffer_size :: nat
  dma_node_cnt :: nat
  frame_copy_cnt :: nat
  dma :: int
  dma_descs :: "lldesc_t list"
  dma_buffer :: int
  frames_ptr :: int
  frames :: "cam_frame_t list"
  event_queue :: int
  frame_buffer_queue :: int
  task_handle :: int
  cam_intr_handle :: int
  dma_num :: nat
  dma_intr_handle :: int
  dma_channel_handle :: int
  jpeg_mode :: bool
  vsync_pin :: int
  vsync_invert :: bool
  frame_cnt :: nat
  recv_size :: nat
  swap_data :: bool
  psram_mode :: bool
  width :: nat
  height :: nat
  in_bytes_per_pixel :: nat
  fb_bytes_per_pixel :: nat
  fb_size :: nat
  cam_state :: cam_state_t

definition zero_fb :: camera_fb_t where
  "zero_fb = \<lparr>fb_buf = 0, fb_bytes = [], fb_len = 0, fb_width = 0, fb_height = 0,
     fb_format = PIXFORMAT_RGB565, fb_tv_sec = 0, fb_tv_usec = 0\<rparr>"

definition zero_frame :: cam_frame_t where
  "zero_frame = \<lparr>fr_fb = zero_fb, fr_en = False, fr_dma = 0, fr_descs = [], fb_offset = 0\<rparr>"

text \<open>The object \<open>heap_caps_calloc\<close> returns.\<close>

definition zero_cam :: cam_obj_t where
  "zero_cam = \<lparr>cam_addr = 0, dma_bytes_per_item = 0, dma_buffer_size = 0, dma_half_buffer_size = 0,
     dma_half_buffer_cnt = 0, dma_node_buffer_size = 0, dma_node_cnt = 0, frame_copy_cnt = 0,
     dma = 0, dma_descs = [], dma_buffer = 0, frames_ptr = 0, frames = [], event_queue = 0,
     frame_buffer_queue = 0, task_handle = 0, cam_intr_handle = 0, dma_num = 0,
     dma_intr_handle = 0, dma_channel_handle = 0, jpeg_mode = False, vsync_pin = 0,
     vsync_invert = False, frame_cnt = 0, recv_size = 0, swap_data = False, psram_mode = False,
     width = 0, height = 0, in_bytes_per_pixel = 0, fb_bytes_per_pixel = 0, fb_size = 0,
     cam_state = CAM_STATE_IDLE\<rparr>"

section \<open>\<open>sensor.h\<close>: the sensor object\<close>

record camera_status_t =
  st_framesize :: framesize_t
  st_scale :: bool
  st_binning :: bool
  st_quality :: byte
  st_brightness :: byte
  st_contrast :: byte
  st_saturation :: byte
  st_sharpness :: byte
  st_denoise :: byte
  st_special_effect :: byte
  st_wb_mode :: byte
  st_awb :: byte
  st_awb_gain :: byte
  st_aec :: byte
  st_aec2 :: byte
  st_ae_level :: byte
  st_aec_value :: u16
  st_agc :: byte
  st_agc_gain :: byte
  st_gainceiling :: byte
  st_bpc :: byte
  st_wpc :: byte
  st_raw_gma :: byte
  st_lenc :: byte
  st_hmirror :: byte
  st_vflip :: byte
  st_dcw :: byte
  st_colorbar :: byte

text \<open>The function pointers of \<open>sensor_t\<close> are assigned together by the \<open>init\<close> function of one sensor
  driver; \<open>drv\<close> names that driver (\<open>None\<close>: the pointers are still \<open>NULL\<close>).\<close>

record sensor_t =
  sid :: sensor_id_t
  slv_addr :: byte
  pixformat :: pixformat_t
  status :: camera_status_t
  sensor_xclk_freq_hz :: int
  drv :: "camera_model_t option"

definition zero_status :: camera_status_t where
  "zero_status = \<lparr>st_framesize = FRAMESIZE_96X96, st_scale = False, st_binning = False,
     st_quality = 0, st_brightness = 0, st_contrast = 0, st_saturation = 0, st_sharpness = 0,
     st_denoise = 0, st_special_effect = 0, st_wb_mode = 0, st_awb = 0, st_awb_gain = 0,
     st_aec = 0, st_aec2 = 0, st_ae_level = 0, st_aec_value = 0, st_agc = 0, st_agc_gain = 0,
     st_gainceiling = 0, st_bpc = 0, st_wpc = 0, st_raw_gma = 0, st_lenc = 0, st_hmirror = 0,
     st_vflip = 0, st_dcw = 0, st_colorbar = 0\<rparr>"

definition zero_sensor :: sensor_t where
  "zero_sensor = \<lparr>sid = \<lparr>MIDH = 0, MIDL = 0, PID = 0, VER = 0\<rparr>, slv_addr = 0,
     pixformat = PIXFORMAT_RGB565, status = zero_status, sensor_xclk_freq_hz = 0, drv = None\<rparr>"

end
