(* ===== verification/Globals.thy ===== *)
theory Globals
  imports CamTypes
begin

text \<open>
  The static variables of the firmware's translation units, as one extensible record per file on top
  of the trace of external calls: the camera driver (\<open>cam_hal.c\<close>, \<open>esp_camera.c\<close>, \<open>sccb.c\<close>,
  \<open>ov2640.c\<close>, \<open>ov7670.c\<close>), then \<open>softAP.c\<close>, then \<open>wakenet.c\<close>, then \<open>audio_manager.c\<close>.  A function of
  one file works on the record of that file whatever is stacked above it, so it runs unchanged on
  the state of the whole firmware, \<open>fw\<close>.  Handles are integers with 0 for \<open>NULL\<close>.
\<close>

text \<open>The camera driver: the object of \<open>cam_hal.c\<close> (\<open>None\<close> for the null pointer) with the local
  variables of its task, the state of \<open>esp_camera.c\<close>, the I2C port of \<open>sccb.c\<close>, the register bank
  \<open>ov2640.c\<close> believes selected, and the clock setting \<open>ov7670.c\<close> keeps (an \<open>int\<close> that only ever holds a byte).\<close>

record cam_vars = "fw_call plat" +
  cam_obj :: "cam_obj_t option"
  ct_cnt :: int
  ct_frame_pos :: nat
  s_state :: "sensor_t option"
  s_state_ptr :: int
  sccb_i2c_port :: int
  sccb_owns_i2c_port :: bool
  reg_bank :: byte
  ov7670_clkrc :: byte

text \<open>\<open>softAP.c\<close>: the task handles and the one-time flag of the PWM set-up.\<close>

record softap_vars = cam_vars +
  s_video_task :: int
  s_mp3_task :: int
  s_vibration_task :: int
  s_key_task :: int
  s_haptic_pwm_inited :: bool

text \<open>\<open>wakenet.c\<close>: the capture pipeline, the recorder, and the recording buffer with its state.
  \<open>s_record_data\<close> is the content of the buffer \<open>s_record_buf\<close> points to.\<close>

record wakenet_vars = softap_vars +
  s_start_time_ms :: int
  s_pipeline :: int
  s_i2s_reader :: int
  s_raw :: int
  s_recorder :: int
  s_record_buf :: int
  s_record_data :: "byte list"
  s_record_len :: nat
  s_is_recording :: bool

text \<open>\<open>audio_play.h\<close>: \<open>audio_player_t\<close>.\<close>

record audio_player_t =
  ap_pipeline :: int
  ap_mp3_decoder :: int
  ap_i2s_writer :: int
  ap_evt :: int
  ap_board :: int

definition zero_player :: audio_player_t where
  "zero_player = \<lparr>ap_pipeline = 0, ap_mp3_decoder = 0, ap_i2s_writer = 0, ap_evt = 0, ap_board = 0\<rparr>"

text \<open>\<open>audio_manager.c\<close>.  The board handle comes with the codec handle it points to.\<close>

record audio_vars = wakenet_vars +
  s_audio_mutex :: int
  s_board :: int
  s_board_hal :: int
  s_wakenet_running :: bool
  s_playback_running :: bool
  s_player :: audio_player_t
  s_player_inited :: bool
  s_current_volume :: int

type_synonym fw = audio_vars

text \<open>The values at boot: zero-initialised statics and the explicit initialisers of the sources.\<close>

definition boot :: fw where
  "boot = \<lparr>trace = [],
     cam_obj = None, ct_cnt = 0, ct_frame_pos = 0, s_state = None, s_state_ptr = 0,
     sccb_i2c_port = 0, sccb_owns_i2c_port = False, reg_bank = 2, ov7670_clkrc = 1,
     s_video_task = 0, s_mp3_task = 0, s_vibration_task = 0, s_key_task = 0,
     s_haptic_pwm_inited = False,
     s_start_time_ms = 0, s_pipeline = 0, s_i2s_reader = 0, s_raw = 0, s_recorder = 0,
     s_record_buf = 0, s_record_data = [], s_record_len = 0, s_is_recording = False,
     s_audio_mutex = 0, s_board = 0, s_board_hal = 0, s_wakenet_running = False,
     s_playback_running = False, s_player = zero_player,
     s_player_inited = False, s_current_volume = 100\<rparr>"

end
