(* ===== verification/Preserve.thy ===== *)
theory Preserve
  imports Globals
begin

text \<open>
  Code that leaves a part of the state alone.  \<open>preserves f m\<close>: running \<open>m\<close> does not change what \<open>f\<close> observes of
  the state, whatever the environment answers.  The collection \<open>preserves_intros\<close> has one rule per
  construct of the monad, so that the frame condition of a function follows from those of its parts.
\<close>

definition preserves :: "('s \<Rightarrow> 'b) \<Rightarrow> ('s, 'a) state \<Rightarrow> bool" where
  "preserves f m \<longleftrightarrow> (\<forall>s. f (snd (run_state m s)) = f s)"

named_theorems preserves_intros "code that leaves an observation of the state unchanged"

lemma preservesD: "preserves f m \<Longrightarrow> run_state m s = (x, s') \<Longrightarrow> f s' = f s"
  unfolding preserves_def by (metis snd_conv)

lemma preservesI: "(\<And>s x s'. run_state m s = (x, s') \<Longrightarrow> f s' = f s) \<Longrightarrow> preserves f m"
  unfolding preserves_def by (metis prod.collapse)

lemma preserves_return [preserves_intros]: "preserves f (return x)"
  by (simp add: preserves_def run_simps)

lemma preserves_gets [preserves_intros]: "preserves f (gets g)"
  by (simp add: preserves_def)

lemma preserves_get [preserves_intros]: "preserves f get_state"
  by (simp add: preserves_def run_simps)

lemma preserves_bind [preserves_intros]:
  "preserves f m \<Longrightarrow> (\<And>x. preserves f (g x)) \<Longrightarrow> preserves f (State_Monad.bind m g)"
  by (rule preservesI, erule run_bindE) (metis preservesD)

lemma preserves_if [preserves_intros]: "(b \<Longrightarrow> preserves f m) \<Longrightarrow> (\<not> b \<Longrightarrow> preserves f n) \<Longrightarrow> preserves f (if b then m else n)"
  by simp

lemma preserves_do_when [preserves_intros]: "preserves f m \<Longrightarrow> preserves f (do_when b m)"
  by (simp add: do_when_def preserves_return)

lemma preserves_option [preserves_intros]:
  "preserves f m \<Longrightarrow> (\<And>x. preserves f (g x)) \<Longrightarrow> preserves f (case y of None \<Rightarrow> m | Some x \<Rightarrow> g x)"
  by (cases y) auto

lemma preserves_prod [preserves_intros]: "(\<And>a b. preserves f (g a b)) \<Longrightarrow> preserves f (case y of (a, b) \<Rightarrow> g a b)"
  by (cases y) auto

lemma preserves_Let [preserves_intros]: "(\<And>x. preserves f (g x)) \<Longrightarrow> preserves f (Let y g)"
  by simp

lemma preserves_modify [preserves_intros]: "(\<And>s. f (g s) = f s) \<Longrightarrow> preserves f (modify g)"
  by (simp add: preserves_def)

text \<open>External calls change the trace only.\<close>

definition beyond_trace :: "(('c, 'z) plat_scheme \<Rightarrow> 'b) \<Rightarrow> bool" where
  "beyond_trace f \<longleftrightarrow> (\<forall>s tr. f (s\<lparr>trace := tr\<rparr>) = f s)"

lemma preserves_call [preserves_intros]: "beyond_trace f \<Longrightarrow> preserves f (call env c)"
  by (simp add: preserves_def run_call beyond_trace_def)

lemma preserves_perform [preserves_intros]: "beyond_trace f \<Longrightarrow> preserves f (perform env c)"
  by (simp add: preserves_def run_perform beyond_trace_def)

lemma preserves_perform_all [preserves_intros]: "beyond_trace f \<Longrightarrow> preserves f (perform_all env cs)"
  by (induction cs) (auto intro!: preserves_intros)

lemma beyond_trace_more [preserves_intros]: "beyond_trace (\<lambda>s. f (plat.more s))"
  by (simp add: beyond_trace_def)

lemma beyond_trace_cam [preserves_intros]:
  "beyond_trace (cam_obj :: 'z cam_vars_scheme \<Rightarrow> _)" "beyond_trace (s_state :: 'z cam_vars_scheme \<Rightarrow> _)"
  "beyond_trace (reg_bank :: 'z cam_vars_scheme \<Rightarrow> _)" "beyond_trace (sccb_i2c_port :: 'z cam_vars_scheme \<Rightarrow> _)"
  "beyond_trace (cam_vars.more :: 'z cam_vars_scheme \<Rightarrow> _)"
  "beyond_trace (\<lambda>s :: 'z cam_vars_scheme. cam_obj s = None)"
  "beyond_trace (\<lambda>s :: 'z cam_vars_scheme. s_state s = None)"
  by (simp_all add: beyond_trace_def)

section \<open>The calls a function can make\<close>

text \<open>\<open>only P m\<close>: every external call of \<open>m\<close> satisfies \<open>P\<close>.\<close>

definition only :: "('c \<Rightarrow> bool) \<Rightarrow> (('c, 'z) plat_scheme, 'a) state \<Rightarrow> bool" where
  "only P m \<longleftrightarrow> (\<forall>s. \<exists>tr. trace (snd (run_state m s)) = trace s @ tr \<and> list_all (\<lambda>e. P (fst e)) tr)"

named_theorems only_intros "the external calls of a function"

lemma onlyD:
  assumes "only P m" "run_state m s = (x, s')"
  obtains tr where "trace s' = trace s @ tr" "list_all (\<lambda>e. P (fst e)) tr"
  using assms unfolding only_def by (metis snd_conv)

lemma only_pure: "(\<And>s. trace (snd (run_state m s)) = trace s) \<Longrightarrow> only P m"
  by (simp add: only_def)

lemma only_basic [only_intros]: "only P (return x)" "only P (gets f)" "only P get_state"
  by (simp_all add: only_pure run_simps)

lemma only_modify [only_intros]: "(\<And>s. trace (f s) = trace s) \<Longrightarrow> only P (modify f)"
  by (simp add: only_pure)

lemma only_bind [only_intros]:
  assumes "only P m" "\<And>x. only P (f x)" shows "only P (State_Monad.bind m f)"
  unfolding only_def
proof
  fix s
  obtain x t where t: "run_state m s = (x, t)" by (meson surj_pair)
  obtain tr where "trace t = trace s @ tr" "list_all (\<lambda>e. P (fst e)) tr"
    by (rule onlyD [OF assms(1) t])
  moreover obtain y u where u: "run_state (f x) t = (y, u)" by (meson surj_pair)
  moreover obtain tr' where "trace u = trace t @ tr'" "list_all (\<lambda>e. P (fst e)) tr'"
    by (rule onlyD [OF assms(2) u])
  ultimately show "\<exists>tr. trace (snd (run_state (State_Monad.bind m f) s)) = trace s @ tr \<and> list_all (\<lambda>e. P (fst e)) tr"
    using t u by (simp add: run_simps)
qed

lemma only_call [only_intros]: "P c \<Longrightarrow> only P (call env c)" "P c \<Longrightarrow> only P (perform env c)"
  by (simp_all add: only_def run_call run_perform)

lemma only_perform_all [only_intros]: "list_all P cs \<Longrightarrow> only P (perform_all env cs)"
  by (induction cs) (auto intro!: only_intros)

lemma only_if [only_intros]: "(b \<Longrightarrow> only P m) \<Longrightarrow> (\<not> b \<Longrightarrow> only P n) \<Longrightarrow> only P (if b then m else n)"
  by simp

lemma only_do_when [only_intros]: "only P m \<Longrightarrow> only P (do_when b m)"
  by (simp add: do_when_def only_basic)

lemma only_option [only_intros]:
  "only P m \<Longrightarrow> (\<And>x. only P (f x)) \<Longrightarrow> only P (case y of None \<Rightarrow> m | Some x \<Rightarrow> f x)"
  by (cases y) auto

lemma only_prod [only_intros]: "(\<And>a b. only P (f a b)) \<Longrightarrow> only P (case y of (a, b) \<Rightarrow> f a b)"
  by (cases y) auto

lemma only_Let [only_intros]: "(\<And>x. only P (f x)) \<Longrightarrow> only P (Let y f)"
  by simp

lemma only_weaken: "only P m \<Longrightarrow> (\<And>c. P c \<Longrightarrow> Q c) \<Longrightarrow> only Q m"
  unfolding only_def by (metis (mono_tags, lifting) list.pred_mono_strong)

end
