(* ===== verification/AudioPlay.thy ===== *)
theory AudioPlay
  imports Globals Preserve
begin

text \<open>
  Playback of an MP3 file from memory (\<open>audio_play.c\<close>): the read callback of the decoder, the player
  object, and the function that runs the pipeline until the file has been played.

  The audio framework (ESP-ADF) is outside the sources.  An event message is the answer of
  \<open>Event_iface_listen\<close>: \<open>rval\<close> is its source, \<open>rdata\<close> its source type and command (1 and 1: an audio
  element reporting music information).  The element state is its number in \<open>audio_element_state_t\<close>.
\<close>

section \<open>The decoder's source\<close>

text \<open>\<open>flash_src_t\<close>: \<open>src_bytes\<close> are the bytes from \<open>start\<close> to \<open>end\<close>.\<close>

record flash_src_t =
  src_bytes :: "byte list"
  src_pos :: nat

datatype read_result = AEL_IO_DONE | Read "byte list"

definition flash_read_cb :: "nat \<Rightarrow> flash_src_t \<Rightarrow> read_result \<times> flash_src_t" where
  "flash_read_cb len src =
     (let remain = int (length (src_bytes src)) - int (src_pos src)
      in if remain \<le> 0 then (AEL_IO_DONE, src)
         else let n = (if int len < remain then len else nat remain)
              in (Read (slice (src_pos src) n (src_bytes src)), src\<lparr>src_pos := src_pos src + n\<rparr>))"

section \<open>The player\<close>

definition ael_state_of :: "int \<Rightarrow> ael_state" where
  "ael_state_of n =
     (if n = 0 then AEL_STATE_NONE else if n = 1 then AEL_STATE_INIT
      else if n = 2 then AEL_STATE_INITIALIZING else if n = 3 then AEL_STATE_RUNNING
      else if n = 4 then AEL_STATE_PAUSED else if n = 5 then AEL_STATE_STOPPED
      else if n = 6 then AEL_STATE_FINISHED else AEL_STATE_ERROR)"

definition adf :: "fw_env \<Rightarrow> adf_call \<Rightarrow> ((fw_call, 'z) plat_scheme, ret) state" where
  "adf env c = call env (Adf c)"

definition adf_do :: "fw_env \<Rightarrow> adf_call \<Rightarrow> ((fw_call, 'z) plat_scheme, unit) state" where
  "adf_do env c = perform env (Adf c)"

definition i2s_writer_cfg :: i2s_stream_cfg_t where
  "i2s_writer_cfg = \<lparr>i2s_port = 0, i2s_rate = 44100, i2s_bits = 16, i2s_type = AUDIO_STREAM_WRITER,
     i2s_channel_type = I2S_CHANNEL_TYPE_DEFAULT, i2s_out_rb_size = None\<rparr>"

definition audio_player_init :: "fw_env \<Rightarrow> ((fw_call, 'z) plat_scheme, halt + audio_player_t) state" where
  "audio_player_init env = do {
     pl \<leftarrow> adf env Pipeline_init;
     if rval pl = 0 then return (Inl Assert_failed)
     else do {
       d \<leftarrow> adf env Mp3_decoder_init;
       adf_do env (Pipeline_register (rval pl) (rval d) ''mp3'');
       w \<leftarrow> adf env (I2s_stream_init i2s_writer_cfg);
       adf_do env (Pipeline_register (rval pl) (rval w) ''i2s'');
       adf_do env (Pipeline_link (rval pl) [''mp3'', ''i2s'']);
       e \<leftarrow> adf env Event_iface_init;
       adf_do env (Pipeline_set_listener (rval pl) (rval e));
       return (Inr (zero_player\<lparr>ap_pipeline := rval pl, ap_mp3_decoder := rval d,
                      ap_i2s_writer := rval w, ap_evt := rval e\<rparr>))
     }
   }"

text \<open>The loop over pending messages ends when \<open>listen\<close> with timeout 0 reports none; \<open>None\<close> is running
  out of fuel.\<close>

definition is_music_info :: "audio_player_t \<Rightarrow> ret \<Rightarrow> bool" where
  "is_music_info p r \<longleftrightarrow> rval r = ap_mp3_decoder p \<and> rdata r = [1, 1]"

fun pump_music_info_and_update_clk ::
  "fw_env \<Rightarrow> nat \<Rightarrow> audio_player_t \<Rightarrow> ((fw_call, 'z) plat_scheme, unit option) state" where
  "pump_music_info_and_update_clk env 0 p = return None"
| "pump_music_info_and_update_clk env (Suc k) p = do {
     r \<leftarrow> adf env (Event_iface_listen (ap_evt p));
     if rerr r \<noteq> ESP_OK then return (Some ())
     else do {
       do_when (is_music_info p r) (do {
         adf_do env (Element_getinfo (ap_mp3_decoder p));
         adf_do env (I2s_stream_set_clk (ap_i2s_writer p) 16000 16 1)
       });
       pump_music_info_and_update_clk env k p
     }
   }"

fun pump_turns :: "fw_env \<Rightarrow> nat \<Rightarrow> nat \<Rightarrow> audio_player_t \<Rightarrow> ((fw_call, 'z) plat_scheme, unit option) state" where
  "pump_turns env k 0 p = return (Some ())"
| "pump_turns env k (Suc i) p = do {
     r \<leftarrow> pump_music_info_and_update_clk env k p;
     case r of None \<Rightarrow> return None
     | Some u \<Rightarrow> do {
         perform env (Os (Task_delay 5));
         pump_turns env k i p
       }
   }"

fun wait_playback :: "fw_env \<Rightarrow> nat \<Rightarrow> audio_player_t \<Rightarrow> ((fw_call, 'z) plat_scheme, unit option) state" where
  "wait_playback env 0 p = return None"
| "wait_playback env (Suc k) p = do {
     r \<leftarrow> adf env (Element_get_state (ap_i2s_writer p));
     let st = ael_state_of (rval r);
     if st = AEL_STATE_FINISHED \<or> st = AEL_STATE_STOPPED \<or> st = AEL_STATE_ERROR then return (Some ())
     else do {
       perform env (Os (Task_delay 20));
       wait_playback env k p
     }
   }"

definition stop_player :: "fw_env \<Rightarrow> audio_player_t \<Rightarrow> ((fw_call, 'z) plat_scheme, unit) state" where
  "stop_player env p = perform_all env
     [Adf (Pipeline_stop (ap_pipeline p)), Adf (Pipeline_wait_for_stop (ap_pipeline p)),
      Adf (Pipeline_terminate (ap_pipeline p)), Adf (Pipeline_reset_ringbuffer (ap_pipeline p)),
      Adf (Pipeline_reset_elements (ap_pipeline p)),
      Adf (Pipeline_change_state (ap_pipeline p) AEL_STATE_INIT)]"

definition audio_player_play_from_flash ::
  "fw_env \<Rightarrow> nat \<Rightarrow> audio_player_t \<Rightarrow> ((fw_call, 'z) plat_scheme, int option) state" where
  "audio_player_play_from_flash env fuel p = do {
     adf_do env (Element_set_read_cb (ap_mp3_decoder p));
     adf_do env (Pipeline_run (ap_pipeline p));
     r \<leftarrow> pump_turns env fuel 40 p;
     case r of None \<Rightarrow> return None
     | Some u \<Rightarrow> do {
         adf_do env (Element_getinfo (ap_mp3_decoder p));
         w \<leftarrow> wait_playback env fuel p;
         case w of None \<Rightarrow> return None
         | Some u \<Rightarrow> do {
             stop_player env p;
             return (Some 0)
           }
       }
   }"

definition audio_player_deinit :: "fw_env \<Rightarrow> audio_player_t \<Rightarrow> ((fw_call, 'z) plat_scheme, audio_player_t) state" where
  "audio_player_deinit env p = do {
     do_when (ap_pipeline p \<noteq> 0) (do {
       do_when (ap_i2s_writer p \<noteq> 0) (adf_do env (Pipeline_unregister (ap_pipeline p) (ap_i2s_writer p)));
       do_when (ap_mp3_decoder p \<noteq> 0) (adf_do env (Pipeline_unregister (ap_pipeline p) (ap_mp3_decoder p)));
       adf_do env (Pipeline_remove_listener (ap_pipeline p));
       adf_do env (Pipeline_deinit (ap_pipeline p))
     });
     do_when (ap_evt p \<noteq> 0) (adf_do env (Event_iface_destroy (ap_evt p)));
     do_when (ap_i2s_writer p \<noteq> 0) (adf_do env (Element_deinit (ap_i2s_writer p)));
     do_when (ap_mp3_decoder p \<noteq> 0) (adf_do env (Element_deinit (ap_mp3_decoder p)));
     return zero_player
   }"

text \<open>\<open>wait_until_finished\<close>, which the source keeps beside the loop above, also accepts \<open>AEL_STATE_NONE\<close>.\<close>

fun wait_until_finished :: "fw_env \<Rightarrow> nat \<Rightarrow> int \<Rightarrow> ((fw_call, 'z) plat_scheme, unit option) state" where
  "wait_until_finished env 0 sink_el = return None"
| "wait_until_finished env (Suc k) sink_el = do {
     r \<leftarrow> adf env (Element_get_state sink_el);
     let st = ael_state_of (rval r);
     if st = AEL_STATE_FINISHED \<or> st = AEL_STATE_STOPPED \<or> st = AEL_STATE_ERROR \<or> st = AEL_STATE_NONE
     then return (Some ())
     else do {
       perform env (Os (Task_delay 5));
       wait_until_finished env k sink_el
     }
   }"

end
