(* ===== verification/Framing.thy ===== *)
theory Framing
  imports Platform
begin

text \<open>
  The wire format of the uplink services: a 4-byte big-endian length followed by that many bytes.
  \<open>softAP.c\<close> builds the header with shifts, \<open>wakenet.c\<close> with \<open>htonl\<close> and the memory image of the
  result; both are modelled and shown to be the same four bytes.  \<open>unframe\<close> is the receiver the
  README describes for the peer, and the locale \<open>stream_codec\<close> states what a message format
  promises to a peer that reads a stream of messages; the length-prefixed format is an instance.
\<close>

section \<open>The two header encoders\<close>

text \<open>\<open>softAP.c\<close>, \<open>stream_one_client\<close>: the bytes of \<open>header[4]\<close>.\<close>

definition video_header :: "u32 \<Rightarrow> byte list" where
  "video_header len =
     [ucast (drop_bit 24 len AND 0xFF),
      ucast (drop_bit 16 len AND 0xFF),
      ucast (drop_bit 8 len AND 0xFF),
      ucast (len AND 0xFF)]"

text \<open>\<open>wakenet.c\<close>, \<open>send_recording_over_tcp\<close>: \<open>htonl\<close> on a little-endian processor swaps the bytes,
  and \<open>send(sock, &nlen, sizeof(nlen), 0)\<close> transmits the memory image of the swapped value.\<close>

definition htonl :: "u32 \<Rightarrow> u32" where
  "htonl n = push_bit 24 (n AND 0xFF) OR push_bit 8 (n AND 0xFF00)
             OR drop_bit 8 (n AND 0xFF0000) OR drop_bit 24 n"

definition memory_image :: "u32 \<Rightarrow> byte list" where
  "memory_image n = [ucast n, ucast (drop_bit 8 n), ucast (drop_bit 16 n), ucast (drop_bit 24 n)]"

definition recording_header :: "u32 \<Rightarrow> byte list" where
  "recording_header len = memory_image (htonl len)"

section \<open>The receiver\<close>

fun be32_value :: "byte list \<Rightarrow> nat" where
  "be32_value [a, b, c, d] =
     unat a * 2 ^ 24 + unat b * 2 ^ 16 + unat c * 2 ^ 8 + unat d"
| "be32_value _ = 0"

definition unframe :: "byte list \<Rightarrow> (byte list \<times> byte list) option" where
  "unframe bs =
     (if length bs < 4 then None
      else let n = be32_value (take 4 bs); rest = drop 4 bs
           in if length rest < n then None else Some (take n rest, drop n rest))"

definition frame :: "byte list \<Rightarrow> byte list" where
  "frame payload = video_header (of_nat (length payload)) @ payload"

definition frameable :: "byte list \<Rightarrow> bool" where
  "frameable payload \<longleftrightarrow> length payload < 2 ^ 32"

text \<open>A peer that decodes messages as long as it can; the fuel bounds their number.\<close>

fun decode_stream ::
  "(byte list \<Rightarrow> ('a \<times> byte list) option) \<Rightarrow> nat \<Rightarrow> byte list \<Rightarrow> 'a list \<times> byte list" where
  "decode_stream dec 0 bs = ([], bs)"
| "decode_stream dec (Suc fuel) bs =
     (case dec bs of
        None \<Rightarrow> ([], bs)
      | Some (x, rest) \<Rightarrow> (let (xs, r) = decode_stream dec fuel rest in (x # xs, r)))"

definition received_frames :: "byte list \<Rightarrow> byte list list" where
  "received_frames bs = fst (decode_stream unframe (length bs) bs)"

section \<open>What a message format promises\<close>

locale stream_codec =
  fixes enc :: "'a \<Rightarrow> byte list"
    and dec :: "byte list \<Rightarrow> ('a \<times> byte list) option"
    and valid :: "'a \<Rightarrow> bool"
  assumes dec_enc: "valid x \<Longrightarrow> dec (enc x @ rest) = Some (x, rest)"
    and dec_partial: "valid x \<Longrightarrow> enc x = p @ q \<Longrightarrow> q \<noteq> [] \<Longrightarrow> dec p = None"
begin

lemma enc_nonempty:
  assumes "valid x" and "\<not> dec [] = Some (x, [])"
  shows "enc x \<noteq> []"
proof
  assume "enc x = []"
  with dec_enc [OF assms(1), of "[]"] assms(2) show False by simp
qed

text \<open>A stream of whole messages followed by the beginning of another one decodes to exactly
  the messages, and leaves the unfinished one.\<close>

lemma decode_messages:
  assumes "\<forall>x\<in>set xs. valid x" and "valid y" and "enc y = p @ q" and "q \<noteq> []"
    and "length xs < fuel"
  shows "decode_stream dec fuel (concat (map enc xs) @ p) = (xs, p)"
  using assms
proof (induction xs arbitrary: fuel)
  case Nil
  then show ?case using dec_partial by (cases fuel) auto
next
  case (Cons x xs)
  then obtain f where fuel: "fuel = Suc f" by (cases fuel) auto
  with Cons.prems have rec: "decode_stream dec f (concat (map enc xs) @ p) = (xs, p)"
    by (intro Cons.IH) auto
  show ?case using Cons.prems rec dec_enc [of x] by (simp add: fuel)
qed

lemma decode_exact:
  assumes "\<forall>x\<in>set xs. valid x" and "dec [] = None" and "length xs \<le> fuel"
  shows "decode_stream dec fuel (concat (map enc xs)) = (xs, [])"
  using assms
proof (induction xs arbitrary: fuel)
  case Nil
  then show ?case by (cases fuel) auto
next
  case (Cons x xs)
  then obtain f where fuel: "fuel = Suc f" by (cases fuel) auto
  with Cons show ?case using dec_enc [of x] by (simp add: fuel)
qed

end

section \<open>Both encoders write the value big-endian\<close>

lemma unat_byte_of: "unat (ucast (w :: u32) :: byte) = unat w mod 256"
  by (simp add: unsigned_ucast_eq unsigned_take_bit_eq take_bit_eq_mod)

lemma unat_masked_byte: "unat (ucast ((w :: u32) AND 0xFF) :: byte) = unat w mod 256"
proof -
  have "w AND 0xFF = w mod 256"
    using take_bit_eq_mask [of 8 w] by (simp add: take_bit_eq_mod mask_eq_exp_minus_1)
  then show ?thesis by (simp add: unat_byte_of unat_mod)
qed

lemma base_256_digits:
  "(n :: nat) div 2 ^ 24 * 2 ^ 24 + n div 2 ^ 16 mod 256 * 2 ^ 16 + n div 2 ^ 8 mod 256 * 2 ^ 8
     + n mod 256 = n"
proof -
  have "n div 2 ^ 24 * 2 ^ 24 + n mod 2 ^ 24 = n" by (rule div_mult_mod_eq)
  moreover have "n mod 2 ^ 24 = n div 2 ^ 16 mod 256 * 2 ^ 16 + n div 2 ^ 8 mod 256 * 2 ^ 8 + n mod 256"
    using mod_mult2_eq [of n "2 ^ 8" "2 ^ 16"] mod_mult2_eq [of "n div 2 ^ 8" "2 ^ 8" "2 ^ 8"]
    by (simp add: div_mult2_eq [symmetric])
  ultimately show ?thesis by (metis add.assoc)
qed

lemma be32_video_header [simp]: "be32_value (video_header n) = unat n"
  using base_256_digits [of "unat n"] unsigned_less [of n, where ?'a = nat]
  by (simp add: video_header_def unat_masked_byte drop_bit_eq_div unat_div)

lemma length_video_header [simp]: "length (video_header n) = 4"
  by (simp add: video_header_def)

lemma htonl_bytes:
  "ucast (htonl n) = (ucast (drop_bit 24 n AND 0xFF) :: byte)"
  "ucast (drop_bit 8 (htonl n)) = (ucast (drop_bit 16 n AND 0xFF) :: byte)"
  "ucast (drop_bit 16 (htonl n)) = (ucast (drop_bit 8 n AND 0xFF) :: byte)"
  "ucast (drop_bit 24 (htonl n)) = (ucast (n AND 0xFF) :: byte)"
  by (rule byte_eqI, drule less_8_cases, elim disjE; simp add: htonl_def bit_simps)+

lemma recording_header_eq: "recording_header n = video_header n"
  by (simp only: recording_header_def memory_image_def video_header_def htonl_bytes)

section \<open>The length-prefixed format is a stream codec\<close>

lemma length_frame: "length (frame p) = 4 + length p"
  by (simp add: frame_def)

lemma frameable_length: "frameable p \<Longrightarrow> unat (of_nat (length p) :: u32) = length p"
  by (simp add: frameable_def unat_of_nat take_bit_eq_mod)

lemma unframe_frame: "frameable p \<Longrightarrow> unframe (frame p @ rest) = Some (p, rest)"
  by (simp add: unframe_def frame_def frameable_length Let_def)

lemma unframe_partial:
  assumes "frameable x" and "frame x = p @ q" and "q \<noteq> []"
  shows "unframe p = None"
proof (cases "length p < 4")
  case True
  then show ?thesis by (simp add: unframe_def)
next
  case False
  have len: "length p + length q = 4 + length x"
    using arg_cong [OF assms(2), of length] by (simp add: length_frame)
  have "take 4 (frame x) = video_header (of_nat (length x))" by (simp add: frame_def)
  with False assms(2) have "take 4 p = video_header (of_nat (length x))" by simp
  then have "be32_value (take 4 p) = length x"
    using assms(1) by (simp add: frameable_length)
  moreover have "length (drop 4 p) < length x"
  proof -
    have "0 < length q" using assms(3) by (cases q) auto
    with len False show ?thesis by (simp del: length_greater_0_conv)
  qed
  ultimately show ?thesis by (simp add: unframe_def Let_def)
qed

interpretation length_prefix: stream_codec frame unframe frameable
  by unfold_locales (auto intro: unframe_frame unframe_partial)

lemma unframe_Nil: "unframe [] = None"
  by (simp add: unframe_def)

lemma length_frames_ge: "length xs \<le> length (concat (map frame xs))"
  by (induction xs) (simp_all add: length_frame)

lemma received_frames_exact:
  assumes "\<forall>x\<in>set xs. frameable x"
  shows "received_frames (concat (map frame xs)) = xs"
  unfolding received_frames_def
  by (simp add: length_prefix.decode_exact [OF assms unframe_Nil length_frames_ge])

lemma received_frames_partial:
  assumes "\<forall>x\<in>set xs. frameable x" and "frameable y" and "frame y = p @ q" and "q \<noteq> []"
  shows "received_frames (concat (map frame xs) @ p) = xs"
proof (cases "p = []")
  case True
  then show ?thesis using received_frames_exact [OF assms(1)] by simp
next
  case False
  then have "length xs < length (concat (map frame xs) @ p)"
    using length_frames_ge [of xs] by (cases p) auto
  then show ?thesis
    by (simp only: received_frames_def length_prefix.decode_messages [OF assms] fst_conv)
qed

end
