(* ===== verification/Tcp.thy ===== *)
theory Tcp
  imports Globals
begin

text \<open>
  The socket plumbing the TCP services share.  Three server tasks of \<open>softAP.c\<close> and the recording
  upload of \<open>wakenet.c\<close> open their listening socket with the same sequence of calls and the same
  error paths (\<open>open_listener\<close>); the three servers then accept clients in the same endless loop
  (\<open>accept_loop\<close>, whose first argument bounds how many \<open>accept\<close> calls are observed).

  The locale \<open>client_handler\<close> is the contract between the accept loop and the code that serves one
  client: whatever the handler does, it closes the connection it was given exactly once and never
  touches the listening socket.  It is interpreted for each of the services.
\<close>

section \<open>Opening a listening socket\<close>

definition open_listener :: "fw_env \<Rightarrow> nat \<Rightarrow> ((fw_call, 'z) plat_scheme, int option) state" where
  "open_listener env port = do {
     r \<leftarrow> call env (Net Socket);
     let listen_sock = rval r;
     if listen_sock < 0 then return None
     else do {
       perform env (Net (Setsockopt listen_sock SO_REUSEADDR));
       b \<leftarrow> call env (Net (Bind listen_sock port));
       if rval b < 0 then do { perform env (Net (Close listen_sock)); return None }
       else do {
         l \<leftarrow> call env (Net (Listen listen_sock 1));
         if rval l < 0 then do { perform env (Net (Close listen_sock)); return None }
         else return (Some listen_sock)
       }
     }
   }"

section \<open>The accept loop\<close>

text \<open>
  \<open>handler sock x\<close> serves one client and hands the variables that live across clients on; \<open>None\<close>
  means that it ran out of the fuel it was given.
\<close>

fun accept_loop ::
  "fw_env \<Rightarrow> nat \<Rightarrow> int \<Rightarrow> (int \<Rightarrow> 'x \<Rightarrow> ((fw_call, 'z) plat_scheme, 'x option) state) \<Rightarrow> 'x
   \<Rightarrow> ((fw_call, 'z) plat_scheme, 'x option) state" where
  "accept_loop env 0 listen_sock handler x = return (Some x)"
| "accept_loop env (Suc n) listen_sock handler x = do {
     r \<leftarrow> call env (Net (Accept listen_sock));
     if rval r < 0 then accept_loop env n listen_sock handler x
     else do {
       y \<leftarrow> handler (rval r) x;
       case y of None \<Rightarrow> return None
       | Some x' \<Rightarrow> accept_loop env n listen_sock handler x'
     }
   }"

section \<open>Received bytes\<close>

text \<open>The bytes read from a socket, in order.\<close>

fun received :: "int \<Rightarrow> (fw_call \<times> ret) list \<Rightarrow> byte list" where
  "received s [] = []"
| "received s ((Net (Recv t n), r) # tr) =
     (if t = s \<and> 0 < rval r then rdata r else []) @ received s tr"
| "received s (_ # tr) = received s tr"

lemma received_append [simp, wire_simps]:
  "received s (tr @ tr') = received s tr @ received s tr'"
  by (induction s tr rule: received.induct) auto

text \<open>An environment that delivers given byte strings to \<open>recv\<close>, indexed by the number of the call, and
  answers 0 to everything else; witnesses use it.\<close>

definition scripted_recv :: "byte list list \<Rightarrow> fw_env" where
  "scripted_recv cs k c =
     (case c of
        Net (Recv s n) \<Rightarrow>
          (let d = take n (if k < length cs then cs ! k else [])
           in \<lparr>rval = int (length d), rerr = ESP_OK, rdata = d\<rparr>)
      | _ \<Rightarrow> ret_int 0)"

lemma recv_sane_scripted: "recv_sane (scripted_recv cs)"
  by (simp add: recv_sane_def scripted_recv_def Let_def)

lemma scripted_recv_exhausted: "length cs \<le> k \<Longrightarrow> rval (scripted_recv cs k c) \<le> 0"
  by (auto simp: scripted_recv_def Let_def split: fw_call.splits net_call.splits)

section \<open>Descriptors\<close>

text \<open>How often a descriptor was handed out by \<open>socket\<close> or \<open>accept\<close>, and how often it was closed.\<close>

fun opened :: "int \<Rightarrow> (fw_call \<times> ret) list \<Rightarrow> nat" where
  "opened s [] = 0"
| "opened s ((Net Socket, r) # tr) = (if rval r = s then 1 else 0) + opened s tr"
| "opened s ((Net (Accept l), r) # tr) = (if rval r = s then 1 else 0) + opened s tr"
| "opened s (_ # tr) = opened s tr"

abbreviation closed :: "int \<Rightarrow> (fw_call \<times> ret) list \<Rightarrow> nat" where
  "closed s tr \<equiv> performed (Net (Close s)) tr"

lemma opened_append [simp, wire_simps]: "opened s (tr @ tr') = opened s tr + opened s tr'"
  by (induction s tr rule: opened.induct) auto

text \<open>A failed set-up leaves no descriptor behind; a successful one leaves exactly the listening
  socket open.\<close>

lemma open_listener_balance:
  assumes "run_state (open_listener env port) s = (res, s')" and "0 \<le> d"
  shows "opened d (trace s') + closed d (trace s)
         = opened d (trace s) + closed d (trace s') + (if res = Some d then 1 else 0)"
  using assms
  by (auto simp: open_listener_def run_simps Let_def split: if_splits)

lemma open_listener_nonneg:
  "run_state (open_listener env port) s = (Some l, s') \<Longrightarrow> 0 \<le> l"
  by (auto simp: open_listener_def run_simps Let_def split: if_splits)

lemma open_listener_frame:
  "run_state (open_listener env port) s = (res, s') \<Longrightarrow> \<exists>tr. s' = s\<lparr>trace := trace s @ tr\<rparr>"
  by (auto simp: open_listener_def run_simps Let_def split: if_splits)

section \<open>The contract of a client handler\<close>

locale client_handler =
  fixes handler :: "int \<Rightarrow> 'x \<Rightarrow> ((fw_call, 'z) plat_scheme, 'x option) state"
  assumes closes_once:
    "run_state (handler sock x) s = (Some x', s') \<Longrightarrow>
       closed d (trace s') = closed d (trace s) + (if d = sock then 1 else 0)"
    and opens_none:
    "run_state (handler sock x) s = (Some x', s') \<Longrightarrow> opened d (trace s') = opened d (trace s)"
begin

text \<open>However many clients come and go, the loop holds no more descriptors than it started with.\<close>

lemma accept_loop_balance:
  assumes "run_state (accept_loop env n l handler x) s = (Some y, s')" and "0 \<le> d"
  shows "opened d (trace s') + closed d (trace s) = opened d (trace s) + closed d (trace s')"
  using assms(1)
proof (induction n arbitrary: x s)
  case (Suc n)
  define r where "r = env (length (trace s)) (Net (Accept l))"
  define t where "t = s\<lparr>trace := trace s @ [(Net (Accept l), r)]\<rparr>"
  show ?case
  proof (cases "rval r < 0")
    case True
    with Suc.prems have "run_state (accept_loop env n l handler x) t = (Some y, s')"
      by (simp add: run_simps r_def t_def)
    from Suc.IH [OF this] True assms(2) show ?thesis by (simp add: t_def)
  next
    case False
    with Suc.prems obtain x' u where u: "run_state (handler (rval r) x) t = (Some x', u)"
      and rest: "run_state (accept_loop env n l handler x') u = (Some y, s')"
      by (auto simp: run_simps r_def t_def split: prod.splits option.splits)
    show ?thesis
      using Suc.IH [OF rest] closes_once [OF u, of d] opens_none [OF u, of d]
      by (auto simp: t_def split: if_splits)
  qed
qed simp

end

end
