(* ===== verification/LlCam.thy ===== *)
theory LlCam
  imports Globals
begin

text \<open>
  The low-level camera driver of the ESP32-S3 (\<open>target/esp32s3/ll_cam.c\<close>): start, stop and reset of
  the LCD\_CAM and GDMA hardware as sequences of register writes, pin routing, interrupt
  allocation, the sizing of the DMA buffers, and the copy from DMA memory into a frame buffer.

  The sizing code runs loops whose guards divide by the loop variable.  \<open>rgb_dma_layout\<close> shows
  for every image that fits that the loops end, that no divisor is zero on the way, and that the
  sizes found partition the image as the frame assembly of \<open>CamHal\<close> expects.
\<close>

section \<open>Access to the driver object\<close>

definition cam :: "'z cam_vars_scheme \<Rightarrow> cam_obj_t" where
  "cam s = the (cam_obj s)"

definition upd_cam :: "(cam_obj_t \<Rightarrow> cam_obj_t) \<Rightarrow> ('z cam_vars_scheme, unit) state" where
  "upd_cam f = modify (\<lambda>s. s\<lparr>cam_obj := map_option f (cam_obj s)\<rparr>)"

abbreviation ask :: "fw_env \<Rightarrow> cam_call \<Rightarrow> ((fw_call, 'z) plat_scheme, ret) state" where
  "ask env c \<equiv> call env (Cam c)"

abbreviation tell :: "fw_env \<Rightarrow> cam_call \<Rightarrow> ((fw_call, 'z) plat_scheme, unit) state" where
  "tell env c \<equiv> perform env (Cam c)"

definition lcd_cam :: "fw_env \<Rightarrow> lcd_field \<Rightarrow> int \<Rightarrow> ((fw_call, 'z) plat_scheme, unit) state" where
  "lcd_cam env f v = tell env (Reg_set (Lcd_cam f) v)"

definition gdma :: "fw_env \<Rightarrow> gdma_field \<Rightarrow> int \<Rightarrow> ('z cam_vars_scheme, unit) state" where
  "gdma env f v = do { s \<leftarrow> get_state; tell env (Reg_set (Gdma_in (dma_num (cam s)) f) v) }"

section \<open>Start, stop, reset\<close>

text \<open>The register writes of the straight-line functions, in source order.  \<open>& 0xfffff\<close> keeps the low 20
  bits of the descriptor's address.\<close>

definition gdma_reg :: "cam_obj_t \<Rightarrow> gdma_field \<Rightarrow> int \<Rightarrow> fw_call" where
  "gdma_reg c f v = Cam (Reg_set (Gdma_in (dma_num c) f) v)"

definition lcd_reg :: "lcd_field \<Rightarrow> int \<Rightarrow> fw_call" where
  "lcd_reg f v = Cam (Reg_set (Lcd_cam f) v)"

definition dma_reset_writes :: "cam_obj_t \<Rightarrow> fw_call list" where
  "dma_reset_writes c =
     [gdma_reg c INT_CLR (-1), gdma_reg c INT_ENA 0, gdma_reg c CONF0 0, gdma_reg c IN_RST 1,
      gdma_reg c IN_RST 0] @
     (if \<not> psram_mode c then [gdma_reg c INDSCR_BURST_EN 1, gdma_reg c IN_DATA_BURST_EN 1] else []) @
     [gdma_reg c IN_CHECK_OWNER 0, gdma_reg c PERI_SEL 5]"

definition stop_writes :: "cam_obj_t \<Rightarrow> fw_call list" where
  "stop_writes c =
     (if jpeg_mode c \<or> \<not> psram_mode c then [gdma_reg c INT_ENA_SUC_EOF 0, gdma_reg c INT_CLR_SUC_EOF 1]
      else []) @ [gdma_reg c LINK_STOP 1]"

definition start_writes :: "cam_obj_t \<Rightarrow> nat \<Rightarrow> fw_call list" where
  "start_writes c frame_pos =
     [lcd_reg CAM_START 0] @
     (if jpeg_mode c \<or> \<not> psram_mode c then [gdma_reg c INT_CLR_SUC_EOF 1, gdma_reg c INT_ENA_SUC_EOF 1]
      else []) @
     [lcd_reg CAM_RESET 1, lcd_reg CAM_RESET 0, lcd_reg CAM_AFIFO_RESET 1, lcd_reg CAM_AFIFO_RESET 0,
      gdma_reg c IN_RST 1, gdma_reg c IN_RST 0,
      lcd_reg CAM_REC_DATA_BYTELEN (int (dma_half_buffer_size c) - 1),
      gdma_reg c LINK_ADDR
        (if \<not> psram_mode c then dma c mod 0x100000 else fr_dma (frames c ! frame_pos) mod 0x100000),
      gdma_reg c LINK_START 1, lcd_reg CAM_UPDATE 1, lcd_reg CAM_START 1]"

definition ll_cam_dma_reset :: "fw_env \<Rightarrow> ('z cam_vars_scheme, unit) state" where
  "ll_cam_dma_reset env = do { c \<leftarrow> gets cam; perform_all env (dma_reset_writes c) }"

definition ll_cam_stop :: "fw_env \<Rightarrow> ('z cam_vars_scheme, bool) state" where
  "ll_cam_stop env = do { c \<leftarrow> gets cam; perform_all env (stop_writes c); return True }"

definition ll_cam_start :: "fw_env \<Rightarrow> nat \<Rightarrow> ('z cam_vars_scheme, bool) state" where
  "ll_cam_start env frame_pos = do {
     c \<leftarrow> gets cam;
     perform_all env (start_writes c frame_pos);
     return True
   }"

definition ll_cam_do_vsync :: "fw_env \<Rightarrow> ('z cam_vars_scheme, unit) state" where
  "ll_cam_do_vsync env = do {
     c \<leftarrow> gets cam;
     tell env (Gpio_matrix_in (vsync_pin c) CAM_V_SYNC_IDX (\<not> vsync_invert c));
     tell env (Delay_us 10);
     tell env (Gpio_matrix_in (vsync_pin c) CAM_V_SYNC_IDX (vsync_invert c))
   }"

definition ll_cam_vsync_intr_enable ::
  "fw_env \<Rightarrow> bool \<Rightarrow> ((fw_call, 'z) plat_scheme, unit) state" where
  "ll_cam_vsync_intr_enable env on = do {
     lcd_cam env CAM_VSYNC_INT_CLR 1;
     if on then lcd_cam env CAM_VSYNC_INT_ENA 1 else lcd_cam env CAM_VSYNC_INT_ENA 0
   }"

definition ll_cam_deinit :: "fw_env \<Rightarrow> ('z cam_vars_scheme, esp_err) state" where
  "ll_cam_deinit env = do {
     c \<leftarrow> gets cam;
     do_when (cam_intr_handle c \<noteq> 0) (do {
       tell env (Intr_free (cam_intr_handle c));
       upd_cam (\<lambda>c. c\<lparr>cam_intr_handle := 0\<rparr>)
     });
     do_when (dma_intr_handle c \<noteq> 0) (do {
       tell env (Intr_free (dma_intr_handle c));
       upd_cam (\<lambda>c. c\<lparr>dma_intr_handle := 0\<rparr>)
     });
     tell env (Gdma_disconnect (dma_channel_handle c));
     tell env (Gdma_del_channel (dma_channel_handle c));
     upd_cam (\<lambda>c. c\<lparr>dma_channel_handle := 0\<rparr>);
     lcd_cam env CAM_START 0;
     lcd_cam env CAM_RESET 1;
     lcd_cam env CAM_RESET 0;
     return ESP_OK
   }"

section \<open>Pins and interrupts\<close>

definition route_input :: "fw_env \<Rightarrow> int \<Rightarrow> cam_signal \<Rightarrow> bool \<Rightarrow> ((fw_call, 'z) plat_scheme, unit) state" where
  "route_input env pin sig invert = do {
     tell env (Pin_func_gpio pin);
     tell env (Gpio_set_direction pin GPIO_MODE_INPUT);
     tell env (Gpio_set_floating pin);
     tell env (Gpio_matrix_in pin sig invert)
   }"

fun route_data :: "fw_env \<Rightarrow> nat \<Rightarrow> int list \<Rightarrow> ((fw_call, 'z) plat_scheme, unit) state" where
  "route_data env i [] = return ()"
| "route_data env i (pin # pins) = do {
     route_input env pin (CAM_DATA_IN_IDX i) False;
     route_data env (i + 1) pins
   }"

definition ll_cam_set_pin :: "fw_env \<Rightarrow> camera_config_t \<Rightarrow> ('z cam_vars_scheme, esp_err) state" where
  "ll_cam_set_pin env config = do {
     route_input env (pin_pclk config) CAM_PCLK_IDX False;
     invert \<leftarrow> gets (\<lambda>s. vsync_invert (cam s));
     route_input env (pin_vsync config) CAM_V_SYNC_IDX invert;
     route_input env (pin_href config) CAM_H_ENABLE_IDX False;
     route_data env 0 [pin_d0 config, pin_d1 config, pin_d2 config, pin_d3 config, pin_d4 config,
       pin_d5 config, pin_d6 config, pin_d7 config];
     do_when (0 \<le> pin_xclk config) (do {
       tell env (Pin_func_gpio (pin_xclk config));
       tell env (Gpio_set_direction (pin_xclk config) GPIO_MODE_OUTPUT);
       tell env (Gpio_set_floating (pin_xclk config));
       tell env (Gpio_matrix_out (pin_xclk config) CAM_CLK_IDX)
     });
     return ESP_OK
   }"

definition ll_cam_init_isr :: "fw_env \<Rightarrow> ('z cam_vars_scheme, esp_err) state" where
  "ll_cam_init_isr env = do {
     c \<leftarrow> gets cam;
     r \<leftarrow> ask env (Intr_alloc (GDMA_IN_CH (dma_num c)));
     if rerr r \<noteq> ESP_OK then return (rerr r)
     else do {
       upd_cam (\<lambda>c. c\<lparr>dma_intr_handle := rval r\<rparr>);
       r \<leftarrow> ask env (Intr_alloc LCD_CAM_INTR);
       if rerr r \<noteq> ESP_OK then return (rerr r)
       else do {
         upd_cam (\<lambda>c. c\<lparr>cam_intr_handle := rval r\<rparr>);
         return ESP_OK
       }
     }
   }"

definition ll_cam_get_dma_align :: "fw_env \<Rightarrow> ('z cam_vars_scheme, nat) state" where
  "ll_cam_get_dma_align env = do {
     c \<leftarrow> gets cam;
     r \<leftarrow> ask env (Reg_get (Gdma_in (dma_num c) IN_EXT_MEM_BK_SIZE));
     return (16 * 2 ^ nat (rval r) mod 256)
   }"

definition xclk_timer_conf :: "fw_env \<Rightarrow> nat \<Rightarrow> int \<Rightarrow> ((fw_call, 'z) plat_scheme, esp_err) state" where
  "xclk_timer_conf env timer freq = do {
     lcd_cam env CAM_CLKM_DIV_B 0;
     lcd_cam env CAM_CLKM_DIV_A 0;
     lcd_cam env CAM_CLKM_DIV_NUM (160000000 div freq);
     lcd_cam env CAM_CLK_SEL 3;
     lcd_cam env CAM_UPDATE 1;
     return ESP_OK
   }"

section \<open>Pixel sizes\<close>

text \<open>Product identifiers of the sensors that send 8-bit luminance.\<close>

definition y8_pids :: "u16 list" where
  "y8_pids = [0x3660, 0x5640, 0x1410, 0x31, 0x20A6, 0x9B]"

definition ll_cam_set_sample_mode ::
  "cam_obj_t \<Rightarrow> pixformat_t \<Rightarrow> u16 \<Rightarrow> esp_err \<times> cam_obj_t" where
  "ll_cam_set_sample_mode c pix_format sensor_pid =
     (if pix_format = PIXFORMAT_GRAYSCALE then
        (ESP_OK, c\<lparr>in_bytes_per_pixel := (if sensor_pid \<in> set y8_pids then 1 else 2),
                   fb_bytes_per_pixel := 1\<rparr>)
      else if pix_format = PIXFORMAT_YUV422 \<or> pix_format = PIXFORMAT_RGB565 then
        (ESP_OK, c\<lparr>in_bytes_per_pixel := 2, fb_bytes_per_pixel := 2\<rparr>)
      else if pix_format = PIXFORMAT_JPEG then
        (ESP_OK, c\<lparr>in_bytes_per_pixel := 1, fb_bytes_per_pixel := 1\<rparr>)
      else (ESP_ERR_NOT_SUPPORTED, c))"

section \<open>DMA buffer sizes\<close>

definition LCD_CAM_DMA_NODE_BUFFER_MAX_SIZE :: nat where
  "LCD_CAM_DMA_NODE_BUFFER_MAX_SIZE = 4092"

definition CONFIG_CAMERA_DMA_BUFFER_SIZE_MAX :: nat where
  "CONFIG_CAMERA_DMA_BUFFER_SIZE_MAX = 32768"

text \<open>\<open>for (i = n; i > 0; i = i - 1) if (P(i)) { ...; break; }\<close>\<close>

fun find_down :: "(nat \<Rightarrow> bool) \<Rightarrow> nat \<Rightarrow> nat option" where
  "find_down P 0 = None"
| "find_down P (Suc i) = (if P (Suc i) then Some (Suc i) else find_down P i)"

text \<open>\<open>while ((height % lines) != 0) lines = lines - 1;\<close> The guard \<open>l = 0\<close> stands for a division by zero,
  which does not occur (\<open>fit_lines_divides\<close>).\<close>

fun fit_lines :: "nat \<Rightarrow> nat \<Rightarrow> nat" where
  "fit_lines h 0 = 0"
| "fit_lines h (Suc l) = (if h mod Suc l = 0 then Suc l else fit_lines h l)"

text \<open>\<open>while ((height % lines_per_half_buffer) != 0) { half -= min; lines = half / line_width; }\<close>.
  The first disjunct stands for a division by zero or an unsigned underflow, which does not occur
  (\<open>fit_half_layout\<close>).\<close>

function fit_half :: "nat \<Rightarrow> nat \<Rightarrow> nat \<Rightarrow> nat \<Rightarrow> nat" where
  "fit_half h line_width half_min half =
     (if half_min = 0 \<or> half = 0 then 0
      else if h mod (half div line_width) = 0 then half
      else fit_half h line_width half_min (half - half_min))"
  by pat_completeness auto
termination
  by (relation "measure (\<lambda>(h, lw, m, half). half)") auto

declare fit_half.simps [simp del]

text \<open>The first half of the function: \<open>node_size\<close> and \<open>nodes_per_line\<close>.\<close>

definition node_layout :: "nat \<Rightarrow> nat \<Rightarrow> nat \<Rightarrow> nat \<times> nat" where
  "node_layout node_max line_width h =
     (if node_max \<le> line_width then
        case find_down (\<lambda>i. line_width mod i = 0) node_max of
          Some i \<Rightarrow> (i, line_width div i)
        | None \<Rightarrow> (node_max, 1)
      else
        case find_down (\<lambda>i. i mod line_width = 0) node_max of
          Some i \<Rightarrow> (let lines = i div line_width; lines' = fit_lines h lines
                     in (if lines' = lines then i else lines' * line_width, 1))
        | None \<Rightarrow> (node_max, 1))"

definition ll_cam_calc_rgb_dma :: "cam_obj_t \<Rightarrow> bool \<times> cam_obj_t" where
  "ll_cam_calc_rgb_dma c =
     (let bpi = dma_bytes_per_item c;
          node_max = LCD_CAM_DMA_NODE_BUFFER_MAX_SIZE div bpi;
          line_width = width c * in_bytes_per_pixel c;
          (node_size, nodes_per_line) = node_layout node_max line_width (height c);
          c = c\<lparr>dma_node_buffer_size := node_size * bpi\<rparr>;
          half_max = CONFIG_CAMERA_DMA_BUFFER_SIZE_MAX div 2 div bpi
      in if line_width > half_max then (False, c)
         else
           let half_min = node_size * nodes_per_line;
               half = fit_half (height c) line_width half_min (half_max div half_min * half_min);
               buffer_max = (if psram_mode c then recv_size c div bpi else 2 * half_max);
               buffer = (if psram_mode c then buffer_max else buffer_max div half * half)
           in (True, c\<lparr>dma_buffer_size := buffer * bpi, dma_half_buffer_size := half * bpi,
                       dma_half_buffer_cnt := buffer * bpi div (half * bpi)\<rparr>))"

definition ll_cam_dma_sizes :: "cam_obj_t \<Rightarrow> bool \<times> cam_obj_t" where
  "ll_cam_dma_sizes c =
     (let c = c\<lparr>dma_bytes_per_item := 1\<rparr>
      in if jpeg_mode c then
           if psram_mode c then
             (True, c\<lparr>dma_buffer_size := recv_size c, dma_half_buffer_size := 1024,
                      dma_half_buffer_cnt := recv_size c div 1024, dma_node_buffer_size := 1024\<rparr>)
           else
             (True, c\<lparr>dma_half_buffer_cnt := 16, dma_buffer_size := 16 * 1024,
                      dma_half_buffer_size := 16 * 1024 div 16,
                      dma_node_buffer_size := 16 * 1024 div 16\<rparr>)
         else ll_cam_calc_rgb_dma c)"

section \<open>Copying into a frame buffer\<close>

definition write_at :: "nat \<Rightarrow> 'a list \<Rightarrow> 'a list \<Rightarrow> 'a list" where
  "write_at off bs buf = take off buf @ bs @ drop (off + length bs) buf"

text \<open>The bytes of the YUV to greyscale loop: for every complete group of eight, those at 0, 2, 4, 6.\<close>

definition luma :: "byte list \<Rightarrow> byte list" where
  "luma inp = concat (map (\<lambda>g. [g ! 0, g ! 2, g ! 4, g ! 6]) (chunks 8 inp))"

text \<open>\<open>ll_cam_memcpy(cam, out, in, len)\<close> with distinct buffers: the bytes stored at \<open>out\<close>, and the
  returned length.\<close>

definition ll_cam_memcpy :: "cam_obj_t \<Rightarrow> byte list \<Rightarrow> byte list \<times> nat" where
  "ll_cam_memcpy c inp =
     (if in_bytes_per_pixel c = 2 \<and> fb_bytes_per_pixel c = 1 then (luma inp, length inp div 2)
      else (inp, length inp))"

text \<open>The same loop run on one buffer, as \<open>cam_take\<close> calls it with \<open>out = in\<close>: iteration \<open>i\<close> of \<open>n\<close>.\<close>

fun luma_in_place :: "nat \<Rightarrow> nat \<Rightarrow> byte list \<Rightarrow> byte list" where
  "luma_in_place i 0 buf = buf"
| "luma_in_place i (Suc n) buf =
     (let b = buf[4 * i := buf ! (8 * i)];
          b = b[4 * i + 1 := b ! (8 * i + 2)];
          b = b[4 * i + 2 := b ! (8 * i + 4)];
          b = b[4 * i + 3 := b ! (8 * i + 6)]
      in luma_in_place (i + 1) n b)"

definition ll_cam_memcpy_in_place :: "cam_obj_t \<Rightarrow> byte list \<Rightarrow> nat \<Rightarrow> byte list \<times> nat" where
  "ll_cam_memcpy_in_place c buf len =
     (if in_bytes_per_pixel c = 2 \<and> fb_bytes_per_pixel c = 1
      then (luma_in_place 0 (len div 8) buf, len div 2)
      else (buf, len))"

section \<open>Basic facts\<close>

lemma run_upd_cam [run_simps]:
  "run_state (upd_cam f) s = ((), s\<lparr>cam_obj := map_option f (cam_obj s)\<rparr>)"
  by (simp add: upd_cam_def)

lemma cam_trace [simp]: "cam (s\<lparr>trace := tr\<rparr>) = cam s"
  by (simp add: cam_def)

lemma length_write_at: "off + length bs \<le> length buf \<Longrightarrow> length (write_at off bs buf) = length buf"
  by (simp add: write_at_def)

lemma take_write_at [simp]: "off \<le> length buf \<Longrightarrow> take off (write_at off bs buf) = take off buf"
  by (simp add: write_at_def)

lemma take_write_at_end:
  "off \<le> length buf \<Longrightarrow> take (off + length bs) (write_at off bs buf) = take off buf @ bs"
  by (simp add: write_at_def)

lemma drop_write_at:
  "off \<le> length buf \<Longrightarrow> off + length bs \<le> n \<Longrightarrow> drop n (write_at off bs buf) = drop n buf"
  by (simp add: write_at_def min_def)

lemma length_concat_const: "(\<And>c. c \<in> set cs \<Longrightarrow> length c = n) \<Longrightarrow> length (concat cs) = length cs * n"
  by (induction cs) auto

lemma length_luma: "length (luma inp) = 4 * (length inp div 8)"
proof -
  have "length (luma inp) = 4 * length (chunks 8 inp)"
    by (simp add: luma_def length_concat o_def sum_list_triv)
  moreover have "length (chunks 8 inp) * 8 + length (leftover 8 inp) = length inp"
  proof -
    have "length (concat (chunks 8 inp)) = length (chunks 8 inp) * 8"
      using length_in_chunks [of _ 8 inp] length_concat_const by blast
    then show ?thesis using chunks_leftover [of 8 inp] by (metis length_append zero_less_numeral)
  qed
  ultimately show ?thesis using length_leftover [of 8 inp] by simp
qed

section \<open>The search loops\<close>

lemma find_down_Some:
  "find_down P n = Some i \<Longrightarrow> 0 < i \<and> i \<le> n \<and> P i"
  by (induction n) (auto split: if_splits)

lemma find_down_finds: "0 < j \<Longrightarrow> j \<le> n \<Longrightarrow> P j \<Longrightarrow> find_down P n \<noteq> None"
  by (induction n) (auto simp: le_Suc_eq)

text \<open>The largest number of lines up to \<open>l\<close> that divides the height; at least one line.\<close>

lemma fit_lines_divides: "0 < l \<Longrightarrow> 0 < fit_lines h l \<and> fit_lines h l \<le> l \<and> fit_lines h l dvd h"
proof (induction h l rule: fit_lines.induct)
  case (2 h l)
  then show ?case by (cases l) (auto simp: dvd_eq_mod_eq_0)
qed simp

text \<open>\<open>g\<close> is the number of lines in the smallest half buffer.\<close>

lemma fit_half_layout:
  assumes "0 < lw" "0 < g" "g dvd h" "0 < k"
  shows "\<exists>j. 0 < j \<and> j \<le> k \<and> fit_half h lw (g * lw) (k * (g * lw)) = j * (g * lw) \<and> j * g dvd h"
  using assms(4)
proof (induction k)
  case (Suc k)
  have lines: "Suc k * (g * lw) div lw = Suc k * g"
    using assms(1) by (metis mult.assoc nonzero_mult_div_cancel_right less_not_refl)
  show ?case
  proof (cases "Suc k * g dvd h")
    case True
    then show ?thesis
      using assms(1,2) lines
      by (subst fit_half.simps) (auto simp: dvd_eq_mod_eq_0 intro!: exI [where x = "Suc k"])
  next
    case False
    have "0 < k"
      using False assms(3) by (cases k) auto
    from Suc.IH [OF this] obtain j where
      "0 < j" "j \<le> k" "fit_half h lw (g * lw) (k * (g * lw)) = j * (g * lw)" "j * g dvd h"
      by auto
    moreover have "fit_half h lw (g * lw) (Suc k * (g * lw)) = fit_half h lw (g * lw) (k * (g * lw))"
      using False assms(1,2) lines
      by (subst fit_half.simps) (simp add: dvd_eq_mod_eq_0)
    ultimately show ?thesis by (metis le_SucI)
  qed
qed simp

text \<open>A DMA node is a fraction of a line, or a number of lines that divides the height.\<close>

lemma node_layout_spec:
  assumes "0 < lw" "0 < h" "0 < node_max"
  shows "\<exists>g. 0 < g \<and> g dvd h \<and>
           fst (node_layout node_max lw h) * snd (node_layout node_max lw h) = g * lw \<and>
           0 < fst (node_layout node_max lw h) \<and> fst (node_layout node_max lw h) \<le> node_max \<and>
           (lw < node_max \<or> g = 1)"
proof (cases "node_max \<le> lw")
  case True
  obtain i where i: "find_down (\<lambda>i. lw mod i = 0) node_max = Some i"
    using find_down_finds [of 1 node_max "\<lambda>i. lw mod i = 0"] assms(3) by auto
  from find_down_Some [OF this] have "0 < i" "i \<le> node_max" "i dvd lw" by auto
  with True i assms show ?thesis
    by (intro exI [where x = 1]) (simp add: node_layout_def)
next
  case False
  then obtain i where i: "find_down (\<lambda>i. i mod lw = 0) node_max = Some i"
    using find_down_finds [of lw node_max "\<lambda>i. i mod lw = 0"] assms(1) by auto
  from find_down_Some [OF this] have ip: "0 < i" "i \<le> node_max" and "lw dvd i" by auto
  then obtain l where l: "i = lw * l" by (auto elim: dvdE)
  with ip have "0 < l" by auto
  note f = fit_lines_divides [OF this, of h]
  have le: "fit_lines h l * lw \<le> node_max"
    using f ip l by (metis mult.commute mult_le_mono1 order_trans)
  show ?thesis
  proof (intro exI conjI)
    show "0 < fit_lines h l" "fit_lines h l dvd h" using f by auto
    show "fst (node_layout node_max lw h) * snd (node_layout node_max lw h) = fit_lines h l * lw"
      using False i l assms(1) by (simp add: node_layout_def Let_def)
    show "0 < fst (node_layout node_max lw h)" "fst (node_layout node_max lw h) \<le> node_max"
      using False i l assms(1) f le ip by (auto simp: node_layout_def Let_def)
  qed (use False in simp)
qed

section \<open>Buffer layout\<close>

lemma rgb_dma_sizes:
  assumes "dma_bytes_per_item c = 1" "0 < height c" "0 < lw" "lw \<le> 16384"
    and lw_def: "lw = width c * in_bytes_per_pixel c"
  obtains ns half lines where
    "ll_cam_calc_rgb_dma c =
      (True, c\<lparr>dma_node_buffer_size := ns,
         dma_buffer_size := (if psram_mode c then recv_size c else 32768 div half * half),
         dma_half_buffer_size := half,
         dma_half_buffer_cnt := (if psram_mode c then recv_size c else 32768 div half * half) div half\<rparr>)"
    and "0 < ns" "ns \<le> 4092" "ns dvd half" "half = lines * lw" "0 < lines" "lines dvd height c"
    and "half \<le> 16384"
proof -
  define ns where "ns = fst (node_layout 4092 lw (height c))"
  define npl where "npl = snd (node_layout 4092 lw (height c))"
  obtain g where g: "0 < g" "g dvd height c" "ns * npl = g * lw" "0 < ns" "ns \<le> 4092" "lw < 4092 \<or> g = 1"
    using node_layout_spec [OF assms(3,2), of 4092] by (auto simp: ns_def npl_def)
  define k where "k = 16384 div (g * lw)"
  have "g * lw \<le> 16384"
  proof (cases "g = 1")
    case False
    then have "npl = 1" using g by (auto simp: npl_def node_layout_def Let_def split: option.splits)
    then show ?thesis using g by simp
  qed (use assms in simp)
  then have k: "0 < k" using g assms(3) by (simp add: k_def div_greater_zero_iff)
  obtain j where j: "0 < j" "j \<le> k" "j * g dvd height c"
    "fit_half (height c) lw (g * lw) (k * (g * lw)) = j * (g * lw)"
    using fit_half_layout [OF assms(3) g(1,2) k] by auto
  have "j * (g * lw) \<le> k * (g * lw)" using j by simp
  also have "\<dots> \<le> 16384" by (simp add: k_def)
  finally have "j * (g * lw) \<le> 16384" .
  moreover have "ns dvd j * (g * lw)" using g(3) by (metis dvd_triv_left dvd_mult)
  moreover have "ll_cam_calc_rgb_dma c =
      (True, c\<lparr>dma_node_buffer_size := ns,
         dma_buffer_size := (if psram_mode c then recv_size c else 32768 div (j * (g * lw)) * (j * (g * lw))),
         dma_half_buffer_size := j * (g * lw),
         dma_half_buffer_cnt := (if psram_mode c then recv_size c
            else 32768 div (j * (g * lw)) * (j * (g * lw))) div (j * (g * lw))\<rparr>)"
    using assms(1,4) g(3) j(4)
    by (simp add: ll_cam_calc_rgb_dma_def Let_def case_prod_unfold lw_def [symmetric] ns_def npl_def
        LCD_CAM_DMA_NODE_BUFFER_MAX_SIZE_def CONFIG_CAMERA_DMA_BUFFER_SIZE_MAX_def k_def)
  ultimately show thesis
    using g j by (intro that [where ns = ns and half = "j * (g * lw)" and lines = "j * g"])
      (simp_all only: mult.assoc mult_pos_pos)
qed

text \<open>C23 (bounds).  For every picture whose lines fit half of the DMA buffer, the size computation
  for the uncompressed formats succeeds; a DMA node fits the hardware limit of 4092 bytes; a half
  buffer is a positive number of whole lines that divides the height, and a whole number of nodes of
  the line layout; in the copying mode the buffer holds a whole number, at least two, of half buffers
  and stays within the configured 32768 bytes.\<close>

theorem rgb_dma_layout:
  assumes "dma_bytes_per_item c = 1" "0 < width c" "0 < in_bytes_per_pixel c" "0 < height c"
    and "width c * in_bytes_per_pixel c \<le> 16384"
  shows "\<exists>c' lines. ll_cam_calc_rgb_dma c = (True, c') \<and>
           0 < dma_node_buffer_size c' \<and> dma_node_buffer_size c' \<le> 4092 \<and>
           0 < lines \<and> lines dvd height c \<and>
           dma_half_buffer_size c' = lines * (width c * in_bytes_per_pixel c) \<and>
           dma_node_buffer_size c' dvd dma_half_buffer_size c' \<and>
           dma_half_buffer_size c' \<le> 16384 \<and>
           (\<not> psram_mode c \<longrightarrow>
              dma_buffer_size c' = dma_half_buffer_cnt c' * dma_half_buffer_size c' \<and>
              2 \<le> dma_half_buffer_cnt c' \<and> dma_buffer_size c' \<le> 32768)"
proof -
  define lw where "lw = width c * in_bytes_per_pixel c"
  have lw: "0 < lw" "lw \<le> 16384" using assms by (simp_all add: lw_def)
  from rgb_dma_sizes [OF assms(1,4) lw lw_def] obtain ns half lines where r:
    "ll_cam_calc_rgb_dma c =
      (True, c\<lparr>dma_node_buffer_size := ns,
         dma_buffer_size := (if psram_mode c then recv_size c else 32768 div half * half),
         dma_half_buffer_size := half,
         dma_half_buffer_cnt := (if psram_mode c then recv_size c else 32768 div half * half) div half\<rparr>)"
    "0 < ns" "ns \<le> 4092" "ns dvd half" "half = lines * lw" "0 < lines" "lines dvd height c"
    "half \<le> 16384" .
  then have "0 < half" using lw by simp
  then have "2 \<le> 32768 div half" using r by (simp add: less_eq_div_iff_mult_less_eq)
  with r \<open>0 < half\<close> show ?thesis
    by (intro exI [where x = lines] exI conjI) (auto simp: lw_def)
qed

theorem rgb_dma_layout_witness:
  "\<exists>c' lines. ll_cam_calc_rgb_dma (zero_cam\<lparr>dma_bytes_per_item := 1, width := 320, height := 240,
         in_bytes_per_pixel := 2\<rparr>) = (True, c') \<and> lines dvd 240 \<and>
       dma_half_buffer_size c' = lines * 640 \<and> dma_buffer_size c' \<le> 32768"
  using rgb_dma_layout [of "zero_cam\<lparr>dma_bytes_per_item := 1, width := 320, height := 240,
         in_bytes_per_pixel := 2\<rparr>"]
  by (auto simp: zero_cam_def)

section \<open>Conversion to greyscale in place\<close>

text \<open>After \<open>i\<close> groups the first \<open>4 * i\<close> bytes are the luminance of the first \<open>8 * i\<close> input bytes and the
  bytes from \<open>8 * i\<close> on are still untouched, so no group is overwritten before it is read.\<close>

lemma luma_cons: "length g = 8 \<Longrightarrow> luma (g @ rest) = [g ! 0, g ! 2, g ! 4, g ! 6] @ luma rest"
  by (simp add: luma_def chunks_cons)

definition luma_group :: "nat \<Rightarrow> byte list \<Rightarrow> byte list" where
  "luma_group i buf = [buf ! (8 * i), buf ! (8 * i + 2), buf ! (8 * i + 4), buf ! (8 * i + 6)]"

lemma length_luma_group [simp]: "length (luma_group i buf) = 4"
  by (simp add: luma_group_def)

lemma luma_in_place_Suc:
  "luma_in_place i (Suc n) buf = luma_in_place (i + 1) n (write_at (4 * i) (luma_group i buf) buf)"
  if "8 * i + 8 \<le> length buf"
proof -
  have "write_at (4 * i) (luma_group i buf) buf =
      buf[4 * i := buf ! (8 * i), 4 * i + 1 := buf ! (8 * i + 2), 4 * i + 2 := buf ! (8 * i + 4),
          4 * i + 3 := buf ! (8 * i + 6)]"
    by (rule nth_equalityI)
       (use that in \<open>auto simp: write_at_def luma_group_def nth_append nth_list_update nth_Cons'
          intro!: arg_cong [where f = "(!) buf"]\<close>)
  then show ?thesis using that by (simp add: Let_def)
qed

lemma luma_take_Suc:
  assumes "8 * i + 8 \<le> length buf"
  shows "luma (take (8 * i + 8) buf) = luma (take (8 * i) buf) @ luma_group i buf"
proof -
  have l: "leftover 8 (take (8 * i) buf) = []"
    using assms by (simp add: leftover_def)
  have "take (8 * i + 8) buf = take (8 * i) buf @ slice (8 * i) 8 buf" by (simp add: take_slice)
  then have "chunks 8 (take (8 * i + 8) buf) = chunks 8 (take (8 * i) buf) @ chunks 8 (slice (8 * i) 8 buf)"
    using chunks_append(1) [of 8 "take (8 * i) buf" "slice (8 * i) 8 buf"] l by simp
  moreover have "chunks 8 (slice (8 * i) 8 buf) = [slice (8 * i) 8 buf]"
    using chunks_cons [of 8 "slice (8 * i) 8 buf" "[]"] length_slice [OF assms] by simp
  ultimately show ?thesis using assms by (simp add: luma_def luma_group_def slice_def)
qed

lemma luma_in_place_prefix:
  assumes "8 * (i + n) \<le> length buf0" "length buf = length buf0"
    and "take (4 * i) buf = luma (take (8 * i) buf0)" "drop (8 * i) buf = drop (8 * i) buf0"
  shows "take (4 * (i + n)) (luma_in_place i n buf) = luma (take (8 * (i + n)) buf0) \<and>
         drop (8 * (i + n)) (luma_in_place i n buf) = drop (8 * (i + n)) buf0"
  using assms
proof (induction n arbitrary: i buf)
  case (Suc n)
  define b where "b = write_at (4 * i) (luma_group i buf) buf"
  have len: "length b = length buf0"
    using Suc.prems by (simp add: b_def length_write_at)
  have "luma_group i buf = luma_group i buf0"
  proof -
    have "buf ! (8 * i + k) = buf0 ! (8 * i + k)" if "k < 8" for k
    proof -
      have "drop (8 * i) buf ! k = drop (8 * i) buf0 ! k" by (simp only: Suc.prems(4))
      then show ?thesis using Suc.prems(1,2) by simp
    qed
    from this [of 0] this [of 2] this [of 4] this [of 6] show ?thesis by (simp add: luma_group_def)
  qed
  then have "take (4 * i + 4) b = luma (take (8 * i + 8) buf0)"
    using take_write_at_end [of "4 * i" buf "luma_group i buf"] luma_take_Suc [of i buf0] Suc.prems
    by (simp add: b_def)
  moreover have "drop (8 * i + 8) b = drop (8 * i + 8) buf"
    unfolding b_def by (rule drop_write_at) (use Suc.prems in simp_all)
  moreover have "drop (8 * i + 8) buf = drop (8 * i + 8) buf0"
    using Suc.prems(4) by (metis add.commute drop_drop)
  ultimately have "take (4 * (i + 1 + n)) (luma_in_place (i + 1) n b) = luma (take (8 * (i + 1 + n)) buf0) \<and>
      drop (8 * (i + 1 + n)) (luma_in_place (i + 1) n b) = drop (8 * (i + 1 + n)) buf0"
    using Suc.prems len by (intro Suc.IH) (simp_all add: algebra_simps)
  moreover have "luma_in_place i (Suc n) buf = luma_in_place (i + 1) n b"
    unfolding b_def by (rule luma_in_place_Suc) (use Suc.prems in simp)
  ultimately show ?case by simp
qed simp

text \<open>C24 (equivalence).  Converting YUV to greyscale with source and destination the same buffer, as
  the driver does in PSRAM mode, stores the same bytes as the conversion into a separate buffer,
  although each group of four overwrites memory that still holds input.\<close>

theorem luma_in_place_correct:
  assumes "len \<le> length buf"
  shows "take (4 * (len div 8)) (fst (ll_cam_memcpy_in_place c buf len)) =
           take (4 * (len div 8)) (fst (ll_cam_memcpy c (take len buf))) \<and>
         snd (ll_cam_memcpy_in_place c buf len) = snd (ll_cam_memcpy c (take len buf))"
proof -
  have le: "8 * (len div 8) \<le> len" by simp
  have eq: "luma (take (8 * (len div 8)) buf) = luma (take len buf)"
  proof -
    let ?u = "take (8 * (len div 8)) buf" and ?v = "slice (8 * (len div 8)) (len mod 8) buf"
    have "take len buf = ?u @ ?v" by (simp add: take_slice)
    moreover have "leftover 8 ?u = []" using assms le by (simp add: leftover_def)
    moreover have "length ?v < 8" by (simp add: slice_def)
    ultimately show ?thesis
      using chunks_append(1) [of 8 ?u ?v] by (simp add: luma_def)
  qed
  have "take (4 * (len div 8)) (luma_in_place 0 (len div 8) buf) = luma (take (8 * (len div 8)) buf)"
    using luma_in_place_prefix [of 0 "len div 8" buf buf] assms le by (simp add: luma_def)
  then show ?thesis
    using assms eq length_luma [of "take len buf"]
    by (simp add: ll_cam_memcpy_in_place_def ll_cam_memcpy_def)
qed

theorem luma_in_place_correct_witness:
  "take 4 (fst (ll_cam_memcpy_in_place (zero_cam\<lparr>in_bytes_per_pixel := 2, fb_bytes_per_pixel := 1\<rparr>)
     [1, 128, 2, 128, 3, 128, 4, 128, 9] 9)) = [1, 2, 3, 4]"
proof -
  have "fst (ll_cam_memcpy (zero_cam\<lparr>in_bytes_per_pixel := 2, fb_bytes_per_pixel := 1\<rparr>)
     [1, 128, 2, 128, 3, 128, 4, 128, 9]) = [1, 2, 3, 4]"
    by code_simp
  then show ?thesis
    using luma_in_place_correct [of 9 "[1, 128, 2, 128, 3, 128, 4, 128, 9]"
        "zero_cam\<lparr>in_bytes_per_pixel := 2, fb_bytes_per_pixel := 1\<rparr>"]
    by simp
qed

end
