(* ===== verification/CamHal.thy ===== *)
theory CamHal
  imports LlCam
begin

text \<open>
  The camera HAL (\<open>driver/cam_hal.c\<close>): the task that assembles frames from DMA half buffers, the
  hand-over of frames to the application, allocation and release of the driver's memory.

  The frame queue is a FreeRTOS queue, outside the sources: sending and receiving are external calls,
  and what FreeRTOS documents about them (bounded, first in first out) is the predicate \<open>queue_ok\<close> on
  traces.  The content of the queue after a trace is \<open>fbq\<close>.

  The camera task runs concurrently with the application.  Its work is cut into steps: an interrupt
  handler that posts an event, and one turn of the task's loop for one received event.  The
  application's \<open>cam_take\<close> blocks on the frame queue; the parameter \<open>arrive\<close> says which steps happen
  before each of its blocking calls, so that a statement for every \<open>arrive\<close> covers the interleavings
  of both.
\<close>

section \<open>JPEG markers\<close>

definition JPEG_SOI_MARKER :: "byte list" where "JPEG_SOI_MARKER = [0xFF, 0xD8, 0xFF]"
definition JPEG_EOI_MARKER :: "byte list" where "JPEG_EOI_MARKER = [0xFF, 0xD9]"

function soi_from :: "byte list \<Rightarrow> nat \<Rightarrow> nat \<Rightarrow> int" where
  "soi_from inbuf len i =
     (if i < len then
        if slice i 3 inbuf = JPEG_SOI_MARKER then int i else soi_from inbuf len (i + 1)
      else -1)"
  by pat_completeness auto
termination
  by (relation "measure (\<lambda>(inbuf, len, i). len - i)") auto

declare soi_from.simps [simp del]

definition cam_verify_jpeg_soi :: "byte list \<Rightarrow> nat \<Rightarrow> int" where
  "cam_verify_jpeg_soi inbuf len = soi_from inbuf len 0"

text \<open>\<open>dptr\<close> runs from \<open>inbuf + length - 2\<close> down to \<open>inbuf + 1\<close>.\<close>

fun eoi_down :: "byte list \<Rightarrow> nat \<Rightarrow> int" where
  "eoi_down inbuf 0 = -1"
| "eoi_down inbuf (Suc d) =
     (if slice (Suc d) 2 inbuf = JPEG_EOI_MARKER then int (Suc d) else eoi_down inbuf d)"

definition cam_verify_jpeg_eoi :: "byte list \<Rightarrow> nat \<Rightarrow> int" where
  "cam_verify_jpeg_eoi inbuf len = eoi_down inbuf (len - 2)"

section \<open>Frames\<close>

definition frame_at :: "'z cam_vars_scheme \<Rightarrow> nat \<Rightarrow> cam_frame_t" where
  "frame_at s i = frames (cam s) ! i"

definition upd_frame :: "nat \<Rightarrow> (cam_frame_t \<Rightarrow> cam_frame_t) \<Rightarrow> ('z cam_vars_scheme, unit) state" where
  "upd_frame i f = upd_cam (\<lambda>c. c\<lparr>frames := (frames c)[i := f (frames c ! i)]\<rparr>)"

definition upd_fb :: "nat \<Rightarrow> (camera_fb_t \<Rightarrow> camera_fb_t) \<Rightarrow> ('z cam_vars_scheme, unit) state" where
  "upd_fb i f = upd_frame i (\<lambda>fr. fr\<lparr>fr_fb := f (fr_fb fr)\<rparr>)"

definition set_en :: "nat \<Rightarrow> bool \<Rightarrow> ('z cam_vars_scheme, unit) state" where
  "set_en i b = upd_frame i (\<lambda>fr. fr\<lparr>fr_en := b\<rparr>)"

definition cam_get_next_frame :: "('z cam_vars_scheme, bool) state" where
  "cam_get_next_frame = do {
     s \<leftarrow> get_state;
     if \<not> fr_en (frame_at s (ct_frame_pos s)) then
       (case find (\<lambda>x. fr_en (frame_at s x)) [0..<frame_cnt (cam s)] of
          Some x \<Rightarrow> do { modify (\<lambda>s. s\<lparr>ct_frame_pos := x\<rparr>); return True }
        | None \<Rightarrow> return False)
     else return True
   }"

definition cam_start_frame :: "fw_env \<Rightarrow> ('z cam_vars_scheme, bool) state" where
  "cam_start_frame env = do {
     found \<leftarrow> cam_get_next_frame;
     if found then do {
       pos \<leftarrow> gets ct_frame_pos;
       started \<leftarrow> ll_cam_start env pos;
       if started then do {
         ll_cam_do_vsync env;
         us \<leftarrow> call env (Os Timer_get_time);
         upd_fb pos (\<lambda>b. b\<lparr>fb_tv_sec := rval us div 1000000,
                           fb_tv_usec := rval us mod 1000000\<rparr>);
         return True
       } else return False
     } else return False
   }"

section \<open>Events\<close>

definition set_cam_state :: "cam_state_t \<Rightarrow> ('z cam_vars_scheme, unit) state" where
  "set_cam_state st = upd_cam (\<lambda>c. c\<lparr>cam_state := st\<rparr>)"

definition ll_cam_send_event :: "fw_env \<Rightarrow> cam_event_t \<Rightarrow> ('z cam_vars_scheme, unit) state" where
  "ll_cam_send_event env ev = do {
     q \<leftarrow> gets (\<lambda>s. event_queue (cam s));
     r \<leftarrow> ask env (Queue_send_from_isr q ev);
     do_when (rval r \<noteq> 1) (do {
       _ \<leftarrow> ll_cam_stop env;
       set_cam_state CAM_STATE_IDLE
     })
   }"

text \<open>The interrupt handlers: the status register is read once; \<open>cam_vsync_int_st\<close> is bit 2 of the
  LCD\_CAM status, \<open>in_suc_eof\<close> bit 1 of the GDMA channel's status.\<close>

definition ll_cam_vsync_isr :: "fw_env \<Rightarrow> ('z cam_vars_scheme, unit) state" where
  "ll_cam_vsync_isr env = do {
     st \<leftarrow> ask env (Reg_get (Lcd_cam LC_DMA_INT_ST));
     if rval st = 0 then return ()
     else do {
       lcd_cam env LC_DMA_INT_CLR (rval st);
       do_when (bit (rval st) 2) (ll_cam_send_event env CAM_VSYNC_EVENT)
     }
   }"

definition ll_cam_dma_isr :: "fw_env \<Rightarrow> ('z cam_vars_scheme, unit) state" where
  "ll_cam_dma_isr env = do {
     n \<leftarrow> gets (\<lambda>s. dma_num (cam s));
     st \<leftarrow> ask env (Reg_get (Gdma_in n INT_ST));
     if rval st = 0 then return ()
     else do {
       gdma env INT_CLR (rval st);
       do_when (bit (rval st) 1) (ll_cam_send_event env CAM_IN_SUC_EOF_EVENT)
     }
   }"

section \<open>The camera task\<close>

text \<open>\<open>fit n bs\<close> is \<open>bs\<close> as the content of \<open>n\<close> bytes of memory.\<close>

definition fit :: "nat \<Rightarrow> byte list \<Rightarrow> byte list" where
  "fit n bs = take n (bs @ replicate n 0)"

definition pixels_per_dma :: "cam_obj_t \<Rightarrow> nat" where
  "pixels_per_dma c =
     dma_half_buffer_size c * fb_bytes_per_pixel c div (dma_bytes_per_item c * in_bytes_per_pixel c)"

text \<open>\<open>frame_buffer_event->len += ll_cam_memcpy(cam_obj, &buf[len], &dma_buffer[...], half_size)\<close>\<close>

definition copy_half :: "fw_env \<Rightarrow> nat \<Rightarrow> ('z cam_vars_scheme, unit) state" where
  "copy_half env pos = do {
     c \<leftarrow> gets cam;
     cnt \<leftarrow> gets ct_cnt;
     r \<leftarrow> ask env (Dma_memory (dma_buffer c + cnt mod int (dma_half_buffer_cnt c)
                                 * int (dma_half_buffer_size c)) (dma_half_buffer_size c));
     let cp = ll_cam_memcpy c (fit (dma_half_buffer_size c) (rdata r));
     upd_fb pos (\<lambda>b. b\<lparr>fb_bytes := write_at (fb_len b) (fst cp) (fb_bytes b),
                       fb_len := fb_len b + snd cp\<rparr>)
   }"

text \<open>In PSRAM mode the DMA engine writes into the frame buffer itself; what it has written by the
  time the task looks is the environment's.\<close>

definition dma_fills_frame :: "fw_env \<Rightarrow> nat \<Rightarrow> ('z cam_vars_scheme, unit) state" where
  "dma_fills_frame env pos = do {
     s \<leftarrow> get_state;
     do_when (psram_mode (cam s)) (do {
       let n = length (fb_bytes (fr_fb (frame_at s pos)));
       r \<leftarrow> ask env (Dma_memory (fb_buf (fr_fb (frame_at s pos))) n);
       upd_fb pos (\<lambda>b. b\<lparr>fb_bytes := fit n (rdata r)\<rparr>)
     })
   }"

definition cam_give :: "nat \<Rightarrow> ('z cam_vars_scheme, unit) state" where
  "cam_give i = do {
     n \<leftarrow> gets (\<lambda>s. frame_cnt (cam s));
     do_when (i < n) (set_en i True)
   }"

text \<open>\<open>xQueueSend\<close> and, when the queue is full, the replacement of its oldest frame.  A receive returns
  the frame index plus one.\<close>

definition send_frame :: "fw_env \<Rightarrow> nat \<Rightarrow> ('z cam_vars_scheme, unit) state" where
  "send_frame env pos = do {
     s \<leftarrow> get_state;
     let q = frame_buffer_queue (cam s);
     if fr_en (frame_at s pos) then return ()
     else do {
       r \<leftarrow> ask env (Queue_send q pos);
       if rval r = 1 then return ()
       else do {
         r2 \<leftarrow> ask env (Queue_receive q 0);
         if 0 < rval r2 then do {
           r3 \<leftarrow> ask env (Queue_send q pos);
           do_when (rval r3 \<noteq> 1) (set_en pos True);
           cam_give (nat (rval r2) - 1)
         } else set_en pos True
       }
     }
   }"

definition task_eof :: "fw_env \<Rightarrow> nat \<Rightarrow> ('z cam_vars_scheme, unit) state" where
  "task_eof env pos = do {
     s \<leftarrow> get_state;
     let c = cam s;
     if \<not> psram_mode c \<and> fb_size c < fb_len (fr_fb (frame_at s pos)) + pixels_per_dma c then do {
       _ \<leftarrow> ll_cam_stop env;
       return ()
     } else do {
       do_when (\<not> psram_mode c) (copy_half env pos);
       s \<leftarrow> get_state;
       let b = fr_fb (frame_at s pos);
       do_when (jpeg_mode c \<and> ct_cnt s = 0 \<and> cam_verify_jpeg_soi (fb_bytes b) (fb_len b) \<noteq> 0) (do {
         _ \<leftarrow> ll_cam_stop env;
         set_cam_state CAM_STATE_IDLE
       });
       modify (\<lambda>s. s\<lparr>ct_cnt := ct_cnt s + 1\<rparr>)
     }
   }"

definition finish_frame :: "fw_env \<Rightarrow> nat \<Rightarrow> ('z cam_vars_scheme, unit) state" where
  "finish_frame env pos = do {
     s \<leftarrow> get_state;
     let c = cam s;
     do_when (jpeg_mode c) (do {
       do_when (\<not> psram_mode c) (
         if fb_size c < fb_len (fr_fb (frame_at s pos)) + pixels_per_dma c
         then modify (\<lambda>s. s\<lparr>ct_cnt := ct_cnt s - 1\<rparr>)
         else copy_half env pos);
       modify (\<lambda>s. s\<lparr>ct_cnt := ct_cnt s + 1\<rparr>)
     });
     set_en pos False;
     s \<leftarrow> get_state;
     (if psram_mode c then
        upd_fb pos (\<lambda>b. b\<lparr>fb_len := (if jpeg_mode c then nat (ct_cnt s) * dma_half_buffer_size c
                                      else recv_size c)\<rparr>)
      else do_when (\<not> jpeg_mode c \<and> fb_len (fr_fb (frame_at s pos)) \<noteq> fb_size c) (set_en pos True));
     send_frame env pos
   }"

definition task_vsync :: "fw_env \<Rightarrow> nat \<Rightarrow> ('z cam_vars_scheme, unit) state" where
  "task_vsync env pos = do {
     _ \<leftarrow> ll_cam_stop env;
     s \<leftarrow> get_state;
     let c = cam s;
     do_when (ct_cnt s \<noteq> 0 \<or> \<not> jpeg_mode c \<or> psram_mode c) (finish_frame env pos);
     started \<leftarrow> cam_start_frame env;
     (if \<not> started then set_cam_state CAM_STATE_IDLE
      else do { p \<leftarrow> gets ct_frame_pos; upd_fb p (\<lambda>b. b\<lparr>fb_len := 0\<rparr>) });
     modify (\<lambda>s. s\<lparr>ct_cnt := 0\<rparr>)
   }"

text \<open>One turn of the loop of \<open>cam_task\<close>, for an event received from the event queue.\<close>

definition cam_task :: "fw_env \<Rightarrow> cam_event_t \<Rightarrow> ('z cam_vars_scheme, unit) state" where
  "cam_task env cam_event = do {
     s \<leftarrow> get_state;
     case cam_state (cam s) of
       CAM_STATE_IDLE \<Rightarrow>
         do_when (cam_event = CAM_VSYNC_EVENT) (do {
           started \<leftarrow> cam_start_frame env;
           do_when started (do {
             p \<leftarrow> gets ct_frame_pos;
             upd_fb p (\<lambda>b. b\<lparr>fb_len := 0\<rparr>);
             set_cam_state CAM_STATE_READ_BUF
           });
           modify (\<lambda>s. s\<lparr>ct_cnt := 0\<rparr>)
         })
     | CAM_STATE_READ_BUF \<Rightarrow> do {
         dma_fills_frame env (ct_frame_pos s);
         case cam_event of
           CAM_IN_SUC_EOF_EVENT \<Rightarrow> task_eof env (ct_frame_pos s)
         | CAM_VSYNC_EVENT \<Rightarrow> task_vsync env (ct_frame_pos s)
       }
   }"

text \<open>What runs before the loop.\<close>

definition cam_task_prologue :: "fw_env \<Rightarrow> ('z cam_vars_scheme, unit) state" where
  "cam_task_prologue env = do {
     modify (\<lambda>s. s\<lparr>ct_cnt := 0, ct_frame_pos := 0\<rparr>);
     set_cam_state CAM_STATE_IDLE;
     q \<leftarrow> gets (\<lambda>s. event_queue (cam s));
     tell env (Queue_reset q)
   }"

section \<open>Steps beside the application\<close>

datatype cam_step = Vsync_isr | Dma_isr | Task_turn cam_event_t

fun do_step :: "fw_env \<Rightarrow> cam_step \<Rightarrow> ('z cam_vars_scheme, unit) state" where
  "do_step env Vsync_isr = ll_cam_vsync_isr env"
| "do_step env Dma_isr = ll_cam_dma_isr env"
| "do_step env (Task_turn ev) = cam_task env ev"

fun do_steps :: "fw_env \<Rightarrow> cam_step list \<Rightarrow> ('z cam_vars_scheme, unit) state" where
  "do_steps env [] = return ()"
| "do_steps env (st # sts) = do { do_step env st; do_steps env sts }"

type_synonym arrivals = "nat \<Rightarrow> cam_step list"

definition background :: "fw_env \<Rightarrow> arrivals \<Rightarrow> ('z cam_vars_scheme, unit) state" where
  "background env arrive = do {
     k \<leftarrow> gets (\<lambda>s. length (trace s));
     do_steps env (arrive k)
   }"

section \<open>Taking and giving frames\<close>

definition receive_frame :: "fw_env \<Rightarrow> arrivals \<Rightarrow> u32 \<Rightarrow> ('z cam_vars_scheme, nat option) state" where
  "receive_frame env arrive timeout = do {
     background env arrive;
     q \<leftarrow> gets (\<lambda>s. frame_buffer_queue (cam s));
     r \<leftarrow> ask env (Queue_receive q timeout);
     return (if 0 < rval r then Some (nat (rval r) - 1) else None)
   }"

text \<open>The recursion after a frame without end marker has fuel; the outer option is \<open>None\<close> when it
  runs out.\<close>

fun cam_take :: "fw_env \<Rightarrow> arrivals \<Rightarrow> nat \<Rightarrow> u32 \<Rightarrow> ('z cam_vars_scheme, nat option option) state" where
  "cam_take env arrive 0 timeout = return None"
| "cam_take env arrive (Suc n) timeout = do {
     start \<leftarrow> call env (Os Tick_count);
     x \<leftarrow> receive_frame env arrive timeout;
     y \<leftarrow> (case x of Some i \<Rightarrow> return (Some i)
           | None \<Rightarrow> do { ll_cam_dma_reset env; receive_frame env arrive timeout });
     case y of None \<Rightarrow> return (Some None)
     | Some i \<Rightarrow> do {
         s \<leftarrow> get_state;
         let c = cam s;
         let b = fr_fb (frame_at s i);
         if jpeg_mode c then
           let offset_e = cam_verify_jpeg_eoi (fb_bytes b) (fb_len b)
           in if 0 \<le> offset_e then do {
                upd_fb i (\<lambda>b. b\<lparr>fb_len := nat offset_e + 2\<rparr>);
                return (Some (Some i))
              } else do {
                cam_give i;
                now \<leftarrow> call env (Os Tick_count);
                let ticks_spent = (word_of_int (rval now) - word_of_int (rval start) :: u32);
                if timeout \<le> ticks_spent then return (Some None)
                else cam_take env arrive n (timeout - ticks_spent)
              }
         else do {
           do_when (psram_mode c \<and> in_bytes_per_pixel c \<noteq> fb_bytes_per_pixel c) (
             let cp = ll_cam_memcpy_in_place c (fb_bytes b) (fb_len b)
             in upd_fb i (\<lambda>b. b\<lparr>fb_bytes := fst cp, fb_len := snd cp\<rparr>));
           return (Some (Some i))
         }
       }
   }"

definition cam_give_all :: "('z cam_vars_scheme, unit) state" where
  "cam_give_all =
     upd_cam (\<lambda>c. c\<lparr>frames := map (\<lambda>fr. fr\<lparr>fr_en := True\<rparr>) (take (frame_cnt c) (frames c))
                              @ drop (frame_cnt c) (frames c)\<rparr>)"

definition cam_stop :: "fw_env \<Rightarrow> ('z cam_vars_scheme, unit) state" where
  "cam_stop env = do { ll_cam_vsync_intr_enable env False; _ \<leftarrow> ll_cam_stop env; return () }"

definition cam_start :: "fw_env \<Rightarrow> ('z cam_vars_scheme, unit) state" where
  "cam_start env = ll_cam_vsync_intr_enable env True"

section \<open>Memory of the driver\<close>

definition sizeof_lldesc_t :: nat where "sizeof_lldesc_t = 12"
definition sizeof_cam_frame_t :: nat where "sizeof_cam_frame_t = 56"
definition sizeof_cam_obj_t :: nat where "sizeof_cam_obj_t = 116"

definition dma_descriptor :: "nat \<Rightarrow> nat \<Rightarrow> int \<Rightarrow> nat \<Rightarrow> lldesc_t" where
  "dma_descriptor count sz buffer x = \<lparr>lld_size = sz, lld_length = 0, lld_sosf = 0,
     lld_eof = 0, lld_owner = 1, lld_buf = buffer + int (sz * x),
     lld_next = (x + 1) mod count\<rparr>"

definition allocate_dma_descriptors ::
  "fw_env \<Rightarrow> nat \<Rightarrow> nat \<Rightarrow> int \<Rightarrow> ((fw_call, 'z) plat_scheme, int \<times> lldesc_t list) state" where
  "allocate_dma_descriptors env count sz buffer = do {
     r \<leftarrow> call env (Os (Malloc (count * sizeof_lldesc_t) MALLOC_CAP_DMA));
     if rval r = 0 then return (0, [])
     else return (rval r, map (dma_descriptor count sz buffer) [0..<count])
   }"

text \<open>The body of the allocation loop, and the loop.\<close>

definition align_psram_frame :: "fw_env \<Rightarrow> nat \<Rightarrow> nat \<Rightarrow> ('z cam_vars_scheme, esp_err) state" where
  "align_psram_frame env dma_align x = do {
     s \<leftarrow> get_state;
     let addr = fb_buf (fr_fb (frame_at s x));
     let off = nat (int dma_align - addr mod int dma_align);
     upd_frame x (\<lambda>fr. fr\<lparr>fb_offset := off,
       fr_fb := (fr_fb fr)\<lparr>fb_buf := addr + int off, fb_bytes := drop off (fb_bytes (fr_fb fr))\<rparr>\<rparr>);
     d \<leftarrow> allocate_dma_descriptors env (dma_node_cnt (cam s)) (dma_node_buffer_size (cam s))
            (addr + int off);
     upd_frame x (\<lambda>fr. fr\<lparr>fr_dma := fst d, fr_descs := snd d\<rparr>);
     return (if fst d = 0 then ESP_FAIL else ESP_OK)
   }"

fun alloc_frames ::
  "fw_env \<Rightarrow> nat \<Rightarrow> mem_caps \<Rightarrow> nat \<Rightarrow> nat list \<Rightarrow> ('z cam_vars_scheme, esp_err) state" where
  "alloc_frames env alloc_size caps dma_align [] = return ESP_OK"
| "alloc_frames env alloc_size caps dma_align (x # xs) = do {
     upd_frame x (\<lambda>fr. fr\<lparr>fr_dma := 0, fb_offset := 0, fr_en := False\<rparr>);
     r \<leftarrow> call env (Os (Malloc alloc_size caps));
     upd_fb x (\<lambda>b. b\<lparr>fb_buf := rval r, fb_bytes := fit alloc_size (rdata r)\<rparr>);
     if rval r = 0 then return ESP_FAIL
     else do {
       psram \<leftarrow> gets (\<lambda>s. psram_mode (cam s));
       e \<leftarrow> (if psram then align_psram_frame env dma_align x else return ESP_OK);
       if e \<noteq> ESP_OK then return e
       else do {
         set_en x True;
         alloc_frames env alloc_size caps dma_align xs
       }
     }
   }"

definition alloc_dma_buffer :: "fw_env \<Rightarrow> ('z cam_vars_scheme, esp_err) state" where
  "alloc_dma_buffer env = do {
     c \<leftarrow> gets cam;
     r \<leftarrow> call env (Os (Malloc (dma_buffer_size c) MALLOC_CAP_DMA));
     upd_cam (\<lambda>c. c\<lparr>dma_buffer := rval r\<rparr>);
     if rval r = 0 then return ESP_FAIL
     else do {
       d \<leftarrow> allocate_dma_descriptors env (dma_node_cnt c) (dma_node_buffer_size c) (rval r);
       upd_cam (\<lambda>c. c\<lparr>dma := fst d, dma_descs := snd d\<rparr>);
       return (if fst d = 0 then ESP_FAIL else ESP_OK)
     }
   }"

definition cam_dma_config :: "fw_env \<Rightarrow> camera_config_t \<Rightarrow> ('z cam_vars_scheme, esp_err) state" where
  "cam_dma_config env config = do {
     ok \<leftarrow> gets (\<lambda>s. fst (ll_cam_dma_sizes (cam s)));
     upd_cam (\<lambda>c. snd (ll_cam_dma_sizes c));
     if \<not> ok then return ESP_FAIL
     else do {
       upd_cam (\<lambda>c. c\<lparr>dma_node_cnt := dma_buffer_size c div dma_node_buffer_size c,
                      frame_copy_cnt := recv_size c div dma_half_buffer_size c,
                      dma_buffer := 0, dma := 0\<rparr>);
       n \<leftarrow> gets (\<lambda>s. frame_cnt (cam s));
       r \<leftarrow> call env (Os (Malloc (n * sizeof_cam_frame_t) MALLOC_DEFAULT));
       upd_cam (\<lambda>c. c\<lparr>frames_ptr := rval r,
                      frames := (if rval r = 0 then [] else replicate n zero_frame)\<rparr>);
       if rval r = 0 then return ESP_FAIL
       else do {
         c \<leftarrow> gets cam;
         dma_align \<leftarrow> (if psram_mode c then ll_cam_get_dma_align env else return 0);
         let sz = (if psram_mode c then max (fb_size c) (recv_size c) else fb_size c);
         let caps = (if fb_location config = CAMERA_FB_IN_DRAM then MALLOC_CAP_INTERNAL
                     else MALLOC_CAP_SPIRAM);
         e \<leftarrow> alloc_frames env (sz + dma_align) caps dma_align [0..<n];
         if e \<noteq> ESP_OK then return e
         else if \<not> psram_mode c then alloc_dma_buffer env
         else return ESP_OK
       }
     }
   }"

section \<open>Release\<close>

fun free_frames :: "fw_env \<Rightarrow> cam_frame_t list \<Rightarrow> ((fw_call, 'z) plat_scheme, unit) state" where
  "free_frames env [] = return ()"
| "free_frames env (fr # frs) = do {
     perform env (Os (Free (fb_buf (fr_fb fr) - int (fb_offset fr))));
     do_when (fr_dma fr \<noteq> 0) (perform env (Os (Free (fr_dma fr))));
     free_frames env frs
   }"

definition cam_deinit :: "fw_env \<Rightarrow> ('z cam_vars_scheme, esp_err) state" where
  "cam_deinit env = do {
     s \<leftarrow> get_state;
     if cam_obj s = None then return ESP_FAIL
     else do {
       cam_stop env;
       c \<leftarrow> gets cam;
       do_when (task_handle c \<noteq> 0) (tell env (Task_delete (task_handle c)));
       do_when (event_queue c \<noteq> 0) (tell env (Queue_delete (event_queue c)));
       do_when (frame_buffer_queue c \<noteq> 0) (tell env (Queue_delete (frame_buffer_queue c)));
       _ \<leftarrow> ll_cam_deinit env;
       do_when (dma c \<noteq> 0) (perform env (Os (Free (dma c))));
       do_when (dma_buffer c \<noteq> 0) (perform env (Os (Free (dma_buffer c))));
       do_when (frames_ptr c \<noteq> 0) (do {
         free_frames env (take (frame_cnt c) (frames c));
         perform env (Os (Free (frames_ptr c)))
       });
       perform env (Os (Free (cam_addr c)));
       modify (\<lambda>s. s\<lparr>cam_obj := None\<rparr>);
       return ESP_OK
     }
   }"

section \<open>Initialisation\<close>

text \<open>The set-up of the LCD\_CAM registers and of the GDMA channel (\<open>ll_cam.c\<close>).  On failure the
  latter calls \<open>cam_deinit\<close>.\<close>

definition ll_cam_dma_init :: "fw_env \<Rightarrow> ('z cam_vars_scheme, esp_err) state" where
  "ll_cam_dma_init env = do {
     r \<leftarrow> ask env Gdma_new_channel;
     if rerr r \<noteq> ESP_OK then do { _ \<leftarrow> cam_deinit env; return ESP_FAIL }
     else do {
       upd_cam (\<lambda>c. c\<lparr>dma_channel_handle := rval r\<rparr>);
       n \<leftarrow> ask env (Gdma_get_channel_id (rval r));
       if rerr n \<noteq> ESP_OK then do { _ \<leftarrow> cam_deinit env; return ESP_FAIL }
       else do {
         upd_cam (\<lambda>c. c\<lparr>dma_num := nat (rval n)\<rparr>);
         e \<leftarrow> ask env (Periph_enabled PERIPH_GDMA_MODULE);
         do_when (rval e = 0) (do {
           tell env (Periph_disable_clk_set_rst PERIPH_GDMA_MODULE);
           tell env (Periph_enable_clk_clear_rst PERIPH_GDMA_MODULE)
         });
         ll_cam_dma_reset env;
         return ESP_OK
       }
     }
   }"

definition lcd_cam_setup :: "camera_config_t \<Rightarrow> cam_obj_t \<Rightarrow> (lcd_field \<times> int) list" where
  "lcd_cam_setup config c =
     [(CAM_CTRL, 0), (CAM_CLKM_DIV_B, 0), (CAM_CLKM_DIV_A, 0),
      (CAM_CLKM_DIV_NUM, 160000000 div xclk_freq_hz config), (CAM_CLK_SEL, 3),
      (CAM_STOP_EN, 0), (CAM_VSYNC_FILTER_THRES, 4), (CAM_UPDATE, 0),
      (CAM_BYTE_ORDER, if swap_data c then 1 else 0), (CAM_BIT_ORDER, 0), (CAM_LINE_INT_EN, 0),
      (CAM_VS_EOF_EN, 0),
      (CAM_CTRL1, 0), (CAM_REC_DATA_BYTELEN, int LCD_CAM_DMA_NODE_BUFFER_MAX_SIZE - 1),
      (CAM_LINE_INT_NUM, 0), (CAM_CLK_INV, 0), (CAM_VSYNC_FILTER_EN, 1), (CAM_2BYTE_EN, 0),
      (CAM_DE_INV, 0), (CAM_HSYNC_INV, 0), (CAM_VSYNC_INV, 0), (CAM_VH_DE_MODE_EN, 0),
      (CAM_RGB_YUV, 0), (CAM_UPDATE, 1), (CAM_START, 1)]"

definition ll_cam_config :: "fw_env \<Rightarrow> camera_config_t \<Rightarrow> ('z cam_vars_scheme, esp_err) state" where
  "ll_cam_config env config = do {
     e \<leftarrow> ask env (Periph_enabled PERIPH_LCD_CAM_MODULE);
     do_when (rval e = 0) (do {
       tell env (Periph_disable_clk_set_rst PERIPH_LCD_CAM_MODULE);
       tell env (Periph_enable_clk_clear_rst PERIPH_LCD_CAM_MODULE)
     });
     c \<leftarrow> gets cam;
     perform_all env (map (\<lambda>(f, v). Cam (Reg_set (Lcd_cam f) v)) (lcd_cam_setup config c));
     ll_cam_dma_init env
   }"

definition cam_init :: "fw_env \<Rightarrow> camera_config_t option \<Rightarrow> ('z cam_vars_scheme, esp_err) state" where
  "cam_init env cfg =
     (case cfg of None \<Rightarrow> return ESP_ERR_INVALID_ARG
      | Some config \<Rightarrow> do {
          r \<leftarrow> call env (Os (Malloc sizeof_cam_obj_t MALLOC_CAP_DMA));
          if rval r = 0 then do {
            modify (\<lambda>s. s\<lparr>cam_obj := None\<rparr>);
            return ESP_ERR_NO_MEM
          } else do {
            modify (\<lambda>s. s\<lparr>cam_obj := Some (zero_cam\<lparr>cam_addr := rval r, swap_data := False,
              vsync_pin := pin_vsync config, vsync_invert := True\<rparr>)\<rparr>);
            _ \<leftarrow> ll_cam_set_pin env config;
            ret \<leftarrow> ll_cam_config env config;
            if ret = ESP_OK then return ESP_OK
            else do {
              s \<leftarrow> get_state;
              perform env (Os (Free (case cam_obj s of None \<Rightarrow> 0 | Some c \<Rightarrow> cam_addr c)));
              modify (\<lambda>s. s\<lparr>cam_obj := None\<rparr>);
              return ESP_FAIL
            }
          }
        })"

definition cam_sizes :: "camera_config_t \<Rightarrow> framesize_t \<Rightarrow> cam_obj_t \<Rightarrow> cam_obj_t" where
  "cam_sizes config fs c =
     (let c = c\<lparr>jpeg_mode := (pixel_format config = PIXFORMAT_JPEG),
                psram_mode := (xclk_freq_hz config = 16000000),
                frame_cnt := fb_count config, width := res_width fs, height := res_height fs\<rparr>
      in if jpeg_mode c then c\<lparr>recv_size := width c * height c div 5, fb_size := width c * height c div 5\<rparr>
         else c\<lparr>recv_size := width c * height c * in_bytes_per_pixel c,
                fb_size := width c * height c * fb_bytes_per_pixel c\<rparr>)"

definition event_queue_len :: "cam_obj_t \<Rightarrow> nat" where
  "event_queue_len c = (if dma_half_buffer_cnt c - 1 = 0 then 1 else dma_half_buffer_cnt c - 1)"

definition frame_queue_len :: "camera_config_t \<Rightarrow> cam_obj_t \<Rightarrow> nat" where
  "frame_queue_len config c =
     (if grab_mode config = CAMERA_GRAB_LATEST \<and> 1 < frame_cnt c then frame_cnt c - 1
      else frame_cnt c)"

text \<open>Like the code, this does not look at whether the task could be created: \<open>ESP_OK\<close> is returned anyway.  The effects of the task's first
  lines are those on fields that \<open>calloc\<close> cleared and on variables of the task.\<close>

definition cam_queues :: "fw_env \<Rightarrow> camera_config_t \<Rightarrow> ('z cam_vars_scheme, esp_err) state" where
  "cam_queues env config = do {
     c \<leftarrow> gets cam;
     r \<leftarrow> ask env (Queue_create (event_queue_len c));
     upd_cam (\<lambda>c. c\<lparr>event_queue := rval r\<rparr>);
     if rval r = 0 then return ESP_FAIL
     else do {
       r \<leftarrow> ask env (Queue_create (frame_queue_len config c));
       upd_cam (\<lambda>c. c\<lparr>frame_buffer_queue := rval r\<rparr>);
       if rval r = 0 then return ESP_FAIL
       else do {
         ret \<leftarrow> ll_cam_init_isr env;
         if ret \<noteq> ESP_OK then return ESP_FAIL
         else do {
           t \<leftarrow> call env (Os (Task_create ''cam_task'' 2048 (25 - 2)));
           upd_cam (\<lambda>c. c\<lparr>task_handle := rval t\<rparr>);
           cam_task_prologue env;
           return ESP_OK
         }
       }
     }
   }"

definition cam_config ::
  "fw_env \<Rightarrow> camera_config_t option \<Rightarrow> framesize_t \<Rightarrow> u16 \<Rightarrow> ('z cam_vars_scheme, esp_err) state" where
  "cam_config env cfg fs sensor_pid =
     (case cfg of None \<Rightarrow> return ESP_ERR_INVALID_ARG
      | Some config \<Rightarrow> do {
          ret \<leftarrow> gets (\<lambda>s. fst (ll_cam_set_sample_mode (cam s) (pixel_format config) sensor_pid));
          upd_cam (\<lambda>c. snd (ll_cam_set_sample_mode c (pixel_format config) sensor_pid));
          e \<leftarrow> (if ret \<noteq> ESP_OK then return ESP_FAIL
                else do {
                  upd_cam (cam_sizes config fs);
                  d \<leftarrow> cam_dma_config env config;
                  if d \<noteq> ESP_OK then return ESP_FAIL else cam_queues env config
                });
          if e = ESP_OK then return ESP_OK
          else do { _ \<leftarrow> cam_deinit env; return ESP_FAIL }
        })"

end
