(* ===== verification/FramePool.thy ===== *)
theory FramePool
  imports CamHal
begin

text \<open>
  Ownership of frame buffers.  At any moment each frame is either enabled (the driver may fill it),
  or in the frame queue, or held by the application; \<open>pool\<close> states this together with what the queue
  contains.  Every step of the camera task, of the interrupt handlers and of the application keeps it.
  Consequences: the DMA copy never writes into a frame that is queued or held, never writes past the
  end of a frame, a completed frame always reaches the tail of the queue, and in JPEG mode every frame
  the application receives starts with the SOI marker and ends with the EOI marker.
\<close>

section \<open>FreeRTOS queues\<close>

text \<open>The state of the queue \<open>h\<close> after a call: capacity and content, \<open>None\<close> before its creation.\<close>

definition queue_step :: "int \<Rightarrow> fw_call \<times> ret \<Rightarrow> (nat \<times> nat list) option \<Rightarrow> (nat \<times> nat list) option" where
  "queue_step h e Q =
     (case e of (c, r) \<Rightarrow>
        (case c of
           Cam (Queue_create n) \<Rightarrow> if rval r = h then Some (n, []) else Q
         | Cam (Queue_send h' i) \<Rightarrow>
             if h' = h \<and> rval r = 1 then map_option (\<lambda>(n, q). (n, q @ [i])) Q else Q
         | Cam (Queue_receive h' t) \<Rightarrow>
             if h' = h \<and> 0 < rval r then map_option (\<lambda>(n, q). (n, tl q)) Q else Q
         | _ \<Rightarrow> Q))"

text \<open>The documented behaviour: a non-blocking send succeeds exactly when there is room; a receive
  returns the oldest element, and nothing only when the queue is empty.\<close>

definition queue_fits :: "int \<Rightarrow> (nat \<times> nat list) option \<Rightarrow> fw_call \<times> ret \<Rightarrow> bool" where
  "queue_fits h Q e =
     (case Q of None \<Rightarrow> True
      | Some (n, q) \<Rightarrow>
          (case e of (c, r) \<Rightarrow>
             (case c of
                Cam (Queue_send h' i) \<Rightarrow> h' = h \<longrightarrow> (rval r = 1 \<longleftrightarrow> length q < n)
              | Cam (Queue_receive h' t) \<Rightarrow>
                  h' = h \<longrightarrow> (if q = [] then rval r = 0 else rval r = int (Suc (hd q)))
              | _ \<Rightarrow> True)))"

fun queue_ok_from :: "int \<Rightarrow> (nat \<times> nat list) option \<Rightarrow> (fw_call \<times> ret) list \<Rightarrow> bool" where
  "queue_ok_from h Q [] = True"
| "queue_ok_from h Q (e # tr) = (queue_fits h Q e \<and> queue_ok_from h (queue_step h e Q) tr)"

definition queue_ok :: "int \<Rightarrow> (fw_call \<times> ret) list \<Rightarrow> bool" where
  "queue_ok h tr = queue_ok_from h None tr"

definition queue_state :: "int \<Rightarrow> (fw_call \<times> ret) list \<Rightarrow> (nat \<times> nat list) option" where
  "queue_state h tr = fold (queue_step h) tr None"

lemma queue_state_Nil [simp]: "queue_state h [] = None"
  by (simp add: queue_state_def)

lemma queue_state_append [simp]:
  "queue_state h (tr @ tr') = fold (queue_step h) tr' (queue_state h tr)"
  by (simp add: queue_state_def)

lemma queue_ok_from_append:
  "queue_ok_from h Q (tr @ tr') = (queue_ok_from h Q tr \<and> queue_ok_from h (fold (queue_step h) tr Q) tr')"
  by (induction tr arbitrary: Q) auto

lemma queue_ok_Nil [simp]: "queue_ok h []"
  by (simp add: queue_ok_def)

lemma queue_ok_append [simp]:
  "queue_ok h (tr @ tr') = (queue_ok h tr \<and> queue_ok_from h (queue_state h tr) tr')"
  by (simp add: queue_ok_def queue_state_def queue_ok_from_append)

lemma queue_ok_prefix: "queue_ok h (tr @ tr') \<Longrightarrow> queue_ok h tr"
  by simp

section \<open>Code that does not touch a queue\<close>

fun non_queue :: "fw_call \<Rightarrow> bool" where
  "non_queue (Cam (Queue_create n)) = False"
| "non_queue (Cam (Queue_send h i)) = False"
| "non_queue (Cam (Queue_receive h t)) = False"
| "non_queue _ = True"

lemma non_queue_step: "non_queue c \<Longrightarrow> queue_step h (c, r) Q = Q"
  by (cases c rule: non_queue.cases) (auto simp: queue_step_def)

lemma non_queue_fits: "non_queue c \<Longrightarrow> queue_fits h Q (c, r)"
  by (cases c rule: non_queue.cases) (auto simp: queue_fits_def split: option.splits)

text \<open>\<open>quiet m\<close>: \<open>m\<close> changes nothing but the trace, and only by calls that are not queue operations.\<close>

definition quiet :: "((fw_call, 'z) plat_scheme, 'a) state \<Rightarrow> bool" where
  "quiet m \<longleftrightarrow>
     (\<forall>s. \<exists>x tr. run_state m s = (x, s\<lparr>trace := trace s @ tr\<rparr>) \<and> list_all (\<lambda>e. non_queue (fst e)) tr)"

named_theorems quiet_intros "code that only performs calls other than queue operations"

lemma quiet_return [quiet_intros]: "quiet (return x)"
  by (auto simp: quiet_def run_simps intro!: exI [where x = "[]"])

lemma quiet_gets [quiet_intros]: "quiet (gets f)"
  by (auto simp: quiet_def intro!: exI [where x = "[]"])

lemma quiet_get [quiet_intros]: "quiet get_state"
  by (auto simp: quiet_def run_simps intro!: exI [where x = "[]"])

lemma quiet_bind [quiet_intros]:
  assumes "quiet m" and "\<And>x. quiet (f x)"
  shows "quiet (State_Monad.bind m f)"
  unfolding quiet_def
proof
  fix s
  obtain x tr where m: "run_state m s = (x, s\<lparr>trace := trace s @ tr\<rparr>)" "list_all (\<lambda>e. non_queue (fst e)) tr"
    using assms(1) unfolding quiet_def by blast
  obtain y tr' where "run_state (f x) (s\<lparr>trace := trace s @ tr\<rparr>)
      = (y, s\<lparr>trace := trace s @ tr\<rparr>\<lparr>trace := (trace s @ tr) @ tr'\<rparr>)" "list_all (\<lambda>e. non_queue (fst e)) tr'"
    using assms(2) [of x, unfolded quiet_def, rule_format, of "s\<lparr>trace := trace s @ tr\<rparr>"] by auto
  with m show "\<exists>x tr. run_state (State_Monad.bind m f) s = (x, s\<lparr>trace := trace s @ tr\<rparr>) \<and>
      list_all (\<lambda>e. non_queue (fst e)) tr"
    by (intro exI [where x = y] exI [where x = "tr @ tr'"]) (simp add: run_simps)
qed

lemma quiet_perform [quiet_intros]: "non_queue c \<Longrightarrow> quiet (perform env c)"
  by (auto simp: quiet_def run_perform intro!: exI [where x = "[(c, r)]" for r])

lemma quiet_call [quiet_intros]: "non_queue c \<Longrightarrow> quiet (call env c)"
  by (auto simp: quiet_def run_call intro!: exI [where x = "[(c, r)]" for r])

lemma quiet_do_when [quiet_intros]: "quiet m \<Longrightarrow> quiet (do_when b m)"
  by (simp add: do_when_def quiet_return)

lemma quiet_if [quiet_intros]: "quiet m \<Longrightarrow> quiet n \<Longrightarrow> quiet (if b then m else n)"
  by simp

lemma quiet_run:
  assumes "quiet m" and "run_state m s = (x, s')"
  obtains tr where "s' = s\<lparr>trace := trace s @ tr\<rparr>" "list_all (\<lambda>e. non_queue (fst e)) tr"
  using assms by (auto simp: quiet_def) (metis prod.inject)

lemma quiet_queue_state:
  "list_all (\<lambda>e. non_queue (fst e)) tr \<Longrightarrow> fold (queue_step h) tr Q = Q"
  by (induction tr arbitrary: Q) (auto simp: non_queue_step)

lemma quiet_queue_ok: "list_all (\<lambda>e. non_queue (fst e)) tr \<Longrightarrow> queue_ok_from h Q tr"
  by (induction tr arbitrary: Q) (auto simp: non_queue_step non_queue_fits)

lemma quiet_lcd_cam [quiet_intros]: "quiet (lcd_cam env f v)"
  by (simp add: lcd_cam_def quiet_intros)

lemma quiet_gdma [quiet_intros]: "quiet (gdma env f v)"
  by (auto simp: gdma_def intro!: quiet_intros)

lemma quiet_perform_all [quiet_intros]: "list_all non_queue cs \<Longrightarrow> quiet (perform_all env cs)"
  by (induction cs) (auto intro!: quiet_intros)

lemma writes_non_queue [simp]:
  "list_all non_queue (dma_reset_writes c)" "list_all non_queue (stop_writes c)"
  "list_all non_queue (start_writes c p)"
  by (simp_all add: dma_reset_writes_def stop_writes_def start_writes_def gdma_reg_def lcd_reg_def)

lemma quiet_ll_cam [quiet_intros]:
  "quiet (ll_cam_dma_reset env)" "quiet (ll_cam_stop env)" "quiet (ll_cam_start env p)"
  "quiet (ll_cam_do_vsync env)" "quiet (ll_cam_vsync_intr_enable env b)"
  by (auto simp: ll_cam_dma_reset_def ll_cam_stop_def ll_cam_start_def ll_cam_do_vsync_def
      ll_cam_vsync_intr_enable_def intro!: quiet_intros)

section \<open>Code that only appends to the trace\<close>

definition appends :: "((fw_call, 'z) plat_scheme, 'a) state \<Rightarrow> bool" where
  "appends m \<longleftrightarrow> (\<forall>s. \<exists>tr. trace (snd (run_state m s)) = trace s @ tr)"

named_theorems appends_intros "code that only appends to the trace"

lemma appends_quiet: "quiet m \<Longrightarrow> appends m"
  unfolding quiet_def appends_def by (metis plat.select_convs(1) plat.surjective plat.update_convs(1) snd_conv)

lemma appends_bind [appends_intros]:
  assumes "appends m" "\<And>x. appends (f x)" shows "appends (State_Monad.bind m f)"
  unfolding appends_def
proof
  fix s
  obtain x t where t: "run_state m s = (x, t)" by (meson surj_pair)
  then obtain tr where "trace t = trace s @ tr" using assms(1) unfolding appends_def by (metis snd_conv)
  moreover obtain tr' where "trace (snd (run_state (f x) t)) = trace t @ tr'"
    using assms(2) unfolding appends_def by blast
  ultimately show "\<exists>tr. trace (snd (run_state (State_Monad.bind m f) s)) = trace s @ tr"
    using t by (simp add: run_simps)
qed

lemma appends_basic [appends_intros]:
  "appends (return x)" "appends (gets f)" "appends get_state" "appends (call env c)"
  "appends (perform env c)"
  by (auto simp: appends_def run_simps)

lemma appends_if [appends_intros]: "appends m \<Longrightarrow> appends n \<Longrightarrow> appends (if b then m else n)"
  by simp

lemma appends_do_when [appends_intros]: "appends m \<Longrightarrow> appends (do_when b m)"
  by (simp add: do_when_def appends_basic)

lemma appends_option [appends_intros]:
  "appends m \<Longrightarrow> (\<And>x. appends (f x)) \<Longrightarrow> appends (case y of None \<Rightarrow> m | Some x \<Rightarrow> f x)"
  by (cases y) auto

lemma appends_modify: "(\<And>s. trace (f s) = trace s) \<Longrightarrow> appends (modify f)"
  by (auto simp: appends_def)

lemma appends_queue_ok:
  assumes "appends m" "run_state m s = (x, s')" "queue_ok h (trace s')"
  shows "queue_ok h (trace s)"
  using assms queue_ok_prefix unfolding appends_def by (metis snd_conv)

section \<open>The invariant\<close>

text \<open>Capacity \<open>n\<close> and content \<open>q\<close> of the frame queue, frames \<open>H\<close> held by the application.\<close>

definition pool :: "nat \<Rightarrow> nat list \<Rightarrow> nat set \<Rightarrow> 'z cam_vars_scheme \<Rightarrow> bool" where
  "pool n q H s \<longleftrightarrow>
     cam_obj s \<noteq> None \<and>
     queue_state (frame_buffer_queue (cam s)) (trace s) = Some (n, q) \<and> 0 < n \<and> length q \<le> n \<and>
     length (frames (cam s)) = frame_cnt (cam s) \<and> ct_frame_pos s < frame_cnt (cam s) \<and>
     distinct q \<and> set q \<inter> H = {} \<and> set q \<union> H \<subseteq> {..<frame_cnt (cam s)} \<and>
     (\<forall>i<frame_cnt (cam s). fr_en (frame_at s i) \<longleftrightarrow> i \<notin> set q \<union> H)"

text \<open>While a frame is being received, it is an enabled one.\<close>

definition filling :: "'z cam_vars_scheme \<Rightarrow> bool" where
  "filling s \<longleftrightarrow> (cam_state (cam s) = CAM_STATE_READ_BUF \<longrightarrow> fr_en (frame_at s (ct_frame_pos s)))"

text \<open>The pixel sizes \<open>ll_cam_set_sample_mode\<close> and \<open>ll_cam_dma_sizes\<close> choose.\<close>

definition geometry :: "cam_obj_t \<Rightarrow> bool" where
  "geometry c \<longleftrightarrow>
     dma_bytes_per_item c = 1 \<and>
     (in_bytes_per_pixel c, fb_bytes_per_pixel c) \<in> {(1, 1), (2, 2), (2, 1)} \<and>
     (jpeg_mode c \<longrightarrow> in_bytes_per_pixel c = 1 \<and> 3 \<le> dma_half_buffer_size c)"

definition has_soi :: "camera_fb_t \<Rightarrow> bool" where
  "has_soi b \<longleftrightarrow> slice 0 3 (fb_bytes b) = JPEG_SOI_MARKER \<and> 3 \<le> fb_len b"

text \<open>In the copying mode: no frame is longer than its buffer, and in JPEG mode queued frames, and the
  frame being received once its first half buffer is in, start with the SOI marker.\<close>

definition frames_ok :: "nat list \<Rightarrow> 'z cam_vars_scheme \<Rightarrow> bool" where
  "frames_ok q s \<longleftrightarrow>
     (\<not> psram_mode (cam s) \<longrightarrow>
       geometry (cam s) \<and>
       (\<forall>i<frame_cnt (cam s). fb_len (fr_fb (frame_at s i)) \<le> fb_size (cam s) \<and>
          fb_size (cam s) \<le> length (fb_bytes (fr_fb (frame_at s i)))) \<and>
       (jpeg_mode (cam s) \<longrightarrow> (\<forall>i\<in>set q. has_soi (fr_fb (frame_at s i)))))"

definition receiving_ok :: "'z cam_vars_scheme \<Rightarrow> bool" where
  "receiving_ok s \<longleftrightarrow>
     (\<not> psram_mode (cam s) \<and> jpeg_mode (cam s) \<and> cam_state (cam s) = CAM_STATE_READ_BUF \<and>
        ct_cnt s \<noteq> 0 \<longrightarrow> has_soi (fr_fb (frame_at s (ct_frame_pos s))))"

definition good :: "nat \<Rightarrow> nat list \<Rightarrow> nat set \<Rightarrow> 'z cam_vars_scheme \<Rightarrow> bool" where
  "good n q H s \<longleftrightarrow> pool n q H s \<and> filling s \<and> frames_ok q s \<and> receiving_ok s"

text \<open>\<open>stable X s s'\<close>: the frames outside \<open>X\<close> and the configuration are the same in both states.\<close>

definition conf :: "cam_obj_t \<Rightarrow> cam_obj_t" where
  "conf c = c\<lparr>frames := [], cam_state := CAM_STATE_IDLE\<rparr>"

definition stable :: "nat set \<Rightarrow> 'z cam_vars_scheme \<Rightarrow> 'z cam_vars_scheme \<Rightarrow> bool" where
  "stable X s s' \<longleftrightarrow>
     (cam_obj s' = None \<longleftrightarrow> cam_obj s = None) \<and> conf (cam s') = conf (cam s) \<and>
     length (frames (cam s')) = length (frames (cam s)) \<and>
     (\<forall>i. i \<notin> X \<longrightarrow> frame_at s' i = frame_at s i)"

lemma conf_simps [simp]:
  "conf (c\<lparr>frames := fs\<rparr>) = conf c" "conf (c\<lparr>cam_state := st\<rparr>) = conf c"
  by (simp_all add: conf_def)

lemma conf_sel:
  "frame_buffer_queue (conf c) = frame_buffer_queue c" "frame_cnt (conf c) = frame_cnt c"
  "psram_mode (conf c) = psram_mode c" "jpeg_mode (conf c) = jpeg_mode c"
  "fb_size (conf c) = fb_size c" "geometry (conf c) = geometry c"
  "pixels_per_dma (conf c) = pixels_per_dma c" "dma_half_buffer_size (conf c) = dma_half_buffer_size c"
  "ll_cam_memcpy (conf c) = ll_cam_memcpy c"
  by (simp_all add: conf_def geometry_def pixels_per_dma_def ll_cam_memcpy_def fun_eq_iff)

lemma conf_eqD:
  assumes "conf c = conf d"
  shows "frame_buffer_queue c = frame_buffer_queue d" "frame_cnt c = frame_cnt d"
    "psram_mode c = psram_mode d" "jpeg_mode c = jpeg_mode d" "fb_size c = fb_size d"
    "geometry c = geometry d" "pixels_per_dma c = pixels_per_dma d"
    "dma_half_buffer_size c = dma_half_buffer_size d" "ll_cam_memcpy c = ll_cam_memcpy d"
  using assms conf_sel [of c] conf_sel [of d] by simp_all

lemma stable_refl [simp]: "stable X s s"
  by (simp add: stable_def)

lemma stable_trans: "stable X s t \<Longrightarrow> stable Y t u \<Longrightarrow> stable (X \<union> Y) s u"
  by (auto simp: stable_def)

section \<open>Executing the primitive updates\<close>

definition put :: "nat \<Rightarrow> cam_frame_t \<Rightarrow> 'z cam_vars_scheme \<Rightarrow> 'z cam_vars_scheme" where
  "put i fr s = s\<lparr>cam_obj := map_option (\<lambda>c. c\<lparr>frames := (frames c)[i := fr]\<rparr>) (cam_obj s)\<rparr>"

definition mode :: "cam_state_t \<Rightarrow> 'z cam_vars_scheme \<Rightarrow> 'z cam_vars_scheme" where
  "mode st s = s\<lparr>cam_obj := map_option (\<lambda>c. c\<lparr>cam_state := st\<rparr>) (cam_obj s)\<rparr>"

lemma run_upd_frame [run_simps]: "run_state (upd_frame i f) s = ((), put i (f (frame_at s i)) s)"
  by (cases "cam_obj s") (simp_all add: upd_frame_def run_simps put_def frame_at_def cam_def)

lemma run_upd_fb [run_simps]:
  "run_state (upd_fb i f) s = ((), put i ((frame_at s i)\<lparr>fr_fb := f (fr_fb (frame_at s i))\<rparr>) s)"
  by (simp add: upd_fb_def run_simps)

lemma run_set_en [run_simps]:
  "run_state (set_en i b) s = ((), put i ((frame_at s i)\<lparr>fr_en := b\<rparr>) s)"
  by (simp add: set_en_def run_simps)

lemma run_set_cam_state [run_simps]: "run_state (set_cam_state st) s = ((), mode st s)"
  by (simp add: set_cam_state_def run_simps mode_def)

lemma put_sel [simp]:
  "trace (put i fr s) = trace s" "ct_cnt (put i fr s) = ct_cnt s"
  "ct_frame_pos (put i fr s) = ct_frame_pos s" "cam_obj (put i fr s) = None \<longleftrightarrow> cam_obj s = None"
  "conf (cam (put i fr s)) = conf (cam s)"
  "length (frames (cam (put i fr s))) = length (frames (cam s))"
  "cam_state (cam (put i fr s)) = cam_state (cam s)"
  by (cases "cam_obj s"; simp add: put_def cam_def)+

lemma mode_sel [simp]:
  "trace (mode st s) = trace s" "ct_cnt (mode st s) = ct_cnt s"
  "ct_frame_pos (mode st s) = ct_frame_pos s" "cam_obj (mode st s) = None \<longleftrightarrow> cam_obj s = None"
  "conf (cam (mode st s)) = conf (cam s)"
  "length (frames (cam (mode st s))) = length (frames (cam s))"
  "cam_obj s \<noteq> None \<Longrightarrow> cam_state (cam (mode st s)) = st"
  by (cases "cam_obj s"; simp add: mode_def cam_def)+

lemma put_mode_Some [simp]:
  "(\<exists>c. cam_obj (put i fr s) = Some c) \<longleftrightarrow> (\<exists>c. cam_obj s = Some c)"
  "(\<exists>c. cam_obj (mode st s) = Some c) \<longleftrightarrow> (\<exists>c. cam_obj s = Some c)"
  by (auto simp: put_def mode_def)

lemma frame_at_mode [simp]: "frame_at (mode st s) i = frame_at s i"
  by (cases "cam_obj s") (simp_all add: mode_def cam_def frame_at_def)

lemma frame_at_put [simp]:
  "cam_obj s \<noteq> None \<Longrightarrow> i < length (frames (cam s)) \<Longrightarrow>
     frame_at (put i fr s) j = (if j = i then fr else frame_at s j)"
  by (auto simp: put_def cam_def frame_at_def)

lemma cam_upd [simp]:
  "cam (s\<lparr>ct_cnt := k\<rparr>) = cam s" "cam (s\<lparr>ct_frame_pos := p\<rparr>) = cam s"
  "frame_at (s\<lparr>ct_cnt := k\<rparr>) i = frame_at s i" "frame_at (s\<lparr>ct_frame_pos := p\<rparr>) i = frame_at s i"
  "frame_at (s\<lparr>trace := tr\<rparr>) i = frame_at s i"
  by (simp_all add: cam_def frame_at_def)

lemmas conf_put [simp] = conf_eqD [OF put_sel(5)]
lemmas conf_mode [simp] = conf_eqD [OF mode_sel(5)]

lemma appends_updates [appends_intros]:
  "appends (upd_frame i f)" "appends (upd_fb i g)" "appends (set_en i b)" "appends (set_cam_state st)"
  "appends (modify (\<lambda>s. s\<lparr>ct_cnt := k s\<rparr>))" "appends (modify (\<lambda>s. s\<lparr>ct_frame_pos := p\<rparr>))"
  by (simp_all add: appends_def run_simps)

lemmas appends_ll_cam [appends_intros] = quiet_ll_cam [THEN appends_quiet]

section \<open>Steps that keep the pool\<close>

abbreviation quiet_tr :: "(fw_call \<times> ret) list \<Rightarrow> bool" where
  "quiet_tr tr \<equiv> list_all (\<lambda>e. non_queue (fst e)) tr"

lemma pool_trace: "quiet_tr tr \<Longrightarrow> pool n q H (s\<lparr>trace := trace s @ tr\<rparr>) = pool n q H s"
  by (simp add: pool_def quiet_queue_state)

lemma good_trace: "quiet_tr tr \<Longrightarrow> good n q H (s\<lparr>trace := trace s @ tr\<rparr>) = good n q H s"
  by (simp add: good_def pool_trace filling_def frames_ok_def receiving_ok_def)

lemma good_mode_idle: "good n q H s \<Longrightarrow> good n q H (mode CAM_STATE_IDLE s)"
  by (auto simp: good_def pool_def filling_def frames_ok_def receiving_ok_def)

lemma stable_trace: "stable X s (s\<lparr>trace := tr\<rparr>)"
  by (simp add: stable_def)

lemma stable_mode: "stable X s (mode st s)"
  by (simp add: stable_def)

text \<open>An operation that keeps the pool whatever happens, up to a quiet trace and the state \<open>IDLE\<close>.\<close>

definition harmless :: "('z cam_vars_scheme, 'a) state \<Rightarrow> bool" where
  "harmless m \<longleftrightarrow> (\<forall>s x s' n q H. run_state m s = (x, s') \<longrightarrow>
     stable {} s s' \<and> (\<forall>h. queue_ok h (trace s') = queue_ok h (trace s)) \<and>
     (good n q H s \<longrightarrow> good n q H s'))"

lemma harmless_quiet:
  assumes "quiet m" shows "harmless m"
  unfolding harmless_def
proof (intro allI impI)
  fix s x s' n q H assume "run_state m s = (x, s')"
  from quiet_run [OF assms this] obtain tr where "s' = s\<lparr>trace := trace s @ tr\<rparr>" "quiet_tr tr" .
  then show "stable {} s s' \<and> (\<forall>h. queue_ok h (trace s') = queue_ok h (trace s)) \<and>
     (good n q H s \<longrightarrow> good n q H s')"
    by (simp add: stable_trace quiet_queue_ok good_trace)
qed

lemma harmless_bind:
  assumes "harmless m" "\<And>x. harmless (f x)" shows "harmless (State_Monad.bind m f)"
  unfolding harmless_def
proof (intro allI impI)
  fix s x s' n q H assume "run_state (State_Monad.bind m f) s = (x, s')"
  then obtain y t where "run_state m s = (y, t)" "run_state (f y) t = (x, s')"
    by (auto simp: run_simps split: prod.splits)
  then show "stable {} s s' \<and> (\<forall>h. queue_ok h (trace s') = queue_ok h (trace s)) \<and>
     (good n q H s \<longrightarrow> good n q H s')"
    using assms unfolding harmless_def by (metis stable_trans sup_bot.right_neutral)
qed

lemma harmless_idle: "harmless (set_cam_state CAM_STATE_IDLE)"
  by (auto simp: harmless_def run_simps stable_mode good_mode_idle)

lemma harmless_if: "harmless m \<Longrightarrow> harmless n \<Longrightarrow> harmless (if b then m else n)"
  by simp

lemmas harmless_intros =
  harmless_bind harmless_if harmless_idle
  quiet_return [THEN harmless_quiet] quiet_gets [THEN harmless_quiet] quiet_get [THEN harmless_quiet]
  quiet_call [THEN harmless_quiet] quiet_perform [THEN harmless_quiet]
  quiet_lcd_cam [THEN harmless_quiet] quiet_gdma [THEN harmless_quiet]
  quiet_ll_cam [THEN harmless_quiet]

lemma harmless_send_event: "harmless (ll_cam_send_event env ev)"
  unfolding ll_cam_send_event_def do_when_def by (intro harmless_intros) simp_all

lemma harmless_isr: "harmless (ll_cam_vsync_isr env)" "harmless (ll_cam_dma_isr env)"
  unfolding ll_cam_vsync_isr_def ll_cam_dma_isr_def do_when_def
  by (intro harmless_intros harmless_send_event; simp)+

section \<open>Starting a frame\<close>

lemma ll_cam_start_true: "run_state (ll_cam_start env p) s = (b, s') \<Longrightarrow> b"
  by (auto simp: ll_cam_start_def run_simps split: prod.splits)

lemma cam_get_next_frame_run:
  assumes "pool n q H s" and "run_state cam_get_next_frame s = (b, s')"
  shows "(\<not> b \<and> s' = s) \<or>
         (b \<and> (\<exists>p<frame_cnt (cam s). fr_en (frame_at s p) \<and> s' = s\<lparr>ct_frame_pos := p\<rparr>))"
  using assms
  by (auto simp: cam_get_next_frame_def run_simps pool_def find_Some_iff split: if_splits option.splits
      intro: exI [where x = "ct_frame_pos s"])

lemma cam_start_frame_run:
  assumes "pool n q H s" and "run_state (cam_start_frame env) s = (b, s')"
  obtains (fails) "\<not> b" "s' = s"
  | (starts) p tr sec usec where "b" "p < frame_cnt (cam s)" "fr_en (frame_at s p)" "quiet_tr tr"
      "s' = put p ((frame_at s p)\<lparr>fr_fb := (fr_fb (frame_at s p))\<lparr>fb_tv_sec := sec, fb_tv_usec := usec\<rparr>\<rparr>)
              (s\<lparr>ct_frame_pos := p, trace := trace s @ tr\<rparr>)"
proof -
  obtain f t where f: "run_state cam_get_next_frame s = (f, t)" by force
  show thesis
  proof (cases f)
    case False
    with f cam_get_next_frame_run [OF assms(1) f] assms(2) have "\<not> b \<and> s' = s"
      by (simp add: cam_start_frame_def run_simps)
    then show thesis using fails by simp
  next
    case True
    with cam_get_next_frame_run [OF assms(1) f] obtain p where
      p: "p < frame_cnt (cam s)" "fr_en (frame_at s p)" "t = s\<lparr>ct_frame_pos := p\<rparr>" by auto
    let ?m = "do { _ \<leftarrow> ll_cam_start env p; ll_cam_do_vsync env; call env (Os Timer_get_time) }"
    obtain us u where u: "run_state ?m t = (us, u)" by force
    have "quiet ?m" by (intro quiet_intros) simp_all
    from quiet_run [OF this u] obtain tr where tr: "u = t\<lparr>trace := trace t @ tr\<rparr>" "quiet_tr tr" .
    have "(b, s') = run_state (do {
        upd_fb p (\<lambda>b. b\<lparr>fb_tv_sec := rval us div 1000000, fb_tv_usec := rval us mod 1000000\<rparr>);
        return True }) u"
      using assms(2) f True u p(3)
      by (auto simp: cam_start_frame_def run_simps split: prod.splits dest: ll_cam_start_true)
    then have "b" "s' = put p ((frame_at s p)\<lparr>fr_fb := (fr_fb (frame_at s p))
        \<lparr>fb_tv_sec := rval us div 1000000, fb_tv_usec := rval us mod 1000000\<rparr>\<rparr>)
        (s\<lparr>ct_frame_pos := p, trace := trace s @ tr\<rparr>)"
      using tr(1) p(3) by (auto simp: run_simps)
    then show thesis using starts [OF _ p(1,2) tr(2)] by blast
  qed
qed

lemma pool_put_fb:
  assumes "pool n q H s" "fr_en fr = fr_en (frame_at s p)" "p < frame_cnt (cam s)"
  shows "pool n q H (put p fr s)"
proof -
  have "fr_en (frame_at (put p fr s) i) = fr_en (frame_at s i)" for i
    using assms by (auto simp: pool_def)
  then show ?thesis using assms by (simp add: pool_def)
qed

text \<open>Whatever frame is started, its length is reset, so the state is good again.\<close>

lemma cam_start_frame_good:
  assumes p: "pool n q H s" and f: "frames_ok q s"
    and r: "run_state (cam_start_frame env) s = (b, s')"
  shows "pool n q H s' \<and> frames_ok q s' \<and> stable {ct_frame_pos s'} s s' \<and>
         (\<forall>h. queue_ok h (trace s') = queue_ok h (trace s)) \<and>
         cam_state (cam s') = cam_state (cam s) \<and> ct_cnt s' = ct_cnt s \<and>
         (b \<longrightarrow> fr_en (frame_at s (ct_frame_pos s')) \<and> fr_en (frame_at s' (ct_frame_pos s')) \<and>
            ct_frame_pos s' < frame_cnt (cam s)) \<and> (\<not> b \<longrightarrow> s' = s)"
  using p r
proof (cases rule: cam_start_frame_run)
  case fails
  then show ?thesis using p f by simp
next
  case (starts pos tr sec usec)
  have "pool n q H (s\<lparr>ct_frame_pos := pos, trace := trace s @ tr\<rparr>)"
    using p starts(2,4) by (simp add: pool_def quiet_queue_state)
  then have "pool n q H s'"
    unfolding starts(5) using starts(2) by (intro pool_put_fb) simp_all
  moreover have "frames_ok q s'"
    using p f starts(2) unfolding starts(5) by (auto simp: frames_ok_def pool_def has_soi_def)
  ultimately show ?thesis
    using p starts by (auto simp: stable_def quiet_queue_ok pool_def)
qed

lemma begin_good:
  assumes "pool n q H s" "frames_ok q s" "p < frame_cnt (cam s)" "p = ct_frame_pos s" "fr_en (frame_at s p)"
  shows "good n q H ((put p ((frame_at s p)\<lparr>fr_fb := (fr_fb (frame_at s p))\<lparr>fb_len := 0\<rparr>\<rparr>) s)\<lparr>ct_cnt := 0\<rparr>)"
    and "good n q H ((mode st (put p ((frame_at s p)\<lparr>fr_fb := (fr_fb (frame_at s p))\<lparr>fb_len := 0\<rparr>\<rparr>) s))\<lparr>ct_cnt := 0\<rparr>)"
proof -
  have q: "p \<notin> set q" using assms by (auto simp: pool_def)
  have "pool n q H (put p ((frame_at s p)\<lparr>fr_fb := (fr_fb (frame_at s p))\<lparr>fb_len := 0\<rparr>\<rparr>) s)"
    using assms by (intro pool_put_fb) simp_all
  moreover have "frames_ok q (put p ((frame_at s p)\<lparr>fr_fb := (fr_fb (frame_at s p))\<lparr>fb_len := 0\<rparr>\<rparr>) s)"
    using assms q by (auto simp: frames_ok_def pool_def)
  ultimately show "good n q H ((put p ((frame_at s p)\<lparr>fr_fb := (fr_fb (frame_at s p))\<lparr>fb_len := 0\<rparr>\<rparr>) s)\<lparr>ct_cnt := 0\<rparr>)"
    and "good n q H ((mode st (put p ((frame_at s p)\<lparr>fr_fb := (fr_fb (frame_at s p))\<lparr>fb_len := 0\<rparr>\<rparr>) s))\<lparr>ct_cnt := 0\<rparr>)"
    using assms by (auto simp: good_def pool_def filling_def frames_ok_def receiving_ok_def)
qed

section \<open>Copying a half buffer\<close>

lemma length_fit [simp]: "length (fit n bs) = n"
  by (simp add: fit_def)

lemma memcpy_length:
  assumes "geometry c" "length inp = dma_half_buffer_size c"
  shows "snd (ll_cam_memcpy c inp) = pixels_per_dma c"
    and "length (fst (ll_cam_memcpy c inp)) \<le> pixels_per_dma c"
    and "jpeg_mode c \<Longrightarrow> 3 \<le> pixels_per_dma c"
  using assms by (auto simp: geometry_def ll_cam_memcpy_def pixels_per_dma_def length_luma)

lemma has_soi_append:
  assumes "has_soi b" "fb_len b \<le> length (fb_bytes b)"
  shows "has_soi (b\<lparr>fb_bytes := write_at (fb_len b) bs (fb_bytes b), fb_len := fb_len b + k\<rparr>)"
proof -
  have "take 3 (write_at (fb_len b) bs (fb_bytes b)) = take 3 (fb_bytes b)"
    using assms by (simp add: write_at_def has_soi_def)
  then show ?thesis using assms by (simp add: has_soi_def slice_def)
qed

lemma copy_half_run:
  "run_state (copy_half env p) s = (x, s') \<Longrightarrow>
   \<exists>c r bs. non_queue c \<and> bs = fit (dma_half_buffer_size (cam s)) (rdata r) \<and>
     s' = put p ((frame_at s p)\<lparr>fr_fb := (fr_fb (frame_at s p))\<lparr>
            fb_bytes := write_at (fb_len (fr_fb (frame_at s p))) (fst (ll_cam_memcpy (cam s) bs))
                          (fb_bytes (fr_fb (frame_at s p))),
            fb_len := fb_len (fr_fb (frame_at s p)) + snd (ll_cam_memcpy (cam s) bs)\<rparr>\<rparr>)
          (s\<lparr>trace := trace s @ [(c, r)]\<rparr>)"
  by (auto simp: copy_half_def run_simps Let_def intro!: exI [where x = "Cam (Dma_memory a b)" for a b])

lemma copy_half_good:
  assumes p: "pool n q H s" and f: "frames_ok q s" and np: "\<not> psram_mode (cam s)"
    and i: "p < frame_cnt (cam s)" "p \<notin> set q"
    and room: "fb_len (fr_fb (frame_at s p)) + pixels_per_dma (cam s) \<le> fb_size (cam s)"
    and r: "run_state (copy_half env p) s = (x, s')"
  shows "pool n q H s' \<and> frames_ok q s' \<and> stable {p} s s' \<and>
         (\<forall>h. queue_ok h (trace s') = queue_ok h (trace s)) \<and>
         cam_state (cam s') = cam_state (cam s) \<and> ct_cnt s' = ct_cnt s \<and>
         ct_frame_pos s' = ct_frame_pos s \<and> fr_en (frame_at s' p) = fr_en (frame_at s p) \<and>
         fb_len (fr_fb (frame_at s' p)) = fb_len (fr_fb (frame_at s p)) + pixels_per_dma (cam s) \<and>
         (has_soi (fr_fb (frame_at s p)) \<longrightarrow> has_soi (fr_fb (frame_at s' p)))"
proof -
  obtain c r bs where c: "non_queue c" "length bs = dma_half_buffer_size (cam s)"
    and s': "s' = put p ((frame_at s p)\<lparr>fr_fb := (fr_fb (frame_at s p))\<lparr>
            fb_bytes := write_at (fb_len (fr_fb (frame_at s p))) (fst (ll_cam_memcpy (cam s) bs))
                          (fb_bytes (fr_fb (frame_at s p))),
            fb_len := fb_len (fr_fb (frame_at s p)) + snd (ll_cam_memcpy (cam s) bs)\<rparr>\<rparr>)
          (s\<lparr>trace := trace s @ [(c, r)]\<rparr>)"
    using copy_half_run [OF r] length_fit by metis
  have g: "geometry (cam s)" using f np by (simp add: frames_ok_def)
  note m = memcpy_length [OF g c(2)]
  have l: "fb_len (fr_fb (frame_at s p)) \<le> fb_size (cam s)"
    "fb_size (cam s) \<le> length (fb_bytes (fr_fb (frame_at s p)))"
    using f np i by (auto simp: frames_ok_def)
  have "pool n q H s'"
    unfolding s' using p i(1) c(1) by (intro pool_put_fb) (simp_all add: pool_trace)
  moreover have "frames_ok q s'"
    using f p i l m room unfolding s' by (auto simp: frames_ok_def pool_def length_write_at)
  moreover have "stable {p} s s'"
    using p i unfolding s' by (auto simp: stable_def pool_def)
  moreover have "\<forall>h. queue_ok h (trace s') = queue_ok h (trace s)"
    using c(1) unfolding s' by (simp add: non_queue_fits)
  ultimately show ?thesis
    using p i m l has_soi_append [of "fr_fb (frame_at s p)"] unfolding s' by (auto simp: pool_def)
qed

section \<open>The end-of-buffer event\<close>

lemma soi_from_bound: "soi_from b len i = -1 \<or> int i \<le> soi_from b len i"
proof (induction b len i rule: soi_from.induct)
  case (1 b len i)
  then show ?case by (auto simp: soi_from.simps [of b len i])
qed

lemma soi_zero: "cam_verify_jpeg_soi b len = 0 \<longleftrightarrow> 0 < len \<and> slice 0 3 b = JPEG_SOI_MARKER"
  using soi_from_bound [of b len 1]
  by (auto simp: cam_verify_jpeg_soi_def soi_from.simps [of b len 0])

text \<open>What a step of the task that keeps queue and held frames does to the state.\<close>

definition fills :: "nat \<Rightarrow> nat list \<Rightarrow> nat set \<Rightarrow> 'z cam_vars_scheme \<Rightarrow> 'z cam_vars_scheme \<Rightarrow> bool" where
  "fills n q H s s' \<longleftrightarrow> good n q H s' \<and> stable {ct_frame_pos s} s s' \<and>
     (\<forall>h. queue_ok h (trace s') = queue_ok h (trace s))"

lemma ll_cam_stop_run:
  assumes "run_state (ll_cam_stop env) s = (b, s')"
  obtains tr where "b" "s' = s\<lparr>trace := trace s @ tr\<rparr>" "quiet_tr tr"
proof -
  have b: "b" using assms by (auto simp: ll_cam_stop_def run_simps split: prod.splits)
  show thesis using quiet_run [OF quiet_ll_cam(2) assms] that b by metis
qed

text \<open>The copy of \<open>task_eof\<close>, when there is room.\<close>

lemma eof_copy_good:
  assumes g: "good n q H s" and rb: "cam_state (cam s) = CAM_STATE_READ_BUF"
    and room: "\<not> (\<not> psram_mode (cam s) \<and>
      fb_size (cam s) < fb_len (fr_fb (frame_at s (ct_frame_pos s))) + pixels_per_dma (cam s))"
    and u: "run_state (do_when (\<not> psram_mode (cam s)) (copy_half env (ct_frame_pos s))) s = (y, u)"
  shows "pool n q H u \<and> frames_ok q u \<and> stable {ct_frame_pos s} s u \<and>
         (\<forall>h. queue_ok h (trace u) = queue_ok h (trace s)) \<and>
         cam_state (cam u) = CAM_STATE_READ_BUF \<and> ct_cnt u = ct_cnt s \<and>
         ct_frame_pos u = ct_frame_pos s \<and> fr_en (frame_at u (ct_frame_pos s)) \<and>
         (\<not> psram_mode (cam s) \<longrightarrow> pixels_per_dma (cam s) \<le> fb_len (fr_fb (frame_at u (ct_frame_pos s))) \<and>
            (has_soi (fr_fb (frame_at s (ct_frame_pos s))) \<longrightarrow> has_soi (fr_fb (frame_at u (ct_frame_pos s)))))"
proof -
  let ?p = "ct_frame_pos s"
  have p: "pool n q H s" and f: "frames_ok q s" and e: "fr_en (frame_at s ?p)"
    using g rb by (auto simp: good_def filling_def)
  then have i: "?p < frame_cnt (cam s)" "?p \<notin> set q" by (auto simp: pool_def)
  show ?thesis
  proof (cases "psram_mode (cam s)")
    case True
    then show ?thesis using u p f e rb by simp
  next
    case np: False
    then have u': "run_state (copy_half env ?p) s = (y, u)" using u by simp
    show ?thesis using copy_half_good [OF p f np i _ u'] room np e rb by auto
  qed
qed

text \<open>The first half buffer either shows the SOI marker or the frame is abandoned.\<close>

lemma eof_soi:
  assumes g: "good n q H s" and rb: "cam_state (cam s) = CAM_STATE_READ_BUF"
    and m: "\<not> psram_mode (cam s)" "jpeg_mode (cam s)"
    and len: "pixels_per_dma (cam s) \<le> fb_len b"
    and keep: "has_soi (fr_fb (frame_at s (ct_frame_pos s))) \<Longrightarrow> has_soi b"
    and ok: "ct_cnt s = 0 \<Longrightarrow> cam_verify_jpeg_soi (fb_bytes b) (fb_len b) = 0"
  shows "has_soi b"
proof (cases "ct_cnt s = 0")
  case True
  have "3 \<le> pixels_per_dma (cam s)"
    using m g by (intro memcpy_length(3) [of _ "fit (dma_half_buffer_size (cam s)) []"])
      (auto simp: good_def frames_ok_def)
  then show ?thesis using ok [OF True] len by (auto simp: soi_zero has_soi_def)
next
  case False
  then show ?thesis using g rb m keep by (auto simp: good_def receiving_ok_def)
qed

lemma task_eof_good:
  assumes g: "good n q H s" and rb: "cam_state (cam s) = CAM_STATE_READ_BUF"
    and r: "run_state (task_eof env (ct_frame_pos s)) s = (x, s')"
  shows "fills n q H s s'"
proof -
  let ?p = "ct_frame_pos s"
  have p: "pool n q H s" and f: "frames_ok q s" and e: "fr_en (frame_at s ?p)"
    using g rb by (auto simp: good_def filling_def)
  then have i: "?p < frame_cnt (cam s)" "?p \<notin> set q" "cam_obj s \<noteq> None" by (auto simp: pool_def)
  obtain b t where t: "run_state (ll_cam_stop env) s = (b, t)" by force
  show ?thesis
  proof (cases "\<not> psram_mode (cam s) \<and>
      fb_size (cam s) < fb_len (fr_fb (frame_at s ?p)) + pixels_per_dma (cam s)")
    case True
    with r t have "s' = t" by (simp add: task_eof_def run_simps Let_def)
    then show ?thesis using t g
      by (auto elim!: ll_cam_stop_run simp: fills_def good_trace stable_trace quiet_queue_ok)
  next
    case False
    obtain y u where u: "run_state (do_when (\<not> psram_mode (cam s)) (copy_half env ?p)) s = (y, u)"
      by (meson surj_pair)
    note U = eof_copy_good [OF g rb False u]
    from U have cu: "conf (cam u) = conf (cam s)" by (simp add: stable_def)
    note cu' = conf_eqD [OF cu]
    let ?bad = "jpeg_mode (cam s) \<and> ct_cnt u = 0 \<and>
        cam_verify_jpeg_soi (fb_bytes (fr_fb (frame_at u ?p))) (fb_len (fr_fb (frame_at u ?p))) \<noteq> 0"
    obtain b t where t: "run_state (ll_cam_stop env) u = (b, t)" by force
    then obtain tr where tr: "t = u\<lparr>trace := trace u @ tr\<rparr>" "quiet_tr tr" by (rule ll_cam_stop_run)
    have s': "s' = (if ?bad then (mode CAM_STATE_IDLE t)\<lparr>ct_cnt := ct_cnt t + 1\<rparr>
                    else u\<lparr>ct_cnt := ct_cnt u + 1\<rparr>)"
      using r False u t by (auto simp: task_eof_def run_simps Let_def split: if_splits)
    show ?thesis
    proof (cases ?bad)
      case True
      then show ?thesis
        using U s' tr i(3)
        by (auto simp: fills_def good_def filling_def frames_ok_def receiving_ok_def stable_def
            quiet_queue_ok quiet_queue_state pool_def)
    next
      case False
      have "has_soi (fr_fb (frame_at u ?p))" if "\<not> psram_mode (cam s)" "jpeg_mode (cam s)"
        using eof_soi [OF g rb that] U that False by auto
      then show ?thesis
        using U s' False cu'
        by (auto simp: fills_def good_def filling_def frames_ok_def receiving_ok_def stable_def pool_def)
    qed
  qed
qed

section \<open>Sending a completed frame\<close>

lemma dma_fills_frame_run:
  "run_state (dma_fills_frame env p) s = (x, s') \<Longrightarrow> psram_mode (cam s) \<Longrightarrow>
   \<exists>c r bs. non_queue c \<and>
     s' = put p ((frame_at s p)\<lparr>fr_fb := (fr_fb (frame_at s p))\<lparr>fb_bytes := bs\<rparr>\<rparr>)
       (s\<lparr>trace := trace s @ [(c, r)]\<rparr>)"
  by (auto simp: dma_fills_frame_def run_simps Let_def
      intro!: exI [where x = "Cam (Dma_memory a b)" for a b])

lemma dma_fills_frame_good:
  assumes g: "good n q H s" and r: "run_state (dma_fills_frame env (ct_frame_pos s)) s = (x, s')"
  shows "fills n q H s s' \<and> ct_frame_pos s' = ct_frame_pos s \<and> ct_cnt s' = ct_cnt s \<and>
         cam_state (cam s') = cam_state (cam s)"
proof (cases "psram_mode (cam s)")
  case True
  let ?fr = "frame_at s (ct_frame_pos s)"
  have p: "pool n q H s" and i: "ct_frame_pos s < frame_cnt (cam s)" using g by (auto simp: good_def pool_def)
  obtain c r bs where c: "non_queue c"
    "s' = put (ct_frame_pos s) (?fr\<lparr>fr_fb := (fr_fb ?fr)\<lparr>fb_bytes := bs\<rparr>\<rparr>) (s\<lparr>trace := trace s @ [(c, r)]\<rparr>)"
    using dma_fills_frame_run [OF r True] by blast
  have "pool n q H s'"
    unfolding c(2) using p i c(1) by (intro pool_put_fb) (simp_all add: pool_trace)
  then show ?thesis
    using g True i p c(1) unfolding c(2)
    by (auto simp: fills_def good_def filling_def frames_ok_def receiving_ok_def stable_def pool_def
        non_queue_fits)
next
  case False
  then show ?thesis using g r by (simp add: dma_fills_frame_def run_simps fills_def)
qed

text \<open>A frame that is complete and disabled counts as held until it is in the queue.  Sending it
  puts it at the tail of the queue; when the queue is full its oldest frame is enabled again.\<close>

lemma pool_enable:
  assumes p: "pool n q (insert p H) s" and "p \<notin> H"
  shows "pool n q H (put p ((frame_at s p)\<lparr>fr_en := True\<rparr>) s)"
  using assms by (auto simp: pool_def)

lemma queue_step_simps [simp]:
  "queue_step h (Cam (Queue_send h i), r) (Some (n, q)) = Some (n, if rval r = 1 then q @ [i] else q)"
  "queue_step h (Cam (Queue_receive h t), r) (Some (n, q)) = Some (n, if 0 < rval r then tl q else q)"
  by (simp_all add: queue_step_def)

lemma queue_fits_simps [simp]:
  "queue_fits h (Some (n, q)) (Cam (Queue_send h i), r) = (rval r = 1 \<longleftrightarrow> length q < n)"
  "queue_fits h (Some (n, q)) (Cam (Queue_receive h t), r) =
     (if q = [] then rval r = 0 else rval r = int (Suc (hd q)))"
  by (simp_all add: queue_fits_def)

lemma pool_send:
  assumes "pool n q (insert p H) s" "p \<notin> H" "length q < n" "rval r = 1"
  shows "pool n (q @ [p]) H (s\<lparr>trace := trace s @ [(Cam (Queue_send (frame_buffer_queue (cam s)) p), r)]\<rparr>)"
  using assms by (auto simp: pool_def)

lemma pool_drop_oldest:
  assumes "pool n (x # q) H s" "rval r = int (Suc x)"
  shows "pool n q (insert x H) (s\<lparr>trace := trace s @ [(Cam (Queue_receive (frame_buffer_queue (cam s)) t), r)]\<rparr>)"
  using assms by (auto simp: pool_def)

definition enqueued :: "nat \<Rightarrow> nat list \<Rightarrow> nat \<Rightarrow> nat list" where
  "enqueued n q p = (if length q < n then q else tl q) @ [p]"

lemma run_cam_give:
  "run_state (cam_give i) s =
     ((), if i < frame_cnt (cam s) then put i ((frame_at s i)\<lparr>fr_en := True\<rparr>) s else s)"
  by (simp add: cam_give_def run_simps)

lemma nat_Suc_int [simp]: "nat (1 + int y) = Suc y"
  by (simp add: nat_add_distrib)

text \<open>The trace after \<open>send_frame\<close> on a disabled frame: one call, or two, or three.\<close>

lemma send_frame_run:
  assumes "run_state (send_frame env p) s = (x, s')" "\<not> fr_en (frame_at s p)"
    and "h = frame_buffer_queue (cam s)"
  obtains (queued) r where "rval r = 1" "s' = s\<lparr>trace := trace s @ [(Cam (Queue_send h p), r)]\<rparr>"
  | (empty) r r2 where "rval r \<noteq> 1" "rval r2 \<le> 0"
      "s' = put p ((frame_at s p)\<lparr>fr_en := True\<rparr>)
        (s\<lparr>trace := trace s @ [(Cam (Queue_send h p), r), (Cam (Queue_receive h 0), r2)]\<rparr>)"
  | (replaced) r r2 r3 where "rval r \<noteq> 1" "0 < rval r2"
      "s' = snd (run_state (do { do_when (rval r3 \<noteq> 1) (set_en p True); cam_give (nat (rval r2) - 1) })
        (s\<lparr>trace := trace s @ [(Cam (Queue_send h p), r), (Cam (Queue_receive h 0), r2),
           (Cam (Queue_send h p), r3)]\<rparr>))"
proof -
  let ?r = "env (length (trace s)) (Cam (Queue_send h p))"
  let ?r2 = "env (length (trace s) + 1) (Cam (Queue_receive h 0))"
  let ?r3 = "env (length (trace s) + 2) (Cam (Queue_send h p))"
  consider "rval ?r = 1" | "rval ?r \<noteq> 1" "rval ?r2 \<le> 0" | "rval ?r \<noteq> 1" "0 < rval ?r2" by linarith
  then show thesis
  proof cases
    case 1
    then show thesis using assms by (intro queued [of ?r]) (auto simp: send_frame_def run_simps Let_def)
  next
    case 2
    then show thesis
      using assms by (intro empty [of ?r ?r2]) (auto simp: send_frame_def run_simps Let_def)
  next
    case 3
    then show thesis
      using assms by (intro replaced [of ?r ?r2 ?r3]) (auto simp: send_frame_def run_simps Let_def)
  qed
qed

lemma send_frame_good:
  assumes p: "pool n q (insert p H) s" "p \<notin> H" and r: "run_state (send_frame env p) s = (x, s')"
    and ok: "queue_ok (frame_buffer_queue (cam s)) (trace s')"
  shows "pool n (enqueued n q p) H s' \<and> stable (set q - set (enqueued n q p)) s s' \<and>
         (\<forall>i. fr_fb (frame_at s' i) = fr_fb (frame_at s i)) \<and>
         cam_state (cam s') = cam_state (cam s) \<and> ct_cnt s' = ct_cnt s \<and>
         ct_frame_pos s' = ct_frame_pos s \<and> queue_ok (frame_buffer_queue (cam s)) (trace s)"
proof -
  let ?h = "frame_buffer_queue (cam s)"
  have en: "\<not> fr_en (frame_at s p)" and n: "0 < n" and q: "queue_state ?h (trace s) = Some (n, q)"
    using p by (auto simp: pool_def)
  from r en refl show ?thesis
  proof (cases rule: send_frame_run)
    case (queued r)
    then show ?thesis
      using ok q pool_send [OF p, of r] by (auto simp: enqueued_def stable_trace)
  next
    case (empty r r2)
    then show ?thesis using ok q n by (auto split: if_splits)
  next
    case (replaced r r2 r3)
    have tr: "trace s' = trace s @ [(Cam (Queue_send ?h p), r), (Cam (Queue_receive ?h 0), r2),
           (Cam (Queue_send ?h p), r3)]"
      using replaced(3) by (simp add: run_simps run_cam_give)
    then have full: "\<not> length q < n" using ok q replaced(1) by simp
    then obtain y q' where y: "q = y # q'" using n by (cases q) auto
    have yq: "y \<notin> set q'" "y \<notin> H" "y \<noteq> p" "y < frame_cnt (cam s)" "length q' < n"
      using p y by (auto simp: pool_def)
    have r2: "rval r2 = int (Suc y)" and r3: "rval r3 = 1"
      using tr ok q y replaced(1) yq by (auto split: if_splits)
    define t where "t = s\<lparr>trace := trace s @ [(Cam (Queue_send ?h p), r), (Cam (Queue_receive ?h 0), r2),
           (Cam (Queue_send ?h p), r3)]\<rparr>"
    have "pool n (q' @ [p]) (insert y H) t"
      using p y yq r2 r3 replaced(1) by (auto simp: pool_def t_def)
    moreover have s': "s' = put y ((frame_at t y)\<lparr>fr_en := True\<rparr>) t"
      using replaced(3) r2 r3 yq by (simp add: run_simps run_cam_give t_def)
    ultimately show ?thesis
      using pool_enable [of n "q' @ [p]" y H t] yq full y ok tr p
      by (auto simp: enqueued_def stable_def t_def pool_def)
  qed
qed

section \<open>The end-of-frame event\<close>

text \<open>The state while the completed frame \<open>pos\<close> is on its way to the queue.\<close>

definition completing :: "nat \<Rightarrow> nat list \<Rightarrow> nat set \<Rightarrow> nat \<Rightarrow> 'z cam_vars_scheme \<Rightarrow> bool" where
  "completing n q H pos s \<longleftrightarrow> pool n q H s \<and> frames_ok q s \<and> pos < frame_cnt (cam s) \<and>
     fr_en (frame_at s pos) \<and>
     (\<not> psram_mode (cam s) \<and> jpeg_mode (cam s) \<longrightarrow> has_soi (fr_fb (frame_at s pos)))"

definition last_copy :: "fw_env \<Rightarrow> nat \<Rightarrow> ('z cam_vars_scheme, unit) state" where
  "last_copy env pos = do {
     s \<leftarrow> get_state;
     do_when (jpeg_mode (cam s)) (do {
       do_when (\<not> psram_mode (cam s)) (
         if fb_size (cam s) < fb_len (fr_fb (frame_at s pos)) + pixels_per_dma (cam s)
         then modify (\<lambda>s. s\<lparr>ct_cnt := ct_cnt s - 1\<rparr>)
         else copy_half env pos);
       modify (\<lambda>s. s\<lparr>ct_cnt := ct_cnt s + 1\<rparr>)
     })
   }"

lemma completing_cnt [simp]: "completing n q H pos (s\<lparr>ct_cnt := k\<rparr>) = completing n q H pos s"
  by (simp add: completing_def pool_def frames_ok_def)

lemma last_copy_good:
  assumes c: "completing n q H pos s" and r: "run_state (last_copy env pos) s = (x, s')"
  shows "completing n q H pos s' \<and> stable {pos} s s' \<and> cam_state (cam s') = cam_state (cam s) \<and>
         ct_frame_pos s' = ct_frame_pos s \<and> (\<forall>h. queue_ok h (trace s') = queue_ok h (trace s))"
proof (cases "jpeg_mode (cam s) \<and> \<not> psram_mode (cam s) \<and>
    fb_len (fr_fb (frame_at s pos)) + pixels_per_dma (cam s) \<le> fb_size (cam s)")
  case False
  then have "\<exists>k. s' = s\<lparr>ct_cnt := k\<rparr>"
    using r by (auto simp: last_copy_def run_simps intro: exI [where x = "ct_cnt s"] split: if_splits)
  then show ?thesis using c by (auto simp: stable_def)
next
  case True
  then obtain y t where t: "run_state (copy_half env pos) s = (y, t)" "s' = t\<lparr>ct_cnt := ct_cnt t + 1\<rparr>"
    using r by (auto simp: last_copy_def run_simps split: prod.splits)
  have "pos \<notin> set q" using c by (auto simp: completing_def pool_def)
  with copy_half_good [OF _ _ _ _ _ _ t(1), of n q H] True c t(2)
  have "completing n q H pos t \<and> stable {pos} s t \<and> cam_state (cam t) = cam_state (cam s) \<and>
         ct_frame_pos t = ct_frame_pos s \<and> (\<forall>h. queue_ok h (trace t) = queue_ok h (trace s))"
    by (auto simp: completing_def stable_def dest: conf_eqD)
  then show ?thesis using t(2) by (auto simp: stable_def)
qed

lemma finish_frame_eq:
  "run_state (finish_frame env pos) s =
     run_state (do {
       last_copy env pos;
       set_en pos False;
       t \<leftarrow> get_state;
       (if psram_mode (cam s) then
          upd_fb pos (\<lambda>b. b\<lparr>fb_len := (if jpeg_mode (cam s)
             then nat (ct_cnt t) * dma_half_buffer_size (cam s) else recv_size (cam s))\<rparr>)
        else do_when (\<not> jpeg_mode (cam s) \<and> fb_len (fr_fb (frame_at t pos)) \<noteq> fb_size (cam s))
               (set_en pos True));
       send_frame env pos
     }) s"
  by (simp add: finish_frame_def last_copy_def Let_def State_Monad.bind_assoc run_simps do_when_def)

lemma send_frame_enabled:
  "fr_en (frame_at s p) \<Longrightarrow> run_state (send_frame env p) s = ((), s)"
  by (simp add: send_frame_def run_simps Let_def)

lemma put_put [simp]: "put p a (put p b s) = put p a s"
  by (cases "cam_obj s") (simp_all add: put_def)

text \<open>Disabling the completed frame and recording its length.\<close>

lemma completing_disable:
  assumes c: "completing n q H pos s"
    and fr: "\<not> fr_en fr" "fb_bytes (fr_fb fr) = fb_bytes (fr_fb (frame_at s pos))"
      "\<not> psram_mode (cam s) \<Longrightarrow> fb_len (fr_fb fr) = fb_len (fr_fb (frame_at s pos))"
  shows "pool n q (insert pos H) (put pos fr s) \<and> pos \<notin> H \<and> frames_ok q (put pos fr s) \<and>
         (\<not> psram_mode (cam s) \<and> jpeg_mode (cam s) \<longrightarrow> has_soi (fr_fb (frame_at (put pos fr s) pos))) \<and>
         stable {pos} s (put pos fr s)"
  using assms by (auto simp: completing_def pool_def frames_ok_def has_soi_def stable_def)

lemma frames_ok_enqueued:
  assumes "frames_ok q s" "conf (cam s') = conf (cam s)"
    and "\<forall>i. fr_fb (frame_at s' i) = fr_fb (frame_at s i)"
    and "\<not> psram_mode (cam s) \<and> jpeg_mode (cam s) \<longrightarrow> has_soi (fr_fb (frame_at s pos))"
  shows "frames_ok (enqueued n q pos) s'"
  using assms conf_eqD [OF assms(2)]
  by (auto simp: frames_ok_def enqueued_def dest: list.set_sel(2) split: if_splits)
     (metis list.set_sel(2) tl_Nil)+

lemma finish_frame_good:
  assumes c: "completing n q H pos s" and r: "run_state (finish_frame env pos) s = (x, s')"
    and ok: "queue_ok (frame_buffer_queue (cam s)) (trace s')"
  shows "\<exists>q'. pool n q' H s' \<and> frames_ok q' s' \<and> (q' = enqueued n q pos \<or>
            q' = q \<and> \<not> jpeg_mode (cam s) \<and> \<not> psram_mode (cam s)) \<and>
         stable ({pos} \<union> (set q - set q')) s s' \<and> cam_state (cam s') = cam_state (cam s) \<and>
         ct_frame_pos s' = ct_frame_pos s \<and> queue_ok (frame_buffer_queue (cam s)) (trace s)"
proof -
  obtain y u where u: "run_state (last_copy env pos) s = (y, u)" by (meson surj_pair)
  note U = last_copy_good [OF c u]
  then have cu: "conf (cam u) = conf (cam s)" by (simp add: stable_def)
  note cu' = conf_eqD [OF cu]
  let ?fr = "(frame_at u pos)\<lparr>fr_en := False\<rparr>"
  have i: "cam_obj u \<noteq> None" "pos < length (frames (cam u))" using U by (auto simp: completing_def pool_def)
  show ?thesis
  proof (cases "\<not> psram_mode (cam s) \<and> \<not> jpeg_mode (cam s) \<and> fb_len (fr_fb (frame_at u pos)) \<noteq> fb_size (cam s)")
    case True
    then have s': "s' = put pos ((frame_at u pos)\<lparr>fr_en := True\<rparr>) u"
      using r u i by (auto simp: finish_frame_eq run_simps send_frame_enabled)
    have "pool n q H s'" unfolding s' using U by (intro pool_put_fb) (auto simp: completing_def)
    moreover have "frames_ok q s'" "stable {pos} s s'"
      using U i unfolding s' by (auto simp: completing_def frames_ok_def stable_def)
    ultimately show ?thesis using U True ok unfolding s' by (intro exI [where x = q]) auto
  next
    case False
    define fr where "fr = (if psram_mode (cam s) then ?fr\<lparr>fr_fb := (fr_fb ?fr)\<lparr>fb_len := (if jpeg_mode (cam s)
       then nat (ct_cnt u) * dma_half_buffer_size (cam s) else recv_size (cam s))\<rparr>\<rparr> else ?fr)"
    have "run_state (send_frame env pos) (put pos fr u) = (x, s')"
      using r u i False by (auto simp: finish_frame_eq run_simps fr_def split: if_splits)
    moreover have D: "pool n q (insert pos H) (put pos fr u) \<and> pos \<notin> H \<and> frames_ok q (put pos fr u) \<and>
         (\<not> psram_mode (cam u) \<and> jpeg_mode (cam u) \<longrightarrow> has_soi (fr_fb (frame_at (put pos fr u) pos))) \<and>
         stable {pos} u (put pos fr u)"
      using U cu' by (intro completing_disable) (simp_all add: fr_def)
    ultimately have S: "pool n (enqueued n q pos) H s' \<and> stable (set q - set (enqueued n q pos)) (put pos fr u) s' \<and>
         (\<forall>i. fr_fb (frame_at s' i) = fr_fb (frame_at (put pos fr u) i)) \<and>
         cam_state (cam s') = cam_state (cam s) \<and> ct_frame_pos s' = ct_frame_pos s \<and>
         queue_ok (frame_buffer_queue (cam s)) (trace u)"
      using send_frame_good [of n q pos H "put pos fr u" env x s'] ok U cu' by auto
    then have "frames_ok (enqueued n q pos) s'"
      using D by (intro frames_ok_enqueued [of q "put pos fr u"]) (auto simp: stable_def)
    moreover have "stable ({pos} \<union> (set q - set (enqueued n q pos))) s s'"
      using stable_trans [OF stable_trans, of "{pos}" s u "{pos}" "put pos fr u"] S D U by fastforce
    ultimately show ?thesis using S U by blast
  qed
qed

section \<open>A turn of the camera task\<close>

text \<open>From a good state with queue \<open>q\<close> and held frames \<open>H\<close> to one with some queue \<open>q'\<close>: held frames,
  and frames that were and still are queued, are untouched.  \<open>keeps\<close> is what every step does.\<close>

definition keeps :: "nat \<Rightarrow> nat list \<Rightarrow> nat list \<Rightarrow> nat set \<Rightarrow> 'z cam_vars_scheme \<Rightarrow> 'z cam_vars_scheme \<Rightarrow> bool" where
  "keeps n q q' H s s' \<longleftrightarrow>
     good n q' H s' \<and> conf (cam s') = conf (cam s) \<and> queue_ok (frame_buffer_queue (cam s)) (trace s) \<and>
     (\<forall>i \<in> H \<union> (set q \<inter> set q'). frame_at s' i = frame_at s i)"

lemma stable_frame: "stable X s s' \<Longrightarrow> i \<notin> X \<Longrightarrow> frame_at s' i = frame_at s i"
  by (simp add: stable_def)

lemma fills_keeps:
  assumes f: "fills n q H s s'" and e: "fr_en (frame_at s (ct_frame_pos s))" and g: "good n q H s"
    and ok: "queue_ok (frame_buffer_queue (cam s)) (trace s')"
  shows "keeps n q q H s s'"
proof -
  have "ct_frame_pos s \<notin> H \<union> set q" using e g by (auto simp: good_def pool_def)
  then have "\<forall>i \<in> H \<union> set q. frame_at s' i = frame_at s i"
    using f unfolding fills_def by (metis stable_frame singletonD)
  then show ?thesis using f ok by (simp add: fills_def keeps_def stable_def)
qed

lemma appends_start: "appends (cam_start_frame env)"
  unfolding cam_start_frame_def cam_get_next_frame_def by (intro appends_intros)

lemma start_after:
  assumes p: "pool n q H s" "frames_ok q s" and st: "cam_state (cam s) = CAM_STATE_READ_BUF"
    and r: "run_state (do {
       started \<leftarrow> cam_start_frame env;
       (if \<not> started then set_cam_state CAM_STATE_IDLE
        else do { p \<leftarrow> gets ct_frame_pos; upd_fb p (\<lambda>b. b\<lparr>fb_len := 0\<rparr>) });
       modify (\<lambda>s. s\<lparr>ct_cnt := 0\<rparr>)
     }) s = (x, s')"
  shows "good n q H s' \<and> conf (cam s') = conf (cam s) \<and> (\<forall>h. queue_ok h (trace s') = queue_ok h (trace s)) \<and>
         (\<forall>i \<in> H \<union> set q. frame_at s' i = frame_at s i)"
proof -
  obtain b t where t: "run_state (cam_start_frame env) s = (b, t)" by (meson surj_pair)
  note T = cam_start_frame_good [OF p t]
  show ?thesis
  proof (cases b)
    case True
    let ?p = "ct_frame_pos t"
    have s': "s' = (put ?p ((frame_at t ?p)\<lparr>fr_fb := (fr_fb (frame_at t ?p))\<lparr>fb_len := 0\<rparr>\<rparr>) t)\<lparr>ct_cnt := 0\<rparr>"
      using r t True by (simp add: run_simps)
    have i: "?p < frame_cnt (cam t)" "?p \<notin> H \<union> set q" using T True by (auto simp: pool_def)
    have "good n q H s'" unfolding s' using T True i by (intro begin_good) auto
    moreover have "\<forall>i \<in> H \<union> set q. frame_at s' i = frame_at s i"
    proof
      fix j assume "j \<in> H \<union> set q"
      with i have "j \<noteq> ?p" by auto
      then show "frame_at s' j = frame_at s j"
        using T i unfolding s' by (auto simp: stable_def pool_def)
    qed
    ultimately show ?thesis using T unfolding s' by (auto simp: stable_def)
  next
    case False
    then have "s' = (mode CAM_STATE_IDLE s)\<lparr>ct_cnt := 0\<rparr>" using r t T by (simp add: run_simps)
    then show ?thesis
      using p by (auto simp: good_def pool_def filling_def frames_ok_def receiving_ok_def)
  qed
qed

lemma task_vsync_good:
  assumes g: "good n q H s" and rb: "cam_state (cam s) = CAM_STATE_READ_BUF"
    and r: "run_state (task_vsync env (ct_frame_pos s)) s = (x, s')"
    and ok: "queue_ok (frame_buffer_queue (cam s)) (trace s')"
  shows "\<exists>q'. keeps n q q' H s s' \<and>
           (q' = q \<and> \<not> (jpeg_mode (cam s) \<and> ct_cnt s \<noteq> 0) \<or> q' = enqueued n q (ct_frame_pos s))"
proof -
  let ?p = "ct_frame_pos s"
  obtain b t where t: "run_state (ll_cam_stop env) s = (b, t)" by (meson surj_pair)
  then obtain tr where tr: "t = s\<lparr>trace := trace s @ tr\<rparr>" "quiet_tr tr" by (rule ll_cam_stop_run)
  have e: "fr_en (frame_at s ?p)" "?p \<notin> H \<union> set q" "?p < frame_cnt (cam s)"
    using g rb by (auto simp: good_def filling_def pool_def)
  let ?fin = "ct_cnt t \<noteq> 0 \<or> \<not> jpeg_mode (cam t) \<or> psram_mode (cam t)"
  obtain y u where u: "run_state (do_when ?fin (finish_frame env ?p)) t = (y, u)" by (meson surj_pair)
  have rest: "run_state (do {
       started \<leftarrow> cam_start_frame env;
       (if \<not> started then set_cam_state CAM_STATE_IDLE
        else do { p \<leftarrow> gets ct_frame_pos; upd_fb p (\<lambda>b. b\<lparr>fb_len := 0\<rparr>) });
       modify (\<lambda>s. s\<lparr>ct_cnt := 0\<rparr>)
     }) u = (x, s')"
    using r t u by (auto simp: task_vsync_def run_simps Let_def split: if_splits)
  have pt: "pool n q H t" "frames_ok q t" using g tr by (auto simp: good_def pool_trace frames_ok_def)
  have "\<exists>q'. pool n q' H u \<and> frames_ok q' u \<and>
      (q' = q \<and> \<not> (jpeg_mode (cam s) \<and> ct_cnt s \<noteq> 0) \<or> q' = enqueued n q ?p) \<and>
      stable ({?p} \<union> (set q - set q')) t u \<and> cam_state (cam u) = CAM_STATE_READ_BUF \<and>
      queue_ok (frame_buffer_queue (cam s)) (trace t)"
    if "queue_ok (frame_buffer_queue (cam s)) (trace u)"
  proof (cases ?fin)
    case True
    have "completing n q H ?p t"
      using g rb e pt tr True by (auto simp: completing_def good_def receiving_ok_def)
    from finish_frame_good [OF this, of env y u] show ?thesis
      using u True that tr rb by auto
  next
    case False
    then show ?thesis using u pt rb tr that by auto
  qed
  moreover have "queue_ok (frame_buffer_queue (cam s)) (trace u)"
    using ok by (rule appends_queue_ok [OF _ rest, rotated]) (intro appends_intros appends_start)
  ultimately obtain q' where q': "pool n q' H u" "frames_ok q' u"
      "q' = q \<and> \<not> (jpeg_mode (cam s) \<and> ct_cnt s \<noteq> 0) \<or> q' = enqueued n q ?p"
    and st: "stable ({?p} \<union> (set q - set q')) t u" "cam_state (cam u) = CAM_STATE_READ_BUF"
    and okt: "queue_ok (frame_buffer_queue (cam s)) (trace t)" by blast
  note S = start_after [OF q'(1,2) st(2) rest]
  have "frame_at s' i = frame_at s i" if "i \<in> H \<union> (set q \<inter> set q')" for i
  proof -
    have "H \<inter> set q = {}" using g by (auto simp: good_def pool_def)
    then have "i \<notin> {?p} \<union> (set q - set q')" using that e by auto
    then show ?thesis using S stable_frame [OF st(1)] that tr by auto
  qed
  then show ?thesis using S q' st okt tr by (auto simp: keeps_def stable_def)
qed

text \<open>\<open>carries\<close> is the transitive part of \<open>keeps\<close>: held frames are untouched.\<close>

definition carries :: "nat \<Rightarrow> nat list \<Rightarrow> nat set \<Rightarrow> 'z cam_vars_scheme \<Rightarrow> 'z cam_vars_scheme \<Rightarrow> bool" where
  "carries n q' H s s' \<longleftrightarrow>
     good n q' H s' \<and> conf (cam s') = conf (cam s) \<and> queue_ok (frame_buffer_queue (cam s)) (trace s) \<and>
     (\<forall>i \<in> H. frame_at s' i = frame_at s i)"

lemma keeps_carries: "keeps n q q' H s s' \<Longrightarrow> carries n q' H s s'"
  by (auto simp: keeps_def carries_def)

lemma carries_trans: "carries n q H s t \<Longrightarrow> carries n q' H t u \<Longrightarrow> carries n q' H s u"
  by (auto simp: carries_def)

lemma carries_good: "carries n q' H s s' \<Longrightarrow> good n q' H s'"
  by (simp add: carries_def)

lemma harmless_keeps:
  assumes "harmless m" "run_state m s = (x, s')" "good n q H s"
    and "queue_ok (frame_buffer_queue (cam s)) (trace s')"
  shows "keeps n q q H s s'"
  using assms unfolding harmless_def keeps_def stable_def by blast

lemma task_idle_good:
  assumes g: "good n q H s"
    and r: "run_state (do {
           started \<leftarrow> cam_start_frame env;
           do_when started (do {
             p \<leftarrow> gets ct_frame_pos;
             upd_fb p (\<lambda>b. b\<lparr>fb_len := 0\<rparr>);
             set_cam_state CAM_STATE_READ_BUF
           });
           modify (\<lambda>s. s\<lparr>ct_cnt := 0\<rparr>)
         }) s = (x, s')"
    and ok: "queue_ok (frame_buffer_queue (cam s)) (trace s')"
  shows "keeps n q q H s s'"
proof -
  have p: "pool n q H s" "frames_ok q s" using g by (auto simp: good_def)
  obtain b t where t: "run_state (cam_start_frame env) s = (b, t)" by (meson surj_pair)
  note T = cam_start_frame_good [OF p t]
  show ?thesis
  proof (cases b)
    case True
    let ?p = "ct_frame_pos t"
    have s': "s' = (mode CAM_STATE_READ_BUF (put ?p
        ((frame_at t ?p)\<lparr>fr_fb := (fr_fb (frame_at t ?p))\<lparr>fb_len := 0\<rparr>\<rparr>) t))\<lparr>ct_cnt := 0\<rparr>"
      using r t True by (simp add: run_simps)
    have i: "?p < frame_cnt (cam t)" "?p \<notin> H \<union> set q" using T True by (auto simp: pool_def)
    have "good n q H s'" unfolding s' using T True i by (intro begin_good) auto
    moreover have "\<forall>i \<in> H \<union> set q. frame_at s' i = frame_at s i"
    proof
      fix j assume "j \<in> H \<union> set q"
      with i have "j \<noteq> ?p" by auto
      then show "frame_at s' j = frame_at s j"
        using T i unfolding s' by (auto simp: stable_def pool_def)
    qed
    ultimately show ?thesis using T ok unfolding s' by (auto simp: keeps_def stable_def)
  next
    case False
    then have "s' = s\<lparr>ct_cnt := 0\<rparr>" using r t T by (simp add: run_simps)
    then show ?thesis
      using g ok by (auto simp: keeps_def good_def pool_def filling_def frames_ok_def receiving_ok_def)
  qed
qed

lemma cam_task_good:
  assumes g: "good n q H s" and r: "run_state (cam_task env ev) s = (x, s')"
    and ok: "queue_ok (frame_buffer_queue (cam s)) (trace s')"
  shows "\<exists>q'. keeps n q q' H s s' \<and>
           (q' = q \<and> \<not> (cam_state (cam s) = CAM_STATE_READ_BUF \<and> ev = CAM_VSYNC_EVENT \<and>
              jpeg_mode (cam s) \<and> ct_cnt s \<noteq> 0) \<or>
            q' = enqueued n q (ct_frame_pos s))"
proof (cases "cam_state (cam s)")
  case CAM_STATE_IDLE
  show ?thesis
  proof (cases ev)
    case CAM_IN_SUC_EOF_EVENT
    then show ?thesis using r g ok CAM_STATE_IDLE by (auto simp: cam_task_def run_simps keeps_def)
  next
    case CAM_VSYNC_EVENT
    then show ?thesis
      using task_idle_good [OF g _ ok] r CAM_STATE_IDLE by (auto simp: cam_task_def run_simps)
  qed
next
  case CAM_STATE_READ_BUF
  obtain y t where t: "run_state (dma_fills_frame env (ct_frame_pos s)) s = (y, t)" by (meson surj_pair)
  have F: "fills n q H s t" "ct_frame_pos t = ct_frame_pos s" "cam_state (cam t) = CAM_STATE_READ_BUF"
    "ct_cnt t = ct_cnt s"
    using dma_fills_frame_good [OF g t] CAM_STATE_READ_BUF by auto
  then have gt: "good n q H t" and h: "frame_buffer_queue (cam t) = frame_buffer_queue (cam s)"
    and j: "jpeg_mode (cam t) = jpeg_mode (cam s)"
    by (auto simp: fills_def stable_def dest: conf_eqD)
  have e: "fr_en (frame_at s (ct_frame_pos s))" "fr_en (frame_at t (ct_frame_pos t))"
    using g gt F(3) CAM_STATE_READ_BUF by (auto simp: good_def filling_def)
  have "\<exists>q'. keeps n q q' H t s' \<and> (q' = q \<and> \<not> (ev = CAM_VSYNC_EVENT \<and> jpeg_mode (cam t) \<and> ct_cnt t \<noteq> 0) \<or>
      q' = enqueued n q (ct_frame_pos t))"
  proof (cases ev)
    case CAM_IN_SUC_EOF_EVENT
    then have "run_state (task_eof env (ct_frame_pos t)) t = (x, s')"
      using r t F CAM_STATE_READ_BUF by (simp add: cam_task_def run_simps)
    from task_eof_good [OF gt F(3) this] show ?thesis
      using fills_keeps [OF _ e(2) gt] ok h CAM_IN_SUC_EOF_EVENT by auto
  next
    case CAM_VSYNC_EVENT
    then have "run_state (task_vsync env (ct_frame_pos t)) t = (x, s')"
      using r t F CAM_STATE_READ_BUF by (simp add: cam_task_def run_simps)
    from task_vsync_good [OF gt F(3) this] show ?thesis using ok h by auto
  qed
  then obtain q' where q': "keeps n q q' H t s'"
    "q' = q \<and> \<not> (ev = CAM_VSYNC_EVENT \<and> jpeg_mode (cam s) \<and> ct_cnt s \<noteq> 0) \<or> q' = enqueued n q (ct_frame_pos s)"
    using F(2,4) j by auto
  then have "keeps n q q H s t"
    using F e g h by (intro fills_keeps) (auto simp: keeps_def fills_def)
  then show ?thesis using q' h by (auto simp: keeps_def intro!: exI [where x = q'])
qed

lemma do_step_good:
  assumes "good n q H s" "run_state (do_step env st) s = (x, s')"
    and "queue_ok (frame_buffer_queue (cam s)) (trace s')"
  shows "\<exists>q'. keeps n q q' H s s'"
proof (cases st)
  case (Task_turn ev)
  then show ?thesis using cam_task_good assms by (metis do_step.simps(3))
qed (use assms harmless_keeps harmless_isr in \<open>metis do_step.simps(1,2)\<close>)+

end
