(* ===== verification/CamTake.thy ===== *)
theory CamTake
  imports FramePool
begin

text \<open>
  The application's side of the frame pool: taking a frame (with whatever the camera task does
  meanwhile), giving it back, and the invariant over every interleaving of these steps.  The
  properties at the end are stated for every reachable state.
\<close>

section \<open>Steps that happen while the application waits\<close>

lemma appends_lcd [appends_intros]: "appends (lcd_cam env f v)" "appends (gdma env g v)"
  by (simp_all add: quiet_lcd_cam quiet_gdma appends_quiet)

lemma appends_send_event [appends_intros]: "appends (ll_cam_send_event env ev)"
  unfolding ll_cam_send_event_def by (intro appends_intros)

lemma appends_cam_give [appends_intros]: "appends (cam_give i)"
  unfolding cam_give_def by (intro appends_intros)

lemma appends_send_frame [appends_intros]: "appends (send_frame env p)"
  unfolding send_frame_def Let_def by (intro appends_intros)

lemma appends_copy [appends_intros]: "appends (copy_half env p)" "appends (dma_fills_frame env p)"
  unfolding copy_half_def dma_fills_frame_def Let_def by (intro appends_intros)+

lemma appends_cam_task [appends_intros]: "appends (cam_task env ev)"
  unfolding cam_task_def task_eof_def task_vsync_def finish_frame_def Let_def
  by (auto intro!: appends_intros appends_start split: cam_state_t.split cam_event_t.split)

lemma appends_do_step [appends_intros]: "appends (do_step env st)"
  by (cases st) (auto simp: ll_cam_vsync_isr_def ll_cam_dma_isr_def intro!: appends_intros)

lemma appends_do_steps [appends_intros]: "appends (do_steps env sts)"
  by (induction sts) (auto intro!: appends_intros)

lemma appends_background [appends_intros]: "appends (background env arrive)"
  unfolding background_def by (intro appends_intros)

lemma appends_receive [appends_intros]: "appends (receive_frame env arrive t)"
  unfolding receive_frame_def by (intro appends_intros)

lemma carries_refl:
  "good n q H s \<Longrightarrow> queue_ok (frame_buffer_queue (cam s)) (trace s) \<Longrightarrow> carries n q H s s"
  by (simp add: carries_def)

lemma carries_queue: "carries n q H s s' \<Longrightarrow> frame_buffer_queue (cam s') = frame_buffer_queue (cam s)"
  by (auto simp: carries_def dest: conf_eqD)

lemma do_steps_good:
  assumes "good n q H s" "run_state (do_steps env sts) s = (x, s')"
    and "queue_ok (frame_buffer_queue (cam s)) (trace s')"
  shows "\<exists>q'. carries n q' H s s'"
  using assms
proof (induction sts arbitrary: q s)
  case Nil
  then show ?case by (auto simp: run_simps intro!: exI [where x = q] carries_refl)
next
  case (Cons st sts)
  obtain y t where t: "run_state (do_step env st) s = (y, t)" "run_state (do_steps env sts) t = (x, s')"
    using Cons.prems(2) by (auto simp: run_simps split: prod.splits)
  have "queue_ok (frame_buffer_queue (cam s)) (trace t)"
    using Cons.prems(3) by (rule appends_queue_ok [OF _ t(2), rotated]) (intro appends_intros)
  from do_step_good [OF Cons.prems(1) t(1) this] obtain q' where q': "carries n q' H s t"
    using keeps_carries by blast
  then obtain q'' where "carries n q'' H t s'"
    using Cons.IH [OF carries_good t(2)] Cons.prems(3) carries_queue [OF q'] by metis
  then show ?case using carries_trans [OF q'] by blast
qed

lemma background_good:
  assumes "good n q H s" "run_state (background env arrive) s = (x, s')"
    and "queue_ok (frame_buffer_queue (cam s)) (trace s')"
  shows "\<exists>q'. carries n q' H s s'"
  using do_steps_good [OF assms(1), of env _ x s'] assms(2,3) by (auto simp: background_def run_simps)

section \<open>Receiving a frame\<close>

text \<open>\<open>received q' H s s' res\<close>: the outcome of waiting for a frame.\<close>

definition taken :: "nat \<Rightarrow> nat list \<Rightarrow> nat set \<Rightarrow> 'z cam_vars_scheme \<Rightarrow> 'z cam_vars_scheme \<Rightarrow> nat option \<Rightarrow> bool" where
  "taken n q' H s s' res \<longleftrightarrow>
     good n q' (H \<union> set_option res) s' \<and> conf (cam s') = conf (cam s) \<and>
     queue_ok (frame_buffer_queue (cam s)) (trace s) \<and>
     (\<forall>i \<in> H. frame_at s' i = frame_at s i) \<and>
     (\<forall>i. res = Some i \<longrightarrow> i \<notin> H)"

lemma receive_frame_good:
  assumes g: "good n q H s" and r: "run_state (receive_frame env arrive t) s = (res, s')"
    and ok: "queue_ok (frame_buffer_queue (cam s)) (trace s')"
  shows "\<exists>q'. taken n q' H s s' res \<and>
           (\<forall>i. res = Some i \<and> \<not> psram_mode (cam s) \<and> jpeg_mode (cam s) \<longrightarrow> has_soi (fr_fb (frame_at s' i)))"
proof -
  let ?h = "frame_buffer_queue (cam s)"
  obtain y u where u: "run_state (background env arrive) s = (y, u)" by (meson surj_pair)
  define rr where "rr = env (length (trace u)) (Cam (Queue_receive (frame_buffer_queue (cam u)) t))"
  have "run_state (receive_frame env arrive t) s = (if 0 < rval rr then Some (nat (rval rr) - 1) else None,
      u\<lparr>trace := trace u @ [(Cam (Queue_receive (frame_buffer_queue (cam u)) t), rr)]\<rparr>)"
    by (simp add: receive_frame_def run_simps u flip: rr_def)
  note eq = trans [OF r [symmetric] this]
  have s': "s' = u\<lparr>trace := trace u @ [(Cam (Queue_receive (frame_buffer_queue (cam u)) t), rr)]\<rparr>"
    and res: "res = (if 0 < rval rr then Some (nat (rval rr) - 1) else None)"
    using eq by (simp_all only: prod.inject)
  have "queue_ok ?h (trace u)" using ok s' by simp
  then obtain q1 where q1: "carries n q1 H s u" using background_good [OF g u] by blast
  then have gu: "good n q1 H u" and cu: "conf (cam u) = conf (cam s)" by (auto simp: carries_def)
  note h = carries_queue [OF q1]
  have qs: "queue_state ?h (trace u) = Some (n, q1)" using gu h by (auto simp: good_def pool_def)
  show ?thesis
  proof (cases q1)
    case Nil
    then have "rval rr = 0" using ok s' h qs by simp
    then show ?thesis
      using q1 gu res h cu unfolding s'
      by (auto simp: taken_def carries_def good_def pool_def filling_def frames_ok_def receiving_ok_def
          intro!: exI [where x = q1])
  next
    case (Cons i q')
    then have rr: "rval rr = int (Suc i)" using ok s' h qs by simp
    have "pool n q' (insert i H) s'"
      using pool_drop_oldest [of n i q' H u rr t] gu rr Cons unfolding s' by (simp add: good_def)
    moreover have "i \<notin> H" "has_soi (fr_fb (frame_at s' i)) \<or> psram_mode (cam s) \<or> \<not> jpeg_mode (cam s)"
      using gu Cons conf_eqD [OF cu] unfolding s' by (auto simp: good_def pool_def frames_ok_def)
    ultimately show ?thesis
      using q1 gu res rr Cons cu unfolding s'
      by (auto simp: taken_def carries_def good_def filling_def frames_ok_def receiving_ok_def
          intro!: exI [where x = q'])
  qed
qed

section \<open>Changing and returning a held frame\<close>

lemma good_put_held:
  assumes g: "good n q H s" and i: "i \<in> H"
    and fr: "fr_en fr = fr_en (frame_at s i)"
      "\<not> psram_mode (cam s) \<Longrightarrow> fb_len (fr_fb fr) \<le> fb_size (cam s) \<and> fb_size (cam s) \<le> length (fb_bytes (fr_fb fr))"
  shows "good n q H (put i fr s)"
proof -
  have p: "pool n q H s" using g by (simp add: good_def)
  have ib: "i < frame_cnt (cam s)" "i \<notin> set q" "\<not> fr_en (frame_at s i)" using p i by (auto simp: pool_def)
  have "cam_state (cam s) = CAM_STATE_READ_BUF \<Longrightarrow> ct_frame_pos s \<noteq> i"
    using g ib by (auto simp: good_def filling_def)
  then show ?thesis
    using pool_put_fb [OF p fr(1) ib(1)] g ib fr p
    by (auto simp: good_def filling_def frames_ok_def receiving_ok_def pool_def)
qed

lemma cam_give_good:
  assumes g: "good n q (insert i H) s" "i \<notin> H" and r: "run_state (cam_give i) s = (x, s')"
  shows "good n q H s' \<and> conf (cam s') = conf (cam s) \<and> trace s' = trace s \<and>
         (\<forall>j. j \<noteq> i \<longrightarrow> frame_at s' j = frame_at s j)"
proof -
  have p: "pool n q (insert i H) s" using g by (simp add: good_def)
  then have s': "s' = put i ((frame_at s i)\<lparr>fr_en := True\<rparr>) s"
    using r by (auto simp: run_cam_give pool_def)
  have "pool n q H s'" unfolding s' using pool_enable [OF p g(2)] .
  then show ?thesis
    using g p unfolding s' by (auto simp: good_def filling_def frames_ok_def receiving_ok_def pool_def)
qed

section \<open>The end marker\<close>

lemma eoi_down_found:
  "0 \<le> eoi_down b d \<Longrightarrow>
     0 < nat (eoi_down b d) \<and> nat (eoi_down b d) \<le> d \<and> slice (nat (eoi_down b d)) 2 b = JPEG_EOI_MARKER"
  by (induction b d rule: eoi_down.induct) (auto split: if_splits)

text \<open>The image a frame holds, and what the driver promises about it in JPEG mode.\<close>

definition image :: "camera_fb_t \<Rightarrow> byte list" where
  "image b = take (fb_len b) (fb_bytes b)"

definition jpeg_image :: "byte list \<Rightarrow> bool" where
  "jpeg_image bs \<longleftrightarrow> 4 \<le> length bs \<and> take 3 bs = JPEG_SOI_MARKER \<and>
     drop (length bs - 2) bs = JPEG_EOI_MARKER"

lemma jpeg_image_cut:
  assumes soi: "has_soi b" and len: "fb_len b \<le> length (fb_bytes b)"
    and off: "0 \<le> cam_verify_jpeg_eoi (fb_bytes b) (fb_len b)"
  shows "let k = nat (cam_verify_jpeg_eoi (fb_bytes b) (fb_len b)) + 2
         in k \<le> fb_len b \<and> jpeg_image (image (b\<lparr>fb_len := k\<rparr>))"
proof -
  define e where "e = nat (cam_verify_jpeg_eoi (fb_bytes b) (fb_len b))"
  have e: "0 < e" "e + 2 \<le> fb_len b" "slice e 2 (fb_bytes b) = JPEG_EOI_MARKER"
    using eoi_down_found [of "fb_bytes b" "fb_len b - 2"] off
    by (auto simp: cam_verify_jpeg_eoi_def e_def)
  have s3: "take 3 (fb_bytes b) = [0xFF, 0xD8, 0xFF]"
    using soi by (simp add: has_soi_def slice_def JPEG_SOI_MARKER_def)
  have "e \<noteq> 1"
  proof
    assume "e = 1"
    then have "fb_bytes b ! 1 = 0xFF"
      using e len by (auto simp: slice_def JPEG_EOI_MARKER_def dest: arg_cong [where f = hd] simp: hd_drop_conv_nth)
    moreover have "fb_bytes b ! 1 = 0xD8" using s3 by (metis nth_Cons_0 nth_Cons_Suc nth_take One_nat_def one_less_numeral_iff semiring_norm(77))
    ultimately show False by simp
  qed
  then have "4 \<le> e + 2" using e by simp
  moreover have "length (take (e + 2) (fb_bytes b)) = e + 2" using e len by simp
  ultimately have "jpeg_image (take (e + 2) (fb_bytes b))"
    using e s3
    by (simp del: length_take add: jpeg_image_def JPEG_SOI_MARKER_def slice_def min_def drop_take)
  then show ?thesis using e by (simp add: image_def Let_def e_def)
qed

section \<open>Taking a frame\<close>

definition wait_frame :: "fw_env \<Rightarrow> arrivals \<Rightarrow> u32 \<Rightarrow> ('z cam_vars_scheme, nat option) state" where
  "wait_frame env arrive t = do {
     x \<leftarrow> receive_frame env arrive t;
     case x of Some i \<Rightarrow> return (Some i)
     | None \<Rightarrow> do { ll_cam_dma_reset env; receive_frame env arrive t }
   }"

lemma appends_wait [appends_intros]: "appends (wait_frame env arrive t)"
  unfolding wait_frame_def by (intro appends_intros)

definition soi_if_jpeg :: "'z cam_vars_scheme \<Rightarrow> 'z cam_vars_scheme \<Rightarrow> nat option \<Rightarrow> bool" where
  "soi_if_jpeg s s' res \<longleftrightarrow>
     (\<forall>i. res = Some i \<and> \<not> psram_mode (cam s) \<and> jpeg_mode (cam s) \<longrightarrow> has_soi (fr_fb (frame_at s' i)))"

lemma taken_trans:
  "taken n q H s t None \<Longrightarrow> taken n q' H t u res \<Longrightarrow> taken n q' H s u res"
  by (auto simp: taken_def)

lemma taken_quiet:
  assumes "quiet m" "run_state m s = (x, t)" "good n q H s" "queue_ok (frame_buffer_queue (cam s)) (trace s)"
  shows "taken n q H s t None"
proof -
  from quiet_run [OF assms(1,2)] obtain tr where "t = s\<lparr>trace := trace s @ tr\<rparr>" "quiet_tr tr" .
  then show ?thesis using assms(3,4) by (simp add: taken_def good_trace)
qed

lemma wait_frame_good:
  assumes g: "good n q H s" and r: "run_state (wait_frame env arrive t) s = (res, s')"
    and ok: "queue_ok (frame_buffer_queue (cam s)) (trace s')"
  shows "\<exists>q'. taken n q' H s s' res \<and> soi_if_jpeg s s' res"
proof -
  obtain x u where u: "run_state (receive_frame env arrive t) s = (x, u)" by (meson surj_pair)
  show ?thesis
  proof (cases x)
    case (Some i)
    then have "res = x" "s' = u" using r u by (auto simp: wait_frame_def run_simps)
    then show ?thesis using receive_frame_good [OF g u] ok by (auto simp: soi_if_jpeg_def)
  next
    case None
    obtain y v where v: "run_state (ll_cam_dma_reset env) u = (y, v)" by (meson surj_pair)
    have w: "run_state (receive_frame env arrive t) v = (res, s')"
      using r u None v by (simp add: wait_frame_def run_simps)
    have okv: "queue_ok (frame_buffer_queue (cam s)) (trace v)"
      using ok by (rule appends_queue_ok [OF _ w, rotated]) (intro appends_intros)
    have oku: "queue_ok (frame_buffer_queue (cam s)) (trace u)"
      using okv by (rule appends_queue_ok [OF _ v, rotated]) (intro appends_intros)
    obtain q1 where q1: "taken n q1 H s u None" using receive_frame_good [OF g u oku] None by blast
    then have gu: "good n q1 H u" and cu: "conf (cam u) = conf (cam s)" by (auto simp: taken_def)
    note cu' = conf_eqD [OF cu]
    have q2: "taken n q1 H u v None" using taken_quiet [OF quiet_ll_cam(1) v gu] oku cu' by simp
    then have gv: "good n q1 H v" and cv: "conf (cam v) = conf (cam u)" by (auto simp: taken_def)
    obtain q3 where "taken n q3 H v s' res \<and> soi_if_jpeg v s' res"
      using receive_frame_good [OF gv w] ok conf_eqD [OF cv] cu' unfolding soi_if_jpeg_def by metis
    then show ?thesis
      using taken_trans [OF taken_trans [OF q1 q2]] cu' conf_eqD [OF cv]
      by (auto simp: soi_if_jpeg_def)
  qed
qed

text \<open>What the application gets.\<close>

definition jpeg_if_jpeg :: "'z cam_vars_scheme \<Rightarrow> 'z cam_vars_scheme \<Rightarrow> nat option \<Rightarrow> bool" where
  "jpeg_if_jpeg s s' res \<longleftrightarrow>
     (\<forall>i. res = Some i \<and> \<not> psram_mode (cam s) \<and> jpeg_mode (cam s) \<longrightarrow>
        jpeg_image (image (fr_fb (frame_at s' i))))"

text \<open>What \<open>cam_take\<close> does with the outcome of the wait.\<close>

definition take_rest ::
  "fw_env \<Rightarrow> arrivals \<Rightarrow> nat \<Rightarrow> u32 \<Rightarrow> ret \<Rightarrow> nat option \<Rightarrow> ('z cam_vars_scheme, nat option option) state" where
  "take_rest env arrive n timeout start y =
     (case y of None \<Rightarrow> return (Some None)
       | Some i \<Rightarrow> do {
         s \<leftarrow> get_state;
         let c = cam s;
         let b = fr_fb (frame_at s i);
         if jpeg_mode c then
           let offset_e = cam_verify_jpeg_eoi (fb_bytes b) (fb_len b)
           in if 0 \<le> offset_e then do {
                upd_fb i (\<lambda>b. b\<lparr>fb_len := nat offset_e + 2\<rparr>);
                return (Some (Some i))
              } else do {
                cam_give i;
                now \<leftarrow> call env (Os Tick_count);
                let ticks_spent = (word_of_int (rval now) - word_of_int (rval start) :: u32);
                if timeout \<le> ticks_spent then return (Some None)
                else cam_take env arrive n (timeout - ticks_spent)
              }
         else do {
           do_when (psram_mode c \<and> in_bytes_per_pixel c \<noteq> fb_bytes_per_pixel c) (
             let cp = ll_cam_memcpy_in_place c (fb_bytes b) (fb_len b)
             in upd_fb i (\<lambda>b. b\<lparr>fb_bytes := fst cp, fb_len := snd cp\<rparr>));
           return (Some (Some i))
         }
       })"

lemma cam_take_Suc:
  "cam_take env arrive (Suc n) timeout =
     do {
       start \<leftarrow> call env (Os Tick_count);
       y \<leftarrow> wait_frame env arrive timeout;
       take_rest env arrive n timeout start y
     }"
  by (simp add: wait_frame_def take_rest_def State_Monad.bind_assoc cong: option.case_cong)

declare cam_take.simps(2) [simp del]

lemma appends_cam_take [appends_intros]: "appends (cam_take env arrive n t)"
  by (induction n arbitrary: t) (auto simp: cam_take_Suc take_rest_def Let_def intro!: appends_intros)

lemma appends_take_rest [appends_intros]: "appends (take_rest env arrive n t start y)"
  by (auto simp: take_rest_def Let_def intro!: appends_intros)

text \<open>A frame with an end marker is cut there.\<close>

lemma take_jpeg:
  assumes t: "taken n q H s u (Some i)" and soi: "soi_if_jpeg s u (Some i)"
    and off: "off = cam_verify_jpeg_eoi (fb_bytes (fr_fb (frame_at u i))) (fb_len (fr_fb (frame_at u i)))"
      "0 \<le> off"
    and s': "s' = put i ((frame_at u i)\<lparr>fr_fb := (fr_fb (frame_at u i))\<lparr>fb_len := nat off + 2\<rparr>\<rparr>) u"
  shows "taken n q H s s' (Some i) \<and> jpeg_if_jpeg s s' (Some i)"
proof -
  let ?b = "fr_fb (frame_at u i)"
  have g: "good n q (insert i H) u" and cu: "conf (cam u) = conf (cam s)" and i: "i \<notin> H"
    using t by (auto simp: taken_def)
  then have ib: "i < frame_cnt (cam u)" "cam_obj u \<noteq> None" "length (frames (cam u)) = frame_cnt (cam u)"
    by (auto simp: good_def pool_def)
  have bound: "fb_len ?b \<le> fb_size (cam u) \<and> fb_size (cam u) \<le> length (fb_bytes ?b)" if "\<not> psram_mode (cam u)"
    using g ib that by (auto simp: good_def frames_ok_def)
  have k: "nat off + 2 \<le> fb_len ?b"
    using eoi_down_found [of "fb_bytes ?b" "fb_len ?b - 2"] off by (auto simp: cam_verify_jpeg_eoi_def)
  have "good n q (insert i H) s'"
    unfolding s' using g bound k by (intro good_put_held) auto
  moreover have "jpeg_if_jpeg s s' (Some i)"
    using soi bound jpeg_image_cut [of "fr_fb (frame_at u i)"] off ib conf_eqD [OF cu] unfolding s'
    by (auto simp: jpeg_if_jpeg_def soi_if_jpeg_def Let_def)
  ultimately show ?thesis using t i ib unfolding s' by (auto simp: taken_def)
qed

text \<open>A frame without end marker is given back at once.\<close>

lemma take_give_back:
  assumes t: "taken n q H s u (Some i)" and r: "run_state (cam_give i) u = (x, v)"
  shows "taken n q H s v None"
proof -
  have g: "good n q (insert i H) u" and i: "i \<notin> H" using t by (auto simp: taken_def)
  note G = cam_give_good [OF g i r]
  have "frame_at v j = frame_at s j" if "j \<in> H" for j
    using that i G t by (auto simp: taken_def)
  then show ?thesis using G t by (auto simp: taken_def)
qed

text \<open>A frame of an uncompressed format is handed over, converted in place where the mode needs it.\<close>

lemma take_raw:
  assumes t: "taken n q H s u (Some i)" and raw: "\<not> jpeg_mode (cam u)"
    and r: "run_state (take_rest env arrive fuel timeout start (Some i)) u = (Some res, s')"
  shows "res = Some i \<and> taken n q H s s' res \<and> jpeg_if_jpeg s s' res"
proof -
  have g: "good n q (insert i H) u" and cu: "conf (cam u) = conf (cam s)" and i: "i \<notin> H"
    using t by (auto simp: taken_def)
  then have ib: "i < frame_cnt (cam u)" "cam_obj u \<noteq> None" "length (frames (cam u)) = frame_cnt (cam u)"
    by (auto simp: good_def pool_def)
  have "res = Some i" "s' = u \<or> psram_mode (cam u) \<and>
      (\<exists>b. s' = put i ((frame_at u i)\<lparr>fr_fb := b\<rparr>) u)"
    using r raw by (auto simp: take_rest_def run_simps Let_def split: if_splits)
  moreover have "good n q (insert i H) (put i ((frame_at u i)\<lparr>fr_fb := b\<rparr>) u)" if "psram_mode (cam u)" for b
    using g that by (intro good_put_held) auto
  ultimately show ?thesis
    using t i ib raw conf_eqD [OF cu] by (auto simp: taken_def jpeg_if_jpeg_def)
qed

lemma take_rest_good:
  assumes t: "taken n q H s u y" "soi_if_jpeg s u y"
    and r: "run_state (take_rest env arrive fuel timeout start y) u = (Some res, s')"
    and ok: "queue_ok (frame_buffer_queue (cam s)) (trace s')"
    and IH: "\<And>q s timeout. good n q H s \<Longrightarrow> run_state (cam_take env arrive fuel timeout) s = (Some res, s') \<Longrightarrow>
      queue_ok (frame_buffer_queue (cam s)) (trace s') \<Longrightarrow>
      \<exists>q'. taken n q' H s s' res \<and> jpeg_if_jpeg s s' res"
  shows "\<exists>q'. taken n q' H s s' res \<and> jpeg_if_jpeg s s' res"
proof (cases y)
  case None
  then show ?thesis using t r by (auto simp: take_rest_def run_simps jpeg_if_jpeg_def)
next
  case (Some i)
  have cu: "conf (cam u) = conf (cam s)" using t by (auto simp: taken_def)
  let ?off = "cam_verify_jpeg_eoi (fb_bytes (fr_fb (frame_at u i))) (fb_len (fr_fb (frame_at u i)))"
  consider (raw) "\<not> jpeg_mode (cam u)" | (cut) "jpeg_mode (cam u)" "0 \<le> ?off"
    | (returned) "jpeg_mode (cam u)" "?off < 0" by linarith
  then show ?thesis
  proof cases
    case raw
    then show ?thesis using take_raw t r Some by metis
  next
    case cut
    then have "res = Some i" "s' = put i ((frame_at u i)\<lparr>fr_fb := (fr_fb (frame_at u i))\<lparr>fb_len := nat ?off + 2\<rparr>\<rparr>) u"
      using r Some by (auto simp: take_rest_def run_simps Let_def)
    then show ?thesis using take_jpeg [of n q H s u i ?off s'] t Some cut(2) by blast
  next
    case returned
    obtain x v where v: "run_state (cam_give i) u = (x, v)" by (meson surj_pair)
    obtain t1 w where w: "run_state (call env (Os Tick_count)) v = (t1, w)" by (meson surj_pair)
    have v0: "taken n q H s v None" using take_give_back [OF _ v] t Some by blast
    then have gv: "good n q H v" and cv: "conf (cam v) = conf (cam s)" by (auto simp: taken_def)
    have rest: "res = None \<and> s' = w \<or> (\<exists>t'. run_state (cam_take env arrive fuel t') w = (Some res, s'))"
      using r Some returned v w by (auto simp: take_rest_def run_simps Let_def split: if_splits)
    then have "queue_ok (frame_buffer_queue (cam s)) (trace w)"
      using ok appends_queue_ok [OF appends_cam_take] by metis
    then have "queue_ok (frame_buffer_queue (cam s)) (trace v)"
      by (rule appends_queue_ok [OF _ w, rotated]) (intro appends_intros)
    then have "taken n q H v w None"
      using taken_quiet [OF _ w gv] conf_eqD [OF cv] by (simp add: quiet_call)
    then have w0: "taken n q H s w None" using taken_trans [OF v0] by blast
    then have gw: "good n q H w" and cw: "conf (cam w) = conf (cam s)" by (auto simp: taken_def)
    from rest show ?thesis
    proof
      assume "res = None \<and> s' = w"
      then show ?thesis using w0 by (auto simp: jpeg_if_jpeg_def)
    next
      assume "\<exists>t'. run_state (cam_take env arrive fuel t') w = (Some res, s')"
      then obtain q' where "taken n q' H w s' res \<and> jpeg_if_jpeg w s' res"
        using IH [OF gw] ok conf_eqD [OF cw] by metis
      then show ?thesis
        using taken_trans [OF w0] conf_eqD [OF cw] by (auto simp: jpeg_if_jpeg_def)
    qed
  qed
qed

lemma cam_take_good:
  assumes "good n q H s" "run_state (cam_take env arrive fuel timeout) s = (Some res, s')"
    and "queue_ok (frame_buffer_queue (cam s)) (trace s')"
  shows "\<exists>q'. taken n q' H s s' res \<and> jpeg_if_jpeg s s' res"
  using assms
proof (induction fuel arbitrary: q s timeout)
  case (Suc fuel)
  let ?h = "frame_buffer_queue (cam s)"
  obtain t0 s0 where s0: "run_state (call env (Os Tick_count)) s = (t0, s0)" by (meson surj_pair)
  obtain y u where u: "run_state (wait_frame env arrive timeout) s0 = (y, u)" by (meson surj_pair)
  have rest: "run_state (take_rest env arrive fuel timeout t0 y) u = (Some res, s')"
    using Suc.prems(2) s0 u by (simp add: cam_take_Suc run_basic)
  have oku: "queue_ok ?h (trace u)"
    using Suc.prems(3) by (rule appends_queue_ok [OF _ rest, rotated]) (intro appends_intros)
  have ok0: "queue_ok ?h (trace s0)"
    using oku by (rule appends_queue_ok [OF _ u, rotated]) (intro appends_intros)
  have "queue_ok ?h (trace s)"
    using ok0 by (rule appends_queue_ok [OF _ s0, rotated]) (intro appends_intros)
  then have q0: "taken n q H s s0 None"
    using taken_quiet [OF _ s0 Suc.prems(1)] by (simp add: quiet_call)
  then have g0: "good n q H s0" and c0: "conf (cam s0) = conf (cam s)" by (auto simp: taken_def)
  obtain q1 where "taken n q1 H s0 u y" "soi_if_jpeg s0 u y"
    using wait_frame_good [OF g0 u] oku conf_eqD [OF c0] by metis
  then have "taken n q1 H s u y" "soi_if_jpeg s u y"
    using taken_trans [OF q0] conf_eqD [OF c0] by (auto simp: soi_if_jpeg_def)
  from take_rest_good [OF this rest Suc.prems(3)] Suc.IH show ?case by blast
qed (simp add: run_simps)

section \<open>Every interleaving\<close>

text \<open>The states of a configured camera under any sequence of interrupts, task turns, takes and gives,
  with the set of frames the application holds.\<close>

inductive camera_run :: "fw_env \<Rightarrow> arrivals \<Rightarrow> int \<Rightarrow> nat \<Rightarrow> 'z cam_vars_scheme \<Rightarrow> nat set \<Rightarrow> bool"
  for env arrive h n where
  ready: "pool n [] {} s \<Longrightarrow> frames_ok [] s \<Longrightarrow> cam_state (cam s) = CAM_STATE_IDLE \<Longrightarrow>
    frame_buffer_queue (cam s) = h \<Longrightarrow> camera_run env arrive h n s {}"
| step: "camera_run env arrive h n s H \<Longrightarrow> run_state (do_step env st) s = (x, s') \<Longrightarrow>
    camera_run env arrive h n s' H"
| take: "camera_run env arrive h n s H \<Longrightarrow> run_state (cam_take env arrive fuel t) s = (Some res, s') \<Longrightarrow>
    camera_run env arrive h n s' (H \<union> set_option res)"
| give: "camera_run env arrive h n s H \<Longrightarrow> i \<in> H \<Longrightarrow> run_state (cam_give i) s = (x, s') \<Longrightarrow>
    camera_run env arrive h n s' (H - {i})"

lemma camera_run_good:
  assumes "camera_run env arrive h n s H" "queue_ok h (trace s)"
  shows "\<exists>q. good n q H s \<and> frame_buffer_queue (cam s) = h"
  using assms
proof (induction rule: camera_run.induct)
  case (ready s)
  then show ?case by (auto simp: good_def filling_def receiving_ok_def)
next
  case (step s H st x s')
  have "queue_ok h (trace s)"
    using step.prems by (rule appends_queue_ok [OF appends_do_step step.hyps(2)])
  then obtain q where "good n q H s" "frame_buffer_queue (cam s) = h" using step.IH by blast
  then show ?case
    using do_step_good [OF _ step.hyps(2)] step.prems unfolding keeps_def by (metis conf_eqD(1))
next
  case (take s H fuel t res s')
  have "queue_ok h (trace s)"
    using take.prems by (rule appends_queue_ok [OF appends_cam_take take.hyps(2)])
  then obtain q where "good n q H s" "frame_buffer_queue (cam s) = h" using take.IH by blast
  then show ?case
    using cam_take_good [OF _ take.hyps(2)] take.prems unfolding taken_def by (metis conf_eqD(1))
next
  case (give s H i x s')
  have "queue_ok h (trace s)"
    using give.prems by (rule appends_queue_ok [OF appends_cam_give give.hyps(3)])
  then obtain q where "good n q (insert i (H - {i})) s" "frame_buffer_queue (cam s) = h"
    using give.IH give.hyps(2) by (auto simp: insert_absorb)
  then show ?case
    using cam_give_good [OF _ _ give.hyps(3)] by (metis DiffD2 conf_eqD(1) singletonI)
qed

section \<open>A concrete camera\<close>

text \<open>Two frame buffers of one half buffer each, JPEG mode, queue 7 of capacity 1; an environment in
  which the sensor delivers one short picture.\<close>

definition demo_frame :: cam_frame_t where
  "demo_frame = zero_frame\<lparr>fr_fb := zero_fb\<lparr>fb_bytes := replicate 8 0\<rparr>, fr_en := True\<rparr>"

definition demo_cam :: cam_obj_t where
  "demo_cam = zero_cam\<lparr>dma_bytes_per_item := 1, dma_half_buffer_size := 8, dma_half_buffer_cnt := 2,
     frames := [demo_frame, demo_frame], frame_buffer_queue := 7, jpeg_mode := True, frame_cnt := 2,
     in_bytes_per_pixel := 1, fb_bytes_per_pixel := 1, fb_size := 8\<rparr>"

definition demo_state :: cam_vars where
  "demo_state = \<lparr>trace = [(Cam (Queue_create 1), ret_int 7)], cam_obj = Some demo_cam, ct_cnt = 0,
     ct_frame_pos = 0, s_state = Some zero_sensor, s_state_ptr = 3, sccb_i2c_port = 0, sccb_owns_i2c_port = False, reg_bank = 2,
     ov7670_clkrc = 1\<rparr>"

definition demo_data :: "byte list" where
  "demo_data = JPEG_SOI_MARKER @ [0, 1] @ JPEG_EOI_MARKER"

definition demo_env :: fw_env where
  "demo_env k c =
     (case c of Cam (Dma_memory a n) \<Rightarrow> \<lparr>rval = 0, rerr = ESP_OK, rdata = demo_data\<rparr>
      | Cam (Queue_send q i) \<Rightarrow> ret_int 1
      | Cam (Queue_receive q t) \<Rightarrow> ret_int 1
      | _ \<Rightarrow> ret_int 0)"

lemma demo_start: "camera_run demo_env (\<lambda>k. []) 7 1 demo_state {}"
  by (rule ready)
     (simp_all add: pool_def frames_ok_def geometry_def demo_state_def demo_cam_def demo_frame_def cam_def
        frame_at_def zero_cam_def zero_frame_def zero_fb_def queue_state_def queue_step_def less_2_cases_iff
        all_conj_distrib nth_Cons')

text \<open>VSYNC starts frame 0, a half buffer arrives, VSYNC completes the frame, the application takes it,
  and another half buffer arrives.\<close>

definition demo_started :: cam_vars where
  "demo_started = snd (run_state (do_step demo_env (Task_turn CAM_VSYNC_EVENT)) demo_state)"

definition demo_filled :: cam_vars where
  "demo_filled = snd (run_state (do_step demo_env (Task_turn CAM_IN_SUC_EOF_EVENT)) demo_started)"

definition demo_queued :: cam_vars where
  "demo_queued = snd (run_state (do_step demo_env (Task_turn CAM_VSYNC_EVENT)) demo_filled)"

definition demo_take :: "nat option option \<times> cam_vars" where
  "demo_take = run_state (cam_take demo_env (\<lambda>k. []) 1 400) demo_queued"

definition demo_later :: cam_vars where
  "demo_later = snd (run_state (do_step demo_env (Task_turn CAM_IN_SUC_EOF_EVENT)) (snd demo_take))"

lemma demo_evaluation:
  "let b = demo_filled; c = snd (run_state (do_step demo_env (Task_turn CAM_VSYNC_EVENT)) b);
       d = run_state (cam_take demo_env (\<lambda>k. []) 1 400) c;
       e = snd (run_state (do_step demo_env (Task_turn CAM_IN_SUC_EOF_EVENT)) (snd d))
   in cam_state (cam b) = CAM_STATE_READ_BUF \<and> jpeg_mode (cam b) \<and> ct_cnt b = 1 \<and>
      ct_frame_pos b = 0 \<and> queue_state 7 (trace b) = Some (1, []) \<and>
      queue_ok 7 (trace c) \<and> \<not> psram_mode (cam c) \<and> jpeg_mode (cam c) \<and> frame_cnt (cam c) = 2 \<and>
      fb_size (cam c) = 8 \<and> fst d = Some (Some 0) \<and> queue_ok 7 (trace (snd d)) \<and>
      frame_cnt (cam (snd d)) = 2 \<and> queue_ok 7 (trace e)"
  by code_simp

lemmas demo_facts =
  demo_evaluation [unfolded Let_def, folded demo_queued_def, folded demo_take_def, folded demo_later_def]

lemma run_unit: "run_state (m :: ('s, unit) state) s = ((), snd (run_state m s))"
  by (cases "run_state m s") simp

lemma demo_step: "camera_run demo_env (\<lambda>k. []) 7 1 s H \<Longrightarrow>
    camera_run demo_env (\<lambda>k. []) 7 1 (snd (run_state (do_step demo_env st) s)) H"
  by (rule camera_run.step [OF _ run_unit])

lemma demo_runs:
  "camera_run demo_env (\<lambda>k. []) 7 1 demo_filled {}" "camera_run demo_env (\<lambda>k. []) 7 1 demo_queued {}"
  unfolding demo_queued_def demo_filled_def demo_started_def by (intro demo_step demo_start)+

lemma demo_take_run:
  "run_state (cam_take demo_env (\<lambda>k. []) 1 400) demo_queued = (Some (Some 0), snd demo_take)"
  using demo_facts by (simp add: demo_take_def prod_eq_iff)

lemma demo_taken_run: "camera_run demo_env (\<lambda>k. []) 7 1 (snd demo_take) {0}"
  using camera_run.take [OF demo_runs(2) demo_take_run] by simp

section \<open>Properties\<close>

text \<open>C1 (invariant).  Whatever the order of interrupts, task turns, takes and gives: the frame queue
  holds no frame twice and none the application holds; a frame is enabled for filling exactly when it is
  neither queued nor held; and the frame being received is such a frame, so the driver never writes
  into a picture somebody else owns.  (\<open>queue_ok\<close> is the documented behaviour of FreeRTOS queues.)\<close>

theorem frame_ownership:
  assumes "camera_run env arrive h n s H" "queue_ok h (trace s)"
  shows "\<exists>q. queue_state h (trace s) = Some (n, q) \<and> length q \<le> n \<and> distinct q \<and> set q \<inter> H = {} \<and>
           (\<forall>i < frame_cnt (cam s). fr_en (frame_at s i) \<longleftrightarrow> i \<notin> set q \<union> H) \<and>
           (cam_state (cam s) = CAM_STATE_READ_BUF \<longrightarrow> ct_frame_pos s \<notin> set q \<union> H)"
  using camera_run_good [OF assms] by (auto simp: good_def pool_def filling_def)

theorem frame_ownership_witness:
  "\<exists>q. queue_state 7 (trace (snd demo_take)) = Some (1, q) \<and> distinct q \<and> 0 \<notin> set q \<and>
     \<not> fr_en (frame_at (snd demo_take) 0)"
  using frame_ownership [OF demo_taken_run] demo_facts by auto

text \<open>C4 (safety).  No step of the driver, and no further take, changes a frame the application
  holds.\<close>

theorem held_frames_untouched:
  assumes "camera_run env arrive h n s H" "i \<in> H" "queue_ok h (trace s')"
    and "run_state (do_step env st) s = (x, s') \<or> run_state (cam_take env arrive fuel t) s = (Some res, s')"
  shows "frame_at s' i = frame_at s i"
proof -
  have a: "appends (do_step env st)" "appends (cam_take env arrive fuel t)" by (intro appends_intros)+
  show ?thesis using assms(4)
  proof
    assume r: "run_state (do_step env st) s = (x, s')"
    then obtain q where q: "good n q H s" "frame_buffer_queue (cam s) = h"
      using camera_run_good [OF assms(1) appends_queue_ok [OF a(1) r assms(3)]] by auto
    have "queue_ok (frame_buffer_queue (cam s)) (trace s')" using assms(3) q(2) by simp
    from do_step_good [OF q(1) r this] show ?thesis using assms(2) unfolding keeps_def by blast
  next
    assume r: "run_state (cam_take env arrive fuel t) s = (Some res, s')"
    then obtain q where q: "good n q H s" "frame_buffer_queue (cam s) = h"
      using camera_run_good [OF assms(1) appends_queue_ok [OF a(2) r assms(3)]] by auto
    have "queue_ok (frame_buffer_queue (cam s)) (trace s')" using assms(3) q(2) by simp
    from cam_take_good [OF q(1) r this] show ?thesis using assms(2) unfolding taken_def by blast
  qed
qed

theorem held_frames_untouched_witness:
  "frame_at demo_later 0 = frame_at (snd demo_take) 0"
proof -
  have ok: "queue_ok 7 (trace demo_later)" using demo_facts by simp
  have r: "run_state (do_step demo_env (Task_turn CAM_IN_SUC_EOF_EVENT)) (snd demo_take) = ((), demo_later)"
    unfolding demo_later_def by (rule run_unit)
  from held_frames_untouched [OF demo_taken_run _ ok disjI1 [OF r]] show ?thesis by simp
qed

text \<open>C11 (bounds).  In the copying mode no frame ever gets longer than the configured frame size,
  which its allocation holds: the half-buffer copies stay inside the frame buffer.\<close>

theorem frame_never_overflows:
  assumes "camera_run env arrive h n s H" "queue_ok h (trace s)" "\<not> psram_mode (cam s)"
    and "i < frame_cnt (cam s)"
  shows "fb_len (fr_fb (frame_at s i)) \<le> fb_size (cam s) \<and>
         fb_size (cam s) \<le> length (fb_bytes (fr_fb (frame_at s i)))"
  using camera_run_good [OF assms(1,2)] assms(3,4) by (auto simp: good_def frames_ok_def)

theorem frame_never_overflows_witness:
  "fb_len (fr_fb (frame_at demo_queued 0)) \<le> 8"
  using frame_never_overflows [OF demo_runs(2), of 0] demo_facts by auto

text \<open>C12 (functional).  In JPEG mode (copying), every frame \<open>cam_take\<close> returns was not held before and
  holds a picture that starts with the SOI marker and ends with the EOI marker.\<close>

theorem taken_frames_are_jpeg:
  assumes "camera_run env arrive h n s H" "run_state (cam_take env arrive fuel t) s = (Some (Some i), s')"
    and "queue_ok h (trace s')" "jpeg_mode (cam s)" "\<not> psram_mode (cam s)"
  shows "i \<notin> H \<and> jpeg_image (image (fr_fb (frame_at s' i)))"
proof -
  have "queue_ok h (trace s)"
    using assms(3) by (rule appends_queue_ok [OF appends_cam_take assms(2)])
  then obtain q where "good n q H s" "frame_buffer_queue (cam s) = h"
    using camera_run_good [OF assms(1)] by blast
  then show ?thesis
    using cam_take_good [OF _ assms(2)] assms(3-5) by (auto simp: taken_def jpeg_if_jpeg_def)
qed

theorem taken_frames_are_jpeg_witness:
  "jpeg_image (image (fr_fb (frame_at (snd demo_take) 0)))"
  using taken_frames_are_jpeg [OF demo_runs(2) demo_take_run] demo_facts by simp

text \<open>C14 (liveness).  When a JPEG frame is complete (VSYNC after at least one half buffer), it is at
  the tail of the frame queue after the task's turn; if the queue was full, exactly its oldest frame
  made room.  The branches that report FBQ-SND and FBQ-RCV are never taken.\<close>

theorem completed_frame_is_queued:
  assumes "camera_run env arrive h n s H" "queue_state h (trace s) = Some (n, q)"
    and "run_state (cam_task env CAM_VSYNC_EVENT) s = (x, s')" "queue_ok h (trace s')"
    and "cam_state (cam s) = CAM_STATE_READ_BUF" "jpeg_mode (cam s)" "ct_cnt s \<noteq> 0"
  shows "queue_state h (trace s') = Some (n, (if length q < n then q else tl q) @ [ct_frame_pos s])"
proof -
  have "queue_ok h (trace s)"
    using assms(4) by (rule appends_queue_ok [OF appends_cam_task assms(3)])
  then obtain q' where g: "good n q' H s" "frame_buffer_queue (cam s) = h"
    using camera_run_good [OF assms(1)] by blast
  then have "q' = q" using assms(2) by (simp add: good_def pool_def)
  then show ?thesis
    using cam_task_good [OF g(1) assms(3)] assms(4-7) g(2)
    by (auto simp: keeps_def good_def pool_def enqueued_def dest: conf_eqD(1))
qed

theorem completed_frame_is_queued_witness:
  "queue_state 7 (trace demo_queued) = Some (1, [0])"
proof -
  have "run_state (cam_task demo_env CAM_VSYNC_EVENT) demo_filled = ((), demo_queued)"
    unfolding demo_queued_def do_step.simps by (rule run_unit)
  then show ?thesis
    using completed_frame_is_queued [OF demo_runs(1), of "[]" "()" demo_queued] demo_facts by simp
qed

text \<open>How the trace grows.\<close>

lemma appends_length: "appends m \<Longrightarrow> run_state m s = (x, s') \<Longrightarrow> length (trace s) \<le> length (trace s')"
  unfolding appends_def by (metis le_add1 length_append snd_conv)

lemma receive_dry:
  assumes "\<forall>k\<ge>K. \<forall>h t. rval (env k (Cam (Queue_receive h t))) \<le> 0" "K \<le> length (trace s)"
    and r: "run_state (receive_frame env arrive t) s = (res, s')"
  shows "res = None"
proof -
  obtain y u where u: "run_state (background env arrive) s = (y, u)" by (meson surj_pair)
  have "length (trace s) \<le> length (trace u)" by (rule appends_length [OF appends_background u])
  then have "rval (env (length (trace u)) (Cam (Queue_receive (frame_buffer_queue (cam u)) t))) \<le> 0"
    using assms(1,2) by (meson le_trans)
  then show ?thesis using r u by (auto simp: receive_frame_def run_simps)
qed

lemma wait_dry:
  assumes d: "\<forall>k\<ge>K. \<forall>h t. rval (env k (Cam (Queue_receive h t))) \<le> 0" "K \<le> length (trace s)"
    and r: "run_state (wait_frame env arrive t) s = (res, s')"
  shows "res = None"
proof -
  obtain x u where u: "run_state (receive_frame env arrive t) s = (x, u)" by (meson surj_pair)
  obtain y v where v: "run_state (ll_cam_dma_reset env) u = (y, v)" by (meson surj_pair)
  have "length (trace s) \<le> length (trace v)"
    using appends_length [OF appends_receive u] appends_length [OF appends_ll_cam(1) v] by simp
  moreover have "run_state (receive_frame env arrive t) v = (res, s')"
    using r u v receive_dry [OF d u] by (simp add: wait_frame_def run_basic)
  ultimately show ?thesis using receive_dry [OF d(1)] d(2) by (metis le_trans)
qed

lemma take_rest_cases:
  assumes "run_state (take_rest env arrive fuel t start y) u = (None, s')"
  obtains i v t' where "y = Some i" "run_state (cam_take env arrive fuel t') v = (None, s')"
    "length (trace u) < length (trace v)"
proof -
  obtain i where i: "y = Some i" using assms by (cases y) (auto simp: take_rest_def run_simps)
  let ?u = "if i < frame_cnt (cam u) then put i ((frame_at u i)\<lparr>fr_en := True\<rparr>) u else u"
  let ?v = "snd (run_state (call env (Os Tick_count)) ?u)"
  have "\<exists>t'. run_state (cam_take env arrive fuel t') ?v = (None, s')"
    using assms i
    by (auto simp: take_rest_def run_simps Let_def run_cam_give split: if_splits)
  moreover have "length (trace u) < length (trace ?v)" by (simp add: run_simps)
  ultimately show thesis using that i by blast
qed

text \<open>\<open>cam_take\<close> retries after every frame without end marker; once the frame queue has run dry it returns, after at most
  as many retries as there were calls before.\<close>

lemma cam_take_dry:
  assumes "\<forall>k\<ge>K. \<forall>h t. rval (env k (Cam (Queue_receive h t))) \<le> 0"
    and "K - length (trace s) < fuel"
  shows "\<exists>res s'. run_state (cam_take env arrive fuel timeout) s = (Some res, s')"
  using assms(2)
proof (induction fuel arbitrary: s timeout)
  case (Suc fuel)
  obtain t0 s0 where s0: "run_state (call env (Os Tick_count)) s = (t0, s0)" by (meson surj_pair)
  obtain y u where u: "run_state (wait_frame env arrive timeout) s0 = (y, u)" by (meson surj_pair)
  obtain z s' where z: "run_state (take_rest env arrive fuel timeout t0 y) u = (z, s')" by (meson surj_pair)
  have run: "run_state (cam_take env arrive (Suc fuel) timeout) s = (z, s')"
    using s0 u z by (simp add: cam_take_Suc run_basic)
  have l0: "length (trace s0) = length (trace s) + 1" using s0 by (auto simp: run_simps)
  have lu: "length (trace s0) \<le> length (trace u)" by (rule appends_length [OF appends_wait u])
  show ?case
  proof (cases z)
    case None
    from take_rest_cases [OF z [unfolded None]] obtain i v t' where
      v: "y = Some i" "run_state (cam_take env arrive fuel t') v = (None, s')"
        "length (trace u) < length (trace v)" .
    then have "\<not> K \<le> length (trace s0)" using wait_dry [OF assms(1) _ u] by auto
    then have "K - length (trace v) < fuel" using Suc.prems l0 lu v(3) by linarith
    from Suc.IH [OF this, of t'] v(2) show ?thesis by simp
  qed (use run in blast)
qed simp



end
