(* ===== verification/Uplink.thy ===== *)
theory Uplink
  imports Framing Tcp CamTake
begin

text \<open>
  Sending a block of memory over a TCP socket in pieces.  \<open>stream_one_client\<close> (video, pieces of
  16 KiB) and \<open>send_recording_over_tcp\<close> (recordings, pieces of 4 KiB) have the same loop: it goes on
  after partial sends and gives up when \<open>send\<close> reports an error.  Other tasks run while \<open>send\<close>
  blocks; \<open>wait\<close> is what they do before a call, and \<open>rd\<close> reads the memory that \<open>send\<close> is given.

  The locale \<open>stable_block\<close> is what the loop relies on: the memory does not change while it is sent.
  It is interpreted for the recording buffer and for a camera frame the application holds.
\<close>

text \<open>Each turn that goes on advances \<open>off\<close>, so \<open>len\<close> turns are enough for the loop
  (\<open>send_chunks_spec\<close>).  The result is the final offset, \<open>None\<close> after an error.\<close>

fun send_chunks ::
  "fw_env \<Rightarrow> ((fw_call, 'z) plat_scheme, unit) state \<Rightarrow> ((fw_call, 'z) plat_scheme \<Rightarrow> byte list) \<Rightarrow>
   int \<Rightarrow> nat \<Rightarrow> nat \<Rightarrow> nat \<Rightarrow> nat \<Rightarrow> ((fw_call, 'z) plat_scheme, nat option) state" where
  "send_chunks env wait rd sock cap len 0 off = return (Some off)"
| "send_chunks env wait rd sock cap len (Suc n) off =
     (if len \<le> off then return (Some off)
      else do {
        wait;
        s \<leftarrow> get_state;
        let tosend = (if cap < len - off then cap else len - off);
        r \<leftarrow> call env (Net (Send sock (slice off tosend (rd s))));
        if rval r \<le> 0 then return None
        else send_chunks env wait rd sock cap len n (off + nat (rval r))
      })"

lemma appends_send_chunks [appends_intros]:
  "appends wait \<Longrightarrow> appends (send_chunks env wait rd sock cap len n off)"
proof (induction n arbitrary: off)
  case (Suc n)
  then show ?case unfolding send_chunks.simps Let_def by (intro appends_intros) auto
qed (simp add: appends_intros)

locale stable_block =
  fixes wait :: "((fw_call, 'z) plat_scheme, unit) state"
    and rd :: "(fw_call, 'z) plat_scheme \<Rightarrow> byte list"
    and inv :: "(fw_call, 'z) plat_scheme \<Rightarrow> bool"
    and ok :: "(fw_call \<times> ret) list \<Rightarrow> bool"
  assumes wait_appends: "appends wait"
    and ok_prefix: "ok (tr @ tr') \<Longrightarrow> ok tr"
    and wait_stable: "inv s \<Longrightarrow> run_state wait s = (x, s') \<Longrightarrow> ok (trace s') \<Longrightarrow>
           inv s' \<and> rd s' = rd s \<and> sent k (trace s') = sent k (trace s)"
    and send_stable: "inv s \<Longrightarrow> inv (s\<lparr>trace := trace s @ [(Net (Send k bs), r)]\<rparr>) \<and>
           rd (s\<lparr>trace := trace s @ [(Net (Send k bs), r)]\<rparr>) = rd s"
begin

lemma appends_ok: "appends m \<Longrightarrow> run_state m s = (x, s') \<Longrightarrow> ok (trace s') \<Longrightarrow> ok (trace s)"
  using ok_prefix unfolding appends_def by (metis snd_conv)

text \<open>What is on the wire afterwards: the whole rest of the block after success, a proper prefix of it
  after an error.\<close>

lemma send_chunks_spec:
  assumes "run_state (send_chunks env wait rd sock cap len n off) s = (res, s')" "ok (trace s')"
    and "inv s" "len = length (rd s)" "off \<le> len" "len - off \<le> n"
    and "send_bounded env" "0 < cap"
  shows "inv s' \<and> rd s' = rd s \<and>
    (\<exists>k. sent sock (trace s') = sent sock (trace s) @ slice off k (rd s) \<and>
       (res = Some len \<and> k = len - off \<or> res = None \<and> off + k < len))"
  using assms
proof (induction n arbitrary: off s)
  case 0
  then show ?case by (simp add: run_simps slice_def)
next
  case (Suc n)
  show ?case
  proof (cases "len \<le> off")
    case True
    then show ?thesis using Suc.prems by (simp add: run_simps slice_def)
  next
    case False
    define m where "m = (if cap < len - off then cap else len - off)"
    obtain x t where t: "run_state wait s = (x, t)" by (meson surj_pair)
    define c where "c = Net (Send sock (slice off m (rd t)))"
    define r where "r = env (length (trace t)) c"
    define u where "u = t\<lparr>trace := trace t @ [(c, r)]\<rparr>"
    have next_: "run_state (if rval r \<le> 0 then return None
        else send_chunks env wait rd sock cap len n (off + nat (rval r))) u = (res, s')"
      using Suc.prems(1) False
      by (cases "rval r \<le> 0")
        (simp_all add: run_basic t Let_def run_call u_def r_def c_def flip: m_def)
    have au: "appends (if rval r \<le> 0 then return None
        else send_chunks env wait rd sock cap len n (off + nat (rval r)))"
      by (intro appends_intros wait_appends)
    have oku: "ok (trace u)" by (rule appends_ok [OF au next_ Suc.prems(2)])
    then have okt: "ok (trace t)" using ok_prefix by (simp add: u_def)
    have st: "inv t" "rd t = rd s" "sent sock (trace t) = sent sock (trace s)"
      using wait_stable [OF Suc.prems(3) t okt] by auto
    have su: "inv u" "rd u = rd s" using send_stable [OF st(1)] st(2) by (simp_all add: u_def c_def)
    have m: "0 < m" "off + m \<le> len" "m = length (slice off m (rd s))"
      using False Suc.prems(4,8) by (auto simp: m_def length_slice)
    have r: "rval r \<le> int m"
      using send_boundedD [OF Suc.prems(7), of "length (trace t)" sock "slice off m (rd t)"] m(3) st(2)
      by (simp add: r_def c_def)
    have sent: "sent sock (trace u) = sent sock (trace s) @ slice off (nat (rval r)) (rd s)"
      using st r by (simp add: u_def c_def take_slice_le)
    show ?thesis
    proof (cases "rval r \<le> 0")
      case True
      then show ?thesis
        using next_ su sent False by (auto simp: run_simps intro!: exI [where x = 0] simp: slice_def)
    next
      case pos: False
      let ?k = "nat (rval r)"
      have rec: "run_state (send_chunks env wait rd sock cap len n (off + ?k)) u = (res, s')"
        using next_ pos by simp
      have le: "off + ?k \<le> len" "len - (off + ?k) \<le> n" using r m pos Suc.prems(6) by auto
      obtain k where k: "inv s'" "rd s' = rd u"
        "sent sock (trace s') = sent sock (trace u) @ slice (off + ?k) k (rd u)"
        "res = Some len \<and> k = len - (off + ?k) \<or> res = None \<and> off + ?k + k < len"
        using Suc.IH [OF rec Suc.prems(2) su(1) _ le(1,2) Suc.prems(7,8)] Suc.prems(4) su(2) by auto
      have "sent sock (trace s') = sent sock (trace s) @ slice off (?k + k) (rd s)"
        using k(3) sent su(2) by (simp add: slice_def take_add add.commute [of ?k off])
      then show ?thesis using k su le by (intro conjI exI [where x = "?k + k"]) auto
    qed
  qed
qed

end

end
