(* ===== verification/Wakenet.thy ===== *)
theory Wakenet
  imports AudioPlay Uplink
begin

text \<open>
  Wake word detection and recording (\<open>wakenet.c\<close>): the capture pipeline, the recorder with its event
  callback, the task that records five seconds of sound after a wake word, and its upload over TCP.
\<close>

section \<open>Constants\<close>

definition SR_RATE_HZ :: nat where "SR_RATE_HZ = 16000"
definition RECORD_SECONDS :: nat where "RECORD_SECONDS = 5"
definition BYTES_PER_SECOND :: nat where "BYTES_PER_SECOND = SR_RATE_HZ * 2"
definition RECORD_BYTES :: nat where "RECORD_BYTES = RECORD_SECONDS * BYTES_PER_SECOND"
definition RECORDING_PORT :: nat where "RECORDING_PORT = 1000"
definition SECONDS_BEFORE_START :: int where "SECONDS_BEFORE_START = 3000"

section \<open>The capture pipeline\<close>

definition i2s_reader_cfg :: i2s_stream_cfg_t where
  "i2s_reader_cfg = \<lparr>i2s_port = 0, i2s_rate = SR_RATE_HZ, i2s_bits = 16, i2s_type = AUDIO_STREAM_READER,
     i2s_channel_type = I2S_CHANNEL_TYPE_ONLY_LEFT, i2s_out_rb_size = Some (8 * 1024)\<rparr>"

definition build_capture_pipeline :: "fw_env \<Rightarrow> ('z wakenet_vars_scheme, esp_err) state" where
  "build_capture_pipeline env = do {
     r \<leftarrow> adf env (I2s_stream_init i2s_reader_cfg);
     modify (\<lambda>s. s\<lparr>s_i2s_reader := rval r\<rparr>);
     if rval r = 0 then return ESP_FAIL
     else do {
       adf_do env (Element_set_input_timeout (rval r));
       w \<leftarrow> adf env (Raw_stream_init AUDIO_STREAM_READER (20 * 1024));
       modify (\<lambda>s. s\<lparr>s_raw := rval w\<rparr>);
       if rval w = 0 then return ESP_FAIL
       else do {
         adf_do env (Element_set_output_timeout (rval w));
         p \<leftarrow> adf env Pipeline_init;
         modify (\<lambda>s. s\<lparr>s_pipeline := rval p\<rparr>);
         if rval p = 0 then return ESP_FAIL
         else do {
           adf_do env (Pipeline_register (rval p) (rval r) ''i2s'');
           adf_do env (Pipeline_register (rval p) (rval w) ''raw'');
           l \<leftarrow> adf env (Pipeline_link (rval p) [''i2s'', ''raw'']);
           if rerr l \<noteq> ESP_OK then return ESP_FAIL
           else do {
             g \<leftarrow> adf env (Pipeline_run (rval p));
             return (if rerr g \<noteq> ESP_OK then ESP_FAIL else ESP_OK)
           }
         }
       }
     }
   }"

definition input_cb_for_afe :: "fw_env \<Rightarrow> nat \<Rightarrow> ('z wakenet_vars_scheme, ret) state" where
  "input_cb_for_afe env buf_sz = do {
     raw \<leftarrow> gets s_raw;
     adf env (Raw_stream_read raw buf_sz)
   }"

section \<open>Upload of a recording\<close>

text \<open>The recording is read from the buffer \<open>s_record_buf\<close> points to.\<close>

definition recording :: "nat \<Rightarrow> 'z wakenet_vars_scheme \<Rightarrow> byte list" where
  "recording len s = take len (s_record_data s)"

definition send_to_client :: "fw_env \<Rightarrow> int \<Rightarrow> nat \<Rightarrow> ('z wakenet_vars_scheme, unit) state" where
  "send_to_client env sock len = do {
     n \<leftarrow> call env (Net (Send sock (recording_header (of_nat len))));
     if rval n \<noteq> 4 then return ()
     else do {
       _ \<leftarrow> send_chunks env (return ()) (recording len) sock 4096 len len 0;
       return ()
     }
   }"

definition send_recording_over_tcp :: "fw_env \<Rightarrow> nat \<Rightarrow> ('z wakenet_vars_scheme, unit) state" where
  "send_recording_over_tcp env len = do {
     s \<leftarrow> get_state;
     if s_record_buf s = 0 \<or> len = 0 then return ()
     else do {
       l \<leftarrow> open_listener env RECORDING_PORT;
       case l of None \<Rightarrow> return ()
       | Some listen_sock \<Rightarrow> do {
           perform env (Net (Setsockopt listen_sock (SO_RCVTIMEO 10 0)));
           a \<leftarrow> call env (Net (Accept listen_sock));
           if rval a < 0 then do {
             perform env (Net (Close listen_sock));
             modify (\<lambda>s. s\<lparr>s_record_len := 0\<rparr>)
           } else do {
             send_to_client env (rval a) len;
             perform env (Net (Setsockopt listen_sock SO_REUSEADDR));
             perform env (Net (Shutdown (rval a)));
             perform env (Net (Close (rval a)));
             perform env (Net (Close listen_sock))
           }
         }
     }
   }"

section \<open>The recording task\<close>

text \<open>The loop: it ends when the buffer is full, after five seconds, or when the recorder has no more
  data.  Every turn that goes on advances \<open>offset\<close>, so \<open>cap\<close> turns are enough.\<close>

fun record_loop :: "fw_env \<Rightarrow> nat \<Rightarrow> u32 \<Rightarrow> nat \<Rightarrow> nat \<Rightarrow> ('z wakenet_vars_scheme, nat) state" where
  "record_loop env cap t_start 0 offset = return offset"
| "record_loop env cap t_start (Suc k) offset =
     (if cap \<le> offset then return offset
      else do {
        now \<leftarrow> call env (Os Tick_count);
        if 500 < (word_of_int (rval now) - t_start :: u32) then return offset
        else do {
          let wanted = (if cap - offset < BYTES_PER_SECOND div 5 then cap - offset
                        else BYTES_PER_SECOND div 5);
          rec \<leftarrow> gets s_recorder;
          r \<leftarrow> adf env (Recorder_data_read rec wanted);
          if rval r \<le> 0 then return offset
          else do {
            modify (\<lambda>s. s\<lparr>s_record_data := write_at offset (take (nat (rval r)) (rdata r)) (s_record_data s)\<rparr>);
            record_loop env cap t_start k (offset + nat (rval r))
          }
        }
      })"

definition record_10s_task :: "fw_env \<Rightarrow> ('z wakenet_vars_scheme, halt) state" where
  "record_10s_task env = do {
     s \<leftarrow> get_state;
     do_when (s_record_buf s \<noteq> 0) (do {
       perform env (Os (Free (s_record_buf s)));
       modify (\<lambda>s. s\<lparr>s_record_buf := 0, s_record_data := []\<rparr>)
     });
     b \<leftarrow> call env (Os (Malloc RECORD_BYTES MALLOC_DEFAULT));
     if rval b = 0 then do {
       modify (\<lambda>s. s\<lparr>s_is_recording := False\<rparr>);
       return Deleted
     } else do {
       modify (\<lambda>s. s\<lparr>s_record_buf := rval b, s_record_data := replicate RECORD_BYTES 0\<rparr>);
       t \<leftarrow> call env (Os Tick_count);
       offset \<leftarrow> record_loop env RECORD_BYTES (word_of_int (rval t)) RECORD_BYTES 0;
       modify (\<lambda>s. s\<lparr>s_record_len := offset\<rparr>);
       do_when (0 < offset) (send_recording_over_tcp env offset);
       perform env (Os Stack_high_water_mark);
       modify (\<lambda>s. s\<lparr>s_is_recording := False\<rparr>);
       return Deleted
     }
   }"

section \<open>Events\<close>

datatype rec_event = AUDIO_REC_WAKEUP_START | AUDIO_REC_OTHER int

definition dump_internal_mem :: "fw_env \<Rightarrow> ((fw_call, 'z) plat_scheme, unit) state" where
  "dump_internal_mem env = perform_all env
     [Os (Heap_free_size MALLOC_CAP_INTERNAL), Os (Heap_largest_block MALLOC_CAP_INTERNAL)]"

definition rec_engine_cb :: "fw_env \<Rightarrow> rec_event \<Rightarrow> ('z wakenet_vars_scheme, esp_err) state" where
  "rec_engine_cb env ev =
     (case ev of
        AUDIO_REC_WAKEUP_START \<Rightarrow> do {
          t \<leftarrow> call env (Os Timer_get_time);
          s \<leftarrow> get_state;
          if rval t div 1000 - s_start_time_ms s < SECONDS_BEFORE_START then return ESP_OK
          else do {
            do_when (\<not> s_is_recording s) (do {
              modify (\<lambda>s. s\<lparr>s_is_recording := True\<rparr>);
              dump_internal_mem env;
              r \<leftarrow> call env (Os (Task_create ''rec10s'' 3072 5));
              do_when (rval r = 0) (do {
                perform env (Os (Heap_largest_block MALLOC_CAP_INTERNAL));
                modify (\<lambda>s. s\<lparr>s_is_recording := False\<rparr>)
              })
            });
            return ESP_OK
          }
        }
      | AUDIO_REC_OTHER _ \<Rightarrow> return ESP_OK)"

section \<open>Start and stop\<close>

definition sr_config :: recorder_sr_cfg_t where
  "sr_config = \<lparr>sr_input_fmt = ''M'', sr_partition = ''model'', sr_wakenet_init = True, sr_aec_init = False,
     sr_sample_rate = SR_RATE_HZ, sr_mic_num = 1, sr_ref_num = 0, sr_total_ch_num = 1,
     sr_multinet_init = False\<rparr>"

definition wakenet_start :: "fw_env \<Rightarrow> ('z wakenet_vars_scheme, halt + esp_err) state" where
  "wakenet_start env = do {
     s \<leftarrow> get_state;
     if s_recorder s \<noteq> 0 then return (Inr ESP_OK)
     else do {
       e \<leftarrow> build_capture_pipeline env;
       if e \<noteq> ESP_OK then return (Inl (Aborted e))
       else do {
         sr \<leftarrow> adf env (Recorder_sr_create sr_config);
         rec \<leftarrow> adf env (Recorder_create (rval sr) 3000);
         modify (\<lambda>s. s\<lparr>s_recorder := rval rec\<rparr>);
         if rval rec = 0 then return (Inr ESP_FAIL)
         else do {
           t \<leftarrow> call env (Os Timer_get_time);
           modify (\<lambda>s. s\<lparr>s_start_time_ms := rval t div 1000\<rparr>);
           checked env (Adf (Recorder_wakenet_enable (rval rec) True))
            (checked env (Adf (Recorder_vad_check_enable (rval rec) False))
             (checked env (Adf (Recorder_trigger_start (rval rec)))
               (return (Inr ESP_OK))))
         }
       }
     }
   }"

definition stop_capture :: "fw_env \<Rightarrow> ('z wakenet_vars_scheme, unit) state" where
  "stop_capture env = do {
     s \<leftarrow> get_state;
     do_when (s_pipeline s \<noteq> 0) (do {
       adf_do env (Pipeline_stop (s_pipeline s));
       adf_do env (Pipeline_wait_for_stop (s_pipeline s));
       adf_do env (Pipeline_terminate (s_pipeline s));
       do_when (s_i2s_reader s \<noteq> 0) (adf_do env (Pipeline_unregister (s_pipeline s) (s_i2s_reader s)));
       do_when (s_raw s \<noteq> 0) (adf_do env (Pipeline_unregister (s_pipeline s) (s_raw s)));
       adf_do env (Pipeline_deinit (s_pipeline s));
       modify (\<lambda>s. s\<lparr>s_pipeline := 0\<rparr>)
     })
   }"

definition wakenet_stop :: "fw_env \<Rightarrow> ('z wakenet_vars_scheme, unit) state" where
  "wakenet_stop env = do {
     s \<leftarrow> get_state;
     do_when (s_recorder s \<noteq> 0) (do {
       adf_do env (Recorder_destroy (s_recorder s));
       modify (\<lambda>s. s\<lparr>s_recorder := 0\<rparr>)
     });
     stop_capture env;
     do_when (s_i2s_reader s \<noteq> 0) (do {
       adf_do env (Element_deinit (s_i2s_reader s));
       modify (\<lambda>s. s\<lparr>s_i2s_reader := 0\<rparr>)
     });
     do_when (s_raw s \<noteq> 0) (do {
       adf_do env (Element_deinit (s_raw s));
       modify (\<lambda>s. s\<lparr>s_raw := 0\<rparr>)
     });
     do_when (s_record_buf s \<noteq> 0) (do {
       perform env (Os (Free (s_record_buf s)));
       modify (\<lambda>s. s\<lparr>s_record_buf := 0, s_record_data := [], s_record_len := 0, s_is_recording := False\<rparr>)
     })
   }"

end
