(* ===== verification/AudioManager.thy ===== *)
theory AudioManager
  imports Wakenet
begin

text \<open>
  The owner of the audio hardware (\<open>audio_manager.c\<close>): wake word detection and playback share the I2S
  port, so detection is stopped for the time of a playback and resumed after it; a mutex orders the
  calls of different tasks.  \<open>audio_manager_play_from_flash\<close> releases the mutex while it plays, so it is
  cut there into three parts, between which other tasks can run.
\<close>

section \<open>The lock\<close>

definition audio_lock :: "fw_env \<Rightarrow> ('z audio_vars_scheme, unit) state" where
  "audio_lock env = do {
     s \<leftarrow> get_state;
     do_when (s_audio_mutex s = 0) (do {
       r \<leftarrow> call env (Os Mutex_create);
       modify (\<lambda>s. s\<lparr>s_audio_mutex := rval r\<rparr>)
     });
     s \<leftarrow> get_state;
     do_when (s_audio_mutex s \<noteq> 0) (perform env (Os (Mutex_take (s_audio_mutex s))))
   }"

definition audio_unlock :: "fw_env \<Rightarrow> ('z audio_vars_scheme, unit) state" where
  "audio_unlock env = do {
     s \<leftarrow> get_state;
     do_when (s_audio_mutex s \<noteq> 0) (perform env (Os (Mutex_give (s_audio_mutex s))))
   }"

section \<open>Codec\<close>

text \<open>\<open>s_board_hal\<close> is the field \<open>audio_hal\<close> of the board object \<open>s_board\<close>.\<close>

definition audio_manager_init :: "fw_env \<Rightarrow> ('z audio_vars_scheme, unit) state" where
  "audio_manager_init env = do {
     audio_lock env;
     s \<leftarrow> get_state;
     (if s_board s = 0 then do {
        b \<leftarrow> call env (Board Board_init);
        modify (\<lambda>s. s\<lparr>s_board := rval b\<rparr>);
        if rval b = 0 then audio_unlock env
        else do {
          h \<leftarrow> call env (Board (Board_hal (rval b)));
          modify (\<lambda>s. s\<lparr>s_board_hal := rval h\<rparr>);
          if rval h = 0 then audio_unlock env
          else do {
            perform env (Board (Hal_ctrl_codec_start (rval h)));
            perform env (Board (Hal_set_volume (rval h) (s_current_volume s)));
            audio_unlock env
          }
        }
      } else audio_unlock env)
   }"

definition audio_manager_get_volume :: "fw_env \<Rightarrow> ('z audio_vars_scheme, esp_err \<times> int option) state" where
  "audio_manager_get_volume env = do {
     s \<leftarrow> get_state;
     if s_board s = 0 then return (ESP_ERR_INVALID_STATE, None)
     else do {
       audio_lock env;
       r \<leftarrow> call env (Board (Hal_get_volume (s_board_hal s)));
       audio_unlock env;
       return (rerr r, if rerr r = ESP_OK then Some (rval r) else None)
     }
   }"

definition audio_manager_set_volume :: "fw_env \<Rightarrow> int \<Rightarrow> ('z audio_vars_scheme, esp_err) state" where
  "audio_manager_set_volume env vol = do {
     s \<leftarrow> get_state;
     if s_board s = 0 then return ESP_ERR_INVALID_STATE
     else do {
       let vol = (if vol < 0 then 0 else vol);
       let vol = (if 100 < vol then 100 else vol);
       audio_lock env;
       r \<leftarrow> call env (Board (Hal_set_volume (s_board_hal s) vol));
       do_when (rerr r = ESP_OK) (modify (\<lambda>s. s\<lparr>s_current_volume := vol\<rparr>));
       audio_unlock env;
       return (rerr r)
     }
   }"

section \<open>Wake word detection\<close>

definition run_wakenet :: "fw_env \<Rightarrow> ('z audio_vars_scheme, halt + esp_err) state" where
  "run_wakenet env = do {
     r \<leftarrow> wakenet_start env;
     do_when (r = Inr ESP_OK) (modify (\<lambda>s. s\<lparr>s_wakenet_running := True\<rparr>));
     return r
   }"

definition audio_manager_start_wakenet :: "fw_env \<Rightarrow> ('z audio_vars_scheme, halt + esp_err) state" where
  "audio_manager_start_wakenet env = do {
     audio_lock env;
     s \<leftarrow> get_state;
     r \<leftarrow> (if s_playback_running s then return (Inr ESP_ERR_INVALID_STATE)
           else if \<not> s_wakenet_running s then run_wakenet env
           else return (Inr ESP_OK));
     case r of Inl h \<Rightarrow> return (Inl h)
     | Inr e \<Rightarrow> do {
         audio_unlock env;
         return (Inr e)
       }
   }"

definition audio_manager_stop_wakenet :: "fw_env \<Rightarrow> ('z audio_vars_scheme, esp_err) state" where
  "audio_manager_stop_wakenet env = do {
     audio_lock env;
     s \<leftarrow> get_state;
     do_when (s_wakenet_running s) (do {
       wakenet_stop env;
       modify (\<lambda>s. s\<lparr>s_wakenet_running := False\<rparr>)
     });
     audio_unlock env;
     return ESP_OK
   }"

section \<open>Playback\<close>

text \<open>The first critical section; the result says whether to resume wake word detection afterwards.
  \<open>audio_player_init\<close> returns 0 or stops the program, so the branch for its failure is never taken.\<close>

definition play_begin :: "fw_env \<Rightarrow> ('z audio_vars_scheme, halt + bool) state" where
  "play_begin env = do {
     audio_lock env;
     resume \<leftarrow> gets s_wakenet_running;
     do_when resume (do {
       wakenet_stop env;
       modify (\<lambda>s. s\<lparr>s_wakenet_running := False\<rparr>)
     });
     inited \<leftarrow> gets s_player_inited;
     p \<leftarrow> (if \<not> inited then audio_player_init env
           else do { q \<leftarrow> gets s_player; return (Inr q) });
     case p of Inl h \<Rightarrow> return (Inl h)
     | Inr q \<Rightarrow> do {
         modify (\<lambda>s. s\<lparr>s_player := q, s_player_inited := True, s_playback_running := True\<rparr>);
         audio_unlock env;
         return (Inr resume)
       }
   }"

text \<open>The playback itself, without the lock.\<close>

definition play_middle :: "fw_env \<Rightarrow> nat \<Rightarrow> ('z audio_vars_scheme, halt + int option) state" where
  "play_middle env fuel = do {
     s \<leftarrow> get_state;
     if s_board s = 0 then return (Inl Fault)
     else do {
       perform env (Board (Hal_set_volume (s_board_hal s) (s_current_volume s)));
       r \<leftarrow> audio_player_play_from_flash env fuel (s_player s);
       return (Inr r)
     }
   }"

text \<open>The second critical section.\<close>

definition play_end :: "fw_env \<Rightarrow> bool \<Rightarrow> ('z audio_vars_scheme, halt + unit) state" where
  "play_end env resume = do {
     audio_lock env;
     modify (\<lambda>s. s\<lparr>s_playback_running := False\<rparr>);
     s \<leftarrow> get_state;
     do_when (s_player_inited s) (do {
       q \<leftarrow> audio_player_deinit env (s_player s);
       modify (\<lambda>s. s\<lparr>s_player := q, s_player_inited := False\<rparr>)
     });
     r \<leftarrow> (if resume then run_wakenet env else return (Inr ESP_OK));
     case r of Inl h \<Rightarrow> return (Inl h)
     | Inr e \<Rightarrow> do {
         audio_unlock env;
         return (Inr ())
       }
   }"

text \<open>The whole function, for a caller that runs undisturbed: \<open>start\<close> and \<open>finish\<close> are the addresses of
  the file in memory.\<close>

definition audio_manager_play_from_flash ::
  "fw_env \<Rightarrow> nat \<Rightarrow> int \<Rightarrow> int \<Rightarrow> ('z audio_vars_scheme, halt + esp_err option) state" where
  "audio_manager_play_from_flash env fuel start finish =
     (if start = 0 \<or> finish = 0 \<or> finish \<le> start then return (Inr (Some ESP_ERR_INVALID_ARG))
      else do {
        b \<leftarrow> play_begin env;
        case b of Inl h \<Rightarrow> return (Inl h)
        | Inr resume \<Rightarrow> do {
            m \<leftarrow> play_middle env fuel;
            case m of Inl h \<Rightarrow> return (Inl h)
            | Inr None \<Rightarrow> return (Inr None)
            | Inr (Some r) \<Rightarrow> do {
                e \<leftarrow> play_end env resume;
                case e of Inl h \<Rightarrow> return (Inl h)
                | Inr _ \<Rightarrow> return (Inr (Some (if r = 0 then ESP_OK else ESP_FAIL)))
              }
          }
      })"

end
