(* ===== verification/Haptic.thy ===== *)
theory Haptic
  imports Tcp Framing
begin

text \<open>
  The haptic feedback service of \<open>softAP.c\<close> (TCP port 4000): PWM set-up, the parser of six-digit
  commands, the mapping from intensity to PWM duty, and the server task that reassembles commands
  from the byte stream in a six-byte window.

  The abstract view of the service is \<open>feedback_calls\<close>: cut the bytes received on a connection into
  consecutive groups of six and perform, for each group that is six digits, the PWM update for its
  two values.  The refinement lemmas show that the window code does exactly this, however TCP cuts
  the stream into \<open>recv\<close> results.
\<close>

section \<open>Configuration\<close>

definition CONTROL_PORT :: nat where "CONTROL_PORT = 4000"
definition CONTROL_RX_BUFSZ :: nat where "CONTROL_RX_BUFSZ = 64"
definition HAPTIC_PWM_MODE :: ledc_mode where "HAPTIC_PWM_MODE = LEDC_LOW_SPEED_MODE"
definition HAPTIC_PWM_TIMER :: nat where "HAPTIC_PWM_TIMER = 0"
definition HAPTIC_PWM_CH_L :: nat where "HAPTIC_PWM_CH_L = 0"
definition HAPTIC_PWM_CH_R :: nat where "HAPTIC_PWM_CH_R = 1"

definition haptic_timer_cfg :: ledc_timer_config_t where
  "haptic_timer_cfg = \<lparr>lt_speed_mode = HAPTIC_PWM_MODE, lt_duty_resolution = LEDC_TIMER_10_BIT,
     lt_timer_num = HAPTIC_PWM_TIMER, lt_freq_hz = 5000, lt_clk_cfg = LEDC_AUTO_CLK\<rparr>"

definition haptic_channel_cfg :: "int \<Rightarrow> nat \<Rightarrow> ledc_channel_config_t" where
  "haptic_channel_cfg gpio ch = \<lparr>lc_gpio_num = gpio, lc_speed_mode = HAPTIC_PWM_MODE,
     lc_channel = ch, lc_timer_sel = HAPTIC_PWM_TIMER, lc_duty = 0, lc_hpoint = 0,
     lc_intr_type = LEDC_INTR_DISABLE\<rparr>"

section \<open>PWM set-up\<close>

definition haptic_pwm_init :: "fw_env \<Rightarrow> ('z softap_vars_scheme, halt + unit) state" where
  "haptic_pwm_init env = do {
     inited \<leftarrow> gets s_haptic_pwm_inited;
     if inited then return (Inr ())
     else
       checked env (Ledc (Ledc_timer_config haptic_timer_cfg)) (
       checked env (Ledc (Ledc_channel_config (haptic_channel_cfg 4 HAPTIC_PWM_CH_L))) (
       checked env (Ledc (Ledc_channel_config (haptic_channel_cfg 7 HAPTIC_PWM_CH_R))) (do {
         modify (\<lambda>s. s\<lparr>s_haptic_pwm_inited := True\<rparr>);
         return (Inr ())
       })))
   }"

section \<open>Commands\<close>

definition is_digit :: "byte \<Rightarrow> bool" where
  "is_digit b \<longleftrightarrow> \<not> (b < 0x30 \<or> b > 0x39)"

definition clamp999 :: "int \<Rightarrow> int" where
  "clamp999 x = (let x = (if x < 0 then 0 else x) in if x > 999 then 999 else x)"

definition three_digits :: "byte \<Rightarrow> byte \<Rightarrow> byte \<Rightarrow> int" where
  "three_digits a b c =
     (uint a - 0x30) * 100 + (uint b - 0x30) * 10 + (uint c - 0x30)"

definition parse_six_chars_to_lr :: "byte list \<Rightarrow> (u16 \<times> u16) option" where
  "parse_six_chars_to_lr six =
     (if list_ex (\<lambda>i. \<not> is_digit (six ! i)) [0..<6] then None
      else let l = three_digits (six ! 0) (six ! 1) (six ! 2);
               r = three_digits (six ! 3) (six ! 4) (six ! 5)
           in Some (word_of_int (clamp999 l), word_of_int (clamp999 r)))"

text \<open>\<open>(uint32_t)((L * 1023U + 499U) / 999U)\<close>, in 32-bit unsigned arithmetic.\<close>

definition pwm_duty :: "u16 \<Rightarrow> u32" where
  "pwm_duty x = (ucast x * 1023 + 499) div 999"

definition set_duties :: "u32 \<Rightarrow> u32 \<Rightarrow> fw_call list" where
  "set_duties dutyL dutyR =
     [Ledc (Ledc_set_duty HAPTIC_PWM_MODE HAPTIC_PWM_CH_L dutyL),
      Ledc (Ledc_update_duty HAPTIC_PWM_MODE HAPTIC_PWM_CH_L),
      Ledc (Ledc_set_duty HAPTIC_PWM_MODE HAPTIC_PWM_CH_R dutyR),
      Ledc (Ledc_update_duty HAPTIC_PWM_MODE HAPTIC_PWM_CH_R)]"

definition handle_packet :: "fw_env \<Rightarrow> byte list \<Rightarrow> ((fw_call, 'z) plat_scheme, unit) state" where
  "handle_packet env window =
     (case parse_six_chars_to_lr window of
        Some (L, R) \<Rightarrow> perform_all env (set_duties (pwm_duty L) (pwm_duty R))
      | None \<Rightarrow> return ())"

section \<open>The window\<close>

text \<open>\<open>while (have < 6 && off < n) window[have++] = rxbuf[off++];\<close>\<close>

function fill_window ::
  "byte list \<Rightarrow> nat \<Rightarrow> byte list \<Rightarrow> nat \<Rightarrow> nat \<Rightarrow> byte list \<times> nat \<times> nat" where
  "fill_window rxbuf n window hav off =
     (if hav < 6 \<and> off < n
      then fill_window rxbuf n (window[hav := rxbuf ! off]) (hav + 1) (off + 1)
      else (window, hav, off))"
  by pat_completeness auto
termination
  by (relation "measure (\<lambda>(rxbuf, n, window, hav, off). 6 - hav)") auto

declare fill_window.simps [simp del]

text \<open>The loop over one received buffer.  A window with more than six bytes would keep it from
  ending, so it has fuel; \<open>consume_refines\<close> shows that it always ends with the fuel it is given.\<close>

fun consume ::
  "fw_env \<Rightarrow> nat \<Rightarrow> byte list \<Rightarrow> nat \<Rightarrow> nat \<Rightarrow> byte list \<times> nat
   \<Rightarrow> ((fw_call, 'z) plat_scheme, (byte list \<times> nat) option) state" where
  "consume env 0 rxbuf n off st = return None"
| "consume env (Suc fuel) rxbuf n off (window, hav) =
     (if off < n then
        (let (window, hav, off) = fill_window rxbuf n window hav off
         in if hav = 6 then do {
              handle_packet env window;
              consume env fuel rxbuf n off (window, 0)
            } else consume env fuel rxbuf n off (window, hav))
      else return (Some (window, hav)))"

section \<open>The server task\<close>

text \<open>One connection: \<open>have\<close> starts at 0, and the loop ends when \<open>recv\<close> reports the end of the stream
  (0) or an error (negative).\<close>

fun feedback_loop ::
  "fw_env \<Rightarrow> nat \<Rightarrow> int \<Rightarrow> byte list \<times> nat
   \<Rightarrow> ((fw_call, 'z) plat_scheme, (byte list \<times> nat) option) state" where
  "feedback_loop env 0 sock st = return None"
| "feedback_loop env (Suc fuel) sock st = do {
     r \<leftarrow> call env (Net (Recv sock CONTROL_RX_BUFSZ));
     if rval r = 0 then return (Some st)
     else if rval r < 0 then return (Some st)
     else do {
       st' \<leftarrow> consume env (Suc (nat (rval r))) (rdata r) (nat (rval r)) 0 st;
       case st' of None \<Rightarrow> return None | Some st'' \<Rightarrow> feedback_loop env fuel sock st''
     }
   }"

definition feedback_client ::
  "fw_env \<Rightarrow> nat \<Rightarrow> int \<Rightarrow> byte list \<times> nat
   \<Rightarrow> ((fw_call, 'z) plat_scheme, (byte list \<times> nat) option) state" where
  "feedback_client env fuel sock st = do {
     st' \<leftarrow> feedback_loop env fuel sock (fst st, 0);
     case st' of None \<Rightarrow> return None
     | Some st'' \<Rightarrow> do {
         perform env (Net (Shutdown sock));
         perform env (Net (Close sock));
         return (Some st'')
       }
   }"

text \<open>The whole task; \<open>window0\<close> is the uninitialised content of the stack array \<open>window[6]\<close>.\<close>

definition vibration_feedback ::
  "fw_env \<Rightarrow> nat \<Rightarrow> byte list \<Rightarrow> ('z softap_vars_scheme, halt + (byte list \<times> nat) option) state" where
  "vibration_feedback env fuel window0 = do {
     i \<leftarrow> haptic_pwm_init env;
     case i of Inl h \<Rightarrow> return (Inl h)
     | Inr _ \<Rightarrow> do {
         perform_all env (set_duties 0 0);
         l \<leftarrow> open_listener env CONTROL_PORT;
         case l of None \<Rightarrow> return (Inl Deleted)
         | Some listen_sock \<Rightarrow> do {
             st \<leftarrow> accept_loop env fuel listen_sock (feedback_client env fuel) (window0, 0);
             return (Inr st)
           }
       }
   }"

section \<open>The abstract service\<close>

definition packet_calls :: "byte list \<Rightarrow> fw_call list" where
  "packet_calls six =
     (case parse_six_chars_to_lr six of
        Some (L, R) \<Rightarrow> set_duties (pwm_duty L) (pwm_duty R)
      | None \<Rightarrow> [])"

definition feedback_calls :: "byte list \<Rightarrow> fw_call list" where
  "feedback_calls bs = concat (map packet_calls (chunks 6 bs))"

text \<open>The bytes a client writes to ask for a pair of intensities.\<close>

definition digit :: "nat \<Rightarrow> byte" where
  "digit d = of_nat (0x30 + d)"

definition encode3 :: "nat \<Rightarrow> byte list" where
  "encode3 n = [digit (n div 100), digit (n div 10 mod 10), digit (n mod 10)]"

definition encode_lr :: "u16 \<times> u16 \<Rightarrow> byte list" where
  "encode_lr lr = encode3 (unat (fst lr)) @ encode3 (unat (snd lr))"

definition valid_lr :: "u16 \<times> u16 \<Rightarrow> bool" where
  "valid_lr lr \<longleftrightarrow> fst lr \<le> 999 \<and> snd lr \<le> 999"

definition decode_lr :: "byte list \<Rightarrow> ((u16 \<times> u16) \<times> byte list) option" where
  "decode_lr bs =
     (if length bs < 6 then None
      else case parse_six_chars_to_lr (take 6 bs) of
             None \<Rightarrow> None
           | Some lr \<Rightarrow> Some (lr, drop 6 bs))"


section \<open>Parsing and scaling\<close>

lemma is_digit_iff: "is_digit b \<longleftrightarrow> 0x30 \<le> uint b \<and> uint b \<le> 0x39"
  by (auto simp: is_digit_def word_less_def)

lemma list_ex_upt6: "list_ex P [0..<6] \<longleftrightarrow> P 0 \<or> P 1 \<or> P 2 \<or> P 3 \<or> P 4 \<or> P (5 :: nat)"
  by (simp add: upt_rec eval_nat_numeral)

lemma three_digits_range:
  assumes "is_digit a" and "is_digit b" and "is_digit c"
  shows "0 \<le> three_digits a b c" and "three_digits a b c \<le> 999"
  using assms by (auto simp: is_digit_iff three_digits_def)

lemma clamp999_id: "0 \<le> x \<Longrightarrow> x \<le> 999 \<Longrightarrow> clamp999 x = x"
  by (simp add: clamp999_def)

text \<open>The parser accepts exactly six digits, and the two clamps of the source never act.\<close>

lemma parse_six_list:
  "parse_six_chars_to_lr [a, b, c, d, e, f] =
     (if list_all is_digit [a, b, c, d, e, f]
      then Some (word_of_int (three_digits a b c), word_of_int (three_digits d e f)) else None)"
  using three_digits_range [of a b c] three_digits_range [of d e f]
  by (simp add: parse_six_chars_to_lr_def list_ex_upt6 Let_def clamp999_id eval_nat_numeral)

lemma length_6_cases:
  assumes "length xs = 6"
  obtains a b c d e f where "xs = [a, b, c, d, e, f]"
  using assms by (auto simp: length_Suc_conv eval_nat_numeral)

lemma parse_six_some_iff:
  "length six = 6 \<Longrightarrow> parse_six_chars_to_lr six \<noteq> None \<longleftrightarrow> list_all is_digit six"
  by (erule length_6_cases) (simp add: parse_six_list)

lemma unat_word_of_int_small:
  "0 \<le> x \<Longrightarrow> x \<le> 999 \<Longrightarrow> unat (word_of_int x :: u16) = nat x"
  by (simp add: unat_eq_nat_uint uint_word_of_int)

lemma parse_six_range:
  assumes "length six = 6" and "parse_six_chars_to_lr six = Some (L, R)"
  shows "L \<le> 999" and "R \<le> 999"
proof -
  obtain a b c d e f where six: "six = [a, b, c, d, e, f]"
    using assms(1) by (rule length_6_cases)
  from assms(2) have dig: "list_all is_digit six"
    and L: "L = word_of_int (three_digits a b c)" and R: "R = word_of_int (three_digits d e f)"
    by (auto simp: six parse_six_list split: if_splits)
  have "unat L = nat (three_digits a b c)" "unat R = nat (three_digits d e f)"
    using dig three_digits_range by (auto simp: six L R unat_word_of_int_small)
  with dig three_digits_range [of a b c] three_digits_range [of d e f]
  show "L \<le> 999" and "R \<le> 999"
    by (simp_all add: six word_le_nat_alt nat_le_iff)
qed

lemma unat_pwm_duty: "unat (pwm_duty x) = (unat x * 1023 + 499) div 999"
proof -
  have "unat x < 2 ^ 16" using unsigned_less [of x, where ?'a = nat] by simp
  then show ?thesis
    by (simp add: pwm_duty_def unat_div unat_word_ariths unsigned_ucast_eq take_bit_eq_mod)
qed

lemma pwm_duty_bound: "x \<le> 999 \<Longrightarrow> unat (pwm_duty x) \<le> 1023"
  by (simp add: unat_pwm_duty word_le_nat_alt)

lemma nearest_999: "\<bar>999 * int ((n * 1023 + 499) div 999) - 1023 * int n\<bar> \<le> 499"
proof -
  define d where "d = (n * 1023 + 499) div 999"
  have "d * 999 \<le> n * 1023 + 499" and "n * 1023 + 499 < d * 999 + 999"
    unfolding d_def by (simp_all add: div_times_less_eq_dividend dividend_less_div_times)
  then have "\<bar>999 * int d - 1023 * int n\<bar> \<le> 499" by linarith
  then show ?thesis by (simp only: d_def)
qed

lemma pwm_duty_nearest: "\<bar>999 * uint (pwm_duty x) - 1023 * uint x\<bar> \<le> 499"
  using nearest_999 [of "unat x"] unfolding unat_pwm_duty [symmetric] by simp

lemma pwm_duty_mono: "x \<le> y \<Longrightarrow> pwm_duty x \<le> pwm_duty y"
  by (simp add: word_le_nat_alt unat_pwm_duty div_le_mono)

section \<open>Encoding of commands\<close>

lemma uint_digit: "d < 10 \<Longrightarrow> uint (digit d) = 0x30 + int d"
  by (simp add: digit_def unsigned_of_nat take_bit_eq_mod del: of_nat_add)

lemma is_digit_digit: "d < 10 \<Longrightarrow> is_digit (digit d)"
  by (simp add: is_digit_iff uint_digit)

lemma three_digits_encode:
  assumes "n \<le> 999"
  shows "three_digits (digit (n div 100)) (digit (n div 10 mod 10)) (digit (n mod 10)) = int n"
proof -
  have "n div 100 < 10" using assms by simp
  moreover have "n div 100 * 100 + n div 10 mod 10 * 10 + n mod 10 = n"
    using div_mult_mod_eq [of n 10] div_mult_mod_eq [of "n div 10" 10] div_mult2_eq [of n 10 10, simplified]
    by linarith
  ultimately show ?thesis
    by (simp add: three_digits_def uint_digit flip: of_nat_mult of_nat_add del: of_nat_add)
qed

lemma length_encode_lr [simp]: "length (encode_lr lr) = 6"
  by (simp add: encode_lr_def encode3_def)

lemma parse_encode_lr: "valid_lr lr \<Longrightarrow> parse_six_chars_to_lr (encode_lr lr) = Some lr"
  by (cases lr)
     (auto simp: encode_lr_def encode3_def parse_six_list is_digit_digit three_digits_encode
        valid_lr_def word_le_nat_alt)

interpretation haptic_command: stream_codec encode_lr decode_lr valid_lr
proof unfold_locales
  fix x rest assume "valid_lr x"
  then show "decode_lr (encode_lr x @ rest) = Some (x, rest)"
    by (simp add: decode_lr_def parse_encode_lr)
next
  fix x p q assume "encode_lr x = p @ q" and "q \<noteq> []"
  then have "length p < 6"
    using length_encode_lr [of x] by (cases q) auto
  then show "decode_lr p = None" by (simp add: decode_lr_def)
qed

lemma feedback_calls_commands:
  assumes "list_all valid_lr lrs"
  shows "feedback_calls (concat (map encode_lr lrs)) =
         concat (map (\<lambda>(l, r). set_duties (pwm_duty l) (pwm_duty r)) lrs)"
  using assms
  by (induction lrs)
     (auto simp: feedback_calls_def chunks_cons packet_calls_def parse_encode_lr)


section \<open>The window code refines the abstract service\<close>

text \<open>Bytes received on a socket and PWM calls performed, read off a trace.\<close>

fun is_pwm :: "fw_call \<Rightarrow> bool" where
  "is_pwm (Ledc _) = True"
| "is_pwm _ = False"

definition pwm_calls :: "(fw_call \<times> ret) list \<Rightarrow> fw_call list" where
  "pwm_calls tr = filter is_pwm (map fst tr)"

lemma pwm_calls_append [simp]: "pwm_calls (xs @ ys) = pwm_calls xs @ pwm_calls ys"
  by (simp add: pwm_calls_def)

lemma fill_window_spec:
  assumes "hav \<le> 6" and "length window = 6" and "off \<le> n" and "n \<le> length rxbuf"
  shows "\<exists>window'. fill_window rxbuf n window hav off
             = (window', hav + min (6 - hav) (n - off), off + min (6 - hav) (n - off)) \<and>
           length window' = 6 \<and>
           take (hav + min (6 - hav) (n - off)) window'
             = take hav window @ slice off (min (6 - hav) (n - off)) rxbuf"
  using assms
proof (induction rxbuf n window hav off rule: fill_window.induct)
  case (1 rxbuf n window hav off)
  show ?case
  proof (cases "hav < 6 \<and> off < n")
    case True
    define k' where "k' = min (6 - (hav + 1)) (n - (off + 1))"
    have k: "min (6 - hav) (n - off) = Suc k'" using True by (auto simp: k'_def min_def)
    obtain w where w: "fill_window rxbuf n (window[hav := rxbuf ! off]) (hav + 1) (off + 1)
          = (w, hav + 1 + k', off + 1 + k')" "length w = 6"
        "take (hav + 1 + k') w = take (hav + 1) (window[hav := rxbuf ! off]) @ slice (off + 1) k' rxbuf"
      using "1.IH" True "1.prems" by (auto simp: k'_def)
    moreover have "take (hav + 1) (window[hav := rxbuf ! off]) = take hav window @ [rxbuf ! off]"
      using True "1.prems" by (simp add: take_Suc_conv_app_nth)
    moreover have "slice off (Suc k') rxbuf = rxbuf ! off # slice (off + 1) k' rxbuf"
      using True "1.prems" by (simp add: slice_def flip: Cons_nth_drop_Suc)
    ultimately show ?thesis
      using True by (subst fill_window.simps) (simp add: k)
  next
    case False
    then have "min (6 - hav) (n - off) = 0" by auto
    with False "1.prems" show ?thesis by (subst fill_window.simps) (auto simp: slice_def)
  qed
qed

lemma after_handle_packet:
  "after (packet_calls window) s (snd (run_state (handle_packet env window) s))"
  by (auto simp: handle_packet_def packet_calls_def after_perform_all split: option.splits)

lemma feedback_calls_append:
  "feedback_calls (xs @ ys) = feedback_calls xs @ feedback_calls (leftover 6 xs @ ys)"
  unfolding feedback_calls_def by (subst chunks_append) simp_all

lemma feedback_calls_short [simp]: "length bs < 6 \<Longrightarrow> feedback_calls bs = []"
  by (simp add: feedback_calls_def)

lemma feedback_calls_packet:
  "length six = 6 \<Longrightarrow> feedback_calls (six @ bs) = packet_calls six @ feedback_calls bs"
  by (simp add: feedback_calls_def chunks_cons)

text \<open>One received buffer: the window together with the buffer is cut into groups of six, and what
  is left over is the new content of the window.\<close>

lemma consume_refines:
  assumes "hav < 6" and "length window = 6" and "off \<le> n" and "n \<le> length rxbuf"
    and "n - off < fuel"
  shows "\<exists>window' hav' s'. run_state (consume env fuel rxbuf n off (window, hav)) s =
             (Some (window', hav'), s') \<and>
           after (feedback_calls (take hav window @ slice off (n - off) rxbuf)) s s' \<and>
           hav' < 6 \<and> length window' = 6 \<and>
           take hav' window' = leftover 6 (take hav window @ slice off (n - off) rxbuf)"
  using assms
proof (induction fuel arbitrary: window hav off s)
  case (Suc fuel)
  show ?case
  proof (cases "off < n")
    case True
    define k where "k = min (6 - hav) (n - off)"
    obtain w where w: "fill_window rxbuf n window hav off = (w, hav + k, off + k)" "length w = 6"
        "take (hav + k) w = take hav window @ slice off k rxbuf"
      using fill_window_spec [of hav window off n rxbuf] Suc.prems by (auto simp: k_def)
    have k: "0 < k" "k \<le> n - off" using True Suc.prems(1) by (auto simp: k_def)
    have split: "slice off (n - off) rxbuf = slice off k rxbuf @ slice (off + k) (n - (off + k)) rxbuf"
      using k by (simp add: slice_def add.commute flip: take_add drop_drop)
    show ?thesis
    proof (cases "hav + k = 6")
      case full: True
      have next_off: "off + k \<le> n" "n - (off + k) < fuel" using k Suc.prems by linarith+
      define s1 where "s1 = snd (run_state (handle_packet env w) s)"
      have six: "w = take hav window @ slice off k rxbuf" using w full by simp
      obtain w' h' s' where rec: "run_state (consume env fuel rxbuf n (off + k) (w, 0)) s1 = (Some (w', h'), s')"
          "after (feedback_calls (slice (off + k) (n - (off + k)) rxbuf)) s1 s'"
          "h' < 6" "length w' = 6"
          "take h' w' = leftover 6 (slice (off + k) (n - (off + k)) rxbuf)"
        using Suc.IH [of 0 w "off + k" s1] Suc.prems next_off w by auto
      have "after (packet_calls w) s s1" unfolding s1_def by (rule after_handle_packet)
      from after_trans [OF this rec(2)] show ?thesis
        using rec w full True
        by (simp add: run_simps s1_def split six [symmetric] feedback_calls_packet leftover_cons
            case_prod_unfold flip: append_assoc)
    next
      case False
      then have "k = n - off" using k by (auto simp: k_def)
      then have n: "off + k = n" using k by simp
      have short: "hav + k < 6" using False k by (auto simp: k_def)
      have "length (take hav window @ slice off k rxbuf) < 6"
        using short Suc.prems \<open>k = n - off\<close> by (simp add: slice_def)
      moreover obtain f where "fuel = Suc f" using Suc.prems True by (cases fuel) auto
      ultimately show ?thesis
        using w short True n by (auto simp: \<open>k = n - off\<close> [symmetric] False intro!: exI)
    qed
  next
    case False
    then have "off = n" using Suc.prems by simp
    then show ?thesis
      using Suc.prems by (auto simp: slice_def intro!: exI)
  qed
qed simp


lemma pwm_only: "list_all is_pwm (packet_calls six)"
  by (auto simp: packet_calls_def set_duties_def split: option.splits)

lemma pwm_only_feedback: "list_all is_pwm (feedback_calls bs)"
  using pwm_only by (auto simp: feedback_calls_def list_all_iff)

lemma pwm_only_trace:
  assumes "list_all is_pwm (map fst tr)"
  shows "received sock tr = []" and "opened d tr = 0" and "closed d tr = 0"
    and "pwm_calls tr = map fst tr"
proof -
  show "received sock tr = []" and "opened d tr = 0" and "closed d tr = 0"
    using assms by (induction tr) (auto elim!: is_pwm.elims)
  show "pwm_calls tr = map fst tr"
    using assms by (simp add: pwm_calls_def list_all_iff filter_id_conv)
qed

lemma after_feedback:
  assumes "after (feedback_calls bs) s s'"
  shows "\<exists>tr. s' = s\<lparr>trace := trace s @ tr\<rparr> \<and> pwm_calls tr = feedback_calls bs \<and>
           received sock tr = [] \<and> opened d tr = 0 \<and> closed d tr = 0"
proof -
  obtain tr where tr: "s' = s\<lparr>trace := trace s @ tr\<rparr>" "map fst tr = feedback_calls bs"
    using assms by (auto simp: after_def)
  then have "list_all is_pwm (map fst tr)" using pwm_only_feedback by simp
  with tr show ?thesis by (auto simp: pwm_only_trace)
qed

text \<open>The loop over one connection, at any point of time: the PWM calls performed so far are those of
  the abstract service on the bytes received so far, and the window holds the unfinished group.\<close>

lemma feedback_loop_refines:
  assumes "recv_sane env" and "hav < 6" and "length window = 6"
    and "run_state (feedback_loop env fuel sock (window, hav)) s = (res, s')"
  shows "\<exists>tr. s' = s\<lparr>trace := trace s @ tr\<rparr> \<and>
           pwm_calls tr = feedback_calls (take hav window @ received sock tr) \<and>
           opened d tr = 0 \<and> closed d tr = 0 \<and>
           (\<forall>window' hav'. res = Some (window', hav') \<longrightarrow>
              hav' < 6 \<and> length window' = 6 \<and>
              take hav' window' = leftover 6 (take hav window @ received sock tr))"
  using assms(2-4)
proof (induction fuel arbitrary: window hav s)
  case (Suc fuel)
  define r where "r = env (length (trace s)) (Net (Recv sock CONTROL_RX_BUFSZ))"
  define t where "t = s\<lparr>trace := trace s @ [(Net (Recv sock CONTROL_RX_BUFSZ), r)]\<rparr>"
  show ?case
  proof (cases "rval r \<le> 0")
    case True
    with Suc.prems have "res = Some (window, hav)" and "s' = t"
      by (auto simp: run_simps r_def t_def split: if_splits)
    with True Suc.prems show ?thesis
      by (auto simp: t_def pwm_calls_def intro!: exI [where x = "[(Net (Recv sock CONTROL_RX_BUFSZ), r)]"])
  next
    case False
    have data: "length (rdata r) = nat (rval r)"
      using recv_saneD(2) [OF assms(1)] False by (simp add: r_def)
    obtain w h u where c: "run_state (consume env (Suc (nat (rval r))) (rdata r) (nat (rval r)) 0 (window, hav)) t
          = (Some (w, h), u)"
        "after (feedback_calls (take hav window @ rdata r)) t u" "h < 6" "length w = 6"
        "take h w = leftover 6 (take hav window @ rdata r)"
      using consume_refines [of hav window 0 "nat (rval r)" "rdata r" "Suc (nat (rval r))" env t]
        Suc.prems data by (auto simp: slice_def)
    with Suc.prems False have rest: "run_state (feedback_loop env fuel sock (w, h)) u = (res, s')"
      by (auto simp: run_simps r_def t_def split: if_splits)
    obtain tr1 where tr1: "u = t\<lparr>trace := trace t @ tr1\<rparr>"
        "pwm_calls tr1 = feedback_calls (take hav window @ rdata r)"
        "received sock tr1 = []" "opened d tr1 = 0" "closed d tr1 = 0"
      using after_feedback [OF c(2)] by blast
    obtain tr2 where tr2: "s' = u\<lparr>trace := trace u @ tr2\<rparr>"
        "pwm_calls tr2 = feedback_calls (leftover 6 (take hav window @ rdata r) @ received sock tr2)"
        "opened d tr2 = 0" "closed d tr2 = 0"
        "\<forall>window' hav'. res = Some (window', hav') \<longrightarrow>
              hav' < 6 \<and> length window' = 6 \<and>
              take hav' window' = leftover 6 (leftover 6 (take hav window @ rdata r) @ received sock tr2)"
      using Suc.IH [OF c(3,4) rest] unfolding c(5) by blast
    show ?thesis
      using tr1 tr2 False feedback_calls_append [of "take hav window @ rdata r" "received sock tr2"]
        chunks_append(2) [of 6 "take hav window @ rdata r" "received sock tr2"]
      by (intro exI [where x = "(Net (Recv sock CONTROL_RX_BUFSZ), r) # tr1 @ tr2"])
         (auto simp: t_def pwm_calls_def)
  qed
qed (auto simp: pwm_calls_def intro!: exI [where x = "[]"])

text \<open>The loop ends once the peer has closed the connection: every iteration performs a call, so fuel
  up to the time from which \<open>recv\<close> reports no more data is enough.\<close>

lemma feedback_loop_ends:
  assumes "recv_sane env" and "hav < 6" and "length window = 6"
    and "\<forall>k\<ge>K. rval (env k (Net (Recv sock CONTROL_RX_BUFSZ))) \<le> 0"
    and "K - length (trace s) < fuel"
  shows "\<exists>st s'. run_state (feedback_loop env fuel sock (window, hav)) s = (Some st, s')"
  using assms(2,3,5)
proof (induction fuel arbitrary: window hav s)
  case (Suc fuel)
  define r where "r = env (length (trace s)) (Net (Recv sock CONTROL_RX_BUFSZ))"
  define t where "t = s\<lparr>trace := trace s @ [(Net (Recv sock CONTROL_RX_BUFSZ), r)]\<rparr>"
  show ?case
  proof (cases "rval r \<le> 0")
    case True
    then show ?thesis by (auto simp: run_simps r_def t_def)
  next
    case False
    have data: "length (rdata r) = nat (rval r)"
      using recv_saneD(2) [OF assms(1)] False by (simp add: r_def)
    obtain w h u where c: "run_state (consume env (Suc (nat (rval r))) (rdata r) (nat (rval r)) 0 (window, hav)) t
          = (Some (w, h), u)" "h < 6" "length w = 6"
        "after (feedback_calls (take hav window @ slice 0 (nat (rval r) - 0) (rdata r))) t u"
      using consume_refines [of hav window 0 "nat (rval r)" "rdata r" "Suc (nat (rval r))" env t]
        Suc.prems data by auto
    have "length (trace t) \<le> length (trace u)" using c(4) by (auto simp: after_def)
    moreover have "length (trace s) < K" using False assms(4) by (auto simp: r_def not_le)
    ultimately have "K - length (trace u) < fuel" using Suc.prems by (simp add: t_def)
    with Suc.IH c(2,3) obtain st s' where
      "run_state (feedback_loop env fuel sock (w, h)) u = (Some st, s')" by blast
    with c(1) False show ?thesis by (auto simp: run_simps r_def t_def)
  qed
qed simp


section \<open>The service as a client handler\<close>

text \<open>Whatever the window holds, the loops perform PWM calls and \<open>recv\<close> only.\<close>

lemma consume_quiet:
  assumes "run_state (consume env fuel rxbuf n off st) s = (res, s')"
  shows "\<exists>tr. s' = s\<lparr>trace := trace s @ tr\<rparr> \<and> list_all is_pwm (map fst tr)"
  using assms
proof (induction fuel arbitrary: off st s)
  case (Suc fuel)
  obtain w h where st: "st = (w, h)" by (cases st)
  obtain w' h' off' where f: "fill_window rxbuf n w h off = (w', h', off')"
    by (cases "fill_window rxbuf n w h off")
  define u where "u = snd (run_state (handle_packet env w') s)"
  obtain tr1 where tr1: "u = s\<lparr>trace := trace s @ tr1\<rparr>" "list_all is_pwm (map fst tr1)"
    using after_handle_packet [of w' s env] pwm_only [of w'] by (auto simp: u_def after_def)
  consider "\<not> off < n" | "off < n" "h' = 6" | "off < n" "h' \<noteq> 6" by blast
  then show ?case
  proof cases
    case 1
    with Suc.prems st show ?thesis by (auto intro!: exI [where x = "[]"])
  next
    case 2
    with Suc.prems st f have "run_state (consume env fuel rxbuf n off' (w', 0)) u = (res, s')"
      by (simp add: run_simps u_def case_prod_unfold)
    from Suc.IH [OF this] obtain tr2 where
      "s' = u\<lparr>trace := trace u @ tr2\<rparr>" "list_all is_pwm (map fst tr2)" by blast
    with tr1 show ?thesis by (intro exI [where x = "tr1 @ tr2"]) simp
  next
    case 3
    with Suc.prems st f have "run_state (consume env fuel rxbuf n off' (w', h')) s = (res, s')"
      by simp
    then show ?thesis by (rule Suc.IH)
  qed
qed (auto intro!: exI [where x = "[]"])

lemma feedback_loop_quiet:
  assumes "run_state (feedback_loop env fuel sock st) s = (res, s')"
  shows "\<exists>tr. s' = s\<lparr>trace := trace s @ tr\<rparr> \<and> opened d tr = 0 \<and> closed d tr = 0"
  using assms
proof (induction fuel arbitrary: st s)
  case (Suc fuel)
  define r where "r = env (length (trace s)) (Net (Recv sock CONTROL_RX_BUFSZ))"
  define t where "t = s\<lparr>trace := trace s @ [(Net (Recv sock CONTROL_RX_BUFSZ), r)]\<rparr>"
  obtain o1 u where c: "run_state (consume env (Suc (nat (rval r))) (rdata r) (nat (rval r)) 0 st) t = (o1, u)"
    by fastforce
  obtain tr1 where tr1: "u = t\<lparr>trace := trace t @ tr1\<rparr>" "list_all is_pwm (map fst tr1)"
    using consume_quiet [OF c] by blast
  have ex: "\<exists>tr2. s' = u\<lparr>trace := trace u @ tr2\<rparr> \<and> opened d tr2 = 0 \<and> closed d tr2 = 0"
    if "0 < rval r"
  proof (cases o1)
    case None
    with that Suc.prems c have "s' = u" by (auto simp: run_simps r_def t_def)
    then show ?thesis by (auto intro!: exI [where x = "[]"])
  next
    case (Some st')
    with that Suc.prems c have "run_state (feedback_loop env fuel sock st') u = (res, s')"
      by (auto simp: run_simps r_def t_def)
    then show ?thesis by (rule Suc.IH)
  qed
  show ?case
  proof (cases "0 < rval r")
    case True
    from ex [OF this] obtain tr2 where "s' = u\<lparr>trace := trace u @ tr2\<rparr>" "opened d tr2 = 0" "closed d tr2 = 0"
      by blast
    then show ?thesis
      using tr1 pwm_only_trace [OF tr1(2)]
      by (intro exI [where x = "(Net (Recv sock CONTROL_RX_BUFSZ), r) # tr1 @ tr2"]) (simp add: t_def)
  next
    case False
    with Suc.prems have "s' = t" by (auto simp: run_simps r_def t_def split: if_splits)
    then show ?thesis
      by (auto simp: t_def intro!: exI [where x = "[(Net (Recv sock CONTROL_RX_BUFSZ), r)]"])
  qed
qed (auto intro!: exI [where x = "[]"])

lemma feedback_client_run:
  assumes "run_state (feedback_client env fuel sock st) s = (res, s')"
  obtains t where "run_state (feedback_loop env fuel sock (fst st, 0)) s = (res, t)"
    and "res = None \<Longrightarrow> s' = t"
    and "res \<noteq> None \<Longrightarrow> after [Net (Shutdown sock), Net (Close sock)] t s'"
proof -
  obtain o1 t where l: "run_state (feedback_loop env fuel sock (fst st, 0)) s = (o1, t)"
    by fastforce
  show thesis
  proof (rule that)
    show "run_state (feedback_loop env fuel sock (fst st, 0)) s = (res, t)"
      and "res = None \<Longrightarrow> s' = t"
      and "res \<noteq> None \<Longrightarrow> after [Net (Shutdown sock), Net (Close sock)] t s'"
      using assms l by (auto simp: feedback_client_def run_simps after_def split: option.splits)
  qed
qed

interpretation haptic_service: client_handler "feedback_client env fuel" for env fuel
proof
  fix sock x s x' s' d
  assume "run_state (feedback_client env fuel sock x) s = (Some x', s')"
  then obtain t where t: "run_state (feedback_loop env fuel sock (fst x, 0)) s = (Some x', t)"
    "after [Net (Shutdown sock), Net (Close sock)] t s'"
    by (rule feedback_client_run) auto
  obtain tr where "t = s\<lparr>trace := trace s @ tr\<rparr>" "opened d tr = 0" "closed d tr = 0"
    using feedback_loop_quiet [OF t(1)] by blast
  with t(2) show "closed d (trace s') = closed d (trace s) + (if d = sock then 1 else 0)"
    and "opened d (trace s') = opened d (trace s)"
    by (auto simp: after_def map_eq_Cons_conv)
qed


section \<open>Properties of the service\<close>

text \<open>C3 (refinement).  For every behaviour of the network, at every point of time of a connection on
  port 4000, the PWM calls performed are exactly those the abstract service makes of the bytes
  received so far: consecutive groups of six, cut independently of how TCP delivered them, with
  nothing carried over from an earlier client.\<close>

theorem haptic_stream_refinement:
  assumes "recv_sane env" and "length window = 6"
    and "run_state (feedback_client env fuel sock (window, hav)) s = (res, s')"
  shows "\<exists>tr. trace s' = trace s @ tr \<and> pwm_calls tr = feedback_calls (received sock tr)"
proof -
  obtain t where t: "run_state (feedback_loop env fuel sock (window, 0)) s = (res, t)"
      and n: "res = None \<Longrightarrow> s' = t"
      and c: "res \<noteq> None \<Longrightarrow> after [Net (Shutdown sock), Net (Close sock)] t s'"
    using feedback_client_run [OF assms(3)] by auto
  obtain tr where tr: "t = s\<lparr>trace := trace s @ tr\<rparr>"
      "pwm_calls tr = feedback_calls (received sock tr)"
    using feedback_loop_refines [OF assms(1) _ assms(2) t, where d = 0] by auto
  have "\<exists>tr2. s' = t\<lparr>trace := trace t @ tr2\<rparr> \<and> pwm_calls tr2 = [] \<and> received sock tr2 = []"
  proof (cases "res = None")
    case True
    then show ?thesis using n by (auto simp: pwm_calls_def intro!: exI [where x = "[]"])
  next
    case False
    then show ?thesis
      using c by (fastforce simp: after_def map_eq_Cons_conv pwm_calls_def)
  qed
  with tr show ?thesis by fastforce
qed

theorem haptic_stream_refinement_witness:
  "\<exists>st s' tr. run_state (feedback_client (scripted_recv [[0x31, 0x32, 0x30, 0x34], [0x35, 0x30]]) 3 5
       (replicate 6 0, 0)) \<lparr>trace = []\<rparr> = (Some st, s') \<and>
     trace s' = [] @ tr \<and> pwm_calls tr = feedback_calls (received 5 tr) \<and>
     pwm_calls tr = set_duties 123 461"
proof -
  let ?env = "scripted_recv [[0x31, 0x32, 0x30, 0x34], [0x35, 0x30]]"
  let ?run = "run_state (feedback_client ?env 3 5 (replicate 6 0, 0)) \<lparr>trace = []\<rparr>"
  have e: "fst ?run \<noteq> None" "pwm_calls (trace (snd ?run)) = set_duties 123 461"
    by code_simp+
  then obtain st s' where r: "?run = (Some st, s')" by (metis option.exhaust prod.collapse)
  show ?thesis
    using haptic_stream_refinement [OF recv_sane_scripted _ r] e r by auto
qed

text \<open>C37 (round trip).  A client that writes any sequence of commands with intensities up to 999,
  each as six digits, drives both channels through exactly the corresponding sequence of duties.\<close>

theorem haptic_commands_applied:
  assumes "list_all valid_lr lrs"
  shows "feedback_calls (concat (map encode_lr lrs)) =
         concat (map (\<lambda>(l, r). set_duties (pwm_duty l) (pwm_duty r)) lrs)"
  using assms by (rule feedback_calls_commands)

theorem haptic_commands_applied_witness:
  "list_all valid_lr [(120, 450), (0, 999)] \<and>
   feedback_calls (concat (map encode_lr [(120, 450), (0, 999)]))
     = set_duties 123 461 @ set_duties 0 1023"
proof -
  have h: "list_all valid_lr [(120, 450), (0, 999)]" by (simp add: valid_lr_def)
  show ?thesis using h haptic_commands_applied [OF h] by (simp add: pwm_duty_def)
qed

text \<open>C38 (bounds).  A command is accepted exactly when its six bytes are digits; then both
  intensities are at most 999, and the duty of each is at most 1023 (so it fits the 10-bit PWM
  timer) and is the integer nearest to \<open>x * 1023 / 999\<close>.\<close>

theorem haptic_duty_bounds:
  assumes "length six = 6"
  shows "(parse_six_chars_to_lr six \<noteq> None \<longleftrightarrow> list_all is_digit six) \<and>
         (\<forall>L R. parse_six_chars_to_lr six = Some (L, R) \<longrightarrow>
            L \<le> 999 \<and> R \<le> 999 \<and>
            unat (pwm_duty L) \<le> 1023 \<and> unat (pwm_duty R) \<le> 1023 \<and>
            \<bar>999 * uint (pwm_duty L) - 1023 * uint L\<bar> \<le> 499 \<and>
            \<bar>999 * uint (pwm_duty R) - 1023 * uint R\<bar> \<le> 499)"
  using parse_six_range [OF assms] pwm_duty_bound parse_six_some_iff [OF assms] pwm_duty_nearest
  by blast

theorem haptic_duty_bounds_witness:
  "parse_six_chars_to_lr [0x39, 0x39, 0x39, 0x30, 0x30, 0x31] = Some (999, 1) \<and>
   unat (pwm_duty 999) \<le> 1023"
proof -
  have p: "parse_six_chars_to_lr [0x39, 0x39, 0x39, 0x30, 0x30, 0x31] = Some (999, 1)"
    by code_simp
  show ?thesis using haptic_duty_bounds [of "[0x39, 0x39, 0x39, 0x30, 0x30, 0x31]"] p by simp
qed

text \<open>Serving a connection ends, with the connection shut down and closed, as
  soon as \<open>recv\<close> keeps reporting the end of the stream or an error.\<close>

theorem haptic_client_ends:
  assumes "recv_sane env" and "length window = 6"
    and "\<forall>k\<ge>K. rval (env k (Net (Recv sock CONTROL_RX_BUFSZ))) \<le> 0"
    and "K - length (trace s) < fuel"
  shows "\<exists>st s'. run_state (feedback_client env fuel sock (window, hav)) s = (Some st, s') \<and>
           closed sock (trace s') = closed sock (trace s) + 1"
proof -
  obtain st t where "run_state (feedback_loop env fuel sock (window, 0)) s = (Some st, t)"
    using feedback_loop_ends [OF assms(1) _ assms(2-4), of 0] by auto
  then have "\<exists>s'. run_state (feedback_client env fuel sock (window, hav)) s = (Some st, s')"
    by (simp add: feedback_client_def run_simps)
  then show ?thesis using haptic_service.closes_once by fastforce
qed

theorem haptic_client_ends_witness:
  "\<exists>st s'. run_state (feedback_client (scripted_recv [[0x31, 0x32]]) 2 5 (replicate 6 0, 0))
       \<lparr>trace = []\<rparr> = (Some st, s') \<and> closed 5 (trace s') = 1"
proof -
  have "\<forall>k\<ge>1. rval (scripted_recv [[0x31, 0x32]] k (Net (Recv 5 CONTROL_RX_BUFSZ))) \<le> 0"
    by (simp add: scripted_recv_exhausted)
  from haptic_client_ends [OF recv_sane_scripted _ this, of "replicate 6 0" "\<lparr>trace = []\<rparr>" 2 0]
  show ?thesis by simp
qed

end
