(* ===== verification/Sccb.thy ===== *)
theory Sccb
  imports LlCam
begin

text \<open>
  The sensor's control bus (\<open>driver/sccb.c\<close>): installation of the I2C driver, the search for a sensor
  on the bus, and register reads and writes with 8- and 16-bit register addresses and values.

  A command link is built by a fixed sequence of \<open>i2c_master_*\<close> calls and run by
  \<open>i2c_master_cmd_begin\<close>: here it is the list of queued operations, and running it is one external
  call.  \<open>rdata\<close> of its result is what the read operations of the link stored.
\<close>

section \<open>The port\<close>

definition SCCB_I2C_PORT_DEFAULT :: int where "SCCB_I2C_PORT_DEFAULT = 1"
definition SCCB_FREQ :: nat where "SCCB_FREQ = 100000"
definition I2C_NUM_MAX :: int where "I2C_NUM_MAX = 2"

definition SCCB_Init :: "fw_env \<Rightarrow> int \<Rightarrow> int \<Rightarrow> ('z cam_vars_scheme, esp_err) state" where
  "SCCB_Init env pin_sda pin_scl = do {
     modify (\<lambda>s. s\<lparr>sccb_i2c_port := SCCB_I2C_PORT_DEFAULT, sccb_owns_i2c_port := True\<rparr>);
     port \<leftarrow> gets sccb_i2c_port;
     r \<leftarrow> ask env (I2c_param_config port pin_sda pin_scl SCCB_FREQ);
     if rerr r \<noteq> ESP_OK then return (rerr r)
     else do {
       r \<leftarrow> ask env (I2c_driver_install port);
       return (rerr r)
     }
   }"

definition SCCB_Deinit :: "fw_env \<Rightarrow> ('z cam_vars_scheme, esp_err) state" where
  "SCCB_Deinit env = do {
     owns \<leftarrow> gets sccb_owns_i2c_port;
     if \<not> owns then return ESP_OK
     else do {
       modify (\<lambda>s. s\<lparr>sccb_owns_i2c_port := False\<rparr>);
       port \<leftarrow> gets sccb_i2c_port;
       r \<leftarrow> ask env (I2c_driver_delete port);
       return (rerr r)
     }
   }"

definition SCCB_Use_Port :: "fw_env \<Rightarrow> int \<Rightarrow> ('z cam_vars_scheme, esp_err) state" where
  "SCCB_Use_Port env i2c_num = do {
     owns \<leftarrow> gets sccb_owns_i2c_port;
     do_when owns (do { _ \<leftarrow> SCCB_Deinit env; return () });
     if i2c_num < 0 \<or> I2C_NUM_MAX < i2c_num then return ESP_ERR_INVALID_ARG
     else do {
       modify (\<lambda>s. s\<lparr>sccb_i2c_port := i2c_num\<rparr>);
       return ESP_OK
     }
   }"

section \<open>Transactions\<close>

definition WRITE_BIT :: byte where "WRITE_BIT = 0"
definition READ_BIT :: byte where "READ_BIT = 1"

definition addr_byte :: "byte \<Rightarrow> byte \<Rightarrow> byte" where
  "addr_byte slv rw = push_bit 1 slv OR rw"

definition transaction :: "fw_env \<Rightarrow> i2c_op list \<Rightarrow> ('z cam_vars_scheme, ret) state" where
  "transaction env ops = do {
     port \<leftarrow> gets sccb_i2c_port;
     ask env (I2c_cmd_begin port ([I2C_START] @ ops @ [I2C_STOP]))
   }"

text \<open>The scan of the sensor table; consecutive rows with the same address are tried once.\<close>

fun probe_from :: "fw_env \<Rightarrow> byte \<Rightarrow> camera_sensor_info_t list \<Rightarrow> ('z cam_vars_scheme, byte) state" where
  "probe_from env slave_addr [] = return 0"
| "probe_from env slave_addr (row # rows) =
     (if slave_addr = info_sccb_addr row then probe_from env slave_addr rows
      else do {
        r \<leftarrow> transaction env [I2C_WRITE (addr_byte (info_sccb_addr row) WRITE_BIT)];
        if rerr r = ESP_OK then return (info_sccb_addr row)
        else probe_from env (info_sccb_addr row) rows
      })"

definition SCCB_Probe :: "fw_env \<Rightarrow> ('z cam_vars_scheme, byte) state" where
  "SCCB_Probe env = probe_from env 0 camera_sensor"

text \<open>The byte at a position of what the link read; the variables start as 0.\<close>

definition read_byte :: "ret \<Rightarrow> nat \<Rightarrow> byte" where
  "read_byte r i = (if i < length (rdata r) then rdata r ! i else 0)"

definition SCCB_Read :: "fw_env \<Rightarrow> byte \<Rightarrow> byte \<Rightarrow> ('z cam_vars_scheme, byte) state" where
  "SCCB_Read env slv reg = do {
     r \<leftarrow> transaction env [I2C_WRITE (addr_byte slv WRITE_BIT), I2C_WRITE reg];
     if rerr r \<noteq> ESP_OK then return (-1)
     else do {
       r \<leftarrow> transaction env [I2C_WRITE (addr_byte slv READ_BIT), I2C_READ_NACK];
       return (read_byte r 0)
     }
   }"

definition SCCB_Write :: "fw_env \<Rightarrow> byte \<Rightarrow> byte \<Rightarrow> byte \<Rightarrow> ('z cam_vars_scheme, int) state" where
  "SCCB_Write env slv reg data = do {
     r \<leftarrow> transaction env [I2C_WRITE (addr_byte slv WRITE_BIT), I2C_WRITE reg, I2C_WRITE data];
     return (if rerr r = ESP_OK then 0 else -1)
   }"

text \<open>16-bit addresses and values.  \<open>LITTLETOBIG\<close> swaps the two bytes (the shift is done in \<open>int\<close>, the
  assignment truncates), and the swapped value is read in memory order, low byte first.\<close>

definition LITTLETOBIG :: "u16 \<Rightarrow> u16" where
  "LITTLETOBIG x = word_of_int (push_bit 8 (uint x) OR drop_bit 8 (uint x))"

definition u8_0 :: "u16 \<Rightarrow> byte" where "u8_0 x = ucast x"
definition u8_1 :: "u16 \<Rightarrow> byte" where "u8_1 x = ucast (drop_bit 8 x)"

definition SCCB_Read16 :: "fw_env \<Rightarrow> byte \<Rightarrow> u16 \<Rightarrow> ('z cam_vars_scheme, byte) state" where
  "SCCB_Read16 env slv reg = do {
     let reg_htons = LITTLETOBIG reg;
     r \<leftarrow> transaction env [I2C_WRITE (addr_byte slv WRITE_BIT), I2C_WRITE (u8_0 reg_htons),
            I2C_WRITE (u8_1 reg_htons)];
     if rerr r \<noteq> ESP_OK then return (-1)
     else do {
       r \<leftarrow> transaction env [I2C_WRITE (addr_byte slv READ_BIT), I2C_READ_NACK];
       return (read_byte r 0)
     }
   }"

definition SCCB_Write16 :: "fw_env \<Rightarrow> byte \<Rightarrow> u16 \<Rightarrow> byte \<Rightarrow> ('z cam_vars_scheme, int) state" where
  "SCCB_Write16 env slv reg data = do {
     let reg_htons = LITTLETOBIG reg;
     r \<leftarrow> transaction env [I2C_WRITE (addr_byte slv WRITE_BIT), I2C_WRITE (u8_0 reg_htons),
            I2C_WRITE (u8_1 reg_htons), I2C_WRITE data];
     return (if rerr r = ESP_OK then 0 else -1)
   }"

definition SCCB_Read_Addr16_Val16 :: "fw_env \<Rightarrow> byte \<Rightarrow> u16 \<Rightarrow> ('z cam_vars_scheme, u16) state" where
  "SCCB_Read_Addr16_Val16 env slv reg = do {
     let reg_htons = LITTLETOBIG reg;
     r \<leftarrow> transaction env [I2C_WRITE (addr_byte slv WRITE_BIT), I2C_WRITE (u8_0 reg_htons),
            I2C_WRITE (u8_1 reg_htons)];
     if rerr r \<noteq> ESP_OK then return (-1)
     else do {
       r \<leftarrow> transaction env [I2C_WRITE (addr_byte slv READ_BIT), I2C_READ_ACK, I2C_READ_NACK];
       return (push_bit 8 (ucast (read_byte r 0)) OR ucast (read_byte r 1))
     }
   }"

definition SCCB_Write_Addr16_Val16 :: "fw_env \<Rightarrow> byte \<Rightarrow> u16 \<Rightarrow> u16 \<Rightarrow> ('z cam_vars_scheme, int) state" where
  "SCCB_Write_Addr16_Val16 env slv reg data = do {
     let reg_htons = LITTLETOBIG reg;
     let data_htons = LITTLETOBIG data;
     r \<leftarrow> transaction env [I2C_WRITE (addr_byte slv WRITE_BIT), I2C_WRITE (u8_0 reg_htons),
            I2C_WRITE (u8_1 reg_htons), I2C_WRITE (u8_0 data_htons), I2C_WRITE (u8_1 data_htons)];
     return (if rerr r = ESP_OK then 0 else -1)
   }"

end
