(* ===== verification/Ov2640Tables.thy ===== *)
theory Ov2640Tables
  imports Prelude Sensor
begin

text \<open>
  The register map and the register tables of the OV2640 (\<open>ov2640_regs.h\<close>, \<open>ov2640_settings.h\<close>).  A
  settings table is a list of register and value pairs ended by the pair with register 0, as in the
  source; the level tables have the registers in row 0 and one row of values per level.
\<close>

section \<open>Registers and bit masks\<close>

definition R_BYPASS :: byte where "R_BYPASS = 0x05"
definition QS :: byte where "QS = 0x44"
definition CTRLI :: byte where "CTRLI = 0x50"
definition HSIZE :: byte where "HSIZE = 0x51"
definition VSIZE :: byte where "VSIZE = 0x52"
definition XOFFL :: byte where "XOFFL = 0x53"
definition YOFFL :: byte where "YOFFL = 0x54"
definition VHYX :: byte where "VHYX = 0x55"
definition TEST :: byte where "TEST = 0x57"
definition ZMOW :: byte where "ZMOW = 0x5A"
definition ZMOH :: byte where "ZMOH = 0x5B"
definition ZMHH :: byte where "ZMHH = 0x5C"
definition BPADDR :: byte where "BPADDR = 0x7C"
definition BPDATA :: byte where "BPDATA = 0x7D"
definition CTRL2 :: byte where "CTRL2 = 0x86"
definition CTRL3 :: byte where "CTRL3 = 0x87"
definition SIZEL :: byte where "SIZEL = 0x8C"
definition HSIZE8 :: byte where "HSIZE8 = 0xC0"
definition VSIZE8 :: byte where "VSIZE8 = 0xC1"
definition CTRL0 :: byte where "CTRL0 = 0xC2"
definition CTRL1 :: byte where "CTRL1 = 0xC3"
definition R_DVP_SP :: byte where "R_DVP_SP = 0xD3"
definition IMAGE_MODE :: byte where "IMAGE_MODE = 0xDA"
definition RESET :: byte where "RESET = 0xE0"
definition MC_BIST :: byte where "MC_BIST = 0xF9"
definition BANK_SEL :: byte where "BANK_SEL = 0xFF"
definition CTRLI_LP_DP :: byte where "CTRLI_LP_DP = 0x80"
definition CTRL2_DCW_EN :: byte where "CTRL2_DCW_EN = 0x20"
definition CTRL3_WPC_EN :: byte where "CTRL3_WPC_EN = 0x40"
definition R_DVP_SP_AUTO_MODE :: byte where "R_DVP_SP_AUTO_MODE = 0x80"
definition R_BYPASS_DSP_EN :: byte where "R_BYPASS_DSP_EN = 0x00"
definition R_BYPASS_DSP_BYPAS :: byte where "R_BYPASS_DSP_BYPAS = 0x01"
definition IMAGE_MODE_JPEG_EN :: byte where "IMAGE_MODE_JPEG_EN = 0x10"
definition IMAGE_MODE_YUV422 :: byte where "IMAGE_MODE_YUV422 = 0x00"
definition IMAGE_MODE_RGB565 :: byte where "IMAGE_MODE_RGB565 = 0x08"
definition IMAGE_MODE_HREF_VSYNC :: byte where "IMAGE_MODE_HREF_VSYNC = 0x02"
definition RESET_JPEG :: byte where "RESET_JPEG = 0x10"
definition RESET_DVP :: byte where "RESET_DVP = 0x04"
definition MC_BIST_RESET :: byte where "MC_BIST_RESET = 0x80"
definition MC_BIST_BOOT_ROM_SEL :: byte where "MC_BIST_BOOT_ROM_SEL = 0x40"
definition GAIN :: byte where "GAIN = 0x00"
definition COM1 :: byte where "COM1 = 0x03"
definition REG04 :: byte where "REG04 = 0x04"
definition COM2 :: byte where "COM2 = 0x09"
definition REG_VER :: byte where "REG_VER = 0x0B"
definition COM4 :: byte where "COM4 = 0x0D"
definition AEC :: byte where "AEC = 0x10"
definition CLKRC :: byte where "CLKRC = 0x11"
definition COM7 :: byte where "COM7 = 0x12"
definition COM8 :: byte where "COM8 = 0x13"
definition COM9 :: byte where "COM9 = 0x14"
definition HSTART :: byte where "HSTART = 0x17"
definition HSTOP :: byte where "HSTOP = 0x18"
definition VSTART :: byte where "VSTART = 0x19"
definition VSTOP :: byte where "VSTOP = 0x1A"
definition REG_MIDH :: byte where "REG_MIDH = 0x1C"
definition REG_MIDL :: byte where "REG_MIDL = 0x1D"
definition AEW :: byte where "AEW = 0x24"
definition AEB :: byte where "AEB = 0x25"
definition VV :: byte where "VV = 0x26"
definition REG32 :: byte where "REG32 = 0x32"
definition ARCOM2 :: byte where "ARCOM2 = 0x34"
definition REG45 :: byte where "REG45 = 0x45"
definition BD50 :: byte where "BD50 = 0x4F"
definition BD60 :: byte where "BD60 = 0x50"
definition HISTO_LOW :: byte where "HISTO_LOW = 0x61"
definition HISTO_HIGH :: byte where "HISTO_HIGH = 0x62"
definition REG04_DEFAULT :: byte where "REG04_DEFAULT = 0x28"
definition REG04_HFLIP_IMG :: byte where "REG04_HFLIP_IMG = 0x80"
definition REG04_VFLIP_IMG :: byte where "REG04_VFLIP_IMG = 0x40"
definition REG04_VREF_EN :: byte where "REG04_VREF_EN = 0x10"
definition COM2_OUT_DRIVE_3x :: byte where "COM2_OUT_DRIVE_3x = 0x02"
definition COM7_SRST :: byte where "COM7_SRST = 0x80"
definition COM7_RES_UXGA :: byte where "COM7_RES_UXGA = 0x00"
definition COM7_RES_SVGA :: byte where "COM7_RES_SVGA = 0x40"
definition COM7_RES_CIF :: byte where "COM7_RES_CIF = 0x20"
definition COM7_COLOR_BAR :: byte where "COM7_COLOR_BAR = 0x02"
definition COM8_DEFAULT :: byte where "COM8_DEFAULT = 0xC0"
definition COM8_BNDF_EN :: byte where "COM8_BNDF_EN = 0x20"
definition COM8_AGC_EN :: byte where "COM8_AGC_EN = 0x04"
definition COM8_AEC_EN :: byte where "COM8_AEC_EN = 0x01"
definition COM9_DEFAULT :: byte where "COM9_DEFAULT = 0x08"
definition COM9_AGC_GAIN_8x :: byte where "COM9_AGC_GAIN_8x = 0x02"
definition REG32_UXGA :: byte where "REG32_UXGA = 0x36"
definition REG32_SVGA :: byte where "REG32_SVGA = 0x09"
definition REG32_CIF :: byte where "REG32_CIF = 0x89"

definition BANK_DSP :: byte where "BANK_DSP = 0"
definition BANK_SENSOR :: byte where "BANK_SENSOR = 1"
definition BANK_MAX :: byte where "BANK_MAX = 2"

definition COM9_AGC_SET :: "byte \<Rightarrow> byte" where
  "COM9_AGC_SET x = COM9_DEFAULT OR push_bit 5 x"

definition VV_AGC_TH_SET :: "byte \<Rightarrow> byte \<Rightarrow> byte" where
  "VV_AGC_TH_SET h l = push_bit 4 h OR (l AND 0x0F)"

lemmas ov2640_regs =
  R_BYPASS_def QS_def CTRLI_def HSIZE_def VSIZE_def XOFFL_def YOFFL_def VHYX_def TEST_def
  ZMOW_def ZMOH_def ZMHH_def BPADDR_def BPDATA_def CTRL2_def CTRL3_def SIZEL_def HSIZE8_def
  VSIZE8_def CTRL0_def CTRL1_def R_DVP_SP_def IMAGE_MODE_def RESET_def MC_BIST_def
  BANK_SEL_def CTRLI_LP_DP_def CTRL2_DCW_EN_def CTRL3_WPC_EN_def R_DVP_SP_AUTO_MODE_def
  R_BYPASS_DSP_EN_def R_BYPASS_DSP_BYPAS_def IMAGE_MODE_JPEG_EN_def IMAGE_MODE_YUV422_def
  IMAGE_MODE_RGB565_def IMAGE_MODE_HREF_VSYNC_def RESET_JPEG_def RESET_DVP_def
  MC_BIST_RESET_def MC_BIST_BOOT_ROM_SEL_def GAIN_def COM1_def REG04_def COM2_def REG_VER_def
  COM4_def AEC_def CLKRC_def COM7_def COM8_def COM9_def HSTART_def HSTOP_def VSTART_def
  VSTOP_def REG_MIDH_def REG_MIDL_def AEW_def AEB_def VV_def REG32_def ARCOM2_def REG45_def
  BD50_def BD60_def HISTO_LOW_def HISTO_HIGH_def REG04_DEFAULT_def REG04_HFLIP_IMG_def
  REG04_VFLIP_IMG_def REG04_VREF_EN_def COM2_OUT_DRIVE_3x_def COM7_SRST_def COM7_RES_UXGA_def
  COM7_RES_SVGA_def COM7_RES_CIF_def COM7_COLOR_BAR_def COM8_DEFAULT_def COM8_BNDF_EN_def
  COM8_AGC_EN_def COM8_AEC_EN_def COM9_DEFAULT_def COM9_AGC_GAIN_8x_def REG32_UXGA_def
  REG32_SVGA_def REG32_CIF_def BANK_DSP_def BANK_SENSOR_def BANK_MAX_def COM9_AGC_SET_def
  VV_AGC_TH_SET_def

section \<open>Modes and windows\<close>

text \<open>\<open>ov2640_sensor_mode_t\<close>; \<open>set_res_raw\<close> casts an arbitrary \<open>int\<close> to it.\<close>

definition OV2640_MODE_UXGA :: int where "OV2640_MODE_UXGA = 0"
definition OV2640_MODE_SVGA :: int where "OV2640_MODE_SVGA = 1"
definition OV2640_MODE_CIF :: int where "OV2640_MODE_CIF = 2"

text \<open>The two clock registers, from their bit fields.\<close>

record ov2640_clk_t =
  pclk_div :: byte
  pclk_auto :: byte
  clk_div :: byte
  clk_reserved :: byte
  clk_2x :: byte

definition clk_pclk :: "ov2640_clk_t \<Rightarrow> byte" where
  "clk_pclk c = (pclk_div c AND 0x7F) OR push_bit 7 (pclk_auto c)"

definition clk_clk :: "ov2640_clk_t \<Rightarrow> byte" where
  "clk_clk c = (clk_div c AND 0x3F) OR push_bit 6 (clk_reserved c AND 1) OR push_bit 7 (clk_2x c)"

text \<open>\<open>ratio_table\<close>, indexed by \<open>aspect_ratio_t\<close>: \<open>offset_x\<close>, \<open>offset_y\<close>, \<open>max_x\<close>, \<open>max_y\<close>.\<close>

fun ratio_table :: "aspect_ratio_t \<Rightarrow> int \<times> int \<times> int \<times> int" where
  "ratio_table ASPECT_RATIO_4X3 = (0, 0, 1600, 1200)"
| "ratio_table ASPECT_RATIO_3X2 = (8, 72, 1584, 1056)"
| "ratio_table ASPECT_RATIO_16X10 = (0, 100, 1600, 1000)"
| "ratio_table ASPECT_RATIO_5X3 = (0, 120, 1600, 960)"
| "ratio_table ASPECT_RATIO_16X9 = (0, 150, 1600, 900)"
| "ratio_table ASPECT_RATIO_21X9 = (2, 258, 1596, 684)"
| "ratio_table ASPECT_RATIO_5X4 = (50, 0, 1500, 1200)"
| "ratio_table ASPECT_RATIO_1X1 = (200, 0, 1200, 1200)"
| "ratio_table ASPECT_RATIO_9X16 = (462, 0, 676, 1200)"

section \<open>Settings\<close>

definition ov2640_settings_cif :: "(byte \<times> byte) list" where
  "ov2640_settings_cif =
     [(BANK_SEL, BANK_DSP), (0x2C, 0xFF), (0x2E, 0xDF), (BANK_SEL, BANK_SENSOR), (0x3C, 0x32),
      (CLKRC, 0x01), (COM2, COM2_OUT_DRIVE_3x), (REG04, REG04_DEFAULT),
      (COM8, COM8_DEFAULT OR COM8_BNDF_EN OR COM8_AGC_EN OR COM8_AEC_EN),
      (COM9, COM9_AGC_SET COM9_AGC_GAIN_8x), (0x2C, 0x0C), (0x33, 0x78), (0x3A, 0x33),
      (0x3B, 0xFB), (0x3E, 0x00), (0x43, 0x11), (0x16, 0x10), (0x39, 0x92), (0x35, 0xDA),
      (0x22, 0x1A), (0x37, 0xC3), (0x23, 0x00), (ARCOM2, 0xC0), (0x06, 0x88), (0x07, 0xC0),
      (COM4, 0x87), (0x0E, 0x41), (0x4C, 0x00), (0x4A, 0x81), (0x21, 0x99), (AEW, 0x40),
      (AEB, 0x38), (VV, VV_AGC_TH_SET 8 2), (0x5C, 0x00), (0x63, 0x00), (HISTO_LOW, 0x70),
      (HISTO_HIGH, 0x80), (0x7C, 0x05), (0x20, 0x80), (0x28, 0x30), (0x6C, 0x00), (0x6D, 0x80),
      (0x6E, 0x00), (0x70, 0x02), (0x71, 0x94), (0x73, 0xC1), (0x3D, 0x34), (0x5A, 0x57),
      (BD50, 0xBB), (BD60, 0x9C), (COM7, COM7_RES_CIF), (HSTART, 0x11), (HSTOP, 0x43),
      (VSTART, 0x00), (VSTOP, 0x25), (REG32, 0x89), (0x37, 0xC0), (BD50, 0xCA), (BD60, 0xA8),
      (0x6D, 0x00), (0x3D, 0x38), (BANK_SEL, BANK_DSP), (0xE5, 0x7F),
      (MC_BIST, MC_BIST_RESET OR MC_BIST_BOOT_ROM_SEL), (0x41, 0x24),
      (RESET, RESET_JPEG OR RESET_DVP), (0x76, 0xFF), (0x33, 0xA0), (0x42, 0x20), (0x43, 0x18),
      (0x4C, 0x00), (CTRL3, CTRL3_WPC_EN OR 0x10), (0x88, 0x3F), (0xD7, 0x03), (0xD9, 0x10),
      (R_DVP_SP, R_DVP_SP_AUTO_MODE OR 0x02), (0xC8, 0x08), (0xC9, 0x80), (BPADDR, 0x00),
      (BPDATA, 0x00), (BPADDR, 0x03), (BPDATA, 0x48), (BPDATA, 0x48), (BPADDR, 0x08),
      (BPDATA, 0x20), (BPDATA, 0x10), (BPDATA, 0x0E), (0x90, 0x00), (0x91, 0x0E), (0x91, 0x1A),
      (0x91, 0x31), (0x91, 0x5A), (0x91, 0x69), (0x91, 0x75), (0x91, 0x7E), (0x91, 0x88),
      (0x91, 0x8F), (0x91, 0x96), (0x91, 0xA3), (0x91, 0xAF), (0x91, 0xC4), (0x91, 0xD7),
      (0x91, 0xE8), (0x91, 0x20), (0x92, 0x00), (0x93, 0x06), (0x93, 0xE3), (0x93, 0x05),
      (0x93, 0x05), (0x93, 0x00), (0x93, 0x04), (0x93, 0x00), (0x93, 0x00), (0x93, 0x00),
      (0x93, 0x00), (0x93, 0x00), (0x93, 0x00), (0x93, 0x00), (0x96, 0x00), (0x97, 0x08),
      (0x97, 0x19), (0x97, 0x02), (0x97, 0x0C), (0x97, 0x24), (0x97, 0x30), (0x97, 0x28),
      (0x97, 0x26), (0x97, 0x02), (0x97, 0x98), (0x97, 0x80), (0x97, 0x00), (0x97, 0x00),
      (0xA4, 0x00), (0xA8, 0x00), (0xC5, 0x11), (0xC6, 0x51), (0xBF, 0x80), (0xC7, 0x10),
      (0xB6, 0x66), (0xB8, 0xA5), (0xB7, 0x64), (0xB9, 0x7C), (0xB3, 0xAF), (0xB4, 0x97),
      (0xB5, 0xFF), (0xB0, 0xC5), (0xB1, 0x94), (0xB2, 0x0F), (0xC4, 0x5C), (CTRL1, 0xFD),
      (0x7F, 0x00), (0xE5, 0x1F), (0xE1, 0x67), (0xDD, 0x7F), (IMAGE_MODE, 0x00),
      (RESET, 0x00), (R_BYPASS, R_BYPASS_DSP_EN), (0, 0)]"

definition ov2640_settings_to_cif :: "(byte \<times> byte) list" where
  "ov2640_settings_to_cif =
     [(BANK_SEL, BANK_SENSOR), (COM7, COM7_RES_CIF), (COM1, 0x0A), (REG32, REG32_CIF),
      (HSTART, 0x11), (HSTOP, 0x43), (VSTART, 0x00), (VSTOP, 0x25), (BD50, 0xCA), (BD60, 0xA8),
      (0x5A, 0x23), (0x6D, 0x00), (0x3D, 0x38), (0x39, 0x92), (0x35, 0xDA), (0x22, 0x1A),
      (0x37, 0xC3), (0x23, 0x00), (ARCOM2, 0xC0), (0x06, 0x88), (0x07, 0xC0), (COM4, 0x87),
      (0x0E, 0x41), (0x4C, 0x00), (BANK_SEL, BANK_DSP), (RESET, RESET_DVP), (HSIZE8, 0x32),
      (VSIZE8, 0x25), (SIZEL, 0x00), (HSIZE, 0x64), (VSIZE, 0x4A), (XOFFL, 0x00),
      (YOFFL, 0x00), (VHYX, 0x00), (TEST, 0x00), (CTRL2, CTRL2_DCW_EN OR 0x1D),
      (CTRLI, CTRLI_LP_DP OR 0x00), (0, 0)]"

definition ov2640_settings_to_svga :: "(byte \<times> byte) list" where
  "ov2640_settings_to_svga =
     [(BANK_SEL, BANK_SENSOR), (COM7, COM7_RES_SVGA), (COM1, 0x0A), (REG32, REG32_SVGA),
      (HSTART, 0x11), (HSTOP, 0x43), (VSTART, 0x00), (VSTOP, 0x4B), (0x37, 0xC0), (BD50, 0xCA),
      (BD60, 0xA8), (0x5A, 0x23), (0x6D, 0x00), (0x3D, 0x38), (0x39, 0x92), (0x35, 0xDA),
      (0x22, 0x1A), (0x37, 0xC3), (0x23, 0x00), (ARCOM2, 0xC0), (0x06, 0x88), (0x07, 0xC0),
      (COM4, 0x87), (0x0E, 0x41), (0x42, 0x03), (0x4C, 0x00), (BANK_SEL, BANK_DSP),
      (RESET, RESET_DVP), (HSIZE8, 0x64), (VSIZE8, 0x4B), (SIZEL, 0x00), (HSIZE, 0xC8),
      (VSIZE, 0x96), (XOFFL, 0x00), (YOFFL, 0x00), (VHYX, 0x00), (TEST, 0x00),
      (CTRL2, CTRL2_DCW_EN OR 0x1D), (CTRLI, CTRLI_LP_DP OR 0x00), (0, 0)]"

definition ov2640_settings_to_uxga :: "(byte \<times> byte) list" where
  "ov2640_settings_to_uxga =
     [(BANK_SEL, BANK_SENSOR), (COM7, COM7_RES_UXGA), (COM1, 0x0F), (REG32, REG32_UXGA),
      (HSTART, 0x11), (HSTOP, 0x75), (VSTART, 0x01), (VSTOP, 0x97), (0x3D, 0x34), (BD50, 0xBB),
      (BD60, 0x9C), (0x5A, 0x57), (0x6D, 0x80), (0x39, 0x82), (0x23, 0x00), (0x07, 0xC0),
      (0x4C, 0x00), (0x35, 0x88), (0x22, 0x0A), (0x37, 0x40), (ARCOM2, 0xA0), (0x06, 0x02),
      (COM4, 0xB7), (0x0E, 0x01), (0x42, 0x83), (BANK_SEL, BANK_DSP), (RESET, RESET_DVP),
      (HSIZE8, 0xC8), (VSIZE8, 0x96), (SIZEL, 0x00), (HSIZE, 0x90), (VSIZE, 0x2C),
      (XOFFL, 0x00), (YOFFL, 0x00), (VHYX, 0x88), (TEST, 0x00), (CTRL2, CTRL2_DCW_EN OR 0x1D),
      (CTRLI, 0x00), (0, 0)]"

definition ov2640_settings_jpeg3 :: "(byte \<times> byte) list" where
  "ov2640_settings_jpeg3 =
     [(BANK_SEL, BANK_DSP), (RESET, RESET_JPEG OR RESET_DVP),
      (IMAGE_MODE, IMAGE_MODE_JPEG_EN OR IMAGE_MODE_HREF_VSYNC), (0xD7, 0x03), (0xE1, 0x77),
      (0xE5, 0x1F), (0xD9, 0x10), (0xDF, 0x80), (0x33, 0x80), (0x3C, 0x10), (0xEB, 0x30),
      (0xDD, 0x7F), (RESET, 0x00), (0, 0)]"

definition ov2640_settings_yuv422 :: "(byte \<times> byte) list" where
  "ov2640_settings_yuv422 =
     [(BANK_SEL, BANK_DSP), (RESET, RESET_DVP), (IMAGE_MODE, IMAGE_MODE_YUV422), (0xD7, 0x01),
      (0xE1, 0x67), (RESET, 0x00), (0, 0)]"

definition ov2640_settings_rgb565 :: "(byte \<times> byte) list" where
  "ov2640_settings_rgb565 =
     [(BANK_SEL, BANK_DSP), (RESET, RESET_DVP), (IMAGE_MODE, IMAGE_MODE_RGB565), (0xD7, 0x03),
      (0xE1, 0x77), (RESET, 0x00), (0, 0)]"

section \<open>Levels\<close>

definition brightness_regs :: "byte list list" where
  "brightness_regs =
     [[BPADDR, BPDATA, BPADDR, BPDATA, BPDATA],
      [0x00, 0x04, 0x09, 0x00, 0x00],
      [0x00, 0x04, 0x09, 0x10, 0x00],
      [0x00, 0x04, 0x09, 0x20, 0x00],
      [0x00, 0x04, 0x09, 0x30, 0x00],
      [0x00, 0x04, 0x09, 0x40, 0x00]]"

definition contrast_regs :: "byte list list" where
  "contrast_regs =
     [[BPADDR, BPDATA, BPADDR, BPDATA, BPDATA, BPDATA, BPDATA],
      [0x00, 0x04, 0x07, 0x20, 0x18, 0x34, 0x06],
      [0x00, 0x04, 0x07, 0x20, 0x1C, 0x2A, 0x06],
      [0x00, 0x04, 0x07, 0x20, 0x20, 0x20, 0x06],
      [0x00, 0x04, 0x07, 0x20, 0x24, 0x16, 0x06],
      [0x00, 0x04, 0x07, 0x20, 0x28, 0x0C, 0x06]]"

definition saturation_regs :: "byte list list" where
  "saturation_regs =
     [[BPADDR, BPDATA, BPADDR, BPDATA, BPDATA],
      [0x00, 0x02, 0x03, 0x28, 0x28],
      [0x00, 0x02, 0x03, 0x38, 0x38],
      [0x00, 0x02, 0x03, 0x48, 0x48],
      [0x00, 0x02, 0x03, 0x58, 0x58],
      [0x00, 0x02, 0x03, 0x68, 0x68]]"

definition special_effects_regs :: "byte list list" where
  "special_effects_regs =
     [[BPADDR, BPDATA, BPADDR, BPDATA, BPDATA],
      [0x00, 0x00, 0x05, 0x80, 0x80],
      [0x00, 0x40, 0x05, 0x80, 0x80],
      [0x00, 0x18, 0x05, 0x80, 0x80],
      [0x00, 0x18, 0x05, 0x40, 0xC0],
      [0x00, 0x18, 0x05, 0x40, 0x40],
      [0x00, 0x18, 0x05, 0xA0, 0x40],
      [0x00, 0x18, 0x05, 0x40, 0xA6]]"

definition wb_modes_regs :: "byte list list" where
  "wb_modes_regs =
     [[0xCC, 0xCD, 0xCE],
      [0x5E, 0x41, 0x54],
      [0x65, 0x41, 0x4F],
      [0x52, 0x41, 0x66],
      [0x42, 0x3F, 0x71]]"

definition ae_levels_regs :: "byte list list" where
  "ae_levels_regs =
     [[AEW, AEB, VV],
      [0x20, 0x18, 0x60],
      [0x34, 0x1C, 0x00],
      [0x3E, 0x38, 0x81],
      [0x48, 0x40, 0x81],
      [0x58, 0x50, 0x92]]"

definition agc_gain_tbl :: "byte list" where
  "agc_gain_tbl =
     [0x00, 0x10, 0x18, 0x30, 0x34, 0x38, 0x3C, 0x70, 0x72, 0x74, 0x76, 0x78, 0x7A, 0x7C, 0x7E, 0xF0,
      0xF1, 0xF2, 0xF3, 0xF4, 0xF5, 0xF6, 0xF7, 0xF8, 0xF9, 0xFA, 0xFB, 0xFC, 0xFD, 0xFE, 0xFF]"

end
