(* ===== verification/Ov2640.thy ===== *)
theory Ov2640
  imports Sccb Ov2640Tables "HOL-Library.Signed_Division"
begin

text \<open>
  The OV2640 sensor driver (\<open>sensors/ov2640.c\<close>).  The sensor's registers are in two banks selected by
  writing \<open>BANK_SEL\<close>; the driver remembers the selected bank in \<open>reg_bank\<close>.  All functions work on the
  one sensor object of the camera driver, \<open>s_state->sensor\<close>; its settings are kept in \<open>status\<close>.  C
  \<open>int\<close> arguments are integers, converted to bytes where the source assigns them to \<open>uint8_t\<close>; division
  truncates (\<open>sdiv\<close>) and \<open>>>\<close> is arithmetic.
\<close>

section \<open>Access to the sensor object\<close>

definition sensor :: "'z cam_vars_scheme \<Rightarrow> sensor_t" where
  "sensor s = the (s_state s)"

definition upd_sensor :: "(sensor_t \<Rightarrow> sensor_t) \<Rightarrow> ('z cam_vars_scheme, unit) state" where
  "upd_sensor f = modify (\<lambda>s. s\<lparr>s_state := map_option f (s_state s)\<rparr>)"

definition upd_status :: "(camera_status_t \<Rightarrow> camera_status_t) \<Rightarrow> ('z cam_vars_scheme, unit) state" where
  "upd_status f = upd_sensor (\<lambda>x. x\<lparr>status := f (status x)\<rparr>)"

abbreviation u8 :: "int \<Rightarrow> byte" where
  "u8 \<equiv> word_of_int"

text \<open>\<open>ret = m; if (ret) return ret;\<close>\<close>

definition or_return :: "('s, int) state \<Rightarrow> ('s, int) state \<Rightarrow> ('s, int) state" where
  "or_return m k = do { ret \<leftarrow> m; if ret \<noteq> 0 then return ret else k }"

section \<open>Registers\<close>

definition set_bank :: "fw_env \<Rightarrow> byte \<Rightarrow> ('z cam_vars_scheme, int) state" where
  "set_bank env bank = do {
     s \<leftarrow> get_state;
     if bank \<noteq> reg_bank s then do {
       modify (\<lambda>s. s\<lparr>reg_bank := bank\<rparr>);
       SCCB_Write env (slv_addr (sensor s)) BANK_SEL bank
     } else return 0
   }"

definition write_byte :: "fw_env \<Rightarrow> byte \<Rightarrow> byte \<Rightarrow> ('z cam_vars_scheme, int) state" where
  "write_byte env reg v = do { s \<leftarrow> get_state; SCCB_Write env (slv_addr (sensor s)) reg v }"

definition read_reg_byte :: "fw_env \<Rightarrow> byte \<Rightarrow> ('z cam_vars_scheme, byte) state" where
  "read_reg_byte env reg = do { s \<leftarrow> get_state; SCCB_Read env (slv_addr (sensor s)) reg }"

text \<open>The loop ends at the pair with register 0; every table has one.\<close>

fun write_regs :: "fw_env \<Rightarrow> (byte \<times> byte) list \<Rightarrow> ('z cam_vars_scheme, int) state" where
  "write_regs env [] = return 0"
| "write_regs env ((r, v) # regs) =
     (if r = 0 then return 0
      else or_return (if r = BANK_SEL then set_bank env v else write_byte env r v) (write_regs env regs))"

definition write_reg :: "fw_env \<Rightarrow> byte \<Rightarrow> byte \<Rightarrow> byte \<Rightarrow> ('z cam_vars_scheme, int) state" where
  "write_reg env bank reg v = or_return (set_bank env bank) (write_byte env reg v)"

definition set_reg_bits ::
  "fw_env \<Rightarrow> byte \<Rightarrow> byte \<Rightarrow> nat \<Rightarrow> byte \<Rightarrow> byte \<Rightarrow> ('z cam_vars_scheme, int) state" where
  "set_reg_bits env bank reg offset msk v = or_return (set_bank env bank) (do {
     c_value \<leftarrow> read_reg_byte env reg;
     let new_value = (c_value AND NOT (push_bit offset msk)) OR push_bit offset (v AND msk);
     write_byte env reg new_value
   })"

definition read_reg :: "fw_env \<Rightarrow> byte \<Rightarrow> byte \<Rightarrow> ('z cam_vars_scheme, byte) state" where
  "read_reg env bank reg = do {
     r \<leftarrow> set_bank env bank;
     if r \<noteq> 0 then return 0 else read_reg_byte env reg
   }"

definition get_reg_bits :: "fw_env \<Rightarrow> byte \<Rightarrow> byte \<Rightarrow> nat \<Rightarrow> byte \<Rightarrow> ('z cam_vars_scheme, byte) state" where
  "get_reg_bits env bank reg offset msk = do {
     v \<leftarrow> read_reg env bank reg;
     return (drop_bit offset v AND msk)
   }"

definition write_reg_bits :: "fw_env \<Rightarrow> byte \<Rightarrow> byte \<Rightarrow> byte \<Rightarrow> int \<Rightarrow> ('z cam_vars_scheme, int) state" where
  "write_reg_bits env bank reg msk enable =
     set_reg_bits env bank reg 0 msk (if enable \<noteq> 0 then msk else 0)"

section \<open>Reset, pixel format, frame size\<close>

definition ov2640_reset :: "fw_env \<Rightarrow> ('z cam_vars_scheme, int) state" where
  "ov2640_reset env = or_return (write_reg env BANK_SENSOR COM7 COM7_SRST) (do {
     perform env (Os (Task_delay 1));
     write_regs env ov2640_settings_cif
   })"

definition pixformat_table :: "pixformat_t \<Rightarrow> (byte \<times> byte) list option" where
  "pixformat_table pf =
     (if pf = PIXFORMAT_RGB565 \<or> pf = PIXFORMAT_RGB888 then Some ov2640_settings_rgb565
      else if pf = PIXFORMAT_YUV422 \<or> pf = PIXFORMAT_GRAYSCALE then Some ov2640_settings_yuv422
      else if pf = PIXFORMAT_JPEG then Some ov2640_settings_jpeg3
      else None)"

definition set_pixformat :: "fw_env \<Rightarrow> pixformat_t \<Rightarrow> ('z cam_vars_scheme, int) state" where
  "set_pixformat env pf = do {
     upd_sensor (\<lambda>x. x\<lparr>pixformat := pf\<rparr>);
     case pixformat_table pf of
       None \<Rightarrow> return (-1)
     | Some regs \<Rightarrow> or_return (write_regs env regs) (do {
         perform env (Os (Task_delay 1));
         return 0
       })
   }"

definition win_regs :: "int \<Rightarrow> int \<Rightarrow> int \<Rightarrow> int \<Rightarrow> int \<Rightarrow> int \<Rightarrow> (byte \<times> byte) list" where
  "win_regs offset_x offset_y max_x max_y w h =
     [(BANK_SEL, BANK_DSP),
      (HSIZE, u8 (max_x AND 0xFF)),
      (VSIZE, u8 (max_y AND 0xFF)),
      (XOFFL, u8 (offset_x AND 0xFF)),
      (YOFFL, u8 (offset_y AND 0xFF)),
      (VHYX, u8 ((drop_bit 1 max_y AND 0x80) OR (drop_bit 4 offset_y AND 0x70) OR
                 (drop_bit 5 max_x AND 0x08) OR (drop_bit 8 offset_x AND 0x07))),
      (TEST, u8 (drop_bit 2 max_x AND 0x80)),
      (ZMOW, u8 (w AND 0xFF)),
      (ZMOH, u8 (h AND 0xFF)),
      (ZMHH, u8 ((drop_bit 6 h AND 0x04) OR (drop_bit 8 w AND 0x03))),
      (0, 0)]"

definition window_clock :: "pixformat_t \<Rightarrow> int \<Rightarrow> ov2640_clk_t" where
  "window_clock pf md =
     (if pf = PIXFORMAT_JPEG then
        \<lparr>pclk_div = (if md = OV2640_MODE_UXGA then 12 else 8), pclk_auto = 0,
         clk_div = 0, clk_reserved = 0, clk_2x = 0\<rparr>
      else
        \<lparr>pclk_div = (if md = OV2640_MODE_CIF then 8 else if md = OV2640_MODE_UXGA then 12 else 8),
         pclk_auto = 1, clk_div = (if md = OV2640_MODE_CIF then 3 else 7), clk_reserved = 0, clk_2x = 1\<rparr>)"

definition mode_regs :: "int \<Rightarrow> (byte \<times> byte) list" where
  "mode_regs md =
     (if md = OV2640_MODE_CIF then ov2640_settings_to_cif
      else if md = OV2640_MODE_SVGA then ov2640_settings_to_svga
      else ov2640_settings_to_uxga)"

definition set_window ::
  "fw_env \<Rightarrow> int \<Rightarrow> int \<Rightarrow> int \<Rightarrow> int \<Rightarrow> int \<Rightarrow> int \<Rightarrow> int \<Rightarrow> ('z cam_vars_scheme, int) state" where
  "set_window env md offset_x offset_y max_x max_y w h = do {
     pf \<leftarrow> gets (\<lambda>s. pixformat (sensor s));
     let win = win_regs offset_x offset_y (max_x sdiv 4) (max_y sdiv 4) (w sdiv 4) (h sdiv 4);
     let c = window_clock pf md;
     or_return (write_reg env BANK_DSP R_BYPASS R_BYPASS_DSP_BYPAS)
      (or_return (write_regs env (mode_regs md))
       (or_return (write_regs env win)
        (or_return (write_reg env BANK_SENSOR CLKRC (clk_clk c))
         (or_return (write_reg env BANK_DSP R_DVP_SP (clk_pclk c))
          (or_return (write_reg env BANK_DSP R_BYPASS R_BYPASS_DSP_EN) (do {
             perform env (Os (Task_delay 1));
             pf \<leftarrow> gets (\<lambda>s. pixformat (sensor s));
             _ \<leftarrow> set_pixformat env pf;
             return 0
           }))))))
   }"

text \<open>The window of a frame size: mode, offsets, and the part of the array that is read out.\<close>

definition framesize_window :: "framesize_t \<Rightarrow> int \<times> int \<times> int \<times> int \<times> int" where
  "framesize_window fs =
     (case ratio_table (res_ratio fs) of (offset_x, offset_y, max_x, max_y) \<Rightarrow>
        if fs \<le> FRAMESIZE_CIF then
          (OV2640_MODE_CIF, offset_x sdiv 4, offset_y sdiv 4, max_x sdiv 4, min (max_y sdiv 4) 296)
        else if fs \<le> FRAMESIZE_SVGA then
          (OV2640_MODE_SVGA, offset_x sdiv 2, offset_y sdiv 2, max_x sdiv 2, max_y sdiv 2)
        else (OV2640_MODE_UXGA, offset_x, offset_y, max_x, max_y))"

definition set_framesize :: "fw_env \<Rightarrow> framesize_t \<Rightarrow> ('z cam_vars_scheme, int) state" where
  "set_framesize env fs = do {
     upd_status (\<lambda>st. st\<lparr>st_framesize := fs\<rparr>);
     case framesize_window fs of (md, offset_x, offset_y, max_x, max_y) \<Rightarrow>
       set_window env md offset_x offset_y max_x max_y (int (res_width fs)) (int (res_height fs))
   }"

section \<open>Image settings\<close>

text \<open>\<open>for (i = 0; i < n; i++) WRITE_REG_OR_RETURN(bank, regs[0][i], regs[level][i]);\<close>\<close>

fun write_pairs :: "fw_env \<Rightarrow> byte \<Rightarrow> (byte \<times> byte) list \<Rightarrow> ('z cam_vars_scheme, int) state" where
  "write_pairs env bank [] = return 0"
| "write_pairs env bank ((r, v) # rvs) = or_return (write_reg env bank r v) (write_pairs env bank rvs)"

definition level_row :: "byte list list \<Rightarrow> nat \<Rightarrow> (byte \<times> byte) list" where
  "level_row regs level = zip (regs ! 0) (regs ! level)"

definition set_contrast :: "fw_env \<Rightarrow> int \<Rightarrow> ('z cam_vars_scheme, int) state" where
  "set_contrast env level =
     (let level = level + 3
      in if level \<le> 0 \<or> 5 < level then return (-1)
         else do {
           upd_status (\<lambda>st. st\<lparr>st_contrast := u8 (level - 3)\<rparr>);
           write_pairs env BANK_DSP (level_row contrast_regs (nat level))
         })"

definition set_brightness :: "fw_env \<Rightarrow> int \<Rightarrow> ('z cam_vars_scheme, int) state" where
  "set_brightness env level =
     (let level = level + 3
      in if level \<le> 0 \<or> 5 < level then return (-1)
         else do {
           upd_status (\<lambda>st. st\<lparr>st_brightness := u8 (level - 3)\<rparr>);
           write_pairs env BANK_DSP (level_row brightness_regs (nat level))
         })"

definition set_saturation :: "fw_env \<Rightarrow> int \<Rightarrow> ('z cam_vars_scheme, int) state" where
  "set_saturation env level =
     (let level = level + 3
      in if level \<le> 0 \<or> 5 < level then return (-1)
         else do {
           upd_status (\<lambda>st. st\<lparr>st_saturation := u8 (level - 3)\<rparr>);
           write_pairs env BANK_DSP (level_row saturation_regs (nat level))
         })"

definition set_special_effect :: "fw_env \<Rightarrow> int \<Rightarrow> ('z cam_vars_scheme, int) state" where
  "set_special_effect env effect =
     (let effect = effect + 1
      in if effect \<le> 0 \<or> 7 < effect then return (-1)
         else do {
           upd_status (\<lambda>st. st\<lparr>st_special_effect := u8 (effect - 1)\<rparr>);
           write_pairs env BANK_DSP (level_row special_effects_regs (nat effect))
         })"

definition set_wb_mode :: "fw_env \<Rightarrow> int \<Rightarrow> ('z cam_vars_scheme, int) state" where
  "set_wb_mode env md =
     (if md < 0 \<or> 4 < md then return (-1)
      else do {
        upd_status (\<lambda>st. st\<lparr>st_wb_mode := u8 md\<rparr>);
        or_return (set_reg_bits env BANK_DSP 0xC7 6 1 (if md \<noteq> 0 then 1 else 0))
          (if md \<noteq> 0 then write_pairs env BANK_DSP (level_row wb_modes_regs (nat md)) else return 0)
      })"

definition set_ae_level :: "fw_env \<Rightarrow> int \<Rightarrow> ('z cam_vars_scheme, int) state" where
  "set_ae_level env level =
     (let level = level + 3
      in if level \<le> 0 \<or> 5 < level then return (-1)
         else do {
           upd_status (\<lambda>st. st\<lparr>st_ae_level := u8 (level - 3)\<rparr>);
           write_pairs env BANK_SENSOR (level_row ae_levels_regs (nat level))
         })"

definition clamp :: "int \<Rightarrow> int \<Rightarrow> int" where
  "clamp hi v = (if v < 0 then 0 else if hi < v then hi else v)"

definition set_quality :: "fw_env \<Rightarrow> int \<Rightarrow> ('z cam_vars_scheme, int) state" where
  "set_quality env quality = do {
     let quality = clamp 63 quality;
     upd_status (\<lambda>st. st\<lparr>st_quality := u8 quality\<rparr>);
     write_reg env BANK_DSP QS (u8 quality)
   }"

definition set_agc_gain :: "fw_env \<Rightarrow> int \<Rightarrow> ('z cam_vars_scheme, int) state" where
  "set_agc_gain env gain = do {
     let gain = clamp 30 gain;
     upd_status (\<lambda>st. st\<lparr>st_agc_gain := u8 gain\<rparr>);
     write_reg env BANK_SENSOR GAIN (agc_gain_tbl ! nat gain)
   }"

definition set_gainceiling_sensor :: "fw_env \<Rightarrow> int \<Rightarrow> ('z cam_vars_scheme, int) state" where
  "set_gainceiling_sensor env gc = do {
     upd_status (\<lambda>st. st\<lparr>st_gainceiling := u8 gc\<rparr>);
     set_reg_bits env BANK_SENSOR COM9 5 7 (u8 gc)
   }"

text \<open>\<open>a || b || c\<close> evaluates to 1 at the first non-zero operand.\<close>

definition set_aec_value :: "fw_env \<Rightarrow> int \<Rightarrow> ('z cam_vars_scheme, int) state" where
  "set_aec_value env v = do {
     let v = clamp 1200 v;
     upd_status (\<lambda>st. st\<lparr>st_aec_value := word_of_int v\<rparr>);
     r \<leftarrow> or_return (set_reg_bits env BANK_SENSOR REG04 0 3 (u8 (v AND 3)))
           (or_return (write_reg env BANK_SENSOR AEC (u8 (drop_bit 2 v AND 0xFF)))
             (set_reg_bits env BANK_SENSOR REG45 0 0x3F (u8 (drop_bit 10 v))));
     return (if r \<noteq> 0 then 1 else 0)
   }"

definition flag :: "int \<Rightarrow> int" where
  "flag enable = (if enable \<noteq> 0 then 1 else 0)"

definition set_aec2 :: "fw_env \<Rightarrow> int \<Rightarrow> ('z cam_vars_scheme, int) state" where
  "set_aec2 env enable = do {
     upd_status (\<lambda>st. st\<lparr>st_aec2 := u8 enable\<rparr>);
     set_reg_bits env BANK_DSP CTRL0 6 1 (u8 (if enable \<noteq> 0 then 0 else 1))
   }"

definition set_colorbar :: "fw_env \<Rightarrow> int \<Rightarrow> ('z cam_vars_scheme, int) state" where
  "set_colorbar env enable = do {
     upd_status (\<lambda>st. st\<lparr>st_colorbar := u8 enable\<rparr>);
     write_reg_bits env BANK_SENSOR COM7 COM7_COLOR_BAR (flag enable)
   }"

definition set_agc_sensor :: "fw_env \<Rightarrow> int \<Rightarrow> ('z cam_vars_scheme, int) state" where
  "set_agc_sensor env enable = do {
     upd_status (\<lambda>st. st\<lparr>st_agc := u8 enable\<rparr>);
     write_reg_bits env BANK_SENSOR COM8 COM8_AGC_EN (flag enable)
   }"

definition set_aec_sensor :: "fw_env \<Rightarrow> int \<Rightarrow> ('z cam_vars_scheme, int) state" where
  "set_aec_sensor env enable = do {
     upd_status (\<lambda>st. st\<lparr>st_aec := u8 enable\<rparr>);
     write_reg_bits env BANK_SENSOR COM8 COM8_AEC_EN (flag enable)
   }"

definition set_hmirror_sensor :: "fw_env \<Rightarrow> int \<Rightarrow> ('z cam_vars_scheme, int) state" where
  "set_hmirror_sensor env enable = do {
     upd_status (\<lambda>st. st\<lparr>st_hmirror := u8 enable\<rparr>);
     write_reg_bits env BANK_SENSOR REG04 REG04_HFLIP_IMG (flag enable)
   }"

definition set_vflip_sensor :: "fw_env \<Rightarrow> int \<Rightarrow> ('z cam_vars_scheme, int) state" where
  "set_vflip_sensor env enable = do {
     upd_status (\<lambda>st. st\<lparr>st_vflip := u8 enable\<rparr>);
     ret \<leftarrow> write_reg_bits env BANK_SENSOR REG04 REG04_VREF_EN (flag enable);
     r \<leftarrow> write_reg_bits env BANK_SENSOR REG04 REG04_VFLIP_IMG (flag enable);
     return (ret AND r)
   }"

definition set_raw_gma_dsp :: "fw_env \<Rightarrow> int \<Rightarrow> ('z cam_vars_scheme, int) state" where
  "set_raw_gma_dsp env enable = do {
     upd_status (\<lambda>st. st\<lparr>st_raw_gma := u8 enable\<rparr>);
     set_reg_bits env BANK_DSP CTRL1 5 1 (u8 (flag enable))
   }"

definition set_awb_dsp :: "fw_env \<Rightarrow> int \<Rightarrow> ('z cam_vars_scheme, int) state" where
  "set_awb_dsp env enable = do {
     upd_status (\<lambda>st. st\<lparr>st_awb := u8 enable\<rparr>);
     set_reg_bits env BANK_DSP CTRL1 3 1 (u8 (flag enable))
   }"

definition set_awb_gain_dsp :: "fw_env \<Rightarrow> int \<Rightarrow> ('z cam_vars_scheme, int) state" where
  "set_awb_gain_dsp env enable = do {
     upd_status (\<lambda>st. st\<lparr>st_awb_gain := u8 enable\<rparr>);
     set_reg_bits env BANK_DSP CTRL1 2 1 (u8 (flag enable))
   }"

definition set_lenc_dsp :: "fw_env \<Rightarrow> int \<Rightarrow> ('z cam_vars_scheme, int) state" where
  "set_lenc_dsp env enable = do {
     upd_status (\<lambda>st. st\<lparr>st_lenc := u8 enable\<rparr>);
     set_reg_bits env BANK_DSP CTRL1 1 1 (u8 (flag enable))
   }"

definition set_dcw_dsp :: "fw_env \<Rightarrow> int \<Rightarrow> ('z cam_vars_scheme, int) state" where
  "set_dcw_dsp env enable = do {
     upd_status (\<lambda>st. st\<lparr>st_dcw := u8 enable\<rparr>);
     set_reg_bits env BANK_DSP CTRL2 5 1 (u8 (flag enable))
   }"

definition set_bpc_dsp :: "fw_env \<Rightarrow> int \<Rightarrow> ('z cam_vars_scheme, int) state" where
  "set_bpc_dsp env enable = do {
     upd_status (\<lambda>st. st\<lparr>st_bpc := u8 enable\<rparr>);
     set_reg_bits env BANK_DSP CTRL3 7 1 (u8 (flag enable))
   }"

definition set_wpc_dsp :: "fw_env \<Rightarrow> int \<Rightarrow> ('z cam_vars_scheme, int) state" where
  "set_wpc_dsp env enable = do {
     upd_status (\<lambda>st. st\<lparr>st_wpc := u8 enable\<rparr>);
     set_reg_bits env BANK_DSP CTRL3 6 1 (u8 (flag enable))
   }"

text \<open>Not supported by this sensor.\<close>

definition set_sharpness :: "fw_env \<Rightarrow> int \<Rightarrow> ('z cam_vars_scheme, int) state" where
  "set_sharpness env level = return (-1)"

definition set_denoise :: "fw_env \<Rightarrow> int \<Rightarrow> ('z cam_vars_scheme, int) state" where
  "set_denoise env level = return (-1)"

section \<open>Raw access\<close>

definition reg_of_int :: "int \<Rightarrow> byte \<times> byte" where
  "reg_of_int reg = (u8 (drop_bit 8 reg AND 1), u8 (reg AND 0xFF))"

definition get_reg :: "fw_env \<Rightarrow> int \<Rightarrow> int \<Rightarrow> ('z cam_vars_scheme, int) state" where
  "get_reg env reg msk = do {
     ret \<leftarrow> read_reg env (fst (reg_of_int reg)) (snd (reg_of_int reg));
     return (if 0 < uint ret then uint ret AND msk else uint ret)
   }"

definition set_reg :: "fw_env \<Rightarrow> int \<Rightarrow> int \<Rightarrow> int \<Rightarrow> ('z cam_vars_scheme, int) state" where
  "set_reg env reg msk v = do {
     ret \<leftarrow> read_reg env (fst (reg_of_int reg)) (snd (reg_of_int reg));
     let v = (uint ret AND NOT msk) OR (v AND msk);
     write_reg env (fst (reg_of_int reg)) (snd (reg_of_int reg)) (u8 v)
   }"

definition set_res_raw ::
  "fw_env \<Rightarrow> int \<Rightarrow> int \<Rightarrow> int \<Rightarrow> int \<Rightarrow> int \<Rightarrow> int \<Rightarrow> int \<Rightarrow> ('z cam_vars_scheme, int) state" where
  "set_res_raw env startX offsetX offsetY totalX totalY outputX outputY =
     set_window env startX offsetX offsetY totalX totalY outputX outputY"

definition set_pll :: "fw_env \<Rightarrow> ('z cam_vars_scheme, int) state" where
  "set_pll env = return (-1)"

definition set_xclk :: "fw_env \<Rightarrow> nat \<Rightarrow> int \<Rightarrow> ('z cam_vars_scheme, int) state" where
  "set_xclk env timer xclk = do {
     let hz = sint (word_of_int (xclk * 1000000) :: u32);
     upd_sensor (\<lambda>x. x\<lparr>sensor_xclk_freq_hz := hz\<rparr>);
     e \<leftarrow> xclk_timer_conf env timer hz;
     return (if e = ESP_OK then 0 else -1)
   }"

section \<open>Reading the settings back\<close>

definition agc_index :: "byte \<Rightarrow> nat" where
  "agc_index g =
     (case find (\<lambda>i. agc_gain_tbl ! i \<le> g \<and> g < agc_gain_tbl ! (i + 1)) [0..<30] of
        Some i \<Rightarrow> i | None \<Rightarrow> 30)"

text \<open>One assignment \<open>sensor->status.f = get_reg_bits(sensor, bank, reg, offset, mask)\<close>.\<close>

definition load_bits ::
  "fw_env \<Rightarrow> (byte \<Rightarrow> camera_status_t \<Rightarrow> camera_status_t) \<Rightarrow> byte \<Rightarrow> byte \<Rightarrow> nat \<Rightarrow> byte \<Rightarrow>
     ('z cam_vars_scheme, unit) state" where
  "load_bits env f bank reg offset msk = do {
     b \<leftarrow> get_reg_bits env bank reg offset msk;
     upd_status (f b)
   }"

definition load_aec_value :: "fw_env \<Rightarrow> ('z cam_vars_scheme, unit) state" where
  "load_aec_value env = do {
     h \<leftarrow> get_reg_bits env BANK_SENSOR REG45 0 0x3F;
     m \<leftarrow> read_reg env BANK_SENSOR AEC;
     l \<leftarrow> get_reg_bits env BANK_SENSOR REG04 0 3;
     upd_status (\<lambda>st. st\<lparr>st_aec_value := push_bit 10 (ucast h) OR push_bit 2 (ucast m) OR ucast l\<rparr>)
   }"

definition init_status :: "fw_env \<Rightarrow> ('z cam_vars_scheme, int) state" where
  "init_status env = do {
     upd_status (\<lambda>st. st\<lparr>st_brightness := 0, st_contrast := 0, st_saturation := 0, st_ae_level := 0,
                          st_special_effect := 0, st_wb_mode := 0, st_agc_gain := 30\<rparr>);
     agc_gain \<leftarrow> read_reg env BANK_SENSOR GAIN;
     upd_status (\<lambda>st. st\<lparr>st_agc_gain := of_nat (agc_index agc_gain)\<rparr>);
     load_aec_value env;
     q \<leftarrow> read_reg env BANK_DSP QS;
     upd_status (\<lambda>st. st\<lparr>st_quality := q\<rparr>);
     load_bits env (\<lambda>b st. st\<lparr>st_gainceiling := b\<rparr>) BANK_SENSOR COM9 5 7;
     load_bits env (\<lambda>b st. st\<lparr>st_awb := b\<rparr>) BANK_DSP CTRL1 3 1;
     load_bits env (\<lambda>b st. st\<lparr>st_awb_gain := b\<rparr>) BANK_DSP CTRL1 2 1;
     load_bits env (\<lambda>b st. st\<lparr>st_aec := b\<rparr>) BANK_SENSOR COM8 0 1;
     load_bits env (\<lambda>b st. st\<lparr>st_aec2 := b\<rparr>) BANK_DSP CTRL0 6 1;
     load_bits env (\<lambda>b st. st\<lparr>st_agc := b\<rparr>) BANK_SENSOR COM8 2 1;
     load_bits env (\<lambda>b st. st\<lparr>st_bpc := b\<rparr>) BANK_DSP CTRL3 7 1;
     load_bits env (\<lambda>b st. st\<lparr>st_wpc := b\<rparr>) BANK_DSP CTRL3 6 1;
     load_bits env (\<lambda>b st. st\<lparr>st_raw_gma := b\<rparr>) BANK_DSP CTRL1 5 1;
     load_bits env (\<lambda>b st. st\<lparr>st_lenc := b\<rparr>) BANK_DSP CTRL1 1 1;
     load_bits env (\<lambda>b st. st\<lparr>st_hmirror := b\<rparr>) BANK_SENSOR REG04 7 1;
     load_bits env (\<lambda>b st. st\<lparr>st_vflip := b\<rparr>) BANK_SENSOR REG04 6 1;
     load_bits env (\<lambda>b st. st\<lparr>st_dcw := b\<rparr>) BANK_DSP CTRL2 5 1;
     load_bits env (\<lambda>b st. st\<lparr>st_colorbar := b\<rparr>) BANK_SENSOR COM7 1 1;
     upd_status (\<lambda>st. st\<lparr>st_sharpness := 0, st_denoise := 0\<rparr>);
     return 0
   }"

section \<open>Detection\<close>

definition ov2640_detect :: "fw_env \<Rightarrow> byte \<Rightarrow> ('z cam_vars_scheme, int) state" where
  "ov2640_detect env slv =
     (if OV2640_SCCB_ADDR = slv then do {
        _ \<leftarrow> SCCB_Write env slv 0xFF 0x01;
        pid \<leftarrow> SCCB_Read env slv 0x0A;
        if OV2640_PID = ucast pid then do {
          upd_sensor (\<lambda>x. x\<lparr>sid := (sid x)\<lparr>PID := ucast pid\<rparr>\<rparr>);
          v \<leftarrow> SCCB_Read env slv REG_VER;
          upd_sensor (\<lambda>x. x\<lparr>sid := (sid x)\<lparr>VER := v\<rparr>\<rparr>);
          l \<leftarrow> SCCB_Read env slv REG_MIDL;
          upd_sensor (\<lambda>x. x\<lparr>sid := (sid x)\<lparr>MIDL := l\<rparr>\<rparr>);
          h \<leftarrow> SCCB_Read env slv REG_MIDH;
          upd_sensor (\<lambda>x. x\<lparr>sid := (sid x)\<lparr>MIDH := h\<rparr>\<rparr>);
          return (uint pid)
        } else return 0
      } else return 0)"

definition ov2640_init :: "('z cam_vars_scheme, int) state" where
  "ov2640_init = do {
     upd_sensor (\<lambda>x. x\<lparr>drv := Some CAMERA_OV2640\<rparr>);
     return 0
   }"

end
