(* ===== verification/SensorDetect.thy ===== *)
theory SensorDetect
  imports Ov2640
begin

text \<open>
  Detection of the sensors (\<open>xxx_detect\<close> of every driver under \<open>sensors/\<close> that the configuration enables)
  and the table \<open>g_sensors\<close> of \<open>esp_camera.c\<close>.  The drivers fall into four families by how they read the
  product identifier; each function is an instance.  \<open>xxx_init\<close> assigns the driver's functions to the
  sensor object, which is the field \<open>drv\<close>.
\<close>

section \<open>Families\<close>

text \<open>\<open>id->PID = pid; return pid;\<close>\<close>

definition accept_pid :: "u16 \<Rightarrow> ('z cam_vars_scheme, int) state" where
  "accept_pid pid = do {
     upd_sensor (\<lambda>x. x\<lparr>sid := (sid x)\<lparr>PID := pid\<rparr>\<rparr>);
     return (uint pid)
   }"

text \<open>An 8-bit identifier followed by version and manufacturer.\<close>

definition identify ::
  "fw_env \<Rightarrow> byte \<Rightarrow> u16 \<Rightarrow> byte \<Rightarrow> byte \<Rightarrow> byte \<Rightarrow> byte \<Rightarrow> ('z cam_vars_scheme, int) state" where
  "identify env slv pid r_pid r_ver r_midl r_midh = do {
     p \<leftarrow> SCCB_Read env slv r_pid;
     if pid = ucast p then do {
       upd_sensor (\<lambda>x. x\<lparr>sid := (sid x)\<lparr>PID := ucast p\<rparr>\<rparr>);
       v \<leftarrow> SCCB_Read env slv r_ver;
       upd_sensor (\<lambda>x. x\<lparr>sid := (sid x)\<lparr>VER := v\<rparr>\<rparr>);
       l \<leftarrow> SCCB_Read env slv r_midl;
       upd_sensor (\<lambda>x. x\<lparr>sid := (sid x)\<lparr>MIDL := l\<rparr>\<rparr>);
       h \<leftarrow> SCCB_Read env slv r_midh;
       upd_sensor (\<lambda>x. x\<lparr>sid := (sid x)\<lparr>MIDH := h\<rparr>\<rparr>);
       return (uint p)
     } else return 0
   }"

text \<open>A 16-bit identifier in two 8-bit registers, low byte read first.\<close>

definition detect_low_high ::
  "byte \<Rightarrow> u16 \<Rightarrow> byte \<Rightarrow> byte \<Rightarrow> fw_env \<Rightarrow> byte \<Rightarrow> ('z cam_vars_scheme, int) state" where
  "detect_low_high addr pid r_low r_high env slv =
     (if addr = slv then do {
        l \<leftarrow> SCCB_Read env slv r_low;
        h \<leftarrow> SCCB_Read env slv r_high;
        let p = push_bit 8 (ucast h) OR ucast l;
        if pid = p then accept_pid p else return 0
      } else return 0)"

text \<open>A 16-bit identifier in two registers with 16-bit addresses, high byte read first.\<close>

definition detect_wide ::
  "byte \<Rightarrow> u16 \<Rightarrow> u16 \<Rightarrow> u16 \<Rightarrow> fw_env \<Rightarrow> byte \<Rightarrow> ('z cam_vars_scheme, int) state" where
  "detect_wide addr pid r_high r_low env slv =
     (if addr = slv then do {
        h \<leftarrow> SCCB_Read16 env slv r_high;
        l \<leftarrow> SCCB_Read16 env slv r_low;
        let p = push_bit 8 (ucast h) OR ucast l;
        if pid = p then accept_pid p else return 0
      } else return 0)"

section \<open>The drivers\<close>

definition ov7725_detect :: "fw_env \<Rightarrow> byte \<Rightarrow> ('z cam_vars_scheme, int) state" where
  "ov7725_detect env slv =
     (if slv = 0x21 then do {
        _ \<leftarrow> SCCB_Write env slv 0xFF 0x01;
        identify env slv 0x77 0x0A 0x0B 0x1D 0x1C
      } else return 0)"

definition ov7670_detect :: "fw_env \<Rightarrow> byte \<Rightarrow> ('z cam_vars_scheme, int) state" where
  "ov7670_detect env slv =
     (if slv = 0x21 then do {
        _ \<leftarrow> SCCB_Write env slv 0xFF 0x01;
        identify env slv 0x76 0x0A 0x0B 0x1D 0x1C
      } else return 0)"

definition bf3005_detect :: "fw_env \<Rightarrow> byte \<Rightarrow> ('z cam_vars_scheme, int) state" where
  "bf3005_detect env slv =
     (if slv = 0x6E then identify env slv 0x30 0xFC 0xFD 0xFC 0xFD else return 0)"

definition gc0308_detect :: "fw_env \<Rightarrow> byte \<Rightarrow> ('z cam_vars_scheme, int) state" where
  "gc0308_detect env slv =
     (if slv = 0x21 then do {
        _ \<leftarrow> SCCB_Write env slv 0xFE 0x00;
        p \<leftarrow> SCCB_Read env slv 0x00;
        if p = 0x9B then accept_pid (ucast p) else return 0
      } else return 0)"

definition nt99141_detect :: "fw_env \<Rightarrow> byte \<Rightarrow> ('z cam_vars_scheme, int) state" where
  "nt99141_detect env slv =
     (if slv = 0x2A then do {
        _ \<leftarrow> SCCB_Write16 env slv 0x3008 0x01;
        detect_wide 0x2A 0x1410 0x3000 0x3001 env slv
      } else return 0)"

definition ov3660_detect :: "fw_env \<Rightarrow> byte \<Rightarrow> ('z cam_vars_scheme, int) state" where
  "ov3660_detect = detect_wide 0x3C 0x3660 0x300A 0x300B"

definition ov5640_detect :: "fw_env \<Rightarrow> byte \<Rightarrow> ('z cam_vars_scheme, int) state" where
  "ov5640_detect = detect_wide 0x3C 0x5640 0x300A 0x300B"

definition mega_ccm_detect :: "fw_env \<Rightarrow> byte \<Rightarrow> ('z cam_vars_scheme, int) state" where
  "mega_ccm_detect = detect_wide 0x1F 0x039E 0x0000 0x0001"

definition gc2145_detect :: "fw_env \<Rightarrow> byte \<Rightarrow> ('z cam_vars_scheme, int) state" where
  "gc2145_detect = detect_low_high 0x3C 0x2145 0xF1 0xF0"

definition gc032a_detect :: "fw_env \<Rightarrow> byte \<Rightarrow> ('z cam_vars_scheme, int) state" where
  "gc032a_detect = detect_low_high 0x21 0x232A 0xF1 0xF0"

definition bf20a6_detect :: "fw_env \<Rightarrow> byte \<Rightarrow> ('z cam_vars_scheme, int) state" where
  "bf20a6_detect = detect_low_high 0x6E 0x20A6 0xFD 0xFC"

definition sc030iot_detect :: "fw_env \<Rightarrow> byte \<Rightarrow> ('z cam_vars_scheme, int) state" where
  "sc030iot_detect = detect_low_high 0x68 0x9A46 0xF8 0xF7"

text \<open>\<open>g_sensors\<close>, in the order of the source, for the configured drivers; \<open>sensor_detect\<close> is the first
  column, the model the second.\<close>

definition g_sensors :: "camera_model_t list" where
  "g_sensors =
     [CAMERA_OV7725, CAMERA_OV7670, CAMERA_OV2640, CAMERA_OV3660, CAMERA_OV5640, CAMERA_NT99141,
      CAMERA_GC2145, CAMERA_GC032A, CAMERA_GC0308, CAMERA_BF3005, CAMERA_BF20A6, CAMERA_SC030IOT,
      CAMERA_MEGA_CCM]"

fun sensor_detect :: "camera_model_t \<Rightarrow> fw_env \<Rightarrow> byte \<Rightarrow> ('z cam_vars_scheme, int) state" where
  "sensor_detect CAMERA_OV7725 = ov7725_detect"
| "sensor_detect CAMERA_OV7670 = ov7670_detect"
| "sensor_detect CAMERA_OV2640 = ov2640_detect"
| "sensor_detect CAMERA_OV3660 = ov3660_detect"
| "sensor_detect CAMERA_OV5640 = ov5640_detect"
| "sensor_detect CAMERA_NT99141 = nt99141_detect"
| "sensor_detect CAMERA_GC2145 = gc2145_detect"
| "sensor_detect CAMERA_GC032A = gc032a_detect"
| "sensor_detect CAMERA_GC0308 = gc0308_detect"
| "sensor_detect CAMERA_BF3005 = bf3005_detect"
| "sensor_detect CAMERA_BF20A6 = bf20a6_detect"
| "sensor_detect CAMERA_SC030IOT = sc030iot_detect"
| "sensor_detect CAMERA_MEGA_CCM = mega_ccm_detect"
| "sensor_detect _ = (\<lambda>env slv. return 0)"

end
