(* ===== verification/SensorKit.thy ===== *)
theory SensorKit
  imports Ov2640 Preserve
begin

text \<open>
  What the sensor drivers under \<open>sensors/\<close> have in common: the operations of the interface \<open>sensor_t\<close>,
  register access for 8- and 16-bit register addresses, read-modify-write of fields, settings tables, and
  the C idioms that combine error codes.

  \<open>SCCB_Read\<close> and \<open>SCCB_Read16\<close> return \<open>uint8_t\<close>, so the tests \<open>ret < 0\<close> of the drivers after a read
  are never true; a failed read is the value 255.  A register argument of \<open>int\<close> or \<open>uint16_t\<close> is
  truncated where the bus has 8-bit addresses.
\<close>

section \<open>The operations of a sensor\<close>

datatype sensor_op =
    Init_status
  | Reset_sensor
  | Set_pixformat pixformat_t
  | Set_framesize framesize_t
  | Set_contrast int
  | Set_brightness int
  | Set_saturation int
  | Set_sharpness int
  | Set_denoise int
  | Set_gainceiling int
  | Set_quality int
  | Set_colorbar int
  | Set_whitebal int
  | Set_gain_ctrl int
  | Set_exposure_ctrl int
  | Set_hmirror int
  | Set_vflip int
  | Set_aec2 int
  | Set_awb_gain int
  | Set_agc_gain int
  | Set_aec_value int
  | Set_special_effect int
  | Set_wb_mode int
  | Set_ae_level int
  | Set_dcw int
  | Set_bpc int
  | Set_wpc int
  | Set_raw_gma int
  | Set_lenc int

text \<open>The functions an \<open>xxx_init\<close> assigns to the pointers of \<open>sensor_t\<close>; \<open>None\<close> where it leaves \<open>NULL\<close>.\<close>

type_synonym 'z sensor_driver = "fw_env \<Rightarrow> sensor_op \<Rightarrow> ('z cam_vars_scheme, int) state option"

section \<open>Registers\<close>

definition write16 :: "fw_env \<Rightarrow> u16 \<Rightarrow> byte \<Rightarrow> ('z cam_vars_scheme, int) state" where
  "write16 env reg v = do { s \<leftarrow> get_state; SCCB_Write16 env (slv_addr (sensor s)) reg v }"

definition read16 :: "fw_env \<Rightarrow> u16 \<Rightarrow> ('z cam_vars_scheme, byte) state" where
  "read16 env reg = do { s \<leftarrow> get_state; SCCB_Read16 env (slv_addr (sensor s)) reg }"

text \<open>\<open>set_reg_bits(slv_addr, reg, offset, mask, value)\<close>.\<close>

definition set_masked ::
  "('r \<Rightarrow> ('s, byte) state) \<Rightarrow> ('r \<Rightarrow> byte \<Rightarrow> ('s, int) state) \<Rightarrow> 'r \<Rightarrow> nat \<Rightarrow> byte \<Rightarrow> byte \<Rightarrow> ('s, int) state" where
  "set_masked rd wr reg offset msk v = do {
     c_value \<leftarrow> rd reg;
     wr reg ((c_value AND NOT (push_bit offset msk)) OR push_bit offset (v AND msk))
   }"

text \<open>\<open>set_reg_bits(sensor, reg, offset, length, value)\<close> and \<open>get_reg_bits\<close>: the field has \<open>length\<close> bits.\<close>

definition field_mask :: "nat \<Rightarrow> nat \<Rightarrow> byte" where
  "field_mask offset len = push_bit offset (mask len)"

definition set_field ::
  "('r \<Rightarrow> ('s, byte) state) \<Rightarrow> ('r \<Rightarrow> byte \<Rightarrow> ('s, int) state) \<Rightarrow> 'r \<Rightarrow> nat \<Rightarrow> nat \<Rightarrow> byte \<Rightarrow> ('s, int) state" where
  "set_field rd wr reg offset len v = do {
     ret \<leftarrow> rd reg;
     wr reg ((ret AND NOT (field_mask offset len)) OR (push_bit offset v AND field_mask offset len))
   }"

definition get_field :: "('r \<Rightarrow> ('s, byte) state) \<Rightarrow> 'r \<Rightarrow> nat \<Rightarrow> nat \<Rightarrow> ('s, byte) state" where
  "get_field rd reg offset len = do {
     ret \<leftarrow> rd reg;
     return (drop_bit offset (ret AND field_mask offset len))
   }"

definition check_reg_mask :: "('r \<Rightarrow> ('s, byte) state) \<Rightarrow> 'r \<Rightarrow> byte \<Rightarrow> ('s, byte) state" where
  "check_reg_mask rd reg msk = do {
     v \<leftarrow> rd reg;
     return (if v AND msk = msk then 1 else 0)
   }"

text \<open>\<open>vTaskDelay(ms / portTICK_PERIOD_MS)\<close> with the configured tick of 10 milliseconds.\<close>

definition delay_ms :: "fw_env \<Rightarrow> nat \<Rightarrow> ('z cam_vars_scheme, unit) state" where
  "delay_ms env ms = perform env (Os (Task_delay (ms div 10)))"

text \<open>\<open>write_regs\<close>: up to the pair with register \<open>REGLIST_TAIL\<close>, which every table has, or the first error;
  the pair with register \<open>REG_DLY\<close> is a pause.  The loop tests for the tail first.\<close>

fun write_table ::
  "fw_env \<Rightarrow> (u16 \<Rightarrow> byte \<Rightarrow> ('z cam_vars_scheme, int) state) \<Rightarrow> u16 \<Rightarrow> u16 \<Rightarrow> (u16 \<times> u16) list \<Rightarrow>
     ('z cam_vars_scheme, int) state" where
  "write_table env wr tail dly [] = return 0"
| "write_table env wr tail dly ((r, v) # regs) =
     (if r = tail then return 0
      else if r = dly then do { delay_ms env (unat v); write_table env wr tail dly regs }
      else or_return (wr r (ucast v)) (write_table env wr tail dly regs))"

text \<open>\<open>for (i = 0; regs[i][0]; i++) SCCB_Write(...);\<close>\<close>

fun write_while_nonzero :: "fw_env \<Rightarrow> (byte \<times> byte) list \<Rightarrow> ('z cam_vars_scheme, unit) state" where
  "write_while_nonzero env [] = return ()"
| "write_while_nonzero env ((r, v) # regs) =
     (if r = 0 then return ()
      else do { _ \<leftarrow> write_byte env r v; write_while_nonzero env regs })"

section \<open>Error codes\<close>

definition of_flag :: "bool \<Rightarrow> byte" where
  "of_flag b = (if b then 1 else 0)"

text \<open>\<open>ret = a; if (ret) return ret; ...; return ret;\<close>\<close>

fun until_error :: "('s, int) state list \<Rightarrow> ('s, int) state" where
  "until_error [] = return 0"
| "until_error (m # ms) = or_return m (until_error ms)"

text \<open>\<open>a || b || c\<close>: 1 at the first operand that is not 0, else 0.\<close>

fun any_of :: "('s, int) state list \<Rightarrow> ('s, int) state" where
  "any_of [] = return 0"
| "any_of (m # ms) = do { r \<leftarrow> m; if r \<noteq> 0 then return 1 else any_of ms }"

text \<open>\<open>ret |= a; ret |= b\<close>: all are executed.\<close>

fun all_or :: "('s, int) state list \<Rightarrow> ('s, int) state" where
  "all_or [] = return 0"
| "all_or (m # ms) = do { a \<leftarrow> m; b \<leftarrow> all_or ms; return (a OR b) }"

text \<open>\<open>ret = a; ret += b\<close>.\<close>

fun all_sum :: "('s, int) state list \<Rightarrow> ('s, int) state" where
  "all_sum [] = return 0"
| "all_sum (m # ms) = do { a \<leftarrow> m; b \<leftarrow> all_sum ms; return (a + b) }"

text \<open>Results that are not looked at.\<close>

fun do_all :: "('s, int) state list \<Rightarrow> ('s, unit) state" where
  "do_all [] = return ()"
| "do_all (m # ms) = do { _ \<leftarrow> m; do_all ms }"

text \<open>\<open>ret = a; if (ret == 0) sensor->status.f = v; return ret;\<close>\<close>

definition then_store ::
  "('z cam_vars_scheme, int) state \<Rightarrow> (camera_status_t \<Rightarrow> camera_status_t) \<Rightarrow> ('z cam_vars_scheme, int) state" where
  "then_store m f = do {
     ret \<leftarrow> m;
     do_when (ret = 0) (upd_status f);
     return ret
   }"

text \<open>\<open>if (m >= 0) sensor->status.f = !!enable; return sensor->status.f;\<close>\<close>

definition store_switch ::
  "('z cam_vars_scheme, int) state \<Rightarrow> (byte \<Rightarrow> camera_status_t \<Rightarrow> camera_status_t) \<Rightarrow> (camera_status_t \<Rightarrow> byte) \<Rightarrow> int \<Rightarrow>
     ('z cam_vars_scheme, int) state" where
  "store_switch m upd sel enable = do {
     r \<leftarrow> m;
     do_when (0 \<le> r) (upd_status (upd (of_flag (enable \<noteq> 0))));
     gets (\<lambda>s. uint (sel (status (sensor s))))
   }"

text \<open>One assignment \<open>sensor->status.f = m\<close>.\<close>

definition load ::
  "('z cam_vars_scheme, byte) state \<Rightarrow> (byte \<Rightarrow> camera_status_t \<Rightarrow> camera_status_t) \<Rightarrow> ('z cam_vars_scheme, unit) state" where
  "load m f = do { b \<leftarrow> m; upd_status (f b) }"

abbreviation not_supported :: "('s, int) state" where
  "not_supported \<equiv> return (-1)"

end
