(* ===== verification/GcTables.thy ===== *)
theory GcTables
  imports Prelude
begin

text \<open>
  The registers and register tables of the GalaxyCore sensors (\<open>gc0308\<close>, \<open>gc032a\<close>, \<open>gc2145\<close>).
  A settings table is the list of its register and value pairs, in order; the register macros of the header are
  expanded.  Tables that the source ends by a marker keep the marker as their last pair.
\<close>

section \<open>GC0308\<close>

definition GC0308_RESET_RELATED :: byte where "GC0308_RESET_RELATED = 0xFE"

definition gc0308_sensor_default_regs :: "(byte \<times> byte) list" where
  "gc0308_sensor_default_regs =
     [(0xFE, 0x00), (0xEC, 0x20), (0x05, 0x00), (0x06, 0x00), (0x07, 0x00), (0x08, 0x00), (0x09, 0x01),
      (0x0A, 0xE8), (0x0B, 0x02), (0x0C, 0x88), (0x0D, 0x02), (0x0E, 0x02), (0x10, 0x26), (0x11, 0x0D),
      (0x12, 0x2A), (0x13, 0x00), (0x14, 0x11), (0x15, 0x0A), (0x16, 0x05), (0x17, 0x01), (0x18, 0x44),
      (0x19, 0x44), (0x1A, 0x2A), (0x1B, 0x00), (0x1C, 0x49), (0x1D, 0x9A), (0x1E, 0x61), (0x1F, 0x00),
      (0x20, 0x7F), (0x21, 0xFA), (0x22, 0x57), (0x24, 0xA2), (0x25, 0x0F), (0x26, 0x03), (0x28, 0x00),
      (0x2D, 0x0A), (0x2F, 0x01), (0x30, 0xF7), (0x31, 0x50), (0x32, 0x00), (0x33, 0x28), (0x34, 0x2A),
      (0x35, 0x28), (0x39, 0x04), (0x3A, 0x20), (0x3B, 0x20), (0x3C, 0x00), (0x3D, 0x00), (0x3E, 0x00),
      (0x3F, 0x00), (0x50, 0x14), (0x52, 0x41), (0x53, 0x80), (0x54, 0x80), (0x55, 0x80), (0x56, 0x80),
      (0x8B, 0x20), (0x8C, 0x20), (0x8D, 0x20), (0x8E, 0x14), (0x8F, 0x10), (0x90, 0x14), (0x91, 0x3C),
      (0x92, 0x50), (0x5D, 0x12), (0x5E, 0x1A), (0x5F, 0x24), (0x60, 0x07), (0x61, 0x15), (0x62, 0x08),
      (0x64, 0x03), (0x66, 0xE8), (0x67, 0x86), (0x68, 0x82), (0x69, 0x18), (0x6A, 0x0F), (0x6B, 0x00),
      (0x6C, 0x5F), (0x6D, 0x8F), (0x6E, 0x55), (0x6F, 0x38), (0x70, 0x15), (0x71, 0x33), (0x72, 0xDC),
      (0x73, 0x00), (0x74, 0x02), (0x75, 0x3F), (0x76, 0x02), (0x77, 0x38), (0x78, 0x88), (0x79, 0x81),
      (0x7A, 0x81), (0x7B, 0x22), (0x7C, 0xFF), (0x93, 0x48), (0x94, 0x02), (0x95, 0x07), (0x96, 0xE0),
      (0x97, 0x40), (0x98, 0xF0), (0xB1, 0x40), (0xB2, 0x40), (0xB3, 0x40), (0xB6, 0xE0), (0xBD, 0x38),
      (0xBE, 0x36), (0xD0, 0xCB), (0xD1, 0x10), (0xD2, 0x90), (0xD3, 0x48), (0xD5, 0xF2), (0xD6, 0x16),
      (0xDB, 0x92), (0xDC, 0xA5), (0xDF, 0x23), (0xD9, 0x00), (0xDA, 0x00), (0xE0, 0x09), (0xED, 0x04),
      (0xEE, 0xA0), (0xEF, 0x40), (0x80, 0x03), (0x9F, 0x10), (0xA0, 0x20), (0xA1, 0x38), (0xA2, 0x4E),
      (0xA3, 0x63), (0xA4, 0x76), (0xA5, 0x87), (0xA6, 0xA2), (0xA7, 0xB8), (0xA8, 0xCA), (0xA9, 0xD8),
      (0xAA, 0xE3), (0xAB, 0xEB), (0xAC, 0xF0), (0xAD, 0xF8), (0xAE, 0xFD), (0xAF, 0xFF), (0xC0, 0x00),
      (0xC1, 0x10), (0xC2, 0x1C), (0xC3, 0x30), (0xC4, 0x43), (0xC5, 0x54), (0xC6, 0x65), (0xC7, 0x75),
      (0xC8, 0x93), (0xC9, 0xB0), (0xCA, 0xCB), (0xCB, 0xE6), (0xCC, 0xFF), (0xF0, 0x02), (0xF1, 0x01),
      (0xF2, 0x02), (0xF3, 0x30), (0xF7, 0x04), (0xF8, 0x02), (0xF9, 0x9F), (0xFA, 0x78), (0xFE, 0x01),
      (0x00, 0xF5), (0x02, 0x20), (0x04, 0x10), (0x05, 0x08), (0x06, 0x20), (0x08, 0x0A), (0x0A, 0xA0),
      (0x0B, 0x60), (0x0C, 0x08), (0x0E, 0x44), (0x0F, 0x32), (0x10, 0x41), (0x11, 0x37), (0x12, 0x22),
      (0x13, 0x19), (0x14, 0x44), (0x15, 0x44), (0x16, 0xC2), (0x17, 0xA8), (0x18, 0x18), (0x19, 0x50),
      (0x1A, 0xD8), (0x1B, 0xF5), (0x70, 0x40), (0x71, 0x58), (0x72, 0x30), (0x73, 0x48), (0x74, 0x20),
      (0x75, 0x60), (0x77, 0x20), (0x78, 0x32), (0x30, 0x03), (0x31, 0x40), (0x32, 0x10), (0x33, 0xE0),
      (0x34, 0xE0), (0x35, 0x00), (0x36, 0x80), (0x37, 0x00), (0x38, 0x04), (0x39, 0x09), (0x3A, 0x12),
      (0x3B, 0x1C), (0x3C, 0x28), (0x3D, 0x31), (0x3E, 0x44), (0x3F, 0x57), (0x40, 0x6C), (0x41, 0x81),
      (0x42, 0x94), (0x43, 0xA7), (0x44, 0xB8), (0x45, 0xD6), (0x46, 0xEE), (0x47, 0x0D), (0x62, 0xF7),
      (0x63, 0x68), (0x64, 0xD3), (0x65, 0xD3), (0x66, 0x60), (0xFE, 0x00), (0x01, 0x32), (0x02, 0x0C),
      (0x0F, 0x01), (0xE2, 0x00), (0xE3, 0x78), (0xE4, 0x00), (0xE5, 0xFE), (0xE6, 0x01), (0xE7, 0xE0),
      (0xE8, 0x01), (0xE9, 0xE0), (0xEA, 0x01), (0xEB, 0xE0), (0xFE, 0x00)]"

section \<open>GC032A\<close>

definition GC032A_RESET_RELATED :: byte where "GC032A_RESET_RELATED = 0xFE"
definition GC032A_P0_ROW_START_HIGH :: byte where "GC032A_P0_ROW_START_HIGH = 0x09"
definition GC032A_P0_ROW_START_LOW :: byte where "GC032A_P0_ROW_START_LOW = 0x0A"
definition GC032A_P0_COLUMN_START_HIGH :: byte where "GC032A_P0_COLUMN_START_HIGH = 0x0B"
definition GC032A_P0_COLUMN_START_LOW :: byte where "GC032A_P0_COLUMN_START_LOW = 0x0C"
definition GC032A_P0_WINDOW_HEIGHT_HIGH :: byte where "GC032A_P0_WINDOW_HEIGHT_HIGH = 0x0D"
definition GC032A_P0_WINDOW_HEIGHT_LOW :: byte where "GC032A_P0_WINDOW_HEIGHT_LOW = 0x0E"
definition GC032A_P0_WINDOW_WIDTH_HIGH :: byte where "GC032A_P0_WINDOW_WIDTH_HIGH = 0x0F"
definition GC032A_P0_WINDOW_WIDTH_LOW :: byte where "GC032A_P0_WINDOW_WIDTH_LOW = 0x10"
definition GC032A_P0_WIN_MODE :: byte where "GC032A_P0_WIN_MODE = 0x50"
definition GC032A_P0_OUT_WIN_HEIGHT_HIGH :: byte where "GC032A_P0_OUT_WIN_HEIGHT_HIGH = 0x55"
definition GC032A_P0_OUT_WIN_HEIGHT_LOW :: byte where "GC032A_P0_OUT_WIN_HEIGHT_LOW = 0x56"
definition GC032A_P0_OUT_WIN_WIDTH_HIGH :: byte where "GC032A_P0_OUT_WIN_WIDTH_HIGH = 0x57"
definition GC032A_P0_OUT_WIN_WIDTH_LOW :: byte where "GC032A_P0_OUT_WIN_WIDTH_LOW = 0x58"
definition GC032A_P0_CISCTL_MODE1 :: byte where "GC032A_P0_CISCTL_MODE1 = 0x17"
definition GC032A_P0_DEBUG_MODE2 :: byte where "GC032A_P0_DEBUG_MODE2 = 0x4C"

definition gc032a_default_regs :: "(u16 \<times> u16) list" where
  "gc032a_default_regs =
     [(0xF3, 0xFF), (0xF5, 0x06), (0xF7, 0x01), (0xF8, 0x03), (0xF9, 0xCE), (0xFA, 0x00), (0xFC, 0x02),
      (0xFE, 0x02), (0x81, 0x03), (0xFE, 0x00), (0x77, 0x64), (0x78, 0x40), (0x79, 0x60), (0xFE, 0x00),
      (0x03, 0x01), (0x04, 0xCE), (0x05, 0x01), (0x06, 0xAD), (0x07, 0x00), (0x08, 0x10), (0x0A, 0x00),
      (0x0C, 0x00), (0x0D, 0x01), (0x0E, 0xE8), (0x0F, 0x02), (0x10, 0x88), (0x17, 0x54), (0x19, 0x08),
      (0x1A, 0x0A), (0x1F, 0x40), (0x20, 0x30), (0x2E, 0x80), (0x2F, 0x2B), (0x30, 0x1A), (0xFE, 0x02),
      (0x03, 0x02), (0x05, 0xD7), (0x06, 0x60), (0x08, 0x80), (0x12, 0x89), (0xFE, 0x00), (0x18, 0x02),
      (0xFE, 0x02), (0x40, 0x22), (0x45, 0x00), (0x46, 0x00), (0x49, 0x20), (0x4B, 0x3C), (0x50, 0x20),
      (0x42, 0x10), (0xFE, 0x01), (0x0A, 0xC5), (0x45, 0x00), (0xFE, 0x00), (0x40, 0xFF), (0x41, 0x25),
      (0x42, 0xCF), (0x43, 0x10), (0x44, 0x83), (0x46, 0x23), (0x49, 0x03), (0x52, 0x02), (0x54, 0x00),
      (0xFE, 0x02), (0x22, 0xF6), (0xFE, 0x01), (0xC1, 0x38), (0xC2, 0x4C), (0xC3, 0x00), (0xC4, 0x32),
      (0xC5, 0x24), (0xC6, 0x16), (0xC7, 0x08), (0xC8, 0x08), (0xC9, 0x00), (0xCA, 0x20), (0xDC, 0x8A),
      (0xDD, 0xA0), (0xDE, 0xA6), (0xDF, 0x75), (0xFE, 0x01), (0x7C, 0x09), (0x65, 0x06), (0x7C, 0x08),
      (0x56, 0xF4), (0x66, 0x0F), (0x67, 0x84), (0x6B, 0x80), (0x6D, 0x12), (0x6E, 0xB0), (0x86, 0x00),
      (0x87, 0x00), (0x88, 0x00), (0x89, 0x00), (0x8A, 0x00), (0x8B, 0x00), (0x8C, 0x00), (0x8D, 0x00),
      (0x8E, 0x00), (0x8F, 0x00), (0x90, 0x00), (0x91, 0x00), (0x92, 0xF4), (0x93, 0xD5), (0x94, 0x50),
      (0x95, 0x0F), (0x96, 0xF4), (0x97, 0x2D), (0x98, 0x0F), (0x99, 0xA6), (0x9A, 0x2D), (0x9B, 0x0F),
      (0x9C, 0x59), (0x9D, 0x2D), (0x9E, 0xAA), (0x9F, 0x67), (0xA0, 0x59), (0xA1, 0x00), (0xA2, 0x00),
      (0xA3, 0x0A), (0xA4, 0x00), (0xA5, 0x00), (0xA6, 0xD4), (0xA7, 0x9F), (0xA8, 0x55), (0xA9, 0xD4),
      (0xAA, 0x9F), (0xAB, 0xAC), (0xAC, 0x9F), (0xAD, 0x55), (0xAE, 0xD4), (0xAF, 0xAC), (0xB0, 0xD4),
      (0xB1, 0xA3), (0xB2, 0x55), (0xB3, 0xD4), (0xB4, 0xAC), (0xB5, 0x00), (0xB6, 0x00), (0xB7, 0x05),
      (0xB8, 0xD6), (0xB9, 0x8C), (0xFE, 0x01), (0xD0, 0x40), (0xD1, 0xF8), (0xD2, 0x00), (0xD3, 0xFA),
      (0xD4, 0x45), (0xD5, 0x02), (0xD6, 0x30), (0xD7, 0xFA), (0xD8, 0x08), (0xD9, 0x08), (0xDA, 0x58),
      (0xDB, 0x02), (0xFE, 0x00), (0xFE, 0x00), (0xBA, 0x00), (0xBB, 0x04), (0xBC, 0x0A), (0xBD, 0x0E),
      (0xBE, 0x22), (0xBF, 0x30), (0xC0, 0x3D), (0xC1, 0x4A), (0xC2, 0x5D), (0xC3, 0x6B), (0xC4, 0x7A),
      (0xC5, 0x85), (0xC6, 0x90), (0xC7, 0xA5), (0xC8, 0xB5), (0xC9, 0xC2), (0xCA, 0xCC), (0xCB, 0xD5),
      (0xCC, 0xDE), (0xCD, 0xEA), (0xCE, 0xF5), (0xCF, 0xFF), (0xFE, 0x00), (0x5A, 0x08), (0x5B, 0x0F),
      (0x5C, 0x15), (0x5D, 0x1C), (0x5E, 0x28), (0x5F, 0x36), (0x60, 0x45), (0x61, 0x51), (0x62, 0x6A),
      (0x63, 0x7D), (0x64, 0x8D), (0x65, 0x98), (0x66, 0xA2), (0x67, 0xB5), (0x68, 0xC3), (0x69, 0xCD),
      (0x6A, 0xD4), (0x6B, 0xDC), (0x6C, 0xE3), (0x6D, 0xF0), (0x6E, 0xF9), (0x6F, 0xFF), (0xFE, 0x00),
      (0x70, 0x50), (0xFE, 0x00), (0x4F, 0x01), (0xFE, 0x01), (0x0D, 0x00), (0x12, 0xA0), (0x13, 0x3A),
      (0x44, 0x04), (0x1F, 0x30), (0x20, 0x40), (0x26, 0x9A), (0x3E, 0x20), (0x3F, 0x2D), (0x40, 0x40),
      (0x41, 0x5B), (0x42, 0x82), (0x43, 0xB7), (0x04, 0x0A), (0x02, 0x79), (0x03, 0xC0), (0xFE, 0x01),
      (0xCC, 0x08), (0xCD, 0x08), (0xCE, 0xA4), (0xCF, 0xEC), (0xFE, 0x00), (0x81, 0xB8), (0x82, 0x12),
      (0x83, 0x0A), (0x84, 0x01), (0x86, 0x50), (0x87, 0x18), (0x88, 0x10), (0x89, 0x70), (0x8A, 0x20),
      (0x8B, 0x10), (0x8C, 0x08), (0x8D, 0x0A), (0xFE, 0x00), (0x8F, 0xAA), (0x90, 0x9C), (0x91, 0x52),
      (0x92, 0x03), (0x93, 0x03), (0x94, 0x08), (0x95, 0x44), (0x97, 0x00), (0x98, 0x00), (0xFE, 0x00),
      (0xA1, 0x30), (0xA2, 0x41), (0xA4, 0x30), (0xA5, 0x20), (0xAA, 0x30), (0xAC, 0x32), (0xFE, 0x00),
      (0xD1, 0x3C), (0xD2, 0x3C), (0xD3, 0x38), (0xD6, 0xF4), (0xD7, 0x1D), (0xDD, 0x73), (0xDE, 0x84),
      (0xFE, 0x00), (0x05, 0x01), (0x06, 0xAD), (0x07, 0x00), (0x08, 0x10), (0xFE, 0x01), (0x25, 0x00),
      (0x26, 0x9A), (0x27, 0x01), (0x28, 0xCE), (0x29, 0x02), (0x2A, 0x68), (0x2B, 0x02), (0x2C, 0x68),
      (0x2D, 0x07), (0x2E, 0xD2), (0x2F, 0x0B), (0x30, 0x6E), (0x31, 0x0E), (0x32, 0x70), (0x33, 0x12),
      (0x34, 0x0C), (0x3C, 0x30), (0xFE, 0x00), (0x05, 0x01), (0x06, 0xA0), (0x07, 0x00), (0x08, 0x20),
      (0x0A, 0x78), (0x0C, 0xA0), (0x0D, 0x00), (0x0E, 0xF8), (0x0F, 0x01), (0x10, 0x48), (0x55, 0x00),
      (0x56, 0xF0), (0x57, 0x01), (0x58, 0x40), (0xFE, 0x03), (0x5B, 0x40), (0x5C, 0x01), (0x5D, 0xF0),
      (0x5E, 0x00), (0xFE, 0x01), (0x25, 0x00), (0x26, 0x63), (0x27, 0x01), (0x28, 0x29), (0x29, 0x01),
      (0x2A, 0x29), (0x2B, 0x01), (0x2C, 0x29), (0x2D, 0x01), (0x2E, 0x29), (0x2F, 0x01), (0x30, 0x29),
      (0x31, 0x01), (0x32, 0x29), (0x33, 0x01), (0x34, 0x29), (0x3C, 0x00), (0xFE, 0x01), (0xCC, 0x04),
      (0xCD, 0x04), (0xCE, 0x72), (0xCF, 0x52), (0x00, 0x00)]"

section \<open>GC2145\<close>

definition GC2145_RESET_RELATED :: byte where "GC2145_RESET_RELATED = 0xFE"
definition GC2145_P0_OUTPUT_FORMAT :: byte where "GC2145_P0_OUTPUT_FORMAT = 0x84"
definition GC2145_P0_CROP_ENABLE :: byte where "GC2145_P0_CROP_ENABLE = 0x90"
definition GC2145_P0_ANALOG_MODE1 :: byte where "GC2145_P0_ANALOG_MODE1 = 0x17"

definition gc2145_default_init_regs :: "(u16 \<times> u16) list" where
  "gc2145_default_init_regs =
     [(0xFE, 0xF0), (0xFE, 0xF0), (0xFE, 0xF0), (0xFC, 0x06), (0xF6, 0x00), (0xF7, 0x1D), (0xF8, 0x83),
      (0xFA, 0x00), (0xF9, 0xFE), (0xFD, 0x00), (0xC2, 0x00), (0xF2, 0x0F), (0xFE, 0x00), (0x03, 0x04),
      (0x04, 0x62), (0x05, 0x01), (0x06, 0x3B), (0x09, 0x00), (0x0A, 0x00), (0x0B, 0x00), (0x0C, 0x00),
      (0x0D, 0x04), (0x0E, 0xC0), (0x0F, 0x06), (0x10, 0x52), (0x12, 0x2E), (0x17, 0x14), (0x18, 0x22),
      (0x19, 0x0F), (0x1A, 0x01), (0x1B, 0x4B), (0x1C, 0x07), (0x1D, 0x10), (0x1E, 0x88), (0x1F, 0x78),
      (0x20, 0x03), (0x21, 0x40), (0x22, 0xA0), (0x24, 0x1E), (0x25, 0x01), (0x26, 0x10), (0x2D, 0x60),
      (0x30, 0x01), (0x31, 0x90), (0x33, 0x06), (0x34, 0x01), (0x80, 0xFF), (0x81, 0x24), (0x82, 0xFA),
      (0x83, 0x00), (0x84, 0x02), (0x86, 0x03), (0x88, 0x03), (0x89, 0x03), (0x85, 0x30), (0x8A, 0x00),
      (0x8B, 0x00), (0xB0, 0x55), (0xC3, 0x00), (0xC4, 0x80), (0xC5, 0x90), (0xC6, 0x38), (0xC7, 0x40),
      (0xEC, 0x06), (0xED, 0x04), (0xEE, 0x60), (0xEF, 0x90), (0xB6, 0x01), (0x90, 0x01), (0x91, 0x00),
      (0x92, 0x00), (0x93, 0x00), (0x94, 0x00), (0x95, 0x04), (0x96, 0xB0), (0x97, 0x06), (0x98, 0x40),
      (0x18, 0x02), (0x40, 0x42), (0x41, 0x00), (0x43, 0x54), (0x5E, 0x00), (0x5F, 0x00), (0x60, 0x00),
      (0x61, 0x00), (0x62, 0x00), (0x63, 0x00), (0x64, 0x00), (0x65, 0x00), (0x66, 0x20), (0x67, 0x20),
      (0x68, 0x20), (0x69, 0x20), (0x76, 0x00), (0x6A, 0x00), (0x6B, 0x00), (0x6C, 0x3E), (0x6D, 0x3E),
      (0x6E, 0x3F), (0x6F, 0x3F), (0x70, 0x00), (0x71, 0x00), (0x76, 0x00), (0x72, 0xF0), (0x7E, 0x3C),
      (0x7F, 0x00), (0xFE, 0x02), (0x48, 0x15), (0x49, 0x00), (0x4B, 0x0B), (0xFE, 0x00), (0xFE, 0x01),
      (0x01, 0x04), (0x02, 0xC0), (0x03, 0x04), (0x04, 0x90), (0x05, 0x30), (0x06, 0x90), (0x07, 0x20),
      (0x08, 0x70), (0x09, 0x00), (0x0A, 0xC2), (0x0B, 0x11), (0x0C, 0x10), (0x13, 0x40), (0x17, 0x00),
      (0x1C, 0x11), (0x1E, 0x61), (0x1F, 0x30), (0x20, 0x40), (0x22, 0x80), (0x23, 0x20), (0xFE, 0x02),
      (0x0F, 0x04), (0xFE, 0x01), (0x12, 0x35), (0x15, 0x50), (0x10, 0x31), (0x3E, 0x28), (0x3F, 0xE0),
      (0x40, 0x20), (0x41, 0x0F), (0xFE, 0x02), (0x0F, 0x05), (0xFE, 0x02), (0x90, 0x6C), (0x91, 0x03),
      (0x92, 0xC8), (0x94, 0x66), (0x95, 0xB5), (0x97, 0x64), (0xA2, 0x11), (0xFE, 0x00), (0xFE, 0x02),
      (0x80, 0xC1), (0x81, 0x08), (0x82, 0x08), (0x83, 0x08), (0x84, 0x0A), (0x86, 0xF0), (0x87, 0x50),
      (0x88, 0x15), (0x89, 0x50), (0x8A, 0x30), (0x8B, 0x10), (0xFE, 0x01), (0x21, 0x14), (0xFE, 0x02),
      (0xA3, 0x40), (0xA4, 0x20), (0xA5, 0x40), (0xA6, 0x80), (0xAB, 0x40), (0xAE, 0x0C), (0xB3, 0x34),
      (0xB4, 0x44), (0xB6, 0x38), (0xB7, 0x02), (0xB9, 0x30), (0x3C, 0x08), (0x3D, 0x30), (0x4B, 0x0D),
      (0x4C, 0x20), (0xFE, 0x00), (0xFE, 0x02), (0x10, 0x10), (0x11, 0x15), (0x12, 0x1A), (0x13, 0x1F),
      (0x14, 0x2C), (0x15, 0x39), (0x16, 0x45), (0x17, 0x54), (0x18, 0x69), (0x19, 0x7D), (0x1A, 0x8F),
      (0x1B, 0x9D), (0x1C, 0xA9), (0x1D, 0xBD), (0x1E, 0xCD), (0x1F, 0xD9), (0x20, 0xE3), (0x21, 0xEA),
      (0x22, 0xEF), (0x23, 0xF5), (0x24, 0xF9), (0x25, 0xFF), (0xFE, 0x02), (0x26, 0x0F), (0x27, 0x14),
      (0x28, 0x19), (0x29, 0x1E), (0x2A, 0x27), (0x2B, 0x33), (0x2C, 0x3B), (0x2D, 0x45), (0x2E, 0x59),
      (0x2F, 0x69), (0x30, 0x7C), (0x31, 0x89), (0x32, 0x98), (0x33, 0xAE), (0x34, 0xC0), (0x35, 0xCF),
      (0x36, 0xDA), (0x37, 0xE2), (0x38, 0xE9), (0x39, 0xF3), (0x3A, 0xF9), (0x3B, 0xFF), (0xFE, 0x02),
      (0xD1, 0x30), (0xD2, 0x30), (0xD3, 0x45), (0xDD, 0x14), (0xDE, 0x86), (0xED, 0x01), (0xEE, 0x28),
      (0xEF, 0x30), (0xD8, 0xD8), (0xFE, 0x01), (0xA1, 0x80), (0xA2, 0x80), (0xA4, 0x00), (0xA5, 0x00),
      (0xA6, 0x70), (0xA7, 0x00), (0xA8, 0x77), (0xA9, 0x77), (0xAA, 0x1F), (0xAB, 0x0D), (0xAC, 0x19),
      (0xAD, 0x24), (0xAE, 0x0E), (0xAF, 0x1D), (0xB0, 0x12), (0xB1, 0x0C), (0xB2, 0x06), (0xB3, 0x13),
      (0xB4, 0x10), (0xB5, 0x0C), (0xB6, 0x6A), (0xB7, 0x46), (0xB8, 0x40), (0xB9, 0x0B), (0xBA, 0x04),
      (0xBB, 0x00), (0xBC, 0x53), (0xBD, 0x37), (0xBE, 0x2D), (0xBF, 0x0A), (0xC0, 0x0A), (0xC1, 0x14),
      (0xC2, 0x34), (0xC3, 0x22), (0xC4, 0x18), (0xC5, 0x23), (0xC6, 0x0F), (0xC7, 0x3C), (0xC8, 0x20),
      (0xC9, 0x1F), (0xCA, 0x17), (0xCB, 0x2D), (0xCC, 0x12), (0xCD, 0x20), (0xD0, 0x61), (0xD1, 0x2F),
      (0xD2, 0x39), (0xD3, 0x45), (0xD4, 0x2C), (0xD5, 0x21), (0xD6, 0x64), (0xD7, 0x2D), (0xD8, 0x30),
      (0xD9, 0x42), (0xDA, 0x27), (0xDB, 0x13), (0xFE, 0x00), (0xFE, 0x01), (0x4F, 0x00), (0x4F, 0x00),
      (0x4B, 0x01), (0x4F, 0x00), (0x4C, 0x01), (0x4D, 0x6F), (0x4E, 0x02), (0x4C, 0x01), (0x4D, 0x70),
      (0x4E, 0x02), (0x4C, 0x01), (0x4D, 0x8F), (0x4E, 0x02), (0x4C, 0x01), (0x4D, 0x90), (0x4E, 0x02),
      (0x4C, 0x01), (0x4D, 0xED), (0x4E, 0x33), (0x4C, 0x01), (0x4D, 0xCD), (0x4E, 0x33), (0x4C, 0x01),
      (0x4D, 0xEC), (0x4E, 0x03), (0x4C, 0x01), (0x4D, 0x6C), (0x4E, 0x03), (0x4C, 0x01), (0x4D, 0x6D),
      (0x4E, 0x03), (0x4C, 0x01), (0x4D, 0x6E), (0x4E, 0x03), (0x4C, 0x01), (0x4D, 0x8C), (0x4E, 0x03),
      (0x4C, 0x01), (0x4D, 0x8D), (0x4E, 0x03), (0x4C, 0x01), (0x4D, 0x8E), (0x4E, 0x03), (0x4C, 0x01),
      (0x4D, 0xAB), (0x4E, 0x03), (0x4C, 0x01), (0x4D, 0xAC), (0x4E, 0x03), (0x4C, 0x01), (0x4D, 0xAD),
      (0x4E, 0x03), (0x4C, 0x01), (0x4D, 0xAE), (0x4E, 0x03), (0x4C, 0x01), (0x4D, 0xCB), (0x4E, 0x03),
      (0x4C, 0x01), (0x4D, 0xCC), (0x4E, 0x03), (0x4C, 0x01), (0x4D, 0xCE), (0x4E, 0x03), (0x4C, 0x01),
      (0x4D, 0xEB), (0x4E, 0x03), (0x4C, 0x01), (0x4D, 0xEC), (0x4E, 0x03), (0x4C, 0x01), (0x4D, 0xEE),
      (0x4E, 0x03), (0x4C, 0x02), (0x4D, 0x0C), (0x4E, 0x03), (0x4C, 0x02), (0x4D, 0x0D), (0x4E, 0x03),
      (0x4C, 0x01), (0x4D, 0xEA), (0x4E, 0x03), (0x4C, 0x01), (0x4D, 0xAF), (0x4E, 0x03), (0x4C, 0x01),
      (0x4D, 0xCF), (0x4E, 0x03), (0x4C, 0x01), (0x4D, 0xCA), (0x4E, 0x04), (0x4C, 0x02), (0x4D, 0x0B),
      (0x4E, 0x05), (0x4C, 0x02), (0x4D, 0xC8), (0x4E, 0x06), (0x4C, 0x02), (0x4D, 0xA8), (0x4E, 0x06),
      (0x4C, 0x02), (0x4D, 0xA9), (0x4E, 0x06), (0x4C, 0x02), (0x4D, 0x89), (0x4E, 0x06), (0x4C, 0x02),
      (0x4D, 0x69), (0x4E, 0x06), (0x4C, 0x02), (0x4D, 0x6A), (0x4E, 0x06), (0x4C, 0x02), (0x4D, 0xC7),
      (0x4E, 0x07), (0x4C, 0x02), (0x4D, 0xE7), (0x4E, 0x07), (0x4C, 0x03), (0x4D, 0x07), (0x4E, 0x07),
      (0x4C, 0x02), (0x4D, 0xE8), (0x4E, 0x07), (0x4C, 0x02), (0x4D, 0xE9), (0x4E, 0x07), (0x4C, 0x03),
      (0x4D, 0x08), (0x4E, 0x07), (0x4C, 0x03), (0x4D, 0x09), (0x4E, 0x07), (0x4C, 0x03), (0x4D, 0x27),
      (0x4E, 0x07), (0x4C, 0x03), (0x4D, 0x28), (0x4E, 0x07), (0x4C, 0x03), (0x4D, 0x29), (0x4E, 0x07),
      (0x4C, 0x03), (0x4D, 0x47), (0x4E, 0x07), (0x4C, 0x03), (0x4D, 0x48), (0x4E, 0x07), (0x4C, 0x03),
      (0x4D, 0x49), (0x4E, 0x07), (0x4C, 0x03), (0x4D, 0x67), (0x4E, 0x07), (0x4C, 0x03), (0x4D, 0x68),
      (0x4E, 0x07), (0x4C, 0x03), (0x4D, 0x69), (0x4E, 0x07), (0x4F, 0x01), (0xFE, 0x01), (0x50, 0x80),
      (0x51, 0xA8), (0x52, 0x57), (0x53, 0x38), (0x54, 0xC7), (0x56, 0x0E), (0x58, 0x08), (0x5B, 0x00),
      (0x5C, 0x74), (0x5D, 0x8B), (0x61, 0xD3), (0x62, 0xB5), (0x63, 0x00), (0x65, 0x04), (0x67, 0xB2),
      (0x68, 0xAC), (0x69, 0x00), (0x6A, 0xB2), (0x6B, 0xAC), (0x6C, 0xB2), (0x6D, 0xAC), (0x6E, 0x40),
      (0x6F, 0x18), (0x73, 0x00), (0x70, 0x10), (0x71, 0xE8), (0x72, 0xC0), (0x74, 0x01), (0x75, 0x01),
      (0x7F, 0x08), (0x76, 0x70), (0x77, 0x58), (0x78, 0xA0), (0xFE, 0x00), (0xFE, 0x02), (0xC0, 0x01),
      (0xC1, 0x50), (0xC2, 0xF9), (0xC3, 0x00), (0xC4, 0xE8), (0xC5, 0x48), (0xC6, 0xF0), (0xC7, 0x50),
      (0xC8, 0xF2), (0xC9, 0x00), (0xCA, 0xE0), (0xCB, 0x45), (0xCC, 0xEC), (0xCD, 0x45), (0xCE, 0xF0),
      (0xCF, 0x00), (0xE3, 0xF0), (0xE4, 0x45), (0xE5, 0xE8), (0xFE, 0x00), (0xF2, 0x0F), (0xFE, 0x00),
      (0xF7, 0x1D), (0xF8, 0x84), (0xFA, 0x00), (0x05, 0x01), (0x06, 0x3B), (0x07, 0x01), (0x08, 0x0B),
      (0xFE, 0x01), (0x25, 0x01), (0x26, 0x32), (0x27, 0x03), (0x28, 0x96), (0x29, 0x03), (0x2A, 0x96),
      (0x2B, 0x03), (0x2C, 0x96), (0x2D, 0x04), (0x2E, 0x62), (0x3C, 0x00), (0xFE, 0x00), (0xFE, 0x00),
      (0x18, 0x22), (0xFE, 0x02), (0x40, 0xBF), (0x46, 0xCF), (0xFE, 0x00), (0xFE, 0x00), (0xF7, 0x1D),
      (0xF8, 0x84), (0xFA, 0x10), (0x05, 0x01), (0x06, 0x18), (0x07, 0x00), (0x08, 0x2E), (0xFE, 0x01),
      (0x25, 0x00), (0x26, 0xA2), (0x27, 0x01), (0x28, 0xE6), (0x29, 0x01), (0x2A, 0xE6), (0x2B, 0x01),
      (0x2C, 0xE6), (0x2D, 0x04), (0x2E, 0x62), (0x3C, 0x00), (0xFE, 0x00), (0x09, 0x01), (0x0A, 0xD0),
      (0x0B, 0x02), (0x0C, 0x70), (0x0D, 0x01), (0x0E, 0x00), (0x0F, 0x01), (0x10, 0x50), (0x90, 0x01),
      (0x91, 0x00), (0x92, 0x00), (0x93, 0x00), (0x94, 0x00), (0x95, 0x00), (0x96, 0xF0), (0x97, 0x01),
      (0x98, 0x40), (0x00, 0x00)]"

end
