(* ===== verification/Gc.thy ===== *)
theory Gc
  imports SensorKit GcTables
begin

text \<open>
  The drivers of the GalaxyCore sensors (\<open>sensors/gc0308.c\<close>, \<open>gc032a.c\<close>, \<open>gc2145.c\<close>), with the option
  \<open>GC_SENSOR_SUBSAMPLE_MODE\<close> of the configuration: the sensor reads out a window that is a multiple of
  the picture and subsamples it, so that small pictures keep a wide view.
\<close>

section \<open>Shared code\<close>

definition REG_DLY :: u16 where "REG_DLY = 0xFFFF"

text \<open>\<open>REGLIST_TAIL\<close> of these drivers.\<close>

definition GC_REGLIST_TAIL :: u16 where "GC_REGLIST_TAIL = 0"

definition H8 :: "nat \<Rightarrow> byte" where "H8 v = of_nat (v div 256)"
definition L8 :: "nat \<Rightarrow> byte" where "L8 v = of_nat (v mod 256)"

text \<open>\<open>set_reg_bits\<close> and \<open>check_reg_mask\<close> of these drivers.\<close>

definition gc_set_reg_bits :: "fw_env \<Rightarrow> byte \<Rightarrow> nat \<Rightarrow> byte \<Rightarrow> byte \<Rightarrow> ('z cam_vars_scheme, int) state" where
  "gc_set_reg_bits env = set_masked (read_reg_byte env) (write_byte env)"

definition gc_check_reg_mask :: "fw_env \<Rightarrow> byte \<Rightarrow> byte \<Rightarrow> ('z cam_vars_scheme, byte) state" where
  "gc_check_reg_mask env = check_reg_mask (read_reg_byte env)"

text \<open>\<open>write_regs\<close> over a table of 16-bit pairs; registers and values are truncated to bytes.\<close>

definition gc_write_regs :: "fw_env \<Rightarrow> (u16 \<times> u16) list \<Rightarrow> ('z cam_vars_scheme, int) state" where
  "gc_write_regs env = write_table env (\<lambda>r. write_byte env (ucast r)) GC_REGLIST_TAIL REG_DLY"

definition write_all :: "fw_env \<Rightarrow> (byte \<times> byte) list \<Rightarrow> ('z cam_vars_scheme, unit) state" where
  "write_all env rvs = do_all (map (\<lambda>(r, v). write_byte env r v) rvs)"

text \<open>The settings \<open>init_status\<close> clears.\<close>

definition cleared :: "camera_status_t \<Rightarrow> camera_status_t" where
  "cleared st = st\<lparr>st_brightness := 0, st_contrast := 0, st_saturation := 0, st_sharpness := 0, st_denoise := 0,
     st_ae_level := 0, st_gainceiling := 0, st_awb := 0, st_dcw := 0, st_agc := 0, st_aec := 0, st_colorbar := 0,
     st_bpc := 0, st_wpc := 0, st_raw_gma := 0, st_lenc := 0, st_quality := 0, st_special_effect := 0,
     st_wb_mode := 0, st_awb_gain := 0, st_agc_gain := 0, st_aec_value := 0, st_aec2 := 0\<rparr>"

text \<open>\<open>get_reg\<close> and \<open>set_reg\<close>; masks of more than a byte are refused with a message.\<close>

definition gc_get_reg :: "fw_env \<Rightarrow> int \<Rightarrow> int \<Rightarrow> ('z cam_vars_scheme, int) state" where
  "gc_get_reg env reg msk =
     (if 0xFF < msk then return 0
      else do {
        ret \<leftarrow> read_reg_byte env (u8 reg);
        return (if 0 < uint ret then uint ret AND msk else uint ret)
      })"

definition gc_set_reg :: "fw_env \<Rightarrow> int \<Rightarrow> int \<Rightarrow> int \<Rightarrow> ('z cam_vars_scheme, int) state" where
  "gc_set_reg env reg msk v =
     (if 0xFF < msk then return 0
      else do {
        ret \<leftarrow> read_reg_byte env (u8 reg);
        write_byte env (u8 reg) (u8 ((uint ret AND NOT msk) OR (v AND msk)))
      })"

section \<open>Windows for subsampling\<close>

text \<open>A ratio, as numerator and denominator, with the values of the registers that select it.\<close>

type_synonym subsample_cfg = "nat \<times> nat \<times> byte list"

text \<open>The first ratio for which the whole array, subsampled, holds the picture: the window is the part of the array
  that the picture then needs, in its middle.  All quantities fit 16 bits and no subtraction is negative.\<close>

fun fits :: "nat \<Rightarrow> nat \<Rightarrow> nat \<Rightarrow> nat \<Rightarrow> subsample_cfg \<Rightarrow> bool" where
  "fits max_w max_h w h (num, den, regs) \<longleftrightarrow> w \<le> max_w * num div den \<and> h \<le> max_h * num div den"

definition subsample ::
  "nat \<Rightarrow> nat \<Rightarrow> subsample_cfg list \<Rightarrow> nat \<Rightarrow> nat \<Rightarrow> subsample_cfg \<times> nat \<times> nat \<times> nat \<times> nat" where
  "subsample max_w max_h cfgs w h =
     (case find (fits max_w max_h w h) cfgs of
        Some (num, den, regs) \<Rightarrow>
          (let win_w = w * den div num; win_h = h * den div num
           in ((num, den, regs), win_w, win_h, (max_h - win_h) div 2, (max_w - win_w) div 2))
      | None \<Rightarrow> (last cfgs, max_w, max_h, (max_h - h) div 2, (max_w - w) div 2))"

section \<open>GC0308\<close>

text \<open>The table is written to its end; \<open>REG_DLY\<close> is 0xFF here.\<close>

fun gc0308_write_regs :: "fw_env \<Rightarrow> (byte \<times> byte) list \<Rightarrow> ('z cam_vars_scheme, int) state" where
  "gc0308_write_regs env [] = return 0"
| "gc0308_write_regs env ((r, v) # regs) =
     (if r = 0xFF then do { delay_ms env (unat v); gc0308_write_regs env regs }
      else or_return (write_byte env r v) (gc0308_write_regs env regs))"

definition gc0308_reset :: "fw_env \<Rightarrow> ('z cam_vars_scheme, int) state" where
  "gc0308_reset env = or_return (write_byte env GC0308_RESET_RELATED 0xF0) (do {
     delay_ms env 80;
     ret \<leftarrow> gc0308_write_regs env gc0308_sensor_default_regs;
     do_when (ret = 0) (do {
       delay_ms env 80;
       _ \<leftarrow> write_byte env 0xFE 0;
       return ()
     });
     return ret
   })"

definition then_pixformat ::
  "('z cam_vars_scheme, int) state \<Rightarrow> pixformat_t \<Rightarrow> ('z cam_vars_scheme, int) state" where
  "then_pixformat m pf = do {
     ret \<leftarrow> m;
     do_when (ret = 0) (upd_sensor (\<lambda>x. x\<lparr>pixformat := pf\<rparr>));
     return ret
   }"

definition gc0308_set_pixformat :: "fw_env \<Rightarrow> pixformat_t \<Rightarrow> ('z cam_vars_scheme, int) state" where
  "gc0308_set_pixformat env pf = then_pixformat
     (if pf = PIXFORMAT_RGB565 then do { _ \<leftarrow> write_byte env 0xFE 0; gc_set_reg_bits env 0x24 0 0x0F 6 }
      else if pf = PIXFORMAT_YUV422 then do { _ \<leftarrow> write_byte env 0xFE 0; gc_set_reg_bits env 0x24 0 0x0F 2 }
      else if pf = PIXFORMAT_GRAYSCALE then do { _ \<leftarrow> write_byte env 0xFE 0; write_byte env 0x24 0xB1 }
      else return (-1)) pf"

definition gc0308_subsample_cfgs :: "subsample_cfg list" where
  "gc0308_subsample_cfgs =
     [(84, 420, [0x55, 0x00, 0x00, 0x00, 0x00]),
      (105, 420, [0x44, 0x00, 0x00, 0x00, 0x00]),
      (140, 420, [0x33, 0x00, 0x00, 0x00, 0x00]),
      (210, 420, [0x22, 0x00, 0x00, 0x00, 0x00]),
      (240, 420, [0x77, 0x02, 0x46, 0x02, 0x46]),
      (252, 420, [0x55, 0x02, 0x04, 0x02, 0x04]),
      (280, 420, [0x33, 0x02, 0x00, 0x02, 0x00]),
      (420, 420, [0x11, 0x00, 0x00, 0x00, 0x00])]"

definition gc0308_window :: "framesize_t \<Rightarrow> subsample_cfg \<times> nat \<times> nat \<times> nat \<times> nat" where
  "gc0308_window fs = subsample 640 480 gc0308_subsample_cfgs (res_width fs) (res_height fs)"

definition gc0308_set_framesize :: "fw_env \<Rightarrow> framesize_t \<Rightarrow> ('z cam_vars_scheme, int) state" where
  "gc0308_set_framesize env fs = do {
     let fs = (if FRAMESIZE_VGA < fs then FRAMESIZE_VGA else fs);
     upd_status (\<lambda>st. st\<lparr>st_framesize := fs\<rparr>);
     (case gc0308_window fs of ((num, den, regs), win_w, win_h, row_s, col_s) \<Rightarrow> do {
        write_all env
          [(0xFE, 0x00), (0x05, H8 row_s), (0x06, L8 row_s), (0x07, H8 col_s), (0x08, L8 col_s),
           (0x09, H8 (win_h + 8)), (0x0A, L8 (win_h + 8)), (0x0B, H8 (win_w + 8)), (0x0C, L8 (win_w + 8)),
           (0xFE, 0x01)];
        do_all [gc_set_reg_bits env 0x53 7 0x01 1, gc_set_reg_bits env 0x55 0 0x01 1];
        write_all env (zip [0x54, 0x56, 0x57, 0x58, 0x59] regs);
        write_all env [(0xFE, 0x00)]
      });
     return 0
   }"

definition gc0308_set_contrast :: "fw_env \<Rightarrow> int \<Rightarrow> ('z cam_vars_scheme, int) state" where
  "gc0308_set_contrast env contrast = do {
     do_when (contrast \<noteq> 0) (write_all env [(0xFE, 0x00), (0xB3, u8 contrast)]);
     return 0
   }"

definition gc0308_set_global_gain :: "fw_env \<Rightarrow> int \<Rightarrow> ('z cam_vars_scheme, int) state" where
  "gc0308_set_global_gain env gain_level = do {
     do_when (gain_level \<noteq> 0) (write_all env [(0xFE, 0x00), (0x50, u8 gain_level)]);
     return 0
   }"

definition gc0308_set_hmirror :: "fw_env \<Rightarrow> int \<Rightarrow> ('z cam_vars_scheme, int) state" where
  "gc0308_set_hmirror env enable = do {
     upd_status (\<lambda>st. st\<lparr>st_hmirror := u8 enable\<rparr>);
     all_or [write_byte env 0xFE 0, gc_set_reg_bits env 0x14 0 0x01 (of_flag (enable \<noteq> 0))]
   }"

definition gc0308_set_vflip :: "fw_env \<Rightarrow> int \<Rightarrow> ('z cam_vars_scheme, int) state" where
  "gc0308_set_vflip env enable = do {
     upd_status (\<lambda>st. st\<lparr>st_vflip := u8 enable\<rparr>);
     all_or [write_byte env 0xFE 0, gc_set_reg_bits env 0x14 1 0x01 (of_flag (enable \<noteq> 0))]
   }"

definition gc0308_set_colorbar :: "fw_env \<Rightarrow> int \<Rightarrow> ('z cam_vars_scheme, int) state" where
  "gc0308_set_colorbar env enable =
     then_store (all_or [write_byte env 0xFE 0, gc_set_reg_bits env 0x2E 0 0x01 (u8 enable)])
       (\<lambda>st. st\<lparr>st_colorbar := u8 enable\<rparr>)"

definition gc0308_init_status :: "fw_env \<Rightarrow> ('z cam_vars_scheme, int) state" where
  "gc0308_init_status env = do {
     _ \<leftarrow> write_byte env 0xFE 0;
     upd_status cleared;
     load (gc_check_reg_mask env 0x14 0x01) (\<lambda>b st. st\<lparr>st_hmirror := b\<rparr>);
     load (gc_check_reg_mask env 0x14 0x02) (\<lambda>b st. st\<lparr>st_vflip := b\<rparr>);
     return 0
   }"

fun gc0308_ops :: "fw_env \<Rightarrow> sensor_op \<Rightarrow> ('z cam_vars_scheme, int) state option" where
  "gc0308_ops env Init_status = Some (gc0308_init_status env)"
| "gc0308_ops env Reset_sensor = Some (gc0308_reset env)"
| "gc0308_ops env (Set_pixformat pf) = Some (gc0308_set_pixformat env pf)"
| "gc0308_ops env (Set_framesize fs) = Some (gc0308_set_framesize env fs)"
| "gc0308_ops env (Set_contrast v) = Some (gc0308_set_contrast env v)"
| "gc0308_ops env (Set_colorbar v) = Some (gc0308_set_colorbar env v)"
| "gc0308_ops env (Set_gain_ctrl v) = Some (gc0308_set_global_gain env v)"
| "gc0308_ops env (Set_hmirror v) = Some (gc0308_set_hmirror env v)"
| "gc0308_ops env (Set_vflip v) = Some (gc0308_set_vflip env v)"
| "gc0308_ops env _ = Some not_supported"

section \<open>GC032A\<close>

definition gc032a_reset :: "fw_env \<Rightarrow> ('z cam_vars_scheme, int) state" where
  "gc032a_reset env = or_return (write_byte env GC032A_RESET_RELATED 0xF0) (do {
     delay_ms env 100;
     ret \<leftarrow> gc_write_regs env gc032a_default_regs;
     do_when (ret = 0) (do {
       delay_ms env 100;
       do_all [write_byte env 0xFE 0,
         gc_set_reg_bits env 0xF7 1 0x01 1,
         gc_set_reg_bits env 0xF7 7 0x01 1,
         gc_set_reg_bits env 0xF8 0 0x3F 8,
         gc_set_reg_bits env 0xFA 4 0x0F 2]
     });
     return ret
   })"

definition gc032a_set_pixformat :: "fw_env \<Rightarrow> pixformat_t \<Rightarrow> ('z cam_vars_scheme, int) state" where
  "gc032a_set_pixformat env pf = then_pixformat
     (if pf = PIXFORMAT_RGB565 then do { _ \<leftarrow> write_byte env 0xFE 0; gc_set_reg_bits env 0x44 0 0x1F 6 }
      else if pf = PIXFORMAT_YUV422 then do { _ \<leftarrow> write_byte env 0xFE 0; gc_set_reg_bits env 0x44 0 0x1F 3 }
      else return (-1)) pf"

definition gc032a_set_framesize :: "fw_env \<Rightarrow> framesize_t \<Rightarrow> ('z cam_vars_scheme, int) state" where
  "gc032a_set_framesize env fs = do {
     let fs = (if FRAMESIZE_VGA < fs then FRAMESIZE_VGA else fs);
     upd_status (\<lambda>st. st\<lparr>st_framesize := fs\<rparr>);
     let w = res_width fs;
     let h = res_height fs;
     let row_s = (res_height FRAMESIZE_VGA - h) div 2;
     let col_s = (res_width FRAMESIZE_VGA - w) div 2;
     write_all env
       [(0xFE, 0x00),
        (GC032A_P0_ROW_START_HIGH, H8 row_s), (GC032A_P0_ROW_START_LOW, L8 row_s),
        (GC032A_P0_COLUMN_START_HIGH, H8 col_s), (GC032A_P0_COLUMN_START_LOW, L8 col_s),
        (GC032A_P0_WINDOW_HEIGHT_HIGH, H8 (h + 8)), (GC032A_P0_WINDOW_HEIGHT_LOW, L8 (h + 8)),
        (GC032A_P0_WINDOW_WIDTH_HIGH, H8 (w + 8)), (GC032A_P0_WINDOW_WIDTH_LOW, L8 (w + 8)),
        (GC032A_P0_WIN_MODE, 0x01),
        (GC032A_P0_OUT_WIN_HEIGHT_HIGH, H8 h), (GC032A_P0_OUT_WIN_HEIGHT_LOW, L8 h),
        (GC032A_P0_OUT_WIN_WIDTH_HIGH, H8 w), (GC032A_P0_OUT_WIN_WIDTH_LOW, L8 w)];
     return 0
   }"

definition gc032a_set_hmirror :: "fw_env \<Rightarrow> int \<Rightarrow> ('z cam_vars_scheme, int) state" where
  "gc032a_set_hmirror env enable = do {
     upd_status (\<lambda>st. st\<lparr>st_hmirror := u8 enable\<rparr>);
     all_or [write_byte env 0xFE 0, gc_set_reg_bits env GC032A_P0_CISCTL_MODE1 0 0x01 (u8 enable)]
   }"

definition gc032a_set_vflip :: "fw_env \<Rightarrow> int \<Rightarrow> ('z cam_vars_scheme, int) state" where
  "gc032a_set_vflip env enable = do {
     upd_status (\<lambda>st. st\<lparr>st_vflip := u8 enable\<rparr>);
     all_or [write_byte env 0xFE 0, gc_set_reg_bits env GC032A_P0_CISCTL_MODE1 1 0x01 (u8 enable)]
   }"

definition gc032a_set_colorbar :: "fw_env \<Rightarrow> int \<Rightarrow> ('z cam_vars_scheme, int) state" where
  "gc032a_set_colorbar env enable =
     then_store (all_or [write_byte env 0xFE 0, gc_set_reg_bits env GC032A_P0_DEBUG_MODE2 3 0x01 (u8 enable)])
       (\<lambda>st. st\<lparr>st_colorbar := u8 enable\<rparr>)"

definition gc032a_init_status :: "fw_env \<Rightarrow> ('z cam_vars_scheme, int) state" where
  "gc032a_init_status env = do {
     _ \<leftarrow> write_byte env 0xFE 0;
     upd_status cleared;
     load (gc_check_reg_mask env GC032A_P0_CISCTL_MODE1 0x01) (\<lambda>b st. st\<lparr>st_hmirror := b\<rparr>);
     load (gc_check_reg_mask env GC032A_P0_CISCTL_MODE1 0x02) (\<lambda>b st. st\<lparr>st_vflip := b\<rparr>);
     return 0
   }"

fun gc032a_ops :: "fw_env \<Rightarrow> sensor_op \<Rightarrow> ('z cam_vars_scheme, int) state option" where
  "gc032a_ops env Init_status = Some (gc032a_init_status env)"
| "gc032a_ops env Reset_sensor = Some (gc032a_reset env)"
| "gc032a_ops env (Set_pixformat pf) = Some (gc032a_set_pixformat env pf)"
| "gc032a_ops env (Set_framesize fs) = Some (gc032a_set_framesize env fs)"
| "gc032a_ops env (Set_colorbar v) = Some (gc032a_set_colorbar env v)"
| "gc032a_ops env (Set_hmirror v) = Some (gc032a_set_hmirror env v)"
| "gc032a_ops env (Set_vflip v) = Some (gc032a_set_vflip env v)"
| "gc032a_ops env _ = Some not_supported"

section \<open>GC2145\<close>

definition gc2145_reset :: "fw_env \<Rightarrow> ('z cam_vars_scheme, int) state" where
  "gc2145_reset env = or_return (write_byte env GC2145_RESET_RELATED 0xE0) (do {
     delay_ms env 100;
     ret \<leftarrow> gc_write_regs env gc2145_default_init_regs;
     do_when (ret = 0) (delay_ms env 100);
     return ret
   })"

definition gc2145_set_pixformat :: "fw_env \<Rightarrow> pixformat_t \<Rightarrow> ('z cam_vars_scheme, int) state" where
  "gc2145_set_pixformat env pf = then_pixformat
     (if pf = PIXFORMAT_RGB565 then do { _ \<leftarrow> write_byte env 0xFE 0; gc_set_reg_bits env GC2145_P0_OUTPUT_FORMAT 0 0x1F 6 }
      else if pf = PIXFORMAT_YUV422 then do { _ \<leftarrow> write_byte env 0xFE 0; gc_set_reg_bits env GC2145_P0_OUTPUT_FORMAT 0 0x1F 2 }
      else return (-1)) pf"

definition gc2145_subsample_cfgs :: "subsample_cfg list" where
  "gc2145_subsample_cfgs =
     [(140, 420, [0x33, 0x00, 0x00, 0x00, 0x00, 0x00, 0x00, 0x00, 0x00]),
      (210, 420, [0x22, 0x00, 0x00, 0x00, 0x00, 0x00, 0x00, 0x00, 0x00]),
      (240, 420, [0x77, 0x02, 0x46, 0x02, 0x46, 0x02, 0x46, 0x02, 0x46]),
      (252, 420, [0x55, 0x02, 0x04, 0x02, 0x04, 0x02, 0x04, 0x02, 0x04]),
      (280, 420, [0x33, 0x00, 0x02, 0x00, 0x00, 0x00, 0x02, 0x00, 0x00]),
      (420, 420, [0x11, 0x00, 0x00, 0x00, 0x00, 0x00, 0x00, 0x00, 0x00])]"

text \<open>From QVGA on the search starts at the second ratio.\<close>

definition gc2145_window :: "framesize_t \<Rightarrow> subsample_cfg \<times> nat \<times> nat \<times> nat \<times> nat" where
  "gc2145_window fs = subsample (res_width FRAMESIZE_UXGA) (res_height FRAMESIZE_UXGA)
     (if FRAMESIZE_QVGA \<le> fs then drop 1 gc2145_subsample_cfgs else gc2145_subsample_cfgs) (res_width fs) (res_height fs)"

definition gc2145_set_framesize :: "fw_env \<Rightarrow> framesize_t \<Rightarrow> ('z cam_vars_scheme, int) state" where
  "gc2145_set_framesize env fs = do {
     let fs = (if FRAMESIZE_UXGA < fs then FRAMESIZE_UXGA else fs);
     upd_status (\<lambda>st. st\<lparr>st_framesize := fs\<rparr>);
     let w = res_width fs;
     let h = res_height fs;
     (case gc2145_window fs of ((num, den, regs), win_w, win_h, row_s, col_s) \<Rightarrow> do {
        write_all env
          [(0xFE, 0x00), (GC2145_P0_CROP_ENABLE, 0x01),
           (0x09, H8 row_s), (0x0A, L8 row_s), (0x0B, H8 col_s), (0x0C, L8 col_s),
           (0x0D, H8 (win_h + 8)), (0x0E, L8 (win_h + 8)), (0x0F, H8 (win_w + 16)), (0x10, L8 (win_w + 16))];
        write_all env (zip [0x99, 0x9B, 0x9C, 0x9D, 0x9E, 0x9F, 0xA0, 0xA1, 0xA2] regs);
        write_all env [(0x95, H8 h), (0x96, L8 h), (0x97, H8 w), (0x98, L8 w)]
      });
     return 0
   }"

definition gc2145_set_hmirror :: "fw_env \<Rightarrow> int \<Rightarrow> ('z cam_vars_scheme, int) state" where
  "gc2145_set_hmirror env enable = do {
     upd_status (\<lambda>st. st\<lparr>st_hmirror := u8 enable\<rparr>);
     all_or [write_byte env 0xFE 0, gc_set_reg_bits env GC2145_P0_ANALOG_MODE1 0 0x01 (of_flag (enable \<noteq> 0))]
   }"

definition gc2145_set_vflip :: "fw_env \<Rightarrow> int \<Rightarrow> ('z cam_vars_scheme, int) state" where
  "gc2145_set_vflip env enable = do {
     upd_status (\<lambda>st. st\<lparr>st_vflip := u8 enable\<rparr>);
     all_or [write_byte env 0xFE 0, gc_set_reg_bits env GC2145_P0_ANALOG_MODE1 1 0x01 (of_flag (enable \<noteq> 0))]
   }"

definition gc2145_set_colorbar :: "fw_env \<Rightarrow> int \<Rightarrow> ('z cam_vars_scheme, int) state" where
  "gc2145_set_colorbar env enable = do {
     upd_status (\<lambda>st. st\<lparr>st_colorbar := u8 enable\<rparr>);
     return 0
   }"

definition gc2145_init_status :: "fw_env \<Rightarrow> ('z cam_vars_scheme, int) state" where
  "gc2145_init_status env = do {
     _ \<leftarrow> write_byte env 0xFE 0;
     upd_status cleared;
     load (gc_check_reg_mask env GC2145_P0_ANALOG_MODE1 0x01) (\<lambda>b st. st\<lparr>st_hmirror := b\<rparr>);
     load (gc_check_reg_mask env GC2145_P0_ANALOG_MODE1 0x02) (\<lambda>b st. st\<lparr>st_vflip := b\<rparr>);
     return 0
   }"

fun gc2145_ops :: "fw_env \<Rightarrow> sensor_op \<Rightarrow> ('z cam_vars_scheme, int) state option" where
  "gc2145_ops env Init_status = Some (gc2145_init_status env)"
| "gc2145_ops env Reset_sensor = Some (gc2145_reset env)"
| "gc2145_ops env (Set_pixformat pf) = Some (gc2145_set_pixformat env pf)"
| "gc2145_ops env (Set_framesize fs) = Some (gc2145_set_framesize env fs)"
| "gc2145_ops env (Set_colorbar v) = Some (gc2145_set_colorbar env v)"
| "gc2145_ops env (Set_hmirror v) = Some (gc2145_set_hmirror env v)"
| "gc2145_ops env (Set_vflip v) = Some (gc2145_set_vflip env v)"
| "gc2145_ops env _ = Some not_supported"

end
