(* ===== verification/BfScTables.thy ===== *)
theory BfScTables
  imports Prelude
begin

text \<open>
  The registers and register tables of the sensors BF20A6, BF3005, SC030IOT and Mega CCM.
  A settings table is the list of its register and value pairs, in order; the register macros of the header are
  expanded.  Tables that the source ends by a marker keep the marker as their last pair.
\<close>

section \<open>BF20A6\<close>

definition BF20A6_RESET_RELATED :: byte where "BF20A6_RESET_RELATED = 0xF2"

definition bf20a6_default_init_regs :: "(u16 \<times> u16) list" where
  "bf20a6_default_init_regs =
     [(0xF2, 0x01), (0x12, 0x20), (0x3A, 0x00), (0xE1, 0x92), (0xE3, 0x12), (0xE0, 0x00), (0x2A, 0x98),
      (0xCD, 0x17), (0xC0, 0x10), (0xC6, 0x1D), (0x10, 0x35), (0xE2, 0x09), (0xE4, 0x72), (0xE5, 0x22),
      (0xE6, 0x24), (0xE7, 0x64), (0xE8, 0xA2), (0x4A, 0x00), (0x00, 0x03), (0x1F, 0x02), (0x22, 0x02),
      (0x0C, 0x31), (0x00, 0x00), (0x60, 0x81), (0x61, 0x81), (0xA0, 0x08), (0x01, 0x1A), (0x02, 0x15),
      (0x13, 0x08), (0x8A, 0x96), (0x8B, 0x06), (0x87, 0x18), (0x34, 0x48), (0x35, 0x40), (0x36, 0x40),
      (0x71, 0x44), (0x72, 0x48), (0x74, 0xA2), (0x75, 0xA9), (0x78, 0x12), (0x79, 0xA0), (0x7A, 0x94),
      (0x7C, 0x97), (0x40, 0x30), (0x41, 0x30), (0x42, 0x28), (0x43, 0x1F), (0x44, 0x1C), (0x45, 0x16),
      (0x46, 0x13), (0x47, 0x10), (0x48, 0x0D), (0x49, 0x0C), (0x4B, 0x0A), (0x4C, 0x0B), (0x4E, 0x09),
      (0x4F, 0x08), (0x50, 0x08), (0x5F, 0x29), (0x23, 0x33), (0xA1, 0x10), (0xA2, 0x0D), (0xA3, 0x30),
      (0xA4, 0x06), (0xA5, 0x22), (0xA6, 0x56), (0xA7, 0x18), (0xA8, 0x1A), (0xA9, 0x12), (0xAA, 0x12),
      (0xAB, 0x16), (0xAC, 0xB1), (0xBA, 0x12), (0xBB, 0x12), (0xAD, 0x12), (0xAE, 0x56), (0xAF, 0x0A),
      (0x3B, 0x30), (0x3C, 0x12), (0x3D, 0x22), (0x3E, 0x3F), (0x3F, 0x28), (0xB8, 0xC3), (0xB9, 0xA3),
      (0x39, 0x47), (0x26, 0x13), (0x27, 0x16), (0x28, 0x14), (0x29, 0x18), (0xEE, 0x0D), (0x13, 0x05),
      (0x24, 0x3C), (0x81, 0x20), (0x82, 0x40), (0x83, 0x30), (0x84, 0x58), (0x85, 0x30), (0x92, 0x08),
      (0x86, 0x80), (0x8A, 0x96), (0x91, 0xFF), (0x94, 0x62), (0x9A, 0x18), (0xF0, 0x45), (0x51, 0x17),
      (0x52, 0x03), (0x53, 0x5F), (0x54, 0x47), (0x55, 0x66), (0x56, 0x0F), (0x7E, 0x14), (0x57, 0x36),
      (0x58, 0x2A), (0x59, 0xAA), (0x5A, 0xA8), (0x5B, 0x43), (0x5C, 0x10), (0x5D, 0x00), (0x7D, 0x36),
      (0x5E, 0x10), (0xD6, 0x88), (0xD5, 0x20), (0xB0, 0x84), (0xB5, 0x08), (0xB1, 0xC8), (0xB2, 0xC0),
      (0xB3, 0xD0), (0xB4, 0xB0), (0x32, 0x10), (0xA0, 0x09), (0x00, 0x03), (0x0B, 0x02), (0xFFFF, 0x00)]"

section \<open>BF3005\<close>

definition bf3005_default_regs :: "(byte \<times> byte) list" where
  "bf3005_default_regs =
     [(0x12, 0x40), (0xFF, 0xFF), (0xFF, 0xFF), (0xFF, 0xFF), (0xFF, 0xFF), (0x13, 0x10), (0x8C, 0x00),
      (0x8D, 0x64), (0x87, 0x10), (0x13, 0x17), (0x00, 0x20), (0x01, 0x1A), (0x02, 0x22), (0x09, 0x03),
      (0x0C, 0x80), (0x0D, 0x24), (0x0E, 0x21), (0x0F, 0x28), (0x11, 0x08), (0x15, 0x10), (0x16, 0x03),
      (0x1E, 0x30), (0x20, 0x8A), (0x21, 0x03), (0x23, 0x55), (0x24, 0x68), (0x25, 0x78), (0x2A, 0x00),
      (0x2B, 0x00), (0x2D, 0x4F), (0x2E, 0x98), (0x2F, 0x04), (0x30, 0xAD), (0x31, 0x17), (0x32, 0x6E),
      (0x33, 0x20), (0x35, 0xA6), (0x3B, 0x00), (0x3E, 0x00), (0x3F, 0xA8), (0x40, 0x38), (0x41, 0x32),
      (0x42, 0x2B), (0x43, 0x26), (0x44, 0x1A), (0x45, 0x16), (0x46, 0x10), (0x47, 0x0F), (0x48, 0x0C),
      (0x49, 0x0A), (0x4B, 0x09), (0x4C, 0x08), (0x4D, 0x3C), (0x4E, 0x06), (0x4F, 0x05), (0x50, 0x03),
      (0x51, 0x25), (0x52, 0x88), (0x53, 0x03), (0x63, 0x20), (0x64, 0x02), (0x65, 0xA6), (0x66, 0xB6),
      (0x69, 0x00), (0x70, 0xFF), (0x71, 0xA6), (0x72, 0x2F), (0x73, 0x2F), (0x74, 0x2F), (0x75, 0x0E),
      (0x76, 0x1E), (0x77, 0x00), (0x78, 0x1E), (0x79, 0x8A), (0x7D, 0xE2), (0x80, 0x44), (0x81, 0x00),
      (0x82, 0x18), (0x83, 0x1B), (0x84, 0x24), (0x85, 0x2A), (0x86, 0x4F), (0x89, 0x82), (0x8B, 0x02),
      (0x8E, 0x03), (0x8F, 0xFC), (0x9D, 0x4D), (0x9E, 0x41), (0xA1, 0x21), (0xA2, 0x12), (0xA3, 0x32),
      (0xA4, 0x05), (0xA5, 0x32), (0xA6, 0x04), (0xA7, 0x7F), (0xA8, 0x7F), (0xA9, 0x21), (0xAA, 0x21),
      (0xAB, 0x21), (0xAC, 0x0A), (0xAD, 0xF0), (0xAE, 0xFF), (0xAF, 0x1D), (0xB0, 0x94), (0xB1, 0xC0),
      (0xB2, 0xC0), (0xD2, 0x30), (0xE0, 0x0D), (0xE1, 0x44), (0xE7, 0x7C), (0xE8, 0x89), (0xE9, 0x01),
      (0xEA, 0x01), (0xF0, 0x01), (0xF3, 0x49), (0xF4, 0xFF), (0xF5, 0x01), (0xF6, 0xF2), (0xF7, 0x6F),
      (0x1B, 0x80), (0x00, 0x00)]"

section \<open>SC030IOT\<close>

definition sc030iot_default_init_regs :: "(byte \<times> byte) list" where
  "sc030iot_default_init_regs =
     [(0xF0, 0x30), (0x01, 0xFF), (0x02, 0xFF), (0x22, 0x07), (0x19, 0xFF), (0x3F, 0x82), (0x30, 0x02),
      (0xF0, 0x01), (0x70, 0x00), (0x71, 0x80), (0x72, 0x20), (0x73, 0x00), (0x74, 0xE0), (0x75, 0x10),
      (0x76, 0x81), (0x77, 0x88), (0x78, 0xE1), (0x79, 0x01), (0xF5, 0x01), (0xF4, 0x0A), (0xF0, 0x36),
      (0x37, 0x79), (0x31, 0x82), (0x3E, 0x60), (0x30, 0xF0), (0x33, 0x33), (0xF0, 0x32), (0x48, 0x02),
      (0xF0, 0x33), (0x02, 0x12), (0x7C, 0x02), (0x7D, 0x0E), (0xA2, 0x04), (0x5E, 0x06), (0x5F, 0x0A),
      (0x0B, 0x58), (0x06, 0x38), (0xF0, 0x32), (0x48, 0x02), (0xF0, 0x39), (0x02, 0x70), (0xF0, 0x45),
      (0x09, 0x1C), (0xF0, 0x37), (0x22, 0x0D), (0xF0, 0x33), (0x33, 0x10), (0xB1, 0x80), (0x34, 0x40),
      (0x0B, 0x54), (0xB2, 0x78), (0xF0, 0x36), (0x11, 0x80), (0xF0, 0x30), (0x38, 0x44), (0xF0, 0x33),
      (0xB3, 0x51), (0x01, 0x10), (0x0B, 0x6C), (0x06, 0x24), (0xF0, 0x36), (0x31, 0x82), (0x3E, 0x60),
      (0x30, 0xF0), (0x33, 0x33), (0xF0, 0x34), (0x9F, 0x02), (0xA6, 0x40), (0xA7, 0x47), (0xE8, 0x5F),
      (0xA8, 0x51), (0xA9, 0x44), (0xE9, 0x36), (0xF0, 0x33), (0xB3, 0x51), (0x64, 0x17), (0x90, 0x01),
      (0x91, 0x03), (0x92, 0x07), (0x01, 0x10), (0x93, 0x10), (0x94, 0x10), (0x95, 0x10), (0x96, 0x01),
      (0x97, 0x07), (0x98, 0x1F), (0x99, 0x10), (0x9A, 0x20), (0x9B, 0x28), (0x9C, 0x28), (0xF0, 0x36),
      (0x70, 0x54), (0xB6, 0x40), (0xB7, 0x41), (0xB8, 0x43), (0xB9, 0x47), (0xBA, 0x4F), (0xB0, 0x8B),
      (0xB1, 0x8B), (0xB2, 0x8B), (0xB3, 0x9B), (0xB4, 0xB8), (0xB5, 0xF0), (0x7E, 0x41), (0x7F, 0x47),
      (0x77, 0x80), (0x78, 0x84), (0x79, 0x8A), (0xA0, 0x47), (0xA1, 0x5F), (0x96, 0x43), (0x97, 0x44),
      (0x98, 0x54), (0xF0, 0x00), (0xF0, 0x01), (0x73, 0x00), (0x74, 0xE0), (0x70, 0x00), (0x71, 0x80),
      (0xF0, 0x36), (0x37, 0x74), (0xF0, 0x3F), (0x03, 0xA1), (0xF0, 0x36), (0x11, 0x80), (0xF0, 0x01),
      (0x79, 0xC1), (0xF0, 0x37), (0x24, 0x21), (0xF0, 0x36), (0x41, 0x00), (0xEA, 0x09), (0xEB, 0x03),
      (0xEC, 0x19), (0xED, 0x38), (0xE9, 0x30), (0xF0, 0x33), (0x33, 0x00), (0x34, 0x00), (0xB1, 0x00),
      (0xF0, 0x00), (0xE0, 0x04), (0xF0, 0x01), (0x73, 0x00), (0x74, 0xE0), (0x70, 0x00), (0x71, 0x80),
      (0xF0, 0x36), (0x32, 0x44), (0xF0, 0x36), (0x3E, 0xE0), (0x70, 0x56), (0x7C, 0x43), (0x7D, 0x47),
      (0x74, 0x00), (0x75, 0x00), (0x76, 0x00), (0xA0, 0x47), (0xA1, 0x5F), (0x96, 0x22), (0x97, 0x22),
      (0x98, 0x22), (0xF0, 0x00), (0x72, 0x38), (0x7A, 0x80), (0x85, 0x18), (0x9B, 0x35), (0x9E, 0x20),
      (0xD0, 0x66), (0xD1, 0x34), (0xD3, 0x44), (0xD6, 0x44), (0xB0, 0x41), (0xB2, 0x48), (0xB3, 0xF4),
      (0xB4, 0x0B), (0xB5, 0x78), (0xBA, 0xFF), (0xBB, 0xC0), (0xBC, 0x90), (0xBD, 0x3A), (0xC1, 0x67),
      (0xF0, 0x01), (0x20, 0x11), (0x23, 0x90), (0x24, 0x15), (0x25, 0x87), (0xBC, 0x9F), (0xBD, 0x3A),
      (0x48, 0xE6), (0x49, 0xC0), (0x4A, 0xD0), (0x4B, 0x48), (0xF0, 0x36), (0x11, 0x00), (0xF0, 0x01),
      (0x79, 0xF1), (0xF0, 0x36), (0x11, 0x80), (0xF0, 0x01), (0x79, 0xC1)]"

section \<open>Mega CCM\<close>

definition MEGA_CAMERA_RST_REG :: u16 where "MEGA_CAMERA_RST_REG = 0x0102"
definition MEGA_PIXEL_FMT_REG :: u16 where "MEGA_PIXEL_FMT_REG = 0x0120"
definition MEGA_RESOLUTION_REG :: u16 where "MEGA_RESOLUTION_REG = 0x0121"
definition MEGA_BRIGHTNESS_REG :: u16 where "MEGA_BRIGHTNESS_REG = 0x0122"
definition MEGA_CONTRAST_REG :: u16 where "MEGA_CONTRAST_REG = 0x0123"
definition MEGA_SATURATION_REG :: u16 where "MEGA_SATURATION_REG = 0x0124"
definition MEGA_AWB_MODE_REG :: u16 where "MEGA_AWB_MODE_REG = 0x0126"
definition MEGA_SPECIAL_REG :: u16 where "MEGA_SPECIAL_REG = 0x0127"
definition MEGA_IMAGE_QUALITY_REG :: u16 where "MEGA_IMAGE_QUALITY_REG = 0x012A"
definition MEGA_IMAGE_FLIP_REG :: u16 where "MEGA_IMAGE_FLIP_REG = 0x012B"
definition MEGA_IMAGE_MIRROR_REG :: u16 where "MEGA_IMAGE_MIRROR_REG = 0x012C"
definition MEGA_AGC_MODE_REG :: u16 where "MEGA_AGC_MODE_REG = 0x0130"
definition MEGA_MANUAL_AGC_REG :: u16 where "MEGA_MANUAL_AGC_REG = 0x0131"
definition MEGA_MANUAL_EXP_H_REG :: u16 where "MEGA_MANUAL_EXP_H_REG = 0x0133"
definition MEGA_MANUAL_EXP_L_REG :: u16 where "MEGA_MANUAL_EXP_L_REG = 0x0134"
definition MEGA_SYSTEM_CLK_DIV_REG :: u16 where "MEGA_SYSTEM_CLK_DIV_REG = 0x0200"
definition MEGA_SYSTEM_PLL_DIV_REG :: u16 where "MEGA_SYSTEM_PLL_DIV_REG = 0x0201"

end
