(* ===== verification/BfSc.thy ===== *)
theory BfSc
  imports Gc BfScTables
begin

text \<open>
  The drivers of the sensors BF20A6, BF3005, SC030IOT and Mega CCM (\<open>sensors/bf20a6.c\<close>, \<open>bf3005.c\<close>,
  \<open>sc030iot.c\<close>, \<open>mega_ccm.c\<close>).  The \<open>init\<close> functions of BF3005 and SC030IOT leave some of the function
  pointers \<open>NULL\<close>.
\<close>

section \<open>Fields of 8-bit registers\<close>

definition set_bits8 :: "fw_env \<Rightarrow> byte \<Rightarrow> nat \<Rightarrow> nat \<Rightarrow> byte \<Rightarrow> ('z cam_vars_scheme, int) state" where
  "set_bits8 env = set_field (read_reg_byte env) (write_byte env)"

definition get_bits8 :: "fw_env \<Rightarrow> byte \<Rightarrow> nat \<Rightarrow> nat \<Rightarrow> ('z cam_vars_scheme, byte) state" where
  "get_bits8 env = get_field (read_reg_byte env)"

text \<open>The window registers of the two BYD sensors, from the size of the picture.\<close>

definition bf_window_msb :: "framesize_t \<Rightarrow> (byte \<times> byte) list" where
  "bf_window_msb fs = [(0x17, 0), (0x18, u8 (int (res_width fs) div 4)), (0x19, 0), (0x1A, u8 (int (res_height fs) div 4))]"

definition bf_window :: "framesize_t \<Rightarrow> int \<Rightarrow> (byte \<times> byte) list" where
  "bf_window fs d =
     [(0x17, u8 (80 - int (res_width fs) div d)), (0x18, u8 (80 + int (res_width fs) div d)),
      (0x19, u8 (60 - int (res_height fs) div d)), (0x1A, u8 (60 + int (res_height fs) div d))]"

definition write_ored :: "fw_env \<Rightarrow> (byte \<times> byte) list \<Rightarrow> ('z cam_vars_scheme, int) state" where
  "write_ored env rvs = all_or (map (\<lambda>(r, v). write_byte env r v) rvs)"

section \<open>BF20A6\<close>

text \<open>\<open>REG_DLY\<close> and \<open>REGLIST_TAIL\<close> are the same value here.\<close>

definition bf20a6_write_regs :: "fw_env \<Rightarrow> (u16 \<times> u16) list \<Rightarrow> ('z cam_vars_scheme, int) state" where
  "bf20a6_write_regs env = write_table env (\<lambda>r. write_byte env (ucast r)) 0xFFFF 0xFFFF"

definition bf20a6_reset :: "fw_env \<Rightarrow> ('z cam_vars_scheme, int) state" where
  "bf20a6_reset env = or_return (write_byte env BF20A6_RESET_RELATED 0x01) (do {
     delay_ms env 100;
     ret \<leftarrow> bf20a6_write_regs env bf20a6_default_init_regs;
     do_when (ret = 0) (delay_ms env 100);
     return ret
   })"

definition bf20a6_set_pixformat :: "fw_env \<Rightarrow> pixformat_t \<Rightarrow> ('z cam_vars_scheme, int) state" where
  "bf20a6_set_pixformat env pf = then_pixformat
     (if pf = PIXFORMAT_YUV422 then do { _ \<leftarrow> set_bits8 env 0x12 0 1 0; return 0 }
      else if pf = PIXFORMAT_RAW then do { _ \<leftarrow> set_bits8 env 0x12 0 1 1; return 0 }
      else if pf = PIXFORMAT_GRAYSCALE then do {
        write_all env [(0x12, 0x23), (0x3A, 0x00), (0xE1, 0x92), (0xE3, 0x02)];
        return 0
      } else return (-1)) pf"

definition bf20a6_set_framesize :: "fw_env \<Rightarrow> framesize_t \<Rightarrow> ('z cam_vars_scheme, int) state" where
  "bf20a6_set_framesize env fs =
     (if FRAMESIZE_VGA < fs then return (-1)
      else do {
        upd_status (\<lambda>st. st\<lparr>st_framesize := fs\<rparr>);
        ret \<leftarrow> write_ored env (bf_window_msb fs @ [(0x1B, 0)] @
          (if res_width fs \<le> 320 \<and> res_height fs \<le> 240 then bf_window fs 4
           else if res_width fs \<le> 640 \<and> res_height fs \<le> 480 then bf_window fs 8
           else []));
        delay_ms env 30;
        return ret
      })"

definition bf20a6_set_hmirror :: "fw_env \<Rightarrow> int \<Rightarrow> ('z cam_vars_scheme, int) state" where
  "bf20a6_set_hmirror env enable = do {
     upd_status (\<lambda>st. st\<lparr>st_hmirror := u8 enable\<rparr>);
     set_bits8 env 0x4A 3 1 (u8 enable)
   }"

definition bf20a6_set_vflip :: "fw_env \<Rightarrow> int \<Rightarrow> ('z cam_vars_scheme, int) state" where
  "bf20a6_set_vflip env enable = do {
     upd_status (\<lambda>st. st\<lparr>st_vflip := u8 enable\<rparr>);
     set_bits8 env 0x4A 2 1 (u8 enable)
   }"

definition bf20a6_set_colorbar :: "fw_env \<Rightarrow> int \<Rightarrow> ('z cam_vars_scheme, int) state" where
  "bf20a6_set_colorbar env v = then_store (write_byte env 0xB6 (u8 v)) (\<lambda>st. st\<lparr>st_colorbar := u8 v\<rparr>)"

definition bf20a6_set_sharpness :: "fw_env \<Rightarrow> int \<Rightarrow> ('z cam_vars_scheme, int) state" where
  "bf20a6_set_sharpness env level = then_store (write_byte env 0x70 (u8 level)) (\<lambda>st. st\<lparr>st_sharpness := u8 level\<rparr>)"

definition bf20a6_init_status :: "fw_env \<Rightarrow> ('z cam_vars_scheme, int) state" where
  "bf20a6_init_status env = do {
     upd_status (\<lambda>st. (cleared st)\<lparr>st_hmirror := 0, st_vflip := 0\<rparr>);
     load (read_reg_byte env 0x6F) (\<lambda>b st. st\<lparr>st_brightness := b\<rparr>);
     load (read_reg_byte env 0xD6) (\<lambda>b st. st\<lparr>st_contrast := b\<rparr>);
     load (read_reg_byte env 0x70) (\<lambda>b st. st\<lparr>st_sharpness := b\<rparr>);
     load (read_reg_byte env 0x13) (\<lambda>b st. st\<lparr>st_gainceiling := b\<rparr>);
     return 0
   }"

fun bf20a6_ops :: "fw_env \<Rightarrow> sensor_op \<Rightarrow> ('z cam_vars_scheme, int) state option" where
  "bf20a6_ops env Init_status = Some (bf20a6_init_status env)"
| "bf20a6_ops env Reset_sensor = Some (bf20a6_reset env)"
| "bf20a6_ops env (Set_pixformat pf) = Some (bf20a6_set_pixformat env pf)"
| "bf20a6_ops env (Set_framesize fs) = Some (bf20a6_set_framesize env fs)"
| "bf20a6_ops env (Set_sharpness v) = Some (bf20a6_set_sharpness env v)"
| "bf20a6_ops env (Set_colorbar v) = Some (bf20a6_set_colorbar env v)"
| "bf20a6_ops env (Set_hmirror v) = Some (bf20a6_set_hmirror env v)"
| "bf20a6_ops env (Set_vflip v) = Some (bf20a6_set_vflip env v)"
| "bf20a6_ops env _ = Some not_supported"

section \<open>BF3005\<close>

definition bf3005_get_reg :: "fw_env \<Rightarrow> int \<Rightarrow> int \<Rightarrow> ('z cam_vars_scheme, int) state" where
  "bf3005_get_reg env reg msk = do {
     ret \<leftarrow> read_reg_byte env (u8 reg);
     return (if 0 < uint ret then uint ret AND msk else uint ret)
   }"

definition bf3005_set_reg :: "fw_env \<Rightarrow> int \<Rightarrow> int \<Rightarrow> int \<Rightarrow> ('z cam_vars_scheme, int) state" where
  "bf3005_set_reg env reg msk v = do {
     ret \<leftarrow> read_reg_byte env (u8 reg);
     write_byte env (u8 reg) (u8 ((uint ret AND NOT msk) OR (v AND msk)))
   }"

definition bf3005_reset :: "fw_env \<Rightarrow> ('z cam_vars_scheme, int) state" where
  "bf3005_reset env = do {
     write_while_nonzero env bf3005_default_regs;
     delay_ms env 50;
     return 0
   }"

definition bf3005_set_pixformat :: "fw_env \<Rightarrow> pixformat_t \<Rightarrow> ('z cam_vars_scheme, int) state" where
  "bf3005_set_pixformat env pf = do {
     upd_sensor (\<lambda>x. x\<lparr>pixformat := pf\<rparr>);
     case (if pf = PIXFORMAT_RGB565 then Some (set_bits8 env 0x12 2 1 1)
           else if pf = PIXFORMAT_RAW then Some (set_bits8 env 0x12 0 3 4)
           else if pf = PIXFORMAT_YUV422 \<or> pf = PIXFORMAT_GRAYSCALE then Some (set_bits8 env 0x12 2 1 0)
           else None) of
       None \<Rightarrow> return (-1)
     | Some m \<Rightarrow> do { _ \<leftarrow> m; delay_ms env 30; return 0 }
   }"

definition bf3005_set_framesize :: "fw_env \<Rightarrow> framesize_t \<Rightarrow> ('z cam_vars_scheme, int) state" where
  "bf3005_set_framesize env fs =
     (if FRAMESIZE_VGA < fs then return (-1)
      else do {
        upd_status (\<lambda>st. st\<lparr>st_framesize := fs\<rparr>);
        a \<leftarrow> write_ored env (bf_window_msb fs @ [(0x03, 0)]);
        b \<leftarrow> (if res_width fs \<le> 320 \<and> res_height fs \<le> 240 then do {
                _ \<leftarrow> set_bits8 env 0x12 4 1 1;
                write_ored env (bf_window fs 4 @ [(0x03, 0)])
              } else if res_width fs \<le> 640 \<and> res_height fs \<le> 480 then do {
                _ \<leftarrow> set_bits8 env 0x12 4 1 0;
                write_ored env (bf_window fs 8 @ [(0x03, 0)])
              } else return 0);
        delay_ms env 30;
        return (a OR b)
      })"

definition bf3005_set_colorbar :: "fw_env \<Rightarrow> int \<Rightarrow> ('z cam_vars_scheme, int) state" where
  "bf3005_set_colorbar env v = do {
     upd_status (\<lambda>st. st\<lparr>st_colorbar := u8 v\<rparr>);
     write_byte env 0xB9 (u8 v)
   }"

definition bf3005_set_whitebal :: "fw_env \<Rightarrow> int \<Rightarrow> ('z cam_vars_scheme, int) state" where
  "bf3005_set_whitebal env enable =
     store_switch (set_bits8 env 0x13 1 1 (u8 enable)) (\<lambda>b st. st\<lparr>st_awb := b\<rparr>) st_awb enable"

definition bf3005_set_gain_ctrl :: "fw_env \<Rightarrow> int \<Rightarrow> ('z cam_vars_scheme, int) state" where
  "bf3005_set_gain_ctrl env enable =
     store_switch (set_bits8 env 0x13 2 1 (u8 enable)) (\<lambda>b st. st\<lparr>st_agc := b\<rparr>) st_agc enable"

definition bf3005_set_exposure_ctrl :: "fw_env \<Rightarrow> int \<Rightarrow> ('z cam_vars_scheme, int) state" where
  "bf3005_set_exposure_ctrl env enable =
     store_switch (set_bits8 env 0x13 0 1 (u8 enable)) (\<lambda>b st. st\<lparr>st_aec := b\<rparr>) st_aec enable"

definition bf3005_set_hmirror :: "fw_env \<Rightarrow> int \<Rightarrow> ('z cam_vars_scheme, int) state" where
  "bf3005_set_hmirror env enable =
     store_switch (set_bits8 env 0x1E 5 1 (u8 enable)) (\<lambda>b st. st\<lparr>st_hmirror := b\<rparr>) st_hmirror enable"

definition bf3005_set_vflip :: "fw_env \<Rightarrow> int \<Rightarrow> ('z cam_vars_scheme, int) state" where
  "bf3005_set_vflip env enable =
     store_switch (set_bits8 env 0x1E 4 1 (u8 enable)) (\<lambda>b st. st\<lparr>st_vflip := b\<rparr>) st_vflip enable"

definition bf3005_set_raw_gma_dsp :: "fw_env \<Rightarrow> int \<Rightarrow> ('z cam_vars_scheme, int) state" where
  "bf3005_set_raw_gma_dsp env enable =
     then_store (set_bits8 env 0xF1 1 1 (of_flag (enable = 0))) (\<lambda>st. st\<lparr>st_raw_gma := of_flag (enable = 0)\<rparr>)"

definition bf3005_set_lenc_dsp :: "fw_env \<Rightarrow> int \<Rightarrow> ('z cam_vars_scheme, int) state" where
  "bf3005_set_lenc_dsp env enable =
     then_store (set_bits8 env 0xF1 0 1 (of_flag (enable = 0))) (\<lambda>st. st\<lparr>st_lenc := of_flag (enable = 0)\<rparr>)"

definition bf3005_set_agc_gain :: "fw_env \<Rightarrow> int \<Rightarrow> ('z cam_vars_scheme, int) state" where
  "bf3005_set_agc_gain env opt =
     then_store (set_bits8 env 0x13 4 1 (of_flag (opt \<noteq> 0))) (\<lambda>st. st\<lparr>st_agc_gain := of_flag (opt \<noteq> 0)\<rparr>)"

definition bf3005_set_awb_gain_dsp :: "fw_env \<Rightarrow> int \<Rightarrow> ('z cam_vars_scheme, int) state" where
  "bf3005_set_awb_gain_dsp env v = then_store (write_byte env 0xA6 (u8 v)) (\<lambda>st. st\<lparr>st_awb_gain := u8 v\<rparr>)"

definition bf3005_set_brightness :: "fw_env \<Rightarrow> int \<Rightarrow> ('z cam_vars_scheme, int) state" where
  "bf3005_set_brightness env level = then_store (write_byte env 0x55 (u8 level)) (\<lambda>st. st\<lparr>st_brightness := u8 level\<rparr>)"

definition bf3005_set_contrast :: "fw_env \<Rightarrow> int \<Rightarrow> ('z cam_vars_scheme, int) state" where
  "bf3005_set_contrast env level = then_store (write_byte env 0x56 (u8 level)) (\<lambda>st. st\<lparr>st_contrast := u8 level\<rparr>)"

definition bf3005_set_sharpness :: "fw_env \<Rightarrow> int \<Rightarrow> ('z cam_vars_scheme, int) state" where
  "bf3005_set_sharpness env level = then_store (write_byte env 0x70 (u8 level)) (\<lambda>st. st\<lparr>st_sharpness := u8 level\<rparr>)"

definition bf3005_init_status :: "fw_env \<Rightarrow> ('z cam_vars_scheme, int) state" where
  "bf3005_init_status env = do {
     load (read_reg_byte env 0x55) (\<lambda>b st. st\<lparr>st_brightness := b\<rparr>);
     load (read_reg_byte env 0x56) (\<lambda>b st. st\<lparr>st_contrast := b\<rparr>);
     upd_status (\<lambda>st. st\<lparr>st_saturation := 0, st_ae_level := 0\<rparr>);
     load (read_reg_byte env 0x87) (\<lambda>b st. st\<lparr>st_gainceiling := b\<rparr>);
     load (get_bits8 env 0x13 1 1) (\<lambda>b st. st\<lparr>st_awb := b\<rparr>);
     load (read_reg_byte env 0xA6) (\<lambda>b st. st\<lparr>st_awb_gain := b\<rparr>);
     load (get_bits8 env 0x13 0 1) (\<lambda>b st. st\<lparr>st_aec := b\<rparr>);
     load (get_bits8 env 0x13 2 1) (\<lambda>b st. st\<lparr>st_agc := b\<rparr>);
     load (get_bits8 env 0xF1 1 1) (\<lambda>b st. st\<lparr>st_raw_gma := b\<rparr>);
     load (get_bits8 env 0xF1 0 1) (\<lambda>b st. st\<lparr>st_lenc := b\<rparr>);
     load (get_bits8 env 0x1E 5 1) (\<lambda>b st. st\<lparr>st_hmirror := b\<rparr>);
     load (get_bits8 env 0x1E 4 1) (\<lambda>b st. st\<lparr>st_vflip := b\<rparr>);
     load (read_reg_byte env 0xB9) (\<lambda>b st. st\<lparr>st_colorbar := b\<rparr>);
     load (read_reg_byte env 0x70) (\<lambda>b st. st\<lparr>st_sharpness := b\<rparr>);
     return 0
   }"

fun bf3005_ops :: "fw_env \<Rightarrow> sensor_op \<Rightarrow> ('z cam_vars_scheme, int) state option" where
  "bf3005_ops env Init_status = Some (bf3005_init_status env)"
| "bf3005_ops env Reset_sensor = Some (bf3005_reset env)"
| "bf3005_ops env (Set_pixformat pf) = Some (bf3005_set_pixformat env pf)"
| "bf3005_ops env (Set_framesize fs) = Some (bf3005_set_framesize env fs)"
| "bf3005_ops env (Set_brightness v) = Some (bf3005_set_brightness env v)"
| "bf3005_ops env (Set_contrast v) = Some (bf3005_set_contrast env v)"
| "bf3005_ops env (Set_colorbar v) = Some (bf3005_set_colorbar env v)"
| "bf3005_ops env (Set_gain_ctrl v) = Some (bf3005_set_gain_ctrl env v)"
| "bf3005_ops env (Set_exposure_ctrl v) = Some (bf3005_set_exposure_ctrl env v)"
| "bf3005_ops env (Set_hmirror v) = Some (bf3005_set_hmirror env v)"
| "bf3005_ops env (Set_vflip v) = Some (bf3005_set_vflip env v)"
| "bf3005_ops env (Set_whitebal v) = Some (bf3005_set_whitebal env v)"
| "bf3005_ops env (Set_awb_gain v) = Some (bf3005_set_awb_gain_dsp env v)"
| "bf3005_ops env (Set_agc_gain v) = Some (bf3005_set_agc_gain env v)"
| "bf3005_ops env (Set_raw_gma v) = Some (bf3005_set_raw_gma_dsp env v)"
| "bf3005_ops env (Set_lenc v) = Some (bf3005_set_lenc_dsp env v)"
| "bf3005_ops env (Set_sharpness v) = Some (bf3005_set_sharpness env v)"
| "bf3005_ops env (Set_saturation v) = Some not_supported"
| "bf3005_ops env (Set_denoise v) = Some not_supported"
| "bf3005_ops env (Set_quality v) = Some not_supported"
| "bf3005_ops env (Set_special_effect v) = Some not_supported"
| "bf3005_ops env (Set_wb_mode v) = Some not_supported"
| "bf3005_ops env (Set_ae_level v) = Some not_supported"
| "bf3005_ops env (Set_gainceiling v) = Some not_supported"
| "bf3005_ops env _ = None"

section \<open>SC030IOT\<close>

text \<open>The high byte of a register address is written to the page register first; the mask of \<open>set_reg\<close> is ignored.\<close>

definition sc030_get_reg :: "fw_env \<Rightarrow> int \<Rightarrow> int \<Rightarrow> ('z cam_vars_scheme, int) state" where
  "sc030_get_reg env reg msk = do {
     p \<leftarrow> write_byte env 0xF0 (u8 (drop_bit 8 reg));
     if p \<noteq> 0 then return (-1)
     else do {
       ret \<leftarrow> read_reg_byte env (u8 reg);
       return (if 0 < uint ret then uint ret AND msk else uint ret)
     }
   }"

definition sc030_set_reg :: "fw_env \<Rightarrow> int \<Rightarrow> int \<Rightarrow> ('z cam_vars_scheme, int) state" where
  "sc030_set_reg env reg v = do {
     p \<leftarrow> write_byte env 0xF0 (u8 (drop_bit 8 reg));
     if p \<noteq> 0 then return (-1) else write_byte env (u8 reg) (u8 v)
   }"

definition sc030_set_regs :: "fw_env \<Rightarrow> (byte \<times> byte) list \<Rightarrow> ('z cam_vars_scheme, int) state" where
  "sc030_set_regs env regs = until_error (map (\<lambda>(r, v). write_byte env r v) regs)"

definition sc030_set_reg_bits :: "fw_env \<Rightarrow> int \<Rightarrow> nat \<Rightarrow> nat \<Rightarrow> byte \<Rightarrow> ('z cam_vars_scheme, int) state" where
  "sc030_set_reg_bits env reg offset len v = do {
     ret \<leftarrow> sc030_get_reg env reg 0xFF;
     if ret < 0 then return ret
     else sc030_set_reg env (reg AND 0xFFFF)
       (uint ((u8 ret AND NOT (field_mask offset len)) OR (push_bit offset v AND field_mask offset len)))
   }"

definition sc030_set_hmirror :: "fw_env \<Rightarrow> int \<Rightarrow> ('z cam_vars_scheme, int) state" where
  "sc030_set_hmirror env enable = sc030_set_reg_bits env 0x3221 1 2 (if enable \<noteq> 0 then 3 else 0)"

definition sc030_set_vflip :: "fw_env \<Rightarrow> int \<Rightarrow> ('z cam_vars_scheme, int) state" where
  "sc030_set_vflip env enable = sc030_set_reg_bits env 0x3221 5 2 (if enable \<noteq> 0 then 3 else 0)"

definition sc030_set_colorbar :: "fw_env \<Rightarrow> int \<Rightarrow> ('z cam_vars_scheme, int) state" where
  "sc030_set_colorbar env enable = sc030_set_reg_bits env 0x0100 7 1 (u8 enable)"

definition sc030_set_sharpness :: "fw_env \<Rightarrow> int \<Rightarrow> ('z cam_vars_scheme, int) state" where
  "sc030_set_sharpness env level = until_error
     [sc030_set_reg_bits env 0x00E0 1 1 1,
      sc030_set_reg env 0x00D0 (level AND 0xFF),
      sc030_set_reg env 0x00D2 (drop_bit 8 level AND 0xFF)]"

definition sc030_set_agc_gain :: "fw_env \<Rightarrow> int \<Rightarrow> ('z cam_vars_scheme, int) state" where
  "sc030_set_agc_gain env gain = until_error
     [sc030_set_reg_bits env 0x0070 1 1 1,
      sc030_set_reg env 0x0068 (gain AND 0xFF),
      sc030_set_reg env 0x0069 (drop_bit 8 gain AND 0xFF),
      sc030_set_reg env 0x006A (drop_bit 16 gain AND 0xFF),
      sc030_set_reg env 0x006B (drop_bit 24 gain AND 0xFF)]"

definition sc030_set_aec_value :: "fw_env \<Rightarrow> int \<Rightarrow> ('z cam_vars_scheme, int) state" where
  "sc030_set_aec_value env v = until_error
     [sc030_set_reg_bits env 0x0070 0 1 1,
      sc030_set_reg env 0x0072 (v AND 0xFF)]"

definition sc030_set_awb_gain :: "fw_env \<Rightarrow> int \<Rightarrow> ('z cam_vars_scheme, int) state" where
  "sc030_set_awb_gain env v = until_error
     [sc030_set_reg_bits env 0x00B0 0 1 1,
      sc030_set_reg env 0x00C8 (v AND 0xFF),
      sc030_set_reg env 0x00C9 (drop_bit 8 v AND 0xFF)]"

definition sc030_set_saturation :: "fw_env \<Rightarrow> int \<Rightarrow> ('z cam_vars_scheme, int) state" where
  "sc030_set_saturation env level = until_error
     [sc030_set_reg_bits env 0x00F5 5 1 0,
      sc030_set_reg env 0x0149 (level AND 0xFF),
      sc030_set_reg env 0x014A (drop_bit 8 level AND 0xFF)]"

definition sc030_set_contrast :: "fw_env \<Rightarrow> int \<Rightarrow> ('z cam_vars_scheme, int) state" where
  "sc030_set_contrast env level = until_error
     [sc030_set_reg_bits env 0x00F5 6 1 0,
      sc030_set_reg env 0x014B level]"

definition sc030_reset :: "fw_env \<Rightarrow> ('z cam_vars_scheme, int) state" where
  "sc030_reset env = do {
     ret \<leftarrow> sc030_set_regs env sc030iot_default_init_regs;
     delay_ms env 50;
     return ret
   }"

definition sc030_set_window :: "fw_env \<Rightarrow> int \<Rightarrow> int \<Rightarrow> int \<Rightarrow> int \<Rightarrow> ('z cam_vars_scheme, int) state" where
  "sc030_set_window env ox oy w h = or_return (until_error
     [sc030_set_reg env 0x0170 (ox AND 0xFF),
      sc030_set_reg env 0x0171 ((ox + w) AND 0xFF),
      sc030_set_reg env 0x0172 ((drop_bit 8 ox AND 0x03) OR (drop_bit 4 (ox + w) AND 0x30)),
      sc030_set_reg env 0x0173 (oy AND 0xFF),
      sc030_set_reg env 0x0174 ((oy + h) AND 0xFF),
      sc030_set_reg env 0x0175 ((drop_bit 8 oy AND 0x03) OR (drop_bit 4 (oy + h) AND 0x30))])
     (do { delay_ms env 10; return 0 })"

definition sc030_set_framesize :: "fw_env \<Rightarrow> framesize_t \<Rightarrow> ('z cam_vars_scheme, int) state" where
  "sc030_set_framesize env fs =
     (let w = res_width fs; h = res_height fs
      in if 640 < w \<or> 480 < h then return (-1)
         else do {
           r \<leftarrow> sc030_set_window env (int ((640 - w) div 2)) (int ((480 - h) div 2)) (int w) (int h);
           if r \<noteq> 0 then return (-1)
           else do {
             upd_status (\<lambda>st. st\<lparr>st_framesize := fs\<rparr>);
             return 0
           }
         })"

text \<open>RGB565, raw and greyscale are reported as unsupported in the log, with result 0.\<close>

definition sc030_set_pixformat :: "fw_env \<Rightarrow> pixformat_t \<Rightarrow> ('z cam_vars_scheme, int) state" where
  "sc030_set_pixformat env pf = do {
     upd_sensor (\<lambda>x. x\<lparr>pixformat := pf\<rparr>);
     return (if pf \<in> {PIXFORMAT_RGB565, PIXFORMAT_RAW, PIXFORMAT_GRAYSCALE, PIXFORMAT_YUV422} then 0 else -1)
   }"

fun sc030iot_ops :: "fw_env \<Rightarrow> sensor_op \<Rightarrow> ('z cam_vars_scheme, int) state option" where
  "sc030iot_ops env Init_status = Some (return 0)"
| "sc030iot_ops env Reset_sensor = Some (sc030_reset env)"
| "sc030iot_ops env (Set_pixformat pf) = Some (sc030_set_pixformat env pf)"
| "sc030iot_ops env (Set_framesize fs) = Some (sc030_set_framesize env fs)"
| "sc030iot_ops env (Set_saturation v) = Some (sc030_set_saturation env v)"
| "sc030iot_ops env (Set_colorbar v) = Some (sc030_set_colorbar env v)"
| "sc030iot_ops env (Set_hmirror v) = Some (sc030_set_hmirror env v)"
| "sc030iot_ops env (Set_vflip v) = Some (sc030_set_vflip env v)"
| "sc030iot_ops env (Set_sharpness v) = Some (sc030_set_sharpness env v)"
| "sc030iot_ops env (Set_agc_gain v) = Some (sc030_set_agc_gain env v)"
| "sc030iot_ops env (Set_aec_value v) = Some (sc030_set_aec_value env v)"
| "sc030iot_ops env (Set_awb_gain v) = Some (sc030_set_awb_gain env v)"
| "sc030iot_ops env (Set_contrast v) = Some (sc030_set_contrast env v)"
| "sc030iot_ops env (Set_denoise v) = Some not_supported"
| "sc030iot_ops env (Set_quality v) = Some not_supported"
| "sc030iot_ops env (Set_special_effect v) = Some not_supported"
| "sc030iot_ops env (Set_wb_mode v) = Some not_supported"
| "sc030iot_ops env (Set_ae_level v) = Some not_supported"
| "sc030iot_ops env _ = None"

section \<open>Mega CCM\<close>

definition mega_reset :: "fw_env \<Rightarrow> ('z cam_vars_scheme, int) state" where
  "mega_reset env = do {
     ret \<leftarrow> all_sum [write16 env MEGA_CAMERA_RST_REG 0x00, write16 env MEGA_CAMERA_RST_REG 0x01];
     delay_ms env 1000;
     return ret
   }"

definition mega_set_pixformat :: "fw_env \<Rightarrow> pixformat_t \<Rightarrow> ('z cam_vars_scheme, int) state" where
  "mega_set_pixformat env pf = then_pixformat
     (if pf = PIXFORMAT_JPEG then write16 env MEGA_PIXEL_FMT_REG 0x01
      else if pf = PIXFORMAT_RGB565 then write16 env MEGA_PIXEL_FMT_REG 0x02
      else if pf = PIXFORMAT_YUV422 then write16 env MEGA_PIXEL_FMT_REG 0x03
      else return (-1)) pf"

text \<open>The code of a supported frame size, and whether the clock dividers are set with it.\<close>

fun mega_resolution :: "framesize_t \<Rightarrow> (byte \<times> bool) option" where
  "mega_resolution FRAMESIZE_QVGA = Some (0x01, True)"
| "mega_resolution FRAMESIZE_VGA = Some (0x02, True)"
| "mega_resolution FRAMESIZE_HD = Some (0x03, True)"
| "mega_resolution FRAMESIZE_UXGA = Some (0x04, True)"
| "mega_resolution FRAMESIZE_FHD = Some (0x05, True)"
| "mega_resolution FRAMESIZE_5MP = Some (0x06, False)"
| "mega_resolution FRAMESIZE_96X96 = Some (0x07, False)"
| "mega_resolution FRAMESIZE_128X128 = Some (0x08, False)"
| "mega_resolution FRAMESIZE_320X320 = Some (0x09, False)"
| "mega_resolution _ = None"

definition mega_set_framesize :: "fw_env \<Rightarrow> framesize_t \<Rightarrow> ('z cam_vars_scheme, int) state" where
  "mega_set_framesize env fs = do {
     let fs = (if FRAMESIZE_5MP < fs then FRAMESIZE_5MP else fs);
     upd_status (\<lambda>st. st\<lparr>st_framesize := fs\<rparr>);
     (case mega_resolution fs of
        None \<Rightarrow> return (-1)
      | Some (code, clocks) \<Rightarrow> all_sum ([write16 env MEGA_RESOLUTION_REG code] @
          (if clocks then [write16 env MEGA_SYSTEM_CLK_DIV_REG 0x02, write16 env MEGA_SYSTEM_PLL_DIV_REG 0x01] else [])))
   }"

definition mega_set_hmirror :: "fw_env \<Rightarrow> int \<Rightarrow> ('z cam_vars_scheme, int) state" where
  "mega_set_hmirror env enable = do {
     upd_status (\<lambda>st. st\<lparr>st_hmirror := u8 enable\<rparr>);
     write16 env MEGA_IMAGE_MIRROR_REG (u8 enable)
   }"

definition mega_set_vflip :: "fw_env \<Rightarrow> int \<Rightarrow> ('z cam_vars_scheme, int) state" where
  "mega_set_vflip env enable = do {
     upd_status (\<lambda>st. st\<lparr>st_vflip := u8 enable\<rparr>);
     write16 env MEGA_IMAGE_FLIP_REG (u8 enable)
   }"

definition mega_set_quality :: "fw_env \<Rightarrow> int \<Rightarrow> ('z cam_vars_scheme, int) state" where
  "mega_set_quality env qs = then_store (write16 env MEGA_IMAGE_QUALITY_REG (u8 qs)) (\<lambda>st. st\<lparr>st_quality := u8 qs\<rparr>)"

definition mega_set_brightness :: "fw_env \<Rightarrow> int \<Rightarrow> ('z cam_vars_scheme, int) state" where
  "mega_set_brightness env level =
     then_store (write16 env MEGA_BRIGHTNESS_REG (u8 (clamp 8 level))) (\<lambda>st. st\<lparr>st_brightness := u8 (clamp 8 level)\<rparr>)"

definition mega_set_contrast :: "fw_env \<Rightarrow> int \<Rightarrow> ('z cam_vars_scheme, int) state" where
  "mega_set_contrast env level =
     then_store (write16 env MEGA_CONTRAST_REG (u8 (clamp 6 level))) (\<lambda>st. st\<lparr>st_contrast := u8 (clamp 6 level)\<rparr>)"

definition mega_set_saturation :: "fw_env \<Rightarrow> int \<Rightarrow> ('z cam_vars_scheme, int) state" where
  "mega_set_saturation env level =
     then_store (write16 env MEGA_SATURATION_REG (u8 (clamp 6 level))) (\<lambda>st. st\<lparr>st_saturation := u8 (clamp 6 level)\<rparr>)"

definition mega_set_agc_mode :: "fw_env \<Rightarrow> int \<Rightarrow> ('z cam_vars_scheme, int) state" where
  "mega_set_agc_mode env enable =
     then_store (write16 env MEGA_AGC_MODE_REG (u8 enable)) (\<lambda>st. st\<lparr>st_aec := u8 enable\<rparr>)"

definition mega_set_wb_mode :: "fw_env \<Rightarrow> int \<Rightarrow> ('z cam_vars_scheme, int) state" where
  "mega_set_wb_mode env md =
     then_store (write16 env MEGA_AWB_MODE_REG (u8 (clamp 5 md))) (\<lambda>st. st\<lparr>st_wb_mode := u8 (clamp 5 md)\<rparr>)"

definition mega_set_special_effect :: "fw_env \<Rightarrow> int \<Rightarrow> ('z cam_vars_scheme, int) state" where
  "mega_set_special_effect env effect =
     then_store (write16 env MEGA_SPECIAL_REG (u8 (clamp 6 effect))) (\<lambda>st. st\<lparr>st_special_effect := u8 (clamp 6 effect)\<rparr>)"

definition mega_analog_gain :: "fw_env \<Rightarrow> int \<Rightarrow> ('z cam_vars_scheme, int) state" where
  "mega_analog_gain env v = write16 env MEGA_MANUAL_AGC_REG (u8 v)"

text \<open>Both registers get the high byte, as in the source.\<close>

definition mega_exposure_line :: "fw_env \<Rightarrow> int \<Rightarrow> ('z cam_vars_scheme, int) state" where
  "mega_exposure_line env v =
     all_sum [write16 env MEGA_MANUAL_EXP_H_REG (u8 (drop_bit 8 v)), write16 env MEGA_MANUAL_EXP_L_REG (u8 (drop_bit 8 v))]"

definition mega_init_status :: "('z cam_vars_scheme, int) state" where
  "mega_init_status = do {
     upd_status (\<lambda>st. (cleared st)\<lparr>st_hmirror := 0, st_vflip := 0\<rparr>);
     return 0
   }"

fun mega_ccm_ops :: "fw_env \<Rightarrow> sensor_op \<Rightarrow> ('z cam_vars_scheme, int) state option" where
  "mega_ccm_ops env Init_status = Some mega_init_status"
| "mega_ccm_ops env Reset_sensor = Some (mega_reset env)"
| "mega_ccm_ops env (Set_pixformat pf) = Some (mega_set_pixformat env pf)"
| "mega_ccm_ops env (Set_framesize fs) = Some (mega_set_framesize env fs)"
| "mega_ccm_ops env (Set_contrast v) = Some (mega_set_contrast env v)"
| "mega_ccm_ops env (Set_brightness v) = Some (mega_set_brightness env v)"
| "mega_ccm_ops env (Set_saturation v) = Some (mega_set_saturation env v)"
| "mega_ccm_ops env (Set_quality v) = Some (mega_set_quality env v)"
| "mega_ccm_ops env (Set_hmirror v) = Some (mega_set_hmirror env v)"
| "mega_ccm_ops env (Set_vflip v) = Some (mega_set_vflip env v)"
| "mega_ccm_ops env (Set_aec2 v) = Some (mega_set_agc_mode env v)"
| "mega_ccm_ops env (Set_agc_gain v) = Some (mega_analog_gain env v)"
| "mega_ccm_ops env (Set_aec_value v) = Some (mega_exposure_line env v)"
| "mega_ccm_ops env (Set_special_effect v) = Some (mega_set_special_effect env v)"
| "mega_ccm_ops env (Set_wb_mode v) = Some (mega_set_wb_mode env v)"
| "mega_ccm_ops env _ = Some not_supported"

end
