(* ===== verification/Ov7Tables.thy ===== *)
theory Ov7Tables
  imports Prelude
begin

text \<open>
  The registers and register tables of the sensors OV7670 and OV7725.
  A settings table is the list of its register and value pairs, in order; the register macros of the header are
  expanded.  Tables that the source ends by a marker keep the marker as their last pair.
\<close>

section \<open>OV7670\<close>

definition OV7670_VREF :: byte where "OV7670_VREF = 0x03"
definition OV7670_REG_PID :: byte where "OV7670_REG_PID = 0x0A"
definition OV7670_REG_VER :: byte where "OV7670_REG_VER = 0x0B"
definition OV7670_CLKRC :: byte where "OV7670_CLKRC = 0x11"
definition OV7670_COM7 :: byte where "OV7670_COM7 = 0x12"
definition OV7670_COM7_RESET :: byte where "OV7670_COM7_RESET = 0x80"
definition OV7670_COM8 :: byte where "OV7670_COM8 = 0x13"
definition OV7670_HSTART :: byte where "OV7670_HSTART = 0x17"
definition OV7670_HSTOP :: byte where "OV7670_HSTOP = 0x18"
definition OV7670_VSTART :: byte where "OV7670_VSTART = 0x19"
definition OV7670_VSTOP :: byte where "OV7670_VSTOP = 0x1A"
definition OV7670_REG_MIDH :: byte where "OV7670_REG_MIDH = 0x1C"
definition OV7670_REG_MIDL :: byte where "OV7670_REG_MIDL = 0x1D"
definition OV7670_MVFP :: byte where "OV7670_MVFP = 0x1E"
definition OV7670_HREF :: byte where "OV7670_HREF = 0x32"
definition OV7670_SCALING_XSC :: byte where "OV7670_SCALING_XSC = 0x70"
definition OV7670_SCALING_YSC :: byte where "OV7670_SCALING_YSC = 0x71"

definition ov7670_default_regs :: "(byte \<times> byte) list" where
  "ov7670_default_regs =
     [(0x3A, 0x04), (0x11, 0x00), (0x6B, 0x4A), (0x15, 0x02), (0x0D, 0x40), (0xB0, 0x84), (0x3B, 0x12),
      (0x30, 0x00), (0x31, 0x00), (0x1E, 0x02), (0x43, 0x0A), (0x44, 0xF0), (0x45, 0x34), (0x46, 0x58),
      (0x47, 0x28), (0x48, 0x3A), (0x6C, 0x0A), (0x6D, 0x55), (0x6E, 0x11), (0x6F, 0x9E), (0x13, 0xC7),
      (0xFF, 0xFF)]"

definition ov7670_fmt_yuv422 :: "(byte \<times> byte) list" where
  "ov7670_fmt_yuv422 =
     [(0x12, 0x00), (0x8C, 0x00), (0x04, 0x00), (0x40, 0xC0), (0x1E, 0x02), (0x14, 0x6A), (0x4F, 0x80),
      (0x50, 0x80), (0x51, 0x00), (0x52, 0x22), (0x53, 0x5E), (0x54, 0x80), (0x3D, 0x40), (0xFF, 0xFF)]"

definition ov7670_fmt_rgb565 :: "(byte \<times> byte) list" where
  "ov7670_fmt_rgb565 =
     [(0x12, 0x04), (0x8C, 0x00), (0x04, 0x00), (0x40, 0xD0), (0x1E, 0x02), (0x14, 0x6A), (0x4F, 0xB3),
      (0x50, 0xB3), (0x51, 0x00), (0x52, 0x3D), (0x53, 0xA7), (0x54, 0xE4), (0x3D, 0x40), (0xFF, 0xFF)]"

definition ov7670_vga :: "(byte \<times> byte) list" where
  "ov7670_vga =
     [(0x0C, 0x00), (0x3E, 0x00), (0x70, 0x3A), (0x71, 0x35), (0x72, 0x11), (0x73, 0xF0), (0xA2, 0x02),
      (0xFF, 0xFF)]"

definition ov7670_qvga :: "(byte \<times> byte) list" where
  "ov7670_qvga =
     [(0x0C, 0x04), (0x3E, 0x19), (0x70, 0x3A), (0x71, 0x35), (0x72, 0x11), (0x73, 0xF1), (0xA2, 0x02),
      (0xFF, 0xFF)]"

definition ov7670_qqvga :: "(byte \<times> byte) list" where
  "ov7670_qqvga =
     [(0x0C, 0x04), (0x3E, 0x1A), (0x70, 0x3A), (0x71, 0x35), (0x72, 0x22), (0x73, 0xF2), (0xA2, 0x02),
      (0xFF, 0xFF)]"

section \<open>OV7725\<close>

definition OV7725_AECH :: byte where "OV7725_AECH = 0x08"
definition OV7725_REG_PID :: byte where "OV7725_REG_PID = 0x0A"
definition OV7725_REG_VER :: byte where "OV7725_REG_VER = 0x0B"
definition OV7725_COM3 :: byte where "OV7725_COM3 = 0x0C"
definition OV7725_AEC :: byte where "OV7725_AEC = 0x10"
definition OV7725_CLKRC :: byte where "OV7725_CLKRC = 0x11"
definition OV7725_COM7 :: byte where "OV7725_COM7 = 0x12"
definition OV7725_COM7_RESET :: byte where "OV7725_COM7_RESET = 0x80"
definition OV7725_COM7_RES_QVGA :: byte where "OV7725_COM7_RES_QVGA = 0x40"
definition OV7725_COM7_FMT_RGB565 :: byte where "OV7725_COM7_FMT_RGB565 = 0x04"
definition OV7725_COM7_FMT_YUV :: byte where "OV7725_COM7_FMT_YUV = 0x00"
definition OV7725_COM7_FMT_RGB :: byte where "OV7725_COM7_FMT_RGB = 0x02"
definition OV7725_COM8 :: byte where "OV7725_COM8 = 0x13"
definition OV7725_COM9 :: byte where "OV7725_COM9 = 0x14"
definition OV7725_HSTART :: byte where "OV7725_HSTART = 0x17"
definition OV7725_HSIZE :: byte where "OV7725_HSIZE = 0x18"
definition OV7725_VSTART :: byte where "OV7725_VSTART = 0x19"
definition OV7725_VSIZE :: byte where "OV7725_VSIZE = 0x1A"
definition OV7725_REG_MIDH :: byte where "OV7725_REG_MIDH = 0x1C"
definition OV7725_REG_MIDL :: byte where "OV7725_REG_MIDL = 0x1D"
definition OV7725_HOUTSIZE :: byte where "OV7725_HOUTSIZE = 0x29"
definition OV7725_VOUTSIZE :: byte where "OV7725_VOUTSIZE = 0x2C"
definition OV7725_HREF :: byte where "OV7725_HREF = 0x32"
definition OV7725_LC_CTR :: byte where "OV7725_LC_CTR = 0x46"
definition OV7725_DSP_CTRL3 :: byte where "OV7725_DSP_CTRL3 = 0x66"
definition OV7725_EDGE0 :: byte where "OV7725_EDGE0 = 0x8F"
definition OV7725_SCAL0 :: byte where "OV7725_SCAL0 = 0xA0"
definition OV7725_SCAL1 :: byte where "OV7725_SCAL1 = 0xA1"
definition OV7725_SCAL2 :: byte where "OV7725_SCAL2 = 0xA2"
definition OV7725_DSPAUTO :: byte where "OV7725_DSPAUTO = 0xAC"

definition ov7725_default_regs :: "(byte \<times> byte) list" where
  "ov7725_default_regs =
     [(0x0C, 0x10), (0x12, 0x40), (0x0D, 0x01), (0x11, 0x83), (0x17, 0x3F), (0x18, 0x50), (0x19, 0x03),
      (0x1A, 0x78), (0x32, 0x00), (0x29, 0x50), (0x2C, 0x78), (0x2A, 0x00), (0x3D, 0x03), (0x42, 0x7F),
      (0x4D, 0x09), (0x63, 0xE0), (0x64, 0xFF), (0x65, 0x0F), (0x66, 0x00), (0x67, 0x00), (0xAC, 0xFF),
      (0x13, 0xF0), (0x0F, 0xC5), (0x14, 0x11), (0x15, 0x02), (0x22, 0x7F), (0x23, 0x03), (0x24, 0x75),
      (0x25, 0x64), (0x26, 0xA1), (0x2B, 0x00), (0x6B, 0xAA), (0x13, 0xFF), (0x7E, 0x0C), (0x7F, 0x16),
      (0x80, 0x2A), (0x81, 0x4E), (0x82, 0x61), (0x83, 0x6F), (0x84, 0x7B), (0x85, 0x86), (0x86, 0x8E),
      (0x87, 0x97), (0x88, 0xA4), (0x89, 0xAF), (0x8A, 0xC5), (0x8B, 0xD7), (0x8C, 0xE8), (0x8D, 0x20),
      (0x90, 0x05), (0x92, 0x03), (0x93, 0x00), (0x91, 0x01), (0x94, 0xB0), (0x95, 0x9D), (0x96, 0x13),
      (0x97, 0x16), (0x98, 0x7B), (0x99, 0x91), (0x9A, 0x1E), (0x9B, 0x08), (0x9C, 0x30), (0x9E, 0x81),
      (0xA6, 0x06), (0x33, 0x00), (0x34, 0x00), (0x22, 0x7F), (0x23, 0x03), (0x4A, 0x10), (0x49, 0x10),
      (0x4B, 0x14), (0x4C, 0x17), (0x46, 0x05), (0x0E, 0xF5), (0x00, 0x00)]"

end
