(* ===== verification/Ov7.thy ===== *)
theory Ov7
  imports BfSc Ov7Tables
begin

text \<open>
  The drivers of the sensors OV7670 and OV7725 (\<open>sensors/ov7670.c\<close>, \<open>ov7725.c\<close>).  Their \<open>init\<close> functions read
  the product identifier again; that of the OV7670 leaves \<open>set_contrast\<close> \<open>NULL\<close>.  Register reads inside
  \<open>ESP_LOGD\<close> are compiled out at the configured log level.
\<close>

section \<open>The signature\<close>

text \<open>\<open>sensor->id.MIDH = ...; sensor->id.MIDL = ...; sensor->id.PID = ...; sensor->id.VER = ...;\<close>\<close>

definition read_signature :: "fw_env \<Rightarrow> byte \<Rightarrow> byte \<Rightarrow> byte \<Rightarrow> byte \<Rightarrow> ('z cam_vars_scheme, unit) state" where
  "read_signature env r_midh r_midl r_pid r_ver = do {
     h \<leftarrow> read_reg_byte env r_midh;
     upd_sensor (\<lambda>x. x\<lparr>sid := (sid x)\<lparr>MIDH := h\<rparr>\<rparr>);
     l \<leftarrow> read_reg_byte env r_midl;
     upd_sensor (\<lambda>x. x\<lparr>sid := (sid x)\<lparr>MIDL := l\<rparr>\<rparr>);
     p \<leftarrow> read_reg_byte env r_pid;
     upd_sensor (\<lambda>x. x\<lparr>sid := (sid x)\<lparr>PID := ucast p\<rparr>\<rparr>);
     v \<leftarrow> read_reg_byte env r_ver;
     upd_sensor (\<lambda>x. x\<lparr>sid := (sid x)\<lparr>VER := v\<rparr>\<rparr>)
   }"

section \<open>OV7670\<close>

fun ov7670_write_array :: "fw_env \<Rightarrow> (byte \<times> byte) list \<Rightarrow> ('z cam_vars_scheme, int) state" where
  "ov7670_write_array env [] = return 0"
| "ov7670_write_array env ((r, v) # vals) =
     (if r = 0xFF \<and> v = 0xFF then return 0
      else or_return (write_byte env r v) (ov7670_write_array env vals))"

definition ov7670_frame_control :: "fw_env \<Rightarrow> int \<Rightarrow> int \<Rightarrow> int \<Rightarrow> int \<Rightarrow> ('z cam_vars_scheme, int) state" where
  "ov7670_frame_control env hstart hstop vstart vstop = ov7670_write_array env
     [(OV7670_HSTART, u8 (drop_bit 3 hstart)),
      (OV7670_HSTOP, u8 (drop_bit 3 hstop)),
      (OV7670_HREF, u8 (push_bit 3 (hstop AND 0x07) OR (hstart AND 0x07))),
      (OV7670_VSTART, u8 (drop_bit 2 vstart)),
      (OV7670_VSTOP, u8 (drop_bit 2 vstop)),
      (OV7670_VREF, u8 (push_bit 2 (vstop AND 0x02) OR (vstart AND 0x02))),
      (0xFF, 0xFF)]"

definition ov7670_reset :: "fw_env \<Rightarrow> ('z cam_vars_scheme, int) state" where
  "ov7670_reset env = do {
     _ \<leftarrow> write_byte env OV7670_COM7 OV7670_COM7_RESET;
     delay_ms env 10;
     ret \<leftarrow> ov7670_write_array env ov7670_default_regs;
     delay_ms env 30;
     return ret
   }"

definition ov7670_set_pixformat :: "fw_env \<Rightarrow> pixformat_t \<Rightarrow> ('z cam_vars_scheme, int) state" where
  "ov7670_set_pixformat env pf = do {
     ret \<leftarrow> ov7670_write_array env
       (if pf = PIXFORMAT_RGB565 \<or> pf = PIXFORMAT_RGB888 then ov7670_fmt_rgb565 else ov7670_fmt_yuv422);
     delay_ms env 30;
     if pf = PIXFORMAT_RGB565 then do {
       c \<leftarrow> gets ov7670_clkrc;
       write_byte env OV7670_CLKRC c
     } else return ret
   }"

definition ov7670_set_framesize :: "fw_env \<Rightarrow> framesize_t \<Rightarrow> ('z cam_vars_scheme, int) state" where
  "ov7670_set_framesize env fs = do {
     c \<leftarrow> read_reg_byte env OV7670_CLKRC;
     modify (\<lambda>s. s\<lparr>ov7670_clkrc := c\<rparr>);
     ret \<leftarrow> (if fs = FRAMESIZE_VGA then
               or_return (ov7670_write_array env ov7670_vga) (ov7670_frame_control env 158 14 10 490)
             else if fs = FRAMESIZE_QVGA then
               or_return (ov7670_write_array env ov7670_qvga) (ov7670_frame_control env 158 14 10 490)
             else if fs = FRAMESIZE_QQVGA then
               or_return (ov7670_write_array env ov7670_qqvga) (ov7670_frame_control env 158 14 12 490)
             else return (-1));
     delay_ms env 30;
     do_when (ret = 0) (upd_status (\<lambda>st. st\<lparr>st_framesize := fs\<rparr>));
     return ret
   }"

text \<open>\<open>reg = SCCB_Read(r); reg = f(reg); return SCCB_Write(r, reg);\<close>\<close>

definition change_reg :: "fw_env \<Rightarrow> byte \<Rightarrow> (byte \<Rightarrow> byte) \<Rightarrow> ('z cam_vars_scheme, int) state" where
  "change_reg env r f = do { reg \<leftarrow> read_reg_byte env r; write_byte env r (f reg) }"

text \<open>The macros \<open>COM8_SET_AWB\<close> and so on: bit \<open>n\<close> from bit 0 of \<open>x\<close>.\<close>

definition set_bit_from :: "nat \<Rightarrow> int \<Rightarrow> byte \<Rightarrow> byte" where
  "set_bit_from n x r = (r AND NOT (push_bit n 1)) OR push_bit n (u8 x AND 1)"

text \<open>The results are kept in an \<open>uint8_t\<close>.\<close>

definition ov7670_set_colorbar :: "fw_env \<Rightarrow> int \<Rightarrow> ('z cam_vars_scheme, int) state" where
  "ov7670_set_colorbar env enable = do {
     a \<leftarrow> change_reg env OV7670_SCALING_XSC (\<lambda>r. r AND 0x7F);
     b \<leftarrow> change_reg env OV7670_SCALING_YSC (set_bit_from 7 enable);
     return (uint (u8 a OR u8 b))
   }"

definition ov7670_set_whitebal :: "fw_env \<Rightarrow> int \<Rightarrow> ('z cam_vars_scheme, int) state" where
  "ov7670_set_whitebal env enable = change_reg env OV7670_COM8 (set_bit_from 1 enable)"

definition ov7670_set_gain_ctrl :: "fw_env \<Rightarrow> int \<Rightarrow> ('z cam_vars_scheme, int) state" where
  "ov7670_set_gain_ctrl env enable = change_reg env OV7670_COM8 (set_bit_from 2 enable)"

definition ov7670_set_exposure_ctrl :: "fw_env \<Rightarrow> int \<Rightarrow> ('z cam_vars_scheme, int) state" where
  "ov7670_set_exposure_ctrl env enable = change_reg env OV7670_COM8 (set_bit_from 0 enable)"

definition ov7670_set_hmirror :: "fw_env \<Rightarrow> int \<Rightarrow> ('z cam_vars_scheme, int) state" where
  "ov7670_set_hmirror env enable = change_reg env OV7670_MVFP (set_bit_from 5 enable)"

definition ov7670_set_vflip :: "fw_env \<Rightarrow> int \<Rightarrow> ('z cam_vars_scheme, int) state" where
  "ov7670_set_vflip env enable = change_reg env OV7670_MVFP (set_bit_from 4 enable)"

definition ov7670_init_status :: "('z cam_vars_scheme, int) state" where
  "ov7670_init_status = do {
     upd_status (\<lambda>st. st\<lparr>st_awb := 0, st_aec := 0, st_agc := 0, st_hmirror := 0, st_vflip := 0, st_colorbar := 0\<rparr>);
     return 0
   }"

fun ov7670_ops :: "fw_env \<Rightarrow> sensor_op \<Rightarrow> ('z cam_vars_scheme, int) state option" where
  "ov7670_ops env Init_status = Some ov7670_init_status"
| "ov7670_ops env Reset_sensor = Some (ov7670_reset env)"
| "ov7670_ops env (Set_pixformat pf) = Some (ov7670_set_pixformat env pf)"
| "ov7670_ops env (Set_framesize fs) = Some (ov7670_set_framesize env fs)"
| "ov7670_ops env (Set_colorbar v) = Some (ov7670_set_colorbar env v)"
| "ov7670_ops env (Set_whitebal v) = Some (ov7670_set_whitebal env v)"
| "ov7670_ops env (Set_gain_ctrl v) = Some (ov7670_set_gain_ctrl env v)"
| "ov7670_ops env (Set_exposure_ctrl v) = Some (ov7670_set_exposure_ctrl env v)"
| "ov7670_ops env (Set_hmirror v) = Some (ov7670_set_hmirror env v)"
| "ov7670_ops env (Set_vflip v) = Some (ov7670_set_vflip env v)"
| "ov7670_ops env (Set_contrast v) = None"
| "ov7670_ops env _ = Some not_supported"

definition ov7670_init :: "fw_env \<Rightarrow> ('z cam_vars_scheme, int) state" where
  "ov7670_init env = do {
     upd_sensor (\<lambda>x. x\<lparr>drv := Some CAMERA_OV7670\<rparr>);
     read_signature env OV7670_REG_MIDH OV7670_REG_MIDL OV7670_REG_PID OV7670_REG_VER;
     return 0
   }"

section \<open>OV7725\<close>

definition ov7725_reset :: "fw_env \<Rightarrow> ('z cam_vars_scheme, int) state" where
  "ov7725_reset env = do {
     _ \<leftarrow> write_byte env OV7725_COM7 OV7725_COM7_RESET;
     delay_ms env 10;
     write_while_nonzero env ov7725_default_regs;
     delay_ms env 30;
     return 0
   }"

text \<open>\<open>COM7_SET_RGB\<close> and \<open>COM7_SET_FMT\<close>.\<close>

definition ov7725_com7 :: "pixformat_t \<Rightarrow> byte \<Rightarrow> byte option" where
  "ov7725_com7 pf r =
     (if pf = PIXFORMAT_RGB565 then Some ((r AND 0xF0) OR (OV7725_COM7_FMT_RGB565 AND 0x0C) OR OV7725_COM7_FMT_RGB)
      else if pf = PIXFORMAT_YUV422 \<or> pf = PIXFORMAT_GRAYSCALE then Some ((r AND 0xFC) OR (OV7725_COM7_FMT_YUV AND 0x3))
      else None)"

definition ov7725_set_pixformat :: "fw_env \<Rightarrow> pixformat_t \<Rightarrow> ('z cam_vars_scheme, int) state" where
  "ov7725_set_pixformat env pf = do {
     upd_sensor (\<lambda>x. x\<lparr>pixformat := pf\<rparr>);
     reg \<leftarrow> read_reg_byte env OV7725_COM7;
     case ov7725_com7 pf reg of
       None \<Rightarrow> return (-1)
     | Some r \<Rightarrow> do {
         ret \<leftarrow> write_byte env OV7725_COM7 r;
         delay_ms env 30;
         return ret
       }
   }"

definition ov7725_size_regs :: "nat \<Rightarrow> nat \<Rightarrow> (byte \<times> byte) list" where
  "ov7725_size_regs w h =
     [(OV7725_HOUTSIZE, of_nat (w div 4)), (OV7725_VOUTSIZE, of_nat (h div 2)),
      (OV7725_HSIZE, of_nat (w div 4)), (OV7725_VSIZE, of_nat (h div 2)),
      (OV7725_HREF, of_nat ((w AND 3) OR push_bit 2 (h AND 1)))]"

definition ov7725_scale_regs :: "framesize_t \<Rightarrow> byte \<Rightarrow> (byte \<times> byte) list" where
  "ov7725_scale_regs fs reg =
     (if fs < FRAMESIZE_VGA then
        [(OV7725_DSPAUTO, 0xFF), (OV7725_HSTART, 0x3F), (OV7725_VSTART, 0x03),
         (OV7725_COM7, reg OR OV7725_COM7_RES_QVGA), (OV7725_CLKRC, 0x80 OR 0x01)]
      else
        [(OV7725_DSPAUTO, 0xF3), (OV7725_SCAL0, 0x00), (OV7725_SCAL1, 0x00), (OV7725_SCAL2, 0x00),
         (OV7725_HSTART, 0x23), (OV7725_VSTART, 0x07),
         (OV7725_COM7, reg AND NOT OV7725_COM7_RES_QVGA), (OV7725_CLKRC, 0x80 OR 0x03)])"

definition ov7725_set_framesize :: "fw_env \<Rightarrow> framesize_t \<Rightarrow> ('z cam_vars_scheme, int) state" where
  "ov7725_set_framesize env fs =
     (if FRAMESIZE_VGA < fs then return (-1)
      else do {
        reg \<leftarrow> read_reg_byte env OV7725_COM7;
        upd_status (\<lambda>st. st\<lparr>st_framesize := fs\<rparr>);
        ret \<leftarrow> write_ored env (ov7725_size_regs (res_width fs) (res_height fs) @ ov7725_scale_regs fs reg);
        delay_ms env 30;
        return ret
      })"

definition ov7725_set_colorbar :: "fw_env \<Rightarrow> int \<Rightarrow> ('z cam_vars_scheme, int) state" where
  "ov7725_set_colorbar env enable = do {
     upd_status (\<lambda>st. st\<lparr>st_colorbar := u8 enable\<rparr>);
     all_or [change_reg env OV7725_COM3 (set_bit_from 0 enable), change_reg env OV7725_DSP_CTRL3 (set_bit_from 5 enable)]
   }"

definition ov7725_set_whitebal :: "fw_env \<Rightarrow> int \<Rightarrow> ('z cam_vars_scheme, int) state" where
  "ov7725_set_whitebal env enable =
     store_switch (set_bits8 env OV7725_COM8 1 1 (u8 enable)) (\<lambda>b st. st\<lparr>st_awb := b\<rparr>) st_awb enable"

definition ov7725_set_gain_ctrl :: "fw_env \<Rightarrow> int \<Rightarrow> ('z cam_vars_scheme, int) state" where
  "ov7725_set_gain_ctrl env enable =
     store_switch (set_bits8 env OV7725_COM8 2 1 (u8 enable)) (\<lambda>b st. st\<lparr>st_agc := b\<rparr>) st_agc enable"

definition ov7725_set_exposure_ctrl :: "fw_env \<Rightarrow> int \<Rightarrow> ('z cam_vars_scheme, int) state" where
  "ov7725_set_exposure_ctrl env enable =
     store_switch (set_bits8 env OV7725_COM8 0 1 (u8 enable)) (\<lambda>b st. st\<lparr>st_aec := b\<rparr>) st_aec enable"

definition ov7725_set_hmirror :: "fw_env \<Rightarrow> int \<Rightarrow> ('z cam_vars_scheme, int) state" where
  "ov7725_set_hmirror env enable =
     store_switch (set_bits8 env OV7725_COM3 6 1 (u8 enable)) (\<lambda>b st. st\<lparr>st_hmirror := b\<rparr>) st_hmirror enable"

definition ov7725_set_vflip :: "fw_env \<Rightarrow> int \<Rightarrow> ('z cam_vars_scheme, int) state" where
  "ov7725_set_vflip env enable =
     store_switch (set_bits8 env OV7725_COM3 7 1 (u8 enable)) (\<lambda>b st. st\<lparr>st_vflip := b\<rparr>) st_vflip enable"

text \<open>The switch is written inverted.\<close>

definition ov7725_set_dcw_dsp :: "fw_env \<Rightarrow> int \<Rightarrow> ('z cam_vars_scheme, int) state" where
  "ov7725_set_dcw_dsp env enable =
     then_store (set_bits8 env 0x65 2 1 (of_flag (enable = 0))) (\<lambda>st. st\<lparr>st_dcw := u8 enable\<rparr>)"

definition ov7725_set_aec2 :: "fw_env \<Rightarrow> int \<Rightarrow> ('z cam_vars_scheme, int) state" where
  "ov7725_set_aec2 env enable = then_store (set_bits8 env OV7725_COM8 7 1 (u8 enable)) (\<lambda>st. st\<lparr>st_aec2 := u8 enable\<rparr>)"

definition ov7725_set_bpc_dsp :: "fw_env \<Rightarrow> int \<Rightarrow> ('z cam_vars_scheme, int) state" where
  "ov7725_set_bpc_dsp env enable = then_store (set_bits8 env 0x64 1 1 (u8 enable)) (\<lambda>st. st\<lparr>st_bpc := u8 enable\<rparr>)"

definition ov7725_set_wpc_dsp :: "fw_env \<Rightarrow> int \<Rightarrow> ('z cam_vars_scheme, int) state" where
  "ov7725_set_wpc_dsp env enable = then_store (set_bits8 env 0x64 0 1 (u8 enable)) (\<lambda>st. st\<lparr>st_wpc := u8 enable\<rparr>)"

definition ov7725_set_raw_gma_dsp :: "fw_env \<Rightarrow> int \<Rightarrow> ('z cam_vars_scheme, int) state" where
  "ov7725_set_raw_gma_dsp env enable = then_store (set_bits8 env 0x64 2 1 (u8 enable)) (\<lambda>st. st\<lparr>st_raw_gma := u8 enable\<rparr>)"

definition ov7725_set_lenc_dsp :: "fw_env \<Rightarrow> int \<Rightarrow> ('z cam_vars_scheme, int) state" where
  "ov7725_set_lenc_dsp env enable = then_store (set_bits8 env OV7725_LC_CTR 0 1 (u8 enable)) (\<lambda>st. st\<lparr>st_lenc := u8 enable\<rparr>)"

definition ov7725_set_agc_gain :: "fw_env \<Rightarrow> int \<Rightarrow> ('z cam_vars_scheme, int) state" where
  "ov7725_set_agc_gain env gain = then_store (set_bits8 env OV7725_COM9 4 3 (u8 (gain smod 5))) (\<lambda>st. st\<lparr>st_agc_gain := u8 gain\<rparr>)"

text \<open>The order of the two writes is left open by C; they are done left to right.\<close>

definition ov7725_set_aec_value :: "fw_env \<Rightarrow> int \<Rightarrow> ('z cam_vars_scheme, int) state" where
  "ov7725_set_aec_value env v =
     then_store (all_or [write_byte env OV7725_AEC (u8 (v AND 0xFF)), write_byte env OV7725_AECH (u8 (drop_bit 8 v))])
       (\<lambda>st. st\<lparr>st_aec_value := word_of_int v\<rparr>)"

definition ov7725_set_awb_gain_dsp :: "fw_env \<Rightarrow> int \<Rightarrow> ('z cam_vars_scheme, int) state" where
  "ov7725_set_awb_gain_dsp env enable = then_store (set_bits8 env 0x63 7 1 (u8 enable)) (\<lambda>st. st\<lparr>st_awb_gain := u8 enable\<rparr>)"

definition ov7725_set_brightness :: "fw_env \<Rightarrow> int \<Rightarrow> ('z cam_vars_scheme, int) state" where
  "ov7725_set_brightness env level = then_store (write_byte env 0x9B (u8 level)) (\<lambda>st. st\<lparr>st_brightness := u8 level\<rparr>)"

definition ov7725_set_contrast :: "fw_env \<Rightarrow> int \<Rightarrow> ('z cam_vars_scheme, int) state" where
  "ov7725_set_contrast env level = then_store (write_byte env 0x9C (u8 level)) (\<lambda>st. st\<lparr>st_contrast := u8 level\<rparr>)"

definition ov7725_init_status :: "fw_env \<Rightarrow> ('z cam_vars_scheme, int) state" where
  "ov7725_init_status env = do {
     load (read_reg_byte env 0x9B) (\<lambda>b st. st\<lparr>st_brightness := b\<rparr>);
     load (read_reg_byte env 0x9C) (\<lambda>b st. st\<lparr>st_contrast := b\<rparr>);
     upd_status (\<lambda>st. st\<lparr>st_saturation := 0, st_ae_level := 0\<rparr>);
     load (get_bits8 env 0x64 5 1) (\<lambda>b st. st\<lparr>st_special_effect := b\<rparr>);
     load (get_bits8 env 0x6B 7 1) (\<lambda>b st. st\<lparr>st_wb_mode := b\<rparr>);
     load (get_bits8 env OV7725_COM9 4 3) (\<lambda>b st. st\<lparr>st_agc_gain := b\<rparr>);
     l \<leftarrow> read_reg_byte env OV7725_AEC;
     h \<leftarrow> read_reg_byte env OV7725_AECH;
     upd_status (\<lambda>st. st\<lparr>st_aec_value := ucast l OR push_bit 8 (ucast h)\<rparr>);
     load (read_reg_byte env 0x00) (\<lambda>b st. st\<lparr>st_gainceiling := b\<rparr>);
     load (get_bits8 env OV7725_COM8 1 1) (\<lambda>b st. st\<lparr>st_awb := b\<rparr>);
     load (get_bits8 env 0x63 7 1) (\<lambda>b st. st\<lparr>st_awb_gain := b\<rparr>);
     load (get_bits8 env OV7725_COM8 0 1) (\<lambda>b st. st\<lparr>st_aec := b\<rparr>);
     load (get_bits8 env OV7725_COM8 7 1) (\<lambda>b st. st\<lparr>st_aec2 := b\<rparr>);
     load (get_bits8 env OV7725_COM8 2 1) (\<lambda>b st. st\<lparr>st_agc := b\<rparr>);
     load (get_bits8 env 0x64 1 1) (\<lambda>b st. st\<lparr>st_bpc := b\<rparr>);
     load (get_bits8 env 0x64 0 1) (\<lambda>b st. st\<lparr>st_wpc := b\<rparr>);
     load (get_bits8 env 0x64 2 1) (\<lambda>b st. st\<lparr>st_raw_gma := b\<rparr>);
     load (get_bits8 env OV7725_LC_CTR 0 1) (\<lambda>b st. st\<lparr>st_lenc := b\<rparr>);
     load (get_bits8 env OV7725_COM3 6 1) (\<lambda>b st. st\<lparr>st_hmirror := b\<rparr>);
     load (get_bits8 env OV7725_COM3 7 1) (\<lambda>b st. st\<lparr>st_vflip := b\<rparr>);
     load (get_bits8 env 0x65 2 1) (\<lambda>b st. st\<lparr>st_dcw := b\<rparr>);
     load (get_bits8 env OV7725_COM3 0 1) (\<lambda>b st. st\<lparr>st_colorbar := b\<rparr>);
     load (get_bits8 env OV7725_EDGE0 0 5) (\<lambda>b st. st\<lparr>st_sharpness := b\<rparr>);
     load (read_reg_byte env 0x8E) (\<lambda>b st. st\<lparr>st_denoise := b\<rparr>);
     return 0
   }"

fun ov7725_ops :: "fw_env \<Rightarrow> sensor_op \<Rightarrow> ('z cam_vars_scheme, int) state option" where
  "ov7725_ops env Init_status = Some (ov7725_init_status env)"
| "ov7725_ops env Reset_sensor = Some (ov7725_reset env)"
| "ov7725_ops env (Set_pixformat pf) = Some (ov7725_set_pixformat env pf)"
| "ov7725_ops env (Set_framesize fs) = Some (ov7725_set_framesize env fs)"
| "ov7725_ops env (Set_colorbar v) = Some (ov7725_set_colorbar env v)"
| "ov7725_ops env (Set_whitebal v) = Some (ov7725_set_whitebal env v)"
| "ov7725_ops env (Set_gain_ctrl v) = Some (ov7725_set_gain_ctrl env v)"
| "ov7725_ops env (Set_exposure_ctrl v) = Some (ov7725_set_exposure_ctrl env v)"
| "ov7725_ops env (Set_hmirror v) = Some (ov7725_set_hmirror env v)"
| "ov7725_ops env (Set_vflip v) = Some (ov7725_set_vflip env v)"
| "ov7725_ops env (Set_brightness v) = Some (ov7725_set_brightness env v)"
| "ov7725_ops env (Set_contrast v) = Some (ov7725_set_contrast env v)"
| "ov7725_ops env (Set_aec2 v) = Some (ov7725_set_aec2 env v)"
| "ov7725_ops env (Set_aec_value v) = Some (ov7725_set_aec_value env v)"
| "ov7725_ops env (Set_awb_gain v) = Some (ov7725_set_awb_gain_dsp env v)"
| "ov7725_ops env (Set_agc_gain v) = Some (ov7725_set_agc_gain env v)"
| "ov7725_ops env (Set_dcw v) = Some (ov7725_set_dcw_dsp env v)"
| "ov7725_ops env (Set_bpc v) = Some (ov7725_set_bpc_dsp env v)"
| "ov7725_ops env (Set_wpc v) = Some (ov7725_set_wpc_dsp env v)"
| "ov7725_ops env (Set_raw_gma v) = Some (ov7725_set_raw_gma_dsp env v)"
| "ov7725_ops env (Set_lenc v) = Some (ov7725_set_lenc_dsp env v)"
| "ov7725_ops env _ = Some not_supported"

definition ov7725_init :: "fw_env \<Rightarrow> ('z cam_vars_scheme, int) state" where
  "ov7725_init env = do {
     upd_sensor (\<lambda>x. x\<lparr>drv := Some CAMERA_OV7725\<rparr>);
     read_signature env OV7725_REG_MIDH OV7725_REG_MIDL OV7725_REG_PID OV7725_REG_VER;
     return 0
   }"

end
