(* ===== verification/OvTables.thy ===== *)
theory OvTables
  imports Prelude
begin

text \<open>
  The registers and register tables of the sensors OV3660 and OV5640.  The registers both use have the same
  addresses; the masks are the same too.
  A settings table is the list of its register and value pairs, in order; the register macros of the header are
  expanded.  Tables that the source ends by a marker keep the marker as their last pair.
\<close>

section \<open>Windows\<close>

text \<open>\<open>ratio_settings_t\<close>: the part of the array that is read out for an aspect ratio.\<close>

record ratio_settings_t =
  max_width :: nat
  max_height :: nat
  start_x :: nat
  start_y :: nat
  end_x :: nat
  end_y :: nat
  offset_x :: nat
  offset_y :: nat
  total_x :: nat
  total_y :: nat

definition ratio_settings :: "nat \<Rightarrow> nat \<Rightarrow> nat \<Rightarrow> nat \<Rightarrow> nat \<Rightarrow> nat \<Rightarrow> nat \<Rightarrow> nat \<Rightarrow> nat \<Rightarrow> nat \<Rightarrow> ratio_settings_t" where
  "ratio_settings mw mh sx sy ex ey ox oy tx ty =
     \<lparr>max_width = mw, max_height = mh, start_x = sx, start_y = sy, end_x = ex, end_y = ey,
      offset_x = ox, offset_y = oy, total_x = tx, total_y = ty\<rparr>"

section \<open>OV3660\<close>

definition OV_SYSTEM_CTROL0 :: u16 where "OV_SYSTEM_CTROL0 = 0x3008"
definition OV_PRE_ISP_TEST_SETTING_1 :: u16 where "OV_PRE_ISP_TEST_SETTING_1 = 0x503D"
definition OV_AEC_PK_MANUAL :: u16 where "OV_AEC_PK_MANUAL = 0x3503"
definition OV_TIMING_TC_REG20 :: u16 where "OV_TIMING_TC_REG20 = 0x3820"
definition OV_TIMING_TC_REG21 :: u16 where "OV_TIMING_TC_REG21 = 0x3821"
definition OV_X_ADDR_ST_H :: u16 where "OV_X_ADDR_ST_H = 0x3800"
definition OV_X_ADDR_END_H :: u16 where "OV_X_ADDR_END_H = 0x3804"
definition OV_X_OUTPUT_SIZE_H :: u16 where "OV_X_OUTPUT_SIZE_H = 0x3808"
definition OV_X_TOTAL_SIZE_H :: u16 where "OV_X_TOTAL_SIZE_H = 0x380C"
definition OV_X_OFFSET_H :: u16 where "OV_X_OFFSET_H = 0x3810"
definition OV_X_INCREMENT :: u16 where "OV_X_INCREMENT = 0x3814"
definition OV_Y_INCREMENT :: u16 where "OV_Y_INCREMENT = 0x3815"
definition OV_ISP_CONTROL_01 :: u16 where "OV_ISP_CONTROL_01 = 0x5001"
definition OV_PCLK_RATIO :: u16 where "OV_PCLK_RATIO = 0x3824"
definition OV_VFIFO_CTRL0C :: u16 where "OV_VFIFO_CTRL0C = 0x460C"
definition OV_SC_PLLS_CTRL0 :: u16 where "OV_SC_PLLS_CTRL0 = 0x303A"
definition OV_SC_PLLS_CTRL1 :: u16 where "OV_SC_PLLS_CTRL1 = 0x303B"
definition OV_SC_PLLS_CTRL2 :: u16 where "OV_SC_PLLS_CTRL2 = 0x303C"
definition OV_SC_PLLS_CTRL3 :: u16 where "OV_SC_PLLS_CTRL3 = 0x303D"
definition OV_COMPRESSION_CTRL07 :: u16 where "OV_COMPRESSION_CTRL07 = 0x4407"
definition OV_TEST_COLOR_BAR :: byte where "OV_TEST_COLOR_BAR = 0xC0"
definition OV_AEC_PK_MANUAL_AGC_MANUALEN :: byte where "OV_AEC_PK_MANUAL_AGC_MANUALEN = 0x02"
definition OV_AEC_PK_MANUAL_AEC_MANUALEN :: byte where "OV_AEC_PK_MANUAL_AEC_MANUALEN = 0x01"
definition OV_TIMING_TC_REG20_VFLIP :: byte where "OV_TIMING_TC_REG20_VFLIP = 0x06"
definition OV_TIMING_TC_REG21_HMIRROR :: byte where "OV_TIMING_TC_REG21_HMIRROR = 0x06"

definition ov3660_ratio_table :: "ratio_settings_t list" where
  "ov3660_ratio_table =
     [ratio_settings 2048 1536 0 0 2079 1547 16 6 2300 1564,
      ratio_settings 1920 1280 64 128 2015 1419 16 6 2172 1436,
      ratio_settings 2048 1280 0 128 2079 1419 16 6 2300 1436,
      ratio_settings 1920 1152 64 192 2015 1355 16 6 2172 1372,
      ratio_settings 1920 1080 64 242 2015 1333 16 6 2172 1322,
      ratio_settings 2048 880 0 328 2079 1219 16 6 2300 1236,
      ratio_settings 1920 1536 64 0 2015 1547 16 6 2172 1564,
      ratio_settings 1536 1536 256 0 1823 1547 16 6 2044 1564,
      ratio_settings 864 1536 592 0 1487 1547 16 6 2044 1564]"

definition ov3660_default_regs :: "(u16 \<times> u16) list" where
  "ov3660_default_regs =
     [(0x3008, 0x82), (0xFFFF, 0x0A), (0x3103, 0x13), (0x3008, 0x42), (0x3017, 0xFF), (0x3018, 0xFF),
      (0x302C, 0xC3), (0x4740, 0x21), (0x3611, 0x01), (0x3612, 0x2D), (0x3032, 0x00), (0x3614, 0x80),
      (0x3618, 0x00), (0x3619, 0x75), (0x3622, 0x80), (0x3623, 0x00), (0x3624, 0x03), (0x3630, 0x52),
      (0x3632, 0x07), (0x3633, 0xD2), (0x3704, 0x80), (0x3708, 0x66), (0x3709, 0x12), (0x370B, 0x12),
      (0x3717, 0x00), (0x371B, 0x60), (0x371C, 0x00), (0x3901, 0x13), (0x3600, 0x08), (0x3620, 0x43),
      (0x3702, 0x20), (0x3739, 0x48), (0x3730, 0x20), (0x370C, 0x0C), (0x3A18, 0x00), (0x3A19, 0xF8),
      (0x3000, 0x10), (0x3004, 0xEF), (0x6700, 0x05), (0x6701, 0x19), (0x6702, 0xFD), (0x6703, 0xD1),
      (0x6704, 0xFF), (0x6705, 0xFF), (0x3C01, 0x80), (0x3C00, 0x04), (0x3A08, 0x00), (0x3A09, 0x62),
      (0x3A0E, 0x08), (0x3A0A, 0x00), (0x3A0B, 0x52), (0x3A0D, 0x09), (0x3A00, 0x3A), (0x3A14, 0x09),
      (0x3A15, 0x30), (0x3A02, 0x09), (0x3A03, 0x30), (0x440E, 0x08), (0x4520, 0x0B), (0x460B, 0x37),
      (0x4713, 0x02), (0x471C, 0xD0), (0x5086, 0x00), (0x5002, 0x00), (0x501F, 0x00), (0x3008, 0x02),
      (0x5180, 0xFF), (0x5181, 0xF2), (0x5182, 0x00), (0x5183, 0x14), (0x5184, 0x25), (0x5185, 0x24),
      (0x5186, 0x16), (0x5187, 0x16), (0x5188, 0x16), (0x5189, 0x68), (0x518A, 0x60), (0x518B, 0xE0),
      (0x518C, 0xB2), (0x518D, 0x42), (0x518E, 0x35), (0x518F, 0x56), (0x5190, 0x56), (0x5191, 0xF8),
      (0x5192, 0x04), (0x5193, 0x70), (0x5194, 0xF0), (0x5195, 0xF0), (0x5196, 0x03), (0x5197, 0x01),
      (0x5198, 0x04), (0x5199, 0x12), (0x519A, 0x04), (0x519B, 0x00), (0x519C, 0x06), (0x519D, 0x82),
      (0x519E, 0x38), (0x5381, 0x1D), (0x5382, 0x60), (0x5383, 0x03), (0x5384, 0x0C), (0x5385, 0x78),
      (0x5386, 0x84), (0x5387, 0x7D), (0x5388, 0x6B), (0x5389, 0x12), (0x538A, 0x01), (0x538B, 0x98),
      (0x5480, 0x01), (0x5000, 0xA7), (0x5800, 0x0C), (0x5801, 0x09), (0x5802, 0x0C), (0x5803, 0x0C),
      (0x5804, 0x0D), (0x5805, 0x17), (0x5806, 0x06), (0x5807, 0x05), (0x5808, 0x04), (0x5809, 0x06),
      (0x580A, 0x09), (0x580B, 0x0E), (0x580C, 0x05), (0x580D, 0x01), (0x580E, 0x01), (0x580F, 0x01),
      (0x5810, 0x05), (0x5811, 0x0D), (0x5812, 0x05), (0x5813, 0x01), (0x5814, 0x01), (0x5815, 0x01),
      (0x5816, 0x05), (0x5817, 0x0D), (0x5818, 0x08), (0x5819, 0x06), (0x581A, 0x05), (0x581B, 0x07),
      (0x581C, 0x0B), (0x581D, 0x0D), (0x581E, 0x12), (0x581F, 0x0D), (0x5820, 0x0E), (0x5821, 0x10),
      (0x5822, 0x10), (0x5823, 0x1E), (0x5824, 0x53), (0x5825, 0x15), (0x5826, 0x05), (0x5827, 0x14),
      (0x5828, 0x54), (0x5829, 0x25), (0x582A, 0x33), (0x582B, 0x33), (0x582C, 0x34), (0x582D, 0x16),
      (0x582E, 0x24), (0x582F, 0x41), (0x5830, 0x50), (0x5831, 0x42), (0x5832, 0x15), (0x5833, 0x25),
      (0x5834, 0x34), (0x5835, 0x33), (0x5836, 0x24), (0x5837, 0x26), (0x5838, 0x54), (0x5839, 0x25),
      (0x583A, 0x15), (0x583B, 0x25), (0x583C, 0x53), (0x583D, 0xCF), (0x3A0F, 0x30), (0x3A10, 0x28),
      (0x3A1B, 0x30), (0x3A1E, 0x28), (0x3A11, 0x60), (0x3A1F, 0x14), (0x5302, 0x28), (0x5303, 0x20),
      (0x5306, 0x1C), (0x5307, 0x28), (0x4002, 0xC5), (0x4003, 0x81), (0x4005, 0x12), (0x5688, 0x11),
      (0x5689, 0x11), (0x568A, 0x11), (0x568B, 0x11), (0x568C, 0x11), (0x568D, 0x11), (0x568E, 0x11),
      (0x568F, 0x11), (0x5580, 0x06), (0x5588, 0x00), (0x5583, 0x40), (0x5584, 0x2C), (0x5001, 0x83),
      (0x00, 0x00)]"

definition ov3660_fmt_jpeg :: "(u16 \<times> u16) list" where
  "ov3660_fmt_jpeg =
     [(0x501F, 0x00), (0x4300, 0x30), (0x3002, 0x00), (0x3006, 0xFF), (0x471C, 0x50), (0x00, 0x00)]"

definition ov3660_fmt_raw :: "(u16 \<times> u16) list" where
  "ov3660_fmt_raw =
     [(0x4300, 0x00), (0x00, 0x00)]"

definition ov3660_fmt_grayscale :: "(u16 \<times> u16) list" where
  "ov3660_fmt_grayscale =
     [(0x501F, 0x00), (0x4300, 0x10), (0x00, 0x00)]"

definition ov3660_fmt_yuv422 :: "(u16 \<times> u16) list" where
  "ov3660_fmt_yuv422 =
     [(0x501F, 0x00), (0x4300, 0x30), (0x00, 0x00)]"

definition ov3660_fmt_rgb565 :: "(u16 \<times> u16) list" where
  "ov3660_fmt_rgb565 =
     [(0x501F, 0x01), (0x4300, 0x61), (0x00, 0x00)]"

definition ov3660_saturation_levels :: "byte list list" where
  "ov3660_saturation_levels =
     [[0x1D, 0x60, 0x03, 0x07, 0x48, 0x4F, 0x4B, 0x40, 0x0B, 0x01, 0x98],
      [0x1D, 0x60, 0x03, 0x08, 0x54, 0x5C, 0x58, 0x4B, 0x0D, 0x01, 0x98],
      [0x1D, 0x60, 0x03, 0x0A, 0x60, 0x6A, 0x64, 0x56, 0x0E, 0x01, 0x98],
      [0x1D, 0x60, 0x03, 0x0B, 0x6C, 0x77, 0x70, 0x60, 0x10, 0x01, 0x98],
      [0x1D, 0x60, 0x03, 0x0C, 0x78, 0x84, 0x7D, 0x6B, 0x12, 0x01, 0x98],
      [0x1D, 0x60, 0x03, 0x0D, 0x84, 0x91, 0x8A, 0x76, 0x14, 0x01, 0x98],
      [0x1D, 0x60, 0x03, 0x0E, 0x90, 0x9E, 0x96, 0x80, 0x16, 0x01, 0x98],
      [0x1D, 0x60, 0x03, 0x10, 0x9C, 0xAC, 0xA2, 0x8B, 0x17, 0x01, 0x98],
      [0x1D, 0x60, 0x03, 0x11, 0xA8, 0xB9, 0xAF, 0x96, 0x19, 0x01, 0x98]]"

definition ov3660_special_effects :: "byte list list" where
  "ov3660_special_effects =
     [[0x06, 0x40, 0x2C, 0x08], [0x46, 0x40, 0x28, 0x08], [0x1E, 0x80, 0x80, 0x08], [0x1E, 0x80, 0xC0, 0x08],
      [0x1E, 0x60, 0x60, 0x08], [0x1E, 0xA0, 0x40, 0x08], [0x1E, 0x40, 0xA0, 0x08]]"

section \<open>OV5640\<close>

definition ov5640_ratio_table :: "ratio_settings_t list" where
  "ov5640_ratio_table =
     [ratio_settings 2560 1920 0 0 2623 1951 32 16 2844 1968,
      ratio_settings 2560 1704 0 110 2623 1843 32 16 2844 1752,
      ratio_settings 2560 1600 0 160 2623 1791 32 16 2844 1648,
      ratio_settings 2560 1536 0 192 2623 1759 32 16 2844 1584,
      ratio_settings 2560 1440 0 240 2623 1711 32 16 2844 1488,
      ratio_settings 2560 1080 0 420 2623 1531 32 16 2844 1128,
      ratio_settings 2400 1920 80 0 2543 1951 32 16 2684 1968,
      ratio_settings 1920 1920 320 0 2543 1951 32 16 2684 1968,
      ratio_settings 1088 1920 736 0 1887 1951 32 16 1884 1968]"

definition ov5640_default_regs :: "(u16 \<times> u16) list" where
  "ov5640_default_regs =
     [(0x3008, 0x82), (0xFFFF, 0x0A), (0x3008, 0x42), (0x3103, 0x13), (0x3017, 0xFF), (0x3018, 0xFF),
      (0x302C, 0xC3), (0x4740, 0x21), (0x4713, 0x02), (0x5001, 0x83), (0x3000, 0x20), (0xFFFF, 0x0A),
      (0x3002, 0x1C), (0x3004, 0xFF), (0x3006, 0xC3), (0x5000, 0xA7), (0x5001, 0xA3), (0x5003, 0x08),
      (0x370C, 0x02), (0x3634, 0x40), (0x3A02, 0x03), (0x3A03, 0xD8), (0x3A08, 0x01), (0x3A09, 0x27),
      (0x3A0A, 0x00), (0x3A0B, 0xF6), (0x3A0D, 0x04), (0x3A0E, 0x03), (0x3A0F, 0x30), (0x3A10, 0x28),
      (0x3A11, 0x60), (0x3A13, 0x43), (0x3A14, 0x03), (0x3A15, 0xD8), (0x3A18, 0x00), (0x3A19, 0xF8),
      (0x3A1B, 0x30), (0x3A1E, 0x26), (0x3A1F, 0x14), (0x3600, 0x08), (0x3601, 0x33), (0x3C01, 0xA4),
      (0x3C04, 0x28), (0x3C05, 0x98), (0x3C06, 0x00), (0x3C07, 0x08), (0x3C08, 0x00), (0x3C09, 0x1C),
      (0x3C0A, 0x9C), (0x3C0B, 0x40), (0x460C, 0x22), (0x4001, 0x02), (0x4004, 0x02), (0x5180, 0xFF),
      (0x5181, 0xF2), (0x5182, 0x00), (0x5183, 0x14), (0x5184, 0x25), (0x5185, 0x24), (0x5186, 0x09),
      (0x5187, 0x09), (0x5188, 0x09), (0x5189, 0x75), (0x518A, 0x54), (0x518B, 0xE0), (0x518C, 0xB2),
      (0x518D, 0x42), (0x518E, 0x3D), (0x518F, 0x56), (0x5190, 0x46), (0x5191, 0xF8), (0x5192, 0x04),
      (0x5193, 0x70), (0x5194, 0xF0), (0x5195, 0xF0), (0x5196, 0x03), (0x5197, 0x01), (0x5198, 0x04),
      (0x5199, 0x12), (0x519A, 0x04), (0x519B, 0x00), (0x519C, 0x06), (0x519D, 0x82), (0x519E, 0x38),
      (0x5381, 0x1E), (0x5382, 0x5B), (0x5383, 0x08), (0x5384, 0x0A), (0x5385, 0x7E), (0x5386, 0x88),
      (0x5387, 0x7C), (0x5388, 0x6C), (0x5389, 0x10), (0x538A, 0x01), (0x538B, 0x98), (0x5300, 0x10),
      (0x5301, 0x10), (0x5302, 0x18), (0x5303, 0x19), (0x5304, 0x10), (0x5305, 0x10), (0x5306, 0x08),
      (0x5307, 0x16), (0x5308, 0x40), (0x5309, 0x10), (0x530A, 0x10), (0x530B, 0x04), (0x530C, 0x06),
      (0x5480, 0x01), (0x5481, 0x00), (0x5482, 0x1E), (0x5483, 0x3B), (0x5484, 0x58), (0x5485, 0x66),
      (0x5486, 0x71), (0x5487, 0x7D), (0x5488, 0x83), (0x5489, 0x8F), (0x548A, 0x98), (0x548B, 0xA6),
      (0x548C, 0xB8), (0x548D, 0xCA), (0x548E, 0xD7), (0x548F, 0xE3), (0x5490, 0x1D), (0x5580, 0x06),
      (0x5583, 0x40), (0x5584, 0x10), (0x5586, 0x20), (0x5587, 0x00), (0x5588, 0x00), (0x5589, 0x10),
      (0x558A, 0x00), (0x558B, 0xF8), (0x501D, 0x40), (0x3008, 0x02), (0x3C00, 0x04), (0xFFFF, 0x012C),
      (0x00, 0x00)]"

definition ov5640_fmt_jpeg :: "(u16 \<times> u16) list" where
  "ov5640_fmt_jpeg =
     [(0x501F, 0x00), (0x4300, 0x30), (0x3002, 0x00), (0x3006, 0xFF), (0x471C, 0x50), (0x00, 0x00)]"

definition ov5640_fmt_raw :: "(u16 \<times> u16) list" where
  "ov5640_fmt_raw =
     [(0x501F, 0x03), (0x4300, 0x00), (0x00, 0x00)]"

definition ov5640_fmt_grayscale :: "(u16 \<times> u16) list" where
  "ov5640_fmt_grayscale =
     [(0x501F, 0x00), (0x4300, 0x10), (0x00, 0x00)]"

definition ov5640_fmt_yuv422 :: "(u16 \<times> u16) list" where
  "ov5640_fmt_yuv422 =
     [(0x501F, 0x00), (0x4300, 0x30), (0x00, 0x00)]"

definition ov5640_fmt_rgb565 :: "(u16 \<times> u16) list" where
  "ov5640_fmt_rgb565 =
     [(0x501F, 0x01), (0x4300, 0x61), (0x00, 0x00)]"

definition ov5640_saturation_levels :: "byte list list" where
  "ov5640_saturation_levels =
     [[0x1D, 0x60, 0x03, 0x07, 0x48, 0x4F, 0x4B, 0x40, 0x0B, 0x01, 0x98],
      [0x1D, 0x60, 0x03, 0x08, 0x54, 0x5C, 0x58, 0x4B, 0x0D, 0x01, 0x98],
      [0x1D, 0x60, 0x03, 0x0A, 0x60, 0x6A, 0x64, 0x56, 0x0E, 0x01, 0x98],
      [0x1D, 0x60, 0x03, 0x0B, 0x6C, 0x77, 0x70, 0x60, 0x10, 0x01, 0x98],
      [0x1D, 0x60, 0x03, 0x0C, 0x78, 0x84, 0x7D, 0x6B, 0x12, 0x01, 0x98],
      [0x1D, 0x60, 0x03, 0x0D, 0x84, 0x91, 0x8A, 0x76, 0x14, 0x01, 0x98],
      [0x1D, 0x60, 0x03, 0x0E, 0x90, 0x9E, 0x96, 0x80, 0x16, 0x01, 0x98],
      [0x1D, 0x60, 0x03, 0x10, 0x9C, 0xAC, 0xA2, 0x8B, 0x17, 0x01, 0x98],
      [0x1D, 0x60, 0x03, 0x11, 0xA8, 0xB9, 0xAF, 0x96, 0x19, 0x01, 0x98]]"

definition ov5640_special_effects :: "byte list list" where
  "ov5640_special_effects =
     [[0x06, 0x40, 0x2C, 0x08], [0x46, 0x40, 0x28, 0x08], [0x1E, 0x80, 0x80, 0x08], [0x1E, 0x80, 0xC0, 0x08],
      [0x1E, 0x60, 0x60, 0x08], [0x1E, 0xA0, 0x40, 0x08], [0x1E, 0x40, 0xA0, 0x08]]"

end
