(* ===== verification/OvWide.thy ===== *)
theory OvWide
  imports Ov7 OvTables
begin

text \<open>
  The drivers of the sensors OV3660 and OV5640 (\<open>sensors/ov3660.c\<close>, \<open>ov5640.c\<close>), with 16-bit register
  addresses.  Most functions of the two files have the same text; these are defined once, under the
  name they have in the sources with the prefix \<open>ov_\<close>, and both drivers use them.
\<close>

section \<open>Registers\<close>

definition OV_REGLIST_TAIL :: u16 where "OV_REGLIST_TAIL = 0"

definition ov_write_regs :: "fw_env \<Rightarrow> (u16 \<times> u16) list \<Rightarrow> ('z cam_vars_scheme, int) state" where
  "ov_write_regs env = write_table env (write16 env) OV_REGLIST_TAIL REG_DLY"

definition ov_set_reg_bits :: "fw_env \<Rightarrow> u16 \<Rightarrow> nat \<Rightarrow> byte \<Rightarrow> byte \<Rightarrow> ('z cam_vars_scheme, int) state" where
  "ov_set_reg_bits env = set_masked (read16 env) (write16 env)"

definition ov_write_reg_bits :: "fw_env \<Rightarrow> u16 \<Rightarrow> byte \<Rightarrow> bool \<Rightarrow> ('z cam_vars_scheme, int) state" where
  "ov_write_reg_bits env reg msk enable = ov_set_reg_bits env reg 0 msk (if enable then msk else 0)"

definition ov_check_reg_mask :: "fw_env \<Rightarrow> u16 \<Rightarrow> byte \<Rightarrow> ('z cam_vars_scheme, byte) state" where
  "ov_check_reg_mask env = check_reg_mask (read16 env)"

definition ov_read_reg16 :: "fw_env \<Rightarrow> u16 \<Rightarrow> ('z cam_vars_scheme, int) state" where
  "ov_read_reg16 env reg = do {
     h \<leftarrow> read16 env reg;
     l \<leftarrow> read16 env (reg + 1);
     return (push_bit 8 (uint h) OR uint l)
   }"

text \<open>\<open>if (a || b) return -1; return 0;\<close>\<close>

definition minus_one_if :: "('s, int) state \<Rightarrow> ('s, int) state" where
  "minus_one_if m = do { r \<leftarrow> m; return (if r \<noteq> 0 then -1 else 0) }"

definition ov_write_reg16 :: "fw_env \<Rightarrow> u16 \<Rightarrow> u16 \<Rightarrow> ('z cam_vars_scheme, int) state" where
  "ov_write_reg16 env reg v =
     minus_one_if (any_of [write16 env reg (ucast (drop_bit 8 v)), write16 env (reg + 1) (ucast v)])"

definition ov_write_addr_reg :: "fw_env \<Rightarrow> u16 \<Rightarrow> nat \<Rightarrow> nat \<Rightarrow> ('z cam_vars_scheme, int) state" where
  "ov_write_addr_reg env reg x_value y_value =
     minus_one_if (any_of [ov_write_reg16 env reg (of_nat x_value), ov_write_reg16 env (reg + 2) (of_nat y_value)])"

section \<open>Reset, pixel format, frame size\<close>

definition ov_format_table :: "(u16 \<times> u16) list \<Rightarrow> (u16 \<times> u16) list \<Rightarrow> (u16 \<times> u16) list \<Rightarrow> (u16 \<times> u16) list \<Rightarrow>
    (u16 \<times> u16) list \<Rightarrow> pixformat_t \<Rightarrow> (u16 \<times> u16) list option" where
  "ov_format_table yuv422 grayscale rgb565 jpeg raw pf =
     (if pf = PIXFORMAT_YUV422 then Some yuv422
      else if pf = PIXFORMAT_GRAYSCALE then Some grayscale
      else if pf = PIXFORMAT_RGB565 \<or> pf = PIXFORMAT_RGB888 then Some rgb565
      else if pf = PIXFORMAT_JPEG then Some jpeg
      else if pf = PIXFORMAT_RAW then Some raw
      else None)"

definition ov_set_format :: "fw_env \<Rightarrow> (u16 \<times> u16) list option \<Rightarrow> pixformat_t \<Rightarrow> ('z cam_vars_scheme, int) state" where
  "ov_set_format env table pf =
     (case table of
        None \<Rightarrow> return (-1)
      | Some regs \<Rightarrow> then_pixformat (ov_write_regs env regs) pf)"

definition ov3660_set_pixformat :: "fw_env \<Rightarrow> pixformat_t \<Rightarrow> ('z cam_vars_scheme, int) state" where
  "ov3660_set_pixformat env pf = ov_set_format env
     (ov_format_table ov3660_fmt_yuv422 ov3660_fmt_grayscale ov3660_fmt_rgb565 ov3660_fmt_jpeg ov3660_fmt_raw pf) pf"

definition ov5640_set_pixformat :: "fw_env \<Rightarrow> pixformat_t \<Rightarrow> ('z cam_vars_scheme, int) state" where
  "ov5640_set_pixformat env pf = ov_set_format env
     (ov_format_table ov5640_fmt_yuv422 ov5640_fmt_grayscale ov5640_fmt_rgb565 ov5640_fmt_jpeg ov5640_fmt_raw pf) pf"

text \<open>Image options: the contents of the timing registers and of register 0x4514.\<close>

definition ov_reg20 :: "camera_status_t \<Rightarrow> byte" where
  "ov_reg20 st = (if st_binning st then 0x01 else 0x40) OR (if st_vflip st \<noteq> 0 then 0x06 else 0)"

definition ov_reg21 :: "pixformat_t \<Rightarrow> camera_status_t \<Rightarrow> byte" where
  "ov_reg21 pf st = (if pf = PIXFORMAT_JPEG then 0x20 else 0) OR (if st_binning st then 0x01 else 0) OR
     (if st_hmirror st \<noteq> 0 then 0x06 else 0)"

definition ov3660_reg4514 :: "camera_status_t \<Rightarrow> byte" where
  "ov3660_reg4514 st =
     (let v = st_vflip st \<noteq> 0; h = st_hmirror st \<noteq> 0
      in if \<not> st_binning st then (if h then 0xBB else 0x88)
         else (if v = h then 0xAA else 0xBB))"

definition ov5640_reg4514 :: "camera_status_t \<Rightarrow> byte" where
  "ov5640_reg4514 st =
     (let v = st_vflip st \<noteq> 0; h = st_hmirror st \<noteq> 0
      in if \<not> st_binning st then (if v then 0x00 else if h then 0xBB else 0x88)
         else (if v = h then 0xAA else 0xBB))"

definition ov_write_timing :: "fw_env \<Rightarrow> (camera_status_t \<Rightarrow> byte) \<Rightarrow> ('z cam_vars_scheme, int) state" where
  "ov_write_timing env reg4514 = do {
     x \<leftarrow> gets sensor;
     any_of [write16 env OV_TIMING_TC_REG20 (ov_reg20 (status x)), write16 env OV_TIMING_TC_REG21 (ov_reg21 (pixformat x) (status x)),
       write16 env 0x4514 (reg4514 (status x))]
   }"

definition ov_write_increments :: "fw_env \<Rightarrow> byte \<Rightarrow> ('z cam_vars_scheme, int) state" where
  "ov_write_increments env unbinned = do {
     x \<leftarrow> gets sensor;
     if st_binning (status x)
     then any_of [write16 env 0x4520 0x0B, write16 env OV_X_INCREMENT 0x31, write16 env OV_Y_INCREMENT 0x31]
     else any_of [write16 env 0x4520 unbinned, write16 env OV_X_INCREMENT 0x11, write16 env OV_Y_INCREMENT 0x11]
   }"

text \<open>A failure of the first three writes is overwritten in the OV3660 driver, and returned in the OV5640 driver.\<close>

definition ov3660_set_image_options :: "fw_env \<Rightarrow> ('z cam_vars_scheme, int) state" where
  "ov3660_set_image_options env = do {
     _ \<leftarrow> ov_write_timing env ov3660_reg4514;
     ov_write_increments env 0xB0
   }"

definition ov5640_set_image_options :: "fw_env \<Rightarrow> ('z cam_vars_scheme, int) state" where
  "ov5640_set_image_options env = do {
     r \<leftarrow> ov_write_timing env ov5640_reg4514;
     if r \<noteq> 0 then return (-1) else ov_write_increments env 0x10
   }"

text \<open>\<open>set_pll\<close>; what \<open>calc_sysclk\<close> computes is only logged.\<close>

definition ov3660_set_pll :: "fw_env \<Rightarrow> bool \<Rightarrow> nat \<Rightarrow> nat \<Rightarrow> nat \<Rightarrow> bool \<Rightarrow> nat \<Rightarrow> bool \<Rightarrow> nat \<Rightarrow> ('z cam_vars_scheme, int) state" where
  "ov3660_set_pll env bypass multiplier sys_div pre_div root_2x seld5 pclk_manual pclk_ratio =
     (if 31 < multiplier \<or> 15 < sys_div \<or> 3 < pre_div \<or> 31 < pclk_ratio \<or> 3 < seld5 then return (-1)
      else until_error
        [write16 env OV_SC_PLLS_CTRL0 (if bypass then 0x80 else 0x00),
         write16 env OV_SC_PLLS_CTRL1 (of_nat multiplier AND 0x1F),
         write16 env OV_SC_PLLS_CTRL2 (0x10 OR (of_nat sys_div AND 0x0F)),
         write16 env OV_SC_PLLS_CTRL3 (push_bit 4 (of_nat pre_div AND 0x3) OR of_nat seld5 OR (if root_2x then 0x40 else 0x00)),
         write16 env OV_PCLK_RATIO (of_nat pclk_ratio AND 0x1F),
         write16 env OV_VFIFO_CTRL0C (if pclk_manual then 0x22 else 0x20)])"

definition ov5640_set_pll :: "fw_env \<Rightarrow> bool \<Rightarrow> nat \<Rightarrow> nat \<Rightarrow> nat \<Rightarrow> bool \<Rightarrow> nat \<Rightarrow> bool \<Rightarrow> nat \<Rightarrow> ('z cam_vars_scheme, int) state" where
  "ov5640_set_pll env bypass multiplier sys_div pre_div root_2x pclk_root_div pclk_manual pclk_ratio =
     (if 252 < multiplier \<or> multiplier < 4 \<or> 15 < sys_div \<or> 8 < pre_div \<or> 31 < pclk_ratio \<or> 3 < pclk_root_div then return (-1)
      else until_error
        [write16 env 0x3039 (if bypass then 0x80 else 0x00),
         write16 env 0x3034 0x1A,
         write16 env 0x3035 (0x01 OR push_bit 4 (of_nat sys_div AND 0x0F)),
         write16 env 0x3036 (if 127 < multiplier then of_nat multiplier AND 0xFE else of_nat multiplier),
         write16 env 0x3037 ((of_nat pre_div AND 0xF) OR (if root_2x then 0x10 else 0x00)),
         write16 env 0x3108 (push_bit 4 (of_nat pclk_root_div AND 0x3) OR 0x06),
         write16 env 0x3824 (of_nat pclk_ratio AND 0x1F),
         write16 env 0x460C (if pclk_manual then 0x22 else 0x20),
         write16 env 0x3103 0x13])"

text \<open>\<open>_set_pll\<close>: the \<open>int\<close> arguments are converted to \<open>bool\<close> and \<open>uint8_t\<close>.\<close>

definition ov3660_set_pll_int ::
  "fw_env \<Rightarrow> int \<Rightarrow> int \<Rightarrow> int \<Rightarrow> int \<Rightarrow> int \<Rightarrow> int \<Rightarrow> int \<Rightarrow> int \<Rightarrow> ('z cam_vars_scheme, int) state" where
  "ov3660_set_pll_int env bypass multiplier sys_div root_2x pre_div seld5 pclk_manual pclk_ratio =
     ov3660_set_pll env (0 < bypass) (unat (u8 multiplier)) (unat (u8 sys_div)) (unat (u8 pre_div)) (0 < root_2x)
       (unat (u8 seld5)) (0 < pclk_manual) (unat (u8 pclk_ratio))"

definition ov5640_set_pll_int ::
  "fw_env \<Rightarrow> int \<Rightarrow> int \<Rightarrow> int \<Rightarrow> int \<Rightarrow> int \<Rightarrow> int \<Rightarrow> int \<Rightarrow> int \<Rightarrow> ('z cam_vars_scheme, int) state" where
  "ov5640_set_pll_int env bypass multiplier sys_div root_2x pre_div seld5 pclk_manual pclk_ratio =
     ov5640_set_pll env (0 < bypass) (unat (u8 multiplier)) (unat (u8 sys_div)) (unat (u8 pre_div)) (0 < root_2x)
       (unat (u8 seld5)) (0 < pclk_manual) (unat (u8 pclk_ratio))"

text \<open>The position of an aspect ratio in \<open>ratio_table\<close>.\<close>

fun ratio_index :: "aspect_ratio_t \<Rightarrow> nat" where
  "ratio_index ASPECT_RATIO_4X3 = 0"
| "ratio_index ASPECT_RATIO_3X2 = 1"
| "ratio_index ASPECT_RATIO_16X10 = 2"
| "ratio_index ASPECT_RATIO_5X3 = 3"
| "ratio_index ASPECT_RATIO_16X9 = 4"
| "ratio_index ASPECT_RATIO_21X9 = 5"
| "ratio_index ASPECT_RATIO_5X4 = 6"
| "ratio_index ASPECT_RATIO_1X1 = 7"
| "ratio_index ASPECT_RATIO_9X16 = 8"

definition ov_binning :: "ratio_settings_t \<Rightarrow> nat \<Rightarrow> nat \<Rightarrow> bool" where
  "ov_binning settings w h \<longleftrightarrow> w \<le> max_width settings div 2 \<and> h \<le> max_height settings div 2"

definition ov_scale :: "ratio_settings_t \<Rightarrow> nat \<Rightarrow> nat \<Rightarrow> bool" where
  "ov_scale settings w h \<longleftrightarrow> \<not> ((w = max_width settings \<and> h = max_height settings) \<or>
     (w = max_width settings div 2 \<and> h = max_height settings div 2))"

text \<open>The part of \<open>set_framesize\<close> up to the label \<open>fail\<close>: the window, the sizes, the scaler and the image options.\<close>

definition ov_write_window ::
  "fw_env \<Rightarrow> ratio_settings_t \<Rightarrow> nat \<Rightarrow> nat \<Rightarrow> ('z cam_vars_scheme, int) state \<Rightarrow> ('z cam_vars_scheme, int) state \<Rightarrow>
     ('z cam_vars_scheme, int) state" where
  "ov_write_window env settings w h sizes options = or_return
     (any_of [ov_write_addr_reg env OV_X_ADDR_ST_H (start_x settings) (start_y settings),
        ov_write_addr_reg env OV_X_ADDR_END_H (end_x settings) (end_y settings),
        ov_write_addr_reg env OV_X_OUTPUT_SIZE_H w h])
     (until_error [sizes, ov_write_reg_bits env OV_ISP_CONTROL_01 0x20 (ov_scale settings w h), options])"

definition ov3660_sizes :: "fw_env \<Rightarrow> ratio_settings_t \<Rightarrow> bool \<Rightarrow> ('z cam_vars_scheme, int) state" where
  "ov3660_sizes env settings binning =
     (if binning then
        any_of [ov_write_addr_reg env OV_X_TOTAL_SIZE_H (total_x settings) (total_y settings div 2 + 1),
          ov_write_addr_reg env OV_X_OFFSET_H 8 2]
      else
        any_of [ov_write_addr_reg env OV_X_TOTAL_SIZE_H (total_x settings) (total_y settings),
          ov_write_addr_reg env OV_X_OFFSET_H 16 6])"

definition ov3660_clock :: "fw_env \<Rightarrow> framesize_t \<Rightarrow> ('z cam_vars_scheme, int) state" where
  "ov3660_clock env fs = do {
     x \<leftarrow> gets sensor;
     if pixformat x = PIXFORMAT_JPEG then
       (if fs = FRAMESIZE_QXGA \<or> sensor_xclk_freq_hz x = 16000000 then ov3660_set_pll env False 24 1 3 False 0 True 8
        else ov3660_set_pll env False 30 1 3 False 0 True 10)
     else
       (if FRAMESIZE_HVGA < fs then ov3660_set_pll env False 4 1 0 False 2 True 2
        else if FRAMESIZE_QVGA \<le> fs then ov3660_set_pll env False 8 1 0 False 2 True 4
        else ov3660_set_pll env False 8 1 0 False 0 True 8)
   }"

definition ov3660_settings :: "framesize_t \<Rightarrow> ratio_settings_t" where
  "ov3660_settings fs = ov3660_ratio_table ! ratio_index (res_ratio fs)"

definition ov3660_set_framesize :: "fw_env \<Rightarrow> framesize_t \<Rightarrow> ('z cam_vars_scheme, int) state" where
  "ov3660_set_framesize env fs = do {
     let fs = (if FRAMESIZE_QXGA < fs then FRAMESIZE_QXGA else fs);
     old \<leftarrow> gets (\<lambda>s. st_framesize (status (sensor s)));
     upd_status (\<lambda>st. st\<lparr>st_framesize := fs\<rparr>);
     let w = res_width fs;
     let h = res_height fs;
     let settings = ov3660_settings fs;
     upd_status (\<lambda>st. st\<lparr>st_binning := ov_binning settings w h, st_scale := ov_scale settings w h\<rparr>);
     ret \<leftarrow> ov_write_window env settings w h (ov3660_sizes env settings (ov_binning settings w h)) (ov3660_set_image_options env);
     if ret \<noteq> 0 then do {
       upd_status (\<lambda>st. st\<lparr>st_framesize := old\<rparr>);
       return ret
     } else ov3660_clock env fs
   }"

definition ov5640_sizes :: "fw_env \<Rightarrow> ratio_settings_t \<Rightarrow> nat \<Rightarrow> bool \<Rightarrow> ('z cam_vars_scheme, int) state" where
  "ov5640_sizes env settings w binning =
     (if \<not> binning then
        any_of [ov_write_addr_reg env OV_X_TOTAL_SIZE_H (total_x settings) (total_y settings),
          ov_write_addr_reg env OV_X_OFFSET_H (offset_x settings) (offset_y settings)]
      else or_return
        (if 920 < w then ov_write_addr_reg env OV_X_TOTAL_SIZE_H (total_x settings - 200) (total_y settings div 2)
         else ov_write_addr_reg env OV_X_TOTAL_SIZE_H 2060 (total_y settings div 2))
        (ov_write_addr_reg env OV_X_OFFSET_H (offset_x settings div 2) (offset_y settings div 2)))"

definition ov5640_clock :: "fw_env \<Rightarrow> framesize_t \<Rightarrow> ('z cam_vars_scheme, int) state" where
  "ov5640_clock env fs = do {
     x \<leftarrow> gets sensor;
     if pixformat x = PIXFORMAT_JPEG then
       ov5640_set_pll env False
         (if fs < FRAMESIZE_QVGA \<or> sensor_xclk_freq_hz x = 16000000 then 160 else if fs < FRAMESIZE_XGA then 180 else 200)
         4 2 False 2 True 4
     else
       (if FRAMESIZE_HVGA < fs then ov5640_set_pll env False 10 1 2 False 1 True 2
        else if FRAMESIZE_QVGA \<le> fs then ov5640_set_pll env False 8 1 1 False 1 True 4
        else ov5640_set_pll env False 20 1 1 False 1 True 8)
   }"

definition ov5640_settings :: "framesize_t \<Rightarrow> ratio_settings_t" where
  "ov5640_settings fs = ov5640_ratio_table ! ratio_index (res_ratio fs)"

text \<open>The frame size is stored before it is checked.\<close>

definition ov5640_set_framesize :: "fw_env \<Rightarrow> framesize_t \<Rightarrow> ('z cam_vars_scheme, int) state" where
  "ov5640_set_framesize env fs = do {
     old \<leftarrow> gets (\<lambda>s. st_framesize (status (sensor s)));
     upd_status (\<lambda>st. st\<lparr>st_framesize := fs\<rparr>);
     if FRAMESIZE_QSXGA < fs then return (-1)
     else do {
       let w = res_width fs;
       let h = res_height fs;
       let settings = ov5640_settings fs;
       upd_status (\<lambda>st. st\<lparr>st_binning := ov_binning settings w h, st_scale := ov_scale settings w h\<rparr>);
       ret \<leftarrow> ov_write_window env settings w h (ov5640_sizes env settings w (ov_binning settings w h)) (ov5640_set_image_options env);
       if ret \<noteq> 0 then do {
         upd_status (\<lambda>st. st\<lparr>st_framesize := old\<rparr>);
         return ret
       } else ov5640_clock env fs
     }
   }"

section \<open>Image options and switches\<close>

text \<open>The switch is stored before the registers are written.\<close>

definition ov_set_hmirror :: "('z cam_vars_scheme, int) state \<Rightarrow> int \<Rightarrow> ('z cam_vars_scheme, int) state" where
  "ov_set_hmirror set_image_options enable = do {
     upd_status (\<lambda>st. st\<lparr>st_hmirror := u8 enable\<rparr>);
     set_image_options
   }"

definition ov_set_vflip :: "('z cam_vars_scheme, int) state \<Rightarrow> int \<Rightarrow> ('z cam_vars_scheme, int) state" where
  "ov_set_vflip set_image_options enable = do {
     upd_status (\<lambda>st. st\<lparr>st_vflip := u8 enable\<rparr>);
     set_image_options
   }"

definition ov_set_quality :: "fw_env \<Rightarrow> int \<Rightarrow> ('z cam_vars_scheme, int) state" where
  "ov_set_quality env qs =
     then_store (write16 env OV_COMPRESSION_CTRL07 (u8 (qs AND 0x3F))) (\<lambda>st. st\<lparr>st_quality := u8 qs\<rparr>)"

definition ov_set_colorbar :: "fw_env \<Rightarrow> int \<Rightarrow> ('z cam_vars_scheme, int) state" where
  "ov_set_colorbar env enable =
     then_store (ov_write_reg_bits env OV_PRE_ISP_TEST_SETTING_1 OV_TEST_COLOR_BAR (enable \<noteq> 0))
       (\<lambda>st. st\<lparr>st_colorbar := u8 enable\<rparr>)"

definition ov_set_gain_ctrl :: "fw_env \<Rightarrow> int \<Rightarrow> ('z cam_vars_scheme, int) state" where
  "ov_set_gain_ctrl env enable =
     then_store (ov_write_reg_bits env OV_AEC_PK_MANUAL OV_AEC_PK_MANUAL_AGC_MANUALEN (enable = 0))
       (\<lambda>st. st\<lparr>st_agc := u8 enable\<rparr>)"

definition ov_set_exposure_ctrl :: "fw_env \<Rightarrow> int \<Rightarrow> ('z cam_vars_scheme, int) state" where
  "ov_set_exposure_ctrl env enable =
     then_store (ov_write_reg_bits env OV_AEC_PK_MANUAL OV_AEC_PK_MANUAL_AEC_MANUALEN (enable = 0))
       (\<lambda>st. st\<lparr>st_aec := u8 enable\<rparr>)"

definition ov_set_whitebal :: "fw_env \<Rightarrow> int \<Rightarrow> ('z cam_vars_scheme, int) state" where
  "ov_set_whitebal env enable =
     then_store (ov_write_reg_bits env OV_ISP_CONTROL_01 0x01 (enable \<noteq> 0)) (\<lambda>st. st\<lparr>st_awb := u8 enable\<rparr>)"

definition ov_set_dcw_dsp :: "fw_env \<Rightarrow> int \<Rightarrow> ('z cam_vars_scheme, int) state" where
  "ov_set_dcw_dsp env enable =
     then_store (ov_write_reg_bits env 0x5183 0x80 (enable = 0)) (\<lambda>st. st\<lparr>st_dcw := u8 enable\<rparr>)"

definition ov_set_aec2 :: "fw_env \<Rightarrow> int \<Rightarrow> ('z cam_vars_scheme, int) state" where
  "ov_set_aec2 env enable =
     then_store (ov_write_reg_bits env 0x3A00 0x04 (enable \<noteq> 0)) (\<lambda>st. st\<lparr>st_aec2 := u8 enable\<rparr>)"

definition ov_set_bpc_dsp :: "fw_env \<Rightarrow> int \<Rightarrow> ('z cam_vars_scheme, int) state" where
  "ov_set_bpc_dsp env enable =
     then_store (ov_write_reg_bits env 0x5000 0x04 (enable \<noteq> 0)) (\<lambda>st. st\<lparr>st_bpc := u8 enable\<rparr>)"

definition ov_set_wpc_dsp :: "fw_env \<Rightarrow> int \<Rightarrow> ('z cam_vars_scheme, int) state" where
  "ov_set_wpc_dsp env enable =
     then_store (ov_write_reg_bits env 0x5000 0x02 (enable \<noteq> 0)) (\<lambda>st. st\<lparr>st_wpc := u8 enable\<rparr>)"

definition ov_set_raw_gma_dsp :: "fw_env \<Rightarrow> int \<Rightarrow> ('z cam_vars_scheme, int) state" where
  "ov_set_raw_gma_dsp env enable =
     then_store (ov_write_reg_bits env 0x5000 0x20 (enable \<noteq> 0)) (\<lambda>st. st\<lparr>st_raw_gma := u8 enable\<rparr>)"

definition ov_set_lenc_dsp :: "fw_env \<Rightarrow> int \<Rightarrow> ('z cam_vars_scheme, int) state" where
  "ov_set_lenc_dsp env enable =
     then_store (ov_write_reg_bits env 0x5000 0x80 (enable \<noteq> 0)) (\<lambda>st. st\<lparr>st_lenc := u8 enable\<rparr>)"

section \<open>Gain, exposure\<close>

text \<open>The gain register holds 6.4 bits; reading rounds up.\<close>

definition ov_gain_of_regs :: "byte \<Rightarrow> byte \<Rightarrow> int" where
  "ov_gain_of_regs ra rb =
     (drop_bit 4 (uint rb AND 0xF0) OR push_bit 4 (uint ra AND 0x03)) + (if uint rb AND 0x0F \<noteq> 0 then 1 else 0)"

definition ov_get_agc_gain :: "fw_env \<Rightarrow> ('z cam_vars_scheme, int) state" where
  "ov_get_agc_gain env = do {
     ra \<leftarrow> read16 env 0x350A;
     rb \<leftarrow> read16 env 0x350B;
     return (ov_gain_of_regs ra rb)
   }"

definition ov_gain_clamp :: "int \<Rightarrow> int" where
  "ov_gain_clamp gain = (if gain < 0 then 0 else if 64 < gain then 64 else gain)"

definition ov_gain_regs :: "int \<Rightarrow> byte \<times> byte" where
  "ov_gain_regs gain =
     (let gainv = push_bit 4 gain;
          gainv = (if gainv \<noteq> 0 then gainv - 1 else gainv)
      in (u8 (drop_bit 8 gainv), u8 (gainv AND 0xFF)))"

definition ov_set_agc_gain :: "fw_env \<Rightarrow> int \<Rightarrow> ('z cam_vars_scheme, int) state" where
  "ov_set_agc_gain env gain =
     (let g = ov_gain_clamp gain
      in then_store (any_of [write16 env 0x350A (fst (ov_gain_regs g)), write16 env 0x350B (snd (ov_gain_regs g))])
           (\<lambda>st. st\<lparr>st_agc_gain := u8 g\<rparr>))"

definition ov_aec_of_regs :: "byte \<Rightarrow> byte \<Rightarrow> byte \<Rightarrow> int" where
  "ov_aec_of_regs ra rb rc =
     push_bit 12 (uint ra AND 0x0F) OR push_bit 4 (uint rb AND 0xFF) OR drop_bit 4 (uint rc AND 0xF0)"

definition ov_get_aec_value :: "fw_env \<Rightarrow> ('z cam_vars_scheme, int) state" where
  "ov_get_aec_value env = do {
     ra \<leftarrow> read16 env 0x3500;
     rb \<leftarrow> read16 env 0x3501;
     rc \<leftarrow> read16 env 0x3502;
     return (ov_aec_of_regs ra rb rc)
   }"

text \<open>The three exposure registers for a value.\<close>

definition ov_aec_regs :: "int \<Rightarrow> byte \<times> byte \<times> byte" where
  "ov_aec_regs v = (u8 (drop_bit 12 v AND 0x0F), u8 (drop_bit 4 v AND 0xFF), u8 (push_bit 4 v AND 0xF0))"

definition ov_set_aec_value :: "fw_env \<Rightarrow> int \<Rightarrow> ('z cam_vars_scheme, int) state" where
  "ov_set_aec_value env value = do {
     max_val \<leftarrow> ov_read_reg16 env 0x380E;
     let v = min value max_val;
     then_store (any_of
         [write16 env 0x3500 (fst (ov_aec_regs v)), write16 env 0x3501 (fst (snd (ov_aec_regs v))),
          write16 env 0x3502 (snd (snd (ov_aec_regs v)))])
       (\<lambda>st. st\<lparr>st_aec_value := word_of_int v\<rparr>)
   }"

definition ov_set_ae_level :: "fw_env \<Rightarrow> int \<Rightarrow> ('z cam_vars_scheme, int) state" where
  "ov_set_ae_level env level =
     (if level < -5 \<or> 5 < level then return (-1)
      else
        let target_level = (level + 5) * 10 + 5;
            level_low = target_level * 23 sdiv 25;
            level_high = target_level * 27 sdiv 25;
            fast_low = drop_bit 1 level_low;
            fast_high = min 255 (push_bit 1 level_high)
        in then_store (any_of
             [write16 env 0x3A0F (u8 level_high), write16 env 0x3A10 (u8 level_low),
              write16 env 0x3A1B (u8 level_high), write16 env 0x3A1E (u8 level_low),
              write16 env 0x3A11 (u8 fast_high), write16 env 0x3A1F (u8 fast_low)])
             (\<lambda>st. st\<lparr>st_ae_level := u8 level\<rparr>))"

section \<open>White balance\<close>

text \<open>The red, green and blue gains of a mode; the automatic mode 0 writes none.\<close>

definition ov_wb_gains :: "int \<Rightarrow> (u16 \<times> u16 \<times> u16) option" where
  "ov_wb_gains md =
     (if md = 1 then Some (0x5E0, 0x410, 0x540)
      else if md = 2 then Some (0x650, 0x410, 0x4F0)
      else if md = 3 then Some (0x520, 0x410, 0x660)
      else if md = 4 then Some (0x420, 0x3F0, 0x710)
      else None)"

definition ov_set_wb_mode :: "fw_env \<Rightarrow> int \<Rightarrow> ('z cam_vars_scheme, int) state" where
  "ov_set_wb_mode env md =
     (if md < 0 \<or> 4 < md then return (-1)
      else or_return (write16 env 0x3406 (of_flag (md \<noteq> 0)))
        (then_store
           (case ov_wb_gains md of
              None \<Rightarrow> return 0
            | Some (r, g, b) \<Rightarrow>
                any_of [ov_write_reg16 env 0x3400 r, ov_write_reg16 env 0x3402 g, ov_write_reg16 env 0x3404 b])
           (\<lambda>st. st\<lparr>st_wb_mode := u8 md\<rparr>)))"

text \<open>\<open>set_awb_gain_dsp\<close> of the drivers with a \<open>set_wb_mode\<close>: the mode is kept in the status.\<close>

definition ov_set_awb_gain_dsp ::
  "(int \<Rightarrow> ('z cam_vars_scheme, int) state) \<Rightarrow> int \<Rightarrow> ('z cam_vars_scheme, int) state" where
  "ov_set_awb_gain_dsp wb_mode enable = do {
     old_mode \<leftarrow> gets (\<lambda>s. st_wb_mode (status (sensor s)));
     then_store (wb_mode (if enable \<noteq> 0 then uint old_mode else 0))
       (\<lambda>st. st\<lparr>st_wb_mode := old_mode, st_awb_gain := u8 enable\<rparr>)
   }"

section \<open>Picture\<close>

definition ov_set_special_effect :: "fw_env \<Rightarrow> byte list list \<Rightarrow> int \<Rightarrow> ('z cam_vars_scheme, int) state" where
  "ov_set_special_effect env sensor_special_effects effect =
     (if effect < 0 \<or> 6 < effect then return (-1)
      else let regs = sensor_special_effects ! nat effect
           in then_store (any_of
                [write16 env 0x5580 (regs ! 0), write16 env 0x5583 (regs ! 1),
                 write16 env 0x5584 (regs ! 2), write16 env 0x5003 (regs ! 3)])
                (\<lambda>st. st\<lparr>st_special_effect := u8 effect\<rparr>))"

definition ov_brightness_value :: "int \<Rightarrow> byte" where
  "ov_brightness_value level =
     (if abs level = 3 then 0x30 else if abs level = 2 then 0x20 else if abs level = 1 then 0x10 else 0)"

definition ov_set_brightness :: "fw_env \<Rightarrow> int \<Rightarrow> ('z cam_vars_scheme, int) state" where
  "ov_set_brightness env level =
     then_store (until_error [write16 env 0x5587 (ov_brightness_value level),
         ov_write_reg_bits env 0x5588 0x08 (level \<in> {-1, -2, -3})])
       (\<lambda>st. st\<lparr>st_brightness := u8 level\<rparr>)"

definition ov_set_contrast :: "fw_env \<Rightarrow> int \<Rightarrow> ('z cam_vars_scheme, int) state" where
  "ov_set_contrast env level =
     (if 3 < level \<or> level < -3 then return (-1)
      else then_store (write16 env 0x5586 (u8 (push_bit 3 (level + 4)))) (\<lambda>st. st\<lparr>st_contrast := u8 level\<rparr>))"

definition ov_set_saturation :: "fw_env \<Rightarrow> byte list list \<Rightarrow> int \<Rightarrow> ('z cam_vars_scheme, int) state" where
  "ov_set_saturation env sensor_saturation_levels level =
     (if 4 < level \<or> level < -4 then return (-1)
      else let regs = sensor_saturation_levels ! nat (level + 4)
           in then_store (until_error (map (\<lambda>i. write16 env (0x5381 + of_nat i) (regs ! i)) [0..<11]))
                (\<lambda>st. st\<lparr>st_saturation := u8 level\<rparr>))"

definition ov_set_sharpness :: "fw_env \<Rightarrow> int \<Rightarrow> ('z cam_vars_scheme, int) state" where
  "ov_set_sharpness env level =
     (if 3 < level \<or> level < -3 then return (-1)
      else let mt_offset_2 = u8 ((level + 3) * 8);
               mt_offset_1 = mt_offset_2 + 1
           in then_store (any_of
                [ov_write_reg_bits env 0x5308 0x40 False, write16 env 0x5300 0x10, write16 env 0x5301 0x10,
                 write16 env 0x5302 mt_offset_1, write16 env 0x5303 mt_offset_2, write16 env 0x5309 0x10,
                 write16 env 0x530A 0x10, write16 env 0x530B 0x04, write16 env 0x530C 0x06])
                (\<lambda>st. st\<lparr>st_sharpness := u8 level\<rparr>))"

definition ov_set_gainceiling :: "fw_env \<Rightarrow> int \<Rightarrow> ('z cam_vars_scheme, int) state" where
  "ov_set_gainceiling env level =
     then_store (any_of [write16 env 0x3A18 (u8 (drop_bit 8 level AND 3)), write16 env 0x3A19 (u8 (level AND 0xFF))])
       (\<lambda>st. st\<lparr>st_gainceiling := u8 level\<rparr>)"

definition ov_get_denoise :: "fw_env \<Rightarrow> ('z cam_vars_scheme, int) state" where
  "ov_get_denoise env = do {
     c \<leftarrow> ov_check_reg_mask env 0x5308 0x10;
     if c = 0 then return 0
     else do { v \<leftarrow> read16 env 0x5306; return (uint v div 4 + 1) }
   }"

definition ov_set_denoise :: "fw_env \<Rightarrow> int \<Rightarrow> ('z cam_vars_scheme, int) state" where
  "ov_set_denoise env level =
     (if level < 0 \<or> 8 < level then return (-1)
      else then_store (until_error (ov_write_reg_bits env 0x5308 0x10 (0 < level) #
               (if 0 < level then [write16 env 0x5306 (u8 ((level - 1) * 4))] else [])))
             (\<lambda>st. st\<lparr>st_denoise := u8 level\<rparr>))"

section \<open>Raw registers\<close>

text \<open>The width of the access, 8, 16 or 24 bits, is taken from the mask.\<close>

definition ov_read_wide :: "fw_env \<Rightarrow> int \<Rightarrow> int \<Rightarrow> ('z cam_vars_scheme, int) state" where
  "ov_read_wide env reg msk =
     (if 0xFF < msk then do {
        ret \<leftarrow> ov_read_reg16 env (word_of_int reg);
        if 0xFFFF < msk then do {
          ret2 \<leftarrow> read16 env (word_of_int (reg + 2));
          return (push_bit 8 ret OR uint ret2)
        } else return ret
      } else do { b \<leftarrow> read16 env (word_of_int reg); return (uint b) })"

definition ov_get_reg :: "fw_env \<Rightarrow> int \<Rightarrow> int \<Rightarrow> ('z cam_vars_scheme, int) state" where
  "ov_get_reg env reg msk = do {
     ret \<leftarrow> ov_read_wide env reg msk;
     return (if 0 < ret then ret AND msk else ret)
   }"

definition ov_set_reg :: "fw_env \<Rightarrow> int \<Rightarrow> int \<Rightarrow> int \<Rightarrow> ('z cam_vars_scheme, int) state" where
  "ov_set_reg env reg msk value = do {
     ret \<leftarrow> ov_read_wide env reg msk;
     let v = (ret AND NOT msk) OR (value AND msk);
     if 0xFFFF < msk then do {
       r \<leftarrow> ov_write_reg16 env (word_of_int reg) (word_of_int (drop_bit 8 v));
       if 0 \<le> r then write16 env (word_of_int (reg + 2)) (u8 (v AND 0xFF)) else return r
     } else if 0xFF < msk then ov_write_reg16 env (word_of_int reg) (word_of_int v)
     else write16 env (word_of_int reg) (u8 v)
   }"

definition ov_write_addr_int :: "fw_env \<Rightarrow> u16 \<Rightarrow> int \<Rightarrow> int \<Rightarrow> ('z cam_vars_scheme, int) state" where
  "ov_write_addr_int env reg x y =
     ov_write_addr_reg env reg (unat (word_of_int x :: u16)) (unat (word_of_int y :: u16))"

definition ov_set_res_raw ::
  "fw_env \<Rightarrow> ('z cam_vars_scheme, int) state \<Rightarrow> int \<Rightarrow> int \<Rightarrow> int \<Rightarrow> int \<Rightarrow> int \<Rightarrow> int \<Rightarrow> int \<Rightarrow> int \<Rightarrow> int \<Rightarrow> int \<Rightarrow> bool \<Rightarrow> bool \<Rightarrow>
     ('z cam_vars_scheme, int) state" where
  "ov_set_res_raw env set_image_options startX startY endX endY offsetX offsetY totalX totalY outputX outputY scal binning = do {
     ret \<leftarrow> any_of
       [ov_write_addr_int env OV_X_ADDR_ST_H startX startY,
        ov_write_addr_int env OV_X_ADDR_END_H endX endY,
        ov_write_addr_int env OV_X_OFFSET_H offsetX offsetY,
        ov_write_addr_int env OV_X_TOTAL_SIZE_H totalX totalY,
        ov_write_addr_int env OV_X_OUTPUT_SIZE_H outputX outputY,
        ov_write_reg_bits env OV_ISP_CONTROL_01 0x20 scal];
     if ret = 0 then do {
       upd_status (\<lambda>st. st\<lparr>st_scale := scal, st_binning := binning\<rparr>);
       set_image_options
     } else return ret
   }"

definition ov_set_xclk :: "fw_env \<Rightarrow> nat \<Rightarrow> int \<Rightarrow> ('z cam_vars_scheme, esp_err) state" where
  "ov_set_xclk env timer xclk = do {
     let hz = sint (word_of_int (xclk * 1000000) :: u32);
     upd_sensor (\<lambda>x. x\<lparr>sensor_xclk_freq_hz := hz\<rparr>);
     xclk_timer_conf env timer hz
   }"

section \<open>Status\<close>

definition load_int ::
  "('z cam_vars_scheme, int) state \<Rightarrow> (int \<Rightarrow> camera_status_t \<Rightarrow> camera_status_t) \<Rightarrow> ('z cam_vars_scheme, unit) state" where
  "load_int m f = do { v \<leftarrow> m; upd_status (f v) }"

definition ov_init_status :: "fw_env \<Rightarrow> ('z cam_vars_scheme, int) state" where
  "ov_init_status env = do {
     upd_status (\<lambda>st. st\<lparr>st_brightness := 0, st_contrast := 0, st_saturation := 0\<rparr>);
     load (read16 env 0x5303) (\<lambda>b st. st\<lparr>st_sharpness := u8 (uint b div 8 - 3)\<rparr>);
     load_int (ov_get_denoise env) (\<lambda>v st. st\<lparr>st_denoise := u8 v\<rparr>);
     upd_status (\<lambda>st. st\<lparr>st_ae_level := 0\<rparr>);
     load_int (ov_read_reg16 env 0x3A18) (\<lambda>v st. st\<lparr>st_gainceiling := u8 (v AND 0x3FF)\<rparr>);
     load (ov_check_reg_mask env OV_ISP_CONTROL_01 0x01) (\<lambda>b st. st\<lparr>st_awb := b\<rparr>);
     load (ov_check_reg_mask env 0x5183 0x80) (\<lambda>b st. st\<lparr>st_dcw := of_flag (b = 0)\<rparr>);
     load (ov_check_reg_mask env OV_AEC_PK_MANUAL OV_AEC_PK_MANUAL_AGC_MANUALEN) (\<lambda>b st. st\<lparr>st_agc := of_flag (b = 0)\<rparr>);
     load (ov_check_reg_mask env OV_AEC_PK_MANUAL OV_AEC_PK_MANUAL_AEC_MANUALEN) (\<lambda>b st. st\<lparr>st_aec := of_flag (b = 0)\<rparr>);
     load (ov_check_reg_mask env OV_TIMING_TC_REG21 OV_TIMING_TC_REG21_HMIRROR) (\<lambda>b st. st\<lparr>st_hmirror := b\<rparr>);
     load (ov_check_reg_mask env OV_TIMING_TC_REG20 OV_TIMING_TC_REG20_VFLIP) (\<lambda>b st. st\<lparr>st_vflip := b\<rparr>);
     load (ov_check_reg_mask env OV_PRE_ISP_TEST_SETTING_1 OV_TEST_COLOR_BAR) (\<lambda>b st. st\<lparr>st_colorbar := b\<rparr>);
     load (ov_check_reg_mask env 0x5000 0x04) (\<lambda>b st. st\<lparr>st_bpc := b\<rparr>);
     load (ov_check_reg_mask env 0x5000 0x02) (\<lambda>b st. st\<lparr>st_wpc := b\<rparr>);
     load (ov_check_reg_mask env 0x5000 0x20) (\<lambda>b st. st\<lparr>st_raw_gma := b\<rparr>);
     load (ov_check_reg_mask env 0x5000 0x80) (\<lambda>b st. st\<lparr>st_lenc := b\<rparr>);
     load (read16 env OV_COMPRESSION_CTRL07) (\<lambda>b st. st\<lparr>st_quality := b AND 0x3F\<rparr>);
     upd_status (\<lambda>st. st\<lparr>st_special_effect := 0, st_wb_mode := 0\<rparr>);
     load (ov_check_reg_mask env 0x3406 0x01) (\<lambda>b st. st\<lparr>st_awb_gain := b\<rparr>);
     load_int (ov_get_agc_gain env) (\<lambda>v st. st\<lparr>st_agc_gain := u8 v\<rparr>);
     load_int (ov_get_aec_value env) (\<lambda>v st. st\<lparr>st_aec_value := word_of_int v\<rparr>);
     load (ov_check_reg_mask env 0x3A00 0x04) (\<lambda>b st. st\<lparr>st_aec2 := b\<rparr>);
     return 0
   }"

section \<open>Reset and the drivers\<close>

definition ov3660_reset :: "fw_env \<Rightarrow> ('z cam_vars_scheme, int) state" where
  "ov3660_reset env = or_return (write16 env OV_SYSTEM_CTROL0 0x82) (do {
     delay_ms env 100;
     or_return (ov_write_regs env ov3660_default_regs) (do {
       ret \<leftarrow> ov_set_ae_level env 0;
       delay_ms env 100;
       return ret
     })
   })"

definition ov5640_reset :: "fw_env \<Rightarrow> ('z cam_vars_scheme, int) state" where
  "ov5640_reset env = do {
     delay_ms env 100;
     or_return (write16 env OV_SYSTEM_CTROL0 0x82) (do {
       delay_ms env 100;
       or_return (ov_write_regs env ov5640_default_regs) (do {
         delay_ms env 100;
         return 0
       })
     })
   }"

text \<open>The assignments that the two \<open>init\<close> functions share.\<close>

fun ov_wide_ops :: "fw_env \<Rightarrow> sensor_op \<Rightarrow> ('z cam_vars_scheme, int) state" where
  "ov_wide_ops env Init_status = ov_init_status env"
| "ov_wide_ops env (Set_contrast v) = ov_set_contrast env v"
| "ov_wide_ops env (Set_brightness v) = ov_set_brightness env v"
| "ov_wide_ops env (Set_sharpness v) = ov_set_sharpness env v"
| "ov_wide_ops env (Set_gainceiling v) = ov_set_gainceiling env v"
| "ov_wide_ops env (Set_quality v) = ov_set_quality env v"
| "ov_wide_ops env (Set_colorbar v) = ov_set_colorbar env v"
| "ov_wide_ops env (Set_gain_ctrl v) = ov_set_gain_ctrl env v"
| "ov_wide_ops env (Set_exposure_ctrl v) = ov_set_exposure_ctrl env v"
| "ov_wide_ops env (Set_whitebal v) = ov_set_whitebal env v"
| "ov_wide_ops env (Set_aec2 v) = ov_set_aec2 env v"
| "ov_wide_ops env (Set_aec_value v) = ov_set_aec_value env v"
| "ov_wide_ops env (Set_wb_mode v) = ov_set_wb_mode env v"
| "ov_wide_ops env (Set_ae_level v) = ov_set_ae_level env v"
| "ov_wide_ops env (Set_dcw v) = ov_set_dcw_dsp env v"
| "ov_wide_ops env (Set_bpc v) = ov_set_bpc_dsp env v"
| "ov_wide_ops env (Set_wpc v) = ov_set_wpc_dsp env v"
| "ov_wide_ops env (Set_awb_gain v) = ov_set_awb_gain_dsp (ov_set_wb_mode env) v"
| "ov_wide_ops env (Set_agc_gain v) = ov_set_agc_gain env v"
| "ov_wide_ops env (Set_raw_gma v) = ov_set_raw_gma_dsp env v"
| "ov_wide_ops env (Set_lenc v) = ov_set_lenc_dsp env v"
| "ov_wide_ops env (Set_denoise v) = ov_set_denoise env v"
| "ov_wide_ops env _ = not_supported"

fun ov3660_ops :: "fw_env \<Rightarrow> sensor_op \<Rightarrow> ('z cam_vars_scheme, int) state option" where
  "ov3660_ops env Reset_sensor = Some (ov3660_reset env)"
| "ov3660_ops env (Set_pixformat pf) = Some (ov3660_set_pixformat env pf)"
| "ov3660_ops env (Set_framesize fs) = Some (ov3660_set_framesize env fs)"
| "ov3660_ops env (Set_saturation v) = Some (ov_set_saturation env ov3660_saturation_levels v)"
| "ov3660_ops env (Set_special_effect v) = Some (ov_set_special_effect env ov3660_special_effects v)"
| "ov3660_ops env (Set_hmirror v) = Some (ov_set_hmirror (ov3660_set_image_options env) v)"
| "ov3660_ops env (Set_vflip v) = Some (ov_set_vflip (ov3660_set_image_options env) v)"
| "ov3660_ops env sop = Some (ov_wide_ops env sop)"

fun ov5640_ops :: "fw_env \<Rightarrow> sensor_op \<Rightarrow> ('z cam_vars_scheme, int) state option" where
  "ov5640_ops env Reset_sensor = Some (ov5640_reset env)"
| "ov5640_ops env (Set_pixformat pf) = Some (ov5640_set_pixformat env pf)"
| "ov5640_ops env (Set_framesize fs) = Some (ov5640_set_framesize env fs)"
| "ov5640_ops env (Set_saturation v) = Some (ov_set_saturation env ov5640_saturation_levels v)"
| "ov5640_ops env (Set_special_effect v) = Some (ov_set_special_effect env ov5640_special_effects v)"
| "ov5640_ops env (Set_hmirror v) = Some (ov_set_hmirror (ov5640_set_image_options env) v)"
| "ov5640_ops env (Set_vflip v) = Some (ov_set_vflip (ov5640_set_image_options env) v)"
| "ov5640_ops env sop = Some (ov_wide_ops env sop)"

end
