(* ===== verification/NtTables.thy ===== *)
theory NtTables
  imports Prelude
begin

text \<open>
  The registers and register tables of the sensor NT99141 that the configuration uses.
  A settings table is the list of its register and value pairs, in order; the register macros of the header are
  expanded.  Tables that the source ends by a marker keep the marker as their last pair.
\<close>

definition NT_SYSTEM_CTROL0 :: u16 where "NT_SYSTEM_CTROL0 = 0x3021"
definition NT_PRE_ISP_TEST_SETTING_1 :: u16 where "NT_PRE_ISP_TEST_SETTING_1 = 0x3025"
definition NT_AEC_PK_MANUAL :: u16 where "NT_AEC_PK_MANUAL = 0x3201"
definition NT_TIMING_TC_REG20 :: u16 where "NT_TIMING_TC_REG20 = 0x3022"
definition NT_TIMING_TC_REG21 :: u16 where "NT_TIMING_TC_REG21 = 0x3022"
definition NT_X_ADDR_ST_H :: u16 where "NT_X_ADDR_ST_H = 0x3800"
definition NT_X_ADDR_END_H :: u16 where "NT_X_ADDR_END_H = 0x3804"
definition NT_X_OUTPUT_SIZE_H :: u16 where "NT_X_OUTPUT_SIZE_H = 0x3808"
definition NT_X_TOTAL_SIZE_H :: u16 where "NT_X_TOTAL_SIZE_H = 0x380C"
definition NT_X_OFFSET_H :: u16 where "NT_X_OFFSET_H = 0x3810"
definition NT_ISP_CONTROL_01 :: u16 where "NT_ISP_CONTROL_01 = 0x3021"
definition NT_COMPRESSION_CTRL07 :: u16 where "NT_COMPRESSION_CTRL07 = 0x3401"
definition NT_TEST_COLOR_BAR :: byte where "NT_TEST_COLOR_BAR = 0x02"
definition NT_AEC_PK_MANUAL_AGC_MANUALEN :: byte where "NT_AEC_PK_MANUAL_AGC_MANUALEN = 0x02"
definition NT_AEC_PK_MANUAL_AEC_MANUALEN :: byte where "NT_AEC_PK_MANUAL_AEC_MANUALEN = 0x01"
definition NT_TIMING_TC_REG20_VFLIP :: byte where "NT_TIMING_TC_REG20_VFLIP = 0x01"
definition NT_TIMING_TC_REG21_HMIRROR :: byte where "NT_TIMING_TC_REG21_HMIRROR = 0x02"

definition nt99141_default_regs :: "(u16 \<times> u16) list" where
  "nt99141_default_regs =
     [(0x3021, 0x00), (0xFFFF, 0x64), (0x3109, 0x04), (0x3040, 0x04), (0x3041, 0x02), (0x3042, 0xFF),
      (0x3043, 0x08), (0x3052, 0xE0), (0x305F, 0x33), (0x3100, 0x07), (0x3106, 0x03), (0x3105, 0x01),
      (0x3108, 0x05), (0x3110, 0x22), (0x3111, 0x57), (0x3112, 0x22), (0x3113, 0x55), (0x3114, 0x05),
      (0x3135, 0x00), (0x32F0, 0x01), (0x3290, 0x01), (0x3291, 0x80), (0x3296, 0x01), (0x3297, 0x73),
      (0x3250, 0x80), (0x3251, 0x03), (0x3252, 0xFF), (0x3253, 0x00), (0x3254, 0x03), (0x3255, 0xFF),
      (0x3256, 0x00), (0x3257, 0x50), (0x3270, 0x00), (0x3271, 0x0C), (0x3272, 0x18), (0x3273, 0x32),
      (0x3274, 0x44), (0x3275, 0x54), (0x3276, 0x70), (0x3277, 0x88), (0x3278, 0x9D), (0x3279, 0xB0),
      (0x327A, 0xCF), (0x327B, 0xE2), (0x327C, 0xEF), (0x327D, 0xF7), (0x327E, 0xFF), (0x3302, 0x00),
      (0x3303, 0x40), (0x3304, 0x00), (0x3305, 0x96), (0x3306, 0x00), (0x3307, 0x29), (0x3308, 0x07),
      (0x3309, 0xBA), (0x330A, 0x06), (0x330B, 0xF5), (0x330C, 0x01), (0x330D, 0x51), (0x330E, 0x01),
      (0x330F, 0x30), (0x3310, 0x07), (0x3311, 0x16), (0x3312, 0x07), (0x3313, 0xBA), (0x3326, 0x02),
      (0x32F6, 0x0F), (0x32F9, 0x42), (0x32FA, 0x24), (0x3325, 0x4A), (0x3330, 0x00), (0x3331, 0x0A),
      (0x3332, 0xFF), (0x3338, 0x30), (0x3339, 0x84), (0x333A, 0x48), (0x333F, 0x07), (0x3360, 0x10),
      (0x3361, 0x18), (0x3362, 0x1F), (0x3363, 0x37), (0x3364, 0x80), (0x3365, 0x80), (0x3366, 0x68),
      (0x3367, 0x60), (0x3368, 0x30), (0x3369, 0x28), (0x336A, 0x20), (0x336B, 0x10), (0x336C, 0x00),
      (0x336D, 0x20), (0x336E, 0x1C), (0x336F, 0x18), (0x3370, 0x10), (0x3371, 0x38), (0x3372, 0x3C),
      (0x3373, 0x3F), (0x3374, 0x3F), (0x338A, 0x34), (0x338B, 0x7F), (0x338C, 0x10), (0x338D, 0x23),
      (0x338E, 0x7F), (0x338F, 0x14), (0x3375, 0x08), (0x3376, 0x0C), (0x3377, 0x18), (0x3378, 0x20),
      (0x3012, 0x02), (0x3013, 0xD0), (0x3025, 0x02), (0x00, 0x00)]"

definition nt99141_fmt_jpeg :: "(u16 \<times> u16) list" where
  "nt99141_fmt_jpeg =
     [(0x32F0, 0x70), (0x00, 0x00)]"

definition nt99141_fmt_raw :: "(u16 \<times> u16) list" where
  "nt99141_fmt_raw =
     [(0x32F0, 0x50), (0x00, 0x00)]"

definition nt99141_fmt_grayscale :: "(u16 \<times> u16) list" where
  "nt99141_fmt_grayscale =
     [(0x32F1, 0x01), (0x00, 0x00)]"

definition nt99141_fmt_yuv422 :: "(u16 \<times> u16) list" where
  "nt99141_fmt_yuv422 =
     [(0x32F0, 0x00), (0x00, 0x00)]"

definition nt99141_fmt_rgb565 :: "(u16 \<times> u16) list" where
  "nt99141_fmt_rgb565 =
     [(0x32F0, 0x01), (0x00, 0x00)]"

definition nt99141_framesize_HD :: "(u16 \<times> u16) list" where
  "nt99141_framesize_HD =
     [(0x3021, 0x00), (0xFFFF, 0x64), (0x32BF, 0x60), (0x32C0, 0x5A), (0x32C1, 0x5A), (0x32C2, 0x5A),
      (0x32C3, 0x00), (0x32C4, 0x20), (0x32C5, 0x20), (0x32C6, 0x20), (0x32C7, 0x00), (0x32C8, 0x3C),
      (0x32C9, 0x5A), (0x32CA, 0x7A), (0x32CB, 0x7A), (0x32CC, 0x7A), (0x32CD, 0x7A), (0x32DB, 0x5E),
      (0x32F0, 0x70), (0x3400, 0x08), (0x3400, 0x00), (0x3401, 0x4E), (0x3404, 0x00), (0x3405, 0x00),
      (0x3410, 0x00), (0x3200, 0x3E), (0x3201, 0x0F), (0x3028, 0x0F), (0x3029, 0x00), (0x302A, 0x08),
      (0x3022, 0x24), (0x3023, 0x24), (0x3002, 0x00), (0x3003, 0x04), (0x3004, 0x00), (0x3005, 0x04),
      (0x3006, 0x05), (0x3007, 0x03), (0x3008, 0x02), (0x3009, 0xD3), (0x300A, 0x06), (0x300B, 0x7C),
      (0x300C, 0x02), (0x300D, 0xE0), (0x300E, 0x05), (0x300F, 0x00), (0x3010, 0x02), (0x3011, 0xD0),
      (0x32B8, 0x3F), (0x32B9, 0x31), (0x32BB, 0x87), (0x32BC, 0x38), (0x32BD, 0x3C), (0x32BE, 0x34),
      (0x3201, 0x3F), (0x3021, 0x06), (0x3025, 0x00), (0x3400, 0x01), (0x3060, 0x01), (0x00, 0x00)]"

definition nt99141_framesize_VGA :: "(u16 \<times> u16) list" where
  "nt99141_framesize_VGA =
     [(0x3021, 0x00), (0xFFFF, 0x64), (0x32BF, 0x60), (0x32C0, 0x5A), (0x32C1, 0x5A), (0x32C2, 0x5A),
      (0x32C3, 0x00), (0x32C4, 0x20), (0x32C5, 0x20), (0x32C6, 0x20), (0x32C7, 0x00), (0x32C8, 0x4B),
      (0x32C9, 0x5A), (0x32CA, 0x7A), (0x32CB, 0x7A), (0x32CC, 0x7A), (0x32CD, 0x7A), (0x32DB, 0x62),
      (0x32F0, 0x70), (0x3400, 0x08), (0x3400, 0x00), (0x3401, 0x4E), (0x3404, 0x00), (0x3405, 0x00),
      (0x3410, 0x00), (0x32E0, 0x02), (0x32E1, 0x80), (0x32E2, 0x01), (0x32E3, 0xE0), (0x32E4, 0x00),
      (0x32E5, 0x80), (0x32E6, 0x00), (0x32E7, 0x80), (0x3200, 0x3E), (0x3201, 0x0F), (0x3028, 0x0F),
      (0x3029, 0x00), (0x302A, 0x08), (0x3022, 0x24), (0x3023, 0x24), (0x3002, 0x00), (0x3003, 0xA4),
      (0x3004, 0x00), (0x3005, 0x04), (0x3006, 0x04), (0x3007, 0x63), (0x3008, 0x02), (0x3009, 0xD3),
      (0x300A, 0x05), (0x300B, 0x3C), (0x300C, 0x02), (0x300D, 0xE0), (0x300E, 0x03), (0x300F, 0xC0),
      (0x3010, 0x02), (0x3011, 0xD0), (0x32B8, 0x3F), (0x32B9, 0x31), (0x32BB, 0x87), (0x32BC, 0x38),
      (0x32BD, 0x3C), (0x32BE, 0x34), (0x3201, 0x7F), (0x3021, 0x06), (0x3025, 0x00), (0x3400, 0x01),
      (0x3060, 0x01), (0x00, 0x00)]"

definition nt99141_framesize_QVGA :: "(u16 \<times> u16) list" where
  "nt99141_framesize_QVGA =
     [(0x3021, 0x00), (0xFFFF, 0x64), (0x32BF, 0x60), (0x32C0, 0x5A), (0x32C1, 0x5A), (0x32C2, 0x5A),
      (0x32C3, 0x00), (0x32C4, 0x20), (0x32C5, 0x20), (0x32C6, 0x20), (0x32C7, 0x00), (0x32C8, 0x4B),
      (0x32C9, 0x5A), (0x32CA, 0x7A), (0x32CB, 0x7A), (0x32CC, 0x7A), (0x32CD, 0x7A), (0x32DB, 0x62),
      (0x32F0, 0x70), (0x3400, 0x08), (0x3400, 0x00), (0x3401, 0x4E), (0x3404, 0x00), (0x3405, 0x00),
      (0x3410, 0x00), (0x32E0, 0x01), (0x32E1, 0x40), (0x32E2, 0x00), (0x32E3, 0xF0), (0x32E4, 0x02),
      (0x32E5, 0x02), (0x32E6, 0x02), (0x32E7, 0x03), (0x3200, 0x3E), (0x3201, 0x0F), (0x3028, 0x0F),
      (0x3029, 0x00), (0x302A, 0x08), (0x3022, 0x24), (0x3023, 0x24), (0x3002, 0x00), (0x3003, 0xA4),
      (0x3004, 0x00), (0x3005, 0x04), (0x3006, 0x04), (0x3007, 0x63), (0x3008, 0x02), (0x3009, 0xD3),
      (0x300A, 0x05), (0x300B, 0x3C), (0x300C, 0x02), (0x300D, 0xE0), (0x300E, 0x03), (0x300F, 0xC0),
      (0x3010, 0x02), (0x3011, 0xD0), (0x32B8, 0x3F), (0x32B9, 0x31), (0x32BB, 0x87), (0x32BC, 0x38),
      (0x32BD, 0x3C), (0x32BE, 0x34), (0x3201, 0x7F), (0x3021, 0x06), (0x3025, 0x00), (0x3400, 0x01),
      (0x3060, 0x01), (0x00, 0x00)]"

definition nt99141_framesize_VGA_xyskip :: "(u16 \<times> u16) list" where
  "nt99141_framesize_VGA_xyskip =
     [(0x3021, 0x00), (0xFFFF, 0x64), (0x32BF, 0x60), (0x320A, 0xB2), (0x32C0, 0x64), (0x32C1, 0x64),
      (0x32C2, 0x64), (0x32C3, 0x00), (0x32C4, 0x20), (0x32C5, 0x20), (0x32C6, 0x20), (0x32C7, 0x00),
      (0x32C8, 0x62), (0x32C9, 0x64), (0x32CA, 0x84), (0x32CB, 0x84), (0x32CC, 0x84), (0x32CD, 0x84),
      (0x32DB, 0x68), (0x32F0, 0x70), (0x3400, 0x08), (0x3400, 0x00), (0x3401, 0x4E), (0x3404, 0x00),
      (0x3405, 0x00), (0x3410, 0x00), (0x3200, 0x3E), (0x3201, 0x0F), (0x3028, 0x0F), (0x3029, 0x00),
      (0x302A, 0x08), (0x3022, 0x24), (0x3023, 0x6C), (0x3002, 0x00), (0x3003, 0x04), (0x3004, 0x00),
      (0x3005, 0x04), (0x3006, 0x05), (0x3007, 0x03), (0x3008, 0x02), (0x3009, 0xD3), (0x300A, 0x03),
      (0x300B, 0xFC), (0x300C, 0x01), (0x300D, 0x88), (0x300E, 0x02), (0x300F, 0x80), (0x3010, 0x01),
      (0x3011, 0x68), (0x32B8, 0x3F), (0x32B9, 0x31), (0x32BB, 0x87), (0x32BC, 0x38), (0x32BD, 0x3C),
      (0x32BE, 0x34), (0x3201, 0x3F), (0x3025, 0x00), (0x3021, 0x06), (0x3400, 0x01), (0x3060, 0x01),
      (0x00, 0x00)]"

definition nt99141_saturation_levels :: "byte list list" where
  "nt99141_saturation_levels =
     [[0x60], [0x68], [0x70], [0x78], [0x80], [0x88], [0x90], [0x98], [0xA0]]"

definition nt99141_special_effects :: "byte list list" where
  "nt99141_special_effects =
     [[0x00, 0x80, 0x80, 0x01], [0x03, 0x80, 0x80, 0x01], [0x01, 0x80, 0x80, 0x01], [0x05, 0x2A, 0xF0, 0x01],
      [0x05, 0x60, 0x20, 0x01], [0x05, 0xF0, 0x80, 0x01], [0x02, 0x80, 0x80, 0x01]]"

definition nt99141_ae_level :: "(u16 \<times> u16) list" where
  "nt99141_ae_level =
     [(0x32B8, 0x29), (0x32B9, 0x1F), (0x32BC, 0x24), (0x32BD, 0x27), (0x32BE, 0x21), (0x32B8, 0x2D),
      (0x32B9, 0x23), (0x32BC, 0x28), (0x32BD, 0x2B), (0x32BE, 0x25), (0x32B8, 0x32), (0x32B9, 0x26),
      (0x32BC, 0x2C), (0x32BD, 0x2F), (0x32BE, 0x29), (0x32B8, 0x36), (0x32B9, 0x2A), (0x32BC, 0x30),
      (0x32BD, 0x33), (0x32BE, 0x2D), (0x32B8, 0x3B), (0x32B9, 0x2D), (0x32BC, 0x34), (0x32BD, 0x38),
      (0x32BE, 0x30), (0x32B8, 0x3F), (0x32B9, 0x31), (0x32BC, 0x38), (0x32BD, 0x3C), (0x32BE, 0x34),
      (0x32B8, 0x44), (0x32B9, 0x34), (0x32BC, 0x3C), (0x32BD, 0x40), (0x32BE, 0x38), (0x32B8, 0x48),
      (0x32B9, 0x38), (0x32BC, 0x40), (0x32BD, 0x44), (0x32BE, 0x3C), (0x32B8, 0x4D), (0x32B9, 0x3B),
      (0x32BC, 0x44), (0x32BD, 0x49), (0x32BE, 0x3F)]"

end
