(* ===== verification/Nt99141.thy ===== *)
theory Nt99141
  imports OvWide NtTables
begin

text \<open>
  The driver of the sensor NT99141 (\<open>sensors/nt99141.c\<close>), which was made from that of the OV3660: register
  access, formats, \<open>set_sharpness\<close>, \<open>set_awb_gain_dsp\<close>, \<open>get_reg\<close> and \<open>set_reg\<close> have the same text
  and are the \<open>ov_\<close> definitions of \<open>OvWide\<close>; \<open>set_pll\<close> only returns -1.
  The options \<open>XSKIP\<close> and \<open>CROP\<close> are not configured.
\<close>

section \<open>Pixel format, frame size, image options\<close>

definition nt99141_set_pixformat :: "fw_env \<Rightarrow> pixformat_t \<Rightarrow> ('z cam_vars_scheme, int) state" where
  "nt99141_set_pixformat env pf = ov_set_format env
     (ov_format_table nt99141_fmt_yuv422 nt99141_fmt_grayscale nt99141_fmt_rgb565 nt99141_fmt_jpeg nt99141_fmt_raw pf) pf"

definition nt99141_set_image_options :: "fw_env \<Rightarrow> ('z cam_vars_scheme, int) state" where
  "nt99141_set_image_options env = do {
     st \<leftarrow> gets (\<lambda>s. status (sensor s));
     minus_one_if (write16 env NT_TIMING_TC_REG20
       ((if st_vflip st \<noteq> 0 then 0x01 else 0) OR (if st_hmirror st \<noteq> 0 then 0x02 else 0)))
   }"

definition nt99141_framesize_table :: "framesize_t \<Rightarrow> (u16 \<times> u16) list" where
  "nt99141_framesize_table fs =
     (if fs = FRAMESIZE_QVGA then nt99141_framesize_QVGA
      else if fs = FRAMESIZE_VGA then nt99141_framesize_VGA_xyskip
      else if FRAMESIZE_HD \<le> fs then nt99141_framesize_HD
      else nt99141_framesize_VGA)"

text \<open>The result of writing the default registers is overwritten.\<close>

definition nt99141_set_framesize :: "fw_env \<Rightarrow> framesize_t \<Rightarrow> ('z cam_vars_scheme, int) state" where
  "nt99141_set_framesize env fs = do {
     upd_status (\<lambda>st. st\<lparr>st_framesize := fs\<rparr>);
     _ \<leftarrow> ov_write_regs env nt99141_default_regs;
     ov_write_regs env (nt99141_framesize_table fs)
   }"

section \<open>Switches\<close>

definition nt99141_set_quality :: "fw_env \<Rightarrow> int \<Rightarrow> ('z cam_vars_scheme, int) state" where
  "nt99141_set_quality env qs =
     then_store (write16 env NT_COMPRESSION_CTRL07 (u8 (qs AND 0x3F))) (\<lambda>st. st\<lparr>st_quality := u8 qs\<rparr>)"

definition nt99141_set_colorbar :: "fw_env \<Rightarrow> int \<Rightarrow> ('z cam_vars_scheme, int) state" where
  "nt99141_set_colorbar env enable =
     then_store (ov_write_reg_bits env NT_PRE_ISP_TEST_SETTING_1 NT_TEST_COLOR_BAR (enable \<noteq> 0))
       (\<lambda>st. st\<lparr>st_colorbar := u8 enable\<rparr>)"

definition nt99141_set_gain_ctrl :: "fw_env \<Rightarrow> int \<Rightarrow> ('z cam_vars_scheme, int) state" where
  "nt99141_set_gain_ctrl env enable =
     then_store (ov_write_reg_bits env 0x32BB 0x87 (enable \<noteq> 0)) (\<lambda>st. st\<lparr>st_agc := u8 enable\<rparr>)"

definition nt99141_set_exposure_ctrl :: "fw_env \<Rightarrow> int \<Rightarrow> ('z cam_vars_scheme, int) state" where
  "nt99141_set_exposure_ctrl env enable = do {
     b \<leftarrow> read16 env 0x3201;
     then_store (write16 env 0x3201 (if enable \<noteq> 0 then 0x20 OR b else NOT 0x20 AND b))
       (\<lambda>st. st\<lparr>st_aec := u8 enable\<rparr>)
   }"

text \<open>Switches that only store their value.\<close>

definition nt99141_store :: "(camera_status_t \<Rightarrow> camera_status_t) \<Rightarrow> ('z cam_vars_scheme, int) state" where
  "nt99141_store f = do { upd_status f; return 0 }"

definition nt99141_set_whitebal :: "int \<Rightarrow> ('z cam_vars_scheme, int) state" where
  "nt99141_set_whitebal enable = nt99141_store (\<lambda>st. st\<lparr>st_awb := u8 enable\<rparr>)"

definition nt99141_set_dcw_dsp :: "int \<Rightarrow> ('z cam_vars_scheme, int) state" where
  "nt99141_set_dcw_dsp enable = nt99141_store (\<lambda>st. st\<lparr>st_dcw := u8 enable\<rparr>)"

definition nt99141_set_aec2 :: "int \<Rightarrow> ('z cam_vars_scheme, int) state" where
  "nt99141_set_aec2 enable = nt99141_store (\<lambda>st. st\<lparr>st_aec2 := u8 enable\<rparr>)"

definition nt99141_set_bpc_dsp :: "int \<Rightarrow> ('z cam_vars_scheme, int) state" where
  "nt99141_set_bpc_dsp enable = nt99141_store (\<lambda>st. st\<lparr>st_bpc := u8 enable\<rparr>)"

definition nt99141_set_wpc_dsp :: "int \<Rightarrow> ('z cam_vars_scheme, int) state" where
  "nt99141_set_wpc_dsp enable = nt99141_store (\<lambda>st. st\<lparr>st_wpc := u8 enable\<rparr>)"

definition nt99141_set_raw_gma_dsp :: "int \<Rightarrow> ('z cam_vars_scheme, int) state" where
  "nt99141_set_raw_gma_dsp enable = nt99141_store (\<lambda>st. st\<lparr>st_raw_gma := u8 enable\<rparr>)"

definition nt99141_set_lenc_dsp :: "int \<Rightarrow> ('z cam_vars_scheme, int) state" where
  "nt99141_set_lenc_dsp enable = nt99141_store (\<lambda>st. st\<lparr>st_lenc := u8 enable\<rparr>)"

section \<open>Gain, exposure, white balance\<close>

text \<open>The analogue gain register for a gain; a write that fails is not reported.\<close>

definition nt99141_gain_code :: "int \<Rightarrow> byte option" where
  "nt99141_gain_code gain =
     (let cnt = gain sdiv 2
      in if cnt = 0 then Some 0x00
         else if cnt = 1 then Some 0x0F
         else if cnt = 2 then Some 0x2F
         else if cnt = 3 then Some 0x37
         else if cnt = 4 then Some 0x3F
         else None)"

definition nt99141_set_agc_gain :: "fw_env \<Rightarrow> int \<Rightarrow> ('z cam_vars_scheme, int) state" where
  "nt99141_set_agc_gain env gain = do {
     do_all (case nt99141_gain_code gain of None \<Rightarrow> [] | Some code \<Rightarrow> [write16 env 0x301D code]);
     return 0
   }"

text \<open>The masks are those of the source: the first write changes no bit, the second bit 0.\<close>

definition nt99141_set_aec_value :: "fw_env \<Rightarrow> int \<Rightarrow> ('z cam_vars_scheme, int) state" where
  "nt99141_set_aec_value env value = do {
     _ \<leftarrow> ov_write_reg_bits env 0x3012 0x00 (drop_bit 8 value AND 0xFF \<noteq> 0);
     ov_write_reg_bits env 0x3013 0x01 (value AND 0xFF \<noteq> 0)
   }"

definition nt99141_ae_clamp :: "int \<Rightarrow> nat" where
  "nt99141_ae_clamp level = (if level < 0 then 0 else if 9 < level then 9 else nat level)"

text \<open>The five rows of a level.  The table has nine levels, so the rows of level 9 lie past its end; \<open>!\<close>
  leaves them open.\<close>

definition nt99141_ae_rows :: "nat \<Rightarrow> (u16 \<times> u16) list" where
  "nt99141_ae_rows level = map (\<lambda>i. nt99141_ae_level ! (5 * level + i)) [0..<5]"

definition nt99141_set_ae_level :: "fw_env \<Rightarrow> int \<Rightarrow> ('z cam_vars_scheme, int) state" where
  "nt99141_set_ae_level env level = do {
     do_all (map (\<lambda>(r, v). write16 env r (ucast v)) (nt99141_ae_rows (nt99141_ae_clamp level)));
     return 0
   }"

text \<open>The values of registers \<open>0x3290\<close>, \<open>0x3291\<close>, \<open>0x3296\<close>, \<open>0x3297\<close>, each written as 16 bits.\<close>

definition nt99141_wb_regs :: "int \<Rightarrow> (u16 \<times> u16) list" where
  "nt99141_wb_regs md =
     (if md = 1 then [(0x3290, 0x01), (0x3291, 0x38), (0x3296, 0x01), (0x3297, 0x68), (0x3060, 0x01)]
      else if md = 2 then [(0x3290, 0x01), (0x3291, 0x51), (0x3296, 0x01), (0x3297, 0x00), (0x3060, 0x01)]
      else if md = 3 then [(0x3290, 0x01), (0x3291, 0x30), (0x3296, 0x01), (0x3297, 0xCB), (0x3060, 0x01)]
      else if md = 4 then [(0x3290, 0x01), (0x3291, 0x70), (0x3296, 0x01), (0x3297, 0xFF), (0x3060, 0x01)]
      else [])"

definition nt99141_set_wb_mode :: "fw_env \<Rightarrow> int \<Rightarrow> ('z cam_vars_scheme, int) state" where
  "nt99141_set_wb_mode env md =
     (if md < 0 \<or> 4 < md then return (-1)
      else or_return (write16 env 0x3201 (of_flag (md \<noteq> 0)))
        (then_store (any_of (map (\<lambda>(r, v). ov_write_reg16 env r v) (nt99141_wb_regs md)))
           (\<lambda>st. st\<lparr>st_wb_mode := u8 md\<rparr>)))"

section \<open>Picture\<close>

definition nt99141_set_special_effect :: "fw_env \<Rightarrow> int \<Rightarrow> ('z cam_vars_scheme, int) state" where
  "nt99141_set_special_effect env effect =
     (if effect < 0 \<or> 6 < effect then return (-1)
      else let regs = nt99141_special_effects ! nat effect
           in then_store (any_of
                [write16 env 0x32F1 (regs ! 0), write16 env 0x32F4 (regs ! 1),
                 write16 env 0x32F5 (regs ! 2), write16 env 0x3060 (regs ! 3)])
                (\<lambda>st. st\<lparr>st_special_effect := u8 effect\<rparr>))"

definition nt99141_brightness_value :: "int \<Rightarrow> byte" where
  "nt99141_brightness_value level =
     (if level = 3 then 0xA0 else if level = 2 then 0x90 else if level = 1 then 0x88
      else if level = -1 then 0x78 else if level = -2 then 0x70 else if level = -3 then 0x60 else 0)"

definition nt99141_set_brightness :: "fw_env \<Rightarrow> int \<Rightarrow> ('z cam_vars_scheme, int) state" where
  "nt99141_set_brightness env level =
     then_store (write16 env 0x32F2 (nt99141_brightness_value level)) (\<lambda>st. st\<lparr>st_brightness := u8 level\<rparr>)"

definition nt99141_contrast_values :: "int \<Rightarrow> byte \<times> byte" where
  "nt99141_contrast_values level =
     (if level = 3 then (0xD0, 0xB0) else if level = 2 then (0xE0, 0xA0) else if level = 1 then (0xF0, 0x90)
      else if level = 0 then (0x00, 0x80) else if level = -1 then (0x10, 0x70) else if level = -2 then (0x20, 0x60)
      else if level = -3 then (0x30, 0x50) else (0, 0))"

text \<open>Only the result of the last write is kept.\<close>

definition nt99141_set_contrast :: "fw_env \<Rightarrow> int \<Rightarrow> ('z cam_vars_scheme, int) state" where
  "nt99141_set_contrast env level = then_store (do {
       _ \<leftarrow> write16 env 0x32FC (fst (nt99141_contrast_values level));
       _ \<leftarrow> write16 env 0x32F2 (snd (nt99141_contrast_values level));
       write16 env 0x3060 0x01
     }) (\<lambda>st. st\<lparr>st_contrast := u8 level\<rparr>)"

definition nt99141_set_saturation :: "fw_env \<Rightarrow> int \<Rightarrow> ('z cam_vars_scheme, int) state" where
  "nt99141_set_saturation env level =
     (if 4 < level \<or> level < -4 then return (-1)
      else then_store (write16 env 0x32F3 (nt99141_saturation_levels ! nat (level + 4) ! 0))
             (\<lambda>st. st\<lparr>st_saturation := u8 level\<rparr>))"

definition nt99141_get_denoise :: "fw_env \<Rightarrow> ('z cam_vars_scheme, int) state" where
  "nt99141_get_denoise env = do { v \<leftarrow> read16 env 0x5306; return (uint v div 4 + 1) }"

definition nt99141_set_res_raw ::
  "fw_env \<Rightarrow> int \<Rightarrow> int \<Rightarrow> int \<Rightarrow> int \<Rightarrow> int \<Rightarrow> int \<Rightarrow> int \<Rightarrow> int \<Rightarrow> int \<Rightarrow> int \<Rightarrow> bool \<Rightarrow> bool \<Rightarrow>
     ('z cam_vars_scheme, int) state" where
  "nt99141_set_res_raw env startX startY endX endY offsetX offsetY totalX totalY outputX outputY scal binning = do {
     ret \<leftarrow> any_of
       [ov_write_addr_int env NT_X_ADDR_ST_H startX startY,
        ov_write_addr_int env NT_X_ADDR_END_H endX endY,
        ov_write_addr_int env NT_X_OFFSET_H offsetX offsetY,
        ov_write_addr_int env NT_X_TOTAL_SIZE_H totalX totalY,
        ov_write_addr_int env NT_X_OUTPUT_SIZE_H outputX outputY];
     if ret = 0 then do {
       upd_status (\<lambda>st. st\<lparr>st_scale := scal, st_binning := binning\<rparr>);
       nt99141_set_image_options env
     } else return ret
   }"

definition nt99141_set_xclk :: "fw_env \<Rightarrow> nat \<Rightarrow> int \<Rightarrow> ('z cam_vars_scheme, esp_err) state" where
  "nt99141_set_xclk env timer xclk = ov_set_xclk env timer (if 10 < xclk then 10 else xclk)"

section \<open>Status, reset, the driver\<close>

definition nt99141_init_status :: "fw_env \<Rightarrow> ('z cam_vars_scheme, int) state" where
  "nt99141_init_status env = do {
     upd_status (\<lambda>st. st\<lparr>st_brightness := 0, st_contrast := 0, st_saturation := 0\<rparr>);
     load (read16 env 0x3301) (\<lambda>b st. st\<lparr>st_sharpness := b\<rparr>);
     load_int (nt99141_get_denoise env) (\<lambda>v st. st\<lparr>st_denoise := u8 v\<rparr>);
     upd_status (\<lambda>st. st\<lparr>st_ae_level := 0\<rparr>);
     load_int (ov_read_reg16 env 0x32F0) (\<lambda>v st. st\<lparr>st_gainceiling := u8 (v AND 0xFF)\<rparr>);
     load (ov_check_reg_mask env NT_ISP_CONTROL_01 0x10) (\<lambda>b st. st\<lparr>st_awb := b\<rparr>);
     load (ov_check_reg_mask env 0x5183 0x80) (\<lambda>b st. st\<lparr>st_dcw := of_flag (b = 0)\<rparr>);
     load (ov_check_reg_mask env NT_AEC_PK_MANUAL NT_AEC_PK_MANUAL_AGC_MANUALEN) (\<lambda>b st. st\<lparr>st_agc := of_flag (b = 0)\<rparr>);
     load (ov_check_reg_mask env NT_AEC_PK_MANUAL NT_AEC_PK_MANUAL_AEC_MANUALEN) (\<lambda>b st. st\<lparr>st_aec := of_flag (b = 0)\<rparr>);
     load (ov_check_reg_mask env NT_TIMING_TC_REG21 NT_TIMING_TC_REG21_HMIRROR) (\<lambda>b st. st\<lparr>st_hmirror := b\<rparr>);
     load (ov_check_reg_mask env NT_TIMING_TC_REG20 NT_TIMING_TC_REG20_VFLIP) (\<lambda>b st. st\<lparr>st_vflip := b\<rparr>);
     load (ov_check_reg_mask env NT_PRE_ISP_TEST_SETTING_1 NT_TEST_COLOR_BAR) (\<lambda>b st. st\<lparr>st_colorbar := b\<rparr>);
     load (ov_check_reg_mask env 0x5000 0x04) (\<lambda>b st. st\<lparr>st_bpc := b\<rparr>);
     load (ov_check_reg_mask env 0x5000 0x02) (\<lambda>b st. st\<lparr>st_wpc := b\<rparr>);
     load (ov_check_reg_mask env 0x5000 0x20) (\<lambda>b st. st\<lparr>st_raw_gma := b\<rparr>);
     load (ov_check_reg_mask env 0x5000 0x80) (\<lambda>b st. st\<lparr>st_lenc := b\<rparr>);
     load (read16 env NT_COMPRESSION_CTRL07) (\<lambda>b st. st\<lparr>st_quality := b AND 0x3F\<rparr>);
     upd_status (\<lambda>st. st\<lparr>st_special_effect := 0, st_wb_mode := 0\<rparr>);
     load (ov_check_reg_mask env 0x3000 0x01) (\<lambda>b st. st\<lparr>st_awb_gain := b\<rparr>);
     upd_status (\<lambda>st. st\<lparr>st_agc_gain := 0, st_aec_value := 0\<rparr>);
     load (ov_check_reg_mask env 0x3000 0x04) (\<lambda>b st. st\<lparr>st_aec2 := b\<rparr>);
     return 0
   }"

definition nt99141_reset :: "fw_env \<Rightarrow> ('z cam_vars_scheme, int) state" where
  "nt99141_reset env = or_return (write16 env NT_SYSTEM_CTROL0 0x01) (do {
     delay_ms env 100;
     or_return (ov_write_regs env nt99141_default_regs) (do {
       ret \<leftarrow> nt99141_set_ae_level env 0;
       delay_ms env 100;
       return ret
     })
   })"

fun nt99141_ops :: "fw_env \<Rightarrow> sensor_op \<Rightarrow> ('z cam_vars_scheme, int) state option" where
  "nt99141_ops env Init_status = Some (nt99141_init_status env)"
| "nt99141_ops env Reset_sensor = Some (nt99141_reset env)"
| "nt99141_ops env (Set_pixformat pf) = Some (nt99141_set_pixformat env pf)"
| "nt99141_ops env (Set_framesize fs) = Some (nt99141_set_framesize env fs)"
| "nt99141_ops env (Set_contrast v) = Some (nt99141_set_contrast env v)"
| "nt99141_ops env (Set_brightness v) = Some (nt99141_set_brightness env v)"
| "nt99141_ops env (Set_saturation v) = Some (nt99141_set_saturation env v)"
| "nt99141_ops env (Set_sharpness v) = Some (ov_set_sharpness env v)"
| "nt99141_ops env (Set_denoise v) = Some (return 0)"
| "nt99141_ops env (Set_gainceiling v) = Some (return 0)"
| "nt99141_ops env (Set_quality v) = Some (nt99141_set_quality env v)"
| "nt99141_ops env (Set_colorbar v) = Some (nt99141_set_colorbar env v)"
| "nt99141_ops env (Set_whitebal v) = Some (nt99141_set_whitebal v)"
| "nt99141_ops env (Set_gain_ctrl v) = Some (nt99141_set_gain_ctrl env v)"
| "nt99141_ops env (Set_exposure_ctrl v) = Some (nt99141_set_exposure_ctrl env v)"
| "nt99141_ops env (Set_hmirror v) = Some (ov_set_hmirror (nt99141_set_image_options env) v)"
| "nt99141_ops env (Set_vflip v) = Some (ov_set_vflip (nt99141_set_image_options env) v)"
| "nt99141_ops env (Set_aec2 v) = Some (nt99141_set_aec2 v)"
| "nt99141_ops env (Set_awb_gain v) = Some (ov_set_awb_gain_dsp (nt99141_set_wb_mode env) v)"
| "nt99141_ops env (Set_agc_gain v) = Some (nt99141_set_agc_gain env v)"
| "nt99141_ops env (Set_aec_value v) = Some (nt99141_set_aec_value env v)"
| "nt99141_ops env (Set_special_effect v) = Some (nt99141_set_special_effect env v)"
| "nt99141_ops env (Set_wb_mode v) = Some (nt99141_set_wb_mode env v)"
| "nt99141_ops env (Set_ae_level v) = Some (nt99141_set_ae_level env v)"
| "nt99141_ops env (Set_dcw v) = Some (nt99141_set_dcw_dsp v)"
| "nt99141_ops env (Set_bpc v) = Some (nt99141_set_bpc_dsp v)"
| "nt99141_ops env (Set_wpc v) = Some (nt99141_set_wpc_dsp v)"
| "nt99141_ops env (Set_raw_gma v) = Some (nt99141_set_raw_gma_dsp v)"
| "nt99141_ops env (Set_lenc v) = Some (nt99141_set_lenc_dsp v)"

end
