(* ===== verification/Drivers.thy ===== *)
theory Drivers
  imports SensorDetect Nt99141
begin

text \<open>
  The function pointers of \<open>sensor_t\<close>: what the \<open>xxx_init\<close> function of each configured driver assigns, and what
  else it does.  \<open>drv\<close> names the driver whose functions the sensor object has.
\<close>

section \<open>The OV2640\<close>

fun ov2640_ops :: "fw_env \<Rightarrow> sensor_op \<Rightarrow> ('z cam_vars_scheme, int) state" where
  "ov2640_ops env Reset_sensor = ov2640_reset env"
| "ov2640_ops env Init_status = init_status env"
| "ov2640_ops env (Set_pixformat pf) = set_pixformat env pf"
| "ov2640_ops env (Set_framesize fs) = set_framesize env fs"
| "ov2640_ops env (Set_contrast v) = set_contrast env v"
| "ov2640_ops env (Set_brightness v) = set_brightness env v"
| "ov2640_ops env (Set_saturation v) = set_saturation env v"
| "ov2640_ops env (Set_quality v) = set_quality env v"
| "ov2640_ops env (Set_colorbar v) = set_colorbar env v"
| "ov2640_ops env (Set_gainceiling v) = set_gainceiling_sensor env v"
| "ov2640_ops env (Set_gain_ctrl v) = set_agc_sensor env v"
| "ov2640_ops env (Set_exposure_ctrl v) = set_aec_sensor env v"
| "ov2640_ops env (Set_hmirror v) = set_hmirror_sensor env v"
| "ov2640_ops env (Set_vflip v) = set_vflip_sensor env v"
| "ov2640_ops env (Set_whitebal v) = set_awb_dsp env v"
| "ov2640_ops env (Set_aec2 v) = set_aec2 env v"
| "ov2640_ops env (Set_aec_value v) = set_aec_value env v"
| "ov2640_ops env (Set_special_effect v) = set_special_effect env v"
| "ov2640_ops env (Set_wb_mode v) = set_wb_mode env v"
| "ov2640_ops env (Set_ae_level v) = set_ae_level env v"
| "ov2640_ops env (Set_dcw v) = set_dcw_dsp env v"
| "ov2640_ops env (Set_bpc v) = set_bpc_dsp env v"
| "ov2640_ops env (Set_wpc v) = set_wpc_dsp env v"
| "ov2640_ops env (Set_awb_gain v) = set_awb_gain_dsp env v"
| "ov2640_ops env (Set_agc_gain v) = set_agc_gain env v"
| "ov2640_ops env (Set_raw_gma v) = set_raw_gma_dsp env v"
| "ov2640_ops env (Set_lenc v) = set_lenc_dsp env v"
| "ov2640_ops env (Set_sharpness v) = set_sharpness env v"
| "ov2640_ops env (Set_denoise v) = set_denoise env v"

section \<open>All drivers\<close>

text \<open>The function a driver has for an operation; \<open>None\<close> where the pointer stays \<open>NULL\<close>.\<close>

fun driver_ops :: "camera_model_t \<Rightarrow> 'z sensor_driver" where
  "driver_ops CAMERA_OV2640 env sop = Some (ov2640_ops env sop)"
| "driver_ops CAMERA_OV7725 env sop = ov7725_ops env sop"
| "driver_ops CAMERA_OV7670 env sop = ov7670_ops env sop"
| "driver_ops CAMERA_OV3660 env sop = ov3660_ops env sop"
| "driver_ops CAMERA_OV5640 env sop = ov5640_ops env sop"
| "driver_ops CAMERA_NT99141 env sop = nt99141_ops env sop"
| "driver_ops CAMERA_GC2145 env sop = gc2145_ops env sop"
| "driver_ops CAMERA_GC032A env sop = gc032a_ops env sop"
| "driver_ops CAMERA_GC0308 env sop = gc0308_ops env sop"
| "driver_ops CAMERA_BF3005 env sop = bf3005_ops env sop"
| "driver_ops CAMERA_BF20A6 env sop = bf20a6_ops env sop"
| "driver_ops CAMERA_SC030IOT env sop = sc030iot_ops env sop"
| "driver_ops CAMERA_MEGA_CCM env sop = mega_ccm_ops env sop"
| "driver_ops _ env sop = None"

text \<open>The \<open>init\<close> column of \<open>g_sensors\<close>: the drivers assign their functions, and two read the identifiers again.\<close>

definition sensor_init :: "camera_model_t \<Rightarrow> fw_env \<Rightarrow> ('z cam_vars_scheme, int) state" where
  "sensor_init m env =
     (if m = CAMERA_OV7670 then ov7670_init env
      else if m = CAMERA_OV7725 then ov7725_init env
      else do { upd_sensor (\<lambda>x. x\<lparr>drv := Some m\<rparr>); return 0 })"

text \<open>A call through a pointer that is \<open>NULL\<close>.\<close>

definition null_call :: "fw_env \<Rightarrow> ('z cam_vars_scheme, int) state" where
  "null_call env = do { perform env (Os Call_null); return 0 }"

end
