(* ===== verification/CamSetup.thy ===== *)
theory CamSetup
  imports CamTake
begin

text \<open>
  Configuration of the camera establishes the start state of the frame pool: when \<open>cam_config\<close> reports
  success, every frame is allocated with room for a whole frame and enabled, and the frame queue is
  empty.  The sizes it computes stay far below \<open>2 ^ 31\<close> for every entry of the resolution table.
\<close>

section \<open>Allocation of the frames\<close>

lemma frame_at_same: "frames (cam s') = frames (cam s) \<Longrightarrow> frame_at s' i = frame_at s i"
  by (simp add: frame_at_def)

text \<open>\<open>readied\<close>: what the loop guarantees of a frame it has passed.\<close>

definition readied :: "nat \<Rightarrow> 'z cam_vars_scheme \<Rightarrow> nat \<Rightarrow> bool" where
  "readied sz s i \<longleftrightarrow> fr_en (frame_at s i) \<and> fb_len (fr_fb (frame_at s i)) = 0 \<and>
     (\<not> psram_mode (cam s) \<longrightarrow> length (fb_bytes (fr_fb (frame_at s i))) = sz)"

lemma align_psram_frame_run:
  assumes "run_state (align_psram_frame env al x) s = (e, s')" "cam_obj s \<noteq> None" "x < length (frames (cam s))"
  shows "stable {x} s s' \<and> fb_len (fr_fb (frame_at s' x)) = fb_len (fr_fb (frame_at s x)) \<and>
         cam_state (cam s') = cam_state (cam s) \<and> ct_frame_pos s' = ct_frame_pos s"
  using assms
  by (auto simp: align_psram_frame_def allocate_dma_descriptors_def run_simps Let_def stable_def
      split: if_splits)

lemma alloc_frame_run:
  assumes "run_state (alloc_frames env sz caps al (x # xs)) s = (ESP_OK, s')"
    and "cam_obj s \<noteq> None" "x < length (frames (cam s))" "fb_len (fr_fb (frame_at s x)) = 0"
  obtains t where "stable {x} s t" "readied sz t x" "run_state (alloc_frames env sz caps al xs) t = (ESP_OK, s')"
    "cam_state (cam t) = cam_state (cam s)" "ct_frame_pos t = ct_frame_pos s"
proof -
  define a where "a = put x ((frame_at s x)\<lparr>fr_dma := 0, fb_offset := 0, fr_en := False\<rparr>) s"
  obtain r b where b: "run_state (call env (Os (Malloc sz caps))) a = (r, b)" by (meson surj_pair)
  then have b': "b = a\<lparr>trace := trace a @ [(Os (Malloc sz caps), r)]\<rparr>" by (auto simp: run_simps)
  define c where "c = put x ((frame_at b x)\<lparr>fr_fb := (fr_fb (frame_at b x))
     \<lparr>fb_buf := rval r, fb_bytes := fit sz (rdata r)\<rparr>\<rparr>) b"
  obtain e d where d: "run_state (if psram_mode (cam c) then align_psram_frame env al x else return ESP_OK) c = (e, d)"
    by (meson surj_pair)
  define t where "t = put x ((frame_at d x)\<lparr>fr_en := True\<rparr>) d"
  have c: "stable {x} s c" "cam_obj c \<noteq> None" "x < length (frames (cam c))"
    "fb_len (fr_fb (frame_at c x)) = 0" "length (fb_bytes (fr_fb (frame_at c x))) = sz"
    "cam_state (cam c) = cam_state (cam s)" "ct_frame_pos c = ct_frame_pos s"
    using assms(2-4) by (auto simp: c_def b' a_def stable_def)
  have d': "stable {x} c d" "fb_len (fr_fb (frame_at d x)) = 0"
    "\<not> psram_mode (cam c) \<Longrightarrow> length (fb_bytes (fr_fb (frame_at d x))) = sz"
    "cam_state (cam d) = cam_state (cam s)" "ct_frame_pos d = ct_frame_pos s"
    using d c align_psram_frame_run [OF _ c(2,3), of env al e d] by (auto simp: run_simps split: if_splits)
  have dc: "conf (cam d) = conf (cam c)" "cam_obj d \<noteq> None" "x < length (frames (cam d))"
    using d' c by (auto simp: stable_def)
  have "run_state (alloc_frames env sz caps al xs) t = (ESP_OK, s')"
    using assms(1) b d by (auto simp: run_simps a_def [symmetric] c_def [symmetric] t_def [symmetric]
        split: if_splits)
  moreover have "readied sz t x" using d' dc conf_eqD [OF dc(1)] by (auto simp: readied_def t_def)
  moreover have "stable {x} s t"
    using stable_trans [OF c(1) d'(1)] dc by (auto simp: stable_def t_def)
  ultimately show thesis using that d' by (simp add: t_def)
qed

lemma alloc_frames_run:
  assumes "run_state (alloc_frames env sz caps al xs) s = (ESP_OK, s')" "distinct xs"
    and "cam_obj s \<noteq> None" "set xs \<subseteq> {..<length (frames (cam s))}"
    and "\<forall>i\<in>set xs. fb_len (fr_fb (frame_at s i)) = 0"
  shows "stable (set xs) s s' \<and> (\<forall>i\<in>set xs. readied sz s' i) \<and>
         cam_state (cam s') = cam_state (cam s) \<and> ct_frame_pos s' = ct_frame_pos s"
  using assms
proof (induction xs arbitrary: s)
  case Nil
  then show ?case by (simp add: run_simps)
next
  case (Cons x xs)
  obtain t where t: "stable {x} s t" "readied sz t x" "run_state (alloc_frames env sz caps al xs) t = (ESP_OK, s')"
    "cam_state (cam t) = cam_state (cam s)" "ct_frame_pos t = ct_frame_pos s"
    using alloc_frame_run [OF Cons.prems(1)] Cons.prems(3-5) by auto
  have "frame_at t i = frame_at s i" if "i \<in> set xs" for i
    using t(1) Cons.prems(2) that by (auto intro: stable_frame)
  then have IH: "stable (set xs) t s' \<and> (\<forall>i\<in>set xs. readied sz s' i) \<and>
         cam_state (cam s') = cam_state (cam t) \<and> ct_frame_pos s' = ct_frame_pos t"
    using t Cons.prems by (intro Cons.IH) (auto simp: stable_def)
  moreover have "readied sz s' x"
    using t(2) IH Cons.prems(2) stable_frame [of "set xs" t s' x] conf_eqD [of "cam s'" "cam t"]
    by (auto simp: readied_def stable_def)
  ultimately show ?case using t stable_trans [OF t(1), of "set xs" s'] by auto
qed

section \<open>Queues, interrupts and task\<close>

text \<open>The fields the frame pool depends on.\<close>

definition core :: "cam_obj_t \<Rightarrow> cam_frame_t list \<times> nat \<times> bool \<times> bool \<times> nat \<times> bool" where
  "core c = (frames c, frame_cnt c, psram_mode c, jpeg_mode c, fb_size c, geometry c)"

lemma core_simps [simp]:
  "core (c\<lparr>dma_buffer := v\<rparr>) = core c" "core (c\<lparr>dma := v\<rparr>) = core c" "core (c\<lparr>dma_descs := d\<rparr>) = core c"
  "core (c\<lparr>event_queue := v\<rparr>) = core c" "core (c\<lparr>frame_buffer_queue := v\<rparr>) = core c"
  "core (c\<lparr>dma_intr_handle := v\<rparr>) = core c" "core (c\<lparr>cam_intr_handle := v\<rparr>) = core c"
  "core (c\<lparr>task_handle := v\<rparr>) = core c" "core (c\<lparr>cam_state := st\<rparr>) = core c"
  by (simp_all add: core_def geometry_def)

lemma alloc_dma_buffer_run:
  assumes "run_state (alloc_dma_buffer env) s = (e, s')" "cam_obj s = Some c"
  shows "\<exists>c'. cam_obj s' = Some c' \<and> core c' = core c"
  using assms
  by (auto simp: alloc_dma_buffer_def allocate_dma_descriptors_def run_simps split: if_splits)

text \<open>What follows the creation of the two queues.\<close>

definition start_task :: "fw_env \<Rightarrow> ('z cam_vars_scheme, esp_err) state" where
  "start_task env = do {
     ret \<leftarrow> ll_cam_init_isr env;
     if ret \<noteq> ESP_OK then return ESP_FAIL
     else do {
       t \<leftarrow> call env (Os (Task_create ''cam_task'' 2048 (25 - 2)));
       upd_cam (\<lambda>c. c\<lparr>task_handle := rval t\<rparr>);
       cam_task_prologue env;
       return ESP_OK
     }
   }"

lemma start_task_run:
  assumes "run_state (start_task env) s = (ESP_OK, s')" "cam_obj s = Some c"
  shows "\<exists>tr c'. trace s' = trace s @ tr \<and> quiet_tr tr \<and> cam_obj s' = Some c' \<and> core c' = core c \<and>
           frame_buffer_queue c' = frame_buffer_queue c \<and> cam_state c' = CAM_STATE_IDLE \<and>
           ct_frame_pos s' = 0 \<and> ct_cnt s' = 0"
  using assms
  by (auto simp: start_task_def ll_cam_init_isr_def cam_task_prologue_def set_cam_state_def run_upd_cam
      run_basic run_call run_perform split: if_splits)

lemma cam_queues_split:
  assumes r: "run_state (cam_queues env config) s = (ESP_OK, s')" and c: "cam_obj s = Some c"
  obtains r1 r2 u where "cam_obj u = Some (c\<lparr>event_queue := rval r1, frame_buffer_queue := rval r2\<rparr>)"
    "trace u = trace s @ [(Cam (Queue_create (event_queue_len c)), r1),
       (Cam (Queue_create (frame_queue_len config c)), r2)]"
    "run_state (start_task env) u = (ESP_OK, s')"
proof -
  have cs: "cam s = c" using c by (simp add: cam_def)
  obtain r1 t1 where 1: "run_state (ask env (Queue_create (event_queue_len c))) s = (r1, t1)" by (meson surj_pair)
  define u1 where "u1 = t1\<lparr>cam_obj := Some (c\<lparr>event_queue := rval r1\<rparr>)\<rparr>"
  obtain r2 t2 where 2: "run_state (ask env (Queue_create (frame_queue_len config c))) u1 = (r2, t2)"
    by (meson surj_pair)
  define u where "u = t2\<lparr>cam_obj := Some (c\<lparr>event_queue := rval r1, frame_buffer_queue := rval r2\<rparr>)\<rparr>"
  have t: "cam_obj t1 = Some c" "cam_obj t2 = cam_obj u1"
    "trace t1 = trace s @ [(Cam (Queue_create (event_queue_len c)), r1)]"
    "trace t2 = trace u1 @ [(Cam (Queue_create (frame_queue_len config c)), r2)]"
    using 1 2 c by (auto simp: run_call)
  have "run_state (start_task env) u = (ESP_OK, s')"
  proof (cases "rval r1 = 0")
    case True
    then show ?thesis using r 1 by (simp add: cam_queues_def run_basic run_upd_cam cs)
  next
    case r1: False
    have u1: "run_state (upd_cam (\<lambda>c. c\<lparr>event_queue := rval r1\<rparr>)) t1 = ((), u1)"
      using t(1) by (simp add: run_upd_cam u1_def)
    have t2: "cam_obj t2 = Some (c\<lparr>event_queue := rval r1\<rparr>)" using t(2) by (simp add: u1_def)
    show ?thesis
      using r r1 unfolding cam_queues_def start_task_def [symmetric]
      by (cases "rval r2 = 0") (simp_all add: run_basic 1 2 u1 u_def cs run_upd_cam [of _ t2] t2)
  qed
  moreover have "cam_obj u = Some (c\<lparr>event_queue := rval r1, frame_buffer_queue := rval r2\<rparr>)"
    by (simp add: u_def)
  moreover have "trace u = trace s @ [(Cam (Queue_create (event_queue_len c)), r1),
       (Cam (Queue_create (frame_queue_len config c)), r2)]"
    using t(3,4) by (simp add: u_def u1_def)
  ultimately show thesis by (intro that)
qed

lemma cam_queues_run:
  assumes "run_state (cam_queues env config) s = (ESP_OK, s')" "cam_obj s = Some c"
  shows "\<exists>c'. cam_obj s' = Some c' \<and> core c' = core c \<and> cam_state c' = CAM_STATE_IDLE \<and>
           queue_state (frame_buffer_queue c') (trace s') = Some (frame_queue_len config c, []) \<and>
           ct_frame_pos s' = 0 \<and> ct_cnt s' = 0"
proof -
  from assms obtain r1 r2 u where u: "cam_obj u = Some (c\<lparr>event_queue := rval r1, frame_buffer_queue := rval r2\<rparr>)"
    "trace u = trace s @ [(Cam (Queue_create (event_queue_len c)), r1),
       (Cam (Queue_create (frame_queue_len config c)), r2)]"
    "run_state (start_task env) u = (ESP_OK, s')" by (rule cam_queues_split)
  from start_task_run [OF u(3,1)] show ?thesis
    using u(2) by (auto simp: quiet_queue_state queue_step_def)
qed

section \<open>Pixel sizes\<close>

lemma sample_mode_geometry:
  assumes "fst (ll_cam_set_sample_mode c pf pid) = ESP_OK"
    and c1: "c1 = cam_sizes config fs (snd (ll_cam_set_sample_mode c pf pid))" "pf = pixel_format config"
    and ok: "fst (ll_cam_dma_sizes c1)"
  shows "geometry (snd (ll_cam_dma_sizes c1))"
proof -
  have "(in_bytes_per_pixel c1, fb_bytes_per_pixel c1) \<in> {(1, 1), (2, 2), (2, 1)} \<and>
      (jpeg_mode c1 \<longrightarrow> in_bytes_per_pixel c1 = 1)"
    using assms(1) unfolding c1
    by (auto simp: ll_cam_set_sample_mode_def cam_sizes_def Let_def split: if_splits)
  then show ?thesis
    using ok by (auto simp: geometry_def ll_cam_dma_sizes_def ll_cam_calc_rgb_dma_def Let_def
        split: if_splits prod.splits)
qed

lemma dma_sizes_keeps:
  "frame_cnt (snd (ll_cam_dma_sizes c)) = frame_cnt c" "psram_mode (snd (ll_cam_dma_sizes c)) = psram_mode c"
  "jpeg_mode (snd (ll_cam_dma_sizes c)) = jpeg_mode c" "fb_size (snd (ll_cam_dma_sizes c)) = fb_size c"
  by (auto simp: ll_cam_dma_sizes_def ll_cam_calc_rgb_dma_def Let_def split: prod.splits)

section \<open>Configuration\<close>

text \<open>The frame array, freshly allocated.\<close>

lemma cam_dma_config_split:
  assumes r: "run_state (cam_dma_config env config) s = (ESP_OK, s')" and c: "cam_obj s = Some c"
  obtains u sz al caps c2 v where "fst (ll_cam_dma_sizes c)"
    "core c2 = (replicate (frame_cnt c) zero_frame, frame_cnt c, psram_mode c, jpeg_mode c, fb_size c,
       geometry (snd (ll_cam_dma_sizes c)))"
    "cam_obj u = Some c2" "\<not> psram_mode c \<Longrightarrow> sz = fb_size c"
    "run_state (alloc_frames env sz caps al [0..<frame_cnt c]) u = (ESP_OK, v)"
    "s' = v \<or> run_state (alloc_dma_buffer env) v = (ESP_OK, s')"
proof -
  have cs: "cam s = c" using c by (simp add: cam_def)
  define c1 where "c1 = (let c1 = snd (ll_cam_dma_sizes c) in
     c1\<lparr>dma_node_cnt := dma_buffer_size c1 div dma_node_buffer_size c1,
        frame_copy_cnt := recv_size c1 div dma_half_buffer_size c1, dma_buffer := 0, dma := 0\<rparr>)"
  define t1 where "t1 = s\<lparr>cam_obj := Some c1\<rparr>"
  obtain r1 t2 where 1: "run_state (call env (Os (Malloc (frame_cnt c * sizeof_cam_frame_t) MALLOC_DEFAULT))) t1
    = (r1, t2)" by (meson surj_pair)
  define c2 where "c2 = c1\<lparr>frames_ptr := rval r1, frames := replicate (frame_cnt c) zero_frame\<rparr>"
  define t3 where "t3 = t2\<lparr>cam_obj := Some c2\<rparr>"
  have t: "cam_obj t2 = Some c1" using 1 by (auto simp: run_call t1_def)
  have k: "frame_cnt c1 = frame_cnt c" "psram_mode c1 = psram_mode c" "jpeg_mode c1 = jpeg_mode c"
    "fb_size c1 = fb_size c" "geometry c1 = geometry (snd (ll_cam_dma_sizes c))"
    by (simp_all add: c1_def Let_def dma_sizes_keeps geometry_def)
  then have k2: "core c2 = (replicate (frame_cnt c) zero_frame, frame_cnt c, psram_mode c, jpeg_mode c,
      fb_size c, geometry (snd (ll_cam_dma_sizes c)))" "psram_mode c2 = psram_mode c" "fb_size c2 = fb_size c"
    by (simp_all add: core_def c2_def geometry_def)
  have ok: "fst (ll_cam_dma_sizes c)"
    using r c by (auto simp: cam_dma_config_def run_basic run_upd_cam cs split: if_splits)
  define rest :: "nat \<Rightarrow> ('a cam_vars_scheme, esp_err) state" where "rest n = do {
         c \<leftarrow> gets cam;
         dma_align \<leftarrow> (if psram_mode c then ll_cam_get_dma_align env else return 0);
         let sz = (if psram_mode c then max (fb_size c) (recv_size c) else fb_size c);
         let caps = (if fb_location config = CAMERA_FB_IN_DRAM then MALLOC_CAP_INTERNAL
                     else MALLOC_CAP_SPIRAM);
         e \<leftarrow> alloc_frames env (sz + dma_align) caps dma_align [0..<n];
         if e \<noteq> ESP_OK then return e
         else if \<not> psram_mode c then alloc_dma_buffer env
         else return ESP_OK
       }" for n
  define allocs where "allocs n = do {
       r \<leftarrow> call env (Os (Malloc (n * sizeof_cam_frame_t) MALLOC_DEFAULT));
       upd_cam (\<lambda>c. c\<lparr>frames_ptr := rval r,
                      frames := (if rval r = 0 then [] else replicate n zero_frame)\<rparr>);
       if rval r = 0 then return ESP_FAIL else rest n }" for n
  have "run_state (allocs (frame_cnt c1)) t1 = (ESP_OK, s')"
    using r ok unfolding cam_dma_config_def rest_def [symmetric] allocs_def [symmetric]
    by (simp add: run_basic run_upd_cam cs c t1_def c1_def Let_def cam_def)
  then have rest: "run_state (rest (frame_cnt c)) t3 = (ESP_OK, s')" and r1: "rval r1 \<noteq> 0"
    by (auto simp: allocs_def run_basic 1 run_upd_cam k t t3_def c2_def split: if_splits)
  have c3: "cam t3 = c2" by (simp add: t3_def cam_def)
  obtain al u where 3: "run_state (if psram_mode c then ll_cam_get_dma_align env else return 0) t3 = (al, u)"
    by (meson surj_pair)
  have u: "cam_obj u = Some c2" "\<not> psram_mode c \<Longrightarrow> al = 0"
    using 3 by (auto simp: ll_cam_get_dma_align_def run_simps t3_def split: if_splits)
  let ?sz = "(if psram_mode c then max (fb_size c2) (recv_size c2) else fb_size c2) + al"
  let ?caps = "if fb_location config = CAMERA_FB_IN_DRAM then MALLOC_CAP_INTERNAL else MALLOC_CAP_SPIRAM"
  obtain e v where 4: "run_state (alloc_frames env ?sz ?caps al [0..<frame_cnt c]) u = (e, v)"
    by (meson surj_pair)
  have "(if e \<noteq> ESP_OK then (e, v) else if \<not> psram_mode c then run_state (alloc_dma_buffer env) v else (ESP_OK, v))
    = (ESP_OK, s')"
    using rest 3 4 by (cases "psram_mode c"; cases "e = ESP_OK") (simp_all add: rest_def run_basic c3 k2(2) Let_def)
  then have "e = ESP_OK" "s' = v \<or> run_state (alloc_dma_buffer env) v = (ESP_OK, s')"
    by (auto split: if_splits)
  then show thesis using that [OF ok k2(1) u(1) _ 4 [unfolded \<open>e = ESP_OK\<close>]] u(2) k2(3) by simp
qed

lemma cam_config_split:
  assumes r: "run_state (cam_config env (Some config) fs pid) s = (ESP_OK, s')" and c: "cam_obj s = Some c"
  obtains t u where "fst (ll_cam_set_sample_mode c (pixel_format config) pid) = ESP_OK"
    "cam_obj t = Some (cam_sizes config fs (snd (ll_cam_set_sample_mode c (pixel_format config) pid)))"
    "run_state (cam_dma_config env config) t = (ESP_OK, u)" "run_state (cam_queues env config) u = (ESP_OK, s')"
proof -
  let ?m = "ll_cam_set_sample_mode c (pixel_format config) pid"
  define t where "t = s\<lparr>cam_obj := Some (cam_sizes config fs (snd ?m))\<rparr>"
  obtain d u where 1: "run_state (cam_dma_config env config) t = (d, u)" by (meson surj_pair)
  obtain e v where 2: "run_state (cam_queues env config) u = (e, v)" by (meson surj_pair)
  define undo :: "esp_err \<Rightarrow> ('a cam_vars_scheme, esp_err) state" where
    "undo e = (if e = ESP_OK then return ESP_OK else do { _ \<leftarrow> cam_deinit env; return ESP_FAIL })" for e
  have u: "run_state (undo e) v = (ESP_OK, s') \<longleftrightarrow> e = ESP_OK \<and> v = s'" for e v
    by (auto simp: undo_def run_basic split: prod.splits)
  have ok: "fst ?m = ESP_OK"
    using r c unfolding cam_config_def undo_def [symmetric] by (auto simp: run_basic run_upd_cam cam_def u split: if_splits)
  have "d = ESP_OK \<and> run_state (undo e) v = (ESP_OK, s')"
    using r ok c 1 2 unfolding cam_config_def undo_def [symmetric]
    by (cases "d = ESP_OK") (auto simp: run_basic run_upd_cam cam_def u t_def)
  then show thesis using that [OF ok, of t u] 1 2 u by (simp add: t_def)
qed

lemma cam_config_ready:
  assumes r: "run_state (cam_config env (Some config) fs pid) s = (ESP_OK, s')" and c: "cam_obj s = Some c"
    and n: "0 < fb_count config"
  shows "pool (frame_queue_len config (cam s')) [] {} s' \<and> frames_ok [] s' \<and>
         cam_state (cam s') = CAM_STATE_IDLE \<and> frame_cnt (cam s') = fb_count config"
proof -
  let ?m = "ll_cam_set_sample_mode c (pixel_format config) pid"
  define c1 where "c1 = cam_sizes config fs (snd ?m)"
  obtain t u where tu: "fst ?m = ESP_OK" "cam_obj t = Some c1"
    "run_state (cam_dma_config env config) t = (ESP_OK, u)" "run_state (cam_queues env config) u = (ESP_OK, s')"
    unfolding c1_def by (rule cam_config_split [OF r c])
  obtain a sz al caps c2 v where ok: "fst (ll_cam_dma_sizes c1)"
    and c2: "core c2 = (replicate (frame_cnt c1) zero_frame, frame_cnt c1, psram_mode c1, jpeg_mode c1, fb_size c1,
       geometry (snd (ll_cam_dma_sizes c1)))"
    and a: "cam_obj a = Some c2" and sz: "\<not> psram_mode c1 \<Longrightarrow> sz = fb_size c1"
    and al: "run_state (alloc_frames env sz caps al [0..<frame_cnt c1]) a = (ESP_OK, v)"
    and u: "u = v \<or> run_state (alloc_dma_buffer env) v = (ESP_OK, u)"
    by (rule cam_dma_config_split [OF tu(3,2)]) blast
  have cnt: "frame_cnt c1 = fb_count config" by (simp add: c1_def cam_sizes_def Let_def)
  have geo: "geometry (snd (ll_cam_dma_sizes c1))"
    using sample_mode_geometry [OF tu(1) c1_def refl ok] .
  have ca: "cam a = c2" using a by (simp add: cam_def)
  have fa: "frames (cam a) = replicate (fb_count config) zero_frame" using c2 ca cnt by (simp add: core_def)
  then have v: "stable {0..<fb_count config} a v \<and> (\<forall>i\<in>{0..<fb_count config}. readied sz v i)"
    using alloc_frames_run [OF al] a cnt by (simp add: frame_at_def zero_frame_def zero_fb_def lessThan_atLeast0)
  then obtain c3 where c3: "cam_obj v = Some c3" "conf c3 = conf c2" "length (frames c3) = fb_count config"
    using a ca fa by (cases "cam_obj v") (auto simp: stable_def cam_def)
  obtain c4 where c4: "cam_obj u = Some c4" "core c4 = core c3"
    using u c3(1) alloc_dma_buffer_run [of env v ESP_OK u c3] by auto
  obtain c5 where c5: "cam_obj s' = Some c5" "core c5 = core c4" "cam_state c5 = CAM_STATE_IDLE"
    "queue_state (frame_buffer_queue c5) (trace s') = Some (frame_queue_len config c4, [])" "ct_frame_pos s' = 0"
    using cam_queues_run [OF tu(4) c4(1)] by auto
  have cam': "cam s' = c5" "cam v = c3" using c5 c3 by (simp_all add: cam_def)
  have e: "frames c5 = frames c3" "frame_cnt c5 = fb_count config" "frame_cnt c4 = fb_count config"
    "psram_mode c5 = psram_mode c1" "fb_size c5 = fb_size c1" "psram_mode c3 = psram_mode c1"
    using c5(2) c4(2) c2 cnt conf_eqD [OF c3(2)] by (auto simp: core_def)
  have "geometry c5"
    using c5(2) c4(2) c2 geo conf_eqD [OF c3(2)] by (auto simp: core_def geometry_def)
  moreover have fr: "frame_at s' i = frame_at v i" for i by (simp add: frame_at_def cam' e)
  ultimately show ?thesis
    using v n c3(3) c5(1,3-5) e sz
    by (auto simp: pool_def frames_ok_def readied_def cam' fr frame_queue_len_def)
qed

section \<open>Properties\<close>

text \<open>C13 (invariant).  A successful \<open>cam_config\<close> puts the driver into a start state of the frame pool:
  whatever the heap and the hardware answered on the way, every frame is allocated, enabled and large
  enough, and the frame queue is empty.  With \<open>frame_ownership\<close> and the other theorems on
  \<open>camera_run\<close> this covers every state of the driver after it.\<close>

theorem cam_config_starts_pool:
  assumes "run_state (cam_config env (Some config) fs pid) s = (ESP_OK, s')" "cam_obj s \<noteq> None"
    and "0 < fb_count config"
  shows "camera_run env arrive (frame_buffer_queue (cam s')) (frame_queue_len config (cam s')) s' {} \<and>
         frame_cnt (cam s') = fb_count config"
  using assms cam_config_ready [OF assms(1)] by (auto intro: camera_run.ready)

text \<open>A heap that never runs out and drivers that never fail.\<close>

definition granting :: fw_env where
  "granting k c = ret_int 1"

definition demo_config :: camera_config_t where
  "demo_config = \<lparr>pin_pwdn = -1, pin_reset = -1, pin_xclk = 40, pin_sccb_sda = 17, pin_sccb_scl = 18,
     pin_d7 = 39, pin_d6 = 41, pin_d5 = 42, pin_d4 = 12, pin_d3 = 3, pin_d2 = 14, pin_d1 = 47, pin_d0 = 13,
     pin_vsync = 21, pin_href = 38, pin_pclk = 11, xclk_freq_hz = 10000000, cfg_ledc_timer = 0,
     cfg_ledc_channel = 0, pixel_format = PIXFORMAT_JPEG, frame_size = FRAMESIZE_QVGA, jpeg_quality = 12,
     fb_count = 2, fb_location = CAMERA_FB_IN_PSRAM, grab_mode = CAMERA_GRAB_LATEST, cfg_sccb_i2c_port = 1\<rparr>"

lemma upto_two: "[0..<2] = [0, Suc 0]"
  by (simp add: numeral_2_eq_2)

definition demo_configured :: "esp_err \<times> fw" where
  "demo_configured = run_state (cam_config granting (Some demo_config) FRAMESIZE_QVGA 0x26)
     (boot\<lparr>cam_obj := Some zero_cam\<rparr>)"

lemma demo_configured_ok: "fst demo_configured = ESP_OK"
  by (simp add: demo_configured_def cam_config_def demo_config_def ll_cam_set_sample_mode_def cam_sizes_def cam_dma_config_def
      ll_cam_dma_sizes_def cam_queues_def alloc_dma_buffer_def allocate_dma_descriptors_def ll_cam_init_isr_def
      granting_def run_simps boot_def zero_cam_def Let_def upto_two cam_def [abs_def] put_def frame_at_def
      cam_task_prologue_def mode_def)

theorem cam_config_starts_pool_witness:
  "camera_run granting (\<lambda>k. []) (frame_buffer_queue (cam (snd demo_configured)))
     (frame_queue_len demo_config (cam (snd demo_configured))) (snd demo_configured) {}"
proof -
  have "run_state (cam_config granting (Some demo_config) FRAMESIZE_QVGA 0x26) (boot\<lparr>cam_obj := Some zero_cam\<rparr>) =
      (ESP_OK, snd demo_configured)"
    unfolding demo_configured_ok [symmetric] by (simp add: demo_configured_def)
  from cam_config_starts_pool [OF this] show ?thesis by (simp add: demo_config_def)
qed

end
