(* ===== verification/EspCamera.thy ===== *)
theory EspCamera
  imports Drivers CamSetup Preserve
begin

text \<open>
  The application interface of the camera driver (\<open>driver/esp_camera.c\<close>): detection of the sensor,
  initialisation, release, hand-over of frames, settings in non-volatile storage.

  The operations of a sensor are reached through function pointers that the \<open>init\<close> function of the
  detected driver assigned (\<open>Drivers\<close>); \<open>sensor_call\<close> dispatches on that driver.
\<close>

section \<open>Dispatch\<close>

text \<open>The pointer for an operation in the sensor object; \<open>None\<close> is \<open>NULL\<close>.\<close>

definition sensor_pointer :: "fw_env \<Rightarrow> sensor_op \<Rightarrow> 'z cam_vars_scheme \<Rightarrow> ('z cam_vars_scheme, int) state option" where
  "sensor_pointer env sop s = Option.bind (drv (sensor s)) (\<lambda>m. driver_ops m env sop)"

definition sensor_call :: "fw_env \<Rightarrow> sensor_op \<Rightarrow> ('z cam_vars_scheme, int) state" where
  "sensor_call env sop = do {
     s \<leftarrow> get_state;
     case sensor_pointer env sop s of
       None \<Rightarrow> null_call env
     | Some f \<Rightarrow> f
   }"

definition sensor_do :: "fw_env \<Rightarrow> sensor_op \<Rightarrow> ('z cam_vars_scheme, unit) state" where
  "sensor_do env sop = do { _ \<leftarrow> sensor_call env sop; return () }"

section \<open>Detection\<close>

definition sizeof_camera_state_t :: nat where "sizeof_camera_state_t = 260"

definition pulse :: "fw_env \<Rightarrow> int \<Rightarrow> nat \<Rightarrow> nat \<Rightarrow> ((fw_call, 'z) plat_scheme, unit) state" where
  "pulse env pin first second = do {
     tell env (Gpio_config_output pin);
     tell env (Gpio_set_level pin first);
     perform env (Os (Task_delay 1));
     tell env (Gpio_set_level pin second);
     perform env (Os (Task_delay 1))
   }"

text \<open>The detection loop: the model found (\<open>CAMERA_NONE\<close> if none).\<close>

fun detect_loop :: "fw_env \<Rightarrow> byte \<Rightarrow> camera_model_t list \<Rightarrow> ('z cam_vars_scheme, camera_model_t) state" where
  "detect_loop env slv [] = return CAMERA_NONE"
| "detect_loop env slv (m # ms) = do {
     r \<leftarrow> sensor_detect m env slv;
     info \<leftarrow> gets (\<lambda>s. esp_camera_sensor_get_info (sid (sensor s)));
     (if r \<noteq> 0 \<and> info \<noteq> None then do {
        _ \<leftarrow> sensor_init m env;
        return (info_model (the info))
      } else detect_loop env slv ms)
   }"

definition err_of_int :: "int \<Rightarrow> esp_err" where
  "err_of_int r = (if r = 0 then ESP_OK else if r = -1 then ESP_FAIL else ESP_ERR_OTHER r)"

definition identify_sensor :: "fw_env \<Rightarrow> camera_config_t \<Rightarrow>
    ('z cam_vars_scheme, esp_err \<times> camera_model_t) state" where
  "identify_sensor env config = do {
     do_when (0 \<le> pin_pwdn config) (pulse env (pin_pwdn config) 1 0);
     do_when (0 \<le> pin_reset config) (pulse env (pin_reset config) 0 1);
     perform env (Os (Task_delay 1));
     slv \<leftarrow> SCCB_Probe env;
     if slv = 0 then return (ESP_ERR_NOT_FOUND, CAMERA_NONE)
     else do {
       upd_sensor (\<lambda>x. x\<lparr>slv_addr := slv, sensor_xclk_freq_hz := xclk_freq_hz config\<rparr>);
       model \<leftarrow> detect_loop env slv g_sensors;
       if model = CAMERA_NONE then return (ESP_ERR_NOT_SUPPORTED, CAMERA_NONE)
       else do {
         perform env (Os (Task_delay 1));
         r \<leftarrow> sensor_call env Reset_sensor;
         return (err_of_int r, model)
       }
     }
   }"

definition camera_probe :: "fw_env \<Rightarrow> camera_config_t \<Rightarrow>
    ('z cam_vars_scheme, esp_err \<times> camera_model_t) state" where
  "camera_probe env config = do {
     s \<leftarrow> get_state;
     if s_state s \<noteq> None then return (ESP_ERR_INVALID_STATE, CAMERA_NONE)
     else do {
       r \<leftarrow> call env (Os (Malloc sizeof_camera_state_t MALLOC_DEFAULT));
       if rval r = 0 then return (ESP_ERR_NO_MEM, CAMERA_NONE)
       else do {
         modify (\<lambda>s. s\<lparr>s_state := Some zero_sensor, s_state_ptr := rval r\<rparr>);
         ret \<leftarrow> (if pin_sccb_sda config \<noteq> -1
                 then SCCB_Init env (pin_sccb_sda config) (pin_sccb_scl config)
                 else SCCB_Use_Port env (cfg_sccb_i2c_port config));
         if ret \<noteq> ESP_OK then return (ret, CAMERA_NONE)
         else identify_sensor env config
       }
     }
   }"

section \<open>Initialisation and release\<close>

definition esp_camera_deinit :: "fw_env \<Rightarrow> ('z cam_vars_scheme, esp_err) state" where
  "esp_camera_deinit env = do {
     ret \<leftarrow> cam_deinit env;
     s \<leftarrow> get_state;
     do_when (s_state s \<noteq> None) (do {
       _ \<leftarrow> SCCB_Deinit env;
       perform env (Os (Free (s_state_ptr s)));
       modify (\<lambda>s. s\<lparr>s_state := None, s_state_ptr := 0\<rparr>)
     });
     return ret
   }"

text \<open>\<open>camera_sensor[model]\<close>\<close>

definition sensor_info :: "camera_model_t \<Rightarrow> camera_sensor_info_t" where
  "sensor_info model = the (find (\<lambda>row. info_model row = model) camera_sensor)"

definition setup_sensor :: "fw_env \<Rightarrow> camera_config_t \<Rightarrow> framesize_t \<Rightarrow>
    ('z cam_vars_scheme, esp_err) state" where
  "setup_sensor env config fs = do {
     upd_status (\<lambda>st. st\<lparr>st_framesize := fs\<rparr>);
     upd_sensor (\<lambda>x. x\<lparr>pixformat := pixel_format config\<rparr>);
     r \<leftarrow> sensor_call env (Set_framesize fs);
     if r \<noteq> 0 then return ESP_ERR_CAMERA_FAILED_TO_SET_FRAME_SIZE
     else do {
       sensor_do env (Set_pixformat (pixel_format config));
       pid \<leftarrow> gets (\<lambda>s. PID (sid (sensor s)));
       do_when (pid = OV2640_PID) (do {
         sensor_do env (Set_gainceiling (int (gainceiling_value GAINCEILING_2X)));
         sensor_do env (Set_bpc 0);
         sensor_do env (Set_wpc 1);
         sensor_do env (Set_lenc 1)
       });
       do_when (pixel_format config = PIXFORMAT_JPEG)
         (sensor_do env (Set_quality (jpeg_quality config)));
       sensor_do env Init_status;
       cam_start env;
       return ESP_OK
     }
   }"

definition configure_camera :: "fw_env \<Rightarrow> camera_config_t \<Rightarrow> camera_model_t \<Rightarrow>
    ('z cam_vars_scheme, esp_err) state" where
  "configure_camera env config model =
     (if pixel_format config = PIXFORMAT_JPEG \<and> \<not> info_support_jpeg (sensor_info model)
      then return ESP_ERR_NOT_SUPPORTED
      else do {
        let fs = (if info_max_size (sensor_info model) < frame_size config
                  then info_max_size (sensor_info model) else frame_size config);
        pid \<leftarrow> gets (\<lambda>s. PID (sid (sensor s)));
        err \<leftarrow> cam_config env (Some config) fs pid;
        if err \<noteq> ESP_OK then return err else setup_sensor env config fs
      })"

definition esp_camera_init :: "fw_env \<Rightarrow> camera_config_t \<Rightarrow> ('z cam_vars_scheme, esp_err) state" where
  "esp_camera_init env config = do {
     err \<leftarrow> cam_init env (Some config);
     if err \<noteq> ESP_OK then return err
     else do {
       p \<leftarrow> camera_probe env config;
       err \<leftarrow> (if fst p \<noteq> ESP_OK then return (fst p)
               else configure_camera env config (snd p));
       if err \<noteq> ESP_OK then do { _ \<leftarrow> esp_camera_deinit env; return err }
       else return ESP_OK
     }
   }"

section \<open>Frames\<close>

definition FB_GET_TIMEOUT :: u32 where "FB_GET_TIMEOUT = 400"

text \<open>The outer option is the fuel of \<open>cam_take\<close>.\<close>

definition esp_camera_fb_get :: "fw_env \<Rightarrow> arrivals \<Rightarrow> nat \<Rightarrow> ('z cam_vars_scheme, nat option option) state" where
  "esp_camera_fb_get env arrive fuel = do {
     s \<leftarrow> get_state;
     if s_state s = None then return (Some None)
     else do {
       fb \<leftarrow> cam_take env arrive fuel FB_GET_TIMEOUT;
       (case fb of
          Some (Some i) \<Rightarrow> do {
            s \<leftarrow> get_state;
            upd_fb i (\<lambda>b. b\<lparr>fb_width := res_width (st_framesize (status (sensor s))),
                            fb_height := res_height (st_framesize (status (sensor s))),
                            fb_format := pixformat (sensor s)\<rparr>)
          }
        | _ \<Rightarrow> return ());
       return fb
     }
   }"

definition esp_camera_fb_return :: "nat \<Rightarrow> ('z cam_vars_scheme, unit) state" where
  "esp_camera_fb_return i = do {
     s \<leftarrow> get_state;
     do_when (s_state s \<noteq> None) (cam_give i)
   }"

definition esp_camera_sensor_get :: "('z cam_vars_scheme, sensor_t option) state" where
  "esp_camera_sensor_get = gets s_state"

definition esp_camera_return_all :: "('z cam_vars_scheme, unit) state" where
  "esp_camera_return_all = do {
     s \<leftarrow> get_state;
     do_when (s_state s \<noteq> None) cam_give_all
   }"

section \<open>Settings in non-volatile storage\<close>

text \<open>The memory image of \<open>camera_status_t\<close>: a 4-byte little-endian enumeration, one byte per field,
  one byte of padding before the 2-byte exposure value, three at the end.  The object is allocated by
  \<open>calloc\<close>, so the padding is zero.\<close>

definition byte_of_bool :: "bool \<Rightarrow> byte" where
  "byte_of_bool b = (if b then 1 else 0)"

definition status_image :: "camera_status_t \<Rightarrow> byte list" where
  "status_image st =
     [of_nat (framesize_value (st_framesize st)), 0, 0, 0,
      byte_of_bool (st_scale st), byte_of_bool (st_binning st), st_quality st, st_brightness st,
      st_contrast st, st_saturation st, st_sharpness st, st_denoise st,
      st_special_effect st, st_wb_mode st, st_awb st, st_awb_gain st,
      st_aec st, st_aec2 st, st_ae_level st, 0,
      ucast (st_aec_value st), ucast (drop_bit 8 (st_aec_value st)), st_agc st, st_agc_gain st,
      st_gainceiling st, st_bpc st, st_wpc st, st_raw_gma st,
      st_lenc st, st_hmirror st, st_vflip st, st_dcw st,
      st_colorbar st, 0, 0, 0]"

definition sizeof_camera_status_t :: nat where "sizeof_camera_status_t = 36"

definition status_of_image :: "byte list \<Rightarrow> camera_status_t" where
  "status_of_image m =
     \<lparr>st_framesize = framesize_of_value
        (unat (m ! 0) + 256 * unat (m ! 1) + 65536 * unat (m ! 2) + 16777216 * unat (m ! 3)),
      st_scale = (m ! 4 \<noteq> 0), st_binning = (m ! 5 \<noteq> 0), st_quality = m ! 6, st_brightness = m ! 7,
      st_contrast = m ! 8, st_saturation = m ! 9, st_sharpness = m ! 10, st_denoise = m ! 11,
      st_special_effect = m ! 12, st_wb_mode = m ! 13, st_awb = m ! 14, st_awb_gain = m ! 15,
      st_aec = m ! 16, st_aec2 = m ! 17, st_ae_level = m ! 18,
      st_aec_value = push_bit 8 (ucast (m ! 21)) OR ucast (m ! 20),
      st_agc = m ! 22, st_agc_gain = m ! 23, st_gainceiling = m ! 24, st_bpc = m ! 25, st_wpc = m ! 26,
      st_raw_gma = m ! 27, st_lenc = m ! 28, st_hmirror = m ! 29, st_vflip = m ! 30, st_dcw = m ! 31,
      st_colorbar = m ! 32\<rparr>"

definition CAMERA_SENSOR_NVS_KEY :: string where "CAMERA_SENSOR_NVS_KEY = ''sensor''"
definition CAMERA_PIXFORMAT_NVS_KEY :: string where "CAMERA_PIXFORMAT_NVS_KEY = ''pixformat''"

definition esp_camera_save_to_nvs :: "fw_env \<Rightarrow> string \<Rightarrow> ('z cam_vars_scheme, esp_err) state" where
  "esp_camera_save_to_nvs env key = do {
     r \<leftarrow> ask env (Nvs_open key);
     if rerr r = ESP_OK then do {
       sn \<leftarrow> esp_camera_sensor_get;
       (case sn of
          Some x \<Rightarrow> do {
            r1 \<leftarrow> ask env (Nvs_set_blob (rval r) CAMERA_SENSOR_NVS_KEY (status_image (status x)));
            if rerr r1 = ESP_OK then do {
              r2 \<leftarrow> ask env (Nvs_set_u8 (rval r) CAMERA_PIXFORMAT_NVS_KEY (pixformat_value (pixformat x)));
              return (rerr r2)
            } else return (rerr r1)
          }
        | None \<Rightarrow> return ESP_ERR_CAMERA_NOT_DETECTED)
     } else return (rerr r)
   }"

text \<open>The settings in the order in which they are applied.\<close>

definition restore_ops :: "camera_status_t \<Rightarrow> sensor_op list" where
  "restore_ops st =
     [Set_ae_level (sint (st_ae_level st)),
      Set_aec2 (uint (st_aec2 st)),
      Set_aec_value (uint (st_aec_value st)),
      Set_agc_gain (uint (st_agc_gain st)),
      Set_awb_gain (uint (st_awb_gain st)),
      Set_bpc (uint (st_bpc st)),
      Set_brightness (sint (st_brightness st)),
      Set_colorbar (uint (st_colorbar st)),
      Set_contrast (sint (st_contrast st)),
      Set_dcw (uint (st_dcw st)),
      Set_denoise (uint (st_denoise st)),
      Set_exposure_ctrl (uint (st_aec st)),
      Set_framesize (st_framesize st),
      Set_gain_ctrl (uint (st_agc st)),
      Set_gainceiling (uint (st_gainceiling st)),
      Set_hmirror (uint (st_hmirror st)),
      Set_lenc (uint (st_lenc st)),
      Set_quality (uint (st_quality st)),
      Set_raw_gma (uint (st_raw_gma st)),
      Set_saturation (sint (st_saturation st)),
      Set_sharpness (sint (st_sharpness st)),
      Set_special_effect (uint (st_special_effect st)),
      Set_vflip (uint (st_vflip st)),
      Set_wb_mode (uint (st_wb_mode st)),
      Set_whitebal (uint (st_awb st)),
      Set_wpc (uint (st_wpc st))]"

fun sensor_do_all :: "fw_env \<Rightarrow> sensor_op list \<Rightarrow> ('z cam_vars_scheme, unit) state" where
  "sensor_do_all env [] = return ()"
| "sensor_do_all env (sop # sops) = do { sensor_do env sop; sensor_do_all env sops }"

definition esp_camera_load_from_nvs ::
  "fw_env \<Rightarrow> string \<Rightarrow> ('z cam_vars_scheme, esp_err) state" where
  "esp_camera_load_from_nvs env key = do {
     r \<leftarrow> ask env (Nvs_open key);
     if rerr r = ESP_OK then do {
       sn \<leftarrow> esp_camera_sensor_get;
       (case sn of
          Some x \<Rightarrow> do {
            r1 \<leftarrow> ask env (Nvs_get_blob (rval r) CAMERA_SENSOR_NVS_KEY sizeof_camera_status_t);
            do_when (rerr r1 = ESP_OK)
              (sensor_do_all env
                 (restore_ops (status_of_image (fit sizeof_camera_status_t (rdata r1)))));
            r2 \<leftarrow> ask env (Nvs_get_u8 (rval r) CAMERA_PIXFORMAT_NVS_KEY);
            do_when (rerr r2 = ESP_OK)
              (sensor_do env (Set_pixformat (pixformat_of_value (word_of_int (rval r2)))));
            tell env (Nvs_close (rval r));
            return (rerr r2)
          }
        | None \<Rightarrow> return ESP_ERR_CAMERA_NOT_DETECTED)
     } else return (rerr r)
   }"

end
