(* ===== verification/Video.thy ===== *)
theory Video
  imports Uplink EspCamera
begin

text \<open>
  The video service (\<open>softAP.c\<close>: \<open>stream_one_client\<close>, \<open>video_transmitting\<close>): frames of the camera
  driver, each as a 4-byte length and the picture, to one TCP client at a time.

  The camera task and its interrupts run whenever the streaming task blocks: in \<open>esp_camera_fb_get\<close>
  and in every \<open>send\<close>.  \<open>arrive\<close> says what happens before each of these calls.
\<close>

section \<open>The service\<close>

definition VIDEO_PORT :: nat where "VIDEO_PORT = 2000"

text \<open>\<open>fb->buf\<close> with \<open>fb->len\<close> bytes, as \<open>send\<close> reads it.\<close>

definition fb_content :: "nat \<Rightarrow> 'z cam_vars_scheme \<Rightarrow> byte list" where
  "fb_content i s = image (fr_fb (frame_at s i))"

text \<open>Header and picture of one frame; the frame is given back on every path.  \<open>False\<close> means that the
  connection is broken.\<close>

definition stream_frame :: "fw_env \<Rightarrow> arrivals \<Rightarrow> int \<Rightarrow> nat \<Rightarrow> ('z cam_vars_scheme, bool) state" where
  "stream_frame env arrive sock i = do {
     s \<leftarrow> get_state;
     let len = fb_len (fr_fb (frame_at s i));
     background env arrive;
     n \<leftarrow> call env (Net (Send sock (video_header (of_nat len))));
     if rval n \<noteq> 4 then do {
       esp_camera_fb_return i;
       return False
     } else do {
       off \<leftarrow> send_chunks env (background env arrive) (fb_content i) sock (16 * 1024) len len 0;
       esp_camera_fb_return i;
       return (off \<noteq> None)
     }
   }"

text \<open>The endless loop, with fuel for its turns and for \<open>cam_take\<close>; the result is \<open>None\<close> when the fuel
  runs out.  \<open>frames\<close> and \<open>last_log\<close> only feed the log.\<close>

fun stream_loop :: "fw_env \<Rightarrow> arrivals \<Rightarrow> nat \<Rightarrow> nat \<Rightarrow> int \<Rightarrow> int \<Rightarrow> int \<Rightarrow> ('z cam_vars_scheme, unit option) state" where
  "stream_loop env arrive fuel 0 sock frms last_log = return None"
| "stream_loop env arrive fuel (Suc k) sock frms last_log = do {
     fb \<leftarrow> esp_camera_fb_get env arrive fuel;
     case fb of
       None \<Rightarrow> return None
     | Some None \<Rightarrow> do {
         perform env (Os (Task_delay 0));
         stream_loop env arrive fuel k sock frms last_log
       }
     | Some (Some i) \<Rightarrow> do {
         alive \<leftarrow> stream_frame env arrive sock i;
         if \<not> alive then return (Some ())
         else do {
           now \<leftarrow> call env (Os Timer_get_time);
           if 1000000 < rval now - last_log then stream_loop env arrive fuel k sock 0 (rval now)
           else stream_loop env arrive fuel k sock (frms + 1) last_log
         }
       }
   }"

definition stream_one_client :: "fw_env \<Rightarrow> arrivals \<Rightarrow> nat \<Rightarrow> nat \<Rightarrow> int \<Rightarrow> ('z cam_vars_scheme, unit option) state" where
  "stream_one_client env arrive fuel k sock = do {
     perform env (Net (Setsockopt sock (SO_SNDTIMEO 3 0)));
     now \<leftarrow> call env (Os Timer_get_time);
     stream_loop env arrive fuel k sock 0 (rval now)
   }"

definition video_client :: "fw_env \<Rightarrow> arrivals \<Rightarrow> nat \<Rightarrow> nat \<Rightarrow> int \<Rightarrow> unit \<Rightarrow> ('z cam_vars_scheme, unit option) state" where
  "video_client env arrive fuel k sock x = do {
     r \<leftarrow> stream_one_client env arrive fuel k sock;
     case r of None \<Rightarrow> return None
     | Some u \<Rightarrow> do {
         perform env (Net (Shutdown sock));
         perform env (Net (Close sock));
         return (Some u)
       }
   }"

definition video_transmitting ::
  "fw_env \<Rightarrow> arrivals \<Rightarrow> nat \<Rightarrow> nat \<Rightarrow> nat \<Rightarrow> ('z cam_vars_scheme, halt + unit option) state" where
  "video_transmitting env arrive fuel k accepts = do {
     l \<leftarrow> open_listener env VIDEO_PORT;
     case l of None \<Rightarrow> return (Inl Deleted)
     | Some listen_sock \<Rightarrow> do {
         r \<leftarrow> accept_loop env accepts listen_sock (video_client env arrive fuel k) ();
         return (Inr r)
       }
   }"

section \<open>What the camera driver leaves alone\<close>

text \<open>The driver makes no socket calls, and nothing but \<open>esp_camera.c\<close> changes \<open>s_state\<close>.\<close>

fun non_net :: "fw_call \<Rightarrow> bool" where
  "non_net (Net c) = False"
| "non_net _ = True"

lemma non_net_trace:
  assumes "list_all (\<lambda>e. non_net (fst e)) tr"
  shows "sent k tr = []" "opened d tr = 0" "closed d tr = 0"
  using assms
proof (induction tr)
  case (Cons e tr)
  obtain c r where e: "e = (c, r)" by force
  { case 1 with Cons e show ?case by (cases c) auto }
  { case 2 with Cons e show ?case by (cases c) auto }
  { case 3 with Cons e show ?case by (cases c) auto }
qed simp_all

lemma only_upd [only_intros]: "only P (upd_cam f)" "only P (upd_frame i g)" "only P (upd_fb i b)"
  "only P (set_en i e)" "only P (set_cam_state st)" "only P (cam_give i)"
  by (auto intro!: only_pure simp: run_simps upd_cam_def put_def mode_def cam_give_def split: if_splits)

lemma non_net_writes [simp]:
  "list_all non_net (dma_reset_writes c)" "list_all non_net (stop_writes c)" "list_all non_net (start_writes c p)"
  by (simp_all add: dma_reset_writes_def stop_writes_def start_writes_def gdma_reg_def lcd_reg_def)

lemma only_ll_cam [only_intros]:
  "only non_net (ll_cam_dma_reset env)" "only non_net (ll_cam_stop env)" "only non_net (ll_cam_start env p)"
  "only non_net (ll_cam_do_vsync env)"
  unfolding ll_cam_dma_reset_def ll_cam_stop_def ll_cam_start_def ll_cam_do_vsync_def
  by (intro only_intros; simp)+

lemma only_isr [only_intros]: "only non_net (ll_cam_vsync_isr env)" "only non_net (ll_cam_dma_isr env)"
  unfolding ll_cam_vsync_isr_def ll_cam_dma_isr_def ll_cam_send_event_def lcd_cam_def gdma_def
  by (intro only_intros; simp)+

lemma only_start_frame [only_intros]: "only non_net (cam_start_frame env)"
  unfolding cam_start_frame_def cam_get_next_frame_def by (intro only_intros; simp)

lemma only_finish [only_intros]: "only non_net (finish_frame env p)"
  unfolding finish_frame_def send_frame_def copy_half_def by (intro only_intros; simp)

lemma only_task [only_intros]: "only non_net (cam_task env ev)"
  unfolding cam_task_def task_eof_def task_vsync_def copy_half_def dma_fills_frame_def
  by (cases ev) (auto intro!: only_intros split: cam_state_t.split)

lemma only_step [only_intros]: "only non_net (do_step env st)"
  by (cases st) (auto intro!: only_intros)

lemma only_background [only_intros]: "only non_net (background env arrive)"
proof -
  have "only non_net (do_steps env sts)" for sts by (induction sts) (auto intro!: only_intros)
  then show ?thesis unfolding background_def by (auto intro!: only_intros)
qed

lemma only_cam_take [only_intros]: "only non_net (cam_take env arrive fuel t)"
proof (induction fuel arbitrary: t)
  case (Suc fuel)
  show ?case
    unfolding cam_take.simps receive_frame_def ll_cam_dma_reset_def Let_def
    by (intro only_intros Suc.IH; simp)
qed (simp add: only_intros)

lemma only_fb_get [only_intros]: "only non_net (esp_camera_fb_get env arrive fuel)"
  unfolding esp_camera_fb_get_def by (intro only_intros; simp add: only_intros split: option.split)

lemma only_fb_return [only_intros]: "only P (esp_camera_fb_return i)"
  unfolding esp_camera_fb_return_def by (intro only_intros)

lemma preserves_upd [preserves_intros]:
  "preserves s_state (upd_cam f)" "preserves s_state (upd_frame i g)" "preserves s_state (upd_fb i b)"
  "preserves s_state (set_en i e)" "preserves s_state (set_cam_state st)" "preserves s_state (cam_give i)"
  by (auto simp: preserves_def run_simps upd_cam_def put_def mode_def cam_give_def split: if_splits)

lemma preserves_ll_cam [preserves_intros]:
  "preserves s_state (ll_cam_dma_reset env)" "preserves s_state (ll_cam_stop env)"
  "preserves s_state (ll_cam_start env p)" "preserves s_state (ll_cam_do_vsync env)"
  unfolding ll_cam_dma_reset_def ll_cam_stop_def ll_cam_start_def ll_cam_do_vsync_def
  by (intro preserves_intros)+

lemma preserves_start_frame [preserves_intros]: "preserves s_state (cam_start_frame env)"
  unfolding cam_start_frame_def cam_get_next_frame_def by (intro preserves_intros; simp)

lemma preserves_finish [preserves_intros]: "preserves s_state (finish_frame env p)"
  unfolding finish_frame_def send_frame_def copy_half_def by (intro preserves_intros; simp)

lemma preserves_task [preserves_intros]: "preserves s_state (cam_task env ev)"
  unfolding cam_task_def task_eof_def task_vsync_def copy_half_def dma_fills_frame_def
  by (cases ev) (auto intro!: preserves_intros split: cam_state_t.split)

lemma preserves_step [preserves_intros]: "preserves s_state (do_step env st)"
  by (cases st) (auto simp: ll_cam_vsync_isr_def ll_cam_dma_isr_def ll_cam_send_event_def lcd_cam_def gdma_def
    intro!: preserves_intros)

lemma preserves_background [preserves_intros]: "preserves s_state (background env arrive)"
proof -
  have "preserves s_state (do_steps env sts)" for sts by (induction sts) (auto intro!: preserves_intros)
  then show ?thesis unfolding background_def by (auto intro!: preserves_intros)
qed

lemma preserves_cam_take [preserves_intros]: "preserves s_state (cam_take env arrive fuel t)"
proof (induction fuel arbitrary: t)
  case (Suc fuel)
  show ?case
    unfolding cam_take.simps receive_frame_def Let_def by (intro preserves_intros Suc.IH)
qed (simp add: preserves_intros)

lemma preserves_fb_get [preserves_intros]: "preserves s_state (esp_camera_fb_get env arrive fuel)"
  unfolding esp_camera_fb_get_def by (intro preserves_intros; simp add: preserves_intros split: option.split)

section \<open>Frames held by the streaming task\<close>

text \<open>\<open>serving h n H s\<close>: the invariant of the frame pool, with frame queue \<open>h\<close> and the frames \<open>H\<close> held.\<close>

definition serving :: "int \<Rightarrow> nat \<Rightarrow> nat set \<Rightarrow> 'z cam_vars_scheme \<Rightarrow> bool" where
  "serving h n H s \<longleftrightarrow> (\<exists>q. good n q H s) \<and> frame_buffer_queue (cam s) = h"

lemma serving_call:
  assumes "serving h n H s" "non_queue c"
  shows "serving h n H (s\<lparr>trace := trace s @ [(c, r)]\<rparr>)"
proof -
  let ?t = "s\<lparr>trace := trace s @ [(c, r)]\<rparr>"
  have [simp]: "cam ?t = cam s" "frame_at ?t i = frame_at s i" for i by (simp_all add: cam_def frame_at_def)
  show ?thesis
    using assms by (auto simp: serving_def good_def pool_def filling_def frames_ok_def receiving_ok_def non_queue_step)
qed

lemma serving_background:
  assumes "serving h n H s" "run_state (background env arrive) s = (x, s')" "queue_ok h (trace s')"
  shows "serving h n H s' \<and> conf (cam s') = conf (cam s) \<and> (\<forall>i\<in>H. frame_at s' i = frame_at s i)"
proof -
  from assms(1) obtain q where q: "good n q H s" "frame_buffer_queue (cam s) = h" by (auto simp: serving_def)
  then obtain q' where "carries n q' H s s'" using background_good assms(2,3) by blast
  then show ?thesis using q conf_eqD [of "cam s'" "cam s"] by (auto simp: carries_def serving_def)
qed

lemma serving_fb_get:
  assumes "serving h n H s" "run_state (esp_camera_fb_get env arrive fuel) s = (Some res, s')" "queue_ok h (trace s')"
  shows "serving h n (H \<union> set_option res) s' \<and> conf (cam s') = conf (cam s) \<and> s_state s' = s_state s \<and>
    (\<forall>i. res = Some i \<longrightarrow> s_state s \<noteq> None \<and> i \<notin> H \<and>
       (jpeg_mode (cam s) \<and> \<not> psram_mode (cam s) \<longrightarrow> jpeg_image (fb_content i s')))"
proof (cases "s_state s")
  case None
  then show ?thesis using assms by (auto simp: esp_camera_fb_get_def run_simps)
next
  case (Some x)
  from assms(1) obtain q where q: "good n q H s" "frame_buffer_queue (cam s) = h" by (auto simp: serving_def)
  obtain fb t where t: "run_state (cam_take env arrive fuel FB_GET_TIMEOUT) s = (fb, t)" by (meson surj_pair)
  have st: "s_state t = s_state s" by (rule preservesD [OF preserves_cam_take t])
  define g where "g i = (frame_at t i)\<lparr>fr_fb := (fr_fb (frame_at t i))\<lparr>fb_width := res_width (st_framesize (status (sensor t))),
     fb_height := res_height (st_framesize (status (sensor t))), fb_format := pixformat (sensor t)\<rparr>\<rparr>" for i
  have fb: "fb = Some res" and s': "s' = (case res of None \<Rightarrow> t | Some i \<Rightarrow> put i (g i) t)"
    using assms(2) Some t
    by (auto simp: esp_camera_fb_get_def run_simps g_def split: option.splits)
  have tr: "trace s' = trace t" by (auto simp: s' put_def split: option.splits)
  obtain q' where q': "taken n q' H s t res" "jpeg_if_jpeg s t res"
    using cam_take_good [OF q(1) t [unfolded fb]] assms(3) q(2) tr by auto
  show ?thesis
  proof (cases res)
    case None
    then show ?thesis using q q' st s' conf_eqD [of "cam t" "cam s"] by (auto simp: taken_def serving_def)
  next
    case (Some i)
    have gt: "good n q' (insert i H) t" and cf: "conf (cam t) = conf (cam s)" and ih: "i \<notin> H"
      using q' Some by (auto simp: taken_def)
    have ib: "i < frame_cnt (cam t)" "cam_obj t \<noteq> None" "i < length (frames (cam t))"
      using gt by (auto simp: good_def pool_def)
    have gd: "good n q' (insert i H) (put i (g i) t)"
      by (rule good_put_held [OF gt]) (use gt ib in \<open>auto simp: g_def good_def frames_ok_def\<close>)
    have "frame_at (put i (g i) t) i = g i" using ib by simp
    then have "fb_content i s' = image (fr_fb (frame_at t i))"
      using Some by (simp add: s' fb_content_def g_def image_def)
    moreover have "cam_obj s' \<noteq> None" "conf (cam s') = conf (cam t)" "s_state s' = s_state t"
      using Some ib by (auto simp: s' put_def conf_def cam_def)
    ultimately show ?thesis
      using gd cf ih st Some q q' conf_eqD [OF cf] \<open>s_state s = Some x\<close> conf_eqD [of "cam s'" "cam t"]
      by (auto simp: serving_def s' jpeg_if_jpeg_def)
  qed
qed

lemma serving_give:
  assumes "serving h n H s" "i \<in> H" "s_state s \<noteq> None" "run_state (esp_camera_fb_return i) s = (x, s')"
  shows "serving h n (H - {i}) s' \<and> conf (cam s') = conf (cam s) \<and> s_state s' = s_state s \<and> trace s' = trace s"
proof -
  have H: "insert i (H - {i}) = H" using assms(2) by blast
  have r: "run_state (cam_give i) s = (x, s')" using assms(3,4) by (simp add: esp_camera_fb_return_def run_simps)
  from assms(1) obtain q where q: "good n q H s" "frame_buffer_queue (cam s) = h" by (auto simp: serving_def)
  have "s_state s' = s_state s" by (rule preservesD [OF _ r]) (rule preserves_intros)
  then show ?thesis
    using cam_give_good [of n q i "H - {i}", unfolded H, OF q(1) _ r] q(2) conf_eqD [of "cam s'" "cam s"]
    by (auto simp: serving_def)
qed

section \<open>Sending a frame\<close>

text \<open>A held frame is a stable block of memory while the camera goes on.\<close>

definition holding ::
  "int \<Rightarrow> nat \<Rightarrow> nat set \<Rightarrow> nat \<Rightarrow> sensor_t option \<Rightarrow> cam_obj_t \<Rightarrow> 'z cam_vars_scheme \<Rightarrow> bool" where
  "holding h n H i x c s \<longleftrightarrow> serving h n H s \<and> i \<in> H \<and> s_state s = x \<and> conf (cam s) = c"

lemma holding_background:
  assumes "holding h n H i x c s" "run_state (background env arrive) s = (y, s')" "queue_ok h (trace s')"
  shows "holding h n H i x c s' \<and> fb_content i s' = fb_content i s \<and> sent k (trace s') = sent k (trace s)"
proof -
  have "s_state s' = s_state s" by (rule preservesD [OF preserves_background assms(2)])
  moreover obtain tr where "trace s' = trace s @ tr" "list_all (\<lambda>e. non_net (fst e)) tr"
    by (rule onlyD [OF only_background assms(2)])
  ultimately show ?thesis
    using serving_background [OF _ assms(2,3), of n H] assms(1) non_net_trace(1)
    by (auto simp: holding_def fb_content_def)
qed

lemma holding_send:
  "holding h n H i x c s \<Longrightarrow> holding h n H i x c (s\<lparr>trace := trace s @ [(Net d, r)]\<rparr>) \<and>
     fb_content i (s\<lparr>trace := trace s @ [(Net d, r)]\<rparr>) = fb_content i s"
  by (auto simp: holding_def serving_call fb_content_def frame_at_def cam_def)

interpretation held_frame: stable_block "background env arrive" "fb_content i" "holding h n H i x c" "queue_ok h"
  for env arrive h n H i x c
  by unfold_locales (auto intro: appends_background dest: queue_ok_prefix holding_background holding_send)

lemma holding_length:
  assumes "holding h n H i x c s" "\<not> psram_mode (cam s)"
  shows "length (fb_content i s) = fb_len (fr_fb (frame_at s i))" "length (fb_content i s) \<le> fb_size (cam s)"
  using assms by (auto simp: holding_def serving_def good_def frames_ok_def pool_def fb_content_def image_def)

text \<open>What one frame puts on the wire: the whole message, or a proper prefix of it.\<close>

lemma stream_frame_spec:
  assumes h: "holding h n H i x c s" and r: "run_state (stream_frame env arrive sock i) s = (alive, s')"
    and ok: "queue_ok h (trace s')" and sb: "send_bounded env" and x: "x \<noteq> None" and p: "\<not> psram_mode (cam s)"
  shows "serving h n (H - {i}) s' \<and> s_state s' = x \<and> conf (cam s') = c \<and>
    (\<exists>k. sent sock (trace s') = sent sock (trace s) @ take k (frame (fb_content i s)) \<and>
       (if alive then k = length (frame (fb_content i s)) else k < length (frame (fb_content i s))))"
proof -
  define b where "b = fb_content i s"
  define hd where "hd = video_header (of_nat (length b))"
  have len: "fb_len (fr_fb (frame_at s i)) = length b" using holding_length [OF h p] by (simp add: b_def)
  obtain y t where t: "run_state (background env arrive) s = (y, t)" by (meson surj_pair)
  define r1 where "r1 = env (length (trace t)) (Net (Send sock hd))"
  define u where "u = t\<lparr>trace := trace t @ [(Net (Send sock hd), r1)]\<rparr>"
  obtain off v where v: "run_state (send_chunks env (background env arrive) (fb_content i) sock (16 * 1024)
      (length b) (length b) 0) u = (off, v)" by (meson surj_pair)
  obtain y1 w1 where w1: "run_state (esp_camera_fb_return i) u = (y1, w1)" by (meson surj_pair)
  obtain y2 w2 where w2: "run_state (esp_camera_fb_return i) v = (y2, w2)" by (meson surj_pair)
  have res: "(if rval r1 \<noteq> 4 then (False, w1) else (off \<noteq> None, w2)) = (alive, s')"
    using r t w1 w2 v len
    by (cases "rval r1 = 4") (simp_all add: stream_frame_def run_basic run_call Let_def r1_def u_def hd_def)
  have tr: "trace w1 = trace u" "trace w2 = trace v"
    using w1 w2 by (auto simp: esp_camera_fb_return_def run_simps cam_give_def put_def split: if_splits)
  have "queue_ok h (trace u)"
    using ok res tr held_frame.appends_ok [OF appends_send_chunks [OF appends_background] v]
    by (auto split: if_splits)
  then have okt: "queue_ok h (trace t)" by (auto simp: u_def)
  note ht = holding_background [OF h t okt, of sock]
  have hu: "holding h n H i x c u" "fb_content i u = b" using ht holding_send [of h n H i x c t] by (auto simp: u_def b_def)
  have r1: "rval r1 \<le> 4"
    using send_boundedD [OF sb, of "length (trace t)" sock hd] by (simp add: r1_def hd_def)
  have su: "sent sock (trace u) = sent sock (trace s) @ take (nat (rval r1)) hd" using ht by (simp add: u_def)
  have fr: "frame b = hd @ b" by (simp add: frame_def hd_def)
  show ?thesis
  proof (cases "rval r1 = 4")
    case False
    then have s': "alive = False" "s' = w1" using res by auto
    have "serving h n (H - {i}) s' \<and> s_state s' = x \<and> conf (cam s') = c"
      using serving_give [OF _ _ _ w1, of h n H] hu x s' by (auto simp: holding_def)
    moreover have "take (nat (rval r1)) hd = take (nat (rval r1)) (frame b)" using r1 False by (simp add: fr hd_def)
    ultimately show ?thesis
      using su s' tr r1 False unfolding b_def [symmetric]
      by (intro conjI exI [where x = "nat (rval r1)"]) (auto simp: length_frame)
  next
    case True
    then have s': "alive = (off \<noteq> None)" "s' = w2" using res by auto
    have okv: "queue_ok h (trace v)" using ok s' tr by simp
    obtain k where k: "holding h n H i x c v" "sent sock (trace v) = sent sock (trace u) @ slice 0 k b"
      "off = Some (length b) \<and> k = length b \<or> off = None \<and> k < length b"
      using held_frame.send_chunks_spec [OF v okv hu(1)] hu(2) sb by auto
    have "serving h n (H - {i}) s' \<and> s_state s' = x \<and> conf (cam s') = c"
      using serving_give [OF _ _ _ w2, of h n H] k(1) x s' by (auto simp: holding_def)
    moreover have "take 4 hd @ slice 0 k b = take (4 + k) (frame b)"
      by (simp add: fr hd_def slice_def)
    ultimately show ?thesis
      using su s' tr k True unfolding b_def [symmetric]
      by (intro conjI exI [where x = "4 + k"]) (auto simp: length_frame)
  qed
qed

section \<open>The stream\<close>

lemma appends_fb [appends_intros]: "appends (esp_camera_fb_get env arrive fuel)" "appends (esp_camera_fb_return i)"
  unfolding esp_camera_fb_get_def esp_camera_fb_return_def
  by (auto intro!: appends_intros split: option.split)

lemma appends_stream_frame [appends_intros]: "appends (stream_frame env arrive sock i)"
  unfolding stream_frame_def Let_def by (intro appends_intros)

lemma appends_stream [appends_intros]: "appends (stream_loop env arrive fuel k sock f l)"
  by (induction k arbitrary: f l) (auto intro!: appends_intros split: option.split)

text \<open>\<open>messages P bs\<close>: \<open>bs\<close> is a sequence of complete messages and the beginning of another one.\<close>

definition messages :: "(byte list \<Rightarrow> bool) \<Rightarrow> byte list \<Rightarrow> bool" where
  "messages P bs \<longleftrightarrow>
     (\<exists>pics y k. bs = concat (map frame pics) @ take k (frame y) \<and> k < length (frame y) \<and>
        (\<forall>x\<in>set (y # pics). P x \<and> frameable x))"

lemma messages_Cons: "messages P bs \<Longrightarrow> P x \<Longrightarrow> frameable x \<Longrightarrow> messages P (frame x @ bs)"
  unfolding messages_def
proof (elim exE conjE)
  fix pics y k
  assume "bs = concat (map frame pics) @ take k (frame y)" "k < length (frame y)"
    "\<forall>x\<in>set (y # pics). P x \<and> frameable x" "P x" "frameable x"
  then show "\<exists>pics y k. frame x @ bs = concat (map frame pics) @ take k (frame y) \<and> k < length (frame y) \<and>
      (\<forall>x\<in>set (y # pics). P x \<and> frameable x)"
    by (intro exI [where x = "x # pics"] exI [where x = y] exI [where x = k]) auto
qed

lemma messages_prefix: "k < length (frame y) \<Longrightarrow> P y \<Longrightarrow> frameable y \<Longrightarrow> messages P (take k (frame y))"
  unfolding messages_def by (intro exI [where x = "[]"] exI [where x = y] exI [where x = k]) auto

lemma messages_received:
  assumes "messages P bs"
  shows "\<exists>p. bs = concat (map frame (received_frames bs)) @ p \<and> (\<forall>x\<in>set (received_frames bs). P x)"
proof -
  from assms obtain pics y k where bs: "bs = concat (map frame pics) @ take k (frame y)" "k < length (frame y)"
    "\<forall>x\<in>set (y # pics). P x \<and> frameable x" by (auto simp: messages_def)
  have "received_frames bs = pics"
    unfolding bs(1) by (rule received_frames_partial [of pics y _ "drop k (frame y)"]) (use bs in auto)
  then show ?thesis using bs by auto
qed

definition jpeg_streaming :: "cam_obj_t \<Rightarrow> bool" where
  "jpeg_streaming c \<longleftrightarrow> jpeg_mode c \<and> \<not> psram_mode c \<and> fb_size c < 2 ^ 32"

lemma stream_loop_spec:
  assumes "run_state (stream_loop env arrive fuel k sock f l) s = (Some (), s')" "queue_ok h (trace s')"
    and "serving h n H s" "s_state s \<noteq> None" "jpeg_streaming (cam s)" "send_bounded env"
  shows "serving h n H s' \<and> (\<exists>bs. sent sock (trace s') = sent sock (trace s) @ bs \<and> messages jpeg_image bs)"
  using assms
proof (induction k arbitrary: s f l)
  case (Suc k)
  obtain fb t where t: "run_state (esp_camera_fb_get env arrive fuel) s = (fb, t)" by (meson surj_pair)
  obtain tr where tr: "trace t = trace s @ tr" "list_all (\<lambda>e. non_net (fst e)) tr"
    by (rule onlyD [OF only_fb_get t])
  then have st: "sent sock (trace t) = sent sock (trace s)" using non_net_trace(1) by simp
  obtain res where fb: "fb = Some res" using Suc.prems(1) t by (cases fb) (auto simp: run_simps)
  show ?case
  proof (cases res)
    case None
    define u where "u = t\<lparr>trace := trace t @ [(Os (Task_delay 0), env (length (trace t)) (Os (Task_delay 0)))]\<rparr>"
    have rec: "run_state (stream_loop env arrive fuel k sock f l) u = (Some (), s')"
      using Suc.prems(1) t fb None by (simp add: run_simps u_def)
    have "queue_ok h (trace u)" by (rule appends_queue_ok [OF appends_stream rec Suc.prems(2)])
    then have g: "serving h n H t" "conf (cam t) = conf (cam s)" "s_state t = s_state s"
      using serving_fb_get [OF Suc.prems(3) t [unfolded fb]] None by (auto simp: u_def)
    have cu: "cam u = cam t" by (simp add: u_def cam_def)
    have "serving h n H s' \<and> (\<exists>bs. sent sock (trace s') = sent sock (trace u) @ bs \<and> messages jpeg_image bs)"
      by (rule Suc.IH [OF rec Suc.prems(2)])
        (use g cu conf_eqD [OF g(2)] Suc.prems in \<open>auto simp: u_def serving_call jpeg_streaming_def\<close>)
    then show ?thesis using st by (simp add: u_def)
  next
    case (Some i)
    obtain alive v where v: "run_state (stream_frame env arrive sock i) t = (alive, v)" by (meson surj_pair)
    define w where "w = v\<lparr>trace := trace v @ [(Os Timer_get_time, env (length (trace v)) (Os Timer_get_time))]\<rparr>"
    have cont: "if alive then \<exists>f' l'. run_state (stream_loop env arrive fuel k sock f' l') w = (Some (), s') else s' = v"
      using Suc.prems(1) t fb Some v by (auto simp: run_simps w_def split: if_splits)
    then have "if alive then queue_ok h (trace w) else queue_ok h (trace v)"
      using appends_queue_ok [OF appends_stream _ Suc.prems(2)] Suc.prems(2) by (auto split: if_splits)
    then have okv: "queue_ok h (trace v)" by (auto simp: w_def split: if_splits)
    have okt: "queue_ok h (trace t)" by (rule appends_queue_ok [OF appends_stream_frame v okv])
    have g: "serving h n (insert i H) t" "conf (cam t) = conf (cam s)" "s_state t = s_state s" "i \<notin> H"
      "jpeg_image (fb_content i t)"
      using serving_fb_get [OF Suc.prems(3) t [unfolded fb] okt] Some Suc.prems(5) by (auto simp: jpeg_streaming_def)
    note ce = conf_eqD [OF g(2)]
    have ht: "holding h n (insert i H) i (s_state s) (conf (cam s)) t" using g by (simp add: holding_def)
    have np: "\<not> psram_mode (cam t)" using ce Suc.prems(5) by (simp add: jpeg_streaming_def)
    have fa: "frameable (fb_content i t)"
      using holding_length [OF ht np] ce Suc.prems(5) by (simp add: jpeg_streaming_def frameable_def)
    obtain m where m: "serving h n H v" "s_state v = s_state s" "conf (cam v) = conf (cam s)"
      "sent sock (trace v) = sent sock (trace t) @ take m (frame (fb_content i t))"
      "if alive then m = length (frame (fb_content i t)) else m < length (frame (fb_content i t))"
      using stream_frame_spec [OF ht v okv Suc.prems(6,4) np] g(4) by auto
    show ?thesis
    proof (cases alive)
      case False
      then show ?thesis using m st cont g(5) fa messages_prefix [of m _ jpeg_image] by auto
    next
      case True
      then obtain f' l' where rec: "run_state (stream_loop env arrive fuel k sock f' l') w = (Some (), s')"
        using cont by auto
      have cw: "cam w = cam v" by (simp add: w_def cam_def)
      have "serving h n H s' \<and> (\<exists>bs. sent sock (trace s') = sent sock (trace w) @ bs \<and> messages jpeg_image bs)"
        by (rule Suc.IH [OF rec Suc.prems(2)])
          (use m cw conf_eqD [OF m(3)] Suc.prems in \<open>auto simp: w_def serving_call jpeg_streaming_def\<close>)
      then show ?thesis
        using m(4,5) True st g(5) fa messages_Cons [of jpeg_image] by (auto simp: w_def)
    qed
  qed
qed (simp add: run_simps)

section \<open>The service keeps its descriptors in order\<close>

text \<open>Serving a client uses no socket calls but \<open>send\<close> and \<open>setsockopt\<close>.\<close>

fun stream_call :: "fw_call \<Rightarrow> bool" where
  "stream_call (Net (Send k bs)) = True"
| "stream_call (Net (Setsockopt k p)) = True"
| "stream_call (Net c) = False"
| "stream_call _ = True"

lemma stream_call_trace:
  assumes "list_all (\<lambda>e. stream_call (fst e)) tr" shows "opened d tr = 0" "closed d tr = 0"
  using assms
proof (induction tr)
  case (Cons e tr)
  obtain c r where e: "e = (c, r)" by force
  { case 1 with Cons e show ?case by (cases c rule: stream_call.cases) auto }
  { case 2 with Cons e show ?case by (cases c rule: stream_call.cases) auto }
qed simp_all

lemma non_net_stream_call: "only non_net m \<Longrightarrow> only stream_call m"
  by (erule only_weaken) (metis non_net.elims(2) stream_call.simps)

lemmas only_camera_stream [only_intros] =
  only_background [THEN non_net_stream_call] only_fb_get [THEN non_net_stream_call]

lemma only_send_chunks: "only P wait \<Longrightarrow> (\<And>bs. P (Net (Send sock bs))) \<Longrightarrow>
    only P (send_chunks env wait rd sock cap len n off)"
  by (induction n arbitrary: off) (auto intro!: only_intros simp: Let_def)

lemma only_stream_frame [only_intros]: "only stream_call (stream_frame env arrive sock i)"
  unfolding stream_frame_def Let_def by (intro only_intros only_send_chunks; simp)

lemma only_stream [only_intros]: "only stream_call (stream_loop env arrive fuel k sock f l)"
  by (induction k arbitrary: f l) (auto intro!: only_intros split: option.split)

lemma video_client_calls:
  assumes "run_state (video_client env arrive fuel k sock x) s = (Some y, s')"
  obtains tr r1 r2 where "trace s' = trace s @ tr @ [(Net (Shutdown sock), r1), (Net (Close sock), r2)]"
    "list_all (\<lambda>e. stream_call (fst e)) tr"
proof -
  obtain z t where t: "run_state (stream_one_client env arrive fuel k sock) s = (z, t)" by (meson surj_pair)
  have "only stream_call (stream_one_client env arrive fuel k sock :: ('a cam_vars_scheme, unit option) state)"
    unfolding stream_one_client_def by (intro only_intros; simp)
  from onlyD [OF this t] obtain tr where "trace t = trace s @ tr" "list_all (\<lambda>e. stream_call (fst e)) tr" .
  then show thesis
    using assms t that by (cases z) (auto simp: video_client_def run_simps)
qed

interpretation video_service: client_handler "video_client env arrive fuel k" for env arrive fuel k
  by unfold_locales (auto elim!: video_client_calls simp: stream_call_trace)

section \<open>Properties\<close>

text \<open>C2 (refinement).  Whatever the camera, the network and the order of their steps do: when the stream
  to a client ends, the bytes the network accepted are a sequence of length-prefixed messages, each
  with a complete JPEG picture, and at most the beginning of one more; the peer decodes exactly those
  pictures.  Every frame was given back to the driver: the application holds the same frames \<open>H\<close> as
  before.\<close>

theorem video_stream_correct:
  assumes "camera_run env arrive h n s H" "s_state s \<noteq> None" "jpeg_streaming (cam s)" "send_bounded env"
    and "run_state (stream_one_client env arrive fuel k sock) s = (Some (), s')" "queue_ok h (trace s')"
  shows "(\<exists>bs p. sent sock (trace s') = sent sock (trace s) @ bs \<and>
             bs = concat (map frame (received_frames bs)) @ p \<and> (\<forall>x\<in>set (received_frames bs). jpeg_image x)) \<and>
         (\<exists>q. queue_state h (trace s') = Some (n, q) \<and>
             (\<forall>i < frame_cnt (cam s'). fr_en (frame_at s' i) \<longleftrightarrow> i \<notin> set q \<union> H))"
proof -
  define c1 where "c1 = Net (Setsockopt sock (SO_SNDTIMEO 3 0))"
  define t where "t = s\<lparr>trace := trace s @ [(c1, env (length (trace s)) c1)]\<rparr>"
  define r where "r = env (length (trace t)) (Os Timer_get_time)"
  define u where "u = t\<lparr>trace := trace t @ [(Os Timer_get_time, r)]\<rparr>"
  have run: "run_state (stream_loop env arrive fuel k sock 0 (rval r)) u = (Some (), s')"
    using assms(5) by (simp add: stream_one_client_def run_simps u_def r_def t_def c1_def)
  have "queue_ok h (trace u)" by (rule appends_queue_ok [OF appends_stream run assms(6)])
  then have "queue_ok h (trace s)" by (simp add: u_def t_def)
  then have "serving h n H s" using camera_run_good [OF assms(1)] by (auto simp: serving_def)
  then have "serving h n H t" unfolding t_def by (rule serving_call) (simp add: c1_def)
  then have su: "serving h n H u" unfolding u_def by (rule serving_call) simp
  have cu: "cam u = cam s" "s_state u = s_state s" "sent sock (trace u) = sent sock (trace s)"
    by (simp_all add: u_def t_def c1_def cam_def)
  obtain bs where "serving h n H s'" "sent sock (trace s') = sent sock (trace s) @ bs" "messages jpeg_image bs"
    using stream_loop_spec [OF run assms(6) su] cu assms(2,3,4) by auto
  then show ?thesis
    using messages_received [of jpeg_image bs] by (auto simp: serving_def good_def pool_def)
qed

text \<open>The camera of \<open>CamTake\<close> with a picture in its queue, and a connection that is already broken.\<close>

definition video_start :: cam_vars where
  "video_start = demo_queued\<lparr>trace := trace demo_queued @ [(Net (Setsockopt 5 (SO_SNDTIMEO 3 0)), ret_int 0),
     (Os Timer_get_time, ret_int 0)]\<rparr>"

lemma video_taken:
  "let d = run_state (cam_take demo_env (\<lambda>k. []) 1 400) video_start
   in fst d = Some (Some 0) \<and> queue_ok 7 (trace (snd d)) \<and> s_state (snd d) \<noteq> None \<and>
      jpeg_mode (cam (snd d)) \<and> \<not> psram_mode (cam (snd d)) \<and> fb_size (cam (snd d)) = 8 \<and> cam_obj (snd d) \<noteq> None"
  by code_simp

definition video_demo :: "unit option \<times> cam_vars" where
  "video_demo = run_state (stream_one_client demo_env (\<lambda>k. []) 1 1 5) demo_queued"

lemma video_taken_run:
  obtains t where "run_state (cam_take demo_env (\<lambda>k. []) 1 400) video_start = (Some (Some 0), t)"
    "queue_ok 7 (trace t)" "s_state t \<noteq> None" "s_state demo_queued \<noteq> None"
proof -
  obtain x t where t: "run_state (cam_take demo_env (\<lambda>k. []) 1 400) video_start = (x, t)" by (meson surj_pair)
  have "s_state t = s_state demo_queued"
    using preservesD [OF preserves_cam_take t] by (simp add: video_start_def)
  then show thesis using that [of t] t video_taken unfolding Let_def t by simp
qed

lemma video_demo_run: "fst video_demo = Some () \<and> queue_ok 7 (trace (snd video_demo))"
proof -
  obtain t where t: "run_state (cam_take demo_env (\<lambda>k. []) 1 400) video_start = (Some (Some 0), t)"
    "queue_ok 7 (trace t)" "s_state t \<noteq> None" "s_state demo_queued \<noteq> None" by (rule video_taken_run)
  then have st: "s_state video_start \<noteq> None" by (simp add: video_start_def)
  have [simp]: "demo_env k (Net c) = ret_int 0" "demo_env k (Os o1) = ret_int 0" for k c o1
    by (simp_all add: demo_env_def)
  have eq: "run_state (stream_one_client demo_env (\<lambda>k. []) 1 1 5) demo_queued =
      run_state (stream_loop demo_env (\<lambda>k. []) 1 1 5 0 0) video_start"
    by (simp add: stream_one_client_def run_simps video_start_def del: stream_loop.simps)
  have "run_state (background demo_env (\<lambda>k. [])) s = ((), s)" for s :: cam_vars
    by (simp add: background_def run_simps)
  note bg = this
  obtain u where u: "run_state (esp_camera_fb_get demo_env (\<lambda>k. []) 1) video_start = (Some (Some 0), u)"
    "queue_ok 7 (trace u)" "s_state u \<noteq> None"
    using t st by (auto simp: esp_camera_fb_get_def run_simps FB_GET_TIMEOUT_def put_def
        simp del: cam_take.simps One_nat_def)
  have "run_state (stream_frame demo_env (\<lambda>k. []) 5 0) u =
      (False, snd (run_state (cam_give 0) (u\<lparr>trace := trace u @
         [(Net (Send 5 (video_header (of_nat (fb_len (fr_fb (frame_at u 0)))))), ret_int 0)]\<rparr>)))"
    using u(3) by (simp add: stream_frame_def run_basic run_call bg esp_camera_fb_return_def Let_def
        run_unit [symmetric] run_cam_give)
  then show ?thesis
    using u unfolding video_demo_def eq One_nat_def [symmetric]
    by (simp add: run_basic run_cam_give put_def non_queue_fits stream_loop.simps(2) [of _ _ _ 0, unfolded One_nat_def [symmetric]])
qed

theorem video_stream_correct_witness:
  "\<exists>q. queue_state 7 (trace (snd video_demo)) = Some (1, q) \<and>
     (\<forall>i < frame_cnt (cam (snd video_demo)). fr_en (frame_at (snd video_demo) i) \<longleftrightarrow> i \<notin> set q \<union> {})"
proof -
  have run: "run_state (stream_one_client demo_env (\<lambda>k. []) 1 1 5) demo_queued = (Some (), snd video_demo)"
    using video_demo_run by (simp add: video_demo_def prod_eq_iff)
  have "s_state demo_queued \<noteq> None" by (rule video_taken_run)
  moreover have "jpeg_streaming (cam demo_queued)" using demo_facts by (simp add: jpeg_streaming_def)
  moreover have "send_bounded demo_env" by (simp add: send_bounded_def demo_env_def)
  ultimately show ?thesis
    using video_stream_correct [OF demo_runs(2) _ _ _ run] video_demo_run by blast
qed

end
