(* ===== verification/Services.thy ===== *)
theory Services
  imports AudioManager Haptic Video
begin

text \<open>
  The other services of \<open>softAP.c\<close> and the start of the program: reception of MP3 files for playback
  (\<open>reverse_audio\<close>), the volume keys (\<open>key_volume_task\<close>), the Wi-Fi access point, the functions that start
  the tasks, the camera configuration of the board (\<open>ov2640_init.c\<close>) and \<open>app_main\<close> (\<open>main.c\<close>).
\<close>

section \<open>Reverse audio\<close>

definition REVERSE_AUDIO_PORT :: nat where "REVERSE_AUDIO_PORT = 3000"
definition MAX_INMEM_BYTES :: nat where "MAX_INMEM_BYTES = 1 * 1024 * 1024"
definition RECV_CHUNK :: nat where "RECV_CHUNK = 4 * 1024"

definition looks_like_mp3 :: "byte list \<Rightarrow> bool" where
  "looks_like_mp3 buf =
     (if 3 \<le> length buf \<and> buf ! 0 = 0x49 \<and> buf ! 1 = 0x44 \<and> buf ! 2 = 0x33 then True
      else if 2 \<le> length buf \<and> buf ! 0 = 0xFF \<and> (buf ! 1 AND 0xE0) = 0xE0 then True
      else False)"

text \<open>The receive loop.  \<open>mem\<close> is the content of the buffer up to \<open>filled\<close>; the result is whether the
  transfer was complete, the content, and the outcome of the header check (\<open>None\<close>: not yet checked).
  The option around it is the fuel.\<close>

fun recv_file :: "fw_env \<Rightarrow> nat \<Rightarrow> int \<Rightarrow> byte list \<Rightarrow> bool option \<Rightarrow>
    ((fw_call, 'z) plat_scheme, (bool \<times> byte list \<times> bool option) option) state" where
  "recv_file env 0 sock mem header = return None"
| "recv_file env (Suc k) sock mem header = do {
     r \<leftarrow> call env (Net (Recv sock RECV_CHUNK));
     if rval r = 0 then return (Some (True, mem, header))
     else if rval r < 0 then return (Some (False, mem, header))
     else do {
       let chunk = take (nat (rval r)) (rdata r);
       let header' = (case header of Some b \<Rightarrow> Some b | None \<Rightarrow> Some (looks_like_mp3 chunk));
       if MAX_INMEM_BYTES < length mem + nat (rval r) then return (Some (False, mem, header'))
       else recv_file env k sock (mem @ chunk) header'
     }
   }"

text \<open>One client; \<open>Inl\<close> is a processor fault or abort in the audio code.  \<open>start\<close> of the playback is the
  address of the buffer.\<close>

definition reverse_audio_client ::
  "fw_env \<Rightarrow> nat \<Rightarrow> int \<Rightarrow> ('z audio_vars_scheme, halt + unit option) state" where
  "reverse_audio_client env fuel sock = do {
     perform_all env [Os (Heap_free_size MALLOC_CAP_SPIRAM), Os (Heap_largest_block MALLOC_CAP_SPIRAM)];
     m \<leftarrow> call env (Os (Malloc MAX_INMEM_BYTES MALLOC_CAP_SPIRAM));
     if rval m = 0 then do {
       perform_all env [Net (Shutdown sock), Net (Close sock)];
       return (Inr (Some ()))
     } else do {
       f \<leftarrow> recv_file env fuel sock [] None;
       case f of None \<Rightarrow> return (Inr None)
       | Some (ok, mem, header) \<Rightarrow> do {
           perform_all env [Net (Shutdown sock), Net (Close sock)];
           if \<not> ok \<or> mem = [] then do {
             perform env (Os (Free (rval m)));
             return (Inr (Some ()))
           } else do {
             pr \<leftarrow> audio_manager_play_from_flash env fuel (rval m) (rval m + int (length mem));
             case pr of Inl h \<Rightarrow> return (Inl h)
             | Inr None \<Rightarrow> return (Inr None)
             | Inr (Some e) \<Rightarrow> do {
                 perform env (Os (Free (rval m)));
                 return (Inr (Some ()))
               }
           }
         }
     }
   }"

text \<open>The server loop, observed for \<open>n\<close> accepts; a halt ends it.\<close>

fun reverse_audio_loop ::
  "fw_env \<Rightarrow> nat \<Rightarrow> nat \<Rightarrow> int \<Rightarrow> ('z audio_vars_scheme, halt + unit option) state" where
  "reverse_audio_loop env fuel 0 listen_sock = return (Inr (Some ()))"
| "reverse_audio_loop env fuel (Suc n) listen_sock = do {
     r \<leftarrow> call env (Net (Accept listen_sock));
     if rval r < 0 then reverse_audio_loop env fuel n listen_sock
     else do {
       c \<leftarrow> reverse_audio_client env fuel (rval r);
       if c = Inr (Some ()) then reverse_audio_loop env fuel n listen_sock else return c
     }
   }"

definition reverse_audio :: "fw_env \<Rightarrow> nat \<Rightarrow> nat \<Rightarrow> ('z audio_vars_scheme, halt + unit option) state" where
  "reverse_audio env fuel accepts = do {
     l \<leftarrow> open_listener env REVERSE_AUDIO_PORT;
     case l of None \<Rightarrow> return (Inl Deleted)
     | Some listen_sock \<Rightarrow> do {
         perform_all env [Os (Heap_free_size MALLOC_CAP_SPIRAM), Os (Heap_largest_block MALLOC_CAP_SPIRAM)];
         c \<leftarrow> call env (Os (Malloc RECV_CHUNK MALLOC_CAP_SPIRAM));
         if rval c = 0 then do {
           perform env (Net (Close listen_sock));
           return (Inl Deleted)
         } else reverse_audio_loop env fuel accepts listen_sock
       }
   }"

section \<open>Volume keys\<close>

text \<open>A key event is the answer of \<open>Key_event_listen\<close>: \<open>rval\<close> is the key, \<open>rdata\<close> the kind of input device
  (0 touch, 1 button, 2 ADC button) and the kind of event (0 tap, 1 and 2 pressed).  \<open>volup\<close> and
  \<open>voldown\<close> are the keys the board reports.\<close>

definition is_press :: "ret \<Rightarrow> bool" where
  "is_press r \<longleftrightarrow> length (rdata r) = 2 \<and> rdata r ! 0 \<le> 2 \<and> rdata r ! 1 \<le> 2"

definition volume_up :: "int \<Rightarrow> int" where
  "volume_up volume = (let v = volume + 10 in if 100 < v then 100 else v)"

definition volume_down :: "int \<Rightarrow> int" where
  "volume_down volume = (let v = volume - 10 in if v < 0 then 0 else v)"

definition key_event ::
  "fw_env \<Rightarrow> int \<Rightarrow> int \<Rightarrow> int \<Rightarrow> int \<Rightarrow> ('z audio_vars_scheme, int) state" where
  "key_event env volup voldown evt volume = do {
     r \<leftarrow> call env (Board (Key_event_listen evt));
     if rerr r \<noteq> ESP_OK \<or> \<not> is_press r then return volume
     else if rval r = volup then do {
       _ \<leftarrow> audio_manager_set_volume env (volume_up volume);
       return (volume_up volume)
     } else if rval r = voldown then do {
       _ \<leftarrow> audio_manager_set_volume env (volume_down volume);
       return (volume_down volume)
     } else return volume
   }"

text \<open>The endless loop, observed for \<open>n\<close> events.\<close>

fun key_loop :: "fw_env \<Rightarrow> int \<Rightarrow> int \<Rightarrow> nat \<Rightarrow> int \<Rightarrow> int \<Rightarrow> ('z audio_vars_scheme, int) state" where
  "key_loop env volup voldown 0 evt volume = return volume"
| "key_loop env volup voldown (Suc n) evt volume = do {
     v \<leftarrow> key_event env volup voldown evt volume;
     key_loop env volup voldown n evt v
   }"

definition key_volume_task :: "fw_env \<Rightarrow> int \<Rightarrow> int \<Rightarrow> nat \<Rightarrow> ('z audio_vars_scheme, int) state" where
  "key_volume_task env volup voldown n = do {
     set \<leftarrow> call env (Board Periph_set_init);
     perform env (Board (Board_key_init (rval set)));
     evt \<leftarrow> call env (Board Key_event_iface_init);
     perform env (Board (Key_set_listener (rval set) (rval evt)));
     v \<leftarrow> audio_manager_get_volume env;
     key_loop env volup voldown n (rval evt) (case v of (ESP_OK, Some vol) \<Rightarrow> vol | _ \<Rightarrow> 50)
   }"

section \<open>Access point\<close>

definition WIFI_SSID :: string where "WIFI_SSID = ''fanghb''"
definition WIFI_PASS :: string where "WIFI_PASS = ''eecs473_15''"
definition WIFI_CHANNEL :: nat where "WIFI_CHANNEL = 6"
definition MAX_STA_CONN :: nat where "MAX_STA_CONN = 4"

definition wifi_config :: wifi_ap_config_t where
  "wifi_config = \<lparr>ap_ssid = WIFI_SSID, ap_ssid_len = length WIFI_SSID, ap_channel = WIFI_CHANNEL,
     ap_password = WIFI_PASS, ap_max_connection = MAX_STA_CONN,
     ap_authmode = (if length WIFI_PASS = 0 then WIFI_AUTH_OPEN else WIFI_AUTH_WPA_WPA2_PSK),
     ap_pmf_required = True\<rparr>"

definition wifi_init_softap :: "fw_env \<Rightarrow> ((fw_call, 'z) plat_scheme, halt + unit) state" where
  "wifi_init_softap env =
     checked env (Wifi Netif_init)
      (checked env (Wifi Event_loop_create_default) (do {
         perform env (Wifi Netif_create_default_wifi_ap);
         checked env (Wifi Wifi_init)
          (checked env (Wifi (Wifi_set_mode WIFI_MODE_AP))
           (checked env (Wifi (Wifi_set_config WIFI_IF_AP wifi_config))
            (checked env (Wifi (Wifi_set_bandwidth WIFI_IF_AP WIFI_BW_HT40))
             (checked env (Wifi (Wifi_set_ps WIFI_PS_NONE))
              (checked env (Wifi Wifi_start) (return (Inr ())))))))
       }))"

section \<open>Starting the tasks\<close>

definition start_task_once ::
  "fw_env \<Rightarrow> ('z softap_vars_scheme \<Rightarrow> int) \<Rightarrow> (int \<Rightarrow> 'z softap_vars_scheme \<Rightarrow> 'z softap_vars_scheme) \<Rightarrow>
     string \<Rightarrow> nat \<Rightarrow> ('z softap_vars_scheme, unit) state" where
  "start_task_once env task upd name stack = do {
     s \<leftarrow> get_state;
     if task s \<noteq> 0 then return ()
     else do {
       dump_internal_mem env;
       r \<leftarrow> call env (Os (Task_create name stack 5));
       do_when (rval r \<noteq> 0) (modify (upd (rval r)))
     }
   }"

definition softap_video_start :: "fw_env \<Rightarrow> nat \<Rightarrow> ('z softap_vars_scheme, unit) state" where
  "softap_video_start env port =
     start_task_once env s_video_task (\<lambda>h s. s\<lparr>s_video_task := h\<rparr>) ''video_transmitting'' 5120"

definition softap_audio_player_init :: "((fw_call, 'z) plat_scheme, esp_err) state" where
  "softap_audio_player_init = return ESP_OK"

definition softap_reverse_audio_start :: "fw_env \<Rightarrow> nat \<Rightarrow> ('z softap_vars_scheme, unit) state" where
  "softap_reverse_audio_start env port = do {
     dump_internal_mem env;
     r \<leftarrow> call env (Os (Task_create ''mp3_server_task'' 3072 5));
     do_when (rval r \<noteq> 0) (modify (\<lambda>s. s\<lparr>s_mp3_task := rval r\<rparr>))
   }"

definition softap_feedback_start :: "fw_env \<Rightarrow> nat \<Rightarrow> ('z softap_vars_scheme, unit) state" where
  "softap_feedback_start env port =
     start_task_once env s_vibration_task (\<lambda>h s. s\<lparr>s_vibration_task := h\<rparr>) ''vibration_feedback'' 3072"

definition softap_keys_start :: "fw_env \<Rightarrow> ('z softap_vars_scheme, unit) state" where
  "softap_keys_start env =
     start_task_once env s_key_task (\<lambda>h s. s\<lparr>s_key_task := h\<rparr>) ''key_volume_task'' 3072"

section \<open>The camera of the board\<close>

text \<open>\<open>sccb_i2c_port\<close> is not set by the source and therefore 0.\<close>

definition board_camera_config :: camera_config_t where
  "board_camera_config = \<lparr>pin_pwdn = -1, pin_reset = -1, pin_xclk = 40, pin_sccb_sda = 17, pin_sccb_scl = 18,
     pin_d7 = 39, pin_d6 = 41, pin_d5 = 42, pin_d4 = 12, pin_d3 = 3, pin_d2 = 14, pin_d1 = 47, pin_d0 = 13,
     pin_vsync = 21, pin_href = 38, pin_pclk = 11, xclk_freq_hz = 10000000, cfg_ledc_timer = 0,
     cfg_ledc_channel = 0, pixel_format = PIXFORMAT_JPEG, frame_size = FRAMESIZE_QVGA, jpeg_quality = 12,
     fb_count = 2, fb_location = CAMERA_FB_IN_PSRAM, grab_mode = CAMERA_GRAB_LATEST, cfg_sccb_i2c_port = 0\<rparr>"

definition camera_init_ov2640 :: "fw_env \<Rightarrow> ('z cam_vars_scheme, esp_err) state" where
  "camera_init_ov2640 env = do {
     err \<leftarrow> esp_camera_init env board_camera_config;
     if err \<noteq> ESP_OK then return err
     else do {
       sn \<leftarrow> esp_camera_sensor_get;
       do_when (sn \<noteq> None) (sensor_do env (Set_framesize FRAMESIZE_QVGA));
       return ESP_OK
     }
   }"

section \<open>The program\<close>

definition init_nvs :: "fw_env \<Rightarrow> ((fw_call, 'z) plat_scheme, halt + unit) state" where
  "init_nvs env = do {
     r \<leftarrow> call env (Os Nvs_flash_init);
     if rerr r = ESP_ERR_NVS_NO_FREE_PAGES \<or> rerr r = ESP_ERR_NVS_NEW_VERSION_FOUND
     then checked env (Os Nvs_flash_erase) (checked env (Os Nvs_flash_init) (return (Inr ())))
     else return (Inr ())
   }"

definition and_then :: "('s, halt + 'a) state \<Rightarrow> ('s, halt + 'b) state \<Rightarrow> ('s, halt + 'b) state" where
  "and_then m k = do { r \<leftarrow> m; case r of Inl h \<Rightarrow> return (Inl h) | Inr _ \<Rightarrow> k }"

definition error_check :: "('s, esp_err) state \<Rightarrow> ('s, halt + unit) state" where
  "error_check m = do { e \<leftarrow> m; return (if e = ESP_OK then Inr () else Inl (Aborted e)) }"

definition error_check_halt :: "('s, halt + esp_err) state \<Rightarrow> ('s, halt + unit) state" where
  "error_check_halt m = do {
     r \<leftarrow> m;
     return (case r of Inl h \<Rightarrow> Inl h | Inr e \<Rightarrow> if e = ESP_OK then Inr () else Inl (Aborted e))
   }"

definition app_main :: "fw_env \<Rightarrow> (fw, halt + unit) state" where
  "app_main env =
     and_then (init_nvs env)
      (and_then (wifi_init_softap env)
       (and_then (error_check (camera_init_ov2640 env)) (do {
          audio_manager_init env;
          and_then (error_check_halt (audio_manager_start_wakenet env)) (do {
            softap_video_start env 2000;
            and_then (error_check softap_audio_player_init) (do {
              softap_reverse_audio_start env 3000;
              softap_feedback_start env 4000;
              softap_keys_start env;
              return (Inr ())
            })
          })
        })))"

end
