(* ===== verification/Recording.thy ===== *)
theory Recording
  imports Wakenet Video
begin

text \<open>
  What the recording task of \<open>wakenet.c\<close> guarantees: the buffer holds what the recorder delivered and is
  never written past its end, the peer that fetches a recording reads exactly these bytes behind their
  length, every descriptor the upload opens is closed, and at most one recording task runs at a time.
\<close>

section \<open>The recorder\<close>

text \<open>\<open>audio_recorder_data_read\<close> returns at most as many bytes as were asked for.\<close>

definition recorder_sane :: "fw_env \<Rightarrow> bool" where
  "recorder_sane env \<longleftrightarrow>
     (\<forall>k h n. let r = env k (Adf (Recorder_data_read h n))
              in rval r \<le> int n \<and> (0 < rval r \<longrightarrow> length (rdata r) = nat (rval r)))"

text \<open>The bytes the recorder delivered, in order.\<close>

fun recorded :: "(fw_call \<times> ret) list \<Rightarrow> byte list" where
  "recorded [] = []"
| "recorded ((Adf (Recorder_data_read h n), r) # tr) = (if 0 < rval r then rdata r else []) @ recorded tr"
| "recorded (_ # tr) = recorded tr"

lemma recorded_append [simp, wire_simps]: "recorded (tr @ tr') = recorded tr @ recorded tr'"
  by (induction tr rule: recorded.induct) auto

lemma recorder_saneD:
  assumes "recorder_sane env"
  shows "rval (env k (Adf (Recorder_data_read h n))) \<le> int n"
    and "0 < rval (env k (Adf (Recorder_data_read h n))) \<Longrightarrow>
         length (rdata (env k (Adf (Recorder_data_read h n)))) = nat (rval (env k (Adf (Recorder_data_read h n))))"
  using assms by (simp_all add: recorder_sane_def Let_def)

section \<open>The recording loop\<close>

text \<open>The calls of the loop that end it before the buffer is full.\<close>

fun ends_recording :: "u32 \<Rightarrow> fw_call \<times> ret \<Rightarrow> bool" where
  "ends_recording t0 (Os Tick_count, r) \<longleftrightarrow> 500 < (word_of_int (rval r) - t0 :: u32)"
| "ends_recording t0 (Adf (Recorder_data_read h n), r) \<longleftrightarrow> rval r \<le> 0"
| "ends_recording t0 _ \<longleftrightarrow> False"

fun record_call :: "fw_call \<Rightarrow> bool" where
  "record_call (Os Tick_count) = True"
| "record_call (Adf (Recorder_data_read h n)) = True"
| "record_call _ = False"

lemma record_loop_spec:
  assumes "run_state (record_loop env cap t0 k off) s = (n, s')" "recorder_sane env"
    and "off \<le> cap" "length (s_record_data s) = cap" "cap - off \<le> k"
  shows "\<exists>tr. trace s' = trace s @ tr \<and> s_record_buf s' = s_record_buf s \<and>
           list_all (\<lambda>e. record_call (fst e)) tr \<and>
           n = off + length (recorded tr) \<and> n \<le> cap \<and> length (s_record_data s') = cap \<and>
           take n (s_record_data s') = take off (s_record_data s) @ recorded tr \<and>
           (n < cap \<longrightarrow> tr \<noteq> [] \<and> ends_recording t0 (last tr))"
  using assms
proof (induction k arbitrary: off s)
  case 0
  then show ?case by (auto simp: run_simps)
next
  case (Suc k)
  show ?case
  proof (cases "cap \<le> off")
    case True
    then show ?thesis using Suc.prems by (auto simp: run_simps)
  next
    case False
    define now where "now = env (length (trace s)) (Os Tick_count)"
    define t where "t = s\<lparr>trace := trace s @ [(Os Tick_count, now)]\<rparr>"
    define m where "m = (if cap - off < BYTES_PER_SECOND div 5 then cap - off else BYTES_PER_SECOND div 5)"
    define c where "c = Adf (Recorder_data_read (s_recorder s) m)"
    define r where "r = env (length (trace t)) c"
    define u where "u = t\<lparr>trace := trace t @ [(c, r)]\<rparr>"
    show ?thesis
    proof (cases "500 < (word_of_int (rval now) - t0 :: u32)")
      case True
      then have "n = off" "s' = t"
        using Suc.prems(1) False by (simp_all add: run_simps flip: now_def t_def)
      then show ?thesis using True Suc.prems(4) False by (simp add: t_def)
    next
      case early: False
      note step = Suc.prems(1) False early
      show ?thesis
      proof (cases "rval r \<le> 0")
        case True
        then have "n = off" "s' = u"
          using step by (simp_all add: run_simps adf_def Let_def flip: now_def m_def t_def, simp_all add: u_def r_def c_def t_def)
        then show ?thesis
          using True Suc.prems(4) False by (simp add: u_def t_def c_def)
      next
        case pos: False
        define v where "v = u\<lparr>s_record_data := write_at off (take (nat (rval r)) (rdata r)) (s_record_data u)\<rparr>"
        have rec: "run_state (record_loop env cap t0 k (off + nat (rval r))) v = (n, s')"
          using step pos
          by (simp add: run_simps adf_def Let_def flip: now_def m_def t_def, simp add: v_def u_def r_def c_def t_def)
        have m: "m \<le> cap - off" by (simp add: m_def)
        have r: "rval r \<le> int m" "length (rdata r) = nat (rval r)"
          using recorder_saneD [OF Suc.prems(2)] pos by (simp_all add: r_def c_def)
        have le: "off + length (rdata r) \<le> cap" using r m Suc.prems(3) by linarith
        have data: "length (s_record_data v) = cap"
          "take (off + nat (rval r)) (s_record_data v) = take off (s_record_data s) @ rdata r"
          using le Suc.prems(3,4) r(2) take_write_at_end [of off "s_record_data s" "rdata r"]
          by (simp_all add: v_def u_def t_def length_write_at)
        have le': "off + nat (rval r) \<le> cap" "cap - (off + nat (rval r)) \<le> k"
          using le r(2) Suc.prems(5) pos by linarith+
        obtain tr where tr: "trace s' = trace v @ tr" "s_record_buf s' = s_record_buf v"
          "list_all (\<lambda>e. record_call (fst e)) tr" "n = off + nat (rval r) + length (recorded tr)" "n \<le> cap"
          "length (s_record_data s') = cap"
          "take n (s_record_data s') = take (off + nat (rval r)) (s_record_data v) @ recorded tr"
          "n < cap \<longrightarrow> tr \<noteq> [] \<and> ends_recording t0 (last tr)"
          using Suc.IH [OF rec Suc.prems(2) le'(1) data(1) le'(2)] by blast
        show ?thesis
          using tr data(2) pos r(2)
          by (intro exI [where x = "[(Os Tick_count, now), (c, r)] @ tr"])
            (auto simp: v_def u_def t_def c_def)
      qed
    qed
  qed
qed

section \<open>The upload\<close>

text \<open>Nothing else runs on the recording buffer while it is sent, so it is a stable block.\<close>

interpretation recording_block: stable_block "return ()" "recording len" "\<lambda>s. len \<le> length (s_record_data s)" "\<lambda>_. True"
  for len
  by unfold_locales (simp_all add: appends_basic run_simps recording_def)

text \<open>The loop gives up only after a \<open>send\<close> that accepted nothing.\<close>

lemma send_chunks_None:
  assumes "run_state (send_chunks env (return ()) rd sock cap len n off) s = (None, s')"
  shows "\<exists>tr bs r. trace s' = trace s @ tr @ [(Net (Send sock bs), r)] \<and> rval r \<le> 0"
  using assms
proof (induction n arbitrary: off s)
  case (Suc n)
  then show ?case
    by (fastforce simp: run_simps Let_def split: if_splits)
qed (simp add: run_simps)

fun send_call :: "int \<Rightarrow> fw_call \<Rightarrow> bool" where
  "send_call k (Net (Send j bs)) = (j = k)"
| "send_call k _ = False"

lemma send_callE: "send_call k c \<Longrightarrow> (\<And>bs. c = Net (Send k bs) \<Longrightarrow> P) \<Longrightarrow> P"
  by (cases "(k, c)" rule: send_call.cases) auto

lemma send_call_trace:
  assumes "list_all (\<lambda>e. send_call k (fst e)) tr"
  shows "opened d tr = 0 \<and> closed d tr = 0 \<and> recorded tr = [] \<and> (j \<noteq> k \<longrightarrow> sent j tr = [])"
  using assms by (induction tr) (auto elim!: send_callE)

text \<open>A connection on which the peer takes every byte: no \<open>send\<close> fails and the header goes out whole.\<close>

definition accepting :: "int \<Rightarrow> byte list \<Rightarrow> (fw_call \<times> ret) list \<Rightarrow> bool" where
  "accepting k header tr \<longleftrightarrow>
     (\<forall>e \<in> set tr. \<forall>bs. fst e = Net (Send k bs) \<longrightarrow>
        0 < rval (snd e) \<and> (bs = header \<longrightarrow> rval (snd e) = int (length header)))"

lemma send_to_client_spec:
  assumes "run_state (send_to_client env sock len) s = (x, s')"
    and "len \<le> length (s_record_data s)" "len < 2 ^ 32" "send_bounded env"
  shows "\<exists>tr. trace s' = trace s @ tr \<and> list_all (\<lambda>e. send_call sock (fst e)) tr \<and>
           (\<exists>q. frame (recording len s) = sent sock tr @ q) \<and>
           (accepting sock (recording_header (of_nat len)) tr \<longrightarrow> sent sock tr = frame (recording len s))"
proof -
  let ?h = "recording_header (of_nat len)"
  define c where "c = Net (Send sock ?h)"
  define r where "r = env (length (trace s)) c"
  define t where "t = s\<lparr>trace := trace s @ [(c, r)]\<rparr>"
  have h: "frame (recording len s) = ?h @ recording len s" "length ?h = 4"
    using assms(2) by (simp_all add: frame_def recording_def recording_header_eq)
  show ?thesis
  proof (cases "rval r = 4")
    case False
    then have "s' = t"
      using assms(1) by (simp add: send_to_client_def run_simps flip: c_def r_def t_def)
    moreover have "\<exists>q. frame (recording len s) = take (nat (rval r)) ?h @ q"
      unfolding h(1) by (metis append.assoc append_take_drop_id)
    ultimately show ?thesis
      using False h(2) by (intro exI [where x = "[(c, r)]"]) (auto simp: t_def c_def accepting_def)
  next
    case True
    obtain res u where u: "run_state (send_chunks env (return ()) (recording len) sock 4096 len len 0) t = (res, u)"
      by (meson surj_pair)
    have s': "s' = u"
      using assms(1) True u by (simp add: send_to_client_def run_simps flip: c_def r_def t_def)
    have len: "len \<le> length (s_record_data t)" "len = length (recording len t)" "recording len t = recording len s"
      using assms(2) by (simp_all add: t_def recording_def)
    obtain tr where tr: "trace u = trace t @ tr" "list_all (\<lambda>e. send_call sock (fst e)) tr"
      by (rule onlyD [OF only_send_chunks [where P = "send_call sock"] u]) (simp_all add: only_basic)
    obtain k where k: "sent sock (trace u) = sent sock (trace t) @ slice 0 k (recording len s)"
      "res = Some len \<and> k = len \<or> res = None \<and> k < len"
      using recording_block.send_chunks_spec [OF u _ len(1,2)] assms(4) len(3) by auto
    have sent: "sent sock ((c, r) # tr) = ?h @ take k (recording len s)"
      using k(1) tr(1) True h(2) by (simp add: t_def c_def slice_def)
    have "res \<noteq> None" if "accepting sock ?h ((c, r) # tr)"
    proof
      assume "res = None"
      with send_chunks_None u obtain tr' bs r' where
        "trace u = trace t @ tr' @ [(Net (Send sock bs), r')]" "rval r' \<le> 0" by blast
      with tr(1) that show False by (auto simp: accepting_def)
    qed
    then have "accepting sock ?h ((c, r) # tr) \<longrightarrow> k = len" using k(2) by auto
    then show ?thesis
      using tr h sent len
      by (intro exI [where x = "(c, r) # tr"])
        (auto simp: t_def s' c_def simp del: sent.simps intro: exI [where x = "drop k (recording len s)"])
  qed
qed

text \<open>The calls around the transfer: they neither transfer data nor accept a connection.\<close>

fun setup_call :: "fw_call \<Rightarrow> bool" where
  "setup_call (Net (Send k bs)) = False"
| "setup_call (Net (Accept l)) = False"
| "setup_call (Adf c) = False"
| "setup_call _ = True"

lemma setup_call_trace:
  assumes "list_all (\<lambda>e. setup_call (fst e)) tr"
  shows "sent k tr = [] \<and> recorded tr = [] \<and> (\<forall>l r. (Net (Accept l), r) \<notin> set tr) \<and> accepting k h tr"
  using assms
proof (induction tr)
  case (Cons e tr)
  obtain c r where e: "e = (c, r)" by force
  with Cons show ?case by (cases c rule: setup_call.cases) (auto simp: accepting_def)
qed (simp add: accepting_def)

lemma only_open_listener: "only setup_call (open_listener env port)"
  unfolding open_listener_def Let_def by (intro only_intros; simp)

text \<open>What a trace has to do with one upload of \<open>bs\<close>: it transfers a beginning of the message, all of it
  to a client that takes every byte, records nothing and leaves no descriptor open.\<close>

definition uploads :: "byte list \<Rightarrow> (fw_call \<times> ret) list \<Rightarrow> bool" where
  "uploads bs tr \<longleftrightarrow>
     (\<forall>d\<ge>0. opened d tr = closed d tr) \<and> recorded tr = [] \<and>
     (\<forall>k. \<exists>q. frame bs = sent k tr @ q) \<and>
     (\<forall>l a. (Net (Accept l), a) \<in> set tr \<and> 0 \<le> rval a \<and>
        accepting (rval a) (recording_header (of_nat (length bs))) tr \<longrightarrow> sent (rval a) tr = frame bs)"

lemma uploads_nothing:
  "list_all (\<lambda>e. setup_call (fst e)) tr \<Longrightarrow> \<forall>d\<ge>0. opened d tr = closed d tr \<Longrightarrow> uploads bs tr"
  using setup_call_trace [of tr] unfolding uploads_def by auto

lemma send_recording_spec:
  assumes "run_state (send_recording_over_tcp env len) s = (x, s')"
    and "len \<le> length (s_record_data s)" "len < 2 ^ 32" "send_bounded env"
  shows "\<exists>tr. trace s' = trace s @ tr \<and> uploads (recording len s) tr"
proof (cases "s_record_buf s = 0 \<or> len = 0")
  case True
  then show ?thesis
    using assms(1) by (auto simp: send_recording_over_tcp_def run_simps intro: uploads_nothing)
next
  case False
  obtain l t where t: "run_state (open_listener env RECORDING_PORT) s = (l, t)" by (meson surj_pair)
  obtain tr where tr: "trace t = trace s @ tr" "list_all (\<lambda>e. setup_call (fst e)) tr"
    by (rule onlyD [OF only_open_listener t])
  have bal: "opened d tr = closed d tr + (if l = Some d then 1 else 0)" if "0 \<le> d" for d
    using open_listener_balance [OF t that] tr(1) by simp
  have data: "recording len t = recording len s" "s_record_data t = s_record_data s"
    using open_listener_frame [OF t] by (auto simp: recording_def)
  show ?thesis
  proof (cases l)
    case None
    then show ?thesis
      using assms(1) False t tr bal
      by (auto simp: send_recording_over_tcp_def run_simps intro!: exI [where x = tr] uploads_nothing)
  next
    case (Some ls)
    define c where "c = Net (Setsockopt ls (SO_RCVTIMEO 10 0))"
    define r where "r = env (length (trace t)) c"
    define u where "u = t\<lparr>trace := trace t @ [(c, r)]\<rparr>"
    define a where "a = env (length (trace u)) (Net (Accept ls))"
    define v where "v = u\<lparr>trace := trace u @ [(Net (Accept ls), a)]\<rparr>"
    note step = assms(1) False t Some
    show ?thesis
    proof (cases "rval a < 0")
      case True
      then obtain r' where "trace s' = trace s @ tr @ [(c, r), (Net (Accept ls), a), (Net (Close ls), r')]"
        using step tr(1)
        by (simp add: send_recording_over_tcp_def run_simps flip: c_def, simp add: u_def v_def r_def a_def run_perform flip: c_def)
          (auto elim!: meta_mp)
      then show ?thesis
        using True setup_call_trace [OF tr(2)] bal Some
        by (intro exI [where x = "tr @ [(c, r), (Net (Accept ls), a), (Net (Close ls), r')]"])
          (auto simp: uploads_def c_def)
    next
      case ok: False
      obtain y w where w: "run_state (send_to_client env (rval a) len) v = (y, w)" by (meson surj_pair)
      define cs where "cs = [Net (Setsockopt ls SO_REUSEADDR), Net (Shutdown (rval a)), Net (Close (rval a)), Net (Close ls)]"
      have "s' = snd (run_state (perform_all env cs) w)"
        using step ok w
        by (simp add: send_recording_over_tcp_def run_simps cs_def flip: c_def, simp add: u_def v_def r_def a_def run_perform flip: c_def)
      then obtain tr3 where tr3: "trace s' = trace w @ tr3" "map fst tr3 = cs"
        using after_perform_all [of cs w env] by (auto simp: after_def)
      have v: "recording len v = recording len s" "s_record_data v = s_record_data s"
        using data by (simp_all add: v_def u_def recording_def)
      obtain tr2 where tr2: "trace w = trace v @ tr2" "list_all (\<lambda>e. send_call (rval a) (fst e)) tr2"
        "\<exists>q. frame (recording len s) = sent (rval a) tr2 @ q"
        "accepting (rval a) (recording_header (of_nat len)) tr2 \<longrightarrow> sent (rval a) tr2 = frame (recording len s)"
        using send_to_client_spec [OF w] assms(2-4) v by auto
      obtain r1 r2 r3 r4 where r: "tr3 = zip cs [r1, r2, r3, r4]"
        using tr3(2) by (auto simp: cs_def map_eq_Cons_conv)
      let ?tr = "tr @ [(c, r), (Net (Accept ls), a)] @ tr2 @ tr3"
      have "trace s' = trace s @ ?tr" using tr(1) tr2(1) tr3(1) by (simp add: u_def v_def)
      moreover have "sent k ?tr = (if k = rval a then sent k tr2 else [])" for k
        using setup_call_trace [OF tr(2)] send_call_trace [OF tr2(2), where j = k] by (simp add: c_def r cs_def)
      moreover have "opened d ?tr = closed d ?tr" if "0 \<le> d" for d
        using bal [OF that] send_call_trace [OF tr2(2)] ok Some by (auto simp: c_def r cs_def)
      moreover have "recorded ?tr = []"
        using setup_call_trace [OF tr(2)] send_call_trace [OF tr2(2)] by (simp add: c_def r cs_def)
      moreover have "b = a" if "(Net (Accept j), b) \<in> set ?tr" for j b
        using that setup_call_trace [OF tr(2)] tr2(2) by (auto simp: c_def r cs_def list_all_iff)
      moreover have "accepting (rval a) h ?tr \<Longrightarrow> accepting (rval a) h tr2" for h
        by (simp add: accepting_def)
      ultimately show ?thesis
        using tr2(3,4) assms(2) unfolding uploads_def
        by (intro exI [where x = ?tr]) (auto simp: recording_def)
    qed
  qed
qed

section \<open>The task\<close>

lemma record_call_trace:
  assumes "list_all (\<lambda>e. record_call (fst e)) tr"
  shows "sent k tr = [] \<and> opened d tr = 0 \<and> closed d tr = 0 \<and> (\<forall>l r. (Net (Accept l), r) \<notin> set tr) \<and> accepting k h tr"
  using assms
proof (induction tr)
  case (Cons e tr)
  obtain c r where e: "e = (c, r)" by force
  with Cons show ?case by (cases c rule: record_call.cases) (auto simp: accepting_def)
qed (simp add: accepting_def)



text \<open>The part of the task after the allocation.\<close>

definition record_and_upload :: "fw_env \<Rightarrow> ('z wakenet_vars_scheme, unit) state" where
  "record_and_upload env = do {
     t \<leftarrow> call env (Os Tick_count);
     offset \<leftarrow> record_loop env RECORD_BYTES (word_of_int (rval t)) RECORD_BYTES 0;
     modify (\<lambda>s. s\<lparr>s_record_len := offset\<rparr>);
     do_when (0 < offset) (send_recording_over_tcp env offset);
     perform env (Os Stack_high_water_mark);
     modify (\<lambda>s. s\<lparr>s_is_recording := False\<rparr>)
   }"

text \<open>One recording in a trace: at most five seconds of sound, uploaded as recorded.\<close>

definition records_and_uploads :: "(fw_call \<times> ret) list \<Rightarrow> bool" where
  "records_and_uploads tr \<longleftrightarrow>
     length (recorded tr) \<le> RECORD_BYTES \<and>
     (\<forall>k. \<exists>q. frame (recorded tr) = sent k tr @ q) \<and>
     (\<forall>l a. (Net (Accept l), a) \<in> set tr \<and> 0 \<le> rval a \<and>
        accepting (rval a) (recording_header (of_nat (length (recorded tr)))) tr \<longrightarrow>
        sent (rval a) tr = frame (recorded tr)) \<and>
     (\<forall>d\<ge>0. opened d tr = closed d tr)"

lemma record_and_upload_spec:
  assumes "run_state (record_and_upload env) s = (x, s')" "recorder_sane env" "send_bounded env"
    and "length (s_record_data s) = RECORD_BYTES"
  shows "\<not> s_is_recording s' \<and> (\<exists>tr. trace s' = trace s @ tr \<and> records_and_uploads tr)"
proof -
  define r where "r = env (length (trace s)) (Os Tick_count)"
  define t where "t = s\<lparr>trace := trace s @ [(Os Tick_count, r)]\<rparr>"
  obtain n u where u: "run_state (record_loop env RECORD_BYTES (word_of_int (rval r)) RECORD_BYTES 0) t = (n, u)"
    by (meson surj_pair)
  obtain tr where tr: "trace u = trace t @ tr" "list_all (\<lambda>e. record_call (fst e)) tr"
    "n = length (recorded tr)" "n \<le> RECORD_BYTES" "take n (s_record_data u) = recorded tr"
    "length (s_record_data u) = RECORD_BYTES"
    using record_loop_spec [OF u assms(2)] assms(4) by (auto simp: t_def)
  define v where "v = u\<lparr>s_record_len := n\<rparr>"
  obtain w where w: "run_state (do_when (0 < n) (send_recording_over_tcp env n)) v = ((), w)"
    by (metis (full_types) surj_pair unit.exhaust)
  have s': "trace s' = trace w @ [(Os Stack_high_water_mark, env (length (trace w)) (Os Stack_high_water_mark))]"
    "\<not> s_is_recording s'"
    using assms(1) u w unfolding record_and_upload_def
    by (auto simp: run_basic run_call run_perform r_def t_def v_def)
  have "\<exists>tr'. trace w = trace v @ tr' \<and> uploads (recorded tr) tr'"
  proof (cases "0 < n")
    case True
    then have "run_state (send_recording_over_tcp env n) v = ((), w)" using w by simp
    from send_recording_spec [OF this _ _ assms(3)] tr(4-6) show ?thesis
      by (simp add: v_def recording_def RECORD_BYTES_def RECORD_SECONDS_def BYTES_PER_SECOND_def SR_RATE_HZ_def)
  qed (use w in \<open>auto intro: uploads_nothing\<close>)
  then obtain tr' where tr': "trace w = trace v @ tr'" "uploads (recorded tr) tr'" by blast
  note up = tr'(2) [unfolded uploads_def]
  let ?e = "(Os Stack_high_water_mark, env (length (trace w)) (Os Stack_high_water_mark))"
  let ?tr = "(Os Tick_count, r) # tr @ tr' @ [?e]"
  have rc: "recorded ?tr = recorded tr" using up by simp
  have "sent k ?tr = sent k tr'" "opened d ?tr = opened d tr'" "closed d ?tr = closed d tr'"
    "(Net (Accept l), a) \<in> set ?tr \<longleftrightarrow> (Net (Accept l), a) \<in> set tr'"
    "accepting k h ?tr \<Longrightarrow> accepting k h tr'" for k d l a h
    using record_call_trace [OF tr(2)] by (auto simp: accepting_def)
  then have "records_and_uploads ?tr"
    using up tr(3,4) unfolding records_and_uploads_def rc by (simp only:) blast
  then show ?thesis
    using s' tr(1) tr'(1) by (intro conjI exI [where x = ?tr]) (simp_all add: t_def v_def)
qed

lemma records_and_uploads_Cons:
  assumes "records_and_uploads tr" "setup_call c" "\<And>d. 0 \<le> d \<Longrightarrow> opened d [(c, r)] = closed d [(c, r)]"
  shows "records_and_uploads ((c, r) # tr)"
proof -
  have "list_all (\<lambda>e. setup_call (fst e)) [(c, r)]" using assms(2) by simp
  note c = setup_call_trace [OF this]
  have "recorded ((c, r) # tr) = recorded tr" "sent k ((c, r) # tr) = sent k tr" for k
    using c recorded_append [of "[(c, r)]" tr] sent_append [of k "[(c, r)]" tr] by simp_all
  moreover have "opened d ((c, r) # tr) = closed d ((c, r) # tr)" if "0 \<le> d" for d
    using assms(1,3) that opened_append [of d "[(c, r)]" tr] performed_append [of _ "[(c, r)]" tr]
    by (simp add: records_and_uploads_def)
  moreover have "accepting k h ((c, r) # tr) \<Longrightarrow> accepting k h tr"
    "(Net (Accept l), a) \<in> set ((c, r) # tr) \<longleftrightarrow> (Net (Accept l), a) \<in> set tr" for k h l a
    using c by (auto simp: accepting_def)
  ultimately show ?thesis using assms(1) unfolding records_and_uploads_def by (simp only:) blast
qed

lemma record_task_cases:
  assumes "run_state (record_10s_task env) s = (h, s')"
  obtains cs t b where "list_all (\<lambda>e. \<exists>p. fst e = Os (Free p)) cs" "trace t = trace s @ cs"
      "b = env (length (trace t)) (Os (Malloc RECORD_BYTES MALLOC_DEFAULT))" "h = Deleted"
      "rval b = 0 \<and> trace s' = trace t @ [(Os (Malloc RECORD_BYTES MALLOC_DEFAULT), b)] \<and> \<not> s_is_recording s' \<or>
       run_state (record_and_upload env) (t\<lparr>trace := trace t @ [(Os (Malloc RECORD_BYTES MALLOC_DEFAULT), b)],
          s_record_buf := rval b, s_record_data := replicate RECORD_BYTES 0\<rparr>) = ((), s')"
proof -
  define m where "m = Os (Malloc RECORD_BYTES MALLOC_DEFAULT)"
  define t where "t = snd (run_state (do_when (s_record_buf s \<noteq> 0) (do {
       perform env (Os (Free (s_record_buf s)));
       modify (\<lambda>s. s\<lparr>s_record_buf := 0, s_record_data := []\<rparr>)
     })) s)"
  define b where "b = env (length (trace t)) m"
  have "\<exists>cs. list_all (\<lambda>e. \<exists>p. fst e = Os (Free p)) cs \<and> trace t = trace s @ cs"
    by (cases "s_record_buf s = 0") (auto simp: t_def run_simps)
  then obtain cs where cs: "list_all (\<lambda>e. \<exists>p. fst e = Os (Free p)) cs" "trace t = trace s @ cs" by blast
  have run: "run_state (record_10s_task env) s =
     (if rval b = 0 then (Deleted, t\<lparr>trace := trace t @ [(m, b)], s_is_recording := False\<rparr>)
      else (Deleted, snd (run_state (record_and_upload env) (t\<lparr>trace := trace t @ [(m, b)],
          s_record_buf := rval b, s_record_data := replicate RECORD_BYTES 0\<rparr>))))"
    unfolding record_10s_task_def record_and_upload_def m_def [symmetric]
    by (cases "s_record_buf s = 0"; cases "rval b = 0")
      (simp_all add: run_basic run_gets run_modify run_call run_perform run_do_when t_def b_def split: prod.splits)
  show thesis
    by (rule that [OF cs, of b]) (use assms run in \<open>auto simp: b_def m_def intro: run_unit split: if_splits\<close>)
qed

lemma freeing_trace:
  assumes "list_all (\<lambda>e. \<exists>p. fst e = Os (Free p)) cs" "records_and_uploads tr"
  shows "records_and_uploads (cs @ tr)"
  using assms by (induction cs) (auto intro!: records_and_uploads_Cons)

lemma records_and_uploads_Nil: "records_and_uploads []"
  by (simp add: records_and_uploads_def)

text \<open>C6 (refinement).  Whatever the recorder delivers and whenever the network fails: one run of the recording
  task stores at most five seconds of sound; every byte it puts on a connection belongs to a beginning of
  the message made of their number (four bytes, big-endian) and exactly the bytes the recorder delivered;
  a client that takes every byte receives all of it; every descriptor opened on the way is closed again;
  and the task ends with the flag \<open>s_is_recording\<close> cleared.\<close>

theorem recording_upload_correct:
  assumes "run_state (record_10s_task env) s = (h, s')" "recorder_sane env" "send_bounded env"
  shows "h = Deleted \<and> \<not> s_is_recording s' \<and> (\<exists>tr. trace s' = trace s @ tr \<and> records_and_uploads tr)"
proof -
  let ?m = "Os (Malloc RECORD_BYTES MALLOC_DEFAULT)"
  from assms(1) show ?thesis
  proof (rule record_task_cases)
    fix cs t b
    assume cs: "list_all (\<lambda>e. \<exists>p. fst e = Os (Free p)) cs" "trace t = trace s @ cs" and h: "h = Deleted"
      and rest: "rval b = 0 \<and> trace s' = trace t @ [(?m, b)] \<and> \<not> s_is_recording s' \<or>
       run_state (record_and_upload env) (t\<lparr>trace := trace t @ [(?m, b)],
          s_record_buf := rval b, s_record_data := replicate RECORD_BYTES 0\<rparr>) = ((), s')"
    then have "\<not> s_is_recording s' \<and> (\<exists>tr. trace s' = trace t @ [(?m, b)] @ tr \<and> records_and_uploads tr)"
      using records_and_uploads_Nil record_and_upload_spec [OF _ assms(2,3)] by fastforce
    then obtain tr where "\<not> s_is_recording s'" "trace s' = trace s @ (cs @ (?m, b) # tr)" "records_and_uploads tr"
      using cs(2) by auto
    moreover from this have "records_and_uploads (cs @ (?m, b) # tr)"
      by (intro freeing_trace [OF cs(1)] records_and_uploads_Cons) simp_all
    ultimately show ?thesis using h by blast
  qed
qed

text \<open>A recorder that delivers three bytes, and a client that takes everything.\<close>

definition demo_recorder :: fw_env where
  "demo_recorder k c =
     (case c of Os (Malloc n p) \<Rightarrow> ret_int 1
      | Adf (Recorder_data_read h n) \<Rightarrow>
          (let d = (if k = 3 then take n [1, 2, 3] else []) in \<lparr>rval = int (length d), rerr = ESP_OK, rdata = d\<rparr>)
      | Net Socket \<Rightarrow> ret_int 5
      | Net (Accept l) \<Rightarrow> ret_int 6
      | Net (Send j bs) \<Rightarrow> ret_int (int (length bs))
      | _ \<Rightarrow> ret_int 0)"

lemma demo_recorder_sane: "recorder_sane demo_recorder" "send_bounded demo_recorder"
  by (simp_all add: recorder_sane_def send_bounded_def demo_recorder_def Let_def)

definition demo_recording :: "halt \<times> fw" where
  "demo_recording = run_state (record_10s_task demo_recorder) boot"

theorem recording_upload_correct_witness:
  "fst demo_recording = Deleted \<and> \<not> s_is_recording (snd demo_recording) \<and>
   records_and_uploads (trace (snd demo_recording))"
  using recording_upload_correct [of demo_recorder boot "fst demo_recording" "snd demo_recording"] demo_recorder_sane
  by (simp add: demo_recording_def) (simp add: boot_def)

section \<open>One recording at a time\<close>

text \<open>The recording tasks that were created successfully in a trace.\<close>

definition recordings_started :: "(fw_call \<times> ret) list \<Rightarrow> nat" where
  "recordings_started tr = length (filter (\<lambda>(c, r). c = Os (Task_create ''rec10s'' 3072 5) \<and> rval r \<noteq> 0) tr)"

text \<open>
  Events of the recorder and recording tasks: \<open>wake_run env n s\<close> says that \<open>s\<close> can be reached with \<open>n\<close>
  recording tasks alive.  An event can arrive at any time while a task is alive; the task reads and
  writes \<open>s_is_recording\<close> only at its end, and the callback touches none of the variables the task
  works on, so the whole task can be taken as one step at that moment.
\<close>

inductive wake_run :: "fw_env \<Rightarrow> nat \<Rightarrow> 'z wakenet_vars_scheme \<Rightarrow> bool" where
  start: "\<not> s_is_recording s \<Longrightarrow> wake_run env 0 s"
| event: "wake_run env n s \<Longrightarrow> run_state (rec_engine_cb env ev) s = (e, s') \<Longrightarrow> trace s' = trace s @ tr \<Longrightarrow>
    wake_run env (n + recordings_started tr) s'"
| finish: "wake_run env (Suc n) s \<Longrightarrow> run_state (record_10s_task env) s = (h, s') \<Longrightarrow> wake_run env n s'"

lemma record_task_clears: "run_state (record_10s_task env) s = (h, s') \<Longrightarrow> \<not> s_is_recording s'"
  by (erule record_task_cases, elim disjE)
    (auto simp: record_and_upload_def run_simps elim!: run_bindE split: prod.splits)

lemma rec_engine_cb_step:
  assumes "run_state (rec_engine_cb env ev) s = (e, s')" "trace s' = trace s @ tr"
  shows "s_is_recording s \<longrightarrow> s_is_recording s' \<and> recordings_started tr = 0"
    and "\<not> s_is_recording s \<longrightarrow> recordings_started tr = (if s_is_recording s' then 1 else 0)"
  using assms
  by (auto simp: rec_engine_cb_def run_simps dump_internal_mem_def recordings_started_def
      split: rec_event.splits if_splits)

text \<open>C16 (invariant).  However wake words and recordings follow each other: at most one recording task is
  alive, and the flag \<open>s_is_recording\<close> says whether one is, also when creating a task fails.\<close>

theorem one_recording_at_a_time:
  "wake_run env n s \<Longrightarrow> n \<le> 1 \<and> (s_is_recording s \<longleftrightarrow> n = 1)"
proof (induction rule: wake_run.induct)
  case (event env n s ev e s' tr)
  then show ?case
    using rec_engine_cb_step [OF event.hyps(2,3)] by (cases "s_is_recording s") (auto split: if_splits)
next
  case (finish env n s h s')
  then show ?case using record_task_clears by fastforce
qed simp

definition woken :: fw where
  "woken = snd (run_state (rec_engine_cb (\<lambda>k c. ret_int 4000000) AUDIO_REC_WAKEUP_START) boot)"

lemma woken_reached: "wake_run (\<lambda>k c. ret_int 4000000) 1 woken"
proof -
  have "wake_run (\<lambda>k c. ret_int 4000000) (0 + recordings_started (trace woken)) woken"
    by (rule wake_run.event [where s = boot and ev = AUDIO_REC_WAKEUP_START])
      (simp_all add: wake_run.start woken_def boot_def rec_engine_cb_def run_simps dump_internal_mem_def)
  moreover have "recordings_started (trace woken) = 1"
    by (simp add: woken_def boot_def rec_engine_cb_def run_simps dump_internal_mem_def recordings_started_def
        SECONDS_BEFORE_START_def)
  ultimately show ?thesis by simp
qed

theorem one_recording_at_a_time_witness: "s_is_recording woken"
  using one_recording_at_a_time [OF woken_reached] by simp

section \<open>Stopping\<close>

lemma stop_capture_spec:
  assumes "run_state (stop_capture env) s = (x, s')"
  shows "s_pipeline s' = 0 \<and> s_recorder s' = s_recorder s \<and> s_i2s_reader s' = s_i2s_reader s \<and> s_raw s' = s_raw s \<and>
    s_record_buf s' = s_record_buf s \<and> wakenet_vars.more s' = wakenet_vars.more s"
  using assms
  by (cases "s_pipeline s = 0"; cases "s_i2s_reader s = 0"; cases "s_raw s = 0")
    (auto simp: stop_capture_def run_simps adf_do_def)

text \<open>After \<open>wakenet_stop\<close> every handle is null, so a later start builds everything anew.\<close>

lemma wakenet_stop_spec:
  fixes s :: "'z wakenet_vars_scheme"
  assumes "run_state (wakenet_stop env) s = (x, s')"
  shows "s_recorder s' = 0 \<and> s_pipeline s' = 0 \<and> s_i2s_reader s' = 0 \<and> s_raw s' = 0 \<and> s_record_buf s' = 0 \<and>
    wakenet_vars.more s' = wakenet_vars.more s \<and>
    (s_record_buf s \<noteq> 0 \<longrightarrow> \<not> s_is_recording s' \<and> 0 < performed (Os (Free (s_record_buf s))) (trace s'))"
proof -
  define m :: "('z wakenet_vars_scheme, unit) state" where "m = do_when (s_recorder s \<noteq> 0) (do {
       adf_do env (Recorder_destroy (s_recorder s));
       modify (\<lambda>s. s\<lparr>s_recorder := 0\<rparr>)
     })"
  obtain t where run_t: "run_state m s = ((), t)" by (metis run_unit)
  obtain u where u: "run_state (stop_capture env) t = ((), u)" by (metis run_unit)
  have t: "s_recorder t = 0" "s_i2s_reader t = s_i2s_reader s" "s_raw t = s_raw s" "s_record_buf t = s_record_buf s"
    "wakenet_vars.more t = wakenet_vars.more s"
    using run_t by (cases "s_recorder s = 0"; auto simp: m_def run_simps adf_do_def)+
  note su = stop_capture_spec [OF u] t
  have "s' = snd (run_state (do {
     do_when (s_i2s_reader s \<noteq> 0) (do {
       adf_do env (Element_deinit (s_i2s_reader s));
       modify (\<lambda>s. s\<lparr>s_i2s_reader := 0\<rparr>)
     });
     do_when (s_raw s \<noteq> 0) (do {
       adf_do env (Element_deinit (s_raw s));
       modify (\<lambda>s. s\<lparr>s_raw := 0\<rparr>)
     });
     do_when (s_record_buf s \<noteq> 0) (do {
       perform env (Os (Free (s_record_buf s)));
       modify (\<lambda>s. s\<lparr>s_record_buf := 0, s_record_data := [], s_record_len := 0, s_is_recording := False\<rparr>)
     })
   }) u)"
    using assms unfolding wakenet_stop_def State_Monad.run_state_bind State_Monad.run_state_get prod.case
    by (simp only: run_t u prod.case flip: m_def) simp
  then show ?thesis
    using su
    by (cases "s_i2s_reader s = 0"; cases "s_raw s = 0"; cases "s_record_buf s = 0")
      (auto simp: run_simps adf_do_def)
qed

text \<open>C39 (error).  Stopping wake word detection while a recording task is alive frees the buffer the task writes
  to and clears its flag: the task goes on with a freed buffer, and the next wake word starts a second
  one, so the invariant above does not survive \<open>wakenet_stop\<close>.\<close>

theorem stop_during_recording:
  assumes "s_is_recording s" "s_record_buf s \<noteq> 0" "run_state (wakenet_stop env) s = ((), s')"
  shows "0 < performed (Os (Free (s_record_buf s))) (trace s') \<and> s_record_buf s' = 0 \<and> \<not> s_is_recording s'"
  using wakenet_stop_spec [OF assms(3)] assms(2) by simp

definition mid_recording :: fw where
  "mid_recording = woken\<lparr>s_record_buf := 9, s_record_data := replicate 4 0\<rparr>"

theorem stop_during_recording_witness:
  "\<not> s_is_recording (snd (run_state (wakenet_stop (\<lambda>k c. ret_int 0)) mid_recording)) \<and> s_is_recording mid_recording"
proof -
  have "s_is_recording mid_recording" "s_record_buf mid_recording = 9"
    by (simp_all add: mid_recording_def woken_def boot_def rec_engine_cb_def run_simps dump_internal_mem_def
        SECONDS_BEFORE_START_def)
  then show ?thesis using stop_during_recording [OF _ _ run_unit, of mid_recording] by simp
qed

end
