(* ===== verification/Player.thy ===== *)
theory Player
  imports AudioPlay
begin

text \<open>
  What the player of \<open>audio_play.c\<close> guarantees: its read callback hands the decoder the whole file and then
  reports its end, whatever pieces the decoder asks for; and a playback returns once the framework has
  no more messages and the sink has come to an end.
\<close>

section \<open>The source of the decoder\<close>

text \<open>The decoder calls the callback with the lengths \<open>ns\<close>, one after the other, until it is told that the
  file is done; the result is what it read and whether it was told so.\<close>

fun read_all :: "nat list \<Rightarrow> flash_src_t \<Rightarrow> byte list \<times> bool" where
  "read_all [] src = ([], False)"
| "read_all (n # ns) src =
     (case flash_read_cb n src of
        (AEL_IO_DONE, src') \<Rightarrow> ([], True)
      | (Read bs, src') \<Rightarrow> (let (cs, d) = read_all ns src' in (bs @ cs, d)))"

lemma flash_read_cb_step:
  assumes "src_pos src < length (src_bytes src)"
  shows "flash_read_cb n src =
    (let k = min n (length (src_bytes src) - src_pos src)
     in (Read (slice (src_pos src) k (src_bytes src)), src\<lparr>src_pos := src_pos src + k\<rparr>))"
proof -
  have "(if int n < int (length (src_bytes src)) - int (src_pos src) then n
         else nat (int (length (src_bytes src)) - int (src_pos src))) = min n (length (src_bytes src) - src_pos src)"
    by (auto simp: min_def)
  then show ?thesis using assms by (simp add: flash_read_cb_def Let_def)
qed

lemma flash_read_cb_done: "length (src_bytes src) \<le> src_pos src \<Longrightarrow> flash_read_cb n src = (AEL_IO_DONE, src)"
  by (simp add: flash_read_cb_def Let_def)

lemma read_all_spec:
  "src_pos src \<le> length (src_bytes src) \<Longrightarrow>
   read_all ns src = (take (sum_list ns) (drop (src_pos src) (src_bytes src)),
     \<exists>i < length ns. length (src_bytes src) \<le> src_pos src + sum_list (take i ns))"
proof (induction ns arbitrary: src)
  case (Cons n ns)
  show ?case
  proof (cases "src_pos src < length (src_bytes src)")
    case True
    define k where "k = min n (length (src_bytes src) - src_pos src)"
    define src' where "src' = src\<lparr>src_pos := src_pos src + k\<rparr>"
    have le: "src_pos src' \<le> length (src_bytes src')" using True by (simp add: src'_def k_def)
    have data: "slice (src_pos src) k (src_bytes src) @ take (sum_list ns) (drop (src_pos src') (src_bytes src')) =
        take (n + sum_list ns) (drop (src_pos src) (src_bytes src))"
      by (cases "n \<le> length (src_bytes src) - src_pos src")
        (simp_all add: slice_def src'_def k_def min_def take_add add.commute [of _ "src_pos src"])
    have "(\<exists>i < length ns. length (src_bytes src') \<le> src_pos src' + sum_list (take i ns)) \<longleftrightarrow>
        (\<exists>i < length (n # ns). length (src_bytes src) \<le> src_pos src + sum_list (take i (n # ns)))" (is "?l \<longleftrightarrow> ?r")
    proof
      assume ?l
      then obtain i where i: "i < length ns" "length (src_bytes src) \<le> src_pos src + k + sum_list (take i ns)"
        by (auto simp: src'_def)
      moreover have "k \<le> n" by (simp add: k_def)
      ultimately show ?r by (intro exI [where x = "Suc i"]) auto
    next
      assume ?r
      then obtain i where i: "i < Suc (length ns)" "length (src_bytes src) \<le> src_pos src + sum_list (take i (n # ns))"
        by auto
      with True obtain j where j: "i = Suc j" by (cases i) auto
      with i show ?l
        by (intro exI [where x = j]) (auto simp: src'_def k_def min_def)
    qed
    then show ?thesis
      using Cons.IH [OF le] data True by (simp add: flash_read_cb_step k_def src'_def Let_def)
  next
    case False
    then show ?thesis using Cons.prems by (auto simp: flash_read_cb_done intro: exI [where x = 0])
  qed
qed simp

text \<open>C20 (functional).  Whatever lengths the decoder asks for, what it reads is a beginning of the file as long as
  the lengths together, in order and without gaps; it is told that the file is done exactly when it asks
  again after all of it was delivered, so a decoder that reads until then has read the whole file.\<close>

theorem decoder_reads_file:
  "read_all ns \<lparr>src_bytes = file, src_pos = 0\<rparr> =
     (take (sum_list ns) file, \<exists>i < length ns. length file \<le> sum_list (take i ns))"
  by (simp add: read_all_spec)

section \<open>Playback returns\<close>

text \<open>From the \<open>K\<close>-th call on, the event queue is empty and every element has come to an end.\<close>

definition settled :: "fw_env \<Rightarrow> nat \<Rightarrow> bool" where
  "settled env K \<longleftrightarrow>
     (\<forall>k\<ge>K. \<forall>e. rerr (env k (Adf (Event_iface_listen e))) \<noteq> ESP_OK) \<and>
     (\<forall>k\<ge>K. \<forall>e. ael_state_of (rval (env k (Adf (Element_get_state e))))
        \<in> {AEL_STATE_FINISHED, AEL_STATE_STOPPED, AEL_STATE_ERROR})"

lemma pump_returns:
  assumes "settled env K" "K - length (trace s) < k"
  shows "\<exists>t. run_state (pump_music_info_and_update_clk env k p) s = (Some (), t) \<and> length (trace s) \<le> length (trace t)"
  using assms(2)
proof (induction k arbitrary: s)
  case (Suc k)
  define r where "r = env (length (trace s)) (Adf (Event_iface_listen (ap_evt p)))"
  define t where "t = s\<lparr>trace := trace s @ [(Adf (Event_iface_listen (ap_evt p)), r)]\<rparr>"
  show ?case
  proof (cases "rerr r = ESP_OK")
    case True
    then have "length (trace s) < K"
      using assms(1) unfolding settled_def r_def by (meson not_less)
    then have "K - length (trace u) < k" if "length (trace t) \<le> length (trace u)" for u
      using Suc.prems that by (simp add: t_def)
    moreover define u where "u = snd (run_state (do_when (is_music_info p r) (do {
         adf_do env (Element_getinfo (ap_mp3_decoder p));
         adf_do env (I2s_stream_set_clk (ap_i2s_writer p) 16000 16 1)
       })) t)"
    moreover have "length (trace t) \<le> length (trace u)"
      by (simp add: u_def adf_do_def run_simps)
    ultimately obtain v where "run_state (pump_music_info_and_update_clk env k p) u = (Some (), v)"
      "length (trace u) \<le> length (trace v)"
      using Suc.IH by blast
    then show ?thesis
      using True \<open>length (trace t) \<le> length (trace u)\<close> unfolding pump_music_info_and_update_clk.simps
      by (auto simp: run_simps adf_def adf_do_def t_def u_def simp flip: r_def)
  next
    case False
    then show ?thesis by (simp add: run_simps adf_def flip: r_def)
  qed
qed simp

lemma pump_turns_returns:
  assumes "settled env K" "K - length (trace s) < k"
  shows "\<exists>t. run_state (pump_turns env k i p) s = (Some (), t) \<and> length (trace s) \<le> length (trace t)"
  using assms(2)
proof (induction i arbitrary: s)
  case (Suc i)
  obtain t where t: "run_state (pump_music_info_and_update_clk env k p) s = (Some (), t)" "length (trace s) \<le> length (trace t)"
    using pump_returns [OF assms(1) Suc.prems] by blast
  define u where "u = t\<lparr>trace := trace t @ [(Os (Task_delay 5), env (length (trace t)) (Os (Task_delay 5)))]\<rparr>"
  have "K - length (trace u) < k" using Suc.prems t(2) by (simp add: u_def)
  then obtain v where "run_state (pump_turns env k i p) u = (Some (), v)" "length (trace u) \<le> length (trace v)"
    using Suc.IH by blast
  then show ?case using t by (auto simp: run_simps u_def)
qed (simp add: run_simps)

lemma wait_returns:
  assumes "settled env K" "K - length (trace s) < k"
  shows "\<exists>t. run_state (wait_playback env k p) s = (Some (), t)"
  using assms(2)
proof (induction k arbitrary: s)
  case (Suc k)
  let ?c = "Adf (Element_get_state (ap_i2s_writer p))"
  let ?r = "env (length (trace s)) ?c"
  show ?case
  proof (cases "K \<le> length (trace s)")
    case True
    then have "ael_state_of (rval ?r) \<in> {AEL_STATE_FINISHED, AEL_STATE_STOPPED, AEL_STATE_ERROR}"
      using assms(1) by (auto simp: settled_def)
    then show ?thesis by (auto simp: run_simps adf_def Let_def)
  next
    case False
    define u where "u = s\<lparr>trace := trace s @ [(?c, ?r), (Os (Task_delay 20), env (Suc (length (trace s))) (Os (Task_delay 20)))]\<rparr>"
    have "K - length (trace u) < k" using Suc.prems False by (simp add: u_def)
    then obtain v where "run_state (wait_playback env k p) u = (Some (), v)" using Suc.IH by blast
    then show ?thesis by (auto simp: run_simps adf_def Let_def u_def)
  qed
qed simp

text \<open>C21 (termination).  A playback returns, with result 0, once no more events are queued and the sink has
  finished, stopped or failed, however many events and polls came before; as much fuel as there were
  calls until then is enough.\<close>

theorem playback_returns:
  assumes "settled env K" "K - length (trace s) < fuel"
  shows "\<exists>s'. run_state (audio_player_play_from_flash env fuel p) s = (Some 0, s')"
proof -
  define cs where "cs = [Adf (Element_set_read_cb (ap_mp3_decoder p)), Adf (Pipeline_run (ap_pipeline p))]"
  define t where "t = snd (run_state (perform_all env cs) s)"
  have t: "length (trace s) \<le> length (trace t)"
    using after_perform_all [of cs s env] by (auto simp: t_def after_def)
  obtain u where u: "run_state (pump_turns env fuel 40 p) t = (Some (), u)" "length (trace t) \<le> length (trace u)"
    using pump_turns_returns [OF assms(1), of t fuel 40 p] assms(2) t by (meson diff_le_mono2 le_less_trans)
  let ?c = "Adf (Element_getinfo (ap_mp3_decoder p))"
  define v where "v = u\<lparr>trace := trace u @ [(?c, env (length (trace u)) ?c)]\<rparr>"
  have "length (trace s) \<le> length (trace v)" using t u(2) by (simp add: v_def)
  then have le: "K - length (trace v) < fuel" using assms(2) by linarith
  obtain w where w: "run_state (wait_playback env fuel p) v = (Some (), w)"
    using wait_returns [OF assms(1) le] by blast
  have "run_state (audio_player_play_from_flash env fuel p) s = (Some 0, snd (run_state (stop_player env p) w))"
    using u w unfolding audio_player_play_from_flash_def t_def cs_def
    by (simp add: run_basic run_perform adf_do_def v_def split: prod.split)
  then show ?thesis by blast
qed

text \<open>A framework with no events, whose elements have finished.\<close>

definition quiet_framework :: fw_env where
  "quiet_framework k c =
     (case c of Adf (Event_iface_listen e) \<Rightarrow> \<lparr>rval = 0, rerr = ESP_FAIL, rdata = []\<rparr>
      | Adf (Element_get_state e) \<Rightarrow> ret_int 6
      | _ \<Rightarrow> ret_int 1)"

lemma quiet_framework_settled: "settled quiet_framework 0"
  by (simp add: settled_def quiet_framework_def ael_state_of_def)

theorem playback_returns_witness:
  "\<exists>s'. run_state (audio_player_play_from_flash quiet_framework 1 zero_player) boot = (Some 0, s')"
  using playback_returns [OF quiet_framework_settled, of boot 1] by simp

end
