(* ===== verification/AudioPolicy.thy ===== *)
theory AudioPolicy
  imports Recording AudioManager Player
begin

text \<open>
  What the audio manager guarantees.  Wake word detection and playback share one I2S port; tasks call the
  manager concurrently and its mutex makes each critical section one step.  \<open>audio_run\<close> is the
  interleaving of these steps, and its invariant is the arbitration policy: a playback excludes the
  recorder, the volume stays a percentage, and the mutex is given back by every call.
\<close>

section \<open>Frame conditions\<close>

lemma only_checked [only_intros]: "P c \<Longrightarrow> only P m \<Longrightarrow> only P (checked env c m)"
  unfolding checked_def by (intro only_intros)

lemma only_sum [only_intros]:
  "(\<And>x. only P (f x)) \<Longrightarrow> (\<And>x. only P (g x)) \<Longrightarrow> only P (case y of Inl x \<Rightarrow> f x | Inr x \<Rightarrow> g x)"
  by (cases y) auto

lemma preserves_checked [preserves_intros]:
  "beyond_trace f \<Longrightarrow> preserves f m \<Longrightarrow> preserves f (checked env c m)"
  unfolding checked_def by (intro preserves_intros)

lemma preserves_adf [preserves_intros]:
  "beyond_trace f \<Longrightarrow> preserves f (adf env c)" "beyond_trace f \<Longrightarrow> preserves f (adf_do env c)"
  unfolding adf_def adf_do_def by (intro preserves_intros; assumption)+

lemma beyond_trace_audio [preserves_intros]:
  "beyond_trace (wakenet_vars.more :: 'z wakenet_vars_scheme \<Rightarrow> _)"
  "beyond_trace (s_recorder :: 'z wakenet_vars_scheme \<Rightarrow> _)"
  by (simp_all add: beyond_trace_def)

text \<open>Everything of the audio framework and the system but the mutex.\<close>

fun no_mutex :: "fw_call \<Rightarrow> bool" where
  "no_mutex (Os (Mutex_create)) = False"
| "no_mutex (Os (Mutex_take m)) = False"
| "no_mutex (Os (Mutex_give m)) = False"
| "no_mutex _ = True"

lemma no_mutex_trace:
  assumes "list_all (\<lambda>e. no_mutex (fst e)) tr"
  shows "performed (Os (Mutex_take m)) tr = 0 \<and> performed (Os (Mutex_give m)) tr = 0"
  using assms
proof (induction tr)
  case (Cons e tr)
  obtain c r where "e = (c, r)" by force
  with Cons show ?case by (cases c rule: no_mutex.cases) auto
qed simp

lemma only_adf [only_intros]: "P (Adf c) \<Longrightarrow> only P (adf env c)" "P (Adf c) \<Longrightarrow> only P (adf_do env c)"
  by (simp_all add: adf_def adf_do_def only_intros)

section \<open>Wake word detection as the manager sees it\<close>

lemma only_capture: "only no_mutex (build_capture_pipeline env)"
  unfolding build_capture_pipeline_def by (intro only_intros; simp)

lemma only_wakenet_start [only_intros]: "only no_mutex (wakenet_start env)"
  unfolding wakenet_start_def by (intro only_intros only_capture; simp)

lemma only_wakenet_stop [only_intros]: "only no_mutex (wakenet_stop env)"
  unfolding wakenet_stop_def stop_capture_def by (intro only_intros; simp)

lemma preserves_capture [preserves_intros]:
  "preserves wakenet_vars.more (build_capture_pipeline env)" "preserves s_recorder (build_capture_pipeline env)"
  unfolding build_capture_pipeline_def by (intro preserves_intros; simp)+

lemma preserves_wakenet_start: "preserves wakenet_vars.more (wakenet_start env)"
  unfolding wakenet_start_def by (intro preserves_intros; simp)

text \<open>\<open>wakenet_start\<close> reports success exactly when there is a recorder.\<close>

lemma wakenet_start_recorder:
  assumes "run_state (wakenet_start env) s = (Inr e, s')"
  shows "e = ESP_OK \<longleftrightarrow> s_recorder s' \<noteq> 0"
proof (cases "s_recorder s = 0")
  case False
  then show ?thesis using assms by (simp add: wakenet_start_def run_simps)
next
  case True
  obtain x t where t: "run_state (build_capture_pipeline env) s = (x, t)" by (meson surj_pair)
  then show ?thesis
    using assms True
    by (cases "x = ESP_OK") (auto simp: wakenet_start_def run_simps adf_def Let_def split: if_splits)
qed

text \<open>The services the manager uses of \<open>wakenet.c\<close>: a detector that can be started and stopped, that keeps
  the manager's own variables, and whose outcome says whether it listens.\<close>

locale wake_service =
  fixes start :: "('z wakenet_vars_scheme, halt + esp_err) state"
    and stop :: "('z wakenet_vars_scheme, unit) state"
    and listening :: "'z wakenet_vars_scheme \<Rightarrow> bool"
  assumes start_keeps: "run_state start s = (r, s') \<Longrightarrow> wakenet_vars.more s' = wakenet_vars.more s"
    and stop_keeps: "run_state stop s = (x, s') \<Longrightarrow> wakenet_vars.more s' = wakenet_vars.more s"
    and start_listens: "run_state start s = (Inr e, s') \<Longrightarrow> e = ESP_OK \<longleftrightarrow> listening s'"
    and stop_silences: "run_state stop s = (x, s') \<Longrightarrow> \<not> listening s'"
begin

text \<open>A flag kept in the manager's variables and set after a successful start or cleared after a stop is
  the truth about the detector.\<close>

lemma start_and_flag:
  assumes "run_state (do { r \<leftarrow> start; do_when (r = Inr ESP_OK) (modify (set_mark True)); return r }) s = (Inr e, s')"
    and "\<not> marked s" "\<And>b t. marked (set_mark b t) = b" "\<And>b t. listening (set_mark b t) = listening t"
    and "\<And>t u. wakenet_vars.more t = wakenet_vars.more u \<Longrightarrow> marked t = marked u"
  shows "marked s' \<longleftrightarrow> listening s'" and "marked s' \<longleftrightarrow> e = ESP_OK"
proof -
  obtain r t where t: "run_state start s = (r, t)" by (meson surj_pair)
  have "r = Inr e" "s' = (if e = ESP_OK then set_mark True t else t)"
    using assms(1) t by (cases "r = Inr ESP_OK"; force simp: run_simps)+
  moreover have keep: "marked t = marked s" by (rule assms(5) [OF start_keeps [OF t]])
  ultimately show "marked s' \<longleftrightarrow> listening s'" "marked s' \<longleftrightarrow> e = ESP_OK"
    using start_listens [of s e t] t assms(2-4) keep by (cases "e = ESP_OK"; simp)+
qed

lemma stop_and_flag:
  assumes "run_state (do { stop; modify (set_mark False) }) s = (x, s')"
    and "\<And>b t. marked (set_mark b t) = b" "\<And>b t. listening (set_mark b t) = listening t"
  shows "\<not> marked s'" and "\<not> listening s'"
  using assms stop_silences by (auto simp: run_simps elim!: run_bindE split: prod.splits)

end

interpretation wakenet: wake_service "wakenet_start env" "wakenet_stop env" "\<lambda>s. s_recorder s \<noteq> 0" for env
proof unfold_locales
  show "run_state (wakenet_start env) s = (r, s') \<Longrightarrow> wakenet_vars.more s' = wakenet_vars.more s" for s r s'
    by (rule preservesD [OF preserves_wakenet_start])
qed (auto dest: wakenet_start_recorder wakenet_stop_spec)

section \<open>The mutex\<close>

definition locked :: "fw_env \<Rightarrow> 'z audio_vars_scheme \<Rightarrow> 'z audio_vars_scheme" where
  "locked env s = snd (run_state (audio_lock env) s)"

definition released :: "fw_env \<Rightarrow> 'z audio_vars_scheme \<Rightarrow> 'z audio_vars_scheme" where
  "released env s = snd (run_state (audio_unlock env) s)"

lemma run_lock [run_simps]:
  "run_state (audio_lock env) s = ((), locked env s)" "run_state (audio_unlock env) s = ((), released env s)"
  unfolding locked_def released_def by (rule run_unit)+

text \<open>What the manager decides on.\<close>

definition audio_view :: "'z audio_vars_scheme \<Rightarrow> int \<times> bool \<times> bool \<times> audio_player_t \<times> bool \<times> int" where
  "audio_view s = (s_recorder s, s_wakenet_running s, s_playback_running s, s_player s, s_player_inited s, s_current_volume s)"

lemma lock_fields [simp]:
  "s_recorder (locked env s) = s_recorder s" "s_wakenet_running (locked env s) = s_wakenet_running s"
  "s_playback_running (locked env s) = s_playback_running s" "s_player (locked env s) = s_player s"
  "s_player_inited (locked env s) = s_player_inited s" "s_current_volume (locked env s) = s_current_volume s"
  "s_board (locked env s) = s_board s" "s_board_hal (locked env s) = s_board_hal s"
  by (cases "s_audio_mutex s = 0"; cases "rval (env (length (trace s)) (Os Mutex_create)) = 0";
      simp add: locked_def audio_lock_def run_basic run_call run_perform run_gets run_modify run_do_when)+

lemma unlock_fields [simp]:
  "s_recorder (released env s) = s_recorder s" "s_wakenet_running (released env s) = s_wakenet_running s"
  "s_playback_running (released env s) = s_playback_running s" "s_player (released env s) = s_player s"
  "s_player_inited (released env s) = s_player_inited s" "s_current_volume (released env s) = s_current_volume s"
  by (simp_all add: released_def audio_unlock_def run_basic run_perform run_do_when)

text \<open>Nobody holds the mutex; the caller holds it.\<close>

definition idle :: "'z audio_vars_scheme \<Rightarrow> bool" where
  "idle s \<longleftrightarrow> (\<forall>m. performed (Os (Mutex_take m)) (trace s) = performed (Os (Mutex_give m)) (trace s))"

definition owned :: "'z audio_vars_scheme \<Rightarrow> bool" where
  "owned s \<longleftrightarrow> (\<forall>m. performed (Os (Mutex_take m)) (trace s) =
      performed (Os (Mutex_give m)) (trace s) + (if m = s_audio_mutex s \<and> m \<noteq> 0 then 1 else 0))"

lemma idle_locked: "idle s \<Longrightarrow> owned (locked env s)"
  by (cases "s_audio_mutex s = 0"; cases "rval (env (length (trace s)) (Os Mutex_create)) = 0")
    (auto simp: idle_def owned_def locked_def audio_lock_def run_basic run_call run_perform run_modify run_do_when)

lemma owned_released: "owned s \<Longrightarrow> idle (released env s)"
  by (auto simp: idle_def owned_def released_def audio_unlock_def run_basic run_perform run_do_when split: if_splits)

lemma owned_call: "no_mutex c \<Longrightarrow> owned (s\<lparr>trace := trace s @ [(c, r)]\<rparr>) \<longleftrightarrow> owned s"
  using no_mutex_trace [of "[(c, r)]"] by (auto simp: owned_def)

lemma owned_only:
  assumes "only no_mutex m" "preserves s_audio_mutex m" "run_state m s = (x, s')"
  shows "owned s' \<longleftrightarrow> owned s"
proof -
  obtain tr where "trace s' = trace s @ tr" "list_all (\<lambda>e. no_mutex (fst e)) tr"
    by (rule onlyD [OF assms(1,3)])
  then show ?thesis
    using no_mutex_trace [of tr] preservesD [OF assms(2,3)] by (simp add: owned_def)
qed

text \<open>The variables of \<open>audio_manager.c\<close> are what is stacked on those of \<open>wakenet.c\<close>.\<close>

lemma more_fields:
  assumes "wakenet_vars.more s' = wakenet_vars.more (s :: 'z audio_vars_scheme)"
  shows "s_audio_mutex s' = s_audio_mutex s" "s_wakenet_running s' = s_wakenet_running s"
    "s_playback_running s' = s_playback_running s" "s_player s' = s_player s"
    "s_player_inited s' = s_player_inited s" "s_current_volume s' = s_current_volume s"
  using assms by (cases s; cases s'; simp)+

lemma preserves_of_more:
  assumes "preserves wakenet_vars.more (m :: ('z audio_vars_scheme, 'a) state)"
  shows "preserves s_audio_mutex m"
  using assms more_fields unfolding preserves_def by blast

lemma preserves_wakenet_stop: "preserves wakenet_vars.more (wakenet_stop env)"
  by (rule preservesI) (simp add: wakenet_stop_spec)

lemma owned_wakenet:
  "run_state (wakenet_start env) s = (r, s') \<Longrightarrow> owned s' \<longleftrightarrow> owned s"
  "run_state (wakenet_stop env) s = (x, s') \<Longrightarrow> owned s' \<longleftrightarrow> owned s"
  by (rule owned_only; (intro only_intros preserves_of_more preserves_wakenet_start preserves_wakenet_stop | assumption))+

text \<open>The player touches no variable, only the framework.\<close>

lemma only_player [only_intros]: "only no_mutex (audio_player_init env)" "only no_mutex (audio_player_deinit env p)"
  unfolding audio_player_init_def audio_player_deinit_def by (intro only_intros; simp)+

lemma preserves_player [preserves_intros]:
  "beyond_trace f \<Longrightarrow> preserves f (audio_player_init env)" "beyond_trace f \<Longrightarrow> preserves f (audio_player_deinit env p)"
  unfolding audio_player_init_def audio_player_deinit_def by (intro preserves_intros; assumption)+

lemma player_step:
  fixes s :: "'z audio_vars_scheme"
  assumes "only no_mutex m" "preserves wakenet_vars.more m" "preserves s_recorder m" "run_state m s = (q, s')"
  shows "wakenet_vars.more s' = wakenet_vars.more s \<and> s_recorder s' = s_recorder s \<and> (owned s' \<longleftrightarrow> owned s)"
  using assms by (auto dest: preservesD owned_only preserves_of_more)

lemmas player_steps =
  player_step [OF only_player(1) preserves_player(1) preserves_player(1), OF beyond_trace_audio]
  player_step [OF only_player(2) preserves_player(2) preserves_player(2), OF beyond_trace_audio]

lemma run_wakenet_spec:
  assumes "run_state (run_wakenet env) s = (Inr e, s')" "\<not> s_wakenet_running s"
  shows "(s_wakenet_running s' \<longleftrightarrow> s_recorder s' \<noteq> 0) \<and> (s_wakenet_running s' \<longleftrightarrow> e = ESP_OK) \<and>
    s_playback_running s' = s_playback_running s \<and> s_player_inited s' = s_player_inited s \<and>
    s_current_volume s' = s_current_volume s \<and> (owned s' \<longleftrightarrow> owned s)"
proof -
  obtain r t where t: "run_state (wakenet_start env) s = (r, t)" by (meson surj_pair)
  note keep = wakenet.start_keeps [OF t] and own = owned_wakenet(1) [OF t]
  have s': "s' = (if e = ESP_OK then t\<lparr>s_wakenet_running := True\<rparr> else t)"
    using assms(1) t by (cases "r = Inr ESP_OK") (auto simp: run_wakenet_def run_simps)
  note start = wakenet.start_and_flag [where set_mark = "\<lambda>b s. s\<lparr>s_wakenet_running := b\<rparr>" and marked = s_wakenet_running,
      OF assms(1) [unfolded run_wakenet_def] assms(2)]
  have "s_wakenet_running s' \<longleftrightarrow> s_recorder s' \<noteq> 0" "s_wakenet_running s' \<longleftrightarrow> e = ESP_OK"
    by (rule start; (erule more_fields(2) | simp))+
  then show ?thesis
    using s' more_fields [OF keep] own by (auto simp: owned_def)
qed

section \<open>Interleaved use\<close>

text \<open>
  \<open>audio_run env p s\<close>: the state \<open>s\<close> can be reached by calls of any tasks, in any order, where \<open>p\<close> is
  the playback in progress (\<open>Some resume\<close> between its two critical sections, with its local variable
  \<open>resume_wakenet\<close>).  Only the reverse-audio task plays files, so there is at most one playback.  Other
  code runs in between as long as it leaves the manager's variables, the recorder and the mutex alone
  (\<open>other\<close>); that covers the playback itself.  A call that stops the program has no successor.
\<close>

inductive audio_run :: "fw_env \<Rightarrow> bool option \<Rightarrow> 'z audio_vars_scheme \<Rightarrow> bool" for env where
  boot: "audio_view s = (0, False, False, zero_player, False, 100) \<Longrightarrow> idle s \<Longrightarrow> audio_run env None s"
| init: "audio_run env p s \<Longrightarrow> run_state (audio_manager_init env) s = (x, s') \<Longrightarrow> audio_run env p s'"
| start: "audio_run env p s \<Longrightarrow> run_state (audio_manager_start_wakenet env) s = (Inr e, s') \<Longrightarrow> audio_run env p s'"
| stop: "audio_run env p s \<Longrightarrow> run_state (audio_manager_stop_wakenet env) s = (e, s') \<Longrightarrow> audio_run env p s'"
| get_volume: "audio_run env p s \<Longrightarrow> run_state (audio_manager_get_volume env) s = (v, s') \<Longrightarrow> audio_run env p s'"
| set_volume: "audio_run env p s \<Longrightarrow> run_state (audio_manager_set_volume env n) s = (e, s') \<Longrightarrow> audio_run env p s'"
| begin_play: "audio_run env None s \<Longrightarrow> run_state (play_begin env) s = (Inr resume, s') \<Longrightarrow> audio_run env (Some resume) s'"
| end_play: "audio_run env (Some resume) s \<Longrightarrow> run_state (play_end env resume) s = (Inr x, s') \<Longrightarrow> audio_run env None s'"
| other: "audio_run env p s \<Longrightarrow> audio_view s' = audio_view s \<Longrightarrow> idle s' \<Longrightarrow> audio_run env p s'"

definition policy :: "bool option \<Rightarrow> 'z audio_vars_scheme \<Rightarrow> bool" where
  "policy p s \<longleftrightarrow> idle s \<and> 0 \<le> s_current_volume s \<and> s_current_volume s \<le> 100 \<and>
     (s_wakenet_running s \<longleftrightarrow> s_recorder s \<noteq> 0) \<and>
     (s_playback_running s \<longleftrightarrow> p \<noteq> None) \<and> (s_player_inited s \<longleftrightarrow> p \<noteq> None) \<and>
     (p \<noteq> None \<longrightarrow> \<not> s_wakenet_running s)"

lemma owned_updates [simp]:
  "owned (s\<lparr>s_board := b\<rparr>) \<longleftrightarrow> owned s" "owned (s\<lparr>s_board_hal := b\<rparr>) \<longleftrightarrow> owned s"
  "owned (s\<lparr>s_current_volume := v\<rparr>) \<longleftrightarrow> owned s" "owned (s\<lparr>s_wakenet_running := w\<rparr>) \<longleftrightarrow> owned s"
  "owned (s\<lparr>s_playback_running := w\<rparr>) \<longleftrightarrow> owned s" "owned (s\<lparr>s_player := q, s_player_inited := w\<rparr>) \<longleftrightarrow> owned s"
  "owned (s\<lparr>s_player := q, s_player_inited := w, s_playback_running := w'\<rparr>) \<longleftrightarrow> owned s"
  by (simp_all add: owned_def)

lemma policy_view: "policy p s \<Longrightarrow> audio_view s' = audio_view s \<Longrightarrow> idle s' \<Longrightarrow> policy p s'"
  by (auto simp: policy_def audio_view_def)

lemma beyond_trace_view [preserves_intros]:
  "beyond_trace (audio_view :: 'z audio_vars_scheme \<Rightarrow> _)" "beyond_trace (s_audio_mutex :: 'z audio_vars_scheme \<Rightarrow> _)"
  by (simp_all add: beyond_trace_def audio_view_def)

text \<open>\<open>audio_manager_init\<close> between lock and unlock.\<close>

definition codec_start :: "fw_env \<Rightarrow> ('z audio_vars_scheme, unit) state" where
  "codec_start env = do {
     s \<leftarrow> get_state;
     do_when (s_board s = 0) (do {
       b \<leftarrow> call env (Board Board_init);
       modify (\<lambda>s. s\<lparr>s_board := rval b\<rparr>);
       do_when (rval b \<noteq> 0) (do {
         h \<leftarrow> call env (Board (Board_hal (rval b)));
         modify (\<lambda>s. s\<lparr>s_board_hal := rval h\<rparr>);
         do_when (rval h \<noteq> 0) (do {
           perform env (Board (Hal_ctrl_codec_start (rval h)));
           perform env (Board (Hal_set_volume (rval h) (s_current_volume s)))
         })
       })
     })
   }"

lemma audio_manager_init_critical:
  "run_state (audio_manager_init env) s = ((), released env (snd (run_state (codec_start env) (locked env s))))"
  by (simp add: audio_manager_init_def codec_start_def run_basic run_lock run_call run_perform run_modify run_do_when
      split: prod.split)

lemma policy_init:
  assumes "policy p s" "run_state (audio_manager_init env) s = (x, s')"
  shows "policy p s'"
proof -
  obtain t where t: "run_state (codec_start env) (locked env s) = ((), t)" by (metis run_unit)
  have pres: "preserves audio_view (codec_start env :: ('a audio_vars_scheme, unit) state)"
    "preserves s_audio_mutex (codec_start env :: ('a audio_vars_scheme, unit) state)"
    unfolding codec_start_def by (intro preserves_intros; simp add: audio_view_def)+
  have only: "only no_mutex (codec_start env :: ('a audio_vars_scheme, unit) state)"
    unfolding codec_start_def by (intro only_intros; simp)
  have "owned t" using owned_only [OF only pres(2) t] assms(1) by (simp add: policy_def idle_locked)
  moreover have "audio_view t = audio_view s"
    using preservesD [OF pres(1) t] by (simp add: audio_view_def)
  moreover have "s' = released env t" using assms(2) t by (simp add: audio_manager_init_critical)
  moreover have "audio_view (released env t) = audio_view t" by (simp add: audio_view_def)
  ultimately show ?thesis by (simp add: policy_view [OF assms(1)] owned_released)
qed

lemma policy_start:
  assumes "policy p s" "run_state (audio_manager_start_wakenet env) s = (Inr e, s')"
  shows "policy p s'"
proof -
  have own: "owned (locked env s)" using assms(1) by (simp add: policy_def idle_locked)
  show ?thesis
  proof (cases "s_playback_running s \<or> s_wakenet_running s")
    case True
    then show ?thesis
      using assms own by (auto simp: policy_def audio_manager_start_wakenet_def run_simps intro: owned_released split: if_splits)
  next
    case False
    obtain r t where t: "run_state (run_wakenet env) (locked env s) = (r, t)" by (meson surj_pair)
    then have r: "r = Inr e" "s' = released env t"
      using assms(2) False by (cases r; auto simp: audio_manager_start_wakenet_def run_simps)+
    show ?thesis
      using run_wakenet_spec [of env "locked env s" e t] t r False own assms(1) owned_released [of t env]
      by (auto simp: policy_def)
  qed
qed

lemma stop_if_running:
  fixes s :: "'z audio_vars_scheme"
  assumes "run_state (do_when (s_wakenet_running s) (do { wakenet_stop env; modify (\<lambda>s. s\<lparr>s_wakenet_running := False\<rparr>) })) s = (x, t)"
    and "s_wakenet_running s \<longleftrightarrow> s_recorder s \<noteq> 0"
  shows "\<not> s_wakenet_running t \<and> s_recorder t = 0 \<and> s_playback_running t = s_playback_running s \<and>
    s_player t = s_player s \<and> s_player_inited t = s_player_inited s \<and> s_current_volume t = s_current_volume s \<and>
    (owned t \<longleftrightarrow> owned s)"
proof (cases "s_wakenet_running s")
  case True
  obtain u where u: "run_state (wakenet_stop env) s = ((), u)" by (metis run_unit)
  have "t = u\<lparr>s_wakenet_running := False\<rparr>" using assms(1) True u by (simp add: run_simps)
  then show ?thesis
    using wakenet_stop_spec [OF u] more_fields [OF wakenet.stop_keeps [OF u]] owned_wakenet(2) [OF u]
    by (simp add: owned_def)
qed (use assms in simp)

lemma policy_stop:
  assumes "policy p s" "run_state (audio_manager_stop_wakenet env) s = (e, s')"
  shows "policy p s'"
proof -
  obtain x t where t: "run_state (do_when (s_wakenet_running (locked env s))
      (do { wakenet_stop env; modify (\<lambda>s. s\<lparr>s_wakenet_running := False\<rparr>) })) (locked env s) = (x, t)" by (meson surj_pair)
  have "s' = released env t"
    using assms(2) t unfolding audio_manager_stop_wakenet_def
    by (simp only: State_Monad.run_state_bind State_Monad.run_state_get run_lock prod.case) (simp add: run_simps)
  then show ?thesis
    using stop_if_running [OF t] assms(1) idle_locked [of s env] owned_released [of t env] by (simp add: policy_def)
qed

lemma policy_volume:
  assumes "policy p s"
  shows "run_state (audio_manager_get_volume env) s = (v, s') \<Longrightarrow> policy p s'"
    and "run_state (audio_manager_set_volume env n) s = (e, s') \<Longrightarrow> policy p s'"
proof -
  have own: "owned (locked env s)" using assms by (simp add: policy_def idle_locked)
  show "run_state (audio_manager_get_volume env) s = (v, s') \<Longrightarrow> policy p s'"
    using assms own
    by (auto simp: policy_def audio_manager_get_volume_def run_simps owned_call intro!: owned_released split: if_splits)
  define v where "v = (let m = (if n < 0 then 0 else n) in if 100 < m then 100 else m)"
  have v: "0 \<le> v" "v \<le> 100" by (simp_all add: v_def Let_def)
  define c where "c = Board (Hal_set_volume (s_board_hal s) v)"
  define r where "r = env (length (trace (locked env s))) c"
  define t where "t = (locked env s)\<lparr>trace := trace (locked env s) @ [(c, r)]\<rparr>"
  define u where "u = (if rerr r = ESP_OK then t\<lparr>s_current_volume := v\<rparr> else t)"
  have run: "run_state (audio_manager_set_volume env n) s =
      (if s_board s = 0 then (ESP_ERR_INVALID_STATE, s) else (rerr r, released env u))"
    unfolding audio_manager_set_volume_def u_def t_def r_def c_def v_def Let_def
    by (simp add: run_basic run_lock run_call run_modify run_do_when)
  have "owned t" using own by (simp add: t_def owned_call c_def)
  then have "policy p (released env u)"
    using assms v by (auto simp: policy_def u_def t_def intro!: owned_released)
  then show "run_state (audio_manager_set_volume env n) s = (e, s') \<Longrightarrow> policy p s'"
    using run assms by (auto split: if_splits)
qed

lemma policy_begin:
  assumes "policy None s" "run_state (play_begin env) s = (Inr resume, s')"
  shows "policy (Some resume) s' \<and> (resume \<longleftrightarrow> s_wakenet_running s)"
proof -
  obtain x t where t: "run_state (do_when (s_wakenet_running (locked env s))
      (do { wakenet_stop env; modify (\<lambda>s. s\<lparr>s_wakenet_running := False\<rparr>) })) (locked env s) = (x, t)" by (meson surj_pair)
  have st: "\<not> s_wakenet_running t" "s_recorder t = 0" "s_current_volume t = s_current_volume s" "owned t" "\<not> s_player_inited t"
    using stop_if_running [OF t] assms(1) by (auto simp: policy_def idle_locked)
  obtain q u where u: "run_state (audio_player_init env) t = (q, u)" by (meson surj_pair)
  have run: "run_state (play_begin env) s =
      (case q of Inl h \<Rightarrow> (Inl h, u)
       | Inr q \<Rightarrow> (Inr (s_wakenet_running s),
            released env (u\<lparr>s_player := q, s_player_inited := True, s_playback_running := True\<rparr>)))"
    using t st(5) u unfolding play_begin_def
    by (simp only: State_Monad.run_state_bind run_lock run_gets prod.case lock_fields) (simp add: run_simps split: sum.split)
  note keep = player_steps(1) [OF u]
  show ?thesis
    using assms run st keep more_fields [of u t]
    by (cases q) (auto simp: policy_def intro!: owned_released)
qed

lemma policy_end:
  assumes "policy (Some resume) s" "run_state (play_end env resume) s = (Inr x, s')"
  shows "policy None s' \<and> \<not> s_playback_running s' \<and> (s_wakenet_running s' \<longrightarrow> resume)"
proof -
  have inited: "s_player_inited s" using assms(1) by (simp add: policy_def)
  define t where "t = (locked env s)\<lparr>s_playback_running := False\<rparr>"
  have st: "\<not> s_wakenet_running t" "s_recorder t = 0" "s_current_volume t = s_current_volume s" "owned t" "s_player_inited t"
    using assms(1) by (auto simp: policy_def t_def idle_locked)
  obtain q u where u: "run_state (audio_player_deinit env (s_player t)) t = (q, u)" by (meson surj_pair)
  define v where "v = u\<lparr>s_player := q, s_player_inited := False\<rparr>"
  note keep = player_steps(2) [OF u]
  have sv: "\<not> s_wakenet_running v" "s_recorder v = 0" "s_current_volume v = s_current_volume s" "owned v" "\<not> s_player_inited v"
    "\<not> s_playback_running v"
    using st keep more_fields [of u t] by (simp_all add: v_def t_def)
  obtain r w where w: "run_state (if resume then run_wakenet env else return (Inr ESP_OK)) v = (r, w)" by (meson surj_pair)
  have run: "run_state (play_end env resume) s = (case r of Inl h \<Rightarrow> (Inl h, w) | Inr e \<Rightarrow> (Inr (), released env w))"
    using u st(5) w inited unfolding play_end_def
    by (simp add: State_Monad.run_state_bind State_Monad.run_state_get run_lock flip: t_def, simp add: run_basic flip: v_def)
      (cases resume; cases r; auto simp: run_simps)
  then obtain e where r: "r = Inr e" "s' = released env w" using assms(2) by (cases r) auto
  show ?thesis
    using run_wakenet_spec [of env v e w] w r sv assms(1) owned_released [of w env]
    by (cases resume) (auto simp: policy_def run_simps)
qed

lemma audio_run_policy: "audio_run env p s \<Longrightarrow> policy p s"
proof (induction rule: audio_run.induct)
  case (boot s)
  then show ?case by (simp add: policy_def audio_view_def)
qed (auto intro: policy_init policy_start policy_stop policy_volume policy_view dest: policy_begin policy_end)

text \<open>C5 (safety).  However tasks call the audio manager: while a file is played the recorder handle is
  \<open>NULL\<close> and wake word detection is off; the two flags and the recorder handle agree; the volume is between 0 and 100; and
  outside of calls nobody holds the mutex.  (A capture pipeline that a failed start of wake word detection left behind, see C40,
  is not covered by this: it would still use the I2S port.)\<close>

theorem audio_port_exclusive:
  assumes "audio_run env p s"
  shows "(p \<noteq> None \<longrightarrow> s_playback_running s \<and> \<not> s_wakenet_running s \<and> s_recorder s = 0) \<and>
         (s_wakenet_running s \<longleftrightarrow> s_recorder s \<noteq> 0) \<and> \<not> (s_playback_running s \<and> s_wakenet_running s) \<and>
         0 \<le> s_current_volume s \<and> s_current_volume s \<le> 100 \<and>
         (\<forall>m. performed (Os (Mutex_take m)) (trace s) = performed (Os (Mutex_give m)) (trace s))"
  using audio_run_policy [OF assms] by (auto simp: policy_def idle_def)

definition granted :: fw_env where
  "granted k c = ret_int 1"

lemma boot_runs: "audio_run env None boot"
  by (rule audio_run.boot) (simp_all add: boot_def audio_view_def idle_def)

lemma granted_playing: "fst (run_state (play_begin granted) boot) = Inr False"
  by (simp add: play_begin_def audio_player_init_def run_basic run_lock run_gets run_modify run_do_when run_call run_perform
      adf_def adf_do_def granted_def boot_def)

theorem audio_port_exclusive_witness:
  "s_playback_running (snd (run_state (play_begin granted) boot)) \<and>
   s_recorder (snd (run_state (play_begin granted) boot)) = 0"
proof -
  have "run_state (play_begin granted) boot = (Inr False, snd (run_state (play_begin granted) boot))"
    using granted_playing by (metis prod.collapse)
  from audio_run.begin_play [OF boot_runs this] show ?thesis
    using audio_port_exclusive by blast
qed

section \<open>A whole playback\<close>

lemma idle_only:
  assumes "only no_mutex m" "run_state m s = (x, s')" "idle s"
  shows "idle s'"
proof -
  obtain tr where "trace s' = trace s @ tr" "list_all (\<lambda>e. no_mutex (fst e)) tr" by (rule onlyD [OF assms(1,2)])
  then show ?thesis using no_mutex_trace [of tr] assms(3) by (simp add: idle_def)
qed

lemma player_loops:
  "only no_mutex (pump_music_info_and_update_clk env k p)" "only no_mutex (pump_turns env k i p)"
  "only no_mutex (wait_playback env k p)"
  "beyond_trace f \<Longrightarrow> preserves f (pump_music_info_and_update_clk env k p)"
  "beyond_trace f \<Longrightarrow> preserves f (pump_turns env k i p)" "beyond_trace f \<Longrightarrow> preserves f (wait_playback env k p)"
proof -
  show pump: "only no_mutex (pump_music_info_and_update_clk env k p)"
    by (induction k) (auto intro!: only_intros)
  show "only no_mutex (pump_turns env k i p)" by (induction i) (auto intro!: only_intros pump)
  show "only no_mutex (wait_playback env k p)" by (induction k) (auto intro!: only_intros)
  show keep: "beyond_trace f \<Longrightarrow> preserves f (pump_music_info_and_update_clk env k p)"
    by (induction k) (auto intro!: preserves_intros)
  show "beyond_trace f \<Longrightarrow> preserves f (pump_turns env k i p)" by (induction i) (auto intro!: preserves_intros keep)
  show "beyond_trace f \<Longrightarrow> preserves f (wait_playback env k p)" by (induction k) (auto intro!: preserves_intros)
qed

lemma play_middle_step:
  fixes s :: "'z audio_vars_scheme"
  assumes "run_state (play_middle env fuel) s = (r, s')"
  shows "audio_view s' = audio_view s" and "idle s \<Longrightarrow> idle s'"
proof -
  have "preserves audio_view (play_middle env fuel :: ('z audio_vars_scheme, _) state)"
    unfolding play_middle_def audio_player_play_from_flash_def stop_player_def
    by (intro preserves_intros player_loops)
  from preservesD [OF this assms] show "audio_view s' = audio_view s" .
  have "only no_mutex (play_middle env fuel :: ('z audio_vars_scheme, _) state)"
    unfolding play_middle_def audio_player_play_from_flash_def stop_player_def
    by (intro only_intros player_loops; simp)
  from idle_only [OF this assms] show "idle s \<Longrightarrow> idle s'" .
qed

text \<open>The result of the player is 0 whenever it returns.\<close>

lemma play_middle_result: "run_state (play_middle env fuel) s = (Inr (Some r), s') \<Longrightarrow> r = 0"
  by (auto simp: play_middle_def audio_player_play_from_flash_def run_simps elim!: run_bindE
      split: if_splits option.splits prod.splits)

text \<open>C17 (functional).  Playing a file, from any state of the manager without a playback: when the call returns, it
  reports success, the player is gone, the playback flag is down, and wake word detection runs only if it
  ran before; the manager is again in a state without playback.\<close>

theorem playback_complete:
  assumes "audio_run env None s" "run_state (audio_manager_play_from_flash env fuel start finish) s = (Inr (Some e), s')"
    and "start \<noteq> 0" "finish \<noteq> 0" "start < finish"
  shows "audio_run env None s' \<and> e = ESP_OK \<and> \<not> s_playback_running s' \<and> \<not> s_player_inited s' \<and>
    (s_wakenet_running s' \<longrightarrow> s_wakenet_running s) \<and> 0 \<le> s_current_volume s' \<and> s_current_volume s' \<le> 100"
proof -
  obtain b t where t: "run_state (play_begin env) s = (b, t)" by (meson surj_pair)
  obtain m u where u: "run_state (play_middle env fuel) t = (m, u)" by (meson surj_pair)
  from assms(2-5) t obtain resume where b: "b = Inr resume"
    by (cases b) (auto simp: audio_manager_play_from_flash_def run_simps)
  then obtain r where m: "m = Inr (Some r)"
    using assms(2-5) t u by (cases m) (auto simp: audio_manager_play_from_flash_def run_simps split: option.splits)
  obtain y where v: "run_state (play_end env resume) u = (Inr y, s')" and e: "e = (if r = 0 then ESP_OK else ESP_FAIL)"
    using assms(2-5) t u b m
    by (auto simp: audio_manager_play_from_flash_def run_simps split: prod.splits sum.splits if_splits)
  have run_t: "audio_run env (Some resume) t" using assms(1) t b by (auto intro: audio_run.begin_play)
  then have run_u: "audio_run env (Some resume) u"
    using play_middle_step [OF u] audio_run_policy [OF run_t] by (auto simp: policy_def intro: audio_run.other)
  then have run_s': "audio_run env None s'" using v by (rule audio_run.end_play)
  show ?thesis
    using run_s' play_middle_result [OF u [unfolded m]] e policy_begin [OF audio_run_policy [OF assms(1)] t [unfolded b]]
      policy_end [OF audio_run_policy [OF run_u] v] audio_run_policy [OF run_s']
    by (auto simp: policy_def)
qed

text \<open>A board with a codec, on the quiet framework.\<close>

definition powered :: fw where
  "powered = boot\<lparr>s_board := 1, s_board_hal := 1\<rparr>"

lemma powered_runs: "audio_run env None powered"
  by (rule audio_run.boot) (simp_all add: powered_def boot_def audio_view_def idle_def)

lemma play_end_without_resume: "\<exists>s'. run_state (play_end env False) s = (Inr (), s')"
  by (simp add: play_end_def run_simps split: prod.split)

lemma play_begin_powered:
  "run_state (play_begin quiet_framework) powered = (Inr False, snd (run_state (play_begin quiet_framework) powered)) \<and>
   s_board (snd (run_state (play_begin quiet_framework) powered)) = 1"
  by (simp add: play_begin_def audio_player_init_def run_basic audio_lock_def audio_unlock_def run_gets run_modify run_do_when
      run_call run_perform adf_def adf_do_def quiet_framework_def powered_def boot_def)

lemma demo_playback_returns:
  "\<exists>s'. run_state (audio_manager_play_from_flash quiet_framework 1 1 2) powered = (Inr (Some ESP_OK), s')"
proof -
  obtain t where t: "run_state (play_begin quiet_framework) powered = (Inr False, t)" "s_board t = 1"
    using play_begin_powered by blast
  define v where "v = snd (run_state (perform quiet_framework (Board (Hal_set_volume (s_board_hal t) (s_current_volume t)))) t)"
  obtain w where w: "run_state (audio_player_play_from_flash quiet_framework 1 (s_player t)) v = (Some 0, w)"
    using playback_returns [OF quiet_framework_settled, of v 1 "s_player t"] by auto
  have m: "run_state (play_middle quiet_framework 1) t = (Inr (Some 0), w)"
    using t(2) w by (simp add: play_middle_def run_basic run_perform v_def)
  obtain s' where "run_state (play_end quiet_framework False) w = (Inr (), s')"
    using play_end_without_resume by blast
  then show ?thesis
    using t(1) m by (simp add: audio_manager_play_from_flash_def run_basic)
qed

theorem playback_complete_witness:
  "\<exists>s'. run_state (audio_manager_play_from_flash quiet_framework 1 1 2) powered = (Inr (Some ESP_OK), s') \<and>
     \<not> s_playback_running s' \<and> \<not> s_wakenet_running s'"
proof -
  obtain s' where s': "run_state (audio_manager_play_from_flash quiet_framework 1 1 2) powered = (Inr (Some ESP_OK), s')"
    using demo_playback_returns by blast
  then show ?thesis
    using playback_complete [OF powered_runs s'] by (auto simp: powered_def boot_def)
qed

section \<open>A failed start\<close>

text \<open>Calls that stop a pipeline or take it apart.\<close>

fun takes_down :: "fw_call \<Rightarrow> bool" where
  "takes_down (Adf (Pipeline_stop p)) \<longleftrightarrow> True"
| "takes_down (Adf (Pipeline_wait_for_stop p)) \<longleftrightarrow> True"
| "takes_down (Adf (Pipeline_terminate p)) \<longleftrightarrow> True"
| "takes_down (Adf (Pipeline_unregister p e)) \<longleftrightarrow> True"
| "takes_down (Adf (Pipeline_change_state p st)) \<longleftrightarrow> True"
| "takes_down (Adf (Pipeline_deinit p)) \<longleftrightarrow> True"
| "takes_down (Adf (Element_deinit e)) \<longleftrightarrow> True"
| "takes_down _ \<longleftrightarrow> False"

lemma capture_pipeline_runs:
  assumes "run_state (build_capture_pipeline env) s = (ESP_OK, t)"
  shows "s_pipeline t \<noteq> 0 \<and> s_recorder t = s_recorder s \<and>
    (\<exists>tr r. trace t = trace s @ tr \<and> (Adf (Pipeline_run (s_pipeline t)), r) \<in> set tr \<and> rerr r = ESP_OK \<and> list_all (\<lambda>e. \<not> takes_down (fst e)) tr)"
  using assms by (auto simp: build_capture_pipeline_def run_simps adf_def adf_do_def split: if_splits)

text \<open>C40 (error).  When the recorder cannot be created, \<open>wakenet_start\<close> reports a failure, but it has successfully run the capture pipeline
  and makes no call that stops it or takes it apart, and the handle of the pipeline stays set while that of the recorder
  is \<open>NULL\<close>: the pipeline is left running.\<close>

theorem failed_start_leaves_pipeline:
  assumes "run_state (wakenet_start env) s = (Inr ESP_FAIL, s')" "s_recorder s = 0"
  shows "s_recorder s' = 0 \<and> s_pipeline s' \<noteq> 0 \<and>
    (\<exists>tr r. trace s' = trace s @ tr \<and> (Adf (Pipeline_run (s_pipeline s')), r) \<in> set tr \<and> rerr r = ESP_OK \<and> list_all (\<lambda>e. \<not> takes_down (fst e)) tr)"
proof -
  obtain x t where t: "run_state (build_capture_pipeline env) s = (x, t)" by (meson surj_pair)
  have x: "x = ESP_OK" using assms t by (cases "x = ESP_OK") (auto simp: wakenet_start_def run_simps)
  show ?thesis
    using assms capture_pipeline_runs [OF t [unfolded x]] t x
    by (fastforce simp: wakenet_start_def run_simps adf_def Let_def split: if_splits)
qed

definition no_recorder :: fw_env where
  "no_recorder k c = (case c of Adf (Recorder_create sr n) \<Rightarrow> ret_int 0 | _ \<Rightarrow> ret_int 1)"

lemma no_recorder_fails: "fst (run_state (wakenet_start no_recorder) boot) = Inr ESP_FAIL"
  by (simp add: wakenet_start_def build_capture_pipeline_def run_basic run_modify run_call run_perform adf_def adf_do_def
      no_recorder_def boot_def)

theorem failed_start_leaves_pipeline_witness:
  "s_pipeline (snd (run_state (wakenet_start no_recorder) boot)) \<noteq> 0"
proof -
  have "run_state (wakenet_start no_recorder) boot = (Inr ESP_FAIL, snd (run_state (wakenet_start no_recorder) boot))"
    using no_recorder_fails by (metis prod.collapse)
  moreover have "s_recorder boot = 0" by (simp add: boot_def)
  ultimately show ?thesis using failed_start_leaves_pipeline by blast
qed

end
