(* ===== verification/ReverseAudio.thy ===== *)
theory ReverseAudio
  imports Services AudioPolicy
begin

text \<open>
  What the reverse-audio service of \<open>softAP.c\<close> guarantees: a file is received as it was sent and never
  overruns its buffer of 1 MiB, reception ends whatever the peer does, and serving a client gives back the
  connection and the buffer on every path.
\<close>

section \<open>Receiving a file\<close>

fun recv_call :: "int \<Rightarrow> fw_call \<Rightarrow> bool" where
  "recv_call k (Net (Recv j n)) = (j = k)"
| "recv_call k _ = False"

lemma only_recv_file: "only (recv_call sock) (recv_file env k sock mem header)"
  by (induction k arbitrary: mem header) (auto intro!: only_intros simp: Let_def)

lemma recv_file_spec:
  assumes "recv_sane env" "length mem \<le> MAX_INMEM_BYTES" "MAX_INMEM_BYTES - length mem < k"
  shows "\<exists>complete content h s' tr. run_state (recv_file env k sock mem header) s = (Some (complete, content, h), s') \<and>
    s' = s\<lparr>trace := trace s @ tr\<rparr> \<and> length content \<le> MAX_INMEM_BYTES \<and>
    (if complete then content = mem @ received sock tr \<and> tr \<noteq> [] \<and> rval (snd (last tr)) = 0
     else \<exists>q. mem @ received sock tr = content @ q)"
  using assms(2,3)
proof (induction k arbitrary: mem header s)
  case (Suc k)
  define c where "c = Net (Recv sock RECV_CHUNK)"
  define r where "r = env (length (trace s)) c"
  define t where "t = s\<lparr>trace := trace s @ [(c, r)]\<rparr>"
  define ch where "ch = take (nat (rval r)) (rdata r)"
  define h where "h = (case header of Some b \<Rightarrow> Some b | None \<Rightarrow> Some (looks_like_mp3 ch))"
  have run: "run_state (recv_file env (Suc k) sock mem header) s =
     (if rval r = 0 then (Some (True, mem, header), t)
      else if rval r < 0 then (Some (False, mem, header), t)
      else if MAX_INMEM_BYTES < length mem + nat (rval r) then (Some (False, mem, h), t)
      else run_state (recv_file env k sock (mem @ ch) h) t)"
    unfolding recv_file.simps Let_def t_def h_def ch_def r_def c_def by (simp add: run_basic run_call)
  have rd: "0 < rval r \<Longrightarrow> length (rdata r) = nat (rval r)"
    using recv_saneD(2) [OF assms(1)] by (simp add: r_def c_def)
  show ?case
  proof (cases "0 < rval r \<and> length mem + nat (rval r) \<le> MAX_INMEM_BYTES")
    case False
    then have "run_state (recv_file env (Suc k) sock mem header) s =
        (Some (rval r = 0, mem, if rval r \<le> 0 then header else h), t)"
      using run by auto
    then show ?thesis
      using Suc.prems(1)
      by (intro exI [where x = "rval r = 0"] exI [where x = mem] exI [where x = "if rval r \<le> 0 then header else h"]
          exI [where x = t] exI [where x = "[(c, r)]"]) (simp add: t_def c_def)
  next
    case True
    have ch: "ch = rdata r" "length (mem @ ch) = length mem + nat (rval r)" using rd True by (simp_all add: ch_def)
    have "length (mem @ ch) \<le> MAX_INMEM_BYTES" "MAX_INMEM_BYTES - length (mem @ ch) < k"
      using True ch(2) Suc.prems by auto
    from Suc.IH [OF this, of h t] obtain complete content h' s' tr where
      rec: "run_state (recv_file env k sock (mem @ ch) h) t = (Some (complete, content, h'), s')"
      "s' = t\<lparr>trace := trace t @ tr\<rparr>" "length content \<le> MAX_INMEM_BYTES"
      "if complete then content = (mem @ ch) @ received sock tr \<and> tr \<noteq> [] \<and> rval (snd (last tr)) = 0
       else \<exists>q. (mem @ ch) @ received sock tr = content @ q" by blast
    then show ?thesis
      using run True ch(1)
      by (intro exI [where x = complete] exI [where x = content] exI [where x = h'] exI [where x = s']
          exI [where x = "(c, r) # tr"]) (auto simp: t_def c_def split: if_splits)
  qed
qed simp

text \<open>C18 (bounds).  Reception of a file ends after at most 1 MiB of turns, whatever the peer sends and however TCP cuts
  it; what is in memory never exceeds the buffer; a transfer that counts as complete was ended by the
  peer and holds exactly the bytes received; an incomplete one holds a beginning of them.\<close>

theorem file_reception_correct:
  assumes "recv_sane env" "MAX_INMEM_BYTES < fuel"
  shows "\<exists>complete content h s' tr. run_state (recv_file env fuel sock [] None) s = (Some (complete, content, h), s') \<and>
    trace s' = trace s @ tr \<and> length content \<le> MAX_INMEM_BYTES \<and>
    (if complete then content = received sock tr \<and> rval (snd (last tr)) = 0 else \<exists>q. received sock tr = content @ q)"
proof -
  have "length ([] :: byte list) \<le> MAX_INMEM_BYTES" "MAX_INMEM_BYTES - length ([] :: byte list) < fuel"
    using assms(2) by simp_all
  from recv_file_spec [OF assms(1) this, of sock None s] show ?thesis by (force split: if_splits)
qed

theorem file_reception_correct_witness:
  "\<exists>complete content h s'. run_state (recv_file (scripted_recv [[0x49, 0x44, 0x33], [1, 2]]) (Suc MAX_INMEM_BYTES) 6 [] None) boot =
     (Some (complete, content, h), s') \<and> length content \<le> 1048576"
  using file_reception_correct [OF recv_sane_scripted, of "Suc MAX_INMEM_BYTES"] by (force simp: MAX_INMEM_BYTES_def)

section \<open>Serving a client\<close>

text \<open>Calls that neither touch a socket nor free the block at address \<open>m\<close>.\<close>

fun keeps_block :: "int \<Rightarrow> fw_call \<Rightarrow> bool" where
  "keeps_block m (Net c) = False"
| "keeps_block m (Os (Free p)) = (p \<noteq> m)"
| "keeps_block m _ = True"

lemma keeps_block_trace:
  assumes "list_all (\<lambda>e. keeps_block m (fst e)) tr"
  shows "performed (Os (Free m)) tr = 0 \<and> closed d tr = 0 \<and> opened d tr = 0"
  using assms
proof (induction tr)
  case (Cons e tr)
  obtain c r where "e = (c, r)" by force
  with Cons show ?case by (cases "(m, c)" rule: keeps_block.cases) auto
qed simp

lemma only_wakenet_stop_from:
  assumes "s_record_buf s \<noteq> m" "run_state (wakenet_stop env) s = (x, s')"
  obtains tr where "trace s' = trace s @ tr" "list_all (\<lambda>e. keeps_block m (fst e)) tr"
proof -
  note run = assms(2) [unfolded wakenet_stop_def State_Monad.run_state_bind [of get_state]
      State_Monad.run_state_get prod.case]
  show thesis
    by (rule onlyD [OF _ run, of "keeps_block m"], unfold stop_capture_def, intro only_intros)
      (use assms(1) that in auto)
qed

definition goes_on :: "int \<Rightarrow> 'z audio_vars_scheme \<Rightarrow> 'z audio_vars_scheme \<Rightarrow> bool" where
  "goes_on m s s' \<longleftrightarrow> (\<exists>tr. trace s' = trace s @ tr \<and> list_all (\<lambda>e. keeps_block m (fst e)) tr)"

lemma goes_on_trans [trans]: "goes_on m s t \<Longrightarrow> goes_on m t u \<Longrightarrow> goes_on m s u"
  unfolding goes_on_def by fastforce

lemma goes_on_only: "only (keeps_block m) f \<Longrightarrow> run_state f s = (x, s') \<Longrightarrow> goes_on m s s'"
  unfolding goes_on_def by (metis onlyD)

lemma only_audio [only_intros]:
  "only (keeps_block m) (audio_lock env)" "only (keeps_block m) (audio_unlock env)"
  "only (keeps_block m) (audio_player_init env)" "only (keeps_block m) (audio_player_deinit env p)"
  "only (keeps_block m) (run_wakenet env)"
  unfolding audio_lock_def audio_unlock_def audio_player_init_def audio_player_deinit_def run_wakenet_def
    wakenet_start_def build_capture_pipeline_def
  by (intro only_intros; simp)+

lemma only_play_middle: "only (keeps_block m) (play_middle env fuel)"
proof -
  have pump: "only (keeps_block m) (pump_music_info_and_update_clk env k p)" for k p
    by (induction k) (auto intro!: only_intros)
  have turns: "only (keeps_block m) (pump_turns env k i p)" for k i p
    by (induction i) (auto intro!: only_intros pump)
  have wait: "only (keeps_block m) (wait_playback env k p)" for k p
    by (induction k) (auto intro!: only_intros)
  show ?thesis
    unfolding play_middle_def audio_player_play_from_flash_def stop_player_def
    by (intro only_intros turns wait; simp)
qed

lemma only_play_end: "only (keeps_block m) (play_end env resume)"
  unfolding play_end_def by (intro only_intros; simp)

lemma lock_record_buf: "s_record_buf (locked env s) = s_record_buf s"
  by (simp add: locked_def audio_lock_def run_basic run_call run_perform run_modify run_do_when)

lemma play_begin_goes_on:
  assumes "s_record_buf s \<noteq> m" "run_state (play_begin env) s = (b, s')"
  shows "goes_on m s s'"
proof -
  have "goes_on m s (locked env s)" by (rule goes_on_only [OF only_audio(1) run_lock(1)])
  also obtain x t where t: "run_state (do_when (s_wakenet_running (locked env s))
      (do { wakenet_stop env; modify (\<lambda>s. s\<lparr>s_wakenet_running := False\<rparr>) })) (locked env s) = (x, t)" by (meson surj_pair)
  obtain u where u: "run_state (wakenet_stop env) (locked env s) = ((), u)" by (metis run_unit)
  have "goes_on m (locked env s) u"
    using only_wakenet_stop_from [OF _ u] assms(1) unfolding goes_on_def by (metis lock_record_buf)
  then have "goes_on m (locked env s) t"
    using t u by (cases "s_wakenet_running s") (auto simp: run_basic goes_on_def run_do_when)
  also have rest: "run_state (do {
       inited \<leftarrow> gets s_player_inited;
       p \<leftarrow> (if \<not> inited then audio_player_init env
             else do { q \<leftarrow> gets s_player; return (Inr q) });
       case p of Inl h \<Rightarrow> return (Inl h)
       | Inr q \<Rightarrow> do {
           modify (\<lambda>s. s\<lparr>s_player := q, s_player_inited := True, s_playback_running := True\<rparr>);
           audio_unlock env;
           return (Inr (s_wakenet_running s))
         }
     }) t = (b, s')"
    using assms(2) t unfolding play_begin_def
    by (simp only: State_Monad.run_state_bind [of "audio_lock env"] State_Monad.run_state_bind [of "gets s_wakenet_running"]
        State_Monad.run_state_bind [of "do_when _ _"] run_lock run_gets prod.case lock_fields)
  have "goes_on m t s'" by (rule goes_on_only [OF _ rest]) (intro only_intros; simp)
  finally show ?thesis .
qed

lemma playback_goes_on:
  fixes s :: "'z audio_vars_scheme"
  assumes "s_record_buf s \<noteq> m" "run_state (audio_manager_play_from_flash env fuel a z) s = (r, s')"
  shows "goes_on m s s'"
proof -
  obtain b t where t: "run_state (play_begin env) s = (b, t)" by (meson surj_pair)
  have st: "goes_on m s t" by (rule play_begin_goes_on [OF assms(1) t])
  have refl: "goes_on m s s" by (simp add: goes_on_def)
  define rest :: "('z audio_vars_scheme, halt + esp_err option) state" where "rest = (case b of Inl h \<Rightarrow> return (Inl h)
        | Inr resume \<Rightarrow> do {
            m \<leftarrow> play_middle env fuel;
            case m of Inl h \<Rightarrow> return (Inl h)
            | Inr None \<Rightarrow> return (Inr None)
            | Inr (Some r) \<Rightarrow> do {
                e \<leftarrow> play_end env resume;
                case e of Inl h \<Rightarrow> return (Inl h)
                | Inr _ \<Rightarrow> return (Inr (Some (if r = 0 then ESP_OK else ESP_FAIL)))
              }
          })"
  have "only (keeps_block m) rest"
    unfolding rest_def by (intro only_intros only_play_middle only_play_end)
  from goes_on_only [OF this] have "run_state rest t = (r, s') \<Longrightarrow> goes_on m t s'" .
  then show ?thesis
    using assms(2) t st refl
    by (cases "a = 0 \<or> z = 0 \<or> z \<le> a")
      (auto simp: audio_manager_play_from_flash_def State_Monad.run_state_bind [of "play_begin env"] State_Monad.run_state_return
        rest_def intro: goes_on_trans)
qed

text \<open>Serving a client once the buffer at address \<open>m\<close> is allocated.\<close>

definition serve_with_buffer :: "fw_env \<Rightarrow> nat \<Rightarrow> int \<Rightarrow> int \<Rightarrow> ('z audio_vars_scheme, halt + unit option) state" where
  "serve_with_buffer env fuel sock m = do {
     f \<leftarrow> recv_file env fuel sock [] None;
     case f of None \<Rightarrow> return (Inr None)
     | Some (ok, mem, header) \<Rightarrow> do {
         perform_all env [Net (Shutdown sock), Net (Close sock)];
         if \<not> ok \<or> mem = [] then do {
           perform env (Os (Free m));
           return (Inr (Some ()))
         } else do {
           pr \<leftarrow> audio_manager_play_from_flash env fuel m (m + int (length mem));
           case pr of Inl h \<Rightarrow> return (Inl h)
           | Inr None \<Rightarrow> return (Inr None)
           | Inr (Some e) \<Rightarrow> do {
               perform env (Os (Free m));
               return (Inr (Some ()))
             }
         }
       }
   }"

lemma reverse_audio_client_buffer:
  "reverse_audio_client env fuel sock = do {
     perform_all env [Os (Heap_free_size MALLOC_CAP_SPIRAM), Os (Heap_largest_block MALLOC_CAP_SPIRAM)];
     m \<leftarrow> call env (Os (Malloc MAX_INMEM_BYTES MALLOC_CAP_SPIRAM));
     if rval m = 0 then do {
       perform_all env [Net (Shutdown sock), Net (Close sock)];
       return (Inr (Some ()))
     } else serve_with_buffer env fuel sock (rval m)
   }"
  unfolding reverse_audio_client_def serve_with_buffer_def by (rule refl)

lemma recv_call_trace:
  assumes "list_all (\<lambda>e. recv_call k (fst e)) tr"
  shows "performed (Os c) tr = 0 \<and> closed d tr = 0 \<and> opened d tr = 0"
  using assms
proof (induction tr)
  case (Cons e tr)
  obtain c r where "e = (c, r)" by force
  with Cons show ?case by (cases "(k, c)" rule: recv_call.cases) auto
qed simp

text \<open>Between the two calls that close the connection and the one that frees the buffer.\<close>

lemma serve_with_buffer_ends:
  assumes "run_state (serve_with_buffer env fuel sock m) s = (Inr (Some ()), s')" "s_record_buf s \<noteq> m"
  shows "\<exists>tr1 r1 r2 tr2 r3. list_all (\<lambda>e. recv_call sock (fst e)) tr1 \<and> list_all (\<lambda>e. keeps_block m (fst e)) tr2 \<and>
    trace s' = trace s @ tr1 @ [(Net (Shutdown sock), r1), (Net (Close sock), r2)] @ tr2 @ [(Os (Free m), r3)]"
proof -
  obtain f t where t: "run_state (recv_file env fuel sock [] None) s = (f, t)" by (meson surj_pair)
  obtain tr1 where tr1: "trace t = trace s @ tr1" "list_all (\<lambda>e. recv_call sock (fst e)) tr1"
    by (rule onlyD [OF only_recv_file t])
  have keep: "preserves plat.more (recv_file env fuel sock mem h :: ('a audio_vars_scheme, _) state)" for mem h
    by (induction fuel arbitrary: mem h) (auto intro!: preserves_intros beyond_trace_more [where f = id, simplified] simp: Let_def)
  have "s_record_buf t = s_record_buf s" using preservesD [OF keep t] by (cases s; cases t; simp)
  with assms(2) have buf: "s_record_buf t \<noteq> m" by simp
  obtain complete mem h where f: "f = Some (complete, mem, h)"
    using assms(1) t by (cases f) (auto simp: serve_with_buffer_def run_basic)
  define u where "u = snd (run_state (perform_all env [Net (Shutdown sock), Net (Close sock)]) t)"
  have u: "\<exists>r1 r2. trace u = trace t @ [(Net (Shutdown sock), r1), (Net (Close sock), r2)]" "s_record_buf u \<noteq> m"
    using buf by (simp_all add: u_def run_simps)
  have "\<exists>tr2 r3. trace s' = trace u @ tr2 @ [(Os (Free m), r3)] \<and> list_all (\<lambda>e. keeps_block m (fst e)) tr2"
  proof (cases "\<not> complete \<or> mem = []")
    case True
    then have "trace s' = trace u @ [] @ [(Os (Free m), env (length (trace u)) (Os (Free m)))]"
      using assms(1) t f by (auto simp: serve_with_buffer_def run_basic run_perform u_def)
    then show ?thesis by (intro exI [where x = "[]"]) auto
  next
    case False
    obtain pr v where v: "run_state (audio_manager_play_from_flash env fuel m (m + int (length mem))) u = (pr, v)"
      by (meson surj_pair)
    obtain tr2 where tr2: "trace v = trace u @ tr2" "list_all (\<lambda>e. keeps_block m (fst e)) tr2"
      using playback_goes_on [OF u(2) v] by (auto simp: goes_on_def)
    have s': "run_state (serve_with_buffer env fuel sock m) s = run_state (case pr of Inl h \<Rightarrow> return (Inl h)
           | Inr None \<Rightarrow> return (Inr None)
           | Inr (Some e) \<Rightarrow> do { perform env (Os (Free m)); return (Inr (Some ())) }) v"
      using t f False v by (simp add: serve_with_buffer_def run_basic run_perform u_def)
    have "trace s' = trace v @ [(Os (Free m), env (length (trace v)) (Os (Free m)))]"
      using assms(1) unfolding s' by (cases pr) (auto simp: run_basic run_perform split: option.splits)
    then show ?thesis using tr2 by auto
  qed
  then obtain tr2 r3 where "trace s' = trace u @ tr2 @ [(Os (Free m), r3)]" "list_all (\<lambda>e. keeps_block m (fst e)) tr2"
    by blast
  then show ?thesis using u(1) tr1 by fastforce
qed

text \<open>C19 (safety).  Serving one client of the reverse-audio port, on every path that returns (allocation failure,
  broken transfer, file too large, empty file, playback): the connection is closed exactly once, no other
  descriptor is touched, and the buffer that was allocated for the file is freed exactly once.  (The
  allocator does not hand out the buffer of a recording that is still allocated.)\<close>

theorem reverse_audio_releases:
  assumes "run_state (reverse_audio_client env fuel sock) s = (Inr (Some ()), s')"
    and "s_record_buf s \<noteq> rval (env (length (trace s) + 2) (Os (Malloc MAX_INMEM_BYTES MALLOC_CAP_SPIRAM)))"
  shows "\<exists>m tr. trace s' = trace s @ tr \<and> (Os (Malloc MAX_INMEM_BYTES MALLOC_CAP_SPIRAM), m) \<in> set tr \<and>
    closed d tr = (if d = sock then 1 else 0) \<and> opened d tr = 0 \<and>
    (rval m \<noteq> 0 \<longrightarrow> performed (Os (Free (rval m))) tr = 1)"
proof -
  let ?ma = "Os (Malloc MAX_INMEM_BYTES MALLOC_CAP_SPIRAM)"
  define m where "m = env (length (trace s) + 2) ?ma"
  define t where "t = snd (run_state (perform_all env
      [Os (Heap_free_size MALLOC_CAP_SPIRAM), Os (Heap_largest_block MALLOC_CAP_SPIRAM), ?ma]) s)"
  have "\<exists>x y. trace t = trace s @ [(Os (Heap_free_size MALLOC_CAP_SPIRAM), x),
      (Os (Heap_largest_block MALLOC_CAP_SPIRAM), y), (?ma, m)]"
    by (simp add: t_def run_simps m_def)
  then obtain x y where t: "trace t = trace s @ [(Os (Heap_free_size MALLOC_CAP_SPIRAM), x),
      (Os (Heap_largest_block MALLOC_CAP_SPIRAM), y), (?ma, m)]" by blast
  have buf: "s_record_buf t \<noteq> rval m" using assms(2) by (simp add: t_def run_simps m_def)
  have run: "run_state (reverse_audio_client env fuel sock) s =
      (if rval m = 0 then run_state (do { perform_all env [Net (Shutdown sock), Net (Close sock)]; return (Inr (Some ())) }) t
       else run_state (serve_with_buffer env fuel sock (rval m)) t)"
    unfolding reverse_audio_client_buffer t_def m_def by (simp add: run_basic run_call run_perform)
  show ?thesis
  proof (cases "rval m = 0")
    case True
    then show ?thesis
      using assms(1) run t by (auto simp: run_simps intro!: exI [where x = m])
  next
    case False
    then have "run_state (serve_with_buffer env fuel sock (rval m)) t = (Inr (Some ()), s')" using assms(1) run by simp
    from serve_with_buffer_ends [OF this buf] obtain tr1 r1 r2 tr2 r3 where
      tr: "list_all (\<lambda>e. recv_call sock (fst e)) tr1" "list_all (\<lambda>e. keeps_block (rval m) (fst e)) tr2"
      "trace s' = trace t @ tr1 @ [(Net (Shutdown sock), r1), (Net (Close sock), r2)] @ tr2 @ [(Os (Free (rval m)), r3)]"
      by blast
    show ?thesis
      using recv_call_trace [OF tr(1)] keeps_block_trace [OF tr(2)] tr(3) t
      by (intro exI [where x = m]) auto
  qed
qed

definition one_client :: fw_env where
  "one_client k c = (case c of Os (Malloc n p) \<Rightarrow> ret_int 9 | _ \<Rightarrow> ret_int 0)"

lemma one_client_served:
  "fst (run_state (reverse_audio_client one_client 1 6) boot) = Inr (Some ())"
  by (simp add: reverse_audio_client_def run_basic run_call run_perform one_client_def)

theorem reverse_audio_releases_witness:
  "\<exists>m tr. trace (snd (run_state (reverse_audio_client one_client 1 6) boot)) = tr \<and>
     (Os (Malloc MAX_INMEM_BYTES MALLOC_CAP_SPIRAM), m) \<in> set tr \<and> closed 6 tr = 1"
proof -
  have "run_state (reverse_audio_client one_client 1 6) boot =
      (Inr (Some ()), snd (run_state (reverse_audio_client one_client 1 6) boot))"
    using one_client_served by (metis prod.collapse)
  from reverse_audio_releases [OF this, of 6] show ?thesis
    by (auto simp: boot_def one_client_def)
qed

end
