(* ===== verification/SensorFrame.thy ===== *)
theory SensorFrame
  imports Drivers Preserve
begin

text \<open>
  What the sensor drivers leave alone.  \<open>sensor_code m\<close>: the external calls of \<open>m\<close> are transactions on the sensor's bus
  and delays, and of the camera driver's state \<open>m\<close> changes at most the settings and the pixel format of the
  sensor object and the two variables the drivers keep.  All operations of all thirteen drivers are such code.
\<close>

section \<open>The frame condition\<close>

fun bus_or_delay :: "fw_call \<Rightarrow> bool" where
  "bus_or_delay (Cam (I2c_cmd_begin port ops)) \<longleftrightarrow> True"
| "bus_or_delay (Os (Task_delay n)) \<longleftrightarrow> True"
| "bus_or_delay _ \<longleftrightarrow> False"

text \<open>The state a driver does not own.\<close>

definition outside ::
  "'z cam_vars_scheme \<Rightarrow> cam_obj_t option \<times> (camera_model_t option \<times> sensor_id_t \<times> byte) option \<times> 'z" where
  "outside s = (cam_obj s, map_option (\<lambda>x. (drv x, sid x, slv_addr x)) (s_state s), cam_vars.more s)"

definition sensor_code :: "('z cam_vars_scheme, 'a) state \<Rightarrow> bool" where
  "sensor_code m \<longleftrightarrow> only bus_or_delay m \<and> preserves outside m"

named_theorems code_intros "code of sensor drivers"

lemma beyond_trace_outside [preserves_intros]: "beyond_trace (outside :: 'z cam_vars_scheme \<Rightarrow> _)"
  by (simp add: beyond_trace_def outside_def)

lemma code_basic [code_intros]: "sensor_code (return x)" "sensor_code (gets g)" "sensor_code get_state"
  unfolding sensor_code_def by (intro conjI only_intros preserves_intros)+

lemma code_bind [code_intros]: "sensor_code m \<Longrightarrow> (\<And>x. sensor_code (f x)) \<Longrightarrow> sensor_code (State_Monad.bind m f)"
  unfolding sensor_code_def by (auto intro: only_bind preserves_bind)

lemma code_if [code_intros]: "(b \<Longrightarrow> sensor_code m) \<Longrightarrow> (\<not> b \<Longrightarrow> sensor_code n) \<Longrightarrow> sensor_code (if b then m else n)"
  by simp

lemma code_do_when [code_intros]: "sensor_code m \<Longrightarrow> sensor_code (do_when b m)"
  by (simp add: do_when_def code_basic)

lemma code_option [code_intros]:
  "sensor_code m \<Longrightarrow> (\<And>x. sensor_code (g x)) \<Longrightarrow> sensor_code (case y of None \<Rightarrow> m | Some x \<Rightarrow> g x)"
  by (cases y) auto

lemma code_prod [code_intros]: "(\<And>a b. sensor_code (g a b)) \<Longrightarrow> sensor_code (case y of (a, b) \<Rightarrow> g a b)"
  by (cases y) auto

lemma code_Let [code_intros]: "(\<And>x. sensor_code (g x)) \<Longrightarrow> sensor_code (Let y g)"
  by simp

lemma code_call [code_intros]: "bus_or_delay c \<Longrightarrow> sensor_code (call env c)" "bus_or_delay c \<Longrightarrow> sensor_code (perform env c)"
  unfolding sensor_code_def by (intro conjI only_intros preserves_intros; assumption)+

lemma code_pause [code_intros]: "sensor_code (perform env (Os (Task_delay n)))"
  by (intro code_intros) simp

lemma code_modify: "(\<And>s. trace (g s) = trace s) \<Longrightarrow> (\<And>s. outside (g s) = outside s) \<Longrightarrow> sensor_code (modify g)"
  unfolding sensor_code_def by (intro conjI only_intros preserves_intros)

lemma code_updates [code_intros]:
  "sensor_code (upd_status f)" "sensor_code (upd_sensor (\<lambda>x. x\<lparr>pixformat := pf\<rparr>))"
  "sensor_code (modify (\<lambda>s. s\<lparr>reg_bank := b\<rparr>))" "sensor_code (modify (\<lambda>s. s\<lparr>ov7670_clkrc := c\<rparr>))"
  unfolding upd_status_def upd_sensor_def by (rule code_modify; simp add: outside_def option.map_comp comp_def)+

section \<open>Shared code\<close>

lemma code_bus [code_intros]:
  "sensor_code (SCCB_Read env slv reg)" "sensor_code (SCCB_Write env slv reg v)"
  "sensor_code (SCCB_Read16 env slv reg16)" "sensor_code (SCCB_Write16 env slv reg16 v)"
  unfolding SCCB_Read_def SCCB_Write_def SCCB_Read16_def SCCB_Write16_def transaction_def Let_def by (intro code_intros; simp)+

lemma code_registers [code_intros]:
  "sensor_code (write_byte env reg v)" "sensor_code (read_reg_byte env reg)" "sensor_code (set_bank env bank)"
  "sensor_code (write16 env reg16 v)" "sensor_code (read16 env reg16)" "sensor_code (delay_ms env ms)"
  unfolding write_byte_def read_reg_byte_def set_bank_def write16_def read16_def delay_ms_def by (intro code_intros; simp)+

lemma code_or_return [code_intros]: "sensor_code m \<Longrightarrow> sensor_code k \<Longrightarrow> sensor_code (or_return m k)"
  unfolding or_return_def by (intro code_intros)

lemma code_fields [code_intros]:
  assumes "\<And>r. sensor_code (rd r)"
  shows "(\<And>r v. sensor_code (wr r v)) \<Longrightarrow> sensor_code (set_masked rd wr reg off msk b)"
    "(\<And>r v. sensor_code (wr r v)) \<Longrightarrow> sensor_code (set_field rd wr reg off len b)"
    "sensor_code (get_field rd reg off len)" "sensor_code (check_reg_mask rd reg msk)"
  unfolding set_masked_def set_field_def get_field_def check_reg_mask_def by (intro code_intros assms; assumption?)+

lemma code_status [code_intros]:
  "sensor_code m \<Longrightarrow> sensor_code (then_store m f)" "sensor_code m \<Longrightarrow> sensor_code (store_switch m upd sel v)"
  "sensor_code b \<Longrightarrow> sensor_code (load b g)" "sensor_code m \<Longrightarrow> sensor_code (load_int m h)"
  "sensor_code m \<Longrightarrow> sensor_code (then_pixformat m pf)"
  unfolding then_store_def store_switch_def load_def load_int_def then_pixformat_def by (intro code_intros; assumption)+

lemma code_ov2640_registers [code_intros]:
  "sensor_code (write_reg env bank reg v)" "sensor_code (set_reg_bits env bank reg off msk v)"
  "sensor_code (read_reg env bank reg)" "sensor_code (get_reg_bits env bank reg off msk)"
  "sensor_code (write_reg_bits env bank reg msk on)"
  unfolding write_reg_def set_reg_bits_def read_reg_def get_reg_bits_def write_reg_bits_def Let_def by (intro code_intros)+

lemma code_tables [code_intros]:
  "(\<And>r v. sensor_code (wr r v)) \<Longrightarrow> sensor_code (write_table env wr tail dly regs)"
  "sensor_code (write_while_nonzero env rvs)" "sensor_code (gc0308_write_regs env rvs)"
  "sensor_code (ov7670_write_array env rvs)" "sensor_code (write_regs env rvs)" "sensor_code (write_pairs env bank rvs)"
proof -
  show "sensor_code (write_table env wr tail dly regs)" if "\<And>r v. sensor_code (wr r v)"
    using that by (induction env wr tail dly regs rule: write_table.induct) (auto intro!: code_intros)
  show "sensor_code (write_while_nonzero env rvs)"
    by (induction env rvs rule: write_while_nonzero.induct) (auto intro!: code_intros)
  show "sensor_code (gc0308_write_regs env rvs)"
    by (induction env rvs rule: gc0308_write_regs.induct) (auto intro!: code_intros)
  show "sensor_code (ov7670_write_array env rvs)"
    by (induction env rvs rule: ov7670_write_array.induct) (auto intro!: code_intros)
  show "sensor_code (write_regs env rvs)"
    by (induction env rvs rule: write_regs.induct) (auto intro!: code_intros)
  show "sensor_code (write_pairs env bank rvs)"
    by (induction env bank rvs rule: write_pairs.induct) (auto intro!: code_intros)
qed

text \<open>Lists of steps.\<close>

definition all_code :: "('z cam_vars_scheme, 'a) state list \<Rightarrow> bool" where
  "all_code ms \<longleftrightarrow> (\<forall>m \<in> set ms. sensor_code m)"

lemma all_code_lists [code_intros]:
  "all_code []" "sensor_code m \<Longrightarrow> all_code ms \<Longrightarrow> all_code (m # ms)" "all_code ms \<Longrightarrow> all_code ns \<Longrightarrow> all_code (ms @ ns)"
  "(\<And>x. sensor_code (f x)) \<Longrightarrow> all_code (map f xs)"
  "(b \<Longrightarrow> all_code ms) \<Longrightarrow> (\<not> b \<Longrightarrow> all_code ns) \<Longrightarrow> all_code (if b then ms else ns)"
  "all_code ms \<Longrightarrow> (\<And>x. all_code (g x)) \<Longrightarrow> all_code (case y of None \<Rightarrow> ms | Some x \<Rightarrow> g x)"
  by (auto simp: all_code_def split: option.splits)

lemma code_sequences [code_intros]:
  "all_code ms \<Longrightarrow> sensor_code (until_error ms)" "all_code ms \<Longrightarrow> sensor_code (any_of ms)"
  "all_code ms \<Longrightarrow> sensor_code (all_or ms)" "all_code ms \<Longrightarrow> sensor_code (all_sum ms)"
  "all_code ms \<Longrightarrow> sensor_code (do_all ms)"
  by (induction ms) (auto simp: all_code_def intro!: code_intros)

section \<open>The drivers\<close>

lemmas shared_code_defs =
    gc_set_reg_bits_def gc_check_reg_mask_def gc_write_regs_def write_all_def then_pixformat_def set_bits8_def get_bits8_def
    write_ored_def ov_write_regs_def ov_set_reg_bits_def ov_write_reg_bits_def ov_check_reg_mask_def ov_read_reg16_def
    minus_one_if_def ov_write_reg16_def ov_write_addr_reg_def ov_set_format_def load_int_def change_reg_def

lemmas gc0308_defs =
    gc0308_reset_def gc0308_set_pixformat_def gc0308_set_framesize_def gc0308_set_contrast_def gc0308_set_global_gain_def
    gc0308_set_hmirror_def gc0308_set_vflip_def gc0308_set_colorbar_def gc0308_init_status_def

lemmas gc032a_defs =
    gc032a_reset_def gc032a_set_pixformat_def gc032a_set_framesize_def gc032a_set_hmirror_def gc032a_set_vflip_def
    gc032a_set_colorbar_def gc032a_init_status_def

lemmas gc2145_defs =
    gc2145_reset_def gc2145_set_pixformat_def gc2145_set_framesize_def gc2145_set_hmirror_def gc2145_set_vflip_def
    gc2145_set_colorbar_def gc2145_init_status_def

lemmas bf20a6_defs =
    bf20a6_write_regs_def bf20a6_reset_def bf20a6_set_pixformat_def bf20a6_set_framesize_def bf20a6_set_hmirror_def
    bf20a6_set_vflip_def bf20a6_set_colorbar_def bf20a6_set_sharpness_def bf20a6_init_status_def

lemmas bf3005_defs =
    bf3005_reset_def bf3005_set_pixformat_def bf3005_set_framesize_def bf3005_set_colorbar_def bf3005_set_whitebal_def
    bf3005_set_gain_ctrl_def bf3005_set_exposure_ctrl_def bf3005_set_hmirror_def bf3005_set_vflip_def
    bf3005_set_raw_gma_dsp_def bf3005_set_lenc_dsp_def bf3005_set_agc_gain_def bf3005_set_awb_gain_dsp_def
    bf3005_set_brightness_def bf3005_set_contrast_def bf3005_set_sharpness_def bf3005_init_status_def

lemmas sc030iot_defs =
    sc030_get_reg_def sc030_set_reg_def sc030_set_regs_def sc030_set_reg_bits_def sc030_set_hmirror_def sc030_set_vflip_def
    sc030_set_colorbar_def sc030_set_sharpness_def sc030_set_agc_gain_def sc030_set_aec_value_def sc030_set_awb_gain_def
    sc030_set_saturation_def sc030_set_contrast_def sc030_reset_def sc030_set_window_def sc030_set_framesize_def
    sc030_set_pixformat_def

lemmas mega_ccm_defs =
    mega_reset_def mega_set_pixformat_def mega_set_framesize_def mega_set_hmirror_def mega_set_vflip_def mega_set_quality_def
    mega_set_brightness_def mega_set_contrast_def mega_set_saturation_def mega_set_agc_mode_def mega_set_wb_mode_def
    mega_set_special_effect_def mega_analog_gain_def mega_exposure_line_def mega_init_status_def

lemmas ov7670_defs =
    ov7670_frame_control_def ov7670_reset_def ov7670_set_pixformat_def ov7670_set_framesize_def ov7670_set_colorbar_def
    ov7670_set_whitebal_def ov7670_set_gain_ctrl_def ov7670_set_exposure_ctrl_def ov7670_set_hmirror_def ov7670_set_vflip_def
    ov7670_init_status_def

lemmas ov7725_defs =
    ov7725_reset_def ov7725_set_pixformat_def ov7725_set_framesize_def ov7725_set_colorbar_def ov7725_set_whitebal_def
    ov7725_set_gain_ctrl_def ov7725_set_exposure_ctrl_def ov7725_set_hmirror_def ov7725_set_vflip_def ov7725_set_dcw_dsp_def
    ov7725_set_aec2_def ov7725_set_bpc_dsp_def ov7725_set_wpc_dsp_def ov7725_set_raw_gma_dsp_def ov7725_set_lenc_dsp_def
    ov7725_set_agc_gain_def ov7725_set_aec_value_def ov7725_set_awb_gain_dsp_def ov7725_set_brightness_def
    ov7725_set_contrast_def ov7725_init_status_def

lemmas ov_wide_defs =
    ov_write_timing_def ov_write_increments_def ov_write_window_def ov_set_hmirror_def ov_set_vflip_def ov_set_quality_def
    ov_set_colorbar_def ov_set_gain_ctrl_def ov_set_exposure_ctrl_def ov_set_whitebal_def ov_set_dcw_dsp_def ov_set_aec2_def
    ov_set_bpc_dsp_def ov_set_wpc_dsp_def ov_set_raw_gma_dsp_def ov_set_lenc_dsp_def ov_get_agc_gain_def ov_set_agc_gain_def
    ov_get_aec_value_def ov_set_aec_value_def ov_set_ae_level_def ov_set_wb_mode_def ov_set_awb_gain_dsp_def
    ov_set_special_effect_def ov_set_brightness_def ov_set_contrast_def ov_set_saturation_def ov_set_sharpness_def
    ov_set_gainceiling_def ov_get_denoise_def ov_set_denoise_def ov_init_status_def

lemmas ov3660_defs =
    ov3660_set_pixformat_def ov3660_set_image_options_def ov3660_set_pll_def ov3660_sizes_def ov3660_clock_def
    ov3660_set_framesize_def ov3660_reset_def

lemmas ov5640_defs =
    ov5640_set_pixformat_def ov5640_set_image_options_def ov5640_set_pll_def ov5640_sizes_def ov5640_clock_def
    ov5640_set_framesize_def ov5640_reset_def

lemmas nt99141_defs =
    nt99141_set_pixformat_def nt99141_set_image_options_def nt99141_set_framesize_def nt99141_set_quality_def
    nt99141_set_colorbar_def nt99141_set_gain_ctrl_def nt99141_set_exposure_ctrl_def nt99141_store_def
    nt99141_set_whitebal_def nt99141_set_dcw_dsp_def nt99141_set_aec2_def nt99141_set_bpc_dsp_def nt99141_set_wpc_dsp_def
    nt99141_set_raw_gma_dsp_def nt99141_set_lenc_dsp_def nt99141_set_agc_gain_def nt99141_set_aec_value_def
    nt99141_set_ae_level_def nt99141_set_wb_mode_def nt99141_set_special_effect_def nt99141_set_brightness_def
    nt99141_set_contrast_def nt99141_set_saturation_def nt99141_get_denoise_def nt99141_init_status_def nt99141_reset_def

lemma code_shared [code_intros]:
  "sensor_code (gc_set_reg_bits env r off msk b)" "sensor_code (gc_check_reg_mask env r msk)" "sensor_code (gc_write_regs env regs)"
  "sensor_code (set_bits8 env r off len b)" "sensor_code (get_bits8 env r off len)" "sensor_code (write_ored env rvs)"
  "sensor_code (write_all env rvs)" "sensor_code (ov_write_regs env regs)" "sensor_code (ov_set_reg_bits env r16 off msk b)"
  "sensor_code (ov_write_reg_bits env r16 msk on)" "sensor_code (ov_check_reg_mask env r16 msk)" "sensor_code (ov_read_reg16 env r16)"
  "sensor_code m \<Longrightarrow> sensor_code (minus_one_if m)" "sensor_code (ov_write_reg16 env r16 v16)" "sensor_code (ov_write_addr_reg env r16 x y)"
  "sensor_code (ov_set_format env table pf)" "sensor_code (change_reg env r f)"
  unfolding shared_code_defs by (intro code_intros; assumption)+

lemmas ov2640_defs =
    set_pixformat_def set_window_def set_framesize_def ov2640_reset_def init_status_def load_aec_value_def load_bits_def
    set_contrast_def set_brightness_def set_saturation_def set_quality_def set_colorbar_def set_gainceiling_sensor_def
    set_agc_sensor_def set_aec_sensor_def set_hmirror_sensor_def set_vflip_sensor_def set_awb_dsp_def set_aec2_def
    set_aec_value_def set_special_effect_def set_wb_mode_def set_ae_level_def set_dcw_dsp_def set_bpc_dsp_def
    set_wpc_dsp_def set_awb_gain_dsp_def set_agc_gain_def set_raw_gma_dsp_def set_lenc_dsp_def set_sharpness_def set_denoise_def

text \<open>The functions each driver assigns.\<close>

lemma code_ov2640: "sensor_code (ov2640_ops env sop)"
  by (cases sop; simp only: ov2640_ops.simps; (unfold ov2640_defs)?; intro code_intros)

lemma code_gc0308: "pred_option sensor_code (gc0308_ops env sop)"
  by (cases sop; simp only: gc0308_ops.simps option.pred_inject; (unfold gc0308_defs)?; intro code_intros)

lemma code_gc032a: "pred_option sensor_code (gc032a_ops env sop)"
  by (cases sop; simp only: gc032a_ops.simps option.pred_inject; (unfold gc032a_defs)?; intro code_intros)

lemma code_gc2145: "pred_option sensor_code (gc2145_ops env sop)"
  by (cases sop; simp only: gc2145_ops.simps option.pred_inject; (unfold gc2145_defs)?; intro code_intros)

lemma code_bf20a6: "pred_option sensor_code (bf20a6_ops env sop)"
  by (cases sop; simp only: bf20a6_ops.simps option.pred_inject; (unfold bf20a6_defs)?; intro code_intros)

lemma code_bf3005: "pred_option sensor_code (bf3005_ops env sop)"
proof -
  have format: "sensor_code (bf3005_set_pixformat env pf)" for pf
    unfolding bf3005_set_pixformat_def by (auto intro!: code_intros)
  show ?thesis
    by (cases sop; simp only: bf3005_ops.simps option.pred_inject; (rule format)?; (unfold bf3005_defs)?; intro code_intros)
qed

lemma code_sc030iot: "pred_option sensor_code (sc030iot_ops env sop)"
  by (cases sop; simp only: sc030iot_ops.simps option.pred_inject; (unfold sc030iot_defs)?; intro code_intros)

lemma code_mega_ccm: "pred_option sensor_code (mega_ccm_ops env sop)"
  by (cases sop; simp only: mega_ccm_ops.simps option.pred_inject; (unfold mega_ccm_defs)?; intro code_intros)

lemma code_ov7670: "pred_option sensor_code (ov7670_ops env sop)"
  by (cases sop; simp only: ov7670_ops.simps option.pred_inject; (unfold ov7670_defs)?; intro code_intros)

lemma code_ov7725: "pred_option sensor_code (ov7725_ops env sop)"
  by (cases sop; simp only: ov7725_ops.simps option.pred_inject; (unfold ov7725_defs)?; intro code_intros)

lemma code_ov_wide: "sensor_code (ov_wide_ops env sop)"
  by (cases sop; simp only: ov_wide_ops.simps; (unfold ov_wide_defs)?; intro code_intros)

lemma code_ov3660: "pred_option sensor_code (ov3660_ops env sop)"
  by (cases sop; simp only: ov3660_ops.simps option.pred_inject; (rule code_ov_wide)?; (unfold ov3660_defs ov_wide_defs)?; intro code_intros)

lemma code_ov5640: "pred_option sensor_code (ov5640_ops env sop)"
  by (cases sop; simp only: ov5640_ops.simps option.pred_inject; (rule code_ov_wide)?; (unfold ov5640_defs ov_wide_defs)?; intro code_intros)

lemma code_nt99141: "pred_option sensor_code (nt99141_ops env sop)"
  by (cases sop; simp only: nt99141_ops.simps option.pred_inject; (unfold nt99141_defs ov_wide_defs)?; intro code_intros)

lemma driver_code: "driver_ops m env sop = Some f \<Longrightarrow> sensor_code f"
  using code_ov2640 code_ov7725 code_ov7670 code_ov3660 code_ov5640 code_nt99141 code_gc2145 code_gc032a code_gc0308
    code_bf3005 code_bf20a6 code_sc030iot code_mega_ccm
  by (cases m) (fastforce simp: option.pred_set)+

end
