(* ===== verification/CameraLife.thy ===== *)
theory CameraLife
  imports EspCamera CamSetup SensorFrame
begin

text \<open>
  The life cycle of the camera driver (\<open>esp_camera.c\<close>): which objects exist after \<open>esp_camera_init\<close> and
  \<open>esp_camera_deinit\<close>, and what detection establishes.
\<close>

section \<open>Which objects exist\<close>

text \<open>Whether the driver object and the sensor object are allocated.\<close>

definition alive :: "'z cam_vars_scheme \<Rightarrow> bool \<times> bool" where
  "alive s = (cam_obj s \<noteq> None, s_state s \<noteq> None)"

lemma beyond_trace_alive [preserves_intros]: "beyond_trace (alive :: 'z cam_vars_scheme \<Rightarrow> _)"
  by (simp add: beyond_trace_def alive_def)

lemma preserves_updates [preserves_intros]:
  "preserves alive (upd_cam f)" "preserves alive (upd_sensor g)" "preserves alive (upd_status h)"
  unfolding upd_status_def upd_cam_def upd_sensor_def by (rule preserves_modify; simp add: alive_def)+

lemma preserves_or_return [preserves_intros]:
  "preserves f m \<Longrightarrow> preserves f k \<Longrightarrow> preserves f (or_return m k)"
  unfolding or_return_def by (intro preserves_intros)

lemma preserves_transaction [preserves_intros]: "preserves alive (transaction env ops)"
  unfolding transaction_def by (intro preserves_intros)

lemma preserves_sccb [preserves_intros]:
  "preserves alive (SCCB_Read env slv reg)" "preserves alive (SCCB_Write env slv reg v)"
  "preserves alive (SCCB_Read16 env slv reg16)" "preserves alive (SCCB_Write16 env slv reg16 v)"
  "preserves alive (SCCB_Init env a b)" "preserves alive (SCCB_Deinit env)" "preserves alive (SCCB_Use_Port env n)"
  unfolding SCCB_Read_def SCCB_Write_def SCCB_Read16_def SCCB_Write16_def SCCB_Init_def SCCB_Deinit_def SCCB_Use_Port_def Let_def
  by (intro preserves_intros; simp add: alive_def)+

lemma preserves_probe [preserves_intros]: "preserves alive (SCCB_Probe env)"
proof -
  have "preserves alive (probe_from env a rows :: ('a cam_vars_scheme, byte) state)" for a rows
    by (induction rows arbitrary: a) (auto intro!: preserves_intros)
  then show ?thesis by (simp add: SCCB_Probe_def)
qed

section \<open>The sensor drivers\<close>

lemma code_preserves: "sensor_code m \<Longrightarrow> (\<And>s. f s = g (outside s)) \<Longrightarrow> preserves f m"
  by (simp add: sensor_code_def preserves_def)

lemma code_alive: "sensor_code m \<Longrightarrow> preserves alive m"
  by (rule code_preserves [where g = "\<lambda>(c, x, z). (c \<noteq> None, x \<noteq> None)"]) (auto simp: outside_def alive_def)

text \<open>A call through a function pointer runs a function of some driver, or none.\<close>

lemma sensor_call_cases:
  obtains (null) "run_state (sensor_call env sop) s = run_state (null_call env) s"
      "sensor_pointer env sop s = None"
  | (driver) m f where "run_state (sensor_call env sop) s = run_state f s" "drv (sensor s) = Some m" "driver_ops m env sop = Some f"
proof (cases "sensor_pointer env sop s")
  case None
  show ?thesis by (rule null) (use None in \<open>simp_all add: sensor_call_def run_basic\<close>)
next
  case (Some f)
  then obtain m where "drv (sensor s) = Some m" "driver_ops m env sop = Some f" by (auto simp: sensor_pointer_def bind_eq_Some_conv)
  then show ?thesis by (intro driver) (use Some in \<open>simp_all add: sensor_call_def run_basic\<close>)
qed

lemma preserves_null_call [preserves_intros]: "beyond_trace f \<Longrightarrow> preserves f (null_call env)"
  unfolding null_call_def by (intro preserves_intros)

lemma preserves_sensor_call:
  assumes "\<And>m f. driver_ops m env sop = Some f \<Longrightarrow> preserves g f" "beyond_trace g"
  shows "preserves g (sensor_call env sop)" "preserves g (sensor_do env sop)"
proof -
  have "g (snd (run_state (sensor_call env sop) s)) = g s" for s
    by (rule sensor_call_cases [of env sop s])
      (use assms preserves_null_call [OF assms(2)] in \<open>auto simp: preserves_def\<close>)
  then show call: "preserves g (sensor_call env sop)" by (simp add: preserves_def)
  show "preserves g (sensor_do env sop)" unfolding sensor_do_def by (intro preserves_intros call)
qed

lemma sensor_call_alive [preserves_intros]: "preserves alive (sensor_call env sop)" "preserves alive (sensor_do env sop)"
  by (rule preserves_sensor_call; (intro preserves_intros)?; blast intro: code_alive driver_code)+

lemma preserves_detect [preserves_intros]: "preserves alive (sensor_detect m env slv)"
  by (cases m; simp only: sensor_detect.simps;
      (unfold ov7725_detect_def ov7670_detect_def ov2640_detect_def ov3660_detect_def ov5640_detect_def nt99141_detect_def
        gc2145_detect_def gc032a_detect_def gc0308_detect_def bf3005_detect_def bf20a6_detect_def sc030iot_detect_def
        mega_ccm_detect_def identify_def detect_low_high_def detect_wide_def accept_pid_def Let_def)?; intro preserves_intros)

section \<open>The frame engine\<close>

lemma preserves_cam_parts [preserves_intros]:
  "preserves alive (upd_frame i f)" "preserves alive (upd_fb i g)" "preserves alive (set_en i b)"
  "preserves alive (allocate_dma_descriptors env n sz buf)" "preserves alive (ll_cam_init_isr env)"
  "preserves alive (cam_task_prologue env)" "preserves alive (alloc_dma_buffer env)" "preserves alive (ll_cam_get_dma_align env)"
  unfolding upd_fb_def upd_frame_def set_en_def allocate_dma_descriptors_def ll_cam_init_isr_def cam_task_prologue_def
    set_cam_state_def alloc_dma_buffer_def ll_cam_get_dma_align_def
  by (intro preserves_intros; simp add: alive_def)+

lemma preserves_alloc_frames [preserves_intros]: "preserves alive (alloc_frames env sz caps al xs)"
  by (induction xs) (auto intro!: preserves_intros simp: align_psram_frame_def Let_def)

lemma preserves_cam_config_parts [preserves_intros]:
  "preserves alive (cam_dma_config env config)" "preserves alive (cam_queues env config)"
  unfolding cam_dma_config_def cam_queues_def Let_def by (intro preserves_intros)+

text \<open>\<open>cam_deinit\<close> leaves no driver object behind, and the functions of the frame engine leave the sensor object alone.\<close>

lemma sensor_kept_parts [preserves_intros]:
  "preserves s_state (upd_cam f)" "preserves s_state (free_frames env frs)" "preserves s_state (perform_all env cs)"
  "preserves s_state (upd_frame i p)" "preserves s_state (upd_fb i q)" "preserves s_state (set_en i b)"
proof -
  show "preserves s_state (upd_cam f)" "preserves s_state (upd_frame i p)" "preserves s_state (upd_fb i q)" "preserves s_state (set_en i b)"
    unfolding upd_fb_def upd_frame_def set_en_def upd_cam_def by (rule preserves_modify; simp)+
  show "preserves s_state (perform_all env cs)" by (intro preserves_intros)
  show "preserves s_state (free_frames env frs)" by (induction frs) (auto intro!: preserves_intros)
qed

lemma sensor_kept_low_level [preserves_intros]:
  "preserves s_state (ll_cam_deinit env)" "preserves s_state (cam_stop env)" "preserves s_state (cam_start env)"
  "preserves s_state (ll_cam_init_isr env)" "preserves s_state (ll_cam_get_dma_align env)"
  unfolding ll_cam_deinit_def cam_stop_def cam_start_def ll_cam_stop_def ll_cam_vsync_intr_enable_def lcd_cam_def gdma_def
    ll_cam_init_isr_def ll_cam_get_dma_align_def
  by (intro preserves_intros)+

lemma sensor_kept_cam_deinit [preserves_intros]: "preserves s_state (cam_deinit env)"
  unfolding cam_deinit_def by (intro preserves_intros; simp)

lemma sensor_kept_alloc [preserves_intros]: "preserves s_state (alloc_frames env sz caps al xs)"
  by (induction xs) (auto intro!: preserves_intros simp: align_psram_frame_def allocate_dma_descriptors_def Let_def)

lemma sensor_kept_cam_config [preserves_intros]: "preserves s_state (cam_config env cfg fs pid)"
  unfolding cam_config_def cam_dma_config_def cam_queues_def alloc_dma_buffer_def allocate_dma_descriptors_def
    cam_task_prologue_def set_cam_state_def Let_def
  by (intro preserves_intros; simp)

lemma cam_deinit_alive:
  assumes "run_state (cam_deinit env) s = (e, s')"
  shows "cam_obj s' = None \<and> (s_state s' = None \<longleftrightarrow> s_state s = None)"
proof
  show "s_state s' = None \<longleftrightarrow> s_state s = None" using preservesD [OF sensor_kept_cam_deinit assms] by simp
  show "cam_obj s' = None"
  proof (cases "cam_obj s = None")
    case True
    then show ?thesis using assms by (simp add: cam_deinit_def run_basic)
  next
    case False
    note run = assms [unfolded cam_deinit_def State_Monad.run_state_bind [of get_state] State_Monad.run_state_get prod.case
        if_not_P [OF False]]
    show ?thesis using run by (elim run_bindE) auto
  qed
qed

text \<open>The driver object exists after \<open>cam_init\<close> and \<open>cam_config\<close> exactly when they succeed.\<close>

lemma preserves_cam_init_parts [preserves_intros]:
  "preserves alive (ll_cam_set_pin env config)" "preserves s_state (ll_cam_set_pin env config)"
  "preserves s_state (ll_cam_config env config)"
proof -
  have data: "beyond_trace f \<Longrightarrow> preserves f (route_data env i pins)" for f i pins
    by (induction pins arbitrary: i) (auto intro!: preserves_intros simp: route_input_def)
  show "preserves alive (ll_cam_set_pin env config)" "preserves s_state (ll_cam_set_pin env config)"
    unfolding ll_cam_set_pin_def route_input_def by (intro preserves_intros data)+
  show "preserves s_state (ll_cam_config env config)"
    unfolding ll_cam_config_def ll_cam_dma_init_def ll_cam_dma_reset_def by (intro preserves_intros)
qed

text \<open>Triples: from a state with \<open>P\<close>, the code ends with a result and state in \<open>Q\<close>.\<close>

definition holds :: "('s \<Rightarrow> bool) \<Rightarrow> ('s, 'a) state \<Rightarrow> ('a \<Rightarrow> 's \<Rightarrow> bool) \<Rightarrow> bool" where
  "holds P m Q \<longleftrightarrow> (\<forall>s x s'. P s \<longrightarrow> run_state m s = (x, s') \<longrightarrow> Q x s')"

lemma holdsD: "holds P m Q \<Longrightarrow> run_state m s = (x, s') \<Longrightarrow> P s \<Longrightarrow> Q x s'"
  by (simp add: holds_def)

lemma holds_return: "(\<And>s. P s \<Longrightarrow> Q x s) \<Longrightarrow> holds P (return x) Q"
  by (simp add: holds_def run_basic)

lemma holds_bind: "holds P m R \<Longrightarrow> (\<And>x. holds (R x) (f x) Q) \<Longrightarrow> holds P (State_Monad.bind m f) Q"
  unfolding holds_def by (blast elim: run_bindE)

lemma holds_if: "(b \<Longrightarrow> holds P m Q) \<Longrightarrow> (\<not> b \<Longrightarrow> holds P n Q) \<Longrightarrow> holds P (if b then m else n) Q"
  by simp

lemma holds_preserved: "preserves f m \<Longrightarrow> holds (\<lambda>s. I (f s)) m (\<lambda>x s. I (f s))"
  unfolding holds_def by (metis preservesD)

lemma holds_weaken: "holds P m Q \<Longrightarrow> (\<And>x s. Q x s \<Longrightarrow> Q' x s) \<Longrightarrow> holds P m Q'"
  by (simp add: holds_def)

lemma holds_any: "holds P m (\<lambda>_ _. True)"
  by (simp add: holds_def)

text \<open>The driver object exists all the way; the step that follows a run of preserving code.\<close>

lemma keeps_object: "preserves alive m \<Longrightarrow> holds (\<lambda>s. cam_obj s \<noteq> None) m (\<lambda>x s. cam_obj s \<noteq> None)"
  using holds_preserved [of alive m fst] by (simp add: alive_def)

lemma object_then:
  "preserves alive m \<Longrightarrow> (\<And>x. holds (\<lambda>s. cam_obj s \<noteq> None) (f x) Q) \<Longrightarrow>
     holds (\<lambda>s. cam_obj s \<noteq> None) (State_Monad.bind m f) Q"
  by (rule holds_bind [OF keeps_object])

lemma holds_failed_deinit:
  "e \<noteq> ESP_OK \<Longrightarrow> holds P (do { _ \<leftarrow> cam_deinit env; return e }) (\<lambda>e s. cam_obj s \<noteq> None \<longleftrightarrow> e = ESP_OK)"
  unfolding holds_def by (intro allI impI, elim run_bindE) (auto simp: run_basic dest: cam_deinit_alive)

lemma ll_cam_config_object:
  "holds (\<lambda>s. cam_obj s \<noteq> None) (ll_cam_config env config) (\<lambda>e s. cam_obj s \<noteq> None \<longleftrightarrow> e = ESP_OK)"
proof -
  have reset: "preserves alive (ll_cam_dma_reset env :: ('a cam_vars_scheme, unit) state)"
    unfolding ll_cam_dma_reset_def by (intro preserves_intros)
  show ?thesis
    unfolding ll_cam_config_def ll_cam_dma_init_def
    by (intro object_then holds_if holds_failed_deinit holds_return preserves_intros reset) simp_all
qed

lemma cam_init_alive:
  assumes "run_state (cam_init env (Some config)) s = (e, s')"
  shows "(cam_obj s' \<noteq> None \<longleftrightarrow> e = ESP_OK) \<and> (s_state s' = None \<longleftrightarrow> s_state s = None)"
proof
  have "preserves s_state (cam_init env (Some config) :: ('a cam_vars_scheme, esp_err) state)"
    unfolding cam_init_def option.case by (intro preserves_intros; simp)
  from preservesD [OF this assms] show "s_state s' = None \<longleftrightarrow> s_state s = None" by simp
  let ?exists = "\<lambda>_ s. cam_obj s \<noteq> None"
  have failed: "holds P (do { s \<leftarrow> get_state; perform env (Os (Free (a s))); modify (\<lambda>s. s\<lparr>cam_obj := None\<rparr>); return ESP_FAIL })
      (\<lambda>e s. cam_obj s \<noteq> None \<longleftrightarrow> e = ESP_OK)" for P and a :: "'a cam_vars_scheme \<Rightarrow> int"
    by (simp add: holds_def run_basic run_perform)
  have no_memory: "holds P (do { modify (\<lambda>s. s\<lparr>cam_obj := None\<rparr>); return ESP_ERR_NO_MEM })
      (\<lambda>e s. cam_obj s \<noteq> None \<longleftrightarrow> e = ESP_OK)" for P :: "'a cam_vars_scheme \<Rightarrow> bool"
    by (simp add: holds_def run_basic)
  have created: "holds P (modify (\<lambda>s. s\<lparr>cam_obj := Some c\<rparr>)) ?exists" for P :: "'a cam_vars_scheme \<Rightarrow> bool" and c
    by (simp add: holds_def run_basic)
  have "holds (\<lambda>s. True) (cam_init env (Some config) :: ('a cam_vars_scheme, esp_err) state)
      (\<lambda>e s. cam_obj s \<noteq> None \<longleftrightarrow> e = ESP_OK)"
    unfolding cam_init_def option.case
    by (rule holds_bind [OF holds_any], rule holds_if, rule no_memory, rule holds_bind [OF created], rule object_then,
        rule preserves_cam_init_parts, rule holds_bind [OF ll_cam_config_object], rule holds_if, rule holds_return, simp, rule failed)
  from holdsD [OF this assms] show "cam_obj s' \<noteq> None \<longleftrightarrow> e = ESP_OK" by simp
qed

lemma cam_config_alive:
  assumes "run_state (cam_config env (Some config) fs pid) s = (e, s')" "cam_obj s \<noteq> None"
  shows "(cam_obj s' \<noteq> None \<longleftrightarrow> e = ESP_OK) \<and> (s_state s' = None \<longleftrightarrow> s_state s = None)"
proof
  show "s_state s' = None \<longleftrightarrow> s_state s = None" using preservesD [OF sensor_kept_cam_config assms(1)] by simp
  have "holds (\<lambda>s. cam_obj s \<noteq> None) (cam_config env (Some config) fs pid :: ('a cam_vars_scheme, esp_err) state)
      (\<lambda>e s. cam_obj s \<noteq> None \<longleftrightarrow> e = ESP_OK)"
    unfolding cam_config_def option.case
    by (intro object_then holds_if holds_failed_deinit holds_return preserves_intros) simp_all
  from holdsD [OF this assms(1,2)] show "cam_obj s' \<noteq> None \<longleftrightarrow> e = ESP_OK" .
qed

section \<open>Initialisation\<close>

lemma read_signature_alive [preserves_intros]: "preserves alive (read_signature env a b c d)"
  unfolding read_signature_def by (intro preserves_intros code_alive code_registers)

lemma sensor_init_alive [preserves_intros]: "preserves alive (sensor_init m env)"
  unfolding sensor_init_def ov7670_init_def ov7725_init_def by (intro preserves_intros)

lemma detect_loop_alive [preserves_intros]: "preserves alive (detect_loop env slv ms)"
  by (induction ms) (auto intro!: preserves_intros)

lemma identify_sensor_alive:
  "preserves alive (identify_sensor env config)"
  unfolding identify_sensor_def pulse_def by (intro preserves_intros sensor_call_alive)

lemma cam_start_alive [preserves_intros]: "preserves alive (cam_start env)"
  unfolding cam_start_def ll_cam_vsync_intr_enable_def lcd_cam_def by (intro preserves_intros)

lemma setup_sensor_alive:
  "preserves alive (setup_sensor env config fs)"
  unfolding setup_sensor_def by (intro preserves_intros sensor_call_alive)

text \<open>Both objects exist.\<close>

abbreviation both :: "'z cam_vars_scheme \<Rightarrow> bool" where
  "both s \<equiv> cam_obj s \<noteq> None \<and> s_state s \<noteq> None"

lemma keeps_both: "preserves alive m \<Longrightarrow> holds both m (\<lambda>_. both)"
  using holds_preserved [of alive m "\<lambda>(a, b). a \<and> b"] by (simp add: alive_def)

lemma camera_probe_both:
  shows "holds (\<lambda>s. cam_obj s \<noteq> None) (camera_probe env config) (\<lambda>p s. fst p = ESP_OK \<longrightarrow> both s)"
proof -
  have failed: "e \<noteq> ESP_OK \<Longrightarrow> holds P (return (e, m)) (\<lambda>p s. fst p = ESP_OK \<longrightarrow> both s)"
    for e m and P :: "'a cam_vars_scheme \<Rightarrow> bool"
    by (simp add: holds_def run_basic)
  have created: "holds (\<lambda>s. cam_obj s \<noteq> None) (modify (\<lambda>s. s\<lparr>s_state := Some z, s_state_ptr := p\<rparr>)) (\<lambda>_. both :: 'a cam_vars_scheme \<Rightarrow> _)" for z p
    by (simp add: holds_def run_basic)
  have identified: "holds both (identify_sensor env config) (\<lambda>p s. fst p = ESP_OK \<longrightarrow> both s)"
    by (rule holds_weaken [OF keeps_both [OF identify_sensor_alive]]) simp
  show ?thesis
    unfolding camera_probe_def
    by (intro object_then holds_if holds_bind [OF created] holds_bind [OF keeps_both] identified failed preserves_intros) simp_all
qed

lemma configure_camera_both:
  shows "holds both (configure_camera env config m) (\<lambda>e s. e = ESP_OK \<longrightarrow> both s)"
proof -
  have failed: "e \<noteq> ESP_OK \<Longrightarrow> holds P (return e) (\<lambda>e s. e = ESP_OK \<longrightarrow> both s)"
    for e and P :: "'a cam_vars_scheme \<Rightarrow> bool"
    by (simp add: holds_def run_basic)
  have configured: "holds both (cam_config env (Some config) fs pid) (\<lambda>e s :: 'a cam_vars_scheme. e = ESP_OK \<longrightarrow> both s)" for fs pid
    unfolding holds_def by (metis cam_config_alive)
  have prepared: "holds both (setup_sensor env config fs) (\<lambda>e s. e = ESP_OK \<longrightarrow> both s)" for fs
    by (rule holds_weaken [OF keeps_both [OF setup_sensor_alive]]) simp
  have prepared': "holds (\<lambda>s. e = ESP_OK \<longrightarrow> both s) (setup_sensor env config fs) (\<lambda>e s. e = ESP_OK \<longrightarrow> both s)"
    if "\<not> e \<noteq> ESP_OK" for fs e
    using prepared that by simp
  show ?thesis
    unfolding configure_camera_def Let_def
    by (intro holds_if failed holds_bind [OF keeps_both] holds_bind [OF configured] prepared' preserves_intros) simp_all
qed

lemma esp_camera_deinit_alive:
  assumes "run_state (esp_camera_deinit env) s = (e, s')"
  shows "alive s' = (False, False)"
proof -
  have sensor: "holds (\<lambda>s. cam_obj s = None) (do_when (s_state t \<noteq> None) (do {
       _ \<leftarrow> SCCB_Deinit env; perform env (Os (Free (s_state_ptr t))); modify (\<lambda>s. s\<lparr>s_state := None, s_state_ptr := 0\<rparr>) }))
     (\<lambda>_ s. cam_obj s = None)" for t :: "'a cam_vars_scheme"
    by (rule holds_preserved [where f = cam_obj and I = "\<lambda>x. x = None"])
      (auto intro!: preserves_intros simp: SCCB_Deinit_def)
  obtain r t where deinit: "run_state (cam_deinit env) s = (r, t)" by (meson surj_pair)
  from cam_deinit_alive [OF this] have "cam_obj t = None" by simp
  obtain x u where u: "run_state (do_when (s_state t \<noteq> None) (do {
       _ \<leftarrow> SCCB_Deinit env; perform env (Os (Free (s_state_ptr t))); modify (\<lambda>s. s\<lparr>s_state := None, s_state_ptr := 0\<rparr>) })) t = (x, u)"
    by (meson surj_pair)
  then have "s' = u" using assms deinit by (simp add: esp_camera_deinit_def run_basic)
  moreover have "cam_obj u = None" by (rule holdsD [OF sensor u \<open>cam_obj t = None\<close>])
  moreover have "s_state u = None"
    using u by (cases "s_state t = None") (auto simp: run_basic split: prod.splits)
  ultimately show ?thesis by (simp add: alive_def)
qed

lemma esp_camera_init_alive:
  assumes "run_state (esp_camera_init env config) s = (e, s')" "s_state s = None"
  shows "(cam_obj s' \<noteq> None \<longleftrightarrow> e = ESP_OK) \<and> (s_state s' \<noteq> None \<longleftrightarrow> e = ESP_OK)"
proof -
  obtain r t where init: "run_state (cam_init env (Some config)) s = (r, t)" by (meson surj_pair)
  note started = cam_init_alive [OF this]
  show ?thesis
  proof (cases "r = ESP_OK")
    case False
    then have "e = r" "s' = t" using assms(1) init by (simp_all add: esp_camera_init_def run_basic)
    then show ?thesis using started False assms(2) by simp
  next
    case True
    obtain p u where probe: "run_state (camera_probe env config) t = (p, u)" by (meson surj_pair)
    have probed: "fst p = ESP_OK \<Longrightarrow> both u"
      using holdsD [OF camera_probe_both probe] started True by simp
    obtain c v where c: "run_state (if fst p \<noteq> ESP_OK then return (fst p) else configure_camera env config (snd p)) u = (c, v)"
      by (meson surj_pair)
    have ok: "c = ESP_OK \<Longrightarrow> both v"
    proof (cases "fst p = ESP_OK")
      case True
      then have configured: "run_state (configure_camera env config (snd p)) u = (c, v)" using c by simp
      show "c = ESP_OK \<Longrightarrow> both v" using holdsD [OF configure_camera_both configured probed [OF True]] by simp
    next
      case False
      then show "c = ESP_OK \<Longrightarrow> both v" using c by (simp add: run_basic)
    qed
    show ?thesis
    proof (cases "c = ESP_OK")
      case True
      then have "e = ESP_OK" "s' = v" using assms(1) init \<open>r = ESP_OK\<close> probe c by (simp_all add: esp_camera_init_def run_basic)
      then show ?thesis using ok True by simp
    next
      case False
      obtain d w where d: "run_state (esp_camera_deinit env) v = (d, w)" by (meson surj_pair)
      then have "e = c" "s' = w" using assms(1) init \<open>r = ESP_OK\<close> probe c False by (simp_all add: esp_camera_init_def run_basic)
      then show ?thesis using esp_camera_deinit_alive [OF d] False by (simp add: alive_def)
    qed
  qed
qed

text \<open>C8 (error) Initialising the camera while none is initialised (\<open>esp_camera_init\<close>): it reports success exactly when it
  leaves both the driver object and the sensor object allocated; every failure, of an allocation, the bus, the
  detection, the DMA, a queue, the interrupt or the sensor set-up, ends with both objects released.\<close>

theorem camera_init_outcome:
  assumes "run_state (esp_camera_init env config) s = (e, s')" "s_state s = None"
  shows "(cam_obj s' \<noteq> None \<longleftrightarrow> e = ESP_OK) \<and> (s_state s' \<noteq> None \<longleftrightarrow> e = ESP_OK)"
  by (rule esp_camera_init_alive [OF assms])

theorem camera_init_outcome_witness:
  "s_state boot = None \<and>
   (let (e, s') = run_state (esp_camera_init granting demo_config) boot
    in (cam_obj s' \<noteq> None \<longleftrightarrow> e = ESP_OK) \<and> (s_state s' \<noteq> None \<longleftrightarrow> e = ESP_OK))"
proof -
  have fresh: "s_state boot = None" by (simp add: boot_def)
  obtain e s' where run: "run_state (esp_camera_init granting demo_config) boot = (e, s')" by (meson surj_pair)
  show ?thesis using camera_init_outcome [OF run fresh] run fresh by simp
qed

text \<open>Initialising a camera that is already initialised: \<open>cam_init\<close> replaces the running driver object by a new
  one before \<open>camera_probe\<close> notices, so the call always fails and always leaves the system without a driver object:
  the working camera is gone.\<close>

theorem second_init_destroys:
  assumes "run_state (esp_camera_init env config) s = (e, s')" "s_state s \<noteq> None"
  shows "e \<noteq> ESP_OK \<and> cam_obj s' = None"
proof -
  obtain r t where init: "run_state (cam_init env (Some config)) s = (r, t)" by (meson surj_pair)
  note started = cam_init_alive [OF this]
  show ?thesis
  proof (cases "r = ESP_OK")
    case False
    then show ?thesis using assms(1) init started by (simp add: esp_camera_init_def run_basic)
  next
    case True
    obtain d w where d: "run_state (esp_camera_deinit env) t = (d, w)" by (meson surj_pair)
    have probe: "run_state (camera_probe env config) t = ((ESP_ERR_INVALID_STATE, CAMERA_NONE), t)"
      using started assms(2) by (simp add: camera_probe_def run_basic)
    have "e = ESP_ERR_INVALID_STATE" "s' = w" using assms(1) init True probe d by (simp_all add: esp_camera_init_def run_basic)
    then show ?thesis using esp_camera_deinit_alive [OF d] by (simp add: alive_def)
  qed
qed

theorem second_init_destroys_witness:
  "cam_obj (boot\<lparr>cam_obj := Some zero_cam, s_state := Some zero_sensor\<rparr>) \<noteq> None \<and>
   (let (e, s') = run_state (esp_camera_init granting demo_config) (boot\<lparr>cam_obj := Some zero_cam, s_state := Some zero_sensor\<rparr>)
    in e \<noteq> ESP_OK \<and> cam_obj s' = None)"
proof -
  obtain e s' where run: "run_state (esp_camera_init granting demo_config)
      (boot\<lparr>cam_obj := Some zero_cam, s_state := Some zero_sensor\<rparr>) = (e, s')" by (meson surj_pair)
  show ?thesis using second_init_destroys [OF run] run by simp
qed

section \<open>Detection\<close>

text \<open>\<open>finds pid m\<close>: when \<open>m\<close> answers non-zero, the sensor object has the product identifier \<open>pid\<close>.\<close>

abbreviation has_sensor :: "'z cam_vars_scheme \<Rightarrow> bool" where
  "has_sensor s \<equiv> s_state s \<noteq> None"

definition ident :: "'z cam_vars_scheme \<Rightarrow> u16 option" where
  "ident s = map_option (\<lambda>x. PID (sid x)) (s_state s)"

definition finds :: "u16 \<Rightarrow> ('z cam_vars_scheme, int) state \<Rightarrow> bool" where
  "finds pid m \<longleftrightarrow> holds has_sensor m (\<lambda>r s. has_sensor s \<and> (r \<noteq> 0 \<longrightarrow> ident s = Some pid))"

lemma finds_zero: "finds pid (return 0)"
  by (simp add: finds_def holds_def run_basic)

lemma finds_if: "(b \<Longrightarrow> finds pid m) \<Longrightarrow> (\<not> b \<Longrightarrow> finds pid n) \<Longrightarrow> finds pid (if b then m else n)"
  by simp

lemma has_sensor_preserved: "preserves alive m \<Longrightarrow> holds has_sensor m (\<lambda>_. has_sensor)"
  using holds_preserved [of alive m snd] by (simp add: alive_def)

lemma finds_then: "preserves alive m \<Longrightarrow> (\<And>x. finds pid (f x)) \<Longrightarrow> finds pid (State_Monad.bind m f)"
  unfolding finds_def by (rule holds_bind [OF has_sensor_preserved])

lemma finds_stored:
  assumes "preserves ident m"
  shows "finds pid (State_Monad.bind (upd_sensor (\<lambda>x. x\<lparr>sid := (sid x)\<lparr>PID := pid\<rparr>\<rparr>)) (\<lambda>_. m))"
proof -
  have stored: "holds has_sensor (upd_sensor (\<lambda>x. x\<lparr>sid := (sid x)\<lparr>PID := pid\<rparr>\<rparr>)) (\<lambda>_ s :: 'a cam_vars_scheme. ident s = Some pid)"
    by (auto simp: holds_def run_basic upd_sensor_def ident_def)
  have kept: "holds (\<lambda>s. ident s = Some pid) m (\<lambda>r s. has_sensor s \<and> (r \<noteq> 0 \<longrightarrow> ident s = Some pid))"
    using holds_preserved [OF assms, of "\<lambda>i. i = Some pid"] by (rule holds_weaken) (auto simp: ident_def)
  show ?thesis unfolding finds_def by (rule holds_bind [OF stored kept])
qed

lemma finds_accept: "finds pid (accept_pid pid)"
  unfolding accept_pid_def by (intro finds_stored preserves_intros)

lemma beyond_trace_ident [preserves_intros]: "beyond_trace (ident :: 'z cam_vars_scheme \<Rightarrow> _)"
  by (simp add: beyond_trace_def ident_def)

lemma ident_parts [preserves_intros]:
  "preserves ident (SCCB_Read env slv reg)" "preserves ident (upd_sensor (\<lambda>x. x\<lparr>sid := (sid x)\<lparr>VER := v\<rparr>\<rparr>))"
  "preserves ident (upd_sensor (\<lambda>x. x\<lparr>sid := (sid x)\<lparr>MIDL := v\<rparr>\<rparr>))"
  "preserves ident (upd_sensor (\<lambda>x. x\<lparr>sid := (sid x)\<lparr>MIDH := v\<rparr>\<rparr>))"
proof -
  show "preserves ident (SCCB_Read env slv reg)" unfolding SCCB_Read_def transaction_def by (intro preserves_intros)
qed (simp_all add: upd_sensor_def preserves_def ident_def option.map_comp comp_def)

lemma finds_identify: "finds pid (identify env slv pid a b c d)"
proof -
  have stored: "pid = ucast p \<Longrightarrow> preserves ident m \<Longrightarrow>
      finds pid (State_Monad.bind (upd_sensor (\<lambda>x. x\<lparr>sid := (sid x)\<lparr>PID := ucast p\<rparr>\<rparr>)) (\<lambda>_. m))" for p :: byte and m
    using finds_stored by blast
  show ?thesis
    unfolding identify_def by (rule finds_then, intro preserves_intros, rule finds_if, erule stored)
      (intro preserves_intros finds_zero)+
qed

lemma finds_families:
  "finds pid (detect_low_high addr pid a b env slv)" "finds pid (detect_wide addr pid c d env slv)"
proof -
  have accepted: "finds pid (if pid = p then accept_pid p else return 0)" for p
    by (simp add: finds_accept finds_zero)
  show "finds pid (detect_low_high addr pid a b env slv)" "finds pid (detect_wide addr pid c d env slv)"
    unfolding detect_low_high_def detect_wide_def Let_def
    by (intro finds_if finds_zero finds_then accepted preserves_intros)+
qed

lemma ov2640_detect_identify:
  "ov2640_detect env slv = (if OV2640_SCCB_ADDR = slv then do {
     _ \<leftarrow> SCCB_Write env slv 0xFF 0x01; identify env slv OV2640_PID 0x0A REG_VER REG_MIDL REG_MIDH } else return 0)"
  unfolding ov2640_detect_def identify_def ..

lemmas detect_defs = ov7725_detect_def ov7670_detect_def ov3660_detect_def ov5640_detect_def nt99141_detect_def
  gc2145_detect_def gc032a_detect_def gc0308_detect_def bf3005_detect_def bf20a6_detect_def sc030iot_detect_def
  mega_ccm_detect_def ov2640_detect_identify

lemma sensor_detect_finds: "finds (info_pid (sensor_info m)) (sensor_detect m env slv)"
proof -
  have gc0308: "finds 0x9B (if p = 0x9B then accept_pid (ucast p) else return 0)" for p :: byte
    by (simp add: finds_accept finds_zero)
  note rows = sensor_info_def camera_sensor_def sensor_row_def OV2640_PID_def
  show ?thesis
    by (cases m; simp only: sensor_detect.simps detect_defs; simp add: rows;
      intro conjI impI finds_zero finds_then finds_families finds_identify gc0308 preserves_intros)
qed

lemma sensor_detect_elsewhere: "slv \<noteq> info_sccb_addr (sensor_info m) \<Longrightarrow> sensor_detect m env slv = return 0"
  by (cases m; simp only: sensor_detect.simps detect_defs;
      simp add: detect_low_high_def detect_wide_def sensor_info_def camera_sensor_def sensor_row_def OV2640_SCCB_ADDR_def)

lemma sensor_info_model: "m \<in> set camera_models \<Longrightarrow> sensor_info m \<in> set camera_sensor \<and> info_model (sensor_info m) = m"
  by (cases m) (simp_all add: sensor_info_def camera_sensor_def sensor_row_def camera_models_def)

lemma get_info_of_model:
  assumes "m \<in> set g_sensors" "PID i = info_pid (sensor_info m)"
  shows "esp_camera_sensor_get_info i = Some (sensor_info m)"
proof -
  have "m \<in> set camera_models" using assms(1) by (auto simp: g_sensors_def camera_models_def)
  then show ?thesis
    unfolding esp_camera_sensor_get_info_def assms(2)
    using find_distinct_key [OF camera_sensor_pids_distinct] sensor_info_model by blast
qed

lemma drv_kept: "sensor_code m \<Longrightarrow> preserves (\<lambda>s. map_option drv (s_state s)) m"
  by (rule code_preserves [where g = "\<lambda>(c, x, z). map_option fst x"]) (auto simp: outside_def option.map_comp comp_def)

lemma read_signature_drv: "preserves (\<lambda>s. map_option drv (s_state s)) (read_signature env a b c d)"
  unfolding read_signature_def upd_sensor_def
  by (intro preserves_intros drv_kept code_intros; simp add: option.map_comp comp_def)

text \<open>An \<open>init\<close> function sets the driver; only two touch the identifiers.\<close>

lemma sensor_init_sets:
  assumes "run_state (sensor_init m env) s = (r, t)" "s_state s \<noteq> None"
  shows "s_state t \<noteq> None \<and> drv (sensor t) = Some m \<and>
    (m \<noteq> CAMERA_OV7670 \<and> m \<noteq> CAMERA_OV7725 \<longrightarrow> PID (sid (sensor t)) = PID (sid (sensor s)))"
proof -
  let ?u = "s\<lparr>s_state := map_option (\<lambda>x. x\<lparr>drv := Some m\<rparr>) (s_state s)\<rparr>"
  have u: "map_option drv (s_state ?u) = Some (Some m)" using assms(2) by auto
  show ?thesis
  proof (cases "m = CAMERA_OV7670 \<or> m = CAMERA_OV7725")
    case True
    then obtain a b c d x where "run_state (read_signature env a b c d) ?u = (x, t)"
      using assms(1) by (auto simp: sensor_init_def ov7670_init_def ov7725_init_def upd_sensor_def run_basic split: prod.splits)
    from preservesD [OF read_signature_drv this] have "map_option drv (s_state t) = Some (Some m)" using u by simp
    then show ?thesis using True by (auto simp: sensor_def)
  next
    case False
    then have "t = ?u" using assms(1) by (simp add: sensor_init_def upd_sensor_def run_basic)
    then show ?thesis using u assms(2) by (auto simp: sensor_def)
  qed
qed

lemma detect_loop_sets:
  assumes "run_state (detect_loop env slv ms) s = (m, s')" "set ms \<subseteq> set g_sensors" "s_state s \<noteq> None" "m \<noteq> CAMERA_NONE"
  shows "m \<in> set ms \<and> s_state s' \<noteq> None \<and> drv (sensor s') = Some m \<and> info_sccb_addr (sensor_info m) = slv \<and>
    (m \<noteq> CAMERA_OV7670 \<and> m \<noteq> CAMERA_OV7725 \<longrightarrow> PID (sid (sensor s')) = info_pid (sensor_info m))"
  using assms
proof (induction ms arbitrary: s)
  case Nil
  then show ?case by (simp add: run_basic)
next
  case (Cons d ms)
  obtain r t where detect: "run_state (sensor_detect d env slv) s = (r, t)" by (meson surj_pair)
  have found: "has_sensor t \<and> (r \<noteq> 0 \<longrightarrow> ident t = Some (info_pid (sensor_info d)))"
    using holdsD [OF sensor_detect_finds [unfolded finds_def] detect] Cons.prems(3) by simp
  let ?info = "esp_camera_sensor_get_info (sid (sensor t))"
  show ?case
  proof (cases "r \<noteq> 0 \<and> ?info \<noteq> None")
    case True
    then have pid: "PID (sid (sensor t)) = info_pid (sensor_info d)" using found by (auto simp: ident_def sensor_def)
    moreover have "d \<in> set g_sensors" using Cons.prems(2) by simp
    ultimately have info: "?info = Some (sensor_info d)" by (intro get_info_of_model)
    have model: "info_model (sensor_info d) = d"
      using sensor_info_model [of d] \<open>d \<in> set g_sensors\<close> by (auto simp: g_sensors_def camera_models_def)
    obtain q u where init: "run_state (sensor_init d env) t = (q, u)" by (meson surj_pair)
    then have "m = d" "s' = u" using Cons.prems(1) detect True info model by (auto simp: run_basic)
    moreover have "slv = info_sccb_addr (sensor_info d)"
    proof (rule ccontr)
      assume "slv \<noteq> info_sccb_addr (sensor_info d)"
      then show False using detect True by (simp add: sensor_detect_elsewhere run_basic)
    qed
    ultimately show ?thesis using pid found sensor_init_sets [OF init] by auto
  next
    case False
    then have "run_state (detect_loop env slv ms) t = (m, s')"
      using Cons.prems(1) detect by (auto simp: run_basic)
    then show ?thesis using Cons.IH Cons.prems found by simp
  qed
qed

text \<open>C25 (functional) Sensor detection (\<open>camera_probe\<close>'s loop over \<open>g_sensors\<close>): the model it reports is that of the driver whose
  functions the sensor object got, it is one of the configured drivers, the sensor sits at the bus address that was
  probed, and the sensor object has the product identifier of that model's row in the sensor table, save for the two
  drivers whose \<open>init\<close> reads the identifiers from the sensor once more.\<close>

theorem detected_sensor_consistent:
  assumes "run_state (detect_loop env slv ms) s = (m, s')" "set ms \<subseteq> set g_sensors" "s_state s \<noteq> None" "m \<noteq> CAMERA_NONE"
  shows "m \<in> set ms \<and> s_state s' \<noteq> None \<and> drv (sensor s') = Some m \<and> info_sccb_addr (sensor_info m) = slv \<and>
    (m \<noteq> CAMERA_OV7670 \<and> m \<noteq> CAMERA_OV7725 \<longrightarrow> PID (sid (sensor s')) = info_pid (sensor_info m))"
  using detect_loop_sets [OF assms] .

text \<open>A bus with an OV2640 whose registers all read as its product identifier.\<close>

definition ov2640_bus :: fw_env where
  "ov2640_bus k c = (ret_int 0)\<lparr>rdata := [0x26]\<rparr>"

theorem detected_sensor_consistent_witness:
  "fst (run_state (detect_loop ov2640_bus OV2640_SCCB_ADDR g_sensors) (boot\<lparr>s_state := Some zero_sensor\<rparr>)) = CAMERA_OV2640 \<and>
   drv (sensor (snd (run_state (detect_loop ov2640_bus OV2640_SCCB_ADDR g_sensors) (boot\<lparr>s_state := Some zero_sensor\<rparr>)))) =
     Some CAMERA_OV2640"
proof -
  have model: "fst (run_state (detect_loop ov2640_bus OV2640_SCCB_ADDR g_sensors) (boot\<lparr>s_state := Some zero_sensor\<rparr>)) = CAMERA_OV2640"
    by (simp add: g_sensors_def run_basic sensor_init_def ov7725_detect_def ov7670_detect_def ov2640_detect_def SCCB_Write_def SCCB_Read_def
        transaction_def run_call ov2640_bus_def OV2640_PID_def OV2640_SCCB_ADDR_def read_byte_def upd_sensor_def
        esp_camera_sensor_get_info_def camera_sensor_def sensor_row_def sensor_def)
  obtain m s' where run: "run_state (detect_loop ov2640_bus OV2640_SCCB_ADDR g_sensors) (boot\<lparr>s_state := Some zero_sensor\<rparr>) = (m, s')"
    by (meson surj_pair)
  then have "m = CAMERA_OV2640" using model by simp
  then show ?thesis using detected_sensor_consistent [OF run] run by simp
qed

end
