(* ===== verification/Boot.thy ===== *)
theory Boot
  imports ReverseAudio CameraLife
begin

text \<open>
  The volume keys and the start of the program: what a sequence of key presses does to the codec, and which
  services \<open>app_main\<close> starts after which initialisations.
\<close>

section \<open>Volume keys\<close>

text \<open>The effect of a key event: +10, -10 or nothing; and the volumes that result, kept between 0 and 100.\<close>

fun delta :: "int \<Rightarrow> int \<Rightarrow> fw_call \<times> ret \<Rightarrow> int option" where
  "delta volup voldown (Board (Key_event_listen evt), r) =
     (if rerr r \<noteq> ESP_OK \<or> \<not> is_press r then None
      else if rval r = volup then Some 10
      else if rval r = voldown then Some (-10)
      else None)"
| "delta volup voldown _ = None"

fun codec_volume :: "fw_call \<times> ret \<Rightarrow> int option" where
  "codec_volume (Board (Hal_set_volume hal v), r) = Some v"
| "codec_volume _ = None"

fun levels :: "int \<Rightarrow> int list \<Rightarrow> int list" where
  "levels v [] = []"
| "levels v (d # ds) = (let w = max 0 (min 100 (v + d)) in w # levels w ds)"

definition deltas :: "int \<Rightarrow> int \<Rightarrow> (fw_call \<times> ret) list \<Rightarrow> int list" where
  "deltas volup voldown tr = List.map_filter (delta volup voldown) tr"

definition codec_volumes :: "(fw_call \<times> ret) list \<Rightarrow> int list" where
  "codec_volumes tr = List.map_filter codec_volume tr"

lemma deltas_simps [simp]:
  "deltas volup voldown [] = []" "deltas volup voldown (xs @ ys) = deltas volup voldown xs @ deltas volup voldown ys"
  "deltas volup voldown (x # xs) = (case delta volup voldown x of None \<Rightarrow> deltas volup voldown xs | Some d \<Rightarrow> d # deltas volup voldown xs)"
  by (auto simp: deltas_def map_filter_def split: option.splits)

lemma codec_volumes_simps [simp]:
  "codec_volumes [] = []" "codec_volumes (xs @ ys) = codec_volumes xs @ codec_volumes ys"
  "codec_volumes (x # xs) = (case codec_volume x of None \<Rightarrow> codec_volumes xs | Some v \<Rightarrow> v # codec_volumes xs)"
  by (auto simp: codec_volumes_def map_filter_def split: option.splits)

lemma volume_steps: "0 \<le> v \<Longrightarrow> v \<le> 100 \<Longrightarrow> volume_up v = max 0 (min 100 (v + 10)) \<and> volume_down v = max 0 (min 100 (v + -10))"
  by (simp add: volume_up_def volume_down_def)

text \<open>Operating system calls are no key events and set no volume.\<close>

fun is_os :: "fw_call \<Rightarrow> bool" where
  "is_os (Os c) \<longleftrightarrow> True"
| "is_os _ \<longleftrightarrow> False"

lemma os_calls_silent: "list_all (\<lambda>e. is_os (fst e)) tr \<Longrightarrow> deltas volup voldown tr = [] \<and> codec_volumes tr = []"
proof (induction tr)
  case (Cons e tr)
  then show ?case by (cases e; cases "fst e") auto
qed simp

lemma only_locks: "only is_os (audio_lock env)" "only is_os (audio_unlock env)"
  unfolding audio_lock_def audio_unlock_def by (intro only_intros; simp)+

lemma lock_trace:
  obtains tr where "trace (locked env s) = trace s @ tr" "deltas volup voldown tr = []" "codec_volumes tr = []"
  using onlyD [OF only_locks(1) run_lock(1)] os_calls_silent by metis

lemma unlock_trace:
  obtains tr where "trace (released env s) = trace s @ tr" "deltas volup voldown tr = []" "codec_volumes tr = []"
  using onlyD [OF only_locks(2) run_lock(2)] os_calls_silent by metis

lemma released_board [simp]: "s_board (released env s) = s_board s"
  by (simp add: released_def audio_unlock_def run_basic run_perform run_do_when)

lemma run_set_volume:
  assumes "run_state (audio_manager_set_volume env v) s = (e, s')" "s_board s \<noteq> 0" "0 \<le> v" "v \<le> 100"
  obtains tr where "trace s' = trace s @ tr" "deltas volup voldown tr = []" "codec_volumes tr = [v]" "s_board s' = s_board s"
proof -
  define t where "t = locked env s"
  define c where "c = Board (Hal_set_volume (s_board_hal s) v)"
  define r where "r = env (length (trace t)) c"
  define u where "u = (if rerr r = ESP_OK then t\<lparr>trace := trace t @ [(c, r)], s_current_volume := v\<rparr> else t\<lparr>trace := trace t @ [(c, r)]\<rparr>)"
  have s': "s' = released env u"
    using assms by (auto simp: audio_manager_set_volume_def run_basic run_lock run_call t_def c_def r_def u_def split: if_splits)
  obtain tr where tr: "trace t = trace s @ tr" "deltas volup voldown tr = []" "codec_volumes tr = []"
    unfolding t_def by (rule lock_trace)
  obtain tr' where tr': "trace s' = trace u @ tr'" "deltas volup voldown tr' = []" "codec_volumes tr' = []"
    unfolding s' by (rule unlock_trace)
  have "trace s' = trace s @ (tr @ [(c, r)] @ tr')" using tr tr' by (simp add: u_def)
  moreover have "s_board s' = s_board s" by (simp add: s' u_def t_def)
  ultimately show thesis using that tr tr' by (simp add: c_def)
qed

lemma key_event_split:
  "run_state (key_event env volup voldown evt v) s =
     (let c = Board (Key_event_listen evt); r = env (length (trace s)) c; t = s\<lparr>trace := trace s @ [(c, r)]\<rparr>
      in case delta volup voldown (c, r) of
           None \<Rightarrow> (v, t)
         | Some d \<Rightarrow> (let w = (if d = 10 then volume_up v else volume_down v)
             in (w, snd (run_state (audio_manager_set_volume env w) t))))"
  unfolding key_event_def Let_def by (simp add: run_basic run_call case_prod_beta)

lemma key_event_run:
  assumes "run_state (key_event env volup voldown evt v) s = (v', s')" "s_board s \<noteq> 0" "0 \<le> v" "v \<le> 100"
  obtains tr where "trace s' = trace s @ tr" "codec_volumes tr = levels v (deltas volup voldown tr)"
    "v' = last (v # levels v (deltas volup voldown tr))" "s_board s' = s_board s" "0 \<le> v'" "v' \<le> 100"
proof -
  define c where "c = Board (Key_event_listen evt)"
  define r where "r = env (length (trace s)) c"
  define t where "t = s\<lparr>trace := trace s @ [(c, r)]\<rparr>"
  note steps = volume_steps [OF assms(3,4)]
  show thesis
  proof (cases "delta volup voldown (c, r)")
    case None
    then have "s' = t" "v' = v" using assms(1)
      by (simp_all add: key_event_split Let_def c_def r_def t_def)
    then show ?thesis using that [of "[(c, r)]"] None assms(3,4) by (simp add: t_def c_def)
  next
    case (Some d)
    define w where "w = max 0 (min 100 (v + d))"
    obtain e where run: "run_state (audio_manager_set_volume env w) t = (e, s')" and v': "v' = w"
    proof -
      have "(if d = 10 then volume_up v else volume_down v) = w"
        using steps Some by (auto simp: w_def c_def split: if_splits)
      then have "(v', s') = (w, snd (run_state (audio_manager_set_volume env w) t))"
        unfolding assms(1) [symmetric] using Some by (simp add: key_event_split Let_def c_def [symmetric] r_def [symmetric] t_def [symmetric] del: delta.simps)
      then show ?thesis using that by (metis prod.collapse prod.inject)
    qed
    have pre: "s_board t \<noteq> 0" "0 \<le> w" "w \<le> 100" using assms(2) by (simp_all add: t_def w_def)
    obtain tr where tr: "trace s' = trace t @ tr" "deltas volup voldown tr = []" "codec_volumes tr = [w]" "s_board s' = s_board t"
      by (rule run_set_volume [OF run pre])
    show ?thesis
    proof (rule that)
      show "trace s' = trace s @ ([(c, r)] @ tr)" using tr by (simp add: t_def)
      show "codec_volumes ([(c, r)] @ tr) = levels v (deltas volup voldown ([(c, r)] @ tr))"
        "v' = last (v # levels v (deltas volup voldown ([(c, r)] @ tr)))"
        using tr Some v' by (simp_all add: w_def Let_def) (simp add: c_def)
    qed (use tr pre v' in \<open>simp_all add: t_def\<close>)
  qed
qed

text \<open>C22 (refinement) The volume keys: over any number of key events the task's volume is what adding 10 for each press of the
  volume-up key and subtracting 10 for each press of volume-down gives, kept between 0 and 100 at every step, and the
  codec is set to exactly these volumes in this order.  Releases, other keys and failed reads change nothing.\<close>

theorem volume_keys_correct:
  assumes "run_state (key_loop env volup voldown n evt v) s = (v', s')" "s_board s \<noteq> 0" "0 \<le> v" "v \<le> 100"
  shows "\<exists>tr. trace s' = trace s @ tr \<and> codec_volumes tr = levels v (deltas volup voldown tr) \<and>
    v' = last (v # levels v (deltas volup voldown tr)) \<and> 0 \<le> v' \<and> v' \<le> 100"
  using assms
proof (induction n arbitrary: v s)
  case 0
  then show ?case by (auto simp: run_basic intro!: exI [of _ "[]"])
next
  case (Suc n)
  obtain w t where first: "run_state (key_event env volup voldown evt v) s = (w, t)"
    and rest: "run_state (key_loop env volup voldown n evt w) t = (v', s')"
    using Suc.prems(1) by (auto elim: run_bindE simp del: State_Monad.run_state_bind)
  obtain tr where tr: "trace t = trace s @ tr" "codec_volumes tr = levels v (deltas volup voldown tr)"
    "w = last (v # levels v (deltas volup voldown tr))" "s_board t = s_board s" "0 \<le> w" "w \<le> 100"
    by (rule key_event_run [OF first Suc.prems(2-4)])
  obtain tr' where tr': "trace s' = trace t @ tr'" "codec_volumes tr' = levels w (deltas volup voldown tr')"
    "v' = last (w # levels w (deltas volup voldown tr'))" "0 \<le> v'" "v' \<le> 100"
    using Suc.IH [OF rest] tr Suc.prems(2) by auto
  have "levels v (ds @ es) = levels v ds @ levels (last (v # levels v ds)) es" for v ds es
    by (induction ds arbitrary: v) (auto simp: Let_def)
  then show ?case using tr tr' by (intro exI [of _ "tr @ tr'"]) auto
qed

text \<open>A board on which key 1 is pressed all the time.\<close>

definition pressing :: fw_env where
  "pressing k c = (ret_int 1)\<lparr>rdata := [1, 1]\<rparr>"

theorem volume_keys_correct_witness:
  "\<exists>v s' tr. run_state (key_loop pressing 1 2 2 5 85) (boot\<lparr>s_board := 1\<rparr>) = (v, s') \<and> trace s' = tr \<and>
     codec_volumes tr = levels 85 (deltas 1 2 tr) \<and> v = last (85 # levels 85 (deltas 1 2 tr)) \<and> 0 \<le> v \<and> v \<le> 100"
proof -
  obtain v s' where run: "run_state (key_loop pressing 1 2 2 5 85) (boot\<lparr>s_board := 1\<rparr>) = (v, s')" by (meson surj_pair)
  have "trace (boot\<lparr>s_board := 1\<rparr>) = []" by (simp add: boot_def)
  then show ?thesis using volume_keys_correct [OF run] run by (auto simp: boot_def)
qed

section \<open>Start of the program\<close>

text \<open>The services of \<open>softAP.c\<close>, by the names of their tasks, and those a trace asks the system to start: the calls of
  \<open>xTaskCreate\<close>, whose results the program ignores.\<close>

definition service_names :: "string list" where
  "service_names = [''video_transmitting'', ''mp3_server_task'', ''vibration_feedback'', ''key_volume_task'']"

fun service_of :: "fw_call \<times> ret \<Rightarrow> string option" where
  "service_of (Os (Task_create name stack prio), r) = (if name \<in> set service_names then Some name else None)"
| "service_of _ = None"

definition services :: "(fw_call \<times> ret) list \<Rightarrow> string list" where
  "services tr = List.map_filter service_of tr"

lemma services_simps [simp]:
  "services [] = []" "services (xs @ ys) = services xs @ services ys"
  "services (x # xs) = (case service_of x of None \<Rightarrow> services xs | Some n \<Rightarrow> n # services xs)"
  by (auto simp: services_def map_filter_def split: option.splits)

text \<open>\<open>aside m\<close>: \<open>m\<close> starts no service, makes no call through a \<open>NULL\<close> pointer, and leaves the variables of
  \<open>softAP.c\<close> alone; \<open>silent m\<close> drops the condition on pointers.\<close>

fun no_service :: "fw_call \<Rightarrow> bool" where
  "no_service (Os (Task_create name stack prio)) \<longleftrightarrow> name \<notin> set service_names"
| "no_service _ \<longleftrightarrow> True"

fun harmless :: "fw_call \<Rightarrow> bool" where
  "harmless (Os Call_null) \<longleftrightarrow> False"
| "harmless c \<longleftrightarrow> no_service c"

lemma harmless_iff: "harmless c \<longleftrightarrow> no_service c \<and> c \<noteq> Os Call_null"
  by (cases c rule: harmless.cases) auto

definition task_handles :: "'z softap_vars_scheme \<Rightarrow> int \<times> int \<times> int \<times> int" where
  "task_handles s = (s_video_task s, s_mp3_task s, s_vibration_task s, s_key_task s)"

definition aside_by :: "(fw_call \<Rightarrow> bool) \<Rightarrow> ('z softap_vars_scheme, 'a) state \<Rightarrow> bool" where
  "aside_by P m \<longleftrightarrow> only P m \<and> preserves task_handles m"

abbreviation aside :: "('z softap_vars_scheme, 'a) state \<Rightarrow> bool" where
  "aside \<equiv> aside_by harmless"

abbreviation silent :: "('z softap_vars_scheme, 'a) state \<Rightarrow> bool" where
  "silent \<equiv> aside_by no_service"

lemma aside_silent: "aside m \<Longrightarrow> silent m"
  unfolding aside_by_def by (auto simp: harmless_iff elim: only_weaken)

lemma beyond_trace_handles [preserves_intros]: "beyond_trace (task_handles :: 'z softap_vars_scheme \<Rightarrow> _)"
  by (simp add: beyond_trace_def task_handles_def)

lemma no_service_trace: "list_all (\<lambda>e. no_service (fst e)) tr \<Longrightarrow> services tr = []"
proof (induction tr)
  case (Cons e tr)
  then have "service_of e = None" by (cases e rule: service_of.cases) auto
  then show ?case using Cons by simp
qed simp

lemma silent_run:
  assumes "silent m" "run_state m s = (x, s')"
  shows "services (trace s') = services (trace s) \<and> task_handles s' = task_handles s"
proof
  obtain tr where "trace s' = trace s @ tr" "list_all (\<lambda>e. no_service (fst e)) tr"
    using assms onlyD unfolding aside_by_def by metis
  then show "services (trace s') = services (trace s)" by (simp add: no_service_trace)
  show "task_handles s' = task_handles s" using assms preservesD unfolding aside_by_def by metis
qed

named_theorems aside_intros "code that starts no service"

lemma aside_basic [aside_intros]: "aside_by P (return x)" "aside_by P (gets g)" "aside_by P get_state"
  unfolding aside_by_def by (intro conjI only_intros preserves_intros)+

lemma aside_bind [aside_intros]: "aside_by P m \<Longrightarrow> (\<And>x. aside_by P (f x)) \<Longrightarrow> aside_by P (State_Monad.bind m f)"
  unfolding aside_by_def by (auto intro: only_bind preserves_bind)

lemma aside_if [aside_intros]: "(b \<Longrightarrow> aside_by P m) \<Longrightarrow> (\<not> b \<Longrightarrow> aside_by P n) \<Longrightarrow> aside_by P (if b then m else n)"
  by simp

lemma aside_do_when [aside_intros]: "aside_by P m \<Longrightarrow> aside_by P (do_when b m)"
  by (simp add: do_when_def aside_basic)

lemma aside_option [aside_intros]:
  "aside_by P m \<Longrightarrow> (\<And>x. aside_by P (g x)) \<Longrightarrow> aside_by P (case y of None \<Rightarrow> m | Some x \<Rightarrow> g x)"
  by (cases y) auto

lemma aside_prod [aside_intros]: "(\<And>a b. aside_by P (g a b)) \<Longrightarrow> aside_by P (case y of (a, b) \<Rightarrow> g a b)"
  by (cases y) auto

lemma aside_sum [aside_intros]:
  "(\<And>a. aside_by P (f a)) \<Longrightarrow> (\<And>b. aside_by P (g b)) \<Longrightarrow> aside_by P (case y of Inl a \<Rightarrow> f a | Inr b \<Rightarrow> g b)"
  by (cases y) auto

lemma aside_Let [aside_intros]: "(\<And>x. aside_by P (g x)) \<Longrightarrow> aside_by P (Let y g)"
  by simp

lemma aside_modify: "(\<And>s. trace (g s) = trace s) \<Longrightarrow> (\<And>s. task_handles (g s) = task_handles s) \<Longrightarrow> aside_by P (modify g)"
  unfolding aside_by_def by (intro conjI only_intros preserves_intros)

lemma aside_call [aside_intros]: "P c \<Longrightarrow> aside_by P (call env c)" "P c \<Longrightarrow> aside_by P (perform env c)"
  unfolding aside_by_def by (intro conjI only_intros preserves_intros; assumption)+

lemma aside_perform_all [aside_intros]: "list_all P cs \<Longrightarrow> aside_by P (perform_all env cs)"
  unfolding aside_by_def by (intro conjI only_intros preserves_intros)

lemma aside_or_return [aside_intros]: "aside_by P m \<Longrightarrow> aside_by P k \<Longrightarrow> aside_by P (or_return m k)"
  unfolding or_return_def by (intro aside_intros)

lemma aside_updates [aside_intros]: "aside (upd_cam f)" "aside (upd_sensor g)" "aside (upd_status h)"
  "aside (upd_frame i p)" "aside (upd_fb i q)" "aside (set_en i b)"
  unfolding upd_fb_def upd_frame_def set_en_def upd_status_def upd_cam_def upd_sensor_def
  by (rule aside_modify; simp add: task_handles_def)+

subsection \<open>The camera driver\<close>

lemma aside_sccb [aside_intros]:
  "aside (SCCB_Read env slv reg)" "aside (SCCB_Write env slv reg v)"
  "aside (SCCB_Read16 env slv reg16)" "aside (SCCB_Write16 env slv reg16 v)"
  "aside (SCCB_Init env a b)" "aside (SCCB_Deinit env)" "aside (SCCB_Use_Port env n)"
  unfolding SCCB_Read_def SCCB_Write_def SCCB_Read16_def SCCB_Write16_def SCCB_Init_def SCCB_Deinit_def SCCB_Use_Port_def Let_def
    transaction_def
  by (intro aside_intros aside_modify; simp add: task_handles_def)+

lemma aside_probe [aside_intros]: "aside (SCCB_Probe env)"
proof -
  have "aside (probe_from env a rows :: ('a softap_vars_scheme, byte) state)" for a rows
    by (induction rows arbitrary: a) (auto intro!: aside_intros simp: transaction_def)
  then show ?thesis by (simp add: SCCB_Probe_def)
qed

text \<open>The sensor drivers make bus transactions and pauses only.\<close>

lemma code_aside: "sensor_code m \<Longrightarrow> aside m"
proof -
  assume code: "sensor_code m"
  have "bus_or_delay c \<Longrightarrow> harmless c" for c by (induction c rule: bus_or_delay.induct) simp_all
  then have "only harmless m" using code only_weaken unfolding sensor_code_def by metis
  moreover have "task_handles s = task_handles t" if "outside s = outside t" for s t :: "'a softap_vars_scheme"
    using that by (cases s; cases t) (simp add: outside_def task_handles_def)
  then have "preserves task_handles m" using code unfolding sensor_code_def preserves_def by blast
  ultimately show "aside m" by (simp add: aside_by_def)
qed

lemma aside_sensor_init [aside_intros]: "aside (sensor_init m env)"
  unfolding sensor_init_def ov7670_init_def ov7725_init_def read_signature_def
  by (intro aside_intros code_aside code_registers)

lemma silent_sensor_call: "silent (sensor_call env sop)"
proof -
  have null: "silent (null_call env :: ('a softap_vars_scheme, int) state)" unfolding null_call_def by (intro aside_intros; simp)
  have pointed: "silent f" if "sensor_pointer env sop s = Some f" for f and s :: "'a softap_vars_scheme"
    using that code_aside [OF driver_code, THEN aside_silent] by (auto simp: sensor_pointer_def bind_eq_Some_conv)
  have pick: "silent (case sensor_pointer env sop s of None \<Rightarrow> null_call env | Some f \<Rightarrow> f)" for s :: "'a softap_vars_scheme"
    using null pointed by (auto split: option.split)
  show ?thesis unfolding sensor_call_def by (intro aside_bind aside_basic pick)
qed

lemma silent_sensor_do: "silent (sensor_do env sop)"
  unfolding sensor_do_def by (intro aside_intros silent_sensor_call)

lemma aside_detect [aside_intros]: "aside (sensor_detect m env slv)"
  by (cases m; simp only: sensor_detect.simps;
      (unfold detect_defs identify_def detect_low_high_def detect_wide_def accept_pid_def Let_def)?; intro aside_intros)

lemma harmless_writes:
  "list_all harmless (stop_writes c)" "list_all harmless (dma_reset_writes c)"
  "list_all harmless (map (\<lambda>(f, v). Cam (Reg_set (Lcd_cam f) v)) fvs)"
  by (auto simp: stop_writes_def dma_reset_writes_def list_all_iff gdma_reg_def)

lemma aside_low_level [aside_intros]:
  "aside (lcd_cam env lf v)" "aside (gdma env gf v)" "aside (ll_cam_stop env)" "aside (ll_cam_vsync_intr_enable env b)"
  "aside (ll_cam_deinit env)" "aside (cam_stop env)" "aside (cam_start env)"
  "aside (ll_cam_dma_reset env)" "aside (ll_cam_init_isr env)" "aside (ll_cam_get_dma_align env)"
  unfolding ll_cam_deinit_def cam_stop_def cam_start_def ll_cam_stop_def ll_cam_vsync_intr_enable_def lcd_cam_def gdma_def
    ll_cam_dma_reset_def ll_cam_init_isr_def ll_cam_get_dma_align_def
  by (intro aside_intros harmless_writes; simp)+

lemma aside_free_frames [aside_intros]: "aside (free_frames env frs)"
  by (induction frs) (auto intro!: aside_intros)

lemma aside_cam_deinit [aside_intros]: "aside (cam_deinit env)"
  unfolding cam_deinit_def by (intro aside_intros aside_modify; simp add: task_handles_def)

lemma aside_ll_cam_config [aside_intros]: "aside (ll_cam_config env config)"
  unfolding ll_cam_config_def ll_cam_dma_init_def by (intro aside_intros harmless_writes; simp)

lemma aside_set_pin [aside_intros]: "aside (ll_cam_set_pin env config)"
proof -
  have data: "aside (route_data env i pins :: ('a softap_vars_scheme, unit) state)" for i pins
    by (induction pins arbitrary: i) (auto intro!: aside_intros simp: route_input_def)
  show ?thesis unfolding ll_cam_set_pin_def route_input_def by (intro aside_intros data; simp)
qed

lemma aside_cam_init [aside_intros]: "aside (cam_init env cfg)"
  unfolding cam_init_def by (intro aside_intros aside_modify; simp add: task_handles_def)

lemma aside_alloc_frames [aside_intros]: "aside (alloc_frames env sz caps al xs)"
  by (induction xs) (auto intro!: aside_intros simp: align_psram_frame_def allocate_dma_descriptors_def Let_def)

lemma aside_cam_config_parts [aside_intros]: "aside (cam_dma_config env config)" "aside (cam_queues env config)"
  unfolding cam_dma_config_def cam_queues_def alloc_dma_buffer_def allocate_dma_descriptors_def cam_task_prologue_def set_cam_state_def Let_def
  by (intro aside_intros aside_modify; simp add: task_handles_def service_names_def)+

lemma aside_cam_config [aside_intros]: "aside (cam_config env cfg fs pid)"
  unfolding cam_config_def by (intro aside_intros)

lemma aside_detect_loop [aside_intros]: "aside (detect_loop env slv ms)"
  by (induction ms) (auto intro!: aside_intros)

lemma aside_esp_camera_deinit [aside_intros]: "aside (esp_camera_deinit env)"
  unfolding esp_camera_deinit_def by (intro aside_intros aside_modify; simp add: task_handles_def)

lemma aside_pulse [aside_intros]: "aside (pulse env pin a b)"
  unfolding pulse_def by (intro aside_intros; simp)

lemma silent_camera: "silent (camera_init_ov2640 env)"
proof -
  note leaves = aside_silent [OF aside_pulse] aside_silent [OF aside_probe] aside_silent [OF aside_updates(2)]
    aside_silent [OF aside_updates(3)] aside_silent [OF aside_detect_loop] aside_silent [OF aside_sccb(5)]
    aside_silent [OF aside_sccb(7)] aside_silent [OF aside_cam_init] aside_silent [OF aside_cam_config]
    aside_silent [OF aside_low_level(7)] aside_silent [OF aside_esp_camera_deinit] silent_sensor_call silent_sensor_do
  have probe: "silent (camera_probe env config)" for config
    unfolding camera_probe_def identify_sensor_def by (intro aside_intros aside_modify leaves; simp add: task_handles_def)
  have configure: "silent (configure_camera env config model)" for config model
    unfolding configure_camera_def setup_sensor_def Let_def by (intro aside_intros leaves)
  show ?thesis
    unfolding camera_init_ov2640_def esp_camera_init_def esp_camera_sensor_get_def
    by (intro aside_intros leaves probe configure)
qed

subsection \<open>The audio manager and the platform\<close>

lemma aside_checked [aside_intros]: "harmless c \<Longrightarrow> aside m \<Longrightarrow> aside (checked env c m)"
  unfolding checked_def Let_def by (intro aside_intros)

lemma aside_platform [aside_intros]: "aside (init_nvs env)" "aside (wifi_init_softap env)"
  unfolding init_nvs_def wifi_init_softap_def by (intro aside_intros; simp)+

lemma aside_adf [aside_intros]: "aside (adf env c)" "aside (adf_do env c)"
  unfolding adf_def adf_do_def by (intro aside_intros; simp)+

lemma aside_locks [aside_intros]: "aside (audio_lock env)" "aside (audio_unlock env)"
  unfolding audio_lock_def audio_unlock_def by (intro aside_intros aside_modify; simp add: task_handles_def)+

lemma aside_wakenet_start [aside_intros]: "aside (wakenet_start env)"
  unfolding wakenet_start_def build_capture_pipeline_def by (intro aside_intros aside_modify; simp add: task_handles_def)

lemma aside_audio [aside_intros]: "aside (audio_manager_init env)" "aside (audio_manager_start_wakenet env)"
  unfolding audio_manager_init_def audio_manager_start_wakenet_def run_wakenet_def
  by (intro aside_intros aside_modify; simp add: task_handles_def)+

text \<open>The services.\<close>

lemma dump_aside [aside_intros]: "aside (dump_internal_mem env)"
  unfolding dump_internal_mem_def by (intro aside_intros; simp)

lemma create_service_run:
  fixes upd :: "int \<Rightarrow> 'z softap_vars_scheme \<Rightarrow> 'z softap_vars_scheme"
  assumes "run_state (do { dump_internal_mem env; r \<leftarrow> call env (Os (Task_create name stack 5));
      do_when (rval r \<noteq> 0) (modify (upd (rval r))) }) s = (x, s')" "name \<in> set service_names"
    "\<And>h t. trace (upd h t) = trace t" "\<And>h t. G (task_handles (upd h t)) = G (task_handles t)"
  shows "services (trace s') = services (trace s) @ [name] \<and> G (task_handles s') = G (task_handles s)"
proof -
  obtain y t where dump: "run_state (dump_internal_mem env) s = (y, t)" by (meson surj_pair)
  have "services (trace t) = services (trace s)" "task_handles t = task_handles s" using silent_run [OF aside_silent [OF dump_aside] dump] by simp_all
  moreover have "task_handles (t\<lparr>trace := tr\<rparr>) = task_handles t" for tr by (simp add: task_handles_def)
  ultimately show ?thesis using assms dump by (auto simp: run_basic run_call split: if_splits)
qed

lemma start_once_run:
  assumes "run_state (start_task_once env task upd name stack) s = (x, s')" "task s = 0" "name \<in> set service_names"
    "\<And>h t. trace (upd h t) = trace t" "\<And>h t. G (task_handles (upd h t)) = G (task_handles t)"
  shows "services (trace s') = services (trace s) @ [name] \<and> G (task_handles s') = G (task_handles s)"
proof (rule create_service_run [OF _ assms(3-5)])
  show "run_state (do { dump_internal_mem env; r \<leftarrow> call env (Os (Task_create name stack 5));
      do_when (rval r \<noteq> 0) (modify (upd (rval r))) }) s = (x, s')"
    using assms(1,2) by (simp add: start_task_once_def State_Monad.run_state_get State_Monad.run_state_bind [of get_state])
qed

lemma start_services:
  assumes "run_state (softap_video_start env p) s = (a, t)" "run_state (softap_reverse_audio_start env q) t = (b, u)"
    "run_state (softap_feedback_start env v) u = (c, w)" "run_state (softap_keys_start env) w = (x, s')" "task_handles s = (0, 0, 0, 0)"
  shows "services (trace s') = services (trace s) @ service_names"
proof -
  have video: "services (trace t) = services (trace s) @ [''video_transmitting''] \<and> snd (snd (task_handles t)) = snd (snd (task_handles s))"
    by (rule start_once_run [OF assms(1) [unfolded softap_video_start_def]]) (use assms(5) in \<open>auto simp: service_names_def task_handles_def\<close>)
  have audio: "services (trace u) = services (trace t) @ [''mp3_server_task''] \<and> snd (snd (task_handles u)) = snd (snd (task_handles t))"
    by (rule create_service_run [OF assms(2) [unfolded softap_reverse_audio_start_def]]) (auto simp: service_names_def task_handles_def)
  have haptic: "services (trace w) = services (trace u) @ [''vibration_feedback''] \<and> snd (snd (snd (task_handles w))) = snd (snd (snd (task_handles u)))"
    by (rule start_once_run [OF assms(3) [unfolded softap_feedback_start_def]]) (use video audio assms(5) in \<open>auto simp: service_names_def task_handles_def\<close>)
  have "services (trace s') = services (trace w) @ [''key_volume_task''] \<and> () = ()"
    by (rule start_once_run [OF assms(4) [unfolded softap_keys_start_def], where G = "\<lambda>_. ()"])
      (use video audio haptic assms(5) in \<open>auto simp: service_names_def task_handles_def\<close>)
  then show ?thesis using video audio haptic by (simp add: service_names_def)
qed

lemma aside_error_check: "aside_by P m \<Longrightarrow> aside_by P (error_check m)" "aside_by P n \<Longrightarrow> aside_by P (error_check_halt n)"
  unfolding error_check_def error_check_halt_def by (intro aside_intros; assumption)+

lemma run_and_thenE:
  assumes "run_state (and_then m k) s = (r, s')"
  obtains h where "r = Inl h" "run_state m s = (Inl h, s')"
  | a t where "run_state m s = (Inr a, t)" "run_state k t = (r, s')"
proof -
  obtain q t where m: "run_state m s = (q, t)" "run_state (case q of Inl h \<Rightarrow> return (Inl h) | Inr a \<Rightarrow> k) t = (r, s')"
    using assms unfolding and_then_def by (rule run_bindE)
  then show thesis using that by (cases q) (auto simp: run_basic)
qed

definition before_services :: "fw \<Rightarrow> bool" where
  "before_services s \<longleftrightarrow> services (trace s) = [] \<and> task_handles s = (0, 0, 0, 0)"

lemma before_silent: "silent m \<Longrightarrow> before_services s \<Longrightarrow> run_state m s = (x, s') \<Longrightarrow> before_services s'"
  unfolding before_services_def by (drule (1) silent_run) simp

text \<open>The last part of \<open>app_main\<close>.\<close>

definition start_all :: "fw_env \<Rightarrow> (fw, halt + unit) state" where
  "start_all env = do {
     softap_video_start env 2000;
     and_then (error_check softap_audio_player_init) (do {
       softap_reverse_audio_start env 3000; softap_feedback_start env 4000; softap_keys_start env; return (Inr ()) }) }"

lemma start_all_run:
  assumes "before_services s" "run_state (start_all env) s = (r, s')"
  shows "r = Inr ()" "services (trace s') = service_names"
proof -
  have player: "and_then (error_check softap_audio_player_init) k = k" for k :: "(fw, halt + unit) state"
    by (simp add: and_then_def error_check_def softap_audio_player_init_def)
  from assms(2) [unfolded start_all_def player] obtain a t b u c w d where
    parts: "run_state (softap_video_start env 2000) s = (a, t)" "run_state (softap_reverse_audio_start env 3000) t = (b, u)"
    "run_state (softap_feedback_start env 4000) u = (c, w)" "run_state (softap_keys_start env) w = (d, s')" and "r = Inr ()"
    by (elim run_bindE) (auto simp: run_basic)
  then show "r = Inr ()" "services (trace s') = service_names"
    using start_services [OF parts] assms(1) by (simp_all add: before_services_def)
qed

lemma preserves_sum: "(\<And>x. preserves g (m x)) \<Longrightarrow> (\<And>y. preserves g (n y)) \<Longrightarrow> preserves g (case r of Inl x \<Rightarrow> m x | Inr y \<Rightarrow> n y)"
  by (cases r) simp_all

lemma start_all_only: "only (\<lambda>_. True) (start_all env)"
  unfolding start_all_def and_then_def error_check_def softap_audio_player_init_def softap_video_start_def softap_reverse_audio_start_def
    softap_feedback_start_def softap_keys_start_def start_task_once_def dump_internal_mem_def
  by (intro only_intros only_modify; simp add: only_intros split: sum.split)

definition kept_by_start :: "fw \<Rightarrow> (bool \<times> bool) \<times> bool" where
  "kept_by_start s = (alive s, s_wakenet_running s)"

lemma start_all_kept: "preserves kept_by_start (start_all env)"
  unfolding start_all_def and_then_def error_check_def softap_audio_player_init_def softap_video_start_def softap_reverse_audio_start_def
    softap_feedback_start_def softap_keys_start_def start_task_once_def dump_internal_mem_def
  by (intro preserves_intros preserves_sum preserves_modify; simp add: kept_by_start_def alive_def beyond_trace_def)

subsection \<open>What the initialisations achieve\<close>

text \<open>All that \<open>app_main\<close> checks has succeeded: the results of its steps, each in the state the one before leaves behind.\<close>

definition initialised :: "fw_env \<Rightarrow> fw \<Rightarrow> bool" where
  "initialised env s =
     (let (nvs, s1) = run_state (init_nvs env) s;
          (wifi, s2) = run_state (wifi_init_softap env) s1;
          (camera, s3) = run_state (camera_init_ov2640 env) s2;
          (_, s4) = run_state (audio_manager_init env) s3;
          (wake, _) = run_state (audio_manager_start_wakenet env) s4
      in nvs = Inr () \<and> wifi = Inr () \<and> camera = ESP_OK \<and> wake = Inr ESP_OK)"

definition wifi_calls :: "fw_call list" where
  "wifi_calls = map Wifi [Netif_init, Event_loop_create_default, Wifi_init, Wifi_set_mode WIFI_MODE_AP, Wifi_set_config WIFI_IF_AP wifi_config,
     Wifi_set_bandwidth WIFI_IF_AP WIFI_BW_HT40, Wifi_set_ps WIFI_PS_NONE, Wifi_start]"

text \<open>The call has been answered with \<open>ESP_OK\<close>.\<close>

definition answered_ok :: "(fw_call \<times> ret) list \<Rightarrow> fw_call \<Rightarrow> bool" where
  "answered_ok tr c \<longleftrightarrow> list_ex (\<lambda>(d, r). d = c \<and> rerr r = ESP_OK) tr"

definition wifi_up :: "(fw_call \<times> ret) list \<Rightarrow> bool" where
  "wifi_up tr \<longleftrightarrow> list_all (answered_ok tr) wifi_calls"

lemma answered_ok_Cons: "answered_ok (e # tr) c \<longleftrightarrow> answered_ok [e] c \<or> answered_ok tr c"
  by (simp add: answered_ok_def)

lemma answered_ok_append [simp]: "answered_ok (tr @ tr') c \<longleftrightarrow> answered_ok tr c \<or> answered_ok tr' c"
  by (simp add: answered_ok_def)

lemma wifi_up_append: "wifi_up tr \<Longrightarrow> wifi_up (tr @ tr')"
  by (auto simp: wifi_up_def list_all_iff)

text \<open>\<open>ensures cs m\<close>: when \<open>m\<close> succeeds, it has made the calls \<open>cs\<close> with success.\<close>

definition ensures :: "fw_call list \<Rightarrow> ((fw_call, 'z) plat_scheme, halt + unit) state \<Rightarrow> bool" where
  "ensures cs m \<longleftrightarrow> (\<forall>s s'. run_state m s = (Inr (), s') \<longrightarrow> (\<exists>tr. trace s' = trace s @ tr \<and> list_all (answered_ok tr) cs))"

lemma ensures_return: "ensures [] (return (Inr ()))"
  by (auto simp: ensures_def run_basic)

lemma ensures_perform: "ensures cs m \<Longrightarrow> ensures cs (do { perform env c; m })"
  unfolding ensures_def
proof (intro allI impI)
  fix s s' assume m: "\<forall>s s'. run_state m s = (Inr (), s') \<longrightarrow> (\<exists>tr. trace s' = trace s @ tr \<and> list_all (answered_ok tr) cs)"
    and run: "run_state (do { perform env c; m }) s = (Inr (), s')"
  obtain r where "run_state m (s\<lparr>trace := trace s @ [(c, r)]\<rparr>) = (Inr (), s')" using run by (auto simp: run_basic run_perform)
  with m obtain tr where "trace s' = (trace s @ [(c, r)]) @ tr" "list_all (answered_ok tr) cs" by fastforce
  then show "\<exists>tr. trace s' = trace s @ tr \<and> list_all (answered_ok tr) cs"
    by (intro exI [of _ "(c, r) # tr"]) (auto simp: list_all_iff answered_ok_Cons [of "(c, r)" tr])
qed

lemma ensures_checked:
  assumes "ensures cs m"
  shows "ensures (c # cs) (checked env c m)"
  unfolding ensures_def
proof (intro allI impI)
  fix s s' assume run: "run_state (checked env c m) s = (Inr (), s')"
  define r where "r = env (length (trace s)) c"
  have ok: "rerr r = ESP_OK" and rest: "run_state m (s\<lparr>trace := trace s @ [(c, r)]\<rparr>) = (Inr (), s')"
    using run by (auto simp: run_checked Let_def r_def split: if_splits)
  from assms rest obtain tr where tr: "trace s' = (trace s @ [(c, r)]) @ tr" "list_all (answered_ok tr) cs"
    unfolding ensures_def by fastforce
  have "answered_ok [(c, r)] c" using ok by (simp add: answered_ok_def)
  then have "list_all (answered_ok ([(c, r)] @ tr)) (c # cs)" using tr(2) by (auto simp: list_all_iff answered_ok_Cons [of "(c, r)" tr])
  with tr(1) show "\<exists>tr. trace s' = trace s @ tr \<and> list_all (answered_ok tr) (c # cs)" by (metis append.assoc)
qed

lemma wifi_init_up:
  assumes "run_state (wifi_init_softap env) s = (Inr (), s')"
  shows "wifi_up (trace s')"
proof -
  have "ensures wifi_calls (wifi_init_softap env :: ((fw_call, 'a) plat_scheme, halt + unit) state)"
    unfolding wifi_init_softap_def wifi_calls_def list.map by (intro ensures_checked ensures_perform ensures_return)
  then show ?thesis using assms unfolding ensures_def wifi_up_def by (fastforce simp: list_all_iff)
qed

lemma camera_init_alive:
  assumes "run_state (camera_init_ov2640 env) s = (ESP_OK, s')" "s_state s = None"
  shows "alive s' = (True, True)"
proof -
  obtain e t where t: "run_state (esp_camera_init env board_camera_config) s = (e, t)" by (meson surj_pair)
  have e: "e = ESP_OK" using assms t by (cases "e = ESP_OK") (auto simp: camera_init_ov2640_def run_basic)
  then have "alive t = (True, True)" using esp_camera_init_alive [OF t assms(2)] by (simp add: alive_def)
  moreover have "preserves alive (do { sn \<leftarrow> esp_camera_sensor_get;
      do_when (sn \<noteq> None) (sensor_do env (Set_framesize FRAMESIZE_QVGA)); return ESP_OK } :: ('a cam_vars_scheme, esp_err) state)"
    unfolding esp_camera_sensor_get_def by (intro preserves_intros)
  ultimately show ?thesis using assms(1) t e preservesD by (fastforce simp: camera_init_ov2640_def run_basic)
qed

text \<open>Nothing after it touches the camera, and wake word detection is counted as running when its start has succeeded.\<close>

lemma alive_audio: "preserves alive (audio_manager_init env)" "preserves alive (audio_manager_start_wakenet env)"
  unfolding audio_manager_init_def audio_manager_start_wakenet_def run_wakenet_def wakenet_start_def build_capture_pipeline_def
    audio_lock_def audio_unlock_def adf_def adf_do_def checked_def Let_def
  by (intro preserves_intros preserves_sum preserves_modify; simp add: alive_def)+

lemma alive_platform: "preserves alive (init_nvs env :: (fw, halt + unit) state)" "preserves alive (wifi_init_softap env :: (fw, halt + unit) state)"
  unfolding init_nvs_def wifi_init_softap_def checked_def Let_def by (intro preserves_intros)+

lemma silent_appends: "silent m \<Longrightarrow> run_state m s = (x, s') \<Longrightarrow> \<exists>tr. trace s' = trace s @ tr"
  unfolding aside_by_def by (metis onlyD)

lemma wakenet_counted:
  assumes "run_state (audio_manager_start_wakenet env) s = (Inr ESP_OK, s')"
  shows "s_wakenet_running s'"
proof -
  obtain x t where t: "run_state (audio_lock env) s = (x, t)" by (meson surj_pair)
  obtain r u where u: "run_state (if s_playback_running t then return (Inr ESP_ERR_INVALID_STATE)
      else if \<not> s_wakenet_running t then run_wakenet env else return (Inr ESP_OK)) t = (r, u)" by (meson surj_pair)
  have r: "r = Inr ESP_OK" "s' = snd (run_state (audio_unlock env) u)"
    using assms t u by (auto simp: audio_manager_start_wakenet_def run_basic split: sum.splits prod.splits)
  have "s_wakenet_running u"
    using u r(1) by (auto simp: run_wakenet_def run_basic run_modify split: if_splits prod.splits)
  then show ?thesis unfolding r(2) by (simp add: audio_unlock_def run_basic run_perform run_do_when)
qed

lemma stage_before:
  "before_services s \<Longrightarrow> run_state (init_nvs env) s = (x1, s1) \<Longrightarrow> before_services s1"
  "before_services s \<Longrightarrow> run_state (wifi_init_softap env) s = (x2, s1) \<Longrightarrow> before_services s1"
  "before_services s \<Longrightarrow> run_state (camera_init_ov2640 env) s = (x3, s1) \<Longrightarrow> before_services s1"
  "before_services s \<Longrightarrow> run_state (audio_manager_init env) s = (x4, s1) \<Longrightarrow> before_services s1"
  "before_services s \<Longrightarrow> run_state (audio_manager_start_wakenet env) s = (x5, s1) \<Longrightarrow> before_services s1"
  using before_silent aside_platform [THEN aside_silent] silent_camera aside_audio [THEN aside_silent] by metis+

text \<open>Either a check stops the program before the first service, or all five steps succeed and the services are started.\<close>

lemma app_main_cases:
  assumes run: "run_state (app_main env) s = (r, s')" and start: "before_services s"
  obtains (stopped) h where "r = Inl h" "services (trace s') = []" "\<not> initialised env s"
  | (started) s1 s2 s3 x s4 s5 where "run_state (init_nvs env) s = (Inr (), s1)" "run_state (wifi_init_softap env) s1 = (Inr (), s2)"
      "run_state (camera_init_ov2640 env) s2 = (ESP_OK, s3)" "run_state (audio_manager_init env) s3 = (x, s4)"
      "run_state (audio_manager_start_wakenet env) s4 = (Inr ESP_OK, s5)" "r = Inr ()" "services (trace s') = service_names"
      "initialised env s" "\<exists>tr. trace s' = trace s5 @ tr" "alive s' = alive s5" "s_wakenet_running s' = s_wakenet_running s5"
proof -
  obtain n s1 where 1: "run_state (init_nvs env) s = (n, s1)" by (meson surj_pair)
  obtain w s2 where 2: "run_state (wifi_init_softap env) s1 = (w, s2)" by (meson surj_pair)
  obtain c s3 where 3: "run_state (camera_init_ov2640 env) s2 = (c, s3)" by (meson surj_pair)
  obtain x s4 where 4: "run_state (audio_manager_init env) s3 = (x, s4)" by (meson surj_pair)
  obtain k s5 where 5: "run_state (audio_manager_start_wakenet env) s4 = (k, s5)" by (meson surj_pair)
  have init: "initialised env s \<longleftrightarrow> n = Inr () \<and> w = Inr () \<and> c = ESP_OK \<and> k = Inr ESP_OK"
    by (simp add: initialised_def 1 2 3 4 5)
  note b1 = stage_before(1) [OF start 1]
  note b2 = stage_before(2) [OF b1 2]
  note b3 = stage_before(3) [OF b2 3]
  note b5 = stage_before(5) [OF stage_before(4) [OF b3 4] 5]
  note unfold = app_main_def and_then_def error_check_def error_check_halt_def run_basic
  show thesis
  proof (cases "initialised env s")
    case False
    have "\<exists>h. r = Inl h \<and> before_services s'"
    proof (cases n)
      case (Inr a)
      show ?thesis
      proof (cases w)
        case (Inr b)
        show ?thesis
        proof (cases "c = ESP_OK")
          case True
          show ?thesis
          proof (cases k)
            case (Inr e)
            then have "e \<noteq> ESP_OK" using False init True \<open>n = Inr a\<close> \<open>w = Inr b\<close> by simp
            then show ?thesis using run 1 2 3 4 5 \<open>n = Inr a\<close> \<open>w = Inr b\<close> True Inr b5 by (auto simp: unfold)
          qed (use run 1 2 3 4 5 \<open>n = Inr a\<close> \<open>w = Inr b\<close> True b5 in \<open>auto simp: unfold\<close>)
        qed (use run 1 2 3 \<open>n = Inr a\<close> \<open>w = Inr b\<close> b3 in \<open>auto simp: unfold\<close>)
      qed (use run 1 2 \<open>n = Inr a\<close> b2 in \<open>auto simp: unfold\<close>)
    qed (use run 1 b1 in \<open>auto simp: unfold\<close>)
    then show ?thesis using stopped False by (auto simp: before_services_def)
  next
    case True
    then have ok: "n = Inr ()" "w = Inr ()" "c = ESP_OK" "k = Inr ESP_OK" by (simp_all add: init)
    then have last: "run_state (start_all env) s5 = (r, s')"
      using run 1 2 3 4 5 unfolding start_all_def by (auto simp: unfold)
    obtain tr where tr: "trace s' = trace s5 @ tr" by (rule onlyD [OF start_all_only last])
    have "kept_by_start s' = kept_by_start s5" by (rule preservesD [OF start_all_kept last])
    then have kept: "alive s' = alive s5" "s_wakenet_running s' = s_wakenet_running s5" by (simp_all add: kept_by_start_def)
    show ?thesis
      by (rule started [OF 1 [unfolded ok] 2 [unfolded ok] 3 [unfolded ok] 4 5 [unfolded ok] start_all_run [OF b5 last] True exI kept]) (rule tr)
  qed
qed

text \<open>C9 (safety) The program starts its services only after what it checks has succeeded.  \<open>app_main\<close> asks for the tasks of the four services
  (video, reverse audio, haptic feedback, volume keys) exactly once each and in this order when \<open>init_nvs\<close>, the access
  point, the camera and the start of wake word detection all succeed, and returns; when one of them fails it stops with an
  abort before the first of the services.  When the services are started, every call that brings the access point up has
  been answered with \<open>ESP_OK\<close>, the camera driver and the sensor object exist, and wake word detection counts as running.
  (The code does not look at the result of \<open>audio_manager_init\<close>, at errors of the first \<open>nvs_flash_init\<close> other than
  the two it handles, and at whether a task could be created.)\<close>

theorem boot_fails_closed:
  assumes "run_state (app_main env) boot = (r, s')"
  shows "services (trace s') = (if initialised env boot then service_names else []) \<and>
    (r = Inr () \<longleftrightarrow> initialised env boot) \<and>
    (initialised env boot \<longrightarrow> wifi_up (trace s') \<and> cam_obj s' \<noteq> None \<and> s_state s' \<noteq> None \<and> s_wakenet_running s')"
proof -
  have "before_services boot" by (simp add: before_services_def boot_def task_handles_def)
  with assms show ?thesis
  proof (cases rule: app_main_cases)
    case (started s1 s2 s3 x s4 s5)
    have "alive s2 = alive boot"
      using preservesD [OF alive_platform(1) started(1)] preservesD [OF alive_platform(2) started(2)] by simp
    then have "s_state s2 = None" by (simp add: alive_def boot_def)
    have "alive s5 = (True, True)"
      using camera_init_alive [OF started(3) \<open>s_state s2 = None\<close>] preservesD [OF alive_audio(1) started(4)] preservesD [OF alive_audio(2) started(5)] by simp
    then have "alive s' = (True, True)" using started(10) by simp
    moreover have "wifi_up (trace s')"
    proof -
      obtain tr1 tr2 tr3 where "trace s3 = trace s2 @ tr1" "trace s4 = trace s3 @ tr2" "trace s5 = trace s4 @ tr3"
        using silent_appends [OF silent_camera started(3)] silent_appends [OF aside_audio(1) [THEN aside_silent] started(4)]
          silent_appends [OF aside_audio(2) [THEN aside_silent] started(5)] by metis
      then show ?thesis using wifi_init_up [OF started(2)] started(9) wifi_up_append by metis
    qed
    ultimately show ?thesis using wakenet_counted [OF started(5)] started(6-8,11) by (simp add: alive_def)
  qed simp
qed

text \<open>A platform on which everything but the flash fails.\<close>

definition refusing :: fw_env where
  "refusing k c = (case c of Os x \<Rightarrow> ret_int 1 | _ \<Rightarrow> \<lparr>rval = 0, rerr = ESP_FAIL, rdata = []\<rparr>)"

lemma refusing_fails: "\<not> initialised refusing boot"
  by (simp add: initialised_def init_nvs_def wifi_init_softap_def run_basic run_call run_checked refusing_def Let_def boot_def split: prod.split)

theorem boot_fails_closed_witness:
  "let (r, s') = run_state (app_main refusing) boot in services (trace s') = [] \<and> r \<noteq> Inr ()"
proof -
  obtain r s' where run: "run_state (app_main refusing) boot = (r, s')" by (meson surj_pair)
  show ?thesis using boot_fails_closed [OF run] refusing_fails by (simp add: run)
qed

end
