(* ===== verification/Bringup.thy ===== *)
theory Bringup
  imports Boot
begin

text \<open>
  Null function pointers.  Some drivers leave pointers of \<open>sensor_t\<close> \<open>NULL\<close>, and the camera driver calls through the
  pointers without looking: bringing the camera up never calls through \<open>NULL\<close>, whichever sensor answers, but
  restoring stored settings does with three of the sensors.
\<close>

section \<open>Bringing the camera up\<close>

definition no_null :: "'z softap_vars_scheme \<Rightarrow> bool" where
  "no_null s \<longleftrightarrow> Os Call_null \<notin> fst ` set (trace s)"

text \<open>The driver of the sensor object and the identifier it was given.\<close>

definition who :: "'z cam_vars_scheme \<Rightarrow> (camera_model_t option \<times> u16) option" where
  "who s = map_option (\<lambda>x. (drv x, PID (sid x))) (s_state s)"

definition configured :: "'z cam_vars_scheme \<Rightarrow> bool" where
  "configured s \<longleftrightarrow> (\<exists>m pid. who s = Some (Some m, pid) \<and> m \<in> set g_sensors \<and>
     (m \<noteq> CAMERA_OV7670 \<and> m \<noteq> CAMERA_OV7725 \<longrightarrow> pid = info_pid (sensor_info m)))"

lemma only_no_null: "only harmless m \<Longrightarrow> run_state m s = (x, s') \<Longrightarrow> no_null s \<Longrightarrow> no_null s'"
  by (erule (1) onlyD) (auto simp: no_null_def list_all_iff harmless_iff)

lemma aside_holds: "aside m \<Longrightarrow> holds no_null m (\<lambda>_. no_null)"
  unfolding holds_def aside_by_def by (blast intro: only_no_null)

text \<open>Code that keeps the driver and the identifier.\<close>

lemma holds_conj: "holds P m (\<lambda>_. P) \<Longrightarrow> preserves f m \<Longrightarrow> holds (\<lambda>s. P s \<and> I (f s)) m (\<lambda>_ s. P s \<and> I (f s))"
  unfolding holds_def by (metis preservesD)

definition ready :: "'z softap_vars_scheme \<Rightarrow> bool" where
  "ready s \<longleftrightarrow> no_null s \<and> configured s"

lemma ready_of_who: "ready s \<longleftrightarrow> no_null s \<and> (\<exists>m pid. who s = Some (Some m, pid) \<and> m \<in> set g_sensors \<and>
     (m \<noteq> CAMERA_OV7670 \<and> m \<noteq> CAMERA_OV7725 \<longrightarrow> pid = info_pid (sensor_info m)))"
  by (simp add: ready_def configured_def)

lemma keeps_ready: "aside m \<Longrightarrow> preserves who m \<Longrightarrow> holds ready m (\<lambda>_. ready)"
  unfolding ready_of_who by (rule holds_conj [OF aside_holds])

lemma beyond_trace_who [preserves_intros]: "beyond_trace (who :: 'z cam_vars_scheme \<Rightarrow> _)"
  by (simp add: beyond_trace_def who_def)

lemma who_kept: "preserves s_state m \<Longrightarrow> preserves who m"
  by (simp add: preserves_def who_def)

lemma code_who: "sensor_code m \<Longrightarrow> preserves who m"
  by (rule code_preserves [where g = "\<lambda>(c, x, z). map_option (\<lambda>(d, i, a). (d, PID i)) x"])
    (auto simp: outside_def who_def option.map_comp comp_def)

lemma code_ready: "sensor_code m \<Longrightarrow> holds ready m (\<lambda>_. ready)"
  by (intro keeps_ready code_aside code_who)

text \<open>The operations every configured driver has.\<close>

fun always_there :: "sensor_op \<Rightarrow> bool" where
  "always_there Init_status \<longleftrightarrow> True"
| "always_there Reset_sensor \<longleftrightarrow> True"
| "always_there (Set_pixformat pf) \<longleftrightarrow> True"
| "always_there (Set_framesize fs) \<longleftrightarrow> True"
| "always_there (Set_quality v) \<longleftrightarrow> True"
| "always_there _ \<longleftrightarrow> False"

lemma always_there_op: "always_there sop \<Longrightarrow> m \<in> set g_sensors \<Longrightarrow> driver_ops m env sop \<noteq> None"
  by (cases sop) (auto simp: g_sensors_def)

lemma sensor_call_safe:
  assumes "\<And>s. P s \<Longrightarrow> ready s \<and> sensor_pointer env sop s \<noteq> None"
  shows "holds P (sensor_call env sop) (\<lambda>_. ready)"
  unfolding holds_def
proof (intro allI impI)
  fix s r and s' :: "'a softap_vars_scheme"
  assume s: "P s" and run: "run_state (sensor_call env sop) s = (r, s')"
  show "ready s'"
  proof (rule sensor_call_cases [of env sop s])
    assume "sensor_pointer env sop s = None"
    then show ?thesis using assms [OF s] by simp
  next
    fix m f
    assume "run_state (sensor_call env sop) s = run_state f s" "driver_ops m env sop = Some f"
    then show ?thesis using holdsD [OF code_ready [OF driver_code]] run assms [OF s] by metis
  qed
qed

lemma ready_pointer: "ready s \<Longrightarrow> always_there sop \<Longrightarrow> sensor_pointer env sop s \<noteq> None"
  using always_there_op by (fastforce simp: ready_def configured_def who_def sensor_pointer_def sensor_def)

lemma holds_sensor_do: "holds P (sensor_call env sop) (\<lambda>_. Q) \<Longrightarrow> holds P (sensor_do env sop) (\<lambda>_. Q)"
  unfolding sensor_do_def by (rule holds_bind, assumption, rule holds_return)

lemma call_ready:
  assumes "always_there sop"
  shows "holds ready (sensor_call env sop) (\<lambda>_. ready)" "holds ready (sensor_do env sop) (\<lambda>_. ready)"
  using sensor_call_safe [of ready env sop] ready_pointer [OF _ assms] holds_sensor_do by blast+

text \<open>What is done to sensors with the identifier of the OV2640 only.  A sensor with this identifier has the functions
  of the OV2640 driver, or of one that read the identifier again.\<close>

fun ov2640_tuning :: "sensor_op \<Rightarrow> bool" where
  "ov2640_tuning (Set_gainceiling v) \<longleftrightarrow> True"
| "ov2640_tuning (Set_bpc v) \<longleftrightarrow> True"
| "ov2640_tuning (Set_wpc v) \<longleftrightarrow> True"
| "ov2640_tuning (Set_lenc v) \<longleftrightarrow> True"
| "ov2640_tuning _ \<longleftrightarrow> False"

definition tunable :: "'z softap_vars_scheme \<Rightarrow> bool" where
  "tunable s \<longleftrightarrow> ready s \<and> (\<exists>m pid. who s = Some (Some m, pid) \<and> m \<in> {CAMERA_OV2640, CAMERA_OV7670, CAMERA_OV7725})"

lemma who_sensor_call: "preserves who (sensor_call env sop)"
  by (rule preserves_sensor_call; (intro preserves_intros)?; blast intro: code_who driver_code)

lemma tuning_op: "ov2640_tuning sop \<Longrightarrow> m \<in> {CAMERA_OV2640, CAMERA_OV7670, CAMERA_OV7725} \<Longrightarrow> driver_ops m env sop \<noteq> None"
  by (cases sop) auto

lemma call_tunable:
  assumes "ov2640_tuning sop"
  shows "holds tunable (sensor_do env sop) (\<lambda>_. tunable)"
proof (rule holds_sensor_do)
  have "tunable s \<Longrightarrow> ready s \<and> sensor_pointer env sop s \<noteq> None" for s :: "'a softap_vars_scheme"
    using tuning_op [OF assms] by (fastforce simp: tunable_def who_def sensor_pointer_def sensor_def)
  then have kept: "holds tunable (sensor_call env sop :: ('a softap_vars_scheme, int) state) (\<lambda>_. ready)"
    by (rule sensor_call_safe)
  show "holds tunable (sensor_call env sop :: ('a softap_vars_scheme, int) state) (\<lambda>_. tunable)"
    unfolding holds_def
  proof (intro allI impI)
    fix s r and s' :: "'a softap_vars_scheme"
    assume "tunable s" "run_state (sensor_call env sop) s = (r, s')"
    then show "tunable s'" using holdsD [OF kept] preservesD [OF who_sensor_call] unfolding tunable_def by metis
  qed
qed

lemma ov2640_identifier:
  "ready s \<Longrightarrow> PID (sid (sensor s)) = OV2640_PID \<Longrightarrow> tunable s"
  by (auto simp: tunable_def ready_def configured_def who_def sensor_def g_sensors_def sensor_info_def camera_sensor_def
      sensor_row_def OV2640_PID_def)

lemma holds_do_when:
  "(b \<Longrightarrow> holds P m (\<lambda>_. Q)) \<Longrightarrow> (\<And>s. \<not> b \<Longrightarrow> P s \<Longrightarrow> Q s) \<Longrightarrow> holds P (do_when b m) (\<lambda>_. Q)"
  by (simp add: do_when_def holds_return)

lemma holds_pre: "holds P m Q \<Longrightarrow> (\<And>s. P' s \<Longrightarrow> P s) \<Longrightarrow> holds P' m Q"
  unfolding holds_def by blast

lemma holds_then: "holds P m (\<lambda>_. P) \<Longrightarrow> (\<And>x. holds P (f x) Q) \<Longrightarrow> holds P (State_Monad.bind m f) Q"
  by (rule holds_bind)

lemma updates_ready:
  "holds ready (upd_status f) (\<lambda>_. ready)" "holds ready (upd_sensor (\<lambda>x. x\<lparr>pixformat := pf\<rparr>)) (\<lambda>_. ready)"
  by (rule code_ready, intro code_intros)+

lemma setup_sensor_ready: "holds ready (setup_sensor env config fs) (\<lambda>_. ready)"
proof -
  have tune: "holds (\<lambda>s. ready s \<and> pid = PID (sid (sensor s))) (do_when (pid = OV2640_PID) (do {
         sensor_do env (Set_gainceiling g); sensor_do env (Set_bpc b); sensor_do env (Set_wpc w); sensor_do env (Set_lenc l) }))
       (\<lambda>_. ready :: 'a softap_vars_scheme \<Rightarrow> bool)" for pid g b w l
  proof (rule holds_do_when)
    assume "pid = OV2640_PID"
    then have pre: "ready s \<and> pid = PID (sid (sensor s)) \<Longrightarrow> tunable s" for s :: "'a softap_vars_scheme"
      using ov2640_identifier by metis
    have "holds tunable (do { sensor_do env (Set_gainceiling g); sensor_do env (Set_bpc b); sensor_do env (Set_wpc w); sensor_do env (Set_lenc l) })
        (\<lambda>_. tunable :: 'a softap_vars_scheme \<Rightarrow> bool)"
      by (intro holds_then call_tunable) simp_all
    then show "holds (\<lambda>s. ready s \<and> pid = PID (sid (sensor s)))
        (do { sensor_do env (Set_gainceiling g); sensor_do env (Set_bpc b); sensor_do env (Set_wpc w); sensor_do env (Set_lenc l) }) (\<lambda>_. ready :: 'a softap_vars_scheme \<Rightarrow> bool)"
      by (rule holds_pre [OF holds_weaken]) (use pre in \<open>auto simp: tunable_def\<close>)
  qed auto
  have pid: "holds ready (gets (\<lambda>s. PID (sid (sensor s)))) (\<lambda>pid s. ready s \<and> pid = PID (sid (sensor s :: sensor_t)))"
    by (simp add: holds_def run_basic)
  have start: "holds ready (cam_start env) (\<lambda>_. ready)"
    by (intro keeps_ready aside_intros who_kept preserves_intros)
  show ?thesis
    unfolding setup_sensor_def
    by (rule holds_bind, rule updates_ready, rule holds_bind, rule updates_ready, rule holds_bind, rule call_ready, simp,
        rule holds_if, rule holds_return, assumption, rule holds_bind, rule call_ready, simp,
        rule holds_bind, rule pid, rule holds_bind, rule tune, rule holds_bind, rule holds_do_when, rule call_ready, simp, assumption,
        rule holds_bind, rule call_ready, simp, rule holds_bind, rule start, rule holds_return, assumption)
qed

lemma configure_camera_ready: "holds ready (configure_camera env config model) (\<lambda>_. ready)"
proof -
  have conf: "holds ready (cam_config env cfg fs pid) (\<lambda>_. ready)" for cfg fs pid
    by (intro keeps_ready aside_intros who_kept preserves_intros)
  have pid: "holds ready (gets g) (\<lambda>_. ready)" for g :: "_ \<Rightarrow> 'b" by (simp add: holds_def run_basic)
  show ?thesis
    unfolding configure_camera_def Let_def
    by (rule holds_if, rule holds_return, assumption, rule holds_bind, rule pid, rule holds_bind, rule conf,
        rule holds_if, rule holds_return, assumption, rule setup_sensor_ready)
qed

text \<open>Detection.\<close>

definition started :: "'z softap_vars_scheme \<Rightarrow> bool" where
  "started s \<longleftrightarrow> no_null s \<and> s_state s \<noteq> None"

lemma keeps_started: "aside m \<Longrightarrow> preserves alive m \<Longrightarrow> holds started m (\<lambda>_. started)"
  unfolding started_def using holds_conj [OF aside_holds, of m alive snd] by (simp add: alive_def)

definition outcome :: "esp_err \<times> camera_model_t \<Rightarrow> 'z softap_vars_scheme \<Rightarrow> bool" where
  "outcome p s \<longleftrightarrow> no_null s \<and> (fst p = ESP_OK \<longrightarrow> configured s)"

lemma detect_loop_ready: "holds started (detect_loop env slv g_sensors) (\<lambda>m s. no_null s \<and> (m \<noteq> CAMERA_NONE \<longrightarrow> ready s))"
  unfolding holds_def
proof (intro allI impI)
  fix s m and s' :: "'a softap_vars_scheme"
  assume s: "started s" and run: "run_state (detect_loop env slv g_sensors) s = (m, s')"
  have "no_null s'" using holdsD [OF aside_holds [OF aside_detect_loop] run] s by (simp add: started_def)
  moreover have "configured s'" if "m \<noteq> CAMERA_NONE"
    using detect_loop_sets [OF run _ _ that] s by (auto simp: started_def configured_def who_def sensor_def)
  ultimately show "no_null s' \<and> (m \<noteq> CAMERA_NONE \<longrightarrow> ready s')" by (simp add: ready_def)
qed

lemma identify_sensor_outcome: "holds started (identify_sensor env config) outcome"
proof -
  have failed: "e \<noteq> ESP_OK \<Longrightarrow> (\<And>s. P s \<Longrightarrow> no_null s) \<Longrightarrow> holds P (return (e, m)) outcome"
    for e m and P :: "'a softap_vars_scheme \<Rightarrow> bool"
    by (simp add: holds_def run_basic outcome_def)
  have pulse: "holds started (pulse env pin a b) (\<lambda>_. started)" for pin a b
    by (intro keeps_started aside_pulse) (auto simp: pulse_def intro!: preserves_intros)
  have pause: "holds started (perform env (Os (Task_delay n))) (\<lambda>_. started)" for n
    by (intro keeps_started aside_intros preserves_intros) simp
  have probe: "holds started (SCCB_Probe env) (\<lambda>_. started)" by (intro keeps_started aside_intros preserves_intros)
  have upd: "holds started (upd_sensor f) (\<lambda>_. started)" for f by (intro keeps_started aside_intros preserves_intros)
  have found: "holds (\<lambda>s. no_null s \<and> (m \<noteq> CAMERA_NONE \<longrightarrow> ready s))
      (if m = CAMERA_NONE then return (ESP_ERR_NOT_SUPPORTED, CAMERA_NONE)
       else do { perform env (Os (Task_delay 1)); r \<leftarrow> sensor_call env Reset_sensor; return (err_of_int r, m) })
      (outcome :: _ \<Rightarrow> 'a softap_vars_scheme \<Rightarrow> bool)" for m
  proof (rule holds_if)
    assume m: "m \<noteq> CAMERA_NONE"
    have pause: "holds ready (perform env (Os (Task_delay 1)) :: ('a softap_vars_scheme, unit) state) (\<lambda>_. ready)"
      by (intro code_ready code_intros)
    have "holds ready (do { perform env (Os (Task_delay 1)); r \<leftarrow> sensor_call env Reset_sensor; return (err_of_int r, m) })
        (outcome :: _ \<Rightarrow> 'a softap_vars_scheme \<Rightarrow> bool)"
      by (rule holds_bind, rule pause, rule holds_bind, rule call_ready, simp, rule holds_return) (simp add: outcome_def ready_def)
    then show "holds (\<lambda>s. no_null s \<and> (m \<noteq> CAMERA_NONE \<longrightarrow> ready s))
        (do { perform env (Os (Task_delay 1)); r \<leftarrow> sensor_call env Reset_sensor; return (err_of_int r, m) })
        (outcome :: _ \<Rightarrow> 'a softap_vars_scheme \<Rightarrow> bool)"
      by (rule holds_pre) (simp add: m)
  qed (rule failed; simp)
  show ?thesis
    unfolding identify_sensor_def
    by (rule holds_bind, rule holds_do_when, rule pulse, assumption, rule holds_bind, rule holds_do_when, rule pulse, assumption,
        rule holds_bind, rule pause, rule holds_bind, rule probe, rule holds_if, rule failed, simp, simp add: started_def,
        rule holds_bind, rule upd, rule holds_bind, rule detect_loop_ready, rule found)
qed


text \<open>The whole bring-up.\<close>

lemma camera_probe_outcome: "holds no_null (camera_probe env config) outcome"
proof -
  have failed: "e \<noteq> ESP_OK \<Longrightarrow> (\<And>s. P s \<Longrightarrow> no_null s) \<Longrightarrow> holds P (return (e, m)) outcome"
    for e m and P :: "'a softap_vars_scheme \<Rightarrow> bool"
    by (simp add: holds_def run_basic outcome_def)
  have "aside (call env (Os (Malloc n c)) :: ('a softap_vars_scheme, ret) state)" for n c by (intro aside_intros) simp
  then have alloc: "holds no_null (call env (Os (Malloc n c)) :: ('a softap_vars_scheme, ret) state) (\<lambda>_. no_null)" for n c
    by (rule aside_holds)
  have get: "holds no_null get_state (\<lambda>_. no_null :: 'a softap_vars_scheme \<Rightarrow> bool)" by (simp add: holds_def run_basic)
  have created: "holds no_null (modify (\<lambda>s. s\<lparr>s_state := Some z, s_state_ptr := p\<rparr>)) (\<lambda>_. started :: 'a softap_vars_scheme \<Rightarrow> bool)" for z p
    by (simp add: holds_def run_basic started_def no_null_def)
  have bus: "holds started (SCCB_Init env a b) (\<lambda>_. started :: 'a softap_vars_scheme \<Rightarrow> bool)"
    "holds started (SCCB_Use_Port env n) (\<lambda>_. started :: 'a softap_vars_scheme \<Rightarrow> bool)" for a b n
    by (intro keeps_started aside_intros preserves_intros)+
  show ?thesis
    unfolding camera_probe_def
    by (rule holds_bind, rule get, rule holds_if, rule failed, simp, assumption, rule holds_bind, rule alloc,
        rule holds_if, rule failed, simp, assumption, rule holds_bind, rule created, rule holds_bind, rule holds_if,
        rule bus, rule bus, rule holds_if, rule failed, simp, simp add: started_def, rule identify_sensor_outcome)
qed

lemma esp_camera_init_outcome: "holds no_null (esp_camera_init env config) (\<lambda>e s. no_null s \<and> (e = ESP_OK \<longrightarrow> ready s))"
proof -
  have init: "holds no_null (cam_init env cfg) (\<lambda>_. no_null)" for cfg by (intro aside_holds aside_intros)
  have deinit: "holds no_null (esp_camera_deinit env) (\<lambda>_. no_null)" by (intro aside_holds aside_intros)
  have early: "holds no_null (return e) (\<lambda>e s. no_null s \<and> (e = ESP_OK \<longrightarrow> ready s))" if "e \<noteq> ESP_OK" for e
    by (rule holds_return) (simp add: that)
  have chosen: "holds (outcome p :: 'a softap_vars_scheme \<Rightarrow> bool) (if fst p \<noteq> ESP_OK then return (fst p) else configure_camera env config (snd p))
      (\<lambda>e s. no_null s \<and> (e = ESP_OK \<longrightarrow> ready s))" for p
  proof (rule holds_if)
    assume "\<not> fst p \<noteq> ESP_OK"
    then have "outcome p s \<Longrightarrow> ready s" for s :: "'a softap_vars_scheme" by (simp add: outcome_def ready_def)
    then show "holds (outcome p :: 'a softap_vars_scheme \<Rightarrow> bool) (configure_camera env config (snd p))
        (\<lambda>e s. no_null s \<and> (e = ESP_OK \<longrightarrow> ready s))"
      by (intro holds_pre [OF holds_weaken [OF configure_camera_ready]]) (auto simp: ready_def)
  qed (rule holds_return, simp add: outcome_def)
  have failed: "holds (\<lambda>s. no_null s \<and> (e = ESP_OK \<longrightarrow> ready s)) (do { _ \<leftarrow> esp_camera_deinit env; return e })
      (\<lambda>e s. no_null s \<and> (e = ESP_OK \<longrightarrow> ready s))" if "e \<noteq> ESP_OK" for e
    by (rule holds_pre [OF holds_then [OF deinit early]]) (use that in auto)
  show ?thesis
    unfolding esp_camera_init_def
    by (rule holds_bind, rule init, rule holds_if, rule early, assumption, rule holds_bind, rule camera_probe_outcome,
        rule holds_bind, rule chosen, rule holds_if, rule failed, assumption, rule holds_return) simp
qed

lemma camera_bring_up: "holds no_null (camera_init_ov2640 env) (\<lambda>e s. no_null s \<and> (e = ESP_OK \<longrightarrow> configured s))"
proof -
  have size: "holds (ready :: 'a softap_vars_scheme \<Rightarrow> bool) (do { sn \<leftarrow> esp_camera_sensor_get; do_when (sn \<noteq> None) (sensor_do env (Set_framesize fs)); return ESP_OK })
      (\<lambda>e s. no_null s \<and> (e = ESP_OK \<longrightarrow> configured s))" for fs
  proof (rule holds_then)
    show "holds (ready :: 'a softap_vars_scheme \<Rightarrow> bool) esp_camera_sensor_get (\<lambda>_. ready)" by (simp add: holds_def esp_camera_sensor_get_def run_basic)
    show "holds (ready :: 'a softap_vars_scheme \<Rightarrow> bool) (do { do_when (sn \<noteq> None) (sensor_do env (Set_framesize fs)); return ESP_OK })
      (\<lambda>e s. no_null s \<and> (e = ESP_OK \<longrightarrow> configured s))" for sn :: "sensor_t option"
      by (rule holds_bind, rule holds_do_when, rule call_ready, simp, assumption, rule holds_return) (simp add: ready_def)
  qed
  show ?thesis
    unfolding camera_init_ov2640_def
    by (rule holds_bind, rule esp_camera_init_outcome, rule holds_if, rule holds_return, simp, rule holds_pre [OF size]) simp
qed

text \<open>C10 (safety) Whatever answers on the bus, bringing the camera up (\<open>camera_init_ov2640\<close>: initialisation, detection, set-up of the sensor
  and the final frame size) never calls through a function pointer of the sensor object that its driver left \<open>NULL\<close>; and
  when it succeeds, the sensor object has the functions of one of the configured drivers.\<close>

theorem bring_up_never_null:
  fixes s :: "'z softap_vars_scheme"
  assumes "run_state (camera_init_ov2640 env) s = (e, s')" "Os Call_null \<notin> fst ` set (trace s)"
  shows "Os Call_null \<notin> fst ` set (trace s') \<and> (e = ESP_OK \<longrightarrow> (\<exists>m \<in> set g_sensors. drv (sensor s') = Some m))"
proof -
  from holdsD [OF camera_bring_up assms(1)] assms(2) have "no_null s'" "e = ESP_OK \<Longrightarrow> configured s'" by (auto simp: no_null_def)
  then show ?thesis by (auto simp: no_null_def configured_def who_def sensor_def)
qed

theorem bring_up_never_null_witness:
  "Os Call_null \<notin> fst ` set (trace (snd (run_state (camera_init_ov2640 granting) boot)))"
proof -
  obtain e s' where run: "run_state (camera_init_ov2640 granting) boot = (e, s')" by (meson surj_pair)
  have "Os Call_null \<notin> fst ` set (trace boot)" by (simp add: boot_def)
  then show ?thesis using bring_up_never_null [OF run] run by simp
qed

section \<open>Restoring settings\<close>

text \<open>What a call of an operation adds to the trace when the sensor object has the functions of driver \<open>m\<close>: a call
  through \<open>NULL\<close> exactly when the driver has no such function.\<close>

definition adds_null :: "'z cam_vars_scheme \<Rightarrow> 'z cam_vars_scheme \<Rightarrow> bool \<Rightarrow> bool" where
  "adds_null s s' b \<longleftrightarrow> (\<exists>tr. trace s' = trace s @ tr \<and> (Os Call_null \<in> fst ` set tr \<longleftrightarrow> b)) \<and>
     map_option drv (s_state s') = map_option drv (s_state s)"

lemma adds_null_trans: "adds_null s t a \<Longrightarrow> adds_null t u b \<Longrightarrow> adds_null s u (a \<or> b)"
  unfolding adds_null_def by (elim conjE exE, rename_tac tr tr') (rule conjI, rule_tac x = "tr @ tr'" in exI, auto)

lemma adds_null_refl: "adds_null s s False"
  by (simp add: adds_null_def)

lemma code_adds_null:
  assumes "sensor_code m" "run_state m s = (x, s')"
  shows "adds_null s s' False"
proof -
  obtain tr where "trace s' = trace s @ tr" "list_all (\<lambda>e. bus_or_delay (fst e)) tr"
    using assms onlyD unfolding sensor_code_def by metis
  moreover have "map_option drv (s_state s') = map_option drv (s_state s)" by (rule preservesD [OF drv_kept [OF assms(1)] assms(2)])
  ultimately show ?thesis by (fastforce simp: adds_null_def list_all_iff)
qed

lemma call_adds_null: "c \<noteq> Os Call_null \<Longrightarrow> run_state (call env c) s = (x, s') \<Longrightarrow> adds_null s s' False"
  by (auto simp: adds_null_def run_call)

lemma sensor_do_adds_null:
  fixes s :: "'z cam_vars_scheme"
  assumes "run_state (sensor_do env sop) s = (x, s')" "s_state s = Some y" "drv y = Some m"
  shows "adds_null s s' (driver_ops m env sop = (None :: ('z cam_vars_scheme, int) state option))"
proof -
  obtain r where run: "run_state (sensor_call env sop) s = (r, s')"
    using assms(1) by (auto simp: sensor_do_def run_basic split: prod.splits)
  have pointer: "sensor_pointer env sop s = driver_ops m env sop" using assms(2,3) by (simp add: sensor_pointer_def sensor_def)
  show ?thesis
  proof (rule sensor_call_cases [of env sop s])
    assume "run_state (sensor_call env sop) s = run_state (null_call env) s" "sensor_pointer env sop s = None"
    then show ?thesis using run pointer by (auto simp: adds_null_def null_call_def run_basic run_perform)
  next
    fix m' f
    assume f: "run_state (sensor_call env sop) s = run_state f s" "drv (sensor s) = Some m'" "driver_ops m' env sop = Some f"
    then have "driver_ops m env sop = Some f" using assms(2,3) by (simp add: sensor_def)
    then show ?thesis using code_adds_null [OF driver_code [OF f(3)]] f(1) run by (metis option.distinct(1))
  qed
qed

lemma sensor_do_all_adds_null:
  fixes s :: "'z cam_vars_scheme"
  assumes "run_state (sensor_do_all env sops) s = (x, s')" "s_state s = Some y" "drv y = Some m"
  shows "adds_null s s' (\<exists>sop \<in> set sops. driver_ops m env sop = (None :: ('z cam_vars_scheme, int) state option))"
  using assms
proof (induction sops arbitrary: s y)
  case Nil
  then show ?case by (simp add: run_basic adds_null_refl)
next
  case (Cons sop sops)
  obtain a t where first: "run_state (sensor_do env sop) s = (a, t)" and rest: "run_state (sensor_do_all env sops) t = (x, s')"
    using Cons.prems(1) by (auto elim: run_bindE simp del: State_Monad.run_state_bind)
  note added = sensor_do_adds_null [OF first Cons.prems(2,3)]
  then obtain z where "s_state t = Some z" "drv z = Some m" using Cons.prems(2,3) by (auto simp: adds_null_def)
  from adds_null_trans [OF added Cons.IH [OF rest this]] show ?case by simp
qed

text \<open>The drivers that lack a function for some stored setting.\<close>

lemma incomplete_drivers:
  "m \<in> set g_sensors \<Longrightarrow> (\<exists>sop \<in> set (restore_ops st). driver_ops m env sop = (None :: ('z cam_vars_scheme, int) state option)) \<longleftrightarrow>
     m \<in> {CAMERA_OV7670, CAMERA_BF3005, CAMERA_SC030IOT}"
  unfolding g_sensors_def restore_ops_def by (auto split: camera_model_t.splits)

text \<open>C29 (error) Restoring camera settings from non-volatile storage (\<open>esp_camera_load_from_nvs\<close>), once the stored settings have been
  read: the function calls through a \<open>NULL\<close> pointer, which ends the program, exactly when the sensor is an OV7670, a BF3005 or
  an SC030IOT; with the other ten configured sensors every setting has a function.\<close>

theorem restore_calls_null:
  assumes "run_state (esp_camera_load_from_nvs env key) s = (e, s')" "s_state s = Some x" "drv x = Some m" "m \<in> set g_sensors"
    "c = Cam (Nvs_open key)" "r = env (length (trace s)) c" "rerr r = ESP_OK"
    "rerr (env (Suc (length (trace s))) (Cam (Nvs_get_blob (rval r) CAMERA_SENSOR_NVS_KEY sizeof_camera_status_t))) = ESP_OK"
  shows "\<exists>tr. trace s' = trace s @ tr \<and> (Os Call_null \<in> fst ` set tr \<longleftrightarrow> m \<in> {CAMERA_OV7670, CAMERA_BF3005, CAMERA_SC030IOT})"
proof -
  define b where "b = Cam (Nvs_get_blob (rval r) CAMERA_SENSOR_NVS_KEY sizeof_camera_status_t)"
  define q where "q = env (Suc (length (trace s))) b"
  define t where "t = s\<lparr>trace := trace s @ [(c, r), (b, q)]\<rparr>"
  define st where "st = status_of_image (fit sizeof_camera_status_t (rdata q))"
  have start: "adds_null s t False" by (auto simp: adds_null_def t_def b_def assms(5))
  obtain u v where restored: "run_state (sensor_do_all env (restore_ops st)) t = (u, v)" by (meson surj_pair)
  have "s_state t = Some x" using assms(2) by (simp add: t_def)
  note all = adds_null_trans [OF start sensor_do_all_adds_null [OF restored this assms(3)]]
  obtain y where y: "s_state v = Some y" "drv y = Some m" using all assms(2,3) by (auto simp: adds_null_def)
  obtain p w where kind: "run_state (ask env (Nvs_get_u8 (rval r) CAMERA_PIXFORMAT_NVS_KEY)) v = (p, w)" by (meson surj_pair)
  note read = call_adds_null [OF _ kind]
  obtain z k where format: "run_state (do_when (rerr p = ESP_OK) (sensor_do env (Set_pixformat (pixformat_of_value (word_of_int (rval p)))))) w = (z, k)"
    by (meson surj_pair)
  have chosen: "adds_null w k False"
  proof (cases "rerr p = ESP_OK")
    case True
    obtain y' where "s_state w = Some y'" "drv y' = Some m" using read y by (auto simp: adds_null_def)
    moreover have "driver_ops m env (Set_pixformat pf) \<noteq> (None :: ('a cam_vars_scheme, int) state option)" for pf
      using assms(4) by (auto simp: g_sensors_def)
    moreover have "run_state (sensor_do env (Set_pixformat (pixformat_of_value (word_of_int (rval p))))) w = (z, k)"
      using format True by (simp add: do_when_def)
    ultimately show ?thesis using sensor_do_adds_null by metis
  next
    case False
    then show ?thesis using format by (simp add: do_when_def run_basic adds_null_refl)
  qed
  have closing: "adds_null k s' False"
    using assms(1,2,5-8) restored kind format
    by (auto simp: esp_camera_load_from_nvs_def esp_camera_sensor_get_def run_basic run_call run_perform t_def b_def q_def st_def adds_null_def)
  have "adds_null s s' ((((False \<or> (\<exists>sop \<in> set (restore_ops st). driver_ops m env sop = (None :: ('a cam_vars_scheme, int) state option)))
      \<or> False) \<or> False) \<or> False)"
    by (rule adds_null_trans [OF adds_null_trans [OF adds_null_trans [OF all read] chosen] closing]) simp
  then have "adds_null s s' (m \<in> {CAMERA_OV7670, CAMERA_BF3005, CAMERA_SC030IOT})"
    unfolding incomplete_drivers [OF assms(4)] by simp
  then show ?thesis by (simp add: adds_null_def)
qed

definition with_driver :: "camera_model_t \<Rightarrow> fw" where
  "with_driver m = boot\<lparr>s_state := Some (zero_sensor\<lparr>drv := Some m\<rparr>)\<rparr>"

theorem restore_calls_null_witness:
  "Os Call_null \<in> fst ` set (trace (snd (run_state (esp_camera_load_from_nvs granting ''camera'') (with_driver CAMERA_SC030IOT)))) \<and>
   Os Call_null \<notin> fst ` set (trace (snd (run_state (esp_camera_load_from_nvs granting ''camera'') (with_driver CAMERA_OV2640))))"
proof -
  have ok: "rerr (granting k c) = ESP_OK" for k c by (simp add: granting_def)
  have start: "s_state (with_driver m) = Some (zero_sensor\<lparr>drv := Some m\<rparr>)" "trace (with_driver m) = []" for m
    by (simp_all add: with_driver_def boot_def)
  have "Os Call_null \<in> fst ` set (trace (snd (run_state (esp_camera_load_from_nvs granting ''camera'') (with_driver m)))) \<longleftrightarrow>
      m \<in> {CAMERA_OV7670, CAMERA_BF3005, CAMERA_SC030IOT}" if "m \<in> set g_sensors" for m
  proof -
    obtain e s' where run: "run_state (esp_camera_load_from_nvs granting ''camera'') (with_driver m) = (e, s')" by (meson surj_pair)
    have "drv (zero_sensor\<lparr>drv := Some m\<rparr>) = Some m" by simp
    from restore_calls_null [OF run start(1) this that refl refl ok ok] show ?thesis by (simp add: run start(2))
  qed
  then show ?thesis by (simp add: g_sensors_def)
qed

end
