(* ===== verification/Ov2640Device.thy ===== *)
theory Ov2640Device
  imports EspCamera
begin

text \<open>
  The OV2640 at the other end of the bus.  \<open>device\<close> is what a trace of bus transactions makes of the sensor's
  registers: two banks of plain registers, the bank selected by writing \<open>BANK_SEL\<close>, the register to read set by the
  write that precedes the read.  \<open>honest\<close> says that the answers in a trace are those of such a device: it acknowledges,
  and a read returns the register.  Under it the driver's register access and settings \<open>implement\<close> functions
  on the register contents and the settings kept in the sensor object.
\<close>

section \<open>The device\<close>

type_synonym registers = "byte \<times> byte \<Rightarrow> byte"

record ov_device =
  dev_bank :: byte
  dev_ptr :: byte
  dev_regs :: registers

definition bus_write :: "byte \<Rightarrow> byte \<Rightarrow> byte \<Rightarrow> i2c_op list" where
  "bus_write slv reg v = [I2C_START, I2C_WRITE (addr_byte slv WRITE_BIT), I2C_WRITE reg, I2C_WRITE v, I2C_STOP]"

definition bus_select :: "byte \<Rightarrow> byte \<Rightarrow> i2c_op list" where
  "bus_select slv reg = [I2C_START, I2C_WRITE (addr_byte slv WRITE_BIT), I2C_WRITE reg, I2C_STOP]"

definition bus_read :: "byte \<Rightarrow> i2c_op list" where
  "bus_read slv = [I2C_START, I2C_WRITE (addr_byte slv READ_BIT), I2C_READ_NACK, I2C_STOP]"

text \<open>The byte written at a position of a command link.\<close>

fun link_byte :: "i2c_op list \<Rightarrow> nat \<Rightarrow> byte" where
  "link_byte (I2C_WRITE b # ops) 0 = b"
| "link_byte (x # ops) (Suc n) = link_byte ops n"
| "link_byte _ _ = 0"

definition dev_transaction :: "byte \<Rightarrow> i2c_op list \<Rightarrow> ov_device \<Rightarrow> ov_device" where
  "dev_transaction slv ops d =
     (let reg = link_byte ops 2; v = link_byte ops 3
      in if ops = bus_write slv reg v then
           (if reg = BANK_SEL then d\<lparr>dev_bank := v\<rparr>
            else d\<lparr>dev_regs := (dev_regs d)((dev_bank d, reg) := v)\<rparr>)
         else if ops = bus_select slv reg then d\<lparr>dev_ptr := reg\<rparr>
         else d)"

fun dev_step :: "byte \<Rightarrow> fw_call \<times> ret \<Rightarrow> ov_device \<Rightarrow> ov_device" where
  "dev_step slv (Cam (I2c_cmd_begin port ops), r) d = dev_transaction slv ops d"
| "dev_step slv _ d = d"

definition device :: "byte \<Rightarrow> ov_device \<Rightarrow> (fw_call \<times> ret) list \<Rightarrow> ov_device" where
  "device slv d tr = fold (dev_step slv) tr d"

fun answered :: "byte \<Rightarrow> ov_device \<Rightarrow> fw_call \<times> ret \<Rightarrow> bool" where
  "answered slv d (Cam (I2c_cmd_begin port ops), r) \<longleftrightarrow>
     rerr r = ESP_OK \<and>
     (ops = bus_read slv \<longrightarrow>
       rdata r = [if dev_ptr d = BANK_SEL then dev_bank d else dev_regs d (dev_bank d, dev_ptr d)])"
| "answered slv d _ \<longleftrightarrow> True"

fun honest :: "byte \<Rightarrow> ov_device \<Rightarrow> (fw_call \<times> ret) list \<Rightarrow> bool" where
  "honest slv d [] \<longleftrightarrow> True"
| "honest slv d (e # tr) \<longleftrightarrow> answered slv d e \<and> honest slv (dev_step slv e d) tr"

lemma device_append: "device slv d (tr @ tr') = device slv (device slv d tr) tr'"
  by (simp add: device_def)

lemma honest_append: "honest slv d (tr @ tr') \<longleftrightarrow> honest slv d tr \<and> honest slv (device slv d tr) tr'"
  by (induction tr arbitrary: d) (auto simp: device_def)

section \<open>Implementation of functions on registers and settings\<close>

text \<open>What the driver and the device hold together: the settings, the selected bank, the registers.\<close>

type_synonym view = "camera_status_t \<times> byte \<times> registers"

definition view :: "byte \<Rightarrow> ov_device \<Rightarrow> 'z cam_vars_scheme \<Rightarrow> view" where
  "view slv d s = (status (sensor s), dev_bank (device slv d (trace s)), dev_regs (device slv d (trace s)))"

text \<open>The driver's idea of the selected bank is right, and the sensor object has the device's address.\<close>

definition linked :: "byte \<Rightarrow> ov_device \<Rightarrow> 'z cam_vars_scheme \<Rightarrow> bool" where
  "linked slv d s \<longleftrightarrow> s_state s \<noteq> None \<and> slv_addr (sensor s) = slv \<and> dev_bank (device slv d (trace s)) = reg_bank s"

definition implements :: "byte \<Rightarrow> ov_device \<Rightarrow> ('z cam_vars_scheme, 'a) state \<Rightarrow> (view \<Rightarrow> 'a \<times> view) \<Rightarrow> bool" where
  "implements slv d m f \<longleftrightarrow> only (\<lambda>_. True) m \<and>
     (\<forall>s x s'. run_state m s = (x, s') \<longrightarrow> honest slv d (trace s') \<longrightarrow> linked slv d s \<longrightarrow>
        linked slv d s' \<and> (x, view slv d s') = f (view slv d s))"

lemma implementsI:
  assumes "only (\<lambda>_. True) m"
    and "\<And>s x s'. run_state m s = (x, s') \<Longrightarrow> honest slv d (trace s') \<Longrightarrow> linked slv d s \<Longrightarrow>
           linked slv d s' \<and> (x, view slv d s') = f (view slv d s)"
  shows "implements slv d m f"
  using assms by (simp add: implements_def)

lemma implementsD:
  assumes "implements slv d m f" "run_state m s = (x, s')" "honest slv d (trace s')" "linked slv d s"
  shows "linked slv d s' \<and> f (view slv d s) = (x, view slv d s')"
  using assms by (simp add: implements_def)

text \<open>The abstract operations.\<close>

definition settle :: "(camera_status_t \<Rightarrow> camera_status_t) \<Rightarrow> view \<Rightarrow> view" where
  "settle f = (\<lambda>(st, b, M). (f st, b, M))"

definition select :: "byte \<Rightarrow> view \<Rightarrow> view" where
  "select bank = (\<lambda>(st, b, M). (st, bank, M))"

definition poke :: "byte \<Rightarrow> byte \<Rightarrow> view \<Rightarrow> view" where
  "poke reg v = (\<lambda>(st, b, M). (st, b, M((b, reg) := v)))"

definition peek :: "byte \<Rightarrow> view \<Rightarrow> byte" where
  "peek reg = (\<lambda>(st, b, M). M (b, reg))"

named_theorems implements_intros "what driver code does to registers and settings"

lemma implements_return [implements_intros]: "implements slv d (return x) (\<lambda>a. (x, a))"
  by (intro implementsI only_intros) (simp add: run_basic)

lemma implements_bind [implements_intros]:
  assumes "implements slv d m f" "\<And>x. implements slv d (g x) (h x)"
  shows "implements slv d (State_Monad.bind m g) (\<lambda>a. let (x, b) = f a in h x b)"
proof (rule implementsI)
  show "only (\<lambda>_. True) (State_Monad.bind m g)"
    using assms by (intro only_intros) (simp_all add: implements_def)
next
  fix s y u
  assume run: "run_state (State_Monad.bind m g) s = (y, u)" and hon: "honest slv d (trace u)" and "linked slv d s"
  obtain x t where t: "run_state m s = (x, t)" "run_state (g x) t = (y, u)" using run by (rule run_bindE)
  have "only (\<lambda>_. True) (g x)" using assms(2) by (simp add: implements_def)
  then obtain tr where "trace u = trace t @ tr" using t(2) by (rule onlyD)
  then have "honest slv d (trace t)" using hon by (simp add: honest_append)
  then show "linked slv d u \<and> (y, view slv d u) = (let (x, b) = f (view slv d s) in h x b)"
    using implementsD [OF assms(1) t(1)] implementsD [OF assms(2) t(2) hon] \<open>linked slv d s\<close> by auto
qed

lemma implements_if [implements_intros]:
  "(c \<Longrightarrow> implements slv d m f) \<Longrightarrow> (\<not> c \<Longrightarrow> implements slv d n g) \<Longrightarrow>
     implements slv d (if c then m else n) (if c then f else g)"
  by simp

lemma implements_as: "implements slv d m f \<Longrightarrow> (\<And>a. f a = g a) \<Longrightarrow> implements slv d m g"
  by (simp add: implements_def)

text \<open>The first operation succeeds.\<close>

lemma implements_or_return [implements_intros]:
  assumes "implements slv d m (\<lambda>a. (0, f a))" "implements slv d k g"
  shows "implements slv d (or_return m k) (\<lambda>a. g (f a))"
  unfolding or_return_def
  by (rule implements_as [OF implements_bind [OF assms(1) implements_if [OF implements_return assms(2)]]]) simp

lemma implements_upd_status [implements_intros]:
  "implements slv d (upd_status f) (\<lambda>a. ((), settle f a))"
proof (rule implementsI)
  show "only (\<lambda>_. True) (upd_status f)" unfolding upd_status_def upd_sensor_def by (intro only_intros) simp
qed (auto simp: upd_status_def upd_sensor_def view_def linked_def sensor_def settle_def)

lemma implements_perform [implements_intros]: "implements slv d (perform env (Os c)) (\<lambda>a. ((), a))"
  by (intro implementsI only_intros) (auto simp: run_perform view_def linked_def device_append device_def sensor_def)

section \<open>Register access\<close>

lemma dev_bus_write: "dev_transaction slv (bus_write slv reg v) d =
    (if reg = BANK_SEL then d\<lparr>dev_bank := v\<rparr> else d\<lparr>dev_regs := (dev_regs d)((dev_bank d, reg) := v)\<rparr>)"
  by (simp add: dev_transaction_def bus_write_def numeral_2_eq_2 numeral_3_eq_3)

lemma dev_bus_select: "dev_transaction slv (bus_select slv reg) d = d\<lparr>dev_ptr := reg\<rparr>"
  by (simp add: dev_transaction_def bus_write_def bus_select_def numeral_2_eq_2 numeral_3_eq_3)

lemma dev_bus_read: "dev_transaction slv (bus_read slv) d = d"
  by (simp add: dev_transaction_def bus_write_def bus_select_def bus_read_def numeral_2_eq_2 numeral_3_eq_3)

lemma bus_not_read: "bus_write slv reg v \<noteq> bus_read slv" "bus_select slv reg \<noteq> bus_read slv"
  by (simp_all add: bus_write_def bus_select_def bus_read_def)

lemma write_bus_write:
  "SCCB_Write env slv reg v = do {
     port \<leftarrow> gets sccb_i2c_port;
     r \<leftarrow> ask env (I2c_cmd_begin port (bus_write slv reg v));
     return (if rerr r = ESP_OK then 0 else -1)
   }"
  unfolding SCCB_Write_def transaction_def bus_write_def State_Monad.bind_assoc append.simps ..

lemma read_bus_read:
  "SCCB_Read env slv reg = do {
     port \<leftarrow> gets sccb_i2c_port;
     r \<leftarrow> ask env (I2c_cmd_begin port (bus_select slv reg));
     if rerr r \<noteq> ESP_OK then return (-1)
     else do {
       port \<leftarrow> gets sccb_i2c_port;
       r \<leftarrow> ask env (I2c_cmd_begin port (bus_read slv));
       return (read_byte r 0)
     }
   }"
  unfolding SCCB_Read_def transaction_def bus_select_def bus_read_def State_Monad.bind_assoc append.simps ..

lemma only_sccb [only_intros]: "only (\<lambda>_. True) (SCCB_Write env slv reg v)" "only (\<lambda>_. True) (SCCB_Read env slv reg)"
  unfolding write_bus_write read_bus_read by (intro only_intros TrueI)+

lemma implements_set_bank [implements_intros]: "implements slv d (set_bank env bank) (\<lambda>a. (0, select bank a))"
proof (rule implementsI)
  show "only (\<lambda>_. True) (set_bank env bank)" unfolding set_bank_def by (intro only_intros) simp
next
  fix s x s'
  assume *: "run_state (set_bank env bank) s = (x, s')" "honest slv d (trace s')" "linked slv d s"
  then show "linked slv d s' \<and> (x, view slv d s') = (0, select bank (view slv d s))"
    by (cases "bank = reg_bank s")
      (auto simp: set_bank_def run_basic write_bus_write run_call linked_def view_def sensor_def honest_append
        device_append device_def dev_bus_write select_def)
qed

lemma implements_write_byte [implements_intros]:
  "reg \<noteq> BANK_SEL \<Longrightarrow> implements slv d (write_byte env reg v) (\<lambda>a. (0, poke reg v a))"
proof (rule implementsI)
  show "only (\<lambda>_. True) (write_byte env reg v)" unfolding write_byte_def by (intro only_intros)
qed (auto simp: write_byte_def run_basic write_bus_write run_call linked_def view_def sensor_def honest_append
    device_append device_def dev_bus_write poke_def)

lemma implements_read_reg_byte [implements_intros]:
  "reg \<noteq> BANK_SEL \<Longrightarrow> implements slv d (read_reg_byte env reg) (\<lambda>a. (peek reg a, a))"
proof (rule implementsI)
  show "only (\<lambda>_. True) (read_reg_byte env reg)" unfolding read_reg_byte_def by (intro only_intros)
next
  fix s x s'
  assume "reg \<noteq> BANK_SEL" "run_state (read_reg_byte env reg) s = (x, s')" "honest slv d (trace s')" "linked slv d s"
  then show "linked slv d s' \<and> (x, view slv d s') = (peek reg (view slv d s), view slv d s)"
    by (auto simp: read_reg_byte_def run_basic read_bus_read run_call linked_def view_def sensor_def honest_append
      device_append device_def dev_bus_select dev_bus_read read_byte_def peek_def split: if_splits)
qed

text \<open>A field of a register: \<open>msk\<close> shifted to \<open>offset\<close>.\<close>

definition get_field :: "nat \<Rightarrow> byte \<Rightarrow> byte \<Rightarrow> byte" where
  "get_field offset msk w = drop_bit offset w AND msk"

definition put_field :: "nat \<Rightarrow> byte \<Rightarrow> byte \<Rightarrow> byte \<Rightarrow> byte" where
  "put_field offset msk v w = (w AND NOT (push_bit offset msk)) OR push_bit offset (v AND msk)"

lemma get_put_field: "drop_bit offset (push_bit offset msk) = msk \<Longrightarrow> get_field offset msk (put_field offset msk v w) = v AND msk"
  unfolding get_field_def put_field_def by (auto simp: bit_eq_iff bit_simps)

lemma get_put_other:
  assumes "push_bit offset msk AND push_bit offset' msk' = 0"
  shows "get_field offset' msk' (put_field offset msk v w) = get_field offset' msk' w"
proof (rule bit_eqI)
  fix n assume n: "possible_bit TYPE(8 word) n"
  have "\<not> (bit (push_bit offset msk) (offset' + n) \<and> bit (push_bit offset' msk') (offset' + n))"
    using arg_cong [OF assms, of "\<lambda>w. bit w (offset' + n)"] by (simp only: bit_and_iff bit_0_eq bot_apply bot_bool_def simp_thms)
  moreover have "bit w (offset' + n) \<Longrightarrow> offset' + n < 8" using bit_imp_le_length [of w "offset' + n"] by simp
  ultimately show "bit (get_field offset' msk' (put_field offset msk v w)) n = bit (get_field offset' msk' w) n"
    unfolding get_field_def put_field_def using n by (auto simp: bit_simps)
qed

lemma put_mask: "put_field 0 (push_bit offset msk) (push_bit offset msk) w = put_field offset msk msk w"
  "put_field 0 (push_bit offset msk) 0 w = put_field offset msk 0 w"
  by (simp_all add: put_field_def)

definition put_reg :: "byte \<Rightarrow> byte \<Rightarrow> (byte \<Rightarrow> byte) \<Rightarrow> view \<Rightarrow> view" where
  "put_reg bank reg f = (\<lambda>(st, b, M). (st, bank, M((bank, reg) := f (M (bank, reg)))))"

definition get_reg_at :: "byte \<Rightarrow> byte \<Rightarrow> view \<Rightarrow> byte" where
  "get_reg_at bank reg = (\<lambda>(st, b, M). M (bank, reg))"

lemma implements_write_reg [implements_intros]:
  assumes "reg \<noteq> BANK_SEL"
  shows "implements slv d (write_reg env bank reg v) (\<lambda>a. (0, put_reg bank reg (\<lambda>_. v) a))"
  unfolding write_reg_def
  by (rule implements_as, (rule implements_intros assms)+) (auto simp: select_def poke_def put_reg_def)

lemma implements_set_reg_bits [implements_intros]:
  assumes "reg \<noteq> BANK_SEL"
  shows "implements slv d (set_reg_bits env bank reg offset msk v) (\<lambda>a. (0, put_reg bank reg (put_field offset msk v) a))"
  unfolding set_reg_bits_def Let_def
  by (rule implements_as, (rule implements_intros assms)+)
    (auto simp: select_def poke_def peek_def put_reg_def put_field_def)

lemma implements_read_reg [implements_intros]:
  assumes "reg \<noteq> BANK_SEL"
  shows "implements slv d (read_reg env bank reg) (\<lambda>a. (get_reg_at bank reg a, select bank a))"
  unfolding read_reg_def
  by (rule implements_as, (rule implements_intros assms)+) (auto simp: select_def peek_def get_reg_at_def)

lemma implements_get_reg_bits [implements_intros]:
  assumes "reg \<noteq> BANK_SEL"
  shows "implements slv d (get_reg_bits env bank reg offset msk) (\<lambda>a. (get_field offset msk (get_reg_at bank reg a), select bank a))"
  unfolding get_reg_bits_def
  by (rule implements_as, (rule implements_intros assms)+) (auto simp: get_field_def)

lemma implements_write_reg_bits [implements_intros]:
  assumes "reg \<noteq> BANK_SEL"
  shows "implements slv d (write_reg_bits env bank reg msk e)
     (\<lambda>a. (0, put_reg bank reg (put_field 0 msk (if e \<noteq> 0 then msk else 0)) a))"
  unfolding write_reg_bits_def by (intro implements_intros assms)

section \<open>The settings kept in registers\<close>

text \<open>The settings that are one field of one register, as \<open>init_status\<close> reads them: how to read and update the
  setting, and its bank, register, offset and mask.  \<open>aec2\<close> is missing: it is written inverted.\<close>

record backed =
  b_get :: "camera_status_t \<Rightarrow> byte"
  b_bank :: byte
  b_reg :: byte
  b_off :: nat
  b_msk :: byte

definition backed_settings :: "backed list" where
  "backed_settings =
     [\<lparr>b_get = st_quality, b_bank = BANK_DSP, b_reg = QS, b_off = 0, b_msk = 0xFF\<rparr>,
      \<lparr>b_get = st_gainceiling, b_bank = BANK_SENSOR, b_reg = COM9, b_off = 5, b_msk = 7\<rparr>,
      \<lparr>b_get = st_awb, b_bank = BANK_DSP, b_reg = CTRL1, b_off = 3, b_msk = 1\<rparr>,
      \<lparr>b_get = st_awb_gain, b_bank = BANK_DSP, b_reg = CTRL1, b_off = 2, b_msk = 1\<rparr>,
      \<lparr>b_get = st_aec, b_bank = BANK_SENSOR, b_reg = COM8, b_off = 0, b_msk = 1\<rparr>,
      \<lparr>b_get = st_agc, b_bank = BANK_SENSOR, b_reg = COM8, b_off = 2, b_msk = 1\<rparr>,
      \<lparr>b_get = st_bpc, b_bank = BANK_DSP, b_reg = CTRL3, b_off = 7, b_msk = 1\<rparr>,
      \<lparr>b_get = st_wpc, b_bank = BANK_DSP, b_reg = CTRL3, b_off = 6, b_msk = 1\<rparr>,
      \<lparr>b_get = st_raw_gma, b_bank = BANK_DSP, b_reg = CTRL1, b_off = 5, b_msk = 1\<rparr>,
      \<lparr>b_get = st_lenc, b_bank = BANK_DSP, b_reg = CTRL1, b_off = 1, b_msk = 1\<rparr>,
      \<lparr>b_get = st_hmirror, b_bank = BANK_SENSOR, b_reg = REG04, b_off = 7, b_msk = 1\<rparr>,
      \<lparr>b_get = st_vflip, b_bank = BANK_SENSOR, b_reg = REG04, b_off = 6, b_msk = 1\<rparr>,
      \<lparr>b_get = st_dcw, b_bank = BANK_DSP, b_reg = CTRL2, b_off = 5, b_msk = 1\<rparr>,
      \<lparr>b_get = st_colorbar, b_bank = BANK_SENSOR, b_reg = COM7, b_off = 1, b_msk = 1\<rparr>]"

definition exposure_of :: "registers \<Rightarrow> u16" where
  "exposure_of M = push_bit 10 (ucast (get_field 0 0x3F (M (BANK_SENSOR, REG45)))) OR
     push_bit 2 (ucast (M (BANK_SENSOR, AEC))) OR ucast (get_field 0 3 (M (BANK_SENSOR, REG04)))"

text \<open>The settings kept in the sensor object are what the registers hold.\<close>

fun agrees :: "view \<Rightarrow> bool" where
  "agrees (st, b, M) \<longleftrightarrow>
     list_all (\<lambda>f. b_get f st = get_field (b_off f) (b_msk f) (M (b_bank f, b_reg f))) backed_settings \<and>
     st_aec_value st = exposure_of M \<and>
     st_agc_gain st = of_nat (agc_index (M (BANK_SENSOR, GAIN)))"

lemmas register_names =
  BANK_DSP_def BANK_SENSOR_def BANK_SEL_def QS_def COM9_def CTRL0_def CTRL1_def CTRL2_def CTRL3_def COM8_def REG04_def COM7_def REG45_def AEC_def
  GAIN_def COM7_COLOR_BAR_def COM8_AGC_EN_def COM8_AEC_EN_def REG04_HFLIP_IMG_def REG04_VFLIP_IMG_def REG04_VREF_EN_def

text \<open>Code that only reads registers: it updates the settings by \<open>g\<close> of the registers.\<close>

definition loads :: "byte \<Rightarrow> ov_device \<Rightarrow> ('z cam_vars_scheme, 'a) state \<Rightarrow> 'a \<Rightarrow> (registers \<Rightarrow> camera_status_t \<Rightarrow> camera_status_t) \<Rightarrow> bool" where
  "loads slv d m x g \<longleftrightarrow> (\<exists>c. implements slv d m (\<lambda>(st, b, M). (x, (g M st, c b M, M))))"

lemma loadsI: "implements slv d m (\<lambda>(st, b, M). (x, (g M st, c b M, M))) \<Longrightarrow> loads slv d m x g"
  unfolding loads_def by (intro exI)

lemma loads_return: "loads slv d (return x) x (\<lambda>M st. st)"
  by (rule loadsI [where c = "\<lambda>b M. b"], rule implements_as, rule implements_return) auto

lemma loads_upd_status: "loads slv d (upd_status f) () (\<lambda>M. f)"
  by (rule loadsI [where c = "\<lambda>b M. b"], rule implements_as, rule implements_upd_status) (auto simp: settle_def)

lemma loads_then:
  assumes "loads slv d m () g" "loads slv d k x h"
  shows "loads slv d (State_Monad.bind m (\<lambda>_. k)) x (\<lambda>M st. h M (g M st))"
proof -
  obtain c c' where c: "implements slv d m (\<lambda>(st, b, M). ((), (g M st, c b M, M)))"
    "implements slv d k (\<lambda>(st, b, M). (x, (h M st, c' b M, M)))"
    using assms by (auto simp: loads_def)
  show ?thesis
    by (rule loadsI [where c = "\<lambda>b M. c' (c b M) M"], rule implements_as, rule implements_bind [OF c]) auto
qed

lemma loads_read:
  assumes "reg \<noteq> BANK_SEL" "\<And>v. loads slv d (k v) x (h v)"
  shows "loads slv d (State_Monad.bind (read_reg env bank reg) k) x (\<lambda>M. h (M (bank, reg)) M)"
    and "loads slv d (State_Monad.bind (get_reg_bits env bank reg offset msk) k) x (\<lambda>M. h (get_field offset msk (M (bank, reg))) M)"
proof -
  define c where "c v = (SOME c. implements slv d (k v) (\<lambda>(st, b, M). (x, (h v M st, c b M, M))))" for v
  have c: "implements slv d (k v) (\<lambda>(st, b, M). (x, (h v M st, c v b M, M)))" for v
    unfolding c_def by (rule someI_ex [OF assms(2) [unfolded loads_def]])
  show "loads slv d (State_Monad.bind (read_reg env bank reg) k) x (\<lambda>M. h (M (bank, reg)) M)"
    by (rule loadsI [where c = "\<lambda>b M. c (M (bank, reg)) bank M"], rule implements_as,
        rule implements_bind [OF implements_read_reg [OF assms(1)] c]) (auto simp: select_def get_reg_at_def)
  show "loads slv d (State_Monad.bind (get_reg_bits env bank reg offset msk) k) x (\<lambda>M. h (get_field offset msk (M (bank, reg))) M)"
    by (rule loadsI [where c = "\<lambda>b M. c (get_field offset msk (M (bank, reg))) bank M"], rule implements_as,
        rule implements_bind [OF implements_get_reg_bits [OF assms(1)] c]) (auto simp: select_def get_reg_at_def)
qed

lemma loads_bits:
  "reg \<noteq> BANK_SEL \<Longrightarrow> loads slv d (load_bits env f bank reg offset msk) () (\<lambda>M. f (get_field offset msk (M (bank, reg))))"
  unfolding load_bits_def by (rule loads_read(2)) (auto intro: loads_upd_status)

lemma plain_registers:
  "GAIN \<noteq> BANK_SEL" "QS \<noteq> BANK_SEL" "COM7 \<noteq> BANK_SEL" "COM8 \<noteq> BANK_SEL" "COM9 \<noteq> BANK_SEL" "REG04 \<noteq> BANK_SEL"
  "REG45 \<noteq> BANK_SEL" "AEC \<noteq> BANK_SEL" "CTRL0 \<noteq> BANK_SEL" "CTRL1 \<noteq> BANK_SEL" "CTRL2 \<noteq> BANK_SEL" "CTRL3 \<noteq> BANK_SEL"
  by (simp_all add: register_names)

lemma loads_aec_value:
  "loads slv d (load_aec_value env) () (\<lambda>M st. st\<lparr>st_aec_value := exposure_of M\<rparr>)"
  unfolding load_aec_value_def exposure_of_def
  by (rule loads_read plain_registers loads_upd_status)+

lemma loads_as: "loads slv d m x f \<Longrightarrow> (\<And>M st. f M st = g M st) \<Longrightarrow> loads slv d m x g"
  by (simp add: loads_def)

definition reloaded :: "registers \<Rightarrow> camera_status_t \<Rightarrow> camera_status_t" where
  "reloaded M st = (let dsp = (\<lambda>reg offset. get_field offset 1 (M (BANK_DSP, reg)));
       sns = (\<lambda>reg offset. get_field offset 1 (M (BANK_SENSOR, reg)))
     in st\<lparr>st_brightness := 0, st_contrast := 0, st_saturation := 0, st_ae_level := 0, st_special_effect := 0, st_wb_mode := 0,
        st_agc_gain := of_nat (agc_index (M (BANK_SENSOR, GAIN))), st_aec_value := exposure_of M, st_quality := M (BANK_DSP, QS),
        st_gainceiling := get_field 5 7 (M (BANK_SENSOR, COM9)), st_awb := dsp CTRL1 3, st_awb_gain := dsp CTRL1 2,
        st_aec := sns COM8 0, st_aec2 := dsp CTRL0 6, st_agc := sns COM8 2, st_bpc := dsp CTRL3 7, st_wpc := dsp CTRL3 6,
        st_raw_gma := dsp CTRL1 5, st_lenc := dsp CTRL1 1, st_hmirror := sns REG04 7, st_vflip := sns REG04 6,
        st_dcw := dsp CTRL2 5, st_colorbar := sns COM7 1, st_sharpness := 0, st_denoise := 0\<rparr>)"

lemma init_status_loads: "loads slv d (init_status env) 0 reloaded"
  unfolding init_status_def
  by (rule loads_as, (rule loads_then loads_read(1) loads_bits loads_aec_value loads_upd_status loads_return plain_registers)+)
    (simp add: reloaded_def Let_def)

abbreviation setting :: "nat \<Rightarrow> backed" where
  "setting i \<equiv> backed_settings ! i"

abbreviation settings_count :: nat where
  "settings_count \<equiv> length backed_settings"

text \<open>No two settings share a bit, and none shares one with the exposure and gain registers.\<close>

fun apart :: "byte \<times> byte \<times> nat \<times> byte \<Rightarrow> byte \<times> byte \<times> nat \<times> byte \<Rightarrow> bool" where
  "apart (bank, reg, offset, msk) (bank', reg', offset', msk') \<longleftrightarrow>
     (bank, reg) \<noteq> (bank', reg') \<or> push_bit offset msk AND push_bit offset' msk' = 0"

definition place :: "backed \<Rightarrow> byte \<times> byte \<times> nat \<times> byte" where
  "place f = (b_bank f, b_reg f, b_off f, b_msk f)"

definition other_places :: "(byte \<times> byte \<times> nat \<times> byte) list" where
  "other_places = [(BANK_SENSOR, REG45, 0, 0x3F), (BANK_SENSOR, AEC, 0, 0xFF), (BANK_SENSOR, REG04, 0, 3), (BANK_SENSOR, GAIN, 0, 0xFF)]"

definition places :: "(byte \<times> byte \<times> nat \<times> byte) list" where
  "places = map place backed_settings @ other_places"

fun all_apart :: "(byte \<times> byte \<times> nat \<times> byte) list \<Rightarrow> bool" where
  "all_apart [] \<longleftrightarrow> True"
| "all_apart (p # ps) \<longleftrightarrow> list_all (\<lambda>q. apart p q \<and> apart q p) ps \<and> all_apart ps"

lemma places_apart: "all_apart places"
  by (simp add: places_def other_places_def backed_settings_def place_def register_names)

lemma all_apart_nth: "all_apart ps \<Longrightarrow> i < length ps \<Longrightarrow> j < length ps \<Longrightarrow> i \<noteq> j \<Longrightarrow> apart (ps ! i) (ps ! j)"
proof (induction ps arbitrary: i j)
  case (Cons p ps)
  then show ?case
    by (cases i; cases j) (auto simp: list_all_length)
qed simp

text \<open>Changing one field leaves every field that is apart from it.\<close>

lemma apart_field:
  assumes "apart (bank, reg, offset, msk) (bank', reg', offset', msk')"
  shows "get_field offset' msk' (((M((bank, reg) := put_field offset msk v (M (bank, reg))))) (bank', reg')) =
    get_field offset' msk' (M (bank', reg'))"
  using assms get_put_other by auto

lemma whole_field: "get_field 0 0xFF w = w"
proof -
  have "(0xFF :: byte) = -1" by simp
  then show ?thesis by (simp only: get_field_def drop_bit_0 id_apply and.right_neutral)
qed

text \<open>The agreement, field by field.\<close>

definition read_place :: "registers \<Rightarrow> byte \<times> byte \<times> nat \<times> byte \<Rightarrow> byte" where
  "read_place M p = (case p of (bank, reg, offset, msk) \<Rightarrow> get_field offset msk (M (bank, reg)))"

lemma exposure_of_places:
  "exposure_of M = push_bit 10 (ucast (read_place M (other_places ! 0))) OR
     push_bit 2 (ucast (read_place M (other_places ! 1))) OR ucast (read_place M (other_places ! 2))"
  by (simp add: exposure_of_def read_place_def other_places_def whole_field)

lemma agrees_iff:
  "agrees (st, b, M) \<longleftrightarrow> (\<forall>i < settings_count. b_get (setting i) st = read_place M (place (setting i))) \<and>
     st_aec_value st = exposure_of M \<and> st_agc_gain st = of_nat (agc_index (read_place M (other_places ! 3)))"
  by (simp add: list_all_length read_place_def place_def other_places_def whole_field)

lemma read_place_other:
  assumes "p \<in> set places" "q \<in> set places" "p \<noteq> q" "p = (bank, reg, offset, msk)"
  shows "read_place (M((bank, reg) := put_field offset msk v (M (bank, reg)))) q = read_place M q"
proof -
  obtain i j where "p = places ! i" "q = places ! j" "i < length places" "j < length places"
    using assms(1,2) by (metis in_set_conv_nth)
  moreover have "i \<noteq> j" using calculation assms(3) by auto
  ultimately have "apart p q" using all_apart_nth [OF places_apart] by simp
  then show ?thesis using assms(4) apart_field by (cases q) (auto simp: read_place_def)
qed

lemma distinct_places: "distinct places"
  by (simp add: places_def other_places_def backed_settings_def place_def register_names)

lemma places_nth:
  "i < settings_count \<Longrightarrow> place (setting i) \<in> set places" "k < length other_places \<Longrightarrow> other_places ! k \<in> set places"
  "i < settings_count \<Longrightarrow> k < length other_places \<Longrightarrow> place (setting i) \<noteq> other_places ! k"
  "i < settings_count \<Longrightarrow> j < settings_count \<Longrightarrow> i \<noteq> j \<Longrightarrow> place (setting i) \<noteq> place (setting j)"
proof -
  show "i < settings_count \<Longrightarrow> place (setting i) \<in> set places" "k < length other_places \<Longrightarrow> other_places ! k \<in> set places"
    by (simp_all add: places_def)
  have d: "distinct (map place backed_settings @ other_places)" using distinct_places by (simp add: places_def)
  then show "i < settings_count \<Longrightarrow> k < length other_places \<Longrightarrow> place (setting i) \<noteq> other_places ! k"
    by (metis disjoint_iff distinct_append length_map nth_map nth_mem)
  show "i < settings_count \<Longrightarrow> j < settings_count \<Longrightarrow> i \<noteq> j \<Longrightarrow> place (setting i) \<noteq> place (setting j)"
    using d by (metis distinct_append length_map nth_eq_iff_index_eq nth_map)
qed

section \<open>Setters\<close>

text \<open>The contract of a setter of the driver: it notes the value in the settings and stores it in its field, after
  a change (\<open>pre\<close>) of other bits only.\<close>

locale register_setting =
  fixes setter :: "fw_env \<Rightarrow> int \<Rightarrow> ('z cam_vars_scheme, int) state"
    and upd :: "byte \<Rightarrow> camera_status_t \<Rightarrow> camera_status_t"
    and i :: nat
    and ok :: "int \<Rightarrow> bool"
    and val :: "int \<Rightarrow> byte"
    and pre :: "int \<Rightarrow> view \<Rightarrow> view"
  assumes index: "i < settings_count"
    and sets: "ok v \<Longrightarrow> implements slv d (setter env v) (\<lambda>a. (0, put_reg (b_bank (setting i)) (b_reg (setting i))
      (put_field (b_off (setting i)) (b_msk (setting i)) (val v)) (settle (upd (val v)) (pre v a))))"
    and fits: "ok v \<Longrightarrow> val v AND b_msk (setting i) = val v"
    and width: "drop_bit (b_off (setting i)) (push_bit (b_off (setting i)) (b_msk (setting i))) = b_msk (setting i)"
    and noted: "map (\<lambda>f. b_get f (upd x st)) backed_settings = (map (\<lambda>f. b_get f st) backed_settings)[i := x]"
    and elsewhere: "st_aec_value (upd x st) = st_aec_value st" "st_agc_gain (upd x st) = st_agc_gain st"
    and unrelated: "agrees a \<Longrightarrow> agrees (pre v a)"
begin

lemma noted_at: "j < settings_count \<Longrightarrow> b_get (setting j) (upd x st) = (if j = i then x else b_get (setting j) st)"
  using arg_cong [OF noted, of "\<lambda>xs. xs ! j"] index by (simp add: nth_list_update)

lemma stores_agreeing:
  assumes "ok v" "agrees (st, b, M)"
  shows "agrees (put_reg (b_bank (setting i)) (b_reg (setting i)) (put_field (b_off (setting i)) (b_msk (setting i)) (val v))
    (settle (upd (val v)) (st, b, M)))"
proof -
  let ?M = "M((b_bank (setting i), b_reg (setting i)) :=
    put_field (b_off (setting i)) (b_msk (setting i)) (val v) (M (b_bank (setting i), b_reg (setting i))))"
  have own: "read_place ?M (place (setting i)) = val v"
    using fits [OF assms(1)] by (simp add: read_place_def place_def get_put_field width)
  have other: "read_place ?M q = read_place M q" if "q \<in> set places" "place (setting i) \<noteq> q" for q
    by (rule read_place_other [OF places_nth(1) [OF index] that]) (simp add: place_def)
  have rest: "read_place ?M (other_places ! k) = read_place M (other_places ! k)" if "k < 4" for k
    using that by (intro other places_nth index) (simp_all add: other_places_def)
  have fields: "read_place ?M (place (setting j)) = (if j = i then val v else read_place M (place (setting j)))"
    if "j < settings_count" for j
    using own other [OF places_nth(1) [OF that]] places_nth(4) [OF index that] by auto
  have "agrees (upd (val v) st, b_bank (setting i), ?M)"
    using assms(2) fields rest [of 0] rest [of 1] rest [of 2] rest [of 3] noted_at elsewhere unfolding agrees_iff exposure_of_places by simp
  then show ?thesis by (simp add: put_reg_def settle_def)
qed

lemma keeps_agreement:
  assumes "ok v" "run_state (setter env v) s = (x, s')" "honest slv d (trace s')" "linked slv d s" "agrees (view slv d s)"
  shows "x = 0 \<and> linked slv d s' \<and> agrees (view slv d s')"
proof -
  obtain st b M where a: "pre v (view slv d s) = (st, b, M)" by (metis prod_cases3)
  have "agrees (st, b, M)" using unrelated [OF assms(5)] a by metis
  from stores_agreeing [OF assms(1) this] show ?thesis
    using implementsD [OF sets [OF assms(1)] assms(2,3,4)] a by auto
qed

end

text \<open>The interpretations.  A flag is 0 or 1; the gain ceiling one of the sensor's eight; the quality is clamped.\<close>

definition is_flag :: "int \<Rightarrow> bool" where
  "is_flag v \<longleftrightarrow> v = 0 \<or> v = 1"

definition unchanged :: "int \<Rightarrow> view \<Rightarrow> view" where
  "unchanged v a = a"

lemma u8_flag: "is_flag v \<Longrightarrow> u8 (flag v) = u8 v" "is_flag v \<Longrightarrow> u8 v AND 1 = u8 v"
  by (auto simp: is_flag_def flag_def)

lemma masked_flag:
  "is_flag v \<Longrightarrow> put_field 0 (push_bit offset 1) (if flag v \<noteq> 0 then push_bit offset 1 else 0) = put_field offset 1 (u8 v)"
  using put_mask [of offset 1] by (auto simp: is_flag_def flag_def fun_eq_iff)

lemma implements_flags:
  assumes "is_flag v"
  shows "implements slv d (set_awb_dsp env v) (\<lambda>a. (0, put_reg BANK_DSP CTRL1 (put_field 3 1 (u8 v)) (settle (\<lambda>st. st\<lparr>st_awb := u8 v\<rparr>) a)))"
    "implements slv d (set_awb_gain_dsp env v) (\<lambda>a. (0, put_reg BANK_DSP CTRL1 (put_field 2 1 (u8 v)) (settle (\<lambda>st. st\<lparr>st_awb_gain := u8 v\<rparr>) a)))"
    "implements slv d (set_bpc_dsp env v) (\<lambda>a. (0, put_reg BANK_DSP CTRL3 (put_field 7 1 (u8 v)) (settle (\<lambda>st. st\<lparr>st_bpc := u8 v\<rparr>) a)))"
    "implements slv d (set_wpc_dsp env v) (\<lambda>a. (0, put_reg BANK_DSP CTRL3 (put_field 6 1 (u8 v)) (settle (\<lambda>st. st\<lparr>st_wpc := u8 v\<rparr>) a)))"
    "implements slv d (set_raw_gma_dsp env v) (\<lambda>a. (0, put_reg BANK_DSP CTRL1 (put_field 5 1 (u8 v)) (settle (\<lambda>st. st\<lparr>st_raw_gma := u8 v\<rparr>) a)))"
    "implements slv d (set_lenc_dsp env v) (\<lambda>a. (0, put_reg BANK_DSP CTRL1 (put_field 1 1 (u8 v)) (settle (\<lambda>st. st\<lparr>st_lenc := u8 v\<rparr>) a)))"
    "implements slv d (set_dcw_dsp env v) (\<lambda>a. (0, put_reg BANK_DSP CTRL2 (put_field 5 1 (u8 v)) (settle (\<lambda>st. st\<lparr>st_dcw := u8 v\<rparr>) a)))"
  unfolding set_awb_dsp_def set_awb_gain_dsp_def set_bpc_dsp_def set_wpc_dsp_def set_raw_gma_dsp_def set_lenc_dsp_def set_dcw_dsp_def
  by (rule implements_as, (rule implements_intros plain_registers)+, simp add: u8_flag [OF assms])+

lemma flag_masks:
  "COM8_AGC_EN = push_bit 2 1" "COM8_AEC_EN = push_bit 0 1" "REG04_HFLIP_IMG = push_bit 7 1" "REG04_VFLIP_IMG = push_bit 6 1"
  "COM7_COLOR_BAR = push_bit 1 1"
  by (simp_all add: register_names)

lemma implements_mask_flags:
  assumes "is_flag v"
  shows "implements slv d (set_agc_sensor env v) (\<lambda>a. (0, put_reg BANK_SENSOR COM8 (put_field 2 1 (u8 v)) (settle (\<lambda>st. st\<lparr>st_agc := u8 v\<rparr>) a)))"
    "implements slv d (set_aec_sensor env v) (\<lambda>a. (0, put_reg BANK_SENSOR COM8 (put_field 0 1 (u8 v)) (settle (\<lambda>st. st\<lparr>st_aec := u8 v\<rparr>) a)))"
    "implements slv d (set_hmirror_sensor env v) (\<lambda>a. (0, put_reg BANK_SENSOR REG04 (put_field 7 1 (u8 v)) (settle (\<lambda>st. st\<lparr>st_hmirror := u8 v\<rparr>) a)))"
    "implements slv d (set_colorbar env v) (\<lambda>a. (0, put_reg BANK_SENSOR COM7 (put_field 1 1 (u8 v)) (settle (\<lambda>st. st\<lparr>st_colorbar := u8 v\<rparr>) a)))"
  unfolding set_agc_sensor_def set_aec_sensor_def set_hmirror_sensor_def set_colorbar_def flag_masks
  by (rule implements_as, (rule implements_intros plain_registers)+, simp only: masked_flag [OF assms] Let_def prod.case)+

lemmas interpret_simps = backed_settings_def u8_flag unchanged_def implements_flags implements_mask_flags

interpretation awb: register_setting set_awb_dsp "\<lambda>x st. st\<lparr>st_awb := x\<rparr>" 2 is_flag u8 unchanged
  by unfold_locales (simp_all add: interpret_simps)

interpretation awb_gain: register_setting set_awb_gain_dsp "\<lambda>x st. st\<lparr>st_awb_gain := x\<rparr>" 3 is_flag u8 unchanged
  by unfold_locales (simp_all add: interpret_simps [simplified])

interpretation aec: register_setting set_aec_sensor "\<lambda>x st. st\<lparr>st_aec := x\<rparr>" 4 is_flag u8 unchanged
  by unfold_locales (simp_all add: interpret_simps [simplified])

interpretation agc: register_setting set_agc_sensor "\<lambda>x st. st\<lparr>st_agc := x\<rparr>" 5 is_flag u8 unchanged
  by unfold_locales (simp_all add: interpret_simps [simplified])

interpretation bpc: register_setting set_bpc_dsp "\<lambda>x st. st\<lparr>st_bpc := x\<rparr>" 6 is_flag u8 unchanged
  by unfold_locales (simp_all add: interpret_simps [simplified])

interpretation wpc: register_setting set_wpc_dsp "\<lambda>x st. st\<lparr>st_wpc := x\<rparr>" 7 is_flag u8 unchanged
  by unfold_locales (simp_all add: interpret_simps [simplified])

interpretation raw_gma: register_setting set_raw_gma_dsp "\<lambda>x st. st\<lparr>st_raw_gma := x\<rparr>" 8 is_flag u8 unchanged
  by unfold_locales (simp_all add: interpret_simps [simplified])

interpretation lenc: register_setting set_lenc_dsp "\<lambda>x st. st\<lparr>st_lenc := x\<rparr>" 9 is_flag u8 unchanged
  by unfold_locales (simp_all add: interpret_simps [simplified])

interpretation hmirror: register_setting set_hmirror_sensor "\<lambda>x st. st\<lparr>st_hmirror := x\<rparr>" 10 is_flag u8 unchanged
  by unfold_locales (simp_all add: interpret_simps [simplified])

interpretation dcw: register_setting set_dcw_dsp "\<lambda>x st. st\<lparr>st_dcw := x\<rparr>" 12 is_flag u8 unchanged
  by unfold_locales (simp_all add: interpret_simps [simplified])

interpretation colorbar: register_setting set_colorbar "\<lambda>x st. st\<lparr>st_colorbar := x\<rparr>" 13 is_flag u8 unchanged
  by unfold_locales (simp_all add: interpret_simps [simplified])

text \<open>The vertical flip changes two bits; the first, \<open>VREF\<close>, belongs to no setting.\<close>

definition put_vref :: "int \<Rightarrow> view \<Rightarrow> view" where
  "put_vref v = put_reg BANK_SENSOR REG04 (put_field 4 1 (u8 v))"

lemma vref_mask: "REG04_VREF_EN = push_bit 4 1"
  by (simp add: register_names)

lemma vref_apart: "q \<in> set places \<Longrightarrow> apart (BANK_SENSOR, REG04, 4, 1) q"
  by (auto simp: places_def other_places_def backed_settings_def place_def register_names)

lemma put_vref_agrees: "agrees a \<Longrightarrow> agrees (put_vref v a)"
proof -
  assume agr: "agrees a"
  obtain st b M where a: "a = (st, b, M)" by (metis prod_cases3)
  let ?M = "M((BANK_SENSOR, REG04) := put_field 4 1 (u8 v) (M (BANK_SENSOR, REG04)))"
  have other: "read_place ?M q = read_place M q" if "q \<in> set places" for q
    using apart_field vref_apart [OF that] by (cases q) (auto simp: read_place_def)
  have rest: "read_place ?M (other_places ! k) = read_place M (other_places ! k)" if "k < 4" for k
    using that by (intro other places_nth) (simp_all add: other_places_def)
  have "agrees (st, BANK_SENSOR, ?M)"
    using agr other [OF places_nth(1)] rest [of 0] rest [of 1] rest [of 2] rest [of 3] unfolding a agrees_iff exposure_of_places by simp
  then show ?thesis by (simp add: a put_vref_def put_reg_def)
qed

lemma implements_vflip:
  assumes "is_flag v"
  shows "implements slv d (set_vflip_sensor env v)
    (\<lambda>a. (0, put_reg BANK_SENSOR REG04 (put_field 6 1 (u8 v)) (settle (\<lambda>st. st\<lparr>st_vflip := u8 v\<rparr>) (put_vref v a))))"
  unfolding set_vflip_sensor_def flag_masks vref_mask
  by (rule implements_as, (rule implements_intros plain_registers)+, simp only: masked_flag [OF assms] Let_def prod.case)
    (auto simp: put_vref_def put_reg_def settle_def)

interpretation vflip: register_setting set_vflip_sensor "\<lambda>x st. st\<lparr>st_vflip := x\<rparr>" 11 is_flag u8 put_vref
  by unfold_locales (simp_all add: interpret_simps implements_vflip put_vref_agrees)

lemma implements_gainceiling:
  "implements slv d (set_gainceiling_sensor env v)
    (\<lambda>a. (0, put_reg BANK_SENSOR COM9 (put_field 5 7 (u8 v)) (settle (\<lambda>st. st\<lparr>st_gainceiling := u8 v\<rparr>) a)))"
  unfolding set_gainceiling_sensor_def
  by (rule implements_as, (rule implements_intros plain_registers)+, simp)

lemma gain_fits: "0 \<le> v \<and> v \<le> 7 \<Longrightarrow> u8 v AND 7 = u8 v"
proof -
  assume "0 \<le> v \<and> v \<le> 7"
  then have "v \<in> {0, 1, 2, 3, 4, 5, 6, 7}" by auto
  then show ?thesis by auto
qed

interpretation gainceiling: register_setting set_gainceiling_sensor "\<lambda>x st. st\<lparr>st_gainceiling := x\<rparr>" 1
    "\<lambda>v. 0 \<le> v \<and> v \<le> 7" u8 unchanged
  by unfold_locales (simp_all add: interpret_simps implements_gainceiling gain_fits)

lemma put_whole: "put_field 0 0xFF v = (\<lambda>_. v)"
proof
  have "(0xFF :: byte) = -1" by simp
  moreover have "put_field 0 (- 1) v w = v" for w by (simp add: put_field_def)
  ultimately show "put_field 0 0xFF v w = v" for w by metis
qed

lemma implements_quality:
  "implements slv d (set_quality env v) (\<lambda>a. (0, put_reg BANK_DSP QS (put_field 0 0xFF (u8 (clamp 63 v)))
     (settle (\<lambda>st. st\<lparr>st_quality := u8 (clamp 63 v)\<rparr>) a)))"
  unfolding set_quality_def Let_def put_whole
  by (rule implements_as, (rule implements_intros plain_registers)+, simp)

lemma whole_and: "v AND 0xFF = (v :: byte)"
proof -
  have "(0xFF :: byte) = -1" by simp
  then show ?thesis by (simp only: and.right_neutral)
qed

interpretation quality: register_setting set_quality "\<lambda>x st. st\<lparr>st_quality := x\<rparr>" 0 "\<lambda>_. True" "\<lambda>v. u8 (clamp 63 v)" unchanged
  by unfold_locales (simp_all add: interpret_simps implements_quality whole_and)

section \<open>Exposure and gain\<close>

definition store_place :: "byte \<times> byte \<times> nat \<times> byte \<Rightarrow> byte \<Rightarrow> registers \<Rightarrow> registers" where
  "store_place p v M = (case p of (bank, reg, offset, msk) \<Rightarrow> M((bank, reg) := put_field offset msk v (M (bank, reg))))"

lemma read_store_other: "p \<in> set places \<Longrightarrow> q \<in> set places \<Longrightarrow> p \<noteq> q \<Longrightarrow> read_place (store_place p v M) q = read_place M q"
  by (cases p) (simp add: store_place_def read_place_other)

lemma read_store_rest: "k < length other_places \<Longrightarrow> read_place (store_place (other_places ! k) v M) (other_places ! k) = v AND snd (snd (snd (other_places ! k)))"
  by (auto simp: other_places_def less_Suc_eq read_place_def store_place_def get_put_field)

lemma other_places_distinct: "j < 4 \<Longrightarrow> k < 4 \<Longrightarrow> j \<noteq> k \<Longrightarrow> other_places ! j \<noteq> other_places ! k"
  using distinct_places nth_eq_iff_index_eq [of other_places j k] by (simp add: places_def) (simp add: other_places_def)

lemma other_places_length [simp]: "length other_places = 4"
  by (simp add: other_places_def)

lemma fields_kept: "i < settings_count \<Longrightarrow> k < 4 \<Longrightarrow> read_place (store_place (other_places ! k) v M) (place (setting i)) = read_place M (place (setting i))"
  by (rule read_store_other) (auto simp: places_nth dest: places_nth(3) [symmetric])

lemma rest_kept: "j < 4 \<Longrightarrow> k < 4 \<Longrightarrow> j \<noteq> k \<Longrightarrow> read_place (store_place (other_places ! k) v M) (other_places ! j) = read_place M (other_places ! j)"
  by (rule read_store_other) (auto simp: places_nth other_places_distinct)

lemma put_store: "put_reg bank reg (put_field offset msk v) (st, b, M) = (st, bank, store_place (bank, reg, offset, msk) v M)"
  by (simp add: put_reg_def store_place_def)

lemma exposure_word:
  assumes "0 \<le> v" "v < 65536"
  shows "push_bit 10 (ucast (u8 (drop_bit 10 v) AND 0x3F)) OR push_bit 2 (ucast (u8 (drop_bit 2 v AND 0xFF) AND 0xFF)) OR
    ucast (u8 (v AND 3) AND 3) = (word_of_int v :: u16)"
proof -
  have masks: "(0x3F :: byte) = mask 6" "(0xFF :: byte) = mask 8" "(3 :: byte) = mask 2" "(0xFF :: int) = mask 8" "(3 :: int) = mask 2"
    by (simp_all add: mask_eq_exp_minus_1)
  show ?thesis unfolding masks
  proof (rule bit_eqI)
    fix n assume n: "possible_bit TYPE(16 word) n"
    have high: "10 \<le> n \<Longrightarrow> 10 + (n - 10) = n" and mid: "2 \<le> n \<Longrightarrow> Suc (Suc (n - 2)) = n" by simp_all
    consider "n < 2" | "2 \<le> n" "n < 10" | "10 \<le> n" by linarith
    then show "bit (push_bit 10 (ucast (u8 (drop_bit 10 v) AND mask 6)) OR push_bit 2 (ucast (u8 (drop_bit 2 v AND mask 8) AND mask 8)) OR
      ucast (u8 (v AND mask 2) AND mask 2) :: u16) n = bit (word_of_int v :: u16) n"
      by cases (use n in \<open>auto simp: bit_simps high mid\<close>)
  qed
qed

lemma implements_aec_value:
  "implements slv d (set_aec_value env v) (\<lambda>(st, b, M). (0, (st\<lparr>st_aec_value := word_of_int (clamp 1200 v)\<rparr>, BANK_SENSOR,
     store_place (other_places ! 0) (u8 (drop_bit 10 (clamp 1200 v)))
       (store_place (other_places ! 1) (u8 (drop_bit 2 (clamp 1200 v) AND 0xFF))
         (store_place (other_places ! 2) (u8 (clamp 1200 v AND 3)) M)))))"
  unfolding set_aec_value_def Let_def
  by (rule implements_as, (rule implements_intros plain_registers)+)
    (auto simp: settle_def put_reg_def store_place_def other_places_def put_whole)

lemma clamp_bounds: "0 \<le> hi \<Longrightarrow> 0 \<le> clamp hi v \<and> clamp hi v \<le> hi"
  by (simp add: clamp_def)

lemma aec_value_agrees:
  assumes "agrees (st, b, M)"
  shows "agrees (st\<lparr>st_aec_value := word_of_int (clamp 1200 v)\<rparr>, BANK_SENSOR,
     store_place (other_places ! 0) (u8 (drop_bit 10 (clamp 1200 v)))
       (store_place (other_places ! 1) (u8 (drop_bit 2 (clamp 1200 v) AND 0xFF))
         (store_place (other_places ! 2) (u8 (clamp 1200 v AND 3)) M)))"
proof -
  have "b_get (setting i) (st\<lparr>st_aec_value := x\<rparr>) = b_get (setting i) st" if "i < settings_count" for i x
    using that by (auto simp: backed_settings_def less_Suc_eq)
  moreover have "word_of_int (clamp 1200 v) = push_bit 10 (ucast (u8 (drop_bit 10 (clamp 1200 v)) AND 0x3F)) OR
      push_bit 2 (ucast (u8 (drop_bit 2 (clamp 1200 v) AND 0xFF) AND 0xFF)) OR (ucast (u8 (clamp 1200 v AND 3) AND 3) :: u16)"
    by (rule exposure_word [symmetric]) (use clamp_bounds [of 1200 v] in auto)
  moreover have "snd (snd (snd (other_places ! 0))) = 0x3F" "snd (snd (snd (other_places ! 1))) = 0xFF" "snd (snd (snd (other_places ! 2))) = 3"
    by (simp_all add: other_places_def)
  ultimately show ?thesis
    using assms unfolding agrees_iff exposure_of_places by (simp add: fields_kept rest_kept read_store_rest)
qed

lemma implements_agc_gain:
  "implements slv d (set_agc_gain env v) (\<lambda>(st, b, M). (0, (st\<lparr>st_agc_gain := u8 (clamp 30 v)\<rparr>, BANK_SENSOR,
     store_place (other_places ! 3) (agc_gain_tbl ! nat (clamp 30 v)) M)))"
  unfolding set_agc_gain_def Let_def
  by (rule implements_as, (rule implements_intros plain_registers)+)
    (auto simp: settle_def put_reg_def store_place_def other_places_def put_whole)

text \<open>The index that \<open>init_status\<close> finds for a gain of the table is the gain's index.\<close>

lemma agc_index_tbl: "i \<le> 30 \<Longrightarrow> agc_index (agc_gain_tbl ! i) = i"
proof -
  assume "i \<le> 30"
  then have "i < 31" by simp
  moreover have "\<forall>i \<in> {..<31}. agc_index (agc_gain_tbl ! i) = i" by code_simp
  ultimately show ?thesis by simp
qed

lemma agc_gain_agrees:
  assumes "agrees (st, b, M)"
  shows "agrees (st\<lparr>st_agc_gain := u8 (clamp 30 v)\<rparr>, BANK_SENSOR, store_place (other_places ! 3) (agc_gain_tbl ! nat (clamp 30 v)) M)"
proof -
  have "b_get (setting i) (st\<lparr>st_agc_gain := x\<rparr>) = b_get (setting i) st" if "i < settings_count" for i x
    using that by (auto simp: backed_settings_def less_Suc_eq)
  moreover have "snd (snd (snd (other_places ! 3))) = 0xFF" by (simp add: other_places_def)
  moreover have "agc_index (agc_gain_tbl ! nat (clamp 30 v)) = nat (clamp 30 v)" "int (nat (clamp 30 v)) = clamp 30 v"
    using clamp_bounds [of 30 v] by (auto intro: agc_index_tbl)
  moreover have "u8 (clamp 30 v) = of_nat (nat (clamp 30 v))" using calculation(4) by (metis of_int_of_nat_eq)
  ultimately show ?thesis
    using assms unfolding agrees_iff exposure_of_places by (simp add: fields_kept rest_kept read_store_rest whole_and)
qed

section \<open>Sequences of settings\<close>

text \<open>\<open>coherent m\<close>: on an honest bus \<open>m\<close> keeps the settings and the registers in agreement.\<close>

definition coherent :: "byte \<Rightarrow> ov_device \<Rightarrow> ('z cam_vars_scheme, 'a) state \<Rightarrow> bool" where
  "coherent slv d m \<longleftrightarrow> only (\<lambda>_. True) m \<and>
     (\<forall>s x s'. run_state m s = (x, s') \<longrightarrow> honest slv d (trace s') \<longrightarrow> linked slv d s \<longrightarrow> agrees (view slv d s) \<longrightarrow>
        linked slv d s' \<and> agrees (view slv d s'))"

lemma coherentI: "implements slv d m f \<Longrightarrow> (\<And>a. agrees a \<Longrightarrow> agrees (snd (f a))) \<Longrightarrow> coherent slv d m"
  unfolding coherent_def implements_def by (metis snd_conv)

lemma coherent_from:
  assumes "implements slv d m (\<lambda>(st, b, M). (x, h st b M))" "\<And>st b M. agrees (st, b, M) \<Longrightarrow> agrees (h st b M)"
  shows "coherent slv d m"
proof (rule coherentI [OF assms(1)])
  show "agrees (snd (case a of (st, b, M) \<Rightarrow> (x, h st b M)))" if "agrees a" for a
    using that assms(2) by (cases a) (simp del: agrees.simps)
qed

lemma coherent_bind:
  assumes "coherent slv d m" "\<And>x. coherent slv d (f x)"
  shows "coherent slv d (State_Monad.bind m f)"
  unfolding coherent_def
proof (intro conjI allI impI)
  show "only (\<lambda>_. True) (State_Monad.bind m f)" using assms by (intro only_intros) (simp_all add: coherent_def)
  fix s y u
  assume run: "run_state (State_Monad.bind m f) s = (y, u)" and hon: "honest slv d (trace u)"
    and pre: "linked slv d s" "agrees (view slv d s)"
  obtain x t where t: "run_state m s = (x, t)" "run_state (f x) t = (y, u)" using run by (rule run_bindE)
  have "only (\<lambda>_. True) (f x)" using assms(2) by (simp add: coherent_def)
  then obtain tr where "trace u = trace t @ tr" using t(2) by (rule onlyD)
  then have "honest slv d (trace t)" using hon by (simp add: honest_append)
  then have "linked slv d t" "agrees (view slv d t)" using assms(1) t(1) pre unfolding coherent_def by blast+
  then show "linked slv d u" "agrees (view slv d u)" using assms(2) t(2) hon unfolding coherent_def by blast+
qed

lemma coherent_return: "coherent slv d (return x)"
  by (rule coherentI [OF implements_return]) simp

lemma coherent_if: "(c \<Longrightarrow> coherent slv d m) \<Longrightarrow> (\<not> c \<Longrightarrow> coherent slv d n) \<Longrightarrow> coherent slv d (if c then m else n)"
  by simp

lemma coherent_or_return: "coherent slv d m \<Longrightarrow> coherent slv d k \<Longrightarrow> coherent slv d (or_return m k)"
  unfolding or_return_def by (intro coherent_bind coherent_if coherent_return)

text \<open>Registers that hold no setting, and settings that no register holds.\<close>

definition free_register :: "byte \<Rightarrow> byte \<Rightarrow> bool" where
  "free_register bank reg \<longleftrightarrow> reg \<noteq> BANK_SEL \<and> list_all (\<lambda>(bank', reg', _). (bank, reg) \<noteq> (bank', reg')) places"

lemma free_register_agrees: "free_register bank reg \<Longrightarrow> agrees a \<Longrightarrow> agrees (put_reg bank reg f a)"
proof -
  assume free: "free_register bank reg" and agr: "agrees a"
  obtain st b M where a: "a = (st, b, M)" by (metis prod_cases3)
  have other: "read_place (M((bank, reg) := w)) q = read_place M q" if "q \<in> set places" for q w
    using free that by (cases q) (auto simp: free_register_def list_all_iff read_place_def)
  have rest: "read_place (M((bank, reg) := w)) (other_places ! k) = read_place M (other_places ! k)" if "k < 4" for k w
    using that by (intro other places_nth) simp
  have "agrees (st, bank, M((bank, reg) := w))" for w
    using agr other [OF places_nth(1)] rest [of 0] rest [of 1] rest [of 2] rest [of 3] unfolding a agrees_iff exposure_of_places by simp
  then show ?thesis by (simp add: a put_reg_def)
qed

lemma coherent_write_reg: "free_register bank reg \<Longrightarrow> coherent slv d (write_reg env bank reg v)"
  "free_register bank reg \<Longrightarrow> coherent slv d (set_reg_bits env bank reg offset msk v)"
  by (rule coherentI [OF implements_write_reg] coherentI [OF implements_set_reg_bits];
      auto simp: free_register_agrees; simp add: free_register_def)+

lemma coherent_write_pairs: "list_all (\<lambda>(reg, v). free_register bank reg) rvs \<Longrightarrow> coherent slv d (write_pairs env bank rvs)"
  by (induction env bank rvs rule: write_pairs.induct) (auto intro!: coherent_return coherent_or_return coherent_write_reg)

lemma coherent_upd_status:
  assumes "\<And>st. map (\<lambda>x. b_get x (f st)) backed_settings = map (\<lambda>x. b_get x st) backed_settings"
    "\<And>st. st_aec_value (f st) = st_aec_value st" "\<And>st. st_agc_gain (f st) = st_agc_gain st"
  shows "coherent slv d (upd_status f)"
proof (rule coherentI [OF implements_upd_status])
  fix a assume agr: "agrees a"
  obtain st b M where a: "a = (st, b, M)" by (metis prod_cases3)
  have "b_get (setting i) (f st) = b_get (setting i) st" if "i < settings_count" for i
    using arg_cong [OF assms(1), of "\<lambda>xs. xs ! i"] that by simp
  then show "agrees (snd ((), settle f a))" using agr assms(2,3) by (simp add: a settle_def agrees_iff del: agrees.simps)
qed

context register_setting begin

lemma coherent_setter: "ok v \<Longrightarrow> coherent slv d (setter env v)"
proof (rule coherentI [OF sets])
  fix a assume "ok v" "agrees a"
  obtain st b M where a: "pre v a = (st, b, M)" by (metis prod_cases3)
  then have "agrees (st, b, M)" using unrelated [OF \<open>agrees a\<close>] by metis
  from stores_agreeing [OF \<open>ok v\<close> this] show "agrees (snd (0, put_reg (b_bank (setting i)) (b_reg (setting i))
      (put_field (b_off (setting i)) (b_msk (setting i)) (val v)) (settle (upd (val v)) (pre v a))))"
    by (simp add: a)
qed

end

text \<open>The operations that keep the agreement: every setting of a legal value.  Reset, pixel format and frame size load
  whole register tables and are followed by \<open>init_status\<close> where the driver uses them.\<close>

fun regular :: "sensor_op \<Rightarrow> bool" where
  "regular Reset_sensor \<longleftrightarrow> False"
| "regular (Set_pixformat pf) \<longleftrightarrow> False"
| "regular (Set_framesize fs) \<longleftrightarrow> False"
| "regular (Set_gainceiling v) \<longleftrightarrow> 0 \<le> v \<and> v \<le> 7"
| "regular (Set_colorbar v) \<longleftrightarrow> is_flag v"
| "regular (Set_whitebal v) \<longleftrightarrow> is_flag v"
| "regular (Set_gain_ctrl v) \<longleftrightarrow> is_flag v"
| "regular (Set_exposure_ctrl v) \<longleftrightarrow> is_flag v"
| "regular (Set_hmirror v) \<longleftrightarrow> is_flag v"
| "regular (Set_vflip v) \<longleftrightarrow> is_flag v"
| "regular (Set_awb_gain v) \<longleftrightarrow> is_flag v"
| "regular (Set_dcw v) \<longleftrightarrow> is_flag v"
| "regular (Set_bpc v) \<longleftrightarrow> is_flag v"
| "regular (Set_wpc v) \<longleftrightarrow> is_flag v"
| "regular (Set_raw_gma v) \<longleftrightarrow> is_flag v"
| "regular (Set_lenc v) \<longleftrightarrow> is_flag v"
| "regular _ \<longleftrightarrow> True"

lemma coherent_exposure_gain: "coherent slv d (set_aec_value env v)" "coherent slv d (set_agc_gain env v)"
  by (rule coherent_from [OF implements_aec_value aec_value_agrees], assumption)
    (rule coherent_from [OF implements_agc_gain agc_gain_agrees], assumption)

lemma init_status_agrees:
  assumes "run_state (init_status env) s = (x, s')" "honest slv d (trace s')" "linked slv d s"
  shows "x = 0 \<and> linked slv d s' \<and> agrees (view slv d s')"
proof -
  obtain c where c: "implements slv d (init_status env :: ('a cam_vars_scheme, int) state)
      (\<lambda>(st, b, M). (0, (reloaded M st, c b M, M)))"
    by (rule exE [OF init_status_loads [unfolded loads_def]])
  have "agrees (reloaded M st, b, M)" for M st b
    by (simp add: reloaded_def Let_def backed_settings_def whole_field)
  moreover obtain st b M where "view slv d s = (st, b, M)" by (metis prod_cases3)
  then have "x = 0" "linked slv d s'" "view slv d s' = (reloaded M st, c b M, M)"
    using implementsD [OF c assms] by auto
  ultimately show ?thesis by metis
qed

lemma only_init_status: "only (\<lambda>_. True) (init_status env :: ('z cam_vars_scheme, int) state)"
  using init_status_loads [where 'a = 'z, of 0 undefined env] unfolding loads_def implements_def by blast

lemma coherent_init_status: "coherent slv d (init_status env)"
  unfolding coherent_def using only_init_status init_status_agrees by blast

lemmas level_tables = contrast_regs_def brightness_regs_def saturation_regs_def special_effects_regs_def wb_modes_regs_def ae_levels_regs_def
  level_row_def

lemma free_registers:
  "free_register BANK_DSP BPADDR" "free_register BANK_DSP BPDATA" "free_register BANK_SENSOR AEW" "free_register BANK_SENSOR AEB"
  "free_register BANK_SENSOR VV" "free_register BANK_DSP CTRL0" "free_register BANK_DSP 0xC7" "free_register BANK_DSP 0xCC"
  "free_register BANK_DSP 0xCD" "free_register BANK_DSP 0xCE"
  by (simp_all add: free_register_def places_def other_places_def backed_settings_def place_def register_names BPADDR_def BPDATA_def
      AEW_def AEB_def VV_def)

lemma free_zip: "list_all (free_register bank) rs \<Longrightarrow> list_all (\<lambda>(reg, v). free_register bank reg) (zip rs vs)"
  by (auto simp: list_all_iff dest: set_zip_leftD)

lemma coherent_levels:
  "coherent slv d (set_contrast env v)" "coherent slv d (set_brightness env v)" "coherent slv d (set_saturation env v)"
  "coherent slv d (set_special_effect env v)" "coherent slv d (set_wb_mode env v)" "coherent slv d (set_ae_level env v)"
  "coherent slv d (set_aec2 env v)"
proof -
  have table: "coherent slv d (write_pairs env bank (level_row regs n))" if "list_all (free_register bank) (regs ! 0)" for bank regs n
    unfolding level_row_def by (rule coherent_write_pairs [OF free_zip [OF that]])
  have tables: "list_all (free_register BANK_DSP) (contrast_regs ! 0)" "list_all (free_register BANK_DSP) (brightness_regs ! 0)"
    "list_all (free_register BANK_DSP) (saturation_regs ! 0)" "list_all (free_register BANK_DSP) (special_effects_regs ! 0)"
    "list_all (free_register BANK_DSP) (wb_modes_regs ! 0)" "list_all (free_register BANK_SENSOR) (ae_levels_regs ! 0)"
    by (simp_all add: level_tables free_registers)
  show "coherent slv d (set_contrast env v)" "coherent slv d (set_brightness env v)" "coherent slv d (set_saturation env v)"
    "coherent slv d (set_special_effect env v)" "coherent slv d (set_wb_mode env v)" "coherent slv d (set_ae_level env v)"
    "coherent slv d (set_aec2 env v)"
    unfolding set_contrast_def set_brightness_def set_saturation_def set_special_effect_def set_wb_mode_def set_ae_level_def
      set_aec2_def Let_def
    by (intro coherent_if coherent_return coherent_bind coherent_upd_status coherent_or_return coherent_write_reg table tables
        free_registers; simp add: backed_settings_def)+
qed

lemma regular_coherent: "regular sop \<Longrightarrow> coherent slv d (ov2640_ops env sop)"
  by (cases sop) (auto intro: coherent_levels coherent_exposure_gain coherent_init_status coherent_return
      awb.coherent_setter awb_gain.coherent_setter aec.coherent_setter agc.coherent_setter bpc.coherent_setter wpc.coherent_setter
      raw_gma.coherent_setter lenc.coherent_setter hmirror.coherent_setter vflip.coherent_setter dcw.coherent_setter
      colorbar.coherent_setter quality.coherent_setter gainceiling.coherent_setter simp: set_sharpness_def set_denoise_def)

text \<open>A sequence of calls through the sensor's function pointers.\<close>

fun ov2640_session :: "fw_env \<Rightarrow> sensor_op list \<Rightarrow> ('z cam_vars_scheme, unit) state" where
  "ov2640_session env [] = return ()"
| "ov2640_session env (sop # sops) = do { _ \<leftarrow> ov2640_ops env sop; ov2640_session env sops }"

lemma session_coherent: "list_all regular ops \<Longrightarrow> coherent slv d (ov2640_session env ops)"
  by (induction ops) (auto intro!: coherent_return coherent_bind regular_coherent)


definition blank_device :: ov_device where
  "blank_device = \<lparr>dev_bank = BANK_DSP, dev_ptr = 0, dev_regs = (\<lambda>_. 0)\<rparr>"

definition quiet_bus :: fw_env where
  "quiet_bus k c = (ret_int 0)\<lparr>rdata := [0]\<rparr>"

definition blank_camera :: fw where
  "blank_camera = boot\<lparr>s_state := Some (zero_sensor\<lparr>slv_addr := OV2640_SCCB_ADDR\<rparr>), reg_bank := BANK_DSP\<rparr>"

lemma gain_zero: "agc_index 0 = 0"
  using agc_index_tbl [of 0] by (simp add: agc_gain_tbl_def)


text \<open>The one setting that does not survive a round trip: \<open>set_aec2\<close> writes the negation of its argument into the register
  and the argument into the status, while \<open>init_status\<close> reads the register as it is, so after switching the
  exposure algorithm on (or off) the settings report it as off (or on).\<close>

theorem aec2_reads_inverted:
  assumes "run_state (do { _ \<leftarrow> set_aec2 env v; init_status env }) s = (x, s')" "honest slv d (trace s')" "linked slv d s"
    "is_flag v"
  shows "st_aec2 (status (sensor s')) = u8 (1 - v)"
proof -
  have set: "implements slv d (set_aec2 env v :: ('a cam_vars_scheme, int) state)
      (\<lambda>a. (0, put_reg BANK_DSP CTRL0 (put_field 6 1 (u8 (1 - v))) (settle (\<lambda>st. st\<lparr>st_aec2 := u8 v\<rparr>) a)))"
    unfolding set_aec2_def
    by (rule implements_as, (rule implements_intros plain_registers)+) (use assms(4) in \<open>auto simp: is_flag_def\<close>)
  obtain c where load: "implements slv d (init_status env :: ('a cam_vars_scheme, int) state)
      (\<lambda>(st, b, M). (0, (reloaded M st, c b M, M)))"
    by (rule exE [OF init_status_loads [unfolded loads_def]])
  obtain st b M where "view slv d s = (st, b, M)" by (metis prod_cases3)
  then have "fst (view slv d s') = reloaded (M((BANK_DSP, CTRL0) := put_field 6 1 (u8 (1 - v)) (M (BANK_DSP, CTRL0)))) (st\<lparr>st_aec2 := u8 v\<rparr>)"
    using implementsD [OF implements_bind [OF set load] assms(1-3)] by (auto simp: put_reg_def settle_def dest!: arg_cong [of _ _ fst])
  moreover have "get_field 6 1 (put_field 6 1 (u8 (1 - v)) w) = u8 (1 - v)" for w
    using assms(4) by (auto simp: get_put_field is_flag_def)
  ultimately show ?thesis by (simp add: view_def reloaded_def Let_def)
qed

lemmas bus_execution = set_bank_def write_byte_def read_reg_byte_def write_bus_write read_bus_read run_call quiet_bus_def upd_status_def
  upd_sensor_def sensor_def dev_bus_write dev_bus_select dev_bus_read blank_device_def bus_not_read register_names

theorem aec2_reads_inverted_witness:
  "st_aec2 (status (sensor (snd (run_state (do { _ \<leftarrow> set_aec2 quiet_bus 1; init_status quiet_bus }) blank_camera)))) = 0"
proof -
  obtain x s' where run: "run_state (do { _ \<leftarrow> set_aec2 quiet_bus 1; init_status quiet_bus }) blank_camera = (x, s')" by (meson surj_pair)
  have start: "linked OV2640_SCCB_ADDR blank_device blank_camera"
    by (simp add: linked_def blank_camera_def blank_device_def boot_def device_def sensor_def)
  have "honest OV2640_SCCB_ADDR blank_device (trace (snd (run_state (do { _ \<leftarrow> set_aec2 quiet_bus 1; init_status quiet_bus }) blank_camera)))"
    by (simp add: run_basic blank_camera_def boot_def set_aec2_def init_status_def load_bits_def load_aec_value_def
        get_reg_bits_def read_reg_def set_reg_bits_def or_return_def bus_execution read_byte_def)
  then show ?thesis using aec2_reads_inverted [OF run _ start] run by (simp add: is_flag_def)
qed

end
