(* ===== verification/WideDevice.thy ===== *)
theory WideDevice
  imports Ov2640Device SensorFrame CameraLife
begin

text \<open>
  A sensor with 16-bit register addresses at the other end of the bus, such as the OV3660 and the OV5640: a map from
  addresses to bytes.  \<open>wide_honest\<close> says that the answers in a trace are those of such a device; under it the code
  that reads and writes registers \<open>computes\<close> a function on the register map.
\<close>

section \<open>The device\<close>

type_synonym wide_regs = "u16 \<Rightarrow> byte"

record wide_dev =
  wide_ptr :: u16
  wide_map :: wide_regs

definition address :: "byte \<Rightarrow> byte \<Rightarrow> u16" where
  "address hi lo = push_bit 8 (ucast hi) OR ucast lo"

definition wide_write :: "byte \<Rightarrow> byte \<Rightarrow> byte \<Rightarrow> byte \<Rightarrow> i2c_op list" where
  "wide_write slv hi lo v =
     [I2C_START, I2C_WRITE (addr_byte slv WRITE_BIT), I2C_WRITE hi, I2C_WRITE lo, I2C_WRITE v, I2C_STOP]"

definition wide_select :: "byte \<Rightarrow> byte \<Rightarrow> byte \<Rightarrow> i2c_op list" where
  "wide_select slv hi lo = [I2C_START, I2C_WRITE (addr_byte slv WRITE_BIT), I2C_WRITE hi, I2C_WRITE lo, I2C_STOP]"

definition wide_transaction :: "byte \<Rightarrow> i2c_op list \<Rightarrow> wide_dev \<Rightarrow> wide_dev" where
  "wide_transaction slv ops d =
     (let hi = link_byte ops 2; lo = link_byte ops 3; v = link_byte ops 4
      in if ops = wide_write slv hi lo v then d\<lparr>wide_map := (wide_map d)(address hi lo := v)\<rparr>
         else if ops = wide_select slv hi lo then d\<lparr>wide_ptr := address hi lo\<rparr>
         else d)"

fun wide_step :: "byte \<Rightarrow> fw_call \<times> ret \<Rightarrow> wide_dev \<Rightarrow> wide_dev" where
  "wide_step slv (Cam (I2c_cmd_begin port ops), r) d = wide_transaction slv ops d"
| "wide_step slv _ d = d"

definition wide_device :: "byte \<Rightarrow> wide_dev \<Rightarrow> (fw_call \<times> ret) list \<Rightarrow> wide_dev" where
  "wide_device slv d tr = fold (wide_step slv) tr d"

fun wide_answered :: "byte \<Rightarrow> wide_dev \<Rightarrow> fw_call \<times> ret \<Rightarrow> bool" where
  "wide_answered slv d (Cam (I2c_cmd_begin port ops), r) \<longleftrightarrow>
     rerr r = ESP_OK \<and> (ops = bus_read slv \<longrightarrow> rdata r = [wide_map d (wide_ptr d)])"
| "wide_answered slv d _ \<longleftrightarrow> True"

fun wide_honest :: "byte \<Rightarrow> wide_dev \<Rightarrow> (fw_call \<times> ret) list \<Rightarrow> bool" where
  "wide_honest slv d [] \<longleftrightarrow> True"
| "wide_honest slv d (e # tr) \<longleftrightarrow> wide_answered slv d e \<and> wide_honest slv (wide_step slv e d) tr"

lemma wide_device_append: "wide_device slv d (tr @ tr') = wide_device slv (wide_device slv d tr) tr'"
  by (simp add: wide_device_def)

lemma wide_honest_append: "wide_honest slv d (tr @ tr') \<longleftrightarrow> wide_honest slv d tr \<and> wide_honest slv (wide_device slv d tr) tr'"
  by (induction tr arbitrary: d) (auto simp: wide_device_def)

section \<open>Code as a function on registers\<close>

definition addressed :: "byte \<Rightarrow> 'z cam_vars_scheme \<Rightarrow> bool" where
  "addressed slv s \<longleftrightarrow> (\<exists>x. s_state s = Some x \<and> slv_addr x = slv)"

definition regs_of :: "byte \<Rightarrow> wide_dev \<Rightarrow> 'z cam_vars_scheme \<Rightarrow> wide_regs" where
  "regs_of slv d s = wide_map (wide_device slv d (trace s))"

definition computes :: "byte \<Rightarrow> wide_dev \<Rightarrow> ('z cam_vars_scheme, 'a) state \<Rightarrow> (wide_regs \<Rightarrow> 'a \<times> wide_regs) \<Rightarrow> bool" where
  "computes slv d m f \<longleftrightarrow> sensor_code m \<and>
     (\<forall>s x s'. run_state m s = (x, s') \<longrightarrow> wide_honest slv d (trace s') \<longrightarrow> addressed slv s \<longrightarrow>
        (x, regs_of slv d s') = f (regs_of slv d s))"

named_theorems computes_intros "what driver code does to the registers of a wide device"

lemma code_addressed: "sensor_code m \<Longrightarrow> run_state m s = (x, s') \<Longrightarrow> addressed slv s' \<longleftrightarrow> addressed slv s"
proof -
  assume m: "sensor_code m" and run: "run_state m s = (x, s')"
  have "preserves (\<lambda>s. map_option slv_addr (s_state s)) m"
    by (rule code_preserves [OF m, where g = "\<lambda>(c, x, z). map_option (snd \<circ> snd) x"])
      (auto simp: outside_def option.map_comp comp_def)
  from preservesD [OF this run] show ?thesis by (cases "s_state s"; cases "s_state s'") (auto simp: addressed_def)
qed

lemma computesD:
  assumes "computes slv d m f" "run_state m s = (x, s')" "wide_honest slv d (trace s')" "addressed slv s"
  shows "f (regs_of slv d s) = (x, regs_of slv d s')" "addressed slv s'"
  using assms code_addressed unfolding computes_def by metis+

lemma computes_return [computes_intros]: "computes slv d (return x) (\<lambda>M. (x, M))"
  by (simp add: computes_def code_basic run_basic)

lemma computes_bind [computes_intros]:
  assumes "computes slv d m f" "\<And>x. computes slv d (g x) (h x)"
  shows "computes slv d (State_Monad.bind m g) (\<lambda>M. let (x, N) = f M in h x N)"
  unfolding computes_def
proof (intro conjI allI impI)
  show "sensor_code (State_Monad.bind m g)" using assms by (intro code_bind) (simp_all add: computes_def)
next
  fix s y u
  assume run: "run_state (State_Monad.bind m g) s = (y, u)" and hon: "wide_honest slv d (trace u)" and "addressed slv s"
  obtain x t where t: "run_state m s = (x, t)" "run_state (g x) t = (y, u)" using run by (rule run_bindE)
  have "only bus_or_delay (g x)" using assms(2) by (simp add: computes_def sensor_code_def)
  then obtain tr where "trace u = trace t @ tr" using t(2) by (rule onlyD)
  then have "wide_honest slv d (trace t)" using hon by (simp add: wide_honest_append)
  note first = computesD [OF assms(1) t(1) this \<open>addressed slv s\<close>]
  show "(y, regs_of slv d u) = (let (x, N) = f (regs_of slv d s) in h x N)"
    using computesD(1) [OF assms(2) t(2) hon first(2)] by (simp add: first(1))
qed

lemma computes_if [computes_intros]:
  "(b \<Longrightarrow> computes slv d m f) \<Longrightarrow> (\<not> b \<Longrightarrow> computes slv d n g) \<Longrightarrow> computes slv d (if b then m else n) (if b then f else g)"
  by simp

lemma computes_status [computes_intros]: "computes slv d (upd_status f) (\<lambda>M. ((), M))"
  unfolding computes_def by (auto simp: upd_status_def upd_sensor_def run_basic regs_of_def intro: code_updates(1) [unfolded upd_status_def upd_sensor_def])

lemma computes_do_when [computes_intros]: "computes slv d m (\<lambda>M. ((), f M)) \<Longrightarrow> computes slv d (do_when b m) (\<lambda>M. ((), if b then f M else M))"
  by (simp add: do_when_def computes_return)

section \<open>Register access\<close>

lemma halfword_bytes: "push_bit 8 (ucast (ucast (drop_bit 8 x) :: byte)) OR ucast (ucast x :: byte) = (x :: u16)"
proof (rule bit_eqI)
  fix n assume "possible_bit TYPE(16 word) n"
  then show "bit (push_bit 8 (ucast (ucast (drop_bit 8 x) :: byte)) OR (ucast (ucast x :: byte) :: u16)) n = bit x n"
    by (cases "n < 8") (auto simp: bit_simps)
qed

lemma big_endian_bytes: "u8_0 (LITTLETOBIG x) = ucast (drop_bit 8 x)" "u8_1 (LITTLETOBIG x) = ucast x"
proof -
  have high: "\<not> bit x (16 + n)" for n using bit_imp_le_length [of x "16 + n"] by auto
  show "u8_0 (LITTLETOBIG x) = ucast (drop_bit 8 x)" "u8_1 (LITTLETOBIG x) = ucast x"
    unfolding u8_0_def u8_1_def LITTLETOBIG_def by (rule bit_eqI, auto simp: bit_simps high)+
qed

lemma address_bytes: "address (ucast (drop_bit 8 r)) (ucast r) = r"
  by (simp add: address_def halfword_bytes)

lemma wide_bus_write: "wide_transaction slv (wide_write slv hi lo v) d = d\<lparr>wide_map := (wide_map d)(address hi lo := v)\<rparr>"
  by (simp add: wide_transaction_def wide_write_def eval_nat_numeral)

lemma wide_bus_select: "wide_transaction slv (wide_select slv hi lo) d = d\<lparr>wide_ptr := address hi lo\<rparr>"
  by (simp add: wide_transaction_def wide_write_def wide_select_def eval_nat_numeral)

lemma wide_bus_read: "wide_transaction slv (bus_read slv) d = d"
  by (simp add: wide_transaction_def wide_write_def wide_select_def bus_read_def eval_nat_numeral)

lemma wide_not_read: "wide_write slv hi lo v \<noteq> bus_read slv" "wide_select slv hi lo \<noteq> bus_read slv"
  by (simp_all add: wide_write_def wide_select_def bus_read_def)

lemma write16_bus:
  "SCCB_Write16 env slv reg v = do {
     port \<leftarrow> gets sccb_i2c_port;
     r \<leftarrow> ask env (I2c_cmd_begin port (wide_write slv (ucast (drop_bit 8 reg)) (ucast reg) v));
     return (if rerr r = ESP_OK then 0 else -1)
   }"
  unfolding SCCB_Write16_def transaction_def wide_write_def Let_def big_endian_bytes State_Monad.bind_assoc append.simps ..

lemma read16_bus:
  "SCCB_Read16 env slv reg = do {
     port \<leftarrow> gets sccb_i2c_port;
     r \<leftarrow> ask env (I2c_cmd_begin port (wide_select slv (ucast (drop_bit 8 reg)) (ucast reg)));
     if rerr r \<noteq> ESP_OK then return (-1)
     else do {
       port \<leftarrow> gets sccb_i2c_port;
       r \<leftarrow> ask env (I2c_cmd_begin port (bus_read slv));
       return (read_byte r 0)
     }
   }"
  unfolding SCCB_Read16_def transaction_def wide_select_def bus_read_def Let_def big_endian_bytes State_Monad.bind_assoc append.simps ..

lemma computes_write16 [computes_intros]: "computes slv d (write16 env reg v) (\<lambda>M. (0, M(reg := v)))"
  unfolding computes_def
proof (intro conjI allI impI)
  fix s x s'
  assume "run_state (write16 env reg v) s = (x, s')" "wide_honest slv d (trace s')" "addressed slv s"
  then show "(x, regs_of slv d s') = (0, (regs_of slv d s)(reg := v))"
    by (auto simp: write16_def run_basic write16_bus run_call regs_of_def addressed_def sensor_def wide_honest_append
      wide_device_append wide_device_def wide_bus_write address_bytes)
qed (rule code_registers)

lemma computes_read16 [computes_intros]: "computes slv d (read16 env reg) (\<lambda>M. (M reg, M))"
  unfolding computes_def
proof (intro conjI allI impI)
  fix s x s'
  assume "run_state (read16 env reg) s = (x, s')" "wide_honest slv d (trace s')" "addressed slv s"
  then show "(x, regs_of slv d s') = (regs_of slv d s reg, regs_of slv d s)"
    by (auto simp: read16_def run_basic read16_bus run_call regs_of_def addressed_def sensor_def wide_honest_append
      wide_device_append wide_device_def wide_bus_select wide_bus_read address_bytes read_byte_def split: if_splits)
qed (rule code_registers)

text \<open>Sequences of writes that all succeed.\<close>

lemma computes_as: "computes slv d m f \<Longrightarrow> (\<And>M. f M = g M) \<Longrightarrow> computes slv d m g"
  by (simp add: computes_def)

lemma computes_any_of [computes_intros]:
  "computes slv d (any_of []) (\<lambda>M. (0, M))"
  "computes slv d m (\<lambda>M. (0, f M)) \<Longrightarrow> computes slv d (any_of ms) (\<lambda>M. (0, g M)) \<Longrightarrow>
     computes slv d (any_of (m # ms)) (\<lambda>M. (0, g (f M)))"
proof -
  show "computes slv d (any_of []) (\<lambda>M. (0, M))" by (simp add: computes_return)
  assume *: "computes slv d m (\<lambda>M. (0, f M))" "computes slv d (any_of ms) (\<lambda>M. (0, g M))"
  show "computes slv d (any_of (m # ms)) (\<lambda>M. (0, g (f M)))"
    unfolding any_of.simps
    by (rule computes_as [OF computes_bind [OF *(1) computes_if [OF computes_return *(2)]]]) simp
qed

lemma computes_then_store [computes_intros]: "computes slv d m (\<lambda>M. (0, f M)) \<Longrightarrow> computes slv d (then_store m g) (\<lambda>M. (0, f M))"
  unfolding then_store_def
  by (rule computes_as [OF computes_bind [OF _ computes_bind [OF computes_do_when [OF computes_status] computes_return]]]) auto

section \<open>Manual gain and exposure of the OV3660 and OV5640\<close>

lemma computes_read_reg16 [computes_intros]:
  "computes slv d (ov_read_reg16 env r) (\<lambda>M. (push_bit 8 (uint (M r)) OR uint (M (r + 1)), M))"
  unfolding ov_read_reg16_def
  by (rule computes_as [OF computes_bind [OF computes_read16 computes_bind [OF computes_read16 computes_return]]]) simp

lemma computes_set_gain:
  "computes slv d (ov_set_agc_gain env gain)
     (\<lambda>M. (0, M(0x350A := fst (ov_gain_regs (ov_gain_clamp gain)), 0x350B := snd (ov_gain_regs (ov_gain_clamp gain)))))"
  unfolding ov_set_agc_gain_def Let_def by (rule computes_as, (rule computes_intros)+, rule refl)

lemma computes_get_gain: "computes slv d (ov_get_agc_gain env) (\<lambda>M. (ov_gain_of_regs (M 0x350A) (M 0x350B), M))"
  unfolding ov_get_agc_gain_def
  by (rule computes_as [OF computes_bind [OF computes_read16 computes_bind [OF computes_read16 computes_return]]]) simp

text \<open>The greatest exposure value: the total height of the frame, in lines.\<close>

definition max_exposure :: "wide_regs \<Rightarrow> int" where
  "max_exposure M = push_bit 8 (uint (M 0x380E)) OR uint (M 0x380F)"

definition put_exposure :: "int \<Rightarrow> wide_regs \<Rightarrow> wide_regs" where
  "put_exposure v M = M(0x3500 := fst (ov_aec_regs v), 0x3501 := fst (snd (ov_aec_regs v)), 0x3502 := snd (snd (ov_aec_regs v)))"

lemma computes_set_exposure:
  "computes slv d (ov_set_aec_value env v) (\<lambda>M. (0, put_exposure (min v (max_exposure M)) M))"
proof -
  have "computes slv d (then_store (any_of
         [write16 env 0x3500 (fst (ov_aec_regs w)), write16 env 0x3501 (fst (snd (ov_aec_regs w))),
          write16 env 0x3502 (snd (snd (ov_aec_regs w)))]) g) (\<lambda>M. (0, put_exposure w M))" for w g
    unfolding put_exposure_def by (rule computes_as, (rule computes_intros)+, rule refl)
  then show ?thesis
    unfolding ov_set_aec_value_def Let_def
    by (rule computes_as [OF computes_bind [OF computes_read_reg16]]) (simp add: max_exposure_def)
qed

lemma computes_get_exposure:
  "computes slv d (ov_get_aec_value env) (\<lambda>M. (ov_aec_of_regs (M 0x3500) (M 0x3501) (M 0x3502), M))"
  unfolding ov_get_aec_value_def
  by (rule computes_as [OF computes_bind [OF computes_read16 computes_bind [OF computes_read16 computes_bind
      [OF computes_read16 computes_return]]]]) simp

lemma gain_registers: "0 \<le> g \<Longrightarrow> g \<le> 64 \<Longrightarrow> ov_gain_of_regs (fst (ov_gain_regs g)) (snd (ov_gain_regs g)) = g"
proof -
  have "list_all (\<lambda>g. ov_gain_of_regs (fst (ov_gain_regs g)) (snd (ov_gain_regs g)) = g) [0..64]" by code_simp
  moreover assume "0 \<le> g" "g \<le> 64"
  ultimately show ?thesis by (simp add: list_all_iff)
qed

lemma low_bits: "0 \<le> v \<Longrightarrow> v < 2 ^ m \<Longrightarrow> m \<le> n \<Longrightarrow> \<not> bit (v :: int) n"
  using bit_take_bit_iff [of m v n] take_bit_int_eq_self [of v m] by auto

lemma exposure_registers:
  assumes "0 \<le> v" "v < 65536"
  shows "ov_aec_of_regs (fst (ov_aec_regs v)) (fst (snd (ov_aec_regs v))) (snd (snd (ov_aec_regs v))) = v"
proof -
  have masks: "0x0F = (mask 4 :: int)" "0xFF = (mask 8 :: int)" "0xF0 = push_bit 4 (mask 4 :: int)"
    by (simp_all add: mask_eq_exp_minus_1 push_bit_eq_mult)
  have top: "\<not> bit v n" if "16 \<le> n" for n using low_bits [OF assms(1) _ that] assms(2) by simp
  have "bit (ov_aec_of_regs (fst (ov_aec_regs v)) (fst (snd (ov_aec_regs v))) (snd (snd (ov_aec_regs v)))) n = bit v n" for n
  proof -
    consider "n < 4" | "4 \<le> n" "n < 12" | "12 \<le> n" "n < 16" | "16 \<le> n" by linarith
    then show ?thesis
      unfolding ov_aec_of_regs_def ov_aec_regs_def fst_conv snd_conv masks
      by cases (auto simp: bit_simps top)
  qed
  then show ?thesis by (simp add: bit_eq_iff)
qed

text \<open>C27 (roundtrip) Manual gain and exposure of the OV3660 and OV5640 on a sensor that acknowledges and returns its registers: after
  \<open>set_agc_gain\<close> and \<open>set_aec_value\<close>, \<open>get_agc_gain\<close> and \<open>get_aec_value\<close> read back from the registers exactly the gain, kept between
  0 and 64, and the exposure, kept at most at the frame height the sensor reports; the two settings do not disturb each other.\<close>

theorem ov_manual_exposure_round_trip:
  assumes "run_state (do { a \<leftarrow> ov_set_agc_gain env gain; b \<leftarrow> ov_set_aec_value env v;
      g \<leftarrow> ov_get_agc_gain env; e \<leftarrow> ov_get_aec_value env; return (a, b, g, e) }) s = (r, s')"
    "wide_honest slv d (trace s')" "addressed slv s" "0 \<le> v"
  shows "r = (0, 0, ov_gain_clamp gain, min v (max_exposure (regs_of slv d s)))"
proof -
  define M where "M = regs_of slv d s"
  define G where "G = M(0x350A := fst (ov_gain_regs (ov_gain_clamp gain)), 0x350B := snd (ov_gain_regs (ov_gain_clamp gain)))"
  define w where "w = min v (max_exposure M)"
  have "max_exposure G = max_exposure M" by (simp add: max_exposure_def G_def)
  moreover have "computes slv d (do { a \<leftarrow> ov_set_agc_gain env gain; b \<leftarrow> ov_set_aec_value env v;
      g \<leftarrow> ov_get_agc_gain env; e \<leftarrow> ov_get_aec_value env; return (a, b, g, e) } :: ('a cam_vars_scheme, _) state)
      (\<lambda>M. let (a, N) = (0, M(0x350A := fst (ov_gain_regs (ov_gain_clamp gain)), 0x350B := snd (ov_gain_regs (ov_gain_clamp gain)))) in
        let (b, N) = (0, put_exposure (min v (max_exposure N)) N) in
        let (g, N) = (ov_gain_of_regs (N 0x350A) (N 0x350B), N) in
        let (e, N) = (ov_aec_of_regs (N 0x3500) (N 0x3501) (N 0x3502), N) in ((a, b, g, e), N))"
    by (intro computes_bind computes_set_gain computes_set_exposure computes_get_gain computes_get_exposure computes_return)
  note result = computesD(1) [OF this assms(1-3), folded M_def, unfolded Let_def prod.case, folded G_def]
  from result [THEN arg_cong, of fst]
  have "(0, 0, ov_gain_of_regs (put_exposure (min v (max_exposure G)) G 0x350A) (put_exposure (min v (max_exposure G)) G 0x350B),
      ov_aec_of_regs (put_exposure (min v (max_exposure G)) G 0x3500) (put_exposure (min v (max_exposure G)) G 0x3501)
        (put_exposure (min v (max_exposure G)) G 0x3502)) = r"
    by (simp only: fst_conv)
  moreover have "ov_gain_of_regs (put_exposure w G 0x350A) (put_exposure w G 0x350B) = ov_gain_clamp gain"
    using gain_registers [of "ov_gain_clamp gain"] by (simp add: put_exposure_def G_def ov_gain_clamp_def split: if_splits)
  moreover have "0 \<le> max_exposure M \<and> max_exposure M < 65536"
  proof
    show "0 \<le> max_exposure M" by (simp add: max_exposure_def)
    have "max_exposure M = take_bit 16 (max_exposure M)"
      unfolding max_exposure_def by (rule bit_eqI) (auto simp: bit_simps dest: bit_imp_le_length)
    moreover have "take_bit 16 (max_exposure M) < 65536" using take_bit_int_less_exp [of 16 "max_exposure M"] by simp
    ultimately show "max_exposure M < 65536" by linarith
  qed
  then have "ov_aec_of_regs (put_exposure w G 0x3500) (put_exposure w G 0x3501) (put_exposure w G 0x3502) = w"
    using exposure_registers [of w] assms(4) unfolding w_def by (simp add: put_exposure_def min_less_iff_disj)
  ultimately show ?thesis by (simp add: w_def M_def)
qed

text \<open>A sensor that reports 1024 lines and is given a gain of 5 and an exposure of 1000: what it returns at the reads.\<close>

definition exposure_bus :: fw_env where
  "exposure_bus k c = (ret_int 0)\<lparr>rdata := [[0, 0, 0, 0x04, 0, 0x00, 0, 0, 0, 0, 0x00, 0, 0x4F, 0, 0x00, 0, 0x3E, 0, 0x80] ! k]\<rparr>"

theorem ov_manual_exposure_round_trip_witness:
  "fst (run_state (do { a \<leftarrow> ov_set_agc_gain exposure_bus 5; b \<leftarrow> ov_set_aec_value exposure_bus 1000;
      g \<leftarrow> ov_get_agc_gain exposure_bus; e \<leftarrow> ov_get_aec_value exposure_bus; return (a, b, g, e) })
    (boot\<lparr>s_state := Some zero_sensor\<rparr>)) = (0, 0, 5, 1000)"
proof -
  let ?d = "\<lparr>wide_ptr = 0, wide_map = (\<lambda>_. 0)(0x380E := 0x04)\<rparr>"
  let ?s = "boot\<lparr>s_state := Some zero_sensor\<rparr>"
  obtain r s' where run: "run_state (do { a \<leftarrow> ov_set_agc_gain exposure_bus 5; b \<leftarrow> ov_set_aec_value exposure_bus 1000;
      g \<leftarrow> ov_get_agc_gain exposure_bus; e \<leftarrow> ov_get_aec_value exposure_bus; return (a, b, g, e) }) ?s = (r, s')"
    by (meson surj_pair)
  have "wide_honest 0 ?d (trace (snd (run_state (do { a \<leftarrow> ov_set_agc_gain exposure_bus 5; b \<leftarrow> ov_set_aec_value exposure_bus 1000;
      g \<leftarrow> ov_get_agc_gain exposure_bus; e \<leftarrow> ov_get_aec_value exposure_bus; return (a, b, g, e) }) ?s)))"
    by (simp add: ov_set_agc_gain_def ov_set_aec_value_def ov_get_agc_gain_def ov_get_aec_value_def ov_gain_clamp_def ov_gain_regs_def
      ov_aec_regs_def ov_read_reg16_def then_store_def upd_status_def upd_sensor_def do_when_def write16_def read16_def write16_bus read16_bus
      run_basic run_call exposure_bus_def boot_def sensor_def zero_sensor_def wide_bus_write wide_bus_select wide_bus_read wide_not_read
      read_byte_def address_def)
  then have "wide_honest 0 ?d (trace s')" by (simp only: run snd_conv)
  moreover have "addressed 0 ?s" by (simp add: addressed_def zero_sensor_def)
  ultimately have "r = (0, 0, ov_gain_clamp 5, min 1000 (max_exposure (regs_of 0 ?d ?s)))"
    using ov_manual_exposure_round_trip [OF run] by simp
  moreover have "min 1000 (max_exposure (regs_of 0 ?d ?s)) = 1000"
    by (simp add: max_exposure_def regs_of_def boot_def wide_device_def)
  ultimately have "r = (0, 0, 5, 1000)" by (simp add: ov_gain_clamp_def)
  then show ?thesis by (simp only: run fst_conv)
qed

end
