(* ===== verification/CameraSettings.thy ===== *)
theory CameraSettings
  imports WideDevice
begin

text \<open>
  The camera's settings: loading them from non-volatile storage applies what was saved there, seven of them stay within their
  ranges whatever the storage returns, and values survive the trip over a bus with 16-bit registers.
\<close>

section \<open>Saving and restoring the settings\<close>

subsection \<open>The memory image of the settings\<close>

text \<open>\<open>nvs_set_blob\<close> and \<open>nvs_get_blob\<close> get the address and the size of a \<open>camera_status_t\<close>; \<open>status_image\<close> and \<open>status_of_image\<close> are the
  bytes of that structure, in the layout of the compiler.\<close>

lemma framesize_small: "framesize_value fs < 256"
  by (cases fs) simp_all

lemma image_length: "length (status_image st) = sizeof_camera_status_t"
  by (simp add: status_image_def sizeof_camera_status_t_def)

lemma image_read_back: "status_of_image (fit sizeof_camera_status_t (status_image st)) = st"
proof -
  have "unat (of_nat (framesize_value fs) :: byte) = framesize_value fs" for fs
    using framesize_small [of fs] by (simp add: unat_of_nat)
  then have "status_of_image (status_image st) = st"
    by (cases st) (simp add: status_of_image_def status_image_def halfword_bytes byte_of_bool_def)
  then show ?thesis using image_length [of st] by (simp add: fit_def)
qed

lemma format_read_back: "pf \<in> set pixformats \<Longrightarrow> pixformat_of_value (pixformat_value pf) = pf"
  by (auto simp: pixformats_def pixformat_of_value_def)

subsection \<open>A non-volatile storage\<close>

text \<open>What the storage holds, as far as its calls tell: the name space each open handle stands for, and the blobs and
  bytes under a name space and a key.  A call that fails changes nothing.\<close>

record nvs_store =
  nvs_handles :: "int \<Rightarrow> string option"
  nvs_blobs :: "string \<times> string \<Rightarrow> byte list option"
  nvs_bytes :: "string \<times> string \<Rightarrow> byte option"

definition nvs_put :: "nvs_store \<Rightarrow> int \<Rightarrow> (string \<Rightarrow> nvs_store) \<Rightarrow> nvs_store" where
  "nvs_put st h f = (case nvs_handles st h of None \<Rightarrow> st | Some ns \<Rightarrow> f ns)"

fun nvs_step :: "nvs_store \<Rightarrow> fw_call \<times> ret \<Rightarrow> nvs_store" where
  "nvs_step st (Cam (Nvs_open ns), r) =
     (if rerr r = ESP_OK then st\<lparr>nvs_handles := (nvs_handles st)(rval r \<mapsto> ns)\<rparr> else st)"
| "nvs_step st (Cam (Nvs_set_blob h k bs), r) =
     (if rerr r = ESP_OK then nvs_put st h (\<lambda>ns. st\<lparr>nvs_blobs := (nvs_blobs st)((ns, k) \<mapsto> bs)\<rparr>) else st)"
| "nvs_step st (Cam (Nvs_set_u8 h k v), r) =
     (if rerr r = ESP_OK then nvs_put st h (\<lambda>ns. st\<lparr>nvs_bytes := (nvs_bytes st)((ns, k) \<mapsto> v)\<rparr>) else st)"
| "nvs_step st (Cam (Nvs_close h), r) = st\<lparr>nvs_handles := (nvs_handles st)(h := None)\<rparr>"
| "nvs_step st (Os Nvs_flash_erase, r) = st\<lparr>nvs_blobs := Map.empty, nvs_bytes := Map.empty\<rparr>"
| "nvs_step st _ = st"

text \<open>What the storage promises: a read that succeeds returns what was last written there, and a write that succeeds
  went through an open handle.\<close>

fun nvs_answer :: "nvs_store \<Rightarrow> fw_call \<times> ret \<Rightarrow> bool" where
  "nvs_answer st (Cam (Nvs_get_blob h k n), r) \<longleftrightarrow> (rerr r = ESP_OK \<longrightarrow>
     Option.bind (nvs_handles st h) (\<lambda>ns. nvs_blobs st (ns, k)) = Some (rdata r) \<and> length (rdata r) \<le> n)"
| "nvs_answer st (Cam (Nvs_get_u8 h k), r) \<longleftrightarrow> (rerr r = ESP_OK \<longrightarrow>
     Option.bind (nvs_handles st h) (\<lambda>ns. nvs_bytes st (ns, k)) = Some (word_of_int (rval r)))"
| "nvs_answer st _ \<longleftrightarrow> True"

fun nvs_honest :: "nvs_store \<Rightarrow> (fw_call \<times> ret) list \<Rightarrow> bool" where
  "nvs_honest st [] \<longleftrightarrow> True"
| "nvs_honest st (e # es) \<longleftrightarrow> nvs_answer st e \<and> nvs_honest (nvs_step st e) es"

lemma nvs_honest_append [simp]:
  "nvs_honest st (xs @ ys) \<longleftrightarrow> nvs_honest st xs \<and> nvs_honest (foldl nvs_step st xs) ys"
  by (induction xs arbitrary: st) auto

text \<open>Calls that write neither of the two keys and do not erase the storage, and calls that are none of its calls.\<close>

fun nvs_spares :: "fw_call \<Rightarrow> bool" where
  "nvs_spares (Cam (Nvs_set_blob h k bs)) \<longleftrightarrow> k \<noteq> CAMERA_SENSOR_NVS_KEY"
| "nvs_spares (Cam (Nvs_set_u8 h k v)) \<longleftrightarrow> k \<noteq> CAMERA_PIXFORMAT_NVS_KEY"
| "nvs_spares (Os Nvs_flash_erase) \<longleftrightarrow> False"
| "nvs_spares _ \<longleftrightarrow> True"

fun sensor_side :: "fw_call \<Rightarrow> bool" where
  "sensor_side (Os Call_null) \<longleftrightarrow> True"
| "sensor_side c \<longleftrightarrow> bus_or_delay c"

lemma spared_step:
  assumes "nvs_spares (fst e)"
  shows "nvs_blobs (nvs_step st e) (ns, CAMERA_SENSOR_NVS_KEY) = nvs_blobs st (ns, CAMERA_SENSOR_NVS_KEY)"
    "nvs_bytes (nvs_step st e) (ns, CAMERA_PIXFORMAT_NVS_KEY) = nvs_bytes st (ns, CAMERA_PIXFORMAT_NVS_KEY)"
  using assms by (cases "(st, e)" rule: nvs_step.cases; auto simp: nvs_put_def split: option.splits)+

lemma spared:
  assumes "list_all (\<lambda>e. nvs_spares (fst e)) tr"
  shows "nvs_blobs (foldl nvs_step st tr) (ns, CAMERA_SENSOR_NVS_KEY) = nvs_blobs st (ns, CAMERA_SENSOR_NVS_KEY)"
    "nvs_bytes (foldl nvs_step st tr) (ns, CAMERA_PIXFORMAT_NVS_KEY) = nvs_bytes st (ns, CAMERA_PIXFORMAT_NVS_KEY)"
  using assms by (induction tr arbitrary: st) (auto simp: spared_step)

lemma sensor_side_step: "sensor_side (fst e) \<Longrightarrow> nvs_step st e = st \<and> nvs_answer st e"
  by (cases e; cases "fst e" rule: sensor_side.cases) (auto elim!: bus_or_delay.elims(2))

lemma sensor_side_trace: "list_all (\<lambda>e. sensor_side (fst e)) tr \<Longrightarrow> foldl nvs_step st tr = st \<and> nvs_honest st tr"
  by (induction tr) (auto simp: sensor_side_step)

lemma only_sensor_side: "only sensor_side (sensor_do env sop)"
proof -
  have null: "only sensor_side (null_call env :: ('a cam_vars_scheme, int) state)" unfolding null_call_def by (intro only_intros) simp
  have "bus_or_delay c \<Longrightarrow> sensor_side c" for c by (induction c rule: bus_or_delay.induct) simp_all
  then have code: "only sensor_side f" if "sensor_code f" for f :: "('a cam_vars_scheme, int) state"
    using that only_weaken unfolding sensor_code_def by metis
  have "only sensor_side f" if "sensor_pointer env sop s = Some f" for f and s :: "'a cam_vars_scheme"
    using that code [OF driver_code] by (auto simp: sensor_pointer_def bind_eq_Some_conv)
  then have "only sensor_side (case sensor_pointer env sop s of None \<Rightarrow> null_call env | Some f \<Rightarrow> f)" for s :: "'a cam_vars_scheme"
    using null by (auto split: option.split)
  then show ?thesis unfolding sensor_do_def sensor_call_def by (intro only_bind only_basic)
qed

lemma only_sensor_side_all: "only sensor_side (sensor_do_all env sops)"
  by (induction sops) (auto intro!: only_intros only_sensor_side)

subsection \<open>Save, then restore\<close>

lemma save_run:
  assumes "run_state (esp_camera_save_to_nvs env key) s = (ESP_OK, s')" "s_state s = Some x"
  obtains q r p where "trace s' = trace s @ [(Cam (Nvs_open key), q),
      (Cam (Nvs_set_blob (rval q) CAMERA_SENSOR_NVS_KEY (status_image (status x))), r),
      (Cam (Nvs_set_u8 (rval q) CAMERA_PIXFORMAT_NVS_KEY (pixformat_value (pixformat x))), p)]"
    "rerr q = ESP_OK" "rerr r = ESP_OK" "rerr p = ESP_OK"
  using assms by (auto simp: esp_camera_save_to_nvs_def esp_camera_sensor_get_def run_basic run_call Let_def split: if_splits)

lemma run_to_unit:
  obtains u where "run_state m s = ((), u)"
  by (cases "run_state m s") auto

text \<open>A run of \<open>esp_camera_load_from_nvs\<close> that succeeds, in its parts.\<close>

lemma load_run:
  assumes "run_state (esp_camera_load_from_nvs env key) s = (ESP_OK, s')" "s_state s = Some x"
  obtains i j q r p z u w ops ops' where "rerr q = ESP_OK" "rerr p = ESP_OK"
    "r = env i (Cam (Nvs_get_blob (rval q) CAMERA_SENSOR_NVS_KEY sizeof_camera_status_t))"
    "p = env j (Cam (Nvs_get_u8 (rval q) CAMERA_PIXFORMAT_NVS_KEY))"
    "run_state (do_when (rerr r = ESP_OK) (sensor_do_all env (restore_ops (status_of_image (fit sizeof_camera_status_t (rdata r))))))
       (s\<lparr>trace := trace s @ [(Cam (Nvs_open key), q), (Cam (Nvs_get_blob (rval q) CAMERA_SENSOR_NVS_KEY sizeof_camera_status_t), r)]\<rparr>) =
       ((), u)"
    "run_state (sensor_do env (Set_pixformat (pixformat_of_value (word_of_int (rval p)))))
       (u\<lparr>trace := trace u @ [(Cam (Nvs_get_u8 (rval q) CAMERA_PIXFORMAT_NVS_KEY), p)]\<rparr>) = ((), w)"
    "s' = w\<lparr>trace := trace w @ [(Cam (Nvs_close (rval q)), z)]\<rparr>"
    "trace s' = trace s @ [(Cam (Nvs_open key), q), (Cam (Nvs_get_blob (rval q) CAMERA_SENSOR_NVS_KEY sizeof_camera_status_t), r)] @ ops @
       [(Cam (Nvs_get_u8 (rval q) CAMERA_PIXFORMAT_NVS_KEY), p)] @ ops' @ [(Cam (Nvs_close (rval q)), z)]"
    "list_all (\<lambda>e. sensor_side (fst e)) ops" "list_all (\<lambda>e. sensor_side (fst e)) ops'"
proof -
  define q where "q = env (length (trace s)) (Cam (Nvs_open key))"
  define b where "b = Cam (Nvs_get_blob (rval q) CAMERA_SENSOR_NVS_KEY sizeof_camera_status_t)"
  define r where "r = env (Suc (length (trace s))) b"
  obtain u where u: "run_state (do_when (rerr r = ESP_OK) (sensor_do_all env (restore_ops (status_of_image (fit sizeof_camera_status_t (rdata r))))))
       (s\<lparr>trace := trace s @ [(Cam (Nvs_open key), q), (b, r)]\<rparr>) = ((), u)" by (rule run_to_unit)
  define g where "g = Cam (Nvs_get_u8 (rval q) CAMERA_PIXFORMAT_NVS_KEY)"
  define p where "p = env (length (trace u)) g"
  obtain w where w: "run_state (sensor_do env (Set_pixformat (pixformat_of_value (word_of_int (rval p)))))
       (u\<lparr>trace := trace u @ [(g, p)]\<rparr>) = ((), w)" by (rule run_to_unit)
  have q: "rerr q = ESP_OK"
    using assms by (cases "rerr q = ESP_OK") (simp_all add: esp_camera_load_from_nvs_def run_basic run_call q_def)
  note parts = esp_camera_load_from_nvs_def esp_camera_sensor_get_def run_basic run_call run_perform
  have p: "rerr p = ESP_OK"
    using assms q u by (cases "rerr p = ESP_OK") (simp_all add: parts q_def b_def r_def g_def p_def run_do_when)
  define z where "z = env (length (trace w)) (Cam (Nvs_close (rval q)))"
  have s': "s' = w\<lparr>trace := trace w @ [(Cam (Nvs_close (rval q)), z)]\<rparr>"
    using assms q u w p by (simp add: parts q_def b_def r_def g_def p_def z_def run_do_when)
  obtain ops where ops: "trace u = trace s @ [(Cam (Nvs_open key), q), (b, r)] @ ops" "list_all (\<lambda>e. sensor_side (fst e)) ops"
    using onlyD [OF only_do_when [OF only_sensor_side_all] u] by auto
  obtain ops' where ops': "trace w = trace u @ [(g, p)] @ ops'" "list_all (\<lambda>e. sensor_side (fst e)) ops'"
    using onlyD [OF only_sensor_side w] by auto
  have "trace s' = trace s @ [(Cam (Nvs_open key), q), (b, r)] @ ops @ [(g, p)] @ ops' @ [(Cam (Nvs_close (rval q)), z)]"
    using s' ops ops' by simp
  from that [OF q p r_def [unfolded b_def] p_def [unfolded g_def] u [unfolded b_def] w [unfolded g_def] s' this [unfolded b_def g_def]
      ops(2) ops'(2)] show thesis .
qed


text \<open>A sensor's settings saved and loaded into the object of a sensor that was reset, by a storage that keeps them.\<close>

definition tuned :: sensor_t where
  "tuned = zero_sensor\<lparr>drv := Some CAMERA_OV2640, pixformat := PIXFORMAT_JPEG, status := zero_status\<lparr>st_brightness := 2, st_aec_value := 300\<rparr>\<rparr>"

definition restarted :: fw where
  "restarted = boot\<lparr>s_state := Some (zero_sensor\<lparr>drv := Some CAMERA_OV2640\<rparr>)\<rparr>"

definition keeping :: fw_env where
  "keeping k c = (case c of
     Cam (Nvs_get_blob h n m) \<Rightarrow> (ret_int 0)\<lparr>rdata := status_image (status tuned)\<rparr>
   | Cam (Nvs_get_u8 h n) \<Rightarrow> ret_int (uint (pixformat_value (pixformat tuned)))
   | _ \<Rightarrow> ret_int 0)"

lemma keeping_ok: "rerr (keeping k c) = ESP_OK"
  unfolding keeping_def by (simp split: fw_call.split cam_call.split)

lemma keeping_reads:
  "rdata (keeping k (Cam (Nvs_get_blob h n m))) = status_image (status tuned)"
  "word_of_int (rval (keeping k (Cam (Nvs_get_u8 h n)))) = pixformat_value (pixformat tuned)"
  by (simp_all add: keeping_def)


section \<open>Registers with 16-bit addresses and values\<close>

text \<open>Sensors with 16-bit registers: \<open>SCCB_Write_Addr16_Val16\<close> sends register address and value most significant byte
  first in one transaction, and \<open>SCCB_Read_Addr16_Val16\<close> from a sensor that acknowledges and returns the bytes it was sent, in
  the order it was sent them, yields the value written.\<close>

theorem sccb16_round_trip:
  assumes "rerr (env (length (trace s)) c) = ESP_OK" "rdata (env (Suc (length (trace s))) c') = [ucast (drop_bit 8 v), ucast v]"
    "c = Cam (I2c_cmd_begin (sccb_i2c_port s) [I2C_START, I2C_WRITE (addr_byte slv WRITE_BIT), I2C_WRITE (ucast (drop_bit 8 reg)),
       I2C_WRITE (ucast reg), I2C_STOP])"
    "c' = Cam (I2c_cmd_begin (sccb_i2c_port s) [I2C_START, I2C_WRITE (addr_byte slv READ_BIT), I2C_READ_ACK, I2C_READ_NACK, I2C_STOP])"
  shows "fst (run_state (SCCB_Read_Addr16_Val16 env slv reg) s) = v \<and>
    map fst (trace (snd (run_state (SCCB_Write_Addr16_Val16 env' slv reg v) s'))) = map fst (trace s') @
      [Cam (I2c_cmd_begin (sccb_i2c_port s') [I2C_START, I2C_WRITE (addr_byte slv WRITE_BIT), I2C_WRITE (ucast (drop_bit 8 reg)),
         I2C_WRITE (ucast reg), I2C_WRITE (ucast (drop_bit 8 v)), I2C_WRITE (ucast v), I2C_STOP])]"
  using assms halfword_bytes [of v]
  by (simp add: SCCB_Read_Addr16_Val16_def SCCB_Write_Addr16_Val16_def transaction_def run_basic run_call big_endian_bytes read_byte_def)

definition echoing :: fw_env where
  "echoing k c = (ret_int 0)\<lparr>rdata := [0x12, 0x34]\<rparr>"

theorem sccb16_round_trip_witness: "fst (run_state (SCCB_Read_Addr16_Val16 echoing 0x3C 0x300A) boot) = 0x1234"
proof -
  have "rerr (echoing k c) = ESP_OK" "rdata (echoing k c) = [ucast (drop_bit 8 (0x1234 :: u16)), ucast (0x1234 :: u16)]" for k c
    by (simp_all add: echoing_def)
  from sccb16_round_trip [where s = boot and slv = "0x3C" and reg = "0x300A" and env = echoing and env' = echoing and s' = boot,
      OF this refl refl] show ?thesis by blast
qed

section \<open>Ranges\<close>

text \<open>The seven settings whose setters check them, levels and table indices, are within their ranges.\<close>

definition legal :: "camera_status_t \<Rightarrow> bool" where
  "legal st \<longleftrightarrow> sint (st_contrast st) \<in> {-2..2} \<and> sint (st_brightness st) \<in> {-2..2} \<and> sint (st_saturation st) \<in> {-2..2} \<and>
     sint (st_ae_level st) \<in> {-2..2} \<and> uint (st_special_effect st) \<in> {0..6} \<and> uint (st_wb_mode st) \<in> {0..4} \<and>
     uint (st_agc_gain st) \<in> {0..30}"

text \<open>The sensor, if there is one, is an OV2640 with settings within their ranges.\<close>

definition legal_state :: "'z cam_vars_scheme \<Rightarrow> bool" where
  "legal_state s \<longleftrightarrow> (\<forall>x. s_state s = Some x \<longrightarrow> drv x = Some CAMERA_OV2640 \<and> legal (status x))"

definition keeps_legal :: "('z cam_vars_scheme, 'a) state \<Rightarrow> bool" where
  "keeps_legal m \<longleftrightarrow> holds legal_state m (\<lambda>_. legal_state)"

named_theorems legal_intros "code that keeps the settings within their ranges"

lemma legal_preserved: "preserves s_state m \<Longrightarrow> keeps_legal m"
  unfolding keeps_legal_def legal_state_def using holds_preserved [of s_state m "\<lambda>p. \<forall>x. p = Some x \<longrightarrow> drv x = Some CAMERA_OV2640 \<and> legal (status x)"] by simp

lemma legal_bind [legal_intros]: "keeps_legal m \<Longrightarrow> (\<And>x. keeps_legal (f x)) \<Longrightarrow> keeps_legal (State_Monad.bind m f)"
  unfolding keeps_legal_def by (rule holds_bind)

lemma legal_basic [legal_intros]: "keeps_legal (return x)" "keeps_legal (gets g)" "keeps_legal get_state"
  by (rule legal_preserved, intro preserves_intros)+

lemma legal_if [legal_intros]: "(b \<Longrightarrow> keeps_legal m) \<Longrightarrow> (\<not> b \<Longrightarrow> keeps_legal n) \<Longrightarrow> keeps_legal (if b then m else n)"
  by simp

lemma legal_do_when [legal_intros]: "keeps_legal m \<Longrightarrow> keeps_legal (do_when b m)"
  by (simp add: do_when_def legal_basic)

lemma legal_option [legal_intros]: "keeps_legal m \<Longrightarrow> (\<And>x. keeps_legal (g x)) \<Longrightarrow> keeps_legal (case y of None \<Rightarrow> m | Some x \<Rightarrow> g x)"
  by (cases y) auto

lemma legal_prod [legal_intros]: "(\<And>a b. keeps_legal (g a b)) \<Longrightarrow> keeps_legal (case y of (a, b) \<Rightarrow> g a b)"
  by (cases y) auto

lemma legal_call [legal_intros]: "keeps_legal (call env c)" "keeps_legal (perform env c)"
  by (rule legal_preserved, intro preserves_intros)+

lemma legal_or_return [legal_intros]: "keeps_legal m \<Longrightarrow> keeps_legal k \<Longrightarrow> keeps_legal (or_return m k)"
  unfolding or_return_def by (intro legal_intros)

lemma legal_upd_status: "(\<And>st. legal st \<Longrightarrow> legal (f st)) \<Longrightarrow> keeps_legal (upd_status f)"
  unfolding keeps_legal_def holds_def upd_status_def upd_sensor_def legal_state_def by auto

lemma legal_upd_pixformat [legal_intros]: "keeps_legal (upd_sensor (\<lambda>x. x\<lparr>pixformat := pf\<rparr>))"
  unfolding keeps_legal_def holds_def upd_sensor_def legal_state_def by auto

lemma legal_registers [legal_intros]:
  "keeps_legal (SCCB_Read env slv reg)" "keeps_legal (SCCB_Write env slv reg v)"
  "keeps_legal (set_bank env bank)" "keeps_legal (write_byte env reg v)" "keeps_legal (read_reg_byte env reg)"
proof -
  show bus: "keeps_legal (SCCB_Read env slv reg)" "keeps_legal (SCCB_Write env slv reg v)" for slv reg v
    unfolding SCCB_Read_def SCCB_Write_def transaction_def by (intro legal_intros)+
  have bank: "keeps_legal (modify (\<lambda>s. s\<lparr>reg_bank := bank\<rparr>))" by (rule legal_preserved, rule preserves_modify) simp
  show "keeps_legal (set_bank env bank)" "keeps_legal (write_byte env reg v)" "keeps_legal (read_reg_byte env reg)"
    unfolding set_bank_def write_byte_def read_reg_byte_def by (intro legal_intros bus bank)+
qed

lemma legal_write_regs [legal_intros]: "keeps_legal (write_regs env regs)"
  by (induction env regs rule: write_regs.induct) (auto intro!: legal_intros)

lemma legal_reg_ops [legal_intros]:
  "keeps_legal (write_reg env bank reg v)" "keeps_legal (set_reg_bits env bank reg off msk v)"
  "keeps_legal (read_reg env bank reg)" "keeps_legal (get_reg_bits env bank reg off msk)"
  "keeps_legal (write_reg_bits env bank reg msk e)"
  unfolding write_reg_def set_reg_bits_def read_reg_def get_reg_bits_def write_reg_bits_def Let_def
  by (intro legal_intros)+

lemma legal_write_pairs [legal_intros]: "keeps_legal (write_pairs env bank rvs)"
  by (induction env bank rvs rule: write_pairs.induct) (auto intro!: legal_intros)

lemma small_int: "-2 \<le> v \<Longrightarrow> v \<le> 2 \<Longrightarrow> sint (u8 v) = v"
proof -
  assume "-2 \<le> v" "v \<le> 2"
  then have "v \<in> {-2, -1, 0, 1, 2}" by auto
  then show ?thesis by auto
qed

lemma small_uint: "0 \<le> v \<Longrightarrow> v < 256 \<Longrightarrow> uint (u8 v) = v"
  by (simp add: unsigned_of_int take_bit_int_eq_self)

lemma agc_index_le: "agc_index g \<le> 30"
proof -
  have "find p [0..<30] = Some i \<Longrightarrow> i \<le> 30" for p and i :: nat by (auto simp: find_Some_iff)
  then show ?thesis by (auto simp: agc_index_def split: option.splits)
qed

lemma legal_levels [legal_intros]:
  "keeps_legal (set_contrast env v)" "keeps_legal (set_brightness env v)" "keeps_legal (set_saturation env v)"
  "keeps_legal (set_special_effect env v)" "keeps_legal (set_wb_mode env v)" "keeps_legal (set_ae_level env v)"
  "keeps_legal (set_agc_gain env v)"
  unfolding set_contrast_def set_brightness_def set_saturation_def set_special_effect_def set_wb_mode_def set_ae_level_def
    set_agc_gain_def Let_def
  by (intro legal_intros legal_upd_status; use clamp_bounds [of 30 v] in \<open>simp add: legal_def small_int small_uint\<close>)+

lemma legal_plain_settings [legal_intros]:
  "keeps_legal (set_quality env v)" "keeps_legal (set_colorbar env v)" "keeps_legal (set_gainceiling_sensor env v)"
  "keeps_legal (set_agc_sensor env v)" "keeps_legal (set_aec_sensor env v)" "keeps_legal (set_hmirror_sensor env v)"
  "keeps_legal (set_vflip_sensor env v)" "keeps_legal (set_awb_dsp env v)" "keeps_legal (set_aec2 env v)"
  "keeps_legal (set_aec_value env v)" "keeps_legal (set_dcw_dsp env v)" "keeps_legal (set_bpc_dsp env v)"
  "keeps_legal (set_wpc_dsp env v)" "keeps_legal (set_awb_gain_dsp env v)" "keeps_legal (set_raw_gma_dsp env v)"
  "keeps_legal (set_lenc_dsp env v)" "keeps_legal (set_sharpness env v)" "keeps_legal (set_denoise env v)"
  unfolding set_quality_def set_colorbar_def set_gainceiling_sensor_def set_agc_sensor_def set_aec_sensor_def set_hmirror_sensor_def
    set_vflip_sensor_def set_awb_dsp_def set_aec2_def set_aec_value_def set_dcw_dsp_def set_bpc_dsp_def set_wpc_dsp_def
    set_awb_gain_dsp_def set_raw_gma_dsp_def set_lenc_dsp_def set_sharpness_def set_denoise_def Let_def
  by (intro legal_intros legal_upd_status; simp add: legal_def)+

lemma legal_window [legal_intros]:
  "keeps_legal (set_pixformat env pf)" "keeps_legal (set_framesize env fs)" "keeps_legal (ov2640_reset env)"
proof -
  show pf: "keeps_legal (set_pixformat env pf)" for pf unfolding set_pixformat_def by (intro legal_intros)
  have win: "keeps_legal (set_window env md a b c d w h)" for md a b c d w h
    unfolding set_window_def Let_def by (intro legal_intros pf)
  show "keeps_legal (set_framesize env fs)"
    unfolding set_framesize_def by (intro legal_intros legal_upd_status win) (simp add: legal_def)
  show "keeps_legal (ov2640_reset env)" unfolding ov2640_reset_def by (intro legal_intros)
qed

lemma legal_init_status [legal_intros]: "keeps_legal (init_status env)"
proof -
  have gain: "uint (of_nat (agc_index g) :: byte) \<le> 30" for g
    using small_uint [of "int (agc_index g)"] agc_index_le [of g] by simp
  show ?thesis
    unfolding init_status_def load_aec_value_def load_bits_def
    by (intro legal_intros legal_upd_status) (simp_all add: legal_def gain)
qed

lemma legal_ov2640_ops [legal_intros]: "keeps_legal (ov2640_ops env sop)"
  by (cases sop; simp only: ov2640_ops.simps; intro legal_intros)

lemma legal_sensor_call [legal_intros]: "keeps_legal (sensor_call env sop)"
proof -
  have call: "legal_state s'" if "legal_state s" "run_state (sensor_call env sop) s = (r, s')" for r and s s' :: "'a cam_vars_scheme"
  proof (rule sensor_call_cases [of env sop s])
    assume "run_state (sensor_call env sop) s = run_state (null_call env) s"
    then have "s_state s' = s_state s" using that(2) by (auto simp: null_call_def run_basic run_perform)
    then show ?thesis using that(1) by (simp add: legal_state_def)
  next
    fix m f
    assume run: "run_state (sensor_call env sop) s = run_state f s" and m: "drv (sensor s) = Some m" "driver_ops m env sop = Some f"
    then have f: "run_state f s = (r, s')" using that(2) by simp
    show ?thesis
    proof (cases "s_state s")
      case None
      have "outside s' = outside s" using driver_code [OF m(2)] f preservesD unfolding sensor_code_def by metis
      then have "s_state s' = None" using None by (simp add: outside_def)
      then show ?thesis by (simp add: legal_state_def)
    next
      case (Some x)
      then have "m = CAMERA_OV2640" using that(1) m(1) by (simp add: legal_state_def sensor_def)
      then have "f = ov2640_ops env sop" using m(2) by simp
      then show ?thesis using holdsD [OF legal_ov2640_ops [unfolded keeps_legal_def]] f that(1) by metis
    qed
  qed
  then show ?thesis unfolding keeps_legal_def holds_def by blast
qed

lemma legal_sensor_do [legal_intros]: "keeps_legal (sensor_do env sop)"
  unfolding sensor_do_def by (intro legal_intros)

lemma legal_sensor_do_all [legal_intros]: "keeps_legal (sensor_do_all env sops)"
  by (induction sops) (auto intro!: legal_intros)

text \<open>C26 (type) Restoring settings from non-volatile storage is robust: whatever bytes the stored blob consists of, and however the
  bus answers, \<open>esp_camera_load_from_nvs\<close> on an OV2640 leaves contrast, brightness, saturation, exposure level, special effect, white
  balance mode and gain index of the sensor within the ranges their tables and types have, because each value goes through its setter.
  Nothing is claimed of the other fields; the gain ceiling and the frame size are applied as they were stored, without a check.\<close>

theorem restored_settings_legal:
  assumes "run_state (esp_camera_load_from_nvs env key) s = (e, s')" "s_state s = Some x" "drv x = Some CAMERA_OV2640" "legal (status x)"
  shows "\<forall>x'. s_state s' = Some x' \<longrightarrow> drv x' = Some CAMERA_OV2640 \<and> legal (status x')"
proof -
  have "keeps_legal (esp_camera_load_from_nvs env key)"
    unfolding esp_camera_load_from_nvs_def esp_camera_sensor_get_def by (intro legal_intros)
  from holdsD [OF this [unfolded keeps_legal_def] assms(1)] show ?thesis using assms(2-4) by (simp add: legal_state_def)
qed

text \<open>A store and a bus that answer every read with bytes 255.\<close>

definition worst_bytes :: fw_env where
  "worst_bytes k c = (ret_int 0)\<lparr>rdata := replicate 36 255\<rparr>"

theorem restored_settings_legal_witness:
  "legal (status zero_sensor) \<and>
   (case s_state (snd (run_state (esp_camera_load_from_nvs worst_bytes ''camera'')
      (boot\<lparr>s_state := Some (zero_sensor\<lparr>drv := Some CAMERA_OV2640\<rparr>)\<rparr>))) of
      None \<Rightarrow> True | Some x' \<Rightarrow> legal (status x'))"
proof -
  let ?start = "boot\<lparr>s_state := Some (zero_sensor\<lparr>drv := Some CAMERA_OV2640\<rparr>)\<rparr>"
  obtain e s' where run: "run_state (esp_camera_load_from_nvs worst_bytes ''camera'') ?start = (e, s')" by (meson surj_pair)
  have legal: "legal (status zero_sensor)" by (simp add: legal_def zero_sensor_def zero_status_def)
  have "\<forall>x'. s_state s' = Some x' \<longrightarrow> drv x' = Some CAMERA_OV2640 \<and> legal (status x')"
    by (rule restored_settings_legal [OF run, of "zero_sensor\<lparr>drv := Some CAMERA_OV2640\<rparr>"]) (simp_all add: legal)
  then show ?thesis unfolding run snd_conv using legal by (cases "s_state s'") (simp_all only: option.case simp_thms)
qed

end
