(* ===== verification/DriverFacts.thy ===== *)
theory DriverFacts
  imports SensorFrame
begin

text \<open>
  Properties of single sensor drivers: how far the reset of the BF3005 gets in its table, the windows of the GC0308
  and GC2145 for subsampled pictures, and the exposure table of the NT99141.
\<close>

section \<open>BF3005: reset\<close>

text \<open>The bus transactions that write a list of registers.\<close>

definition byte_writes :: "'z cam_vars_scheme \<Rightarrow> (byte \<times> byte) list \<Rightarrow> fw_call list" where
  "byte_writes s = map (\<lambda>(r, v). Cam (I2c_cmd_begin (sccb_i2c_port s)
     [I2C_START, I2C_WRITE (addr_byte (slv_addr (sensor s)) WRITE_BIT), I2C_WRITE r, I2C_WRITE v, I2C_STOP]))"

lemma write_byte_trace:
  assumes "run_state (write_byte env r v) s = (x, s')"
  shows "map fst (trace s') = map fst (trace s) @ byte_writes s [(r, v)] \<and> byte_writes s' = byte_writes s"
  using assms by (auto simp: write_byte_def SCCB_Write_def transaction_def run_basic run_call byte_writes_def sensor_def)

lemma write_while_nonzero_trace:
  "run_state (write_while_nonzero env regs) s = (x, s') \<Longrightarrow>
     map fst (trace s') = map fst (trace s) @ byte_writes s (takeWhile (\<lambda>(r, v). r \<noteq> 0) regs)"
proof (induction env regs arbitrary: s rule: write_while_nonzero.induct)
  case (1 env)
  then show ?case by (simp add: run_basic byte_writes_def)
next
  case (2 env r v regs)
  show ?case
  proof (cases "r = 0")
    case True
    then show ?thesis using 2 by (simp add: run_basic byte_writes_def)
  next
    case False
    then obtain y t where first: "run_state (write_byte env r v) s = (y, t)" and rest: "run_state (write_while_nonzero env regs) t = (x, s')"
      using 2(2) by (auto elim: run_bindE simp del: State_Monad.run_state_bind)
    from 2(1) [OF False rest] write_byte_trace [OF first] show ?thesis using False by (simp add: byte_writes_def)
  qed
qed

text \<open>Reset of the BF3005 (\<open>bf3005.c\<close>): the loop over the table of default registers ends at the first entry for register 0,
  which is the eleventh of the 121 entries; exactly the ten entries before it reach the sensor, whatever the bus answers, and the result
  is success.\<close>

theorem bf3005_reset_truncated:
  "fst (run_state (bf3005_reset env) s) = 0 \<and>
   map fst (trace (snd (run_state (bf3005_reset env) s))) =
     map fst (trace s) @ byte_writes s (take 10 bf3005_default_regs) @ [Os (Task_delay 5)] \<and>
   length bf3005_default_regs = 121"
proof -
  obtain x t where t: "run_state (write_while_nonzero env bf3005_default_regs) s = (x, t)" by (meson surj_pair)
  have "takeWhile (\<lambda>(r, v). r \<noteq> 0) bf3005_default_regs = take 10 bf3005_default_regs" "length bf3005_default_regs = 121"
    by (simp_all add: bf3005_default_regs_def)
  then show ?thesis using write_while_nonzero_trace [OF t] t
    by (simp add: bf3005_reset_def run_basic delay_ms_def run_perform)
qed

section \<open>GC0308 and GC2145: windows\<close>

text \<open>The window lies within the array, is centred to one line or column, and subsampled by the chosen ratio has exactly the
  size of the picture.\<close>

fun good_window :: "nat \<Rightarrow> nat \<Rightarrow> nat \<Rightarrow> nat \<Rightarrow> subsample_cfg \<times> nat \<times> nat \<times> nat \<times> nat \<Rightarrow> bool" where
  "good_window max_w max_h w h ((num, den, regs), win_w, win_h, row_s, col_s) \<longleftrightarrow>
     col_s + win_w \<le> max_w \<and> max_w \<le> 2 * col_s + win_w + 1 \<and>
     row_s + win_h \<le> max_h \<and> max_h \<le> 2 * row_s + win_h + 1 \<and>
     win_w * num div den = w \<and> win_h * num div den = h"

lemmas window_defs = gc0308_window_def gc2145_window_def subsample_def gc0308_subsample_cfgs_def gc2145_subsample_cfgs_def
  res_width_def res_height_def resolution_def less_eq_framesize_t_def

lemma gc0308_windows: "fs \<le> FRAMESIZE_VGA \<Longrightarrow> good_window 640 480 (res_width fs) (res_height fs) (gc0308_window fs)"
  by (cases fs) (simp_all add: window_defs)

lemma gc2145_windows: "fs \<le> FRAMESIZE_UXGA \<Longrightarrow> good_window 1600 1200 (res_width fs) (res_height fs) (gc2145_window fs)"
  by (cases fs) (simp_all add: window_defs)

text \<open>C28 (bounds) Subsampled pictures of the GC0308 and the GC2145: for every frame size, reduced to the largest the sensor has, the
  window that \<open>set_framesize\<close> chooses lies within the sensor's array, in its middle, with no negative offset, and
  subsampled by the ratio whose registers are written yields exactly the columns and lines of the picture.\<close>

theorem gc_windows_fit:
  "good_window 640 480 (res_width (min fs FRAMESIZE_VGA)) (res_height (min fs FRAMESIZE_VGA)) (gc0308_window (min fs FRAMESIZE_VGA)) \<and>
   good_window 1600 1200 (res_width (min fs' FRAMESIZE_UXGA)) (res_height (min fs' FRAMESIZE_UXGA)) (gc2145_window (min fs' FRAMESIZE_UXGA))"
  using gc0308_windows gc2145_windows by simp

section \<open>NT99141: exposure level\<close>

text \<open>The table has the rows of nine levels, but \<open>set_ae_level\<close> admits the level 9: all its rows lie past the end.\<close>

lemma nt99141_level_past_table:
  "length nt99141_ae_level = 45" "nt99141_ae_clamp level \<le> 9" "level < 9 \<Longrightarrow> 5 * nt99141_ae_clamp level + 4 < length nt99141_ae_level"
  "9 \<le> level \<Longrightarrow> length nt99141_ae_level \<le> 5 * nt99141_ae_clamp level"
proof -
  show len: "length nt99141_ae_level = 45" by (simp add: nt99141_ae_level_def)
  show "nt99141_ae_clamp level \<le> 9" "level < 9 \<Longrightarrow> 5 * nt99141_ae_clamp level + 4 < length nt99141_ae_level"
    "9 \<le> level \<Longrightarrow> length nt99141_ae_level \<le> 5 * nt99141_ae_clamp level"
    unfolding len by (auto simp: nt99141_ae_clamp_def)
qed

end
