(* ===== verification/Connections.thy ===== *)
theory Connections
  imports Video Haptic
begin

text \<open>
  The descriptors of the server tasks of \<open>softAP.c\<close>: both services rest on the contract \<open>client_handler\<close> of \<open>Tcp\<close>, which
  their client functions were shown to fulfil.
\<close>

text \<open>C31 (safety) The video service leaks no connection: when it is observed after any number of clients, it holds exactly one
  descriptor more than before it started, the listening socket; every accepted connection was closed once, however
  the sending to it ended.  A service that cannot listen has closed everything it opened.\<close>

theorem video_descriptors_balanced:
  assumes "run_state (video_transmitting env arrive fuel k accepts) s = (res, s')" "res \<noteq> Inr None"
  shows "\<exists>l. (0 \<le> l \<longleftrightarrow> (\<exists>y. res = Inr y)) \<and> (\<forall>d\<ge>0. opened d (trace s') + closed d (trace s) =
    opened d (trace s) + closed d (trace s') + (if d = l then 1 else 0))"
proof -
  obtain l t where l: "run_state (open_listener env VIDEO_PORT) s = (l, t)" by (meson surj_pair)
  note start = open_listener_balance [OF l]
  show ?thesis
  proof (cases l)
    case None
    then have "s' = t" "res = Inl Deleted" using assms(1) l by (simp_all add: video_transmitting_def run_basic)
    then show ?thesis using start None by (intro exI [of _ "-1"]) simp
  next
    case (Some listen)
    obtain r u where loop: "run_state (accept_loop env accepts listen (video_client env arrive fuel k) ()) t = (r, u)" by (meson surj_pair)
    then have "res = Inr r" "u = s'" using assms(1) l Some by (simp_all add: video_transmitting_def run_basic)
    moreover from this obtain y where "r = Some y" using assms(2) by (cases r) auto
    ultimately show ?thesis
      using video_service.accept_loop_balance [OF loop [unfolded \<open>r = Some y\<close>]] start Some open_listener_nonneg l
      by (intro exI [of _ listen]) fastforce
  qed
qed

text \<open>A network on which two clients arrive, each getting a frame and leaving before its length is sent.\<close>

definition visiting :: fw_env where
  "visiting k c = (case c of Net (Accept l) \<Rightarrow> ret_int 5 | _ \<Rightarrow> demo_env k c)"

lemma visiting_run:
  "let (res, s') = run_state (video_transmitting visiting (\<lambda>k. []) 1 1 2) demo_queued
   in res = Inr (Some ()) \<and> opened 5 (trace s') = 2"
  by code_simp

theorem video_descriptors_balanced_witness:
  "let (res, s') = run_state (video_transmitting visiting (\<lambda>k. []) 1 1 2) demo_queued
   in opened 5 (trace s') = 2 \<and> (\<exists>l. \<forall>d\<ge>0. opened d (trace s') + closed d (trace demo_queued) =
        opened d (trace demo_queued) + closed d (trace s') + (if d = l then 1 else 0))"
proof -
  obtain res s' where run: "run_state (video_transmitting visiting (\<lambda>k. []) 1 1 2) demo_queued = (res, s')" by (meson surj_pair)
  with visiting_run have "res \<noteq> Inr None" "opened 5 (trace s') = 2" unfolding run Let_def by simp_all
  with video_descriptors_balanced [OF run] show ?thesis unfolding run Let_def prod.case by blast
qed

text \<open>The PWM set-up touches no socket.\<close>

fun no_socket :: "fw_call \<Rightarrow> bool" where
  "no_socket (Net c) \<longleftrightarrow> False"
| "no_socket _ \<longleftrightarrow> True"

lemma no_socket_trace: "list_all (\<lambda>e. no_socket (fst e)) tr \<Longrightarrow> opened d tr = 0 \<and> closed d tr = 0"
proof (induction tr)
  case (Cons e tr)
  obtain c r where e: "e = (c, r)" by force
  with Cons show ?case by (cases c) auto
qed simp

lemma only_checked_init: "no_socket c \<Longrightarrow> only no_socket m \<Longrightarrow> only no_socket (checked env c m)"
  unfolding checked_def Let_def by (intro only_intros)

lemma only_pwm: "only no_socket (haptic_pwm_init env)" "only no_socket (perform_all env (set_duties a b))"
proof -
  show "only no_socket (haptic_pwm_init env)" unfolding haptic_pwm_init_def by (intro only_intros only_checked_init; simp)
  show "only no_socket (perform_all env (set_duties a b))" by (intro only_intros) (simp add: set_duties_def)
qed

lemma pwm_balance:
  assumes "only no_socket m" "run_state m s = (x, t)"
  shows "opened d (trace t) = opened d (trace s) \<and> closed d (trace t) = closed d (trace s)"
proof -
  obtain tr where "trace t = trace s @ tr" "list_all (\<lambda>e. no_socket (fst e)) tr" by (rule onlyD [OF assms])
  then show ?thesis using no_socket_trace [of tr d] by simp
qed

text \<open>The haptic service leaks no connection either, whatever its clients send and however they leave.\<close>

theorem haptic_descriptors_balanced:
  assumes "run_state (vibration_feedback env fuel window) s = (res, s')" "res \<noteq> Inr None"
  shows "\<exists>l. (0 \<le> l \<longleftrightarrow> (\<exists>y. res = Inr y)) \<and> (\<forall>d\<ge>0. opened d (trace s') + closed d (trace s) =
    opened d (trace s) + closed d (trace s') + (if d = l then 1 else 0))"
proof -
  obtain i t where i: "run_state (haptic_pwm_init env) s = (i, t)" by (meson surj_pair)
  note first = pwm_balance [OF only_pwm(1) i]
  show ?thesis
  proof (cases i)
    case (Inl h)
    then have "s' = t" "res = Inl h" using assms(1) i by (simp_all add: vibration_feedback_def run_basic)
    then show ?thesis using first Inl by (intro exI [of _ "-1"]) simp
  next
    case (Inr a)
    obtain b u where b: "run_state (perform_all env (set_duties 0 0)) t = (b, u)" by (meson surj_pair)
    obtain l v where l: "run_state (open_listener env CONTROL_PORT) u = (l, v)" by (meson surj_pair)
    note before = first pwm_balance [OF only_pwm(2) b] and start = open_listener_balance [OF l]
    show ?thesis
    proof (cases l)
      case None
      then have "s' = v" "res = Inl Deleted" using assms(1) i Inr b l by (simp_all add: vibration_feedback_def run_basic)
      then show ?thesis using before start None by (intro exI [of _ "-1"]) simp
    next
      case (Some listen)
      obtain r w where loop: "run_state (accept_loop env fuel listen (feedback_client env fuel) (window, 0)) v = (r, w)" by (meson surj_pair)
      then have "res = Inr r" "w = s'" using assms(1) i Inr b l Some by (simp_all add: vibration_feedback_def run_basic)
      moreover from this obtain y where "r = Some y" using assms(2) by (cases r) auto
      ultimately show ?thesis
        using haptic_service.accept_loop_balance [OF loop [unfolded \<open>r = Some y\<close>]] before start Some open_listener_nonneg l
        by (intro exI [of _ listen]) fastforce
    qed
  qed
qed

theorem haptic_descriptors_balanced_witness:
  "\<exists>l. \<forall>d\<ge>0. opened d (trace (snd (run_state (vibration_feedback (scripted_recv []) 2 (replicate 6 0)) boot))) + closed d (trace boot) =
    opened d (trace boot) + closed d (trace (snd (run_state (vibration_feedback (scripted_recv []) 2 (replicate 6 0)) boot))) +
    (if d = l then 1 else 0)"
proof -
  have "fst (run_state (vibration_feedback (scripted_recv []) 2 (replicate 6 0)) boot) \<noteq> Inr None"
    by (simp add: vibration_feedback_def haptic_pwm_init_def open_listener_def run_basic run_call run_perform scripted_recv_def
        checked_def Let_def numeral_2_eq_2 feedback_client_def boot_def set_duties_def)
  then obtain r s' where run: "run_state (vibration_feedback (scripted_recv []) 2 (replicate 6 0)) boot = (r, s')" "r \<noteq> Inr None"
    by (metis prod.collapse)
  from haptic_descriptors_balanced [OF this] obtain l where "\<forall>d\<ge>0. opened d (trace s') + closed d (trace boot) =
    opened d (trace boot) + closed d (trace s') + (if d = l then 1 else 0)" by blast
  then show ?thesis by (intro exI [of _ l]) (simp only: run snd_conv)
qed

end
