(* ===== verification/ToBmp.thy ===== *)
theory ToBmp
  imports Yuv CamHal
begin

text \<open>
  Image conversions (\<open>conversions/esp_jpg_decode.c\<close>, \<open>to_bmp.c\<close>): decoding JPEG pictures with the decoder in ROM,
  conversion to RGB888 and RGB565, and BMP files.

  The decoder in ROM is a parameter: a program that asks for input, delivers blocks of the decoded picture
  and ends with a result.  It is run with the callbacks of \<open>esp_jpg_decode.c\<close>.
\<close>

section \<open>The decoder in ROM\<close>

datatype JRESULT = JDR_OK | JDR_INTR | JDR_INP | JDR_MEM1 | JDR_MEM2 | JDR_PAR | JDR_FMT1 | JDR_FMT2 | JDR_FMT3

record JRECT =
  left :: nat
  right :: nat
  top :: nat
  bottom :: nat

text \<open>A program of the decoder: it is done; or it calls the input function, with or without a buffer, and gets the bytes
  and their number; or it calls the output function with a block of the picture and gets its answer.\<close>

datatype 'a jd =
    Jd_done 'a
  | Jd_input bool nat "byte list \<times> nat \<Rightarrow> 'a jd"
  | Jd_output JRECT "byte list" "bool \<Rightarrow> 'a jd"

text \<open>\<open>JDEC\<close> after \<open>jd_prepare\<close>: the size of the picture, and \<open>jd_decomp\<close> for each scale.\<close>

record JDEC =
  jd_width :: nat
  jd_height :: nat
  jd_decomp :: "nat \<Rightarrow> JRESULT jd"

type_synonym jd_prepare = "(JRESULT \<times> JDEC) jd"

datatype jpg_scale_t = JPG_SCALE_NONE | JPG_SCALE_2X | JPG_SCALE_4X | JPG_SCALE_8X

fun jpg_scale_value :: "jpg_scale_t \<Rightarrow> nat" where
  "jpg_scale_value JPG_SCALE_NONE = 0"
| "jpg_scale_value JPG_SCALE_2X = 1"
| "jpg_scale_value JPG_SCALE_4X = 2"
| "jpg_scale_value JPG_SCALE_8X = 3"

section \<open>State\<close>

text \<open>The structures \<open>rgb_jpg_decoder\<close> and \<open>esp_jpg_decoder_t\<close> of a conversion, with the memory its pointers refer to:
  \<open>rj_output\<close> is \<open>None\<close> for \<open>NULL\<close>.  \<open>out_of_bounds\<close> is set by an access outside a buffer or through \<open>NULL\<close>; what a run
  does afterwards is void.\<close>

record jpg_vars = "fw_call plat" +
  rj_width :: nat
  rj_height :: nat
  rj_data_offset :: nat
  rj_input :: "byte list"
  rj_output :: "byte list option"
  jd_len :: nat
  jd_index :: nat
  out_of_bounds :: bool

definition store_bytes :: "nat \<Rightarrow> byte list \<Rightarrow> ('z jpg_vars_scheme, unit) state" where
  "store_bytes off bs = modify (\<lambda>s.
     if bs = [] then s
     else case rj_output s of
       None \<Rightarrow> s\<lparr>out_of_bounds := True\<rparr>
     | Some buf \<Rightarrow>
         if off + length bs \<le> length buf then s\<lparr>rj_output := Some (write_at off bs buf)\<rparr>
         else s\<lparr>out_of_bounds := True\<rparr>)"

fun store_rows :: "nat \<Rightarrow> nat \<Rightarrow> byte list list \<Rightarrow> ('z jpg_vars_scheme, unit) state" where
  "store_rows off stride [] = return ()"
| "store_rows off stride (row # rows) = do { store_bytes off row; store_rows (off + stride) stride rows }"

section \<open>\<open>esp_jpg_decode.c\<close>\<close>

type_synonym 'z jpg_reader_cb = "nat \<Rightarrow> bool \<Rightarrow> nat \<Rightarrow> ('z jpg_vars_scheme, byte list \<times> nat) state"
type_synonym 'z jpg_writer_cb = "nat \<Rightarrow> nat \<Rightarrow> nat \<Rightarrow> nat \<Rightarrow> byte list option \<Rightarrow> ('z jpg_vars_scheme, bool) state"

text \<open>The input function: no more than what is left of the file, unless its length is given as 0.\<close>

definition jpg_input :: "'z jpg_reader_cb \<Rightarrow> bool \<Rightarrow> nat \<Rightarrow> ('z jpg_vars_scheme, byte list \<times> nat) state" where
  "jpg_input reader buf len = do {
     s \<leftarrow> get_state;
     let len = (if jd_len s \<noteq> 0 \<and> jd_len s - jd_index s < len then jd_len s - jd_index s else len);
     if len = 0 then return ([], 0)
     else do {
       r \<leftarrow> reader (jd_index s) buf len;
       modify (\<lambda>s. s\<lparr>jd_index := jd_index s + snd r\<rparr>);
       return r
     }
   }"

text \<open>The output function.  \<open>as_uint16\<close> is the conversion to \<open>uint16_t\<close>.\<close>

definition as_uint16 :: "int \<Rightarrow> nat" where
  "as_uint16 v = nat (v mod 2 ^ 16)"

definition jpg_output :: "'z jpg_writer_cb \<Rightarrow> JRECT \<Rightarrow> byte list \<Rightarrow> ('z jpg_vars_scheme, bool) state" where
  "jpg_output writer q bitmap =
     (let x = as_uint16 (int (left q)); y = as_uint16 (int (top q));
          w = as_uint16 (int (right q) + 1 - int x); h = as_uint16 (int (bottom q) + 1 - int y)
      in writer x y w h (Some bitmap))"

primrec run_jd :: "'z jpg_reader_cb \<Rightarrow> 'z jpg_writer_cb \<Rightarrow> 'a jd \<Rightarrow> ('z jpg_vars_scheme, 'a) state" where
  "run_jd reader writer (Jd_done x) = return x"
| "run_jd reader writer (Jd_input buf len k) = do { r \<leftarrow> jpg_input reader buf len; run_jd reader writer (k r) }"
| "run_jd reader writer (Jd_output q bitmap k) = do { r \<leftarrow> jpg_output writer q bitmap; run_jd reader writer (k r) }"

text \<open>What the writer answers to the start of the output is not looked at.\<close>

definition esp_jpg_decode ::
  "jd_prepare \<Rightarrow> nat \<Rightarrow> jpg_scale_t \<Rightarrow> 'z jpg_reader_cb \<Rightarrow> 'z jpg_writer_cb \<Rightarrow> ('z jpg_vars_scheme, esp_err) state" where
  "esp_jpg_decode prepare len scale reader writer = do {
     modify (\<lambda>s. s\<lparr>jd_len := len, jd_index := 0\<rparr>);
     p \<leftarrow> run_jd reader writer prepare;
     if fst p \<noteq> JDR_OK then return ESP_FAIL
     else do {
       let output_width = as_uint16 (int (jd_width (snd p) div 2 ^ jpg_scale_value scale));
       let output_height = as_uint16 (int (jd_height (snd p) div 2 ^ jpg_scale_value scale));
       _ \<leftarrow> writer 0 0 output_width output_height None;
       jres \<leftarrow> run_jd reader writer (jd_decomp (snd p) (jpg_scale_value scale));
       _ \<leftarrow> writer output_width output_height output_width output_height None;
       if jres \<noteq> JDR_OK then return ESP_FAIL
       else do {
         s \<leftarrow> get_state;
         do_when (len \<noteq> 0 \<and> jd_index s < len) (do { _ \<leftarrow> jpg_input reader False (len - jd_index s); return () });
         return ESP_OK
       }
     }
   }"

section \<open>Callbacks of \<open>to_bmp.c\<close>\<close>

definition jpg_read :: "'z jpg_reader_cb" where
  "jpg_read index buf len = do {
     s \<leftarrow> get_state;
     do_when (buf \<and> length (rj_input s) < index + len) (modify (\<lambda>s. s\<lparr>out_of_bounds := True\<rparr>));
     return (if buf then slice index len (rj_input s) else [], len)
   }"

text \<open>The start of the output: the size of the picture, and memory for it if there is none yet.\<close>

definition write_start :: "fw_env \<Rightarrow> nat \<Rightarrow> nat \<Rightarrow> ('z jpg_vars_scheme, bool) state" where
  "write_start env w h = do {
     modify (\<lambda>s. s\<lparr>rj_width := w, rj_height := h\<rparr>);
     s \<leftarrow> get_state;
     if rj_output s = None then do {
       let n = w * h * 3 + rj_data_offset s;
       r \<leftarrow> call env (Os (Malloc n MALLOC_DEFAULT));
       if rval r = 0 then return False
       else do { modify (\<lambda>s. s\<lparr>rj_output := Some (fit n (rdata r))\<rparr>); return True }
     } else return True
   }"

text \<open>The rows of a block.  \<open>w = w * 3\<close> is stored in the \<open>uint16_t\<close> parameter, so the length of a row in bytes wraps around; the
  inner loop goes in steps of three up to it.\<close>

definition row_bytes :: "nat \<Rightarrow> nat" where
  "row_bytes w = as_uint16 (int (w * 3))"

definition block_row :: "nat \<Rightarrow> byte list \<Rightarrow> nat \<Rightarrow> byte list" where
  "block_row w d i = slice (i * row_bytes w) (3 * ((row_bytes w + 2) div 3)) d"

definition row_count :: "nat \<Rightarrow> nat \<Rightarrow> nat" where
  "row_count jw h = (if jw = 0 then 0 else h)"

text \<open>The loop reads past the end of the block, or its 32-bit row counter wraps around.\<close>

definition block_overrun :: "nat \<Rightarrow> nat \<Rightarrow> nat \<Rightarrow> nat \<Rightarrow> byte list \<Rightarrow> bool" where
  "block_overrun jw y w h d \<longleftrightarrow> 2 ^ 32 \<le> (y + h + 1) * jw \<or>
     0 < row_count jw h \<and> length d < (row_count jw h - 1) * row_bytes w + 3 * ((row_bytes w + 2) div 3)"

text \<open>Red and blue of every pixel are exchanged.\<close>

fun swap_rgb :: "byte list \<Rightarrow> byte list" where
  "swap_rgb (r # g # b # data) = b # g # r # swap_rgb data"
| "swap_rgb _ = []"

definition rgb_write :: "fw_env \<Rightarrow> 'z jpg_writer_cb" where
  "rgb_write env x y w h data =
     (case data of
        None \<Rightarrow> if x = 0 \<and> y = 0 then write_start env w h else return True
      | Some d \<Rightarrow> do {
          s \<leftarrow> get_state;
          let jw = rj_width s * 3;
          do_when (block_overrun jw y w h d) (modify (\<lambda>s. s\<lparr>out_of_bounds := True\<rparr>));
          store_rows (rj_data_offset s + y * jw + x * 3) jw
            (map (\<lambda>i. swap_rgb (block_row w d i)) [0..<row_count jw h]);
          return True
        })"

text \<open>Two bytes per pixel, the low byte first.\<close>

fun pack_rgb565 :: "byte list \<Rightarrow> byte list" where
  "pack_rgb565 (r # g # b # data) =
     (let c = push_bit 8 (ucast r AND 0xF8) OR push_bit 3 (ucast g AND 0xFC) OR drop_bit 3 (ucast b) :: u16
      in ucast (c AND 0xFF) # ucast (drop_bit 8 c) # pack_rgb565 data)"
| "pack_rgb565 _ = []"

definition rgb565_write :: "fw_env \<Rightarrow> 'z jpg_writer_cb" where
  "rgb565_write env x y w h data =
     (case data of
        None \<Rightarrow> if x = 0 \<and> y = 0 then write_start env w h else return True
      | Some d \<Rightarrow> do {
          s \<leftarrow> get_state;
          let jw = rj_width s * 3;
          let jw2 = rj_width s * 2;
          do_when (block_overrun jw y w h d) (modify (\<lambda>s. s\<lparr>out_of_bounds := True\<rparr>));
          store_rows (rj_data_offset s + y * jw2 + x * 2) jw2
            (map (\<lambda>i. pack_rgb565 (block_row w d i)) [0..<row_count jw h]);
          return True
        })"

definition new_decoder :: "byte list \<Rightarrow> byte list option \<Rightarrow> nat \<Rightarrow> ('z jpg_vars_scheme, unit) state" where
  "new_decoder src out data_offset = modify (\<lambda>s. s\<lparr>rj_width := 0, rj_height := 0, rj_input := src, rj_output := out,
     rj_data_offset := data_offset\<rparr>)"

text \<open>The functions return success, and leave the picture in the buffer \<open>out\<close>, which is \<open>rj_output\<close>.\<close>

definition jpg2rgb888 :: "fw_env \<Rightarrow> jd_prepare \<Rightarrow> byte list \<Rightarrow> nat \<Rightarrow> byte list \<Rightarrow> jpg_scale_t \<Rightarrow> ('z jpg_vars_scheme, bool) state" where
  "jpg2rgb888 env prepare src src_len out scale = do {
     new_decoder src (Some out) 0;
     e \<leftarrow> esp_jpg_decode prepare src_len scale jpg_read (rgb_write env);
     return (e = ESP_OK)
   }"

definition jpg2rgb565 :: "fw_env \<Rightarrow> jd_prepare \<Rightarrow> byte list \<Rightarrow> nat \<Rightarrow> byte list option \<Rightarrow> jpg_scale_t \<Rightarrow> ('z jpg_vars_scheme, bool) state" where
  "jpg2rgb565 env prepare src src_len out scale = do {
     new_decoder src out 0;
     e \<leftarrow> esp_jpg_decode prepare src_len scale jpg_read (rgb565_write env);
     return (e = ESP_OK)
   }"

section \<open>BMP files\<close>

definition BMP_HEADER_LEN :: nat where "BMP_HEADER_LEN = 54"

record bmp_header_t =
  bmp_filesize :: u32
  bmp_fileoffset :: u32
  bmp_width :: u32
  bmp_height :: u32
  bmp_bitsperpixel :: u16
  bmp_imagesize :: u32

definition le16 :: "u16 \<Rightarrow> byte list" where
  "le16 v = [ucast v, ucast (drop_bit 8 v)]"

definition le32 :: "u32 \<Rightarrow> byte list" where
  "le32 v = [ucast v, ucast (drop_bit 8 v), ucast (drop_bit 16 v), ucast (drop_bit 24 v)]"

text \<open>The two letters and the header behind them; the fields that are constants are written out.\<close>

definition bmp_header :: "bmp_header_t \<Rightarrow> byte list" where
  "bmp_header h = [0x42, 0x4D] @ le32 (bmp_filesize h) @ le32 0 @ le32 (bmp_fileoffset h) @ le32 40 @
     le32 (bmp_width h) @ le32 (bmp_height h) @ le16 1 @ le16 (bmp_bitsperpixel h) @ le32 0 @ le32 (bmp_imagesize h) @
     le32 0x0B13 @ le32 0x0B13 @ le32 0 @ le32 0"

text \<open>On failure \<open>*out\<close> is left alone, which the model reports as \<open>None\<close>; memory the decoder had allocated is lost.\<close>

definition jpg2bmp :: "fw_env \<Rightarrow> jd_prepare \<Rightarrow> byte list \<Rightarrow> nat \<Rightarrow> ('z jpg_vars_scheme, bool \<times> byte list option \<times> nat) state" where
  "jpg2bmp env prepare src src_len = do {
     new_decoder src None BMP_HEADER_LEN;
     e \<leftarrow> esp_jpg_decode prepare src_len JPG_SCALE_NONE jpg_read (rgb_write env);
     if e \<noteq> ESP_OK then return (False, None, 0)
     else do {
       s \<leftarrow> get_state;
       let output_size = rj_width s * rj_height s * 3;
       store_bytes 0 (bmp_header
         \<lparr>bmp_filesize = of_nat (output_size + BMP_HEADER_LEN), bmp_fileoffset = of_nat BMP_HEADER_LEN,
          bmp_width = of_nat (rj_width s), bmp_height = - of_nat (rj_height s), bmp_bitsperpixel = 24,
          bmp_imagesize = of_nat output_size\<rparr>);
       out \<leftarrow> gets rj_output;
       return (True, out, output_size + BMP_HEADER_LEN)
     }
   }"

section \<open>Conversion of raw pictures\<close>

fun rgb565_bytes :: "byte list \<Rightarrow> byte list" where
  "rgb565_bytes (hb # lb # src) =
     push_bit 3 (lb AND 0x1F) # (push_bit 5 (hb AND 0x07) OR drop_bit 3 (lb AND 0xE0)) # (hb AND 0xF8) # rgb565_bytes src"
| "rgb565_bytes _ = []"

fun grayscale_bytes :: "byte list \<Rightarrow> byte list" where
  "grayscale_bytes (b # src) = b # b # b # grayscale_bytes src"
| "grayscale_bytes [] = []"

definition bgr :: "byte \<times> byte \<times> byte \<Rightarrow> byte list" where
  "bgr = (\<lambda>(r, g, b). [b, g, r])"

fun yuv_bytes :: "byte list \<Rightarrow> byte list" where
  "yuv_bytes (y0 # u # y1 # v # src) = bgr (yuv2rgb y0 u v) @ bgr (yuv2rgb y1 u v) @ yuv_bytes src"
| "yuv_bytes _ = []"

text \<open>The bytes written for a picture; a format that is not handled writes nothing.\<close>

definition rgb888_bytes :: "pixformat_t \<Rightarrow> byte list \<Rightarrow> byte list" where
  "rgb888_bytes pf src =
     (if pf = PIXFORMAT_RGB888 then src
      else if pf = PIXFORMAT_RGB565 then rgb565_bytes src
      else if pf = PIXFORMAT_GRAYSCALE then grayscale_bytes src
      else if pf = PIXFORMAT_YUV422 then yuv_bytes src
      else [])"

text \<open>The source is read up to \<open>src_len\<close>, the result is in \<open>rj_output\<close>.\<close>

definition fmt2rgb888 ::
  "fw_env \<Rightarrow> jd_prepare \<Rightarrow> byte list \<Rightarrow> nat \<Rightarrow> pixformat_t \<Rightarrow> byte list \<Rightarrow> ('z jpg_vars_scheme, bool) state" where
  "fmt2rgb888 env prepare src src_len pf rgb_buf =
     (if pf = PIXFORMAT_JPEG then jpg2rgb888 env prepare src src_len rgb_buf JPG_SCALE_NONE
      else do {
        modify (\<lambda>s. s\<lparr>rj_output := Some rgb_buf\<rparr>);
        store_bytes 0 (rgb888_bytes pf (take src_len src));
        return True
      })"

text \<open>How many bytes of the source \<open>fmt2bmp\<close> reads for \<open>n\<close> pixels; it does not look at \<open>src_len\<close>.\<close>

definition source_bytes :: "pixformat_t \<Rightarrow> nat \<Rightarrow> nat" where
  "source_bytes pf n =
     (if pf = PIXFORMAT_RGB888 then 3 * n
      else if pf = PIXFORMAT_RGB565 then 2 * n
      else if pf = PIXFORMAT_GRAYSCALE then n
      else if pf = PIXFORMAT_YUV422 then 4 * (n div 2)
      else 0)"

definition gray_palette :: "byte list" where
  "gray_palette = concat (map (\<lambda>i. [of_nat i, of_nat i, of_nat i, 0]) [0..<256])"

definition fmt2bmp ::
  "fw_env \<Rightarrow> jd_prepare \<Rightarrow> byte list \<Rightarrow> nat \<Rightarrow> nat \<Rightarrow> nat \<Rightarrow> pixformat_t \<Rightarrow>
     ('z jpg_vars_scheme, bool \<times> byte list option \<times> nat) state" where
  "fmt2bmp env prepare src src_len wd ht pf =
     (if pf = PIXFORMAT_JPEG then jpg2bmp env prepare src src_len
      else do {
        let pix_count = wd * ht;
        let bpp = (if pf = PIXFORMAT_GRAYSCALE then 1 else 3);
        let palette_size = (if pf = PIXFORMAT_GRAYSCALE then 4 * 256 else 0);
        let out_size = pix_count * bpp + BMP_HEADER_LEN + palette_size;
        r \<leftarrow> call env (Os (Malloc out_size MALLOC_DEFAULT));
        if rval r = 0 then return (False, None, 0)
        else do {
          modify (\<lambda>s. s\<lparr>rj_output := Some (fit out_size (rdata r))\<rparr>);
          store_bytes 0 (bmp_header
            \<lparr>bmp_filesize = of_nat out_size, bmp_fileoffset = of_nat (BMP_HEADER_LEN + palette_size),
             bmp_width = of_nat wd, bmp_height = - of_nat ht, bmp_bitsperpixel = of_nat (bpp * 8),
             bmp_imagesize = of_nat (pix_count * bpp)\<rparr>);
          store_bytes BMP_HEADER_LEN (if 0 < palette_size then gray_palette else []);
          do_when (length src < source_bytes pf pix_count) (modify (\<lambda>s. s\<lparr>out_of_bounds := True\<rparr>));
          store_bytes (BMP_HEADER_LEN + palette_size)
            (if pf = PIXFORMAT_GRAYSCALE then take pix_count src else rgb888_bytes pf (take (source_bytes pf pix_count) src));
          out \<leftarrow> gets rj_output;
          return (True, out, out_size)
        }
      })"

definition frame2bmp :: "fw_env \<Rightarrow> jd_prepare \<Rightarrow> camera_fb_t \<Rightarrow> ('z jpg_vars_scheme, bool \<times> byte list option \<times> nat) state" where
  "frame2bmp env prepare fb = fmt2bmp env prepare (fb_bytes fb) (fb_len fb) (fb_width fb) (fb_height fb) (fb_format fb)"

end
