(* ===== verification/BmpFiles.thy ===== *)
theory BmpFiles
  imports ToBmp Framing FramePool
begin

text \<open>
  BMP files: a reader of the format, and the proof that it gets back from a converted picture its size and
  its pixels.
\<close>

section \<open>Lists of pixels\<close>

lemma nth_concat_equal:
  assumes "\<And>x. x \<in> set xs \<Longrightarrow> length x = d" "i < length xs" "k < d"
  shows "concat xs ! (i * d + k) = xs ! i ! k"
  using assms
proof (induction xs arbitrary: i)
  case (Cons x xs)
  show ?case
  proof (cases i)
    case (Suc j)
    have "length x = d" using Cons by simp
    then have "concat (x # xs) ! (i * d + k) = concat xs ! (j * d + k)" by (simp add: Suc nth_append)
    then show ?thesis using Cons by (simp add: Suc)
  qed (use Cons in \<open>simp add: nth_append\<close>)
qed simp

lemma map_rows: "concat (map (\<lambda>y. map (\<lambda>x. g (y * w + x)) [0..<w]) [0..<h]) = map g [0..<w * (h :: nat)]"
proof (induction h)
  case (Suc h)
  have "map (\<lambda>x. g (h * w + x)) [0..<w] = map g [w * h..<w * h + w]"
    by (rule nth_equalityI) (simp_all add: mult.commute)
  then show ?case using Suc upt_add_eq_append [of 0 "w * h" w] by (simp add: add.commute [of w])
qed simp

section \<open>The pixels of a raw picture\<close>

text \<open>The \<open>i\<close>-th pixel: RGB888 has the bytes blue, green, red; RGB565 a 16-bit number with 5, 6 and 5 bits, the high byte
  first; YUV422 two pixels in four bytes.\<close>

fun pixel_at :: "pixformat_t \<Rightarrow> byte list \<Rightarrow> nat \<Rightarrow> byte \<times> byte \<times> byte" where
  "pixel_at PIXFORMAT_RGB888 src i = (src ! (3 * i + 2), src ! (3 * i + 1), src ! (3 * i))"
| "pixel_at PIXFORMAT_RGB565 src i =
     (let v = push_bit 8 (ucast (src ! (2 * i))) OR ucast (src ! (2 * i + 1)) :: u16
      in (ucast (push_bit 3 (drop_bit 11 v AND 0x1F)), ucast (push_bit 2 (drop_bit 5 v AND 0x3F)), ucast (push_bit 3 (v AND 0x1F))))"
| "pixel_at PIXFORMAT_GRAYSCALE src i = (src ! i, src ! i, src ! i)"
| "pixel_at PIXFORMAT_YUV422 src i = yuv2rgb (src ! (2 * i)) (src ! (4 * (i div 2) + 1)) (src ! (4 * (i div 2) + 3))"
| "pixel_at _ src i = (0, 0, 0)"

definition raw_formats :: "pixformat_t set" where
  "raw_formats = {PIXFORMAT_RGB888, PIXFORMAT_RGB565, PIXFORMAT_GRAYSCALE, PIXFORMAT_YUV422}"

definition pixels :: "pixformat_t \<Rightarrow> byte list \<Rightarrow> nat \<Rightarrow> (byte \<times> byte \<times> byte) list" where
  "pixels pf src n = map (pixel_at pf src) [0..<n]"

lemma length_bgr [simp]: "length (bgr p) = 3"
  by (simp add: bgr_def split: prod.split)

lemma upt_Suc_map: "[0..<Suc n] = 0 # map Suc [0..<n]"
  by (simp add: map_Suc_upt upt_conv_Cons)

lemma pixels_Suc:
  assumes "\<And>i. pixel_at pf src (Suc i) = pixel_at pf (drop d src) i"
  shows "pixels pf src (Suc n) = pixel_at pf src 0 # pixels pf (drop d src) n"
  using assms by (simp add: pixels_def upt_Suc_map del: upt_Suc)

lemma rgb565_pixel:
  "bgr (pixel_at PIXFORMAT_RGB565 (hb # lb # src) 0) =
     [push_bit 3 (lb AND 0x1F), push_bit 5 (hb AND 0x07) OR drop_bit 3 (lb AND 0xE0), hb AND 0xF8]"
proof -
  have "\<not> bit lb n" "\<not> bit hb n" if "8 \<le> n" for n using that by (auto dest: bit_imp_le_length)
  then show ?thesis
    by (simp add: bgr_def Let_def) (intro conjI; rule byte_eqI, drule less_8_cases, elim disjE; simp add: bit_simps)
qed

lemma rgb565_pixels: "2 * n \<le> length src \<Longrightarrow> rgb565_bytes (take (2 * n) src) = concat (map bgr (pixels PIXFORMAT_RGB565 src n))"
proof (induction n arbitrary: src)
  case (Suc n)
  then obtain hb lb rest where src: "src = hb # lb # rest" by (cases src; cases "tl src") auto
  have "pixels PIXFORMAT_RGB565 src (Suc n) = pixel_at PIXFORMAT_RGB565 src 0 # pixels PIXFORMAT_RGB565 (drop 2 src) n"
    by (rule pixels_Suc) (simp add: src)
  then show ?case using Suc.IH [of rest] Suc.prems rgb565_pixel [of hb lb rest] by (simp add: src)
qed (simp add: pixels_def)

lemma yuv_pixels: "4 * n \<le> length src \<Longrightarrow> yuv_bytes (take (4 * n) src) = concat (map bgr (pixels PIXFORMAT_YUV422 src (2 * n)))"
proof (induction n arbitrary: src)
  case (Suc n)
  then obtain y0 u y1 v rest where src: "src = y0 # u # y1 # v # rest"
    by (cases src; cases "tl src"; cases "tl (tl src)"; cases "tl (tl (tl src))") auto
  have "pixels PIXFORMAT_YUV422 src (Suc (Suc (2 * n))) =
      pixel_at PIXFORMAT_YUV422 src 0 # pixel_at PIXFORMAT_YUV422 src 1 # pixels PIXFORMAT_YUV422 rest (2 * n)"
    by (simp add: pixels_def upt_Suc_map src add.commute [of 3] del: upt_Suc)
  moreover have "take (4 + 4 * n) src = y0 # u # y1 # v # take (4 * n) rest" by (simp add: src eval_nat_numeral)
  ultimately show ?case using Suc.IH [of rest] Suc.prems by (simp add: src)
qed (simp add: pixels_def)

lemma rgb888_pixels: "3 * n \<le> length src \<Longrightarrow> take (3 * n) src = concat (map bgr (pixels PIXFORMAT_RGB888 src n))"
proof (induction n arbitrary: src)
  case (Suc n)
  then obtain b g r rest where src: "src = b # g # r # rest" by (cases src; cases "tl src"; cases "tl (tl src)") auto
  have "pixels PIXFORMAT_RGB888 src (Suc n) = pixel_at PIXFORMAT_RGB888 src 0 # pixels PIXFORMAT_RGB888 (drop 3 src) n"
    by (rule pixels_Suc) (simp add: src)
  then show ?case using Suc.IH [of rest] Suc.prems by (simp add: src bgr_def numeral_3_eq_3)
qed (simp add: pixels_def)

lemma converted_pixels:
  assumes "source_bytes pf n \<le> length src" "pf \<in> raw_formats" "pf \<noteq> PIXFORMAT_GRAYSCALE" "even n"
  shows "rgb888_bytes pf (take (source_bytes pf n) src) = concat (map bgr (pixels pf src n))"
proof -
  obtain m where n: "n = 2 * m" using \<open>even n\<close> by (rule evenE)
  consider "pf = PIXFORMAT_RGB888" | "pf = PIXFORMAT_RGB565" | "pf = PIXFORMAT_YUV422" using assms by (auto simp: raw_formats_def)
  then show ?thesis
    by cases (use assms rgb888_pixels [of n src] rgb565_pixels [of n src] yuv_pixels [of m src] in
      \<open>simp_all add: rgb888_bytes_def source_bytes_def n\<close>)
qed

section \<open>A reader\<close>

text \<open>The reader checks the two letters, the length of the file, the size of the header, the number of planes and that the
  pixels are not compressed.  A row takes a multiple of four bytes; a negative height means that the first row comes first.\<close>

fun le_value :: "byte list \<Rightarrow> nat" where
  "le_value [] = 0"
| "le_value (b # bs) = unat b + 256 * le_value bs"

definition field :: "byte list \<Rightarrow> nat \<Rightarrow> nat \<Rightarrow> nat" where
  "field f off n = le_value (slice off n f)"

definition signed32 :: "nat \<Rightarrow> int" where
  "signed32 v = (if v < 2 ^ 31 then int v else int v - 2 ^ 32)"

definition bmp_pixel :: "byte list \<Rightarrow> nat \<Rightarrow> nat \<Rightarrow> nat \<Rightarrow> byte \<times> byte \<times> byte" where
  "bmp_pixel f bits row x =
     (let p = (if bits = 8 then BMP_HEADER_LEN + 4 * unat (f ! (row + x)) else row + 3 * x)
      in (f ! (p + 2), f ! (p + 1), f ! p))"

definition read_bmp :: "byte list \<Rightarrow> (nat \<times> nat \<times> (byte \<times> byte \<times> byte) list) option" where
  "read_bmp f =
     (if take 2 f \<noteq> [0x42, 0x4D] \<or> field f 2 4 \<noteq> length f \<or> field f 14 4 \<noteq> 40 \<or> field f 26 2 \<noteq> 1
         \<or> field f 30 4 \<noteq> 0 \<or> field f 28 2 \<notin> {8, 24} then None
      else
        let off = field f 10 4; wd = field f 18 4; bits = field f 28 2;
            height = signed32 (field f 22 4); ht = nat \<bar>height\<bar>;
            stride = (bits * wd + 31) div 32 * 4;
            rows = (if height < 0 then [0..<ht] else rev [0..<ht])
        in if length f < off + stride * ht then None
           else Some (wd, ht, concat (map (\<lambda>y. map (bmp_pixel f bits (off + y * stride)) [0..<wd]) rows)))"

lemma le_value_le32 [simp]: "le_value (le32 v) = unat v"
  using base_256_digits [of "unat v"] unsigned_less [of v, where ?'a = nat]
  by (simp add: le32_def unat_byte_of drop_bit_eq_div unat_div)

lemma le_value_le16: "v < 2 ^ 16 \<Longrightarrow> le_value (le16 (of_nat v)) = v"
proof -
  assume v: "v < 2 ^ 16"
  have "unat (ucast (of_nat v :: u16) :: byte) = v mod 256"
    "unat (ucast (drop_bit 8 (of_nat v :: u16)) :: byte) = v div 256 mod 256"
    using v by (simp_all add: unsigned_ucast_eq unsigned_take_bit_eq take_bit_eq_mod drop_bit_eq_div unat_div unsigned_of_nat)
  with v show ?thesis by (simp add: le16_def)
qed

lemma length_le [simp]: "length (le32 v) = 4" "length (le16 w) = 2"
  by (simp_all add: le32_def le16_def)

lemma length_bmp_header [simp]: "length (bmp_header h) = BMP_HEADER_LEN"
  by (simp add: bmp_header_def BMP_HEADER_LEN_def)

text \<open>The fields of a written header are read back.\<close>

lemma slice_append: "slice (length xs) n (xs @ ys) = take n ys"
  by (simp add: slice_def)

lemma slice_header:
  "take 2 (bmp_header h @ rest) = [0x42, 0x4D]"
  "slice 2 4 (bmp_header h @ rest) = le32 (bmp_filesize h)"
  "slice 10 4 (bmp_header h @ rest) = le32 (bmp_fileoffset h)"
  "slice 14 4 (bmp_header h @ rest) = le32 40"
  "slice 18 4 (bmp_header h @ rest) = le32 (bmp_width h)"
  "slice 22 4 (bmp_header h @ rest) = le32 (bmp_height h)"
  "slice 26 2 (bmp_header h @ rest) = le16 1"
  "slice 28 2 (bmp_header h @ rest) = le16 (bmp_bitsperpixel h)"
  "slice 30 4 (bmp_header h @ rest) = le32 0"
  by (simp_all add: bmp_header_def slice_def)

lemma signed32_neg: "n < 2 ^ 31 \<Longrightarrow> signed32 (unat (- (of_nat n :: u32))) = - int n"
proof -
  assume n: "n < 2 ^ 31"
  have u: "uint (- (of_nat n :: u32)) = (- int n) mod 2 ^ 32"
    by (simp add: uint_word_ariths unsigned_of_nat take_bit_eq_mod zmod_int mod_minus_eq)
  show ?thesis
  proof (cases "n = 0")
    case False
    have "(- int n) mod 2 ^ 32 = 2 ^ 32 - int n"
      using n False by (simp add: zmod_zminus1_eq_if)
    with u have "uint (- (of_nat n :: u32)) = 2 ^ 32 - int n" by simp
    moreover define v where "v = unat (- (of_nat n :: u32))"
    ultimately have "int v = 2 ^ 32 - int n" by simp
    then show ?thesis using n False by (auto simp: signed32_def v_def [symmetric])
  qed (simp add: signed32_def)
qed

text \<open>When a row of pixels needs no padding, the reader returns the pixels behind the header in order.\<close>

lemma read_bmp_file:
  assumes f: "f = bmp_header h @ rest" and len: "unat (bmp_filesize h) = length f"
    and bits: "bmp_bitsperpixel h = of_nat (8 * bpp)" "bpp = 1 \<or> bpp = 3"
    and sizes: "unat (bmp_width h) = wd" "signed32 (unat (bmp_height h)) = - int ht" "4 dvd wd"
    and room: "length f = unat (bmp_fileoffset h) + bpp * (wd * ht)"
  shows "read_bmp f = Some (wd, ht, map (bmp_pixel f (8 * bpp) (unat (bmp_fileoffset h))) [0..<wd * ht])"
proof -
  define off where "off = unat (bmp_fileoffset h)"
  have fields: "field f 2 4 = length f" "field f 14 4 = 40" "field f 26 2 = 1" "field f 30 4 = 0" "field f 10 4 = off"
      "field f 18 4 = wd" "field f 22 4 = unat (bmp_height h)" "field f 28 2 = 8 * bpp"
    using le_value_le16 [of 1] le_value_le16 [of "8 * bpp"] bits(2)
    by (auto simp: field_def slice_header f len [unfolded f] off_def sizes bits(1))
  have letters: "take 2 f = [0x42, 0x4D]" by (simp only: f slice_header)
  have stride: "(8 * bpp * wd + 31) div 32 * 4 = bpp * wd"
    using sizes(3) by (auto elim!: dvdE)
  have row: "map (bmp_pixel f (8 * bpp) (off + y * (bpp * wd))) [0..<wd] = map (\<lambda>x. bmp_pixel f (8 * bpp) off (y * wd + x)) [0..<wd]" for y
    using bits(2) by (auto simp: bmp_pixel_def algebra_simps)
  have "read_bmp f = Some (wd, ht, concat (map (\<lambda>y. map (bmp_pixel f (8 * bpp) (off + y * (bpp * wd))) [0..<wd]) [0..<ht]))"
    using bits(2) room unfolding read_bmp_def Let_def fields letters stride sizes(2) off_def [symmetric]
    by (cases "ht = 0") (auto simp: algebra_simps)
  then show ?thesis unfolding row map_rows unfolding off_def .
qed

section \<open>The file \<open>fmt2bmp\<close> writes\<close>

definition bmp_data :: "pixformat_t \<Rightarrow> byte list \<Rightarrow> nat \<Rightarrow> byte list" where
  "bmp_data pf src n = (if pf = PIXFORMAT_GRAYSCALE then take n src else rgb888_bytes pf (take (source_bytes pf n) src))"

abbreviation "bmp_bpp pf \<equiv> (if pf = PIXFORMAT_GRAYSCALE then 1 else 3 :: nat)"

abbreviation "bmp_palette pf \<equiv> (if pf = PIXFORMAT_GRAYSCALE then gray_palette else [])"

abbreviation "bmp_size pf n \<equiv> n * bmp_bpp pf + BMP_HEADER_LEN + (if pf = PIXFORMAT_GRAYSCALE then 1024 else 0)"

definition bmp_head :: "pixformat_t \<Rightarrow> nat \<Rightarrow> nat \<Rightarrow> bmp_header_t" where
  "bmp_head pf wd ht =
     \<lparr>bmp_filesize = of_nat (bmp_size pf (wd * ht)),
      bmp_fileoffset = of_nat (BMP_HEADER_LEN + (if pf = PIXFORMAT_GRAYSCALE then 1024 else 0)),
      bmp_width = of_nat wd, bmp_height = - of_nat ht, bmp_bitsperpixel = of_nat (bmp_bpp pf * 8),
      bmp_imagesize = of_nat (wd * ht * bmp_bpp pf)\<rparr>"

lemma length_gray_palette [simp]: "length gray_palette = 1024"
  by (simp add: gray_palette_def length_concat comp_def sum_list_triv)

lemma gray_palette_nth: "i < 256 \<Longrightarrow> k < 3 \<Longrightarrow> gray_palette ! (4 * i + k) = of_nat i"
  unfolding gray_palette_def
  by (subst nth_concat_equal [where d = 4, unfolded mult.commute [of _ 4]]) (auto simp: nth_Cons' less_Suc_eq numeral_3_eq_3)

lemma length_pixel_bytes: "length (concat (map bgr ps)) = 3 * length ps"
  by (induction ps) simp_all

lemma length_bmp_data:
  assumes "source_bytes pf n \<le> length src" "pf \<in> raw_formats" "even n"
  shows "length (bmp_data pf src n) = n * bmp_bpp pf"
  using assms converted_pixels [OF assms(1,2) _ assms(3)]
  by (cases "pf = PIXFORMAT_GRAYSCALE") (simp_all add: bmp_data_def source_bytes_def length_pixel_bytes, simp add: pixels_def)

lemma run_store_bytes:
  "rj_output s = Some buf \<Longrightarrow> off + length bs \<le> length buf \<Longrightarrow>
     run_state (store_bytes off bs) s = ((), s\<lparr>rj_output := Some (write_at off bs buf)\<rparr>)"
  by (auto simp: store_bytes_def write_at_def)

lemma written_file:
  "length f = length a + length b + length c \<Longrightarrow>
     write_at (length a + length b) c (write_at (length a) b (write_at 0 a f)) = a @ b @ c"
  by (simp add: write_at_def)

definition bmp_file :: "pixformat_t \<Rightarrow> byte list \<Rightarrow> nat \<Rightarrow> nat \<Rightarrow> byte list" where
  "bmp_file pf src wd ht = bmp_header (bmp_head pf wd ht) @ bmp_palette pf @ bmp_data pf src (wd * ht)"

lemma fmt2bmp_run:
  fixes env :: fw_env and s :: "'z jpg_vars_scheme"
  assumes "pf \<in> raw_formats" "source_bytes pf (wd * ht) \<le> length src" "even (wd * ht)"
  defines "c \<equiv> Os (Malloc (bmp_size pf (wd * ht)) MALLOC_DEFAULT)"
  defines "r \<equiv> env (length (trace s)) c"
  shows "run_state (fmt2bmp env prepare src src_len wd ht pf) s =
     (if rval r = 0 then ((False, None, 0), s\<lparr>trace := trace s @ [(c, r)]\<rparr>)
      else ((True, Some (bmp_file pf src wd ht), bmp_size pf (wd * ht)),
            s\<lparr>trace := trace s @ [(c, r)], rj_output := Some (bmp_file pf src wd ht)\<rparr>))"
proof -
  let ?h = "bmp_header (bmp_head pf wd ht)" and ?d = "bmp_data pf src (wd * ht)"
  let ?p = "length (bmp_palette pf)"
  have len: "length ?d = wd * ht * bmp_bpp pf" by (rule length_bmp_data [OF assms(2,1,3)])
  have written: "write_at (BMP_HEADER_LEN + ?p) ?d (write_at BMP_HEADER_LEN (bmp_palette pf) (write_at 0 ?h f)) = bmp_file pf src wd ht"
    if "length f = bmp_size pf (wd * ht)" for f
    using written_file [of f ?h "bmp_palette pf" ?d] that len by (auto simp: bmp_file_def)
  have jpeg: "pf \<noteq> PIXFORMAT_JPEG" using assms(1) by (auto simp: raw_formats_def)
  show ?thesis
  proof (cases "rval r = 0")
    case True
    then show ?thesis using jpeg by (auto simp: fmt2bmp_def Let_def run_simps r_def c_def)
  next
    case False
    let ?f0 = "fit (bmp_size pf (wd * ht)) (rdata r)"
    have l0: "length (write_at 0 ?h ?f0) = bmp_size pf (wd * ht)" by (simp add: length_write_at)
    then have l1: "length (write_at BMP_HEADER_LEN (bmp_palette pf) (write_at 0 ?h ?f0)) = bmp_size pf (wd * ht)"
      by (simp add: length_write_at)
    show ?thesis
      using False jpeg assms(2) l0 l1 len written [of ?f0]
      by (cases "pf = PIXFORMAT_GRAYSCALE")
        (simp_all add: fmt2bmp_def Let_def run_simps r_def c_def run_store_bytes bmp_head_def bmp_data_def)
  qed
qed

lemma bgr_nth: "bgr p ! 2 = fst p" "bgr p ! Suc 0 = fst (snd p)" "bgr p ! 0 = snd (snd p)"
  by (simp_all add: bgr_def split: prod.split)

lemma bmp_file_pixel:
  assumes "pf \<in> raw_formats" "source_bytes pf (wd * ht) \<le> length src" "even (wd * ht)" "i < wd * ht"
  shows "bmp_pixel (bmp_file pf src wd ht) (8 * bmp_bpp pf) (BMP_HEADER_LEN + length (bmp_palette pf)) i = pixel_at pf src i"
proof (cases "pf = PIXFORMAT_GRAYSCALE")
  case True
  let ?f = "bmp_file pf src wd ht" and ?v = "src ! i"
  have "?f ! (BMP_HEADER_LEN + 1024 + i) = ?v"
    using assms True by (simp add: bmp_file_def bmp_data_def nth_append source_bytes_def)
  moreover have "?f ! (BMP_HEADER_LEN + (4 * unat ?v + k)) = ?v" if "k < 3" for k
    using gray_palette_nth [of "unat ?v" k] unsigned_less [of ?v, where ?'a = nat] that True
    by (simp add: bmp_file_def nth_append)
  from this [of 0] this [of 1] this [of 2]
  have "?f ! (BMP_HEADER_LEN + 4 * unat ?v) = ?v" "?f ! (BMP_HEADER_LEN + 4 * unat ?v + 1) = ?v"
    "?f ! (BMP_HEADER_LEN + 4 * unat ?v + 2) = ?v" by (simp_all add: add.assoc)
  ultimately show ?thesis using True by (simp add: bmp_pixel_def Let_def)
next
  case False
  let ?f = "bmp_file pf src wd ht" and ?ps = "pixels pf src (wd * ht)"
  have data: "bmp_data pf src (wd * ht) = concat (map bgr ?ps)"
    using converted_pixels [OF assms(2,1) False assms(3)] False by (simp add: bmp_data_def)
  have bgrs: "length x = 3" if "x \<in> set (map bgr ?ps)" for x using that by auto
  have "?f ! (BMP_HEADER_LEN + (i * 3 + k)) = bgr (?ps ! i) ! k" if "k < 3" for k
    using nth_concat_equal [of "map bgr ?ps" 3 i k, OF bgrs] assms(4) that False
    by (simp add: bmp_file_def nth_append data) (simp add: pixels_def)
  from this [of 0] this [of 1] this [of 2]
  have "?f ! (BMP_HEADER_LEN + 3 * i) = snd (snd (?ps ! i))" "?f ! (BMP_HEADER_LEN + 3 * i + 1) = fst (snd (?ps ! i))"
    "?f ! (BMP_HEADER_LEN + 3 * i + 2) = fst (?ps ! i)" by (simp_all add: add.assoc bgr_nth mult.commute)
  moreover have "?ps ! i = pixel_at pf src i" using assms(4) by (simp add: pixels_def)
  ultimately show ?thesis using False by (simp add: bmp_pixel_def Let_def)
qed

lemma read_bmp_bmp_file:
  assumes "pf \<in> raw_formats" "source_bytes pf (wd * ht) \<le> length src" "4 dvd wd"
    and small: "wd < 2 ^ 16" "ht < 2 ^ 16" "wd * ht \<le> 2 ^ 28"
  shows "read_bmp (bmp_file pf src wd ht) = Some (wd, ht, pixels pf src (wd * ht))"
proof -
  have even: "even (wd * ht)" using assms(3) by (auto elim!: dvdE)
  let ?h = "bmp_head pf wd ht"
  let ?off = "BMP_HEADER_LEN + length (bmp_palette pf)"
  have len: "length (bmp_file pf src wd ht) = bmp_size pf (wd * ht)"
    using length_bmp_data [OF assms(2,1) even] by (simp add: bmp_file_def)
  have size: "bmp_size pf (wd * ht) < 2 ^ 32" using small(3) by (simp add: BMP_HEADER_LEN_def)
  have u: "unat (of_nat k :: u32) = k" if "k < 2 ^ 32" for k using that by (simp add: unsigned_of_nat take_bit_eq_mod)
  have off: "unat (bmp_fileoffset ?h) = ?off" using u [of ?off] by (simp add: bmp_head_def BMP_HEADER_LEN_def)
  have "read_bmp (bmp_file pf src wd ht) =
      Some (wd, ht, map (bmp_pixel (bmp_file pf src wd ht) (8 * bmp_bpp pf) (unat (bmp_fileoffset ?h))) [0..<wd * ht])"
  proof (rule read_bmp_file [OF _ _ _ _ _ _ assms(3)])
    show "bmp_file pf src wd ht = bmp_header ?h @ bmp_palette pf @ bmp_data pf src (wd * ht)" by (simp add: bmp_file_def)
    show "unat (bmp_filesize ?h) = length (bmp_file pf src wd ht)" using u [OF size] unfolding len by (simp only: bmp_head_def bmp_header_t.select_convs)
    show "signed32 (unat (bmp_height ?h)) = - int ht" using small(2) by (simp add: bmp_head_def signed32_neg)
    show "unat (bmp_width ?h) = wd" using small(1) u [of wd] by (simp add: bmp_head_def)
    show "length (bmp_file pf src wd ht) = unat (bmp_fileoffset ?h) + bmp_bpp pf * (wd * ht)" unfolding len off by simp
  qed (simp_all add: bmp_head_def mult.commute)
  also have "\<dots> = Some (wd, ht, pixels pf src (wd * ht))"
    using bmp_file_pixel [OF assms(1,2) even] unfolding off by (simp add: pixels_def)
  finally show ?thesis .
qed

text \<open>C32 (roundtrip): BMP files of raw pictures. For a picture in one of the raw formats with all its bytes there and a
  width that is a multiple of four, converting a frame to BMP succeeds exactly when the memory for the file can be
  had, nothing outside the buffers is accessed, and a reader of the BMP format gets back from the file the size of the
  picture and each pixel of it, in order, where RGB565 has its high byte first and the two pixels of a YUV group share
  the chrominance.\<close>

theorem frame2bmp_readable:
  assumes "fb_format fb \<in> raw_formats" "source_bytes (fb_format fb) (fb_width fb * fb_height fb) \<le> length (fb_bytes fb)"
    "4 dvd fb_width fb" "fb_width fb < 2 ^ 16" "fb_height fb < 2 ^ 16" "fb_width fb * fb_height fb \<le> 2 ^ 28"
    "run_state (frame2bmp env prepare fb) s = ((ok, out, len), t)"
  shows "(ok \<longleftrightarrow> rval (env (length (trace s)) (Os (Malloc (bmp_size (fb_format fb) (fb_width fb * fb_height fb)) MALLOC_DEFAULT))) \<noteq> 0) \<and>
     out_of_bounds t = out_of_bounds s \<and>
     (if ok then \<exists>f. out = Some f \<and> len = length f \<and>
        read_bmp f = Some (fb_width fb, fb_height fb, pixels (fb_format fb) (fb_bytes fb) (fb_width fb * fb_height fb))
      else out = None \<and> len = 0)"
proof -
  define f where "f = bmp_file (fb_format fb) (fb_bytes fb) (fb_width fb) (fb_height fb)"
  define n where "n = bmp_size (fb_format fb) (fb_width fb * fb_height fb)"
  have even: "even (fb_width fb * fb_height fb)" using assms(3) by (auto elim!: dvdE)
  have "length f = n" using length_bmp_data [OF assms(2,1) even] by (simp add: bmp_file_def f_def n_def)
  with assms(7) read_bmp_bmp_file [OF assms(1-6), folded f_def] show ?thesis
    unfolding frame2bmp_def fmt2bmp_run [OF assms(1,2) even, folded f_def n_def] n_def [symmetric]
    by (auto split: if_splits)
qed

definition heap_left :: fw_env where
  "heap_left k c = ret_int 1"

definition no_decoder :: jd_prepare where
  "no_decoder = Jd_done (JDR_FMT1, \<lparr>jd_width = 0, jd_height = 0, jd_decomp = \<lambda>_. Jd_done JDR_FMT1\<rparr>)"

definition no_conversion :: jpg_vars where
  "no_conversion = \<lparr>trace = [], rj_width = 0, rj_height = 0, rj_data_offset = 0, rj_input = [], rj_output = None, jd_len = 0,
     jd_index = 0, out_of_bounds = False\<rparr>"

definition four_pixels :: camera_fb_t where
  "four_pixels = \<lparr>fb_buf = 1, fb_bytes = [0xF8, 0, 0x07, 0xE0, 0, 0x1F, 0xFF, 0xFF], fb_len = 8, fb_width = 4, fb_height = 1,
     fb_format = PIXFORMAT_RGB565, fb_tv_sec = 0, fb_tv_usec = 0\<rparr>"

theorem frame2bmp_readable_witness:
  "four_pixels \<in> {fb. fb_format fb \<in> raw_formats \<and> 4 dvd fb_width fb} \<and>
   (let ((ok, out, _), _) = run_state (frame2bmp heap_left no_decoder four_pixels) no_conversion
    in ok \<and> read_bmp (the out) = Some (4, 1, [(0xF8, 0, 0), (0, 0xFC, 0), (0, 0, 0xF8), (0xF8, 0xFC, 0xF8)]))"
proof -
  obtain ok out len t where run: "run_state (frame2bmp heap_left no_decoder four_pixels) no_conversion = ((ok, out, len), t)"
    by (metis surj_pair)
  have pixels: "pixels PIXFORMAT_RGB565 (fb_bytes four_pixels) 4 = [(0xF8, 0, 0), (0, 0xFC, 0), (0, 0, 0xF8), (0xF8, 0xFC, 0xF8)]"
    by code_simp
  have fb: "fb_format four_pixels = PIXFORMAT_RGB565" "fb_width four_pixels = 4" "fb_height four_pixels = 1"
    "length (fb_bytes four_pixels) = 8" by (simp_all add: four_pixels_def)
  show ?thesis
    using frame2bmp_readable [OF _ _ _ _ _ _ run] pixels
    by (auto simp: fb raw_formats_def source_bytes_def run heap_left_def split: if_splits)
qed

end
