(* ===== verification/JpegOut.thy ===== *)
theory JpegOut
  imports BmpFiles
begin

text \<open>
  Decoding JPEG pictures: whatever blocks the decoder delivers the picture in, the two writers of \<open>to_bmp.c\<close> put every
  pixel to its place in the output.
\<close>

section \<open>What a decoder does with a file\<close>

text \<open>The answer of the input function at position \<open>idx\<close> of the file.\<close>

definition file_answer :: "byte list \<Rightarrow> nat \<Rightarrow> bool \<Rightarrow> nat \<Rightarrow> byte list \<times> nat" where
  "file_answer src idx buf n =
     (let m = min n (length src - idx) in (if buf \<and> m \<noteq> 0 then slice idx m src else [], m))"

text \<open>A part of the decoder that only reads, with its result and the position it stops at.\<close>

primrec parses :: "byte list \<Rightarrow> 'a jd \<Rightarrow> nat \<Rightarrow> ('a \<times> nat) option" where
  "parses src (Jd_done x) idx = Some (x, idx)"
| "parses src (Jd_input buf n k) idx = parses src (k (file_answer src idx buf n)) (idx + snd (file_answer src idx buf n))"
| "parses src (Jd_output q bm k) idx = None"

type_synonym picture = "nat \<Rightarrow> nat \<Rightarrow> byte \<times> byte \<times> byte"

definition rgb :: "byte \<times> byte \<times> byte \<Rightarrow> byte list" where
  "rgb = (\<lambda>(r, g, b). [r, g, b])"

definition row :: "picture \<Rightarrow> nat \<Rightarrow> nat \<Rightarrow> nat \<Rightarrow> (byte \<times> byte \<times> byte) list" where
  "row pic a b y = map (\<lambda>x. pic x y) [a..<b]"

definition block :: "picture \<Rightarrow> JRECT \<Rightarrow> byte list" where
  "block pic q = concat (map (\<lambda>y. concat (map rgb (row pic (left q) (Suc (right q)) y))) [top q..<Suc (bottom q)])"

definition area :: "JRECT \<Rightarrow> (nat \<times> nat) set" where
  "area q = {left q..right q} \<times> {top q..bottom q}"

text \<open>On the file, the decoder draws blocks of the picture, each within its bounds and not wider than \<open>MAX_BLOCK_WIDTH\<close>, and ends
  well when all of it is drawn.  \<open>drawn\<close> is the part that has been drawn before.  The decoder in ROM draws one MCU at a
  time, at most 16 pixels wide; a row of a block of up to 21845 pixels has a length in bytes that fits \<open>uint16_t\<close>.\<close>

definition MAX_BLOCK_WIDTH :: nat where "MAX_BLOCK_WIDTH = 21845"

primrec draws :: "picture \<Rightarrow> nat \<Rightarrow> nat \<Rightarrow> byte list \<Rightarrow> JRESULT jd \<Rightarrow> nat \<Rightarrow> (nat \<times> nat) set \<Rightarrow> bool" where
  "draws pic wd ht src (Jd_done r) idx drawn \<longleftrightarrow> r = JDR_OK \<and> {..<wd} \<times> {..<ht} \<subseteq> drawn"
| "draws pic wd ht src (Jd_input buf n k) idx drawn \<longleftrightarrow>
     draws pic wd ht src (k (file_answer src idx buf n)) (idx + snd (file_answer src idx buf n)) drawn"
| "draws pic wd ht src (Jd_output q bm k) idx drawn \<longleftrightarrow>
     left q \<le> right q \<and> right q < wd \<and> top q \<le> bottom q \<and> bottom q < ht \<and>
     Suc (right q) - left q \<le> MAX_BLOCK_WIDTH \<and> bm = block pic q \<and>
     draws pic wd ht src (k True) idx (drawn \<union> area q)"

text \<open>To the decoder, the file is a JPEG of the picture, which has this size at this scale.  The fields \<open>width\<close> and \<open>height\<close> of the
  decoder are 16 bits wide.\<close>

definition jpeg_of :: "jd_prepare \<Rightarrow> jpg_scale_t \<Rightarrow> byte list \<Rightarrow> nat \<Rightarrow> nat \<Rightarrow> picture \<Rightarrow> bool" where
  "jpeg_of prepare scale src wd ht pic \<longleftrightarrow> src \<noteq> [] \<and>
     (case parses src prepare 0 of
        Some ((r, d), idx) \<Rightarrow> r = JDR_OK \<and> jd_width d < 2 ^ 16 \<and> jd_height d < 2 ^ 16 \<and> wd = jd_width d div 2 ^ jpg_scale_value scale \<and>
          ht = jd_height d div 2 ^ jpg_scale_value scale \<and>
          draws pic wd ht src (jd_decomp d (jpg_scale_value scale)) idx {}
      | None \<Rightarrow> False)"

section \<open>Storing rows\<close>

lemma slice_concat_equal:
  "(\<And>x. x \<in> set xs \<Longrightarrow> length x = d) \<Longrightarrow> i < length xs \<Longrightarrow> slice (i * d) d (concat xs) = xs ! i"
proof (induction xs arbitrary: i)
  case (Cons x xs)
  show ?case
  proof (cases i)
    case (Suc j)
    have "slice (i * d) d (concat (x # xs)) = slice (j * d) d (concat xs)"
      using Cons.prems by (simp add: slice_def Suc)
    then show ?thesis using Cons by (simp add: Suc)
  qed (use Cons.prems in \<open>simp add: slice_def\<close>)
qed simp

lemma nth_write_at:
  "off + length bs \<le> length buf \<Longrightarrow>
     write_at off bs buf ! j = (if j < off then buf ! j else if j < off + length bs then bs ! (j - off) else buf ! j)"
  by (cases "j < off"; cases "j < off + length bs") (auto simp: write_at_def nth_append min_absorb2)

text \<open>\<open>holds_rows\<close>: the rows are in the buffer, and the other bytes are those of \<open>old\<close>.\<close>

definition holds_rows :: "nat \<Rightarrow> nat \<Rightarrow> nat \<Rightarrow> byte list list \<Rightarrow> byte list \<Rightarrow> byte list \<Rightarrow> bool" where
  "holds_rows off stride n rows old new \<longleftrightarrow> length new = length old \<and>
     (\<forall>i<length rows. \<forall>k<n. new ! (off + i * stride + k) = rows ! i ! k) \<and>
     (\<forall>j<length old. (\<forall>i<length rows. j < off + i * stride \<or> off + i * stride + n \<le> j) \<longrightarrow> new ! j = old ! j)"

lemma store_rows_run:
  assumes "rj_output s = Some buf" "\<And>r. r \<in> set rows \<Longrightarrow> length r = n" "n \<le> stride"
    "\<And>i. i < length rows \<Longrightarrow> off + i * stride + n \<le> length buf"
  shows "\<exists>new. run_state (store_rows off stride rows) s = ((), s\<lparr>rj_output := Some new\<rparr>) \<and> holds_rows off stride n rows buf new"
  using assms
proof (induction rows arbitrary: off s buf)
  case Nil
  then show ?case by (intro exI [of _ buf]) (simp add: holds_rows_def)
next
  case (Cons r rows)
  define b1 where "b1 = write_at off r buf"
  have r: "length r = n" "off + n \<le> length buf" using Cons.prems(2) Cons.prems(4) [of 0] by auto
  have l1: "length b1 = length buf" by (simp add: b1_def length_write_at r)
  have rest: "off + stride + i * stride + n \<le> length b1" if "i < length rows" for i
    using Cons.prems(4) [of "Suc i"] that l1 by (simp add: algebra_simps)
  obtain new where new: "run_state (store_rows (off + stride) stride rows) (s\<lparr>rj_output := Some b1\<rparr>) = ((), s\<lparr>rj_output := Some new\<rparr>)"
    "holds_rows (off + stride) stride n rows b1 new"
    using Cons.IH [of "s\<lparr>rj_output := Some b1\<rparr>" b1 "off + stride"] Cons.prems(2,3) rest by auto
  have run: "run_state (store_rows off stride (r # rows)) s = ((), s\<lparr>rj_output := Some new\<rparr>)"
    using run_store_bytes [OF Cons.prems(1), of off r] r new(1) by (simp add: run_simps b1_def)
  have "new ! (off + i * stride + k) = (r # rows) ! i ! k" if ik: "i < length (r # rows)" "k < n" for i k
  proof (cases i)
    case 0
    have "new ! (off + k) = b1 ! (off + k)"
      using new(2) ik(2) r l1 Cons.prems(3) by (simp add: holds_rows_def)
    then show ?thesis using ik(2) r by (simp add: 0 b1_def nth_write_at)
  next
    case (Suc m)
    then show ?thesis using new(2) ik by (simp add: holds_rows_def algebra_simps)
  qed
  moreover have "new ! j = buf ! j"
    if j: "j < length buf" "\<And>i. i < length (r # rows) \<Longrightarrow> j < off + i * stride \<or> off + i * stride + n \<le> j" for j
  proof -
    have "j < off + stride + i * stride \<or> off + stride + i * stride + n \<le> j" if "i < length rows" for i
      using j(2) [of "Suc i"] that by (simp add: algebra_simps)
    then have "new ! j = b1 ! j" using new(2) j(1) l1 by (simp add: holds_rows_def)
    then show ?thesis using j(2) [of 0] r by (auto simp: b1_def nth_write_at)
  qed
  ultimately show ?case using run new(2) l1 unfolding holds_rows_def by auto
qed

end
