(* ===== verification/JpegPictures.thy ===== *)
theory JpegPictures
  imports JpegOut
begin

text \<open>
  Decoded pictures: the locale \<open>picture_writer\<close> states what a writer of \<open>to_bmp.c\<close> does with a block; both writers are
  instances, so both conversions deliver the whole picture.
\<close>

section \<open>Input\<close>

lemma length_row [simp]: "length (row pic a b y) = b - a"
  by (simp add: row_def)

lemma snd_file_answer: "snd (file_answer src idx buf n) = min n (length src - idx)"
  by (simp add: file_answer_def Let_def)

lemma run_jpg_read:
  "index + len \<le> length (rj_input s) \<Longrightarrow>
     run_state (jpg_read index buf len) s = ((if buf then slice index len (rj_input s) else [], len), s)"
  by (simp add: jpg_read_def run_simps)

lemma run_jpg_input:
  assumes "jd_len s = length src" "src \<noteq> []" "jd_index s \<le> length src" "rj_input s = src"
  shows "run_state (jpg_input jpg_read buf n) s =
    (file_answer src (jd_index s) buf n, s\<lparr>jd_index := jd_index s + snd (file_answer src (jd_index s) buf n)\<rparr>)"
proof -
  define m where "m = min n (length src - jd_index s)"
  have len: "(if jd_len s \<noteq> 0 \<and> jd_len s - jd_index s < n then jd_len s - jd_index s else n) = m"
    using assms by (auto simp: m_def)
  have "run_state (jpg_input jpg_read buf n) s =
      (if m = 0 then (([], 0), s)
       else case run_state (jpg_read (jd_index s) buf m) s of (r, s') \<Rightarrow> (r, s'\<lparr>jd_index := jd_index s' + snd r\<rparr>))"
    unfolding jpg_input_def run_basic prod.case Let_def len by (simp add: run_simps split: prod.split)
  moreover have "jd_index s + m \<le> length (rj_input s)" using assms by (simp add: m_def)
  moreover have "file_answer src (jd_index s) buf n = (if buf \<and> m \<noteq> 0 then slice (jd_index s) m src else [], m)"
    by (simp add: file_answer_def m_def Let_def)
  ultimately show ?thesis using assms(4) by (cases "m = 0") (simp_all add: run_jpg_read)
qed

lemma run_parses:
  assumes "parses src t idx = Some (x, idx')" "jd_len s = length src" "src \<noteq> []" "jd_index s = idx" "idx \<le> length src"
    "rj_input s = src"
  shows "run_state (run_jd jpg_read writer t) s = (x, s\<lparr>jd_index := idx'\<rparr>) \<and> idx' \<le> length src"
  using assms
proof (induction t arbitrary: idx s)
  case (Jd_input buf n k)
  define a where "a = file_answer src idx buf n"
  have le: "idx + snd a \<le> length src" using Jd_input.prems(5) by (simp add: a_def snd_file_answer)
  have "run_state (run_jd jpg_read writer (k a)) (s\<lparr>jd_index := idx + snd a\<rparr>) = (x, s\<lparr>jd_index := idx'\<rparr>) \<and> idx' \<le> length src"
    using Jd_input.IH [OF rangeI, of a "idx + snd a" "s\<lparr>jd_index := idx + snd a\<rparr>"] Jd_input.prems le by (simp add: a_def)
  then show ?case
    using run_jpg_input [of s src buf n] Jd_input.prems by (simp add: run_simps a_def)
qed (auto simp: run_simps)

section \<open>A writer\<close>

text \<open>The pixels of a picture, row by row.\<close>

definition pixel_list :: "picture \<Rightarrow> nat \<Rightarrow> nat \<Rightarrow> (byte \<times> byte \<times> byte) list" where
  "pixel_list pic wd ht = map (\<lambda>i. pic (i mod wd) (i div wd)) [0..<wd * ht]"


lemma length_pixel_list [simp]: "length (pixel_list pic wd ht) = wd * ht"
  by (simp add: pixel_list_def)

text \<open>A picture whose rows can be counted in 32 bits.\<close>

definition countable_rows :: "nat \<Rightarrow> nat \<Rightarrow> bool" where
  "countable_rows wd ht \<longleftrightarrow> wd < 2 ^ 16 \<and> ht < 2 ^ 16 \<and> (ht + 1) * (wd * 3) < 2 ^ 32"

lemma jpeg_of_size:
  assumes "jpeg_of prepare scale src wd ht pic"
  shows "wd < 2 ^ 16" "ht < 2 ^ 16"
proof -
  obtain d :: JDEC where "jd_width d < 2 ^ 16" "jd_height d < 2 ^ 16" "wd = jd_width d div 2 ^ jpg_scale_value scale"
    "ht = jd_height d div 2 ^ jpg_scale_value scale"
    using assms unfolding jpeg_of_def by (auto split: option.splits)
  then show "wd < 2 ^ 16" "ht < 2 ^ 16" using div_le_dividend le_less_trans by blast+
qed

lemma jpeg_countable_rows: "jpeg_of prepare scale src wd ht pic \<Longrightarrow> wd * ht \<le> 2 ^ 28 \<Longrightarrow> countable_rows wd ht"
  using jpeg_of_size [of prepare scale src wd ht pic] by (simp add: countable_rows_def algebra_simps)

lemma as_uint16_id: "n < 2 ^ 16 \<Longrightarrow> as_uint16 (int n) = n"
  by (simp add: as_uint16_def)

lemma row_bytes_id: "w \<le> MAX_BLOCK_WIDTH \<Longrightarrow> row_bytes w = w * 3"
  unfolding row_bytes_def by (rule as_uint16_id) (simp add: MAX_BLOCK_WIDTH_def)

lemma whole_pixels: "3 * ((w * 3 + 2) div 3) = w * (3 :: nat)"
  by presburger

lemma block_row_id: "w \<le> MAX_BLOCK_WIDTH \<Longrightarrow> block_row w d i = slice (i * (w * 3)) (w * 3) d"
  unfolding block_row_def by (simp only: row_bytes_id whole_pixels)

lemma no_overrun:
  assumes "w \<le> MAX_BLOCK_WIDTH" "length d = h * (w * 3)" "(y + h + 1) * jw < 2 ^ 32"
  shows "\<not> block_overrun jw y w h d"
proof -
  have "(row_count jw h - 1) * (w * 3) + w * 3 \<le> h * (w * 3)" if "0 < row_count jw h"
    using that by (cases h) (auto simp: row_count_def split: if_splits)
  then show ?thesis using assms unfolding block_overrun_def row_bytes_id [OF assms(1)] whole_pixels by auto
qed

lemma run_jpg_output:
  assumes "left q \<le> right q" "right q < wd" "top q \<le> bottom q" "bottom q < ht" "countable_rows wd ht"
  shows "jpg_output writer q bm = writer (left q) (top q) (Suc (right q) - left q) (Suc (bottom q) - top q) (Some bm)"
proof -
  have "as_uint16 (int (left q)) = left q" "as_uint16 (int (top q)) = top q"
    by (rule as_uint16_id, use assms in \<open>simp add: countable_rows_def\<close>)+
  moreover have "int (right q) + 1 - int (left q) = int (Suc (right q) - left q)" "int (bottom q) + 1 - int (top q) = int (Suc (bottom q) - top q)"
    using assms by auto
  moreover have "Suc (right q) - left q < 2 ^ 16" "Suc (bottom q) - top q < 2 ^ 16"
    using assms unfolding countable_rows_def by linarith+
  note this [THEN as_uint16_id]
  ultimately show ?thesis unfolding jpg_output_def Let_def by (simp only:)
qed

locale picture_writer =
  fixes env :: fw_env and writer :: "'z jpg_writer_cb" and convert :: "byte list \<Rightarrow> byte list"
    and enc :: "byte \<times> byte \<times> byte \<Rightarrow> byte list" and d :: nat
  assumes started: "writer x y w h None = (if x = 0 \<and> y = 0 then write_start env w h else return True)"
    and convert: "convert (concat (map rgb ps)) = concat (map enc ps)"
    and enc: "length (enc p) = d"
    and wrote: "0 < rj_width s \<Longrightarrow> w \<le> MAX_BLOCK_WIDTH \<Longrightarrow> length bm = h * (w * 3) \<Longrightarrow>
      (y + h + 1) * (rj_width s * 3) < 2 ^ 32 \<Longrightarrow> run_state (writer x y w h (Some bm)) s =
      (True, snd (run_state (store_rows (rj_data_offset s + y * (rj_width s * d) + x * d) (rj_width s * d)
         (map (\<lambda>i. convert (slice (i * (w * 3)) (w * 3) bm)) [0..<h])) s))"
begin

definition painted :: "picture \<Rightarrow> nat \<Rightarrow> nat \<Rightarrow> (nat \<times> nat) set \<Rightarrow> byte list \<Rightarrow> bool" where
  "painted pic wd off drawn buf \<longleftrightarrow> (\<forall>(x, y)\<in>drawn. \<forall>k<d. buf ! (off + (y * wd + x) * d + k) = enc (pic x y) ! k)"

definition same_outside :: "nat \<Rightarrow> nat \<Rightarrow> byte list \<Rightarrow> byte list \<Rightarrow> bool" where
  "same_outside off n old new \<longleftrightarrow> length new = length old \<and>
     (\<forall>j<length old. j < off \<or> off + n * d \<le> j \<longrightarrow> new ! j = old ! j)"

lemma cells: "a < b \<Longrightarrow> k < d \<Longrightarrow> a * d + k < b * d" for a b k :: nat
proof -
  assume "a < b" "k < d"
  then have "a * d + k < Suc a * d" "Suc a * d \<le> b * d" by (simp_all del: mult_Suc, simp)
  then show ?thesis by linarith
qed

lemma block_rows:
  assumes "left q \<le> right q" "i < Suc (bottom q) - top q"
  defines "w \<equiv> Suc (right q) - left q"
  shows "convert (slice (i * (w * 3)) (w * 3) (block pic q)) = concat (map enc (row pic (left q) (Suc (right q)) (top q + i)))"
proof -
  let ?rows = "map (\<lambda>y. concat (map rgb (row pic (left q) (Suc (right q)) y))) [top q..<Suc (bottom q)]"
  have rgbs: "length (concat (map rgb ps)) = length ps * 3" for ps by (induction ps) (auto simp: rgb_def)
  have "length r = w * 3" if "r \<in> set ?rows" for r using that by (auto simp: rgbs w_def)
  then have "slice (i * (w * 3)) (w * 3) (block pic q) = ?rows ! i"
    unfolding block_def by (rule slice_concat_equal) (use assms(2) in auto)
  then show ?thesis using assms(2) by (simp add: convert del: upt_Suc)
qed

lemma length_block: "length (block pic q) = (Suc (bottom q) - top q) * ((Suc (right q) - left q) * 3)"
proof -
  have "length (concat (map rgb ps)) = length ps * 3" for ps by (induction ps) (auto simp: rgb_def)
  then show ?thesis unfolding block_def by (subst length_concat_const [where n = "(Suc (right q) - left q) * 3"]) auto
qed

lemma length_encs: "length (concat (map enc ps)) = length ps * d"
  by (induction ps) (simp_all add: enc)

lemma write_block:
  assumes q: "left q \<le> right q" "right q < wd" "top q \<le> bottom q" "bottom q < ht"
    and s: "rj_width s = wd" "rj_data_offset s = off" "rj_output s = Some buf" "off + wd * ht * d \<le> length buf"
    and old: "painted pic wd off drawn buf" "drawn \<subseteq> {..<wd} \<times> {..<ht}"
    and small: "countable_rows wd ht" "Suc (right q) - left q \<le> MAX_BLOCK_WIDTH"
  shows "\<exists>new. run_state (jpg_output writer q (block pic q)) s = (True, s\<lparr>rj_output := Some new\<rparr>) \<and>
     painted pic wd off (drawn \<union> area q) new \<and> same_outside off (wd * ht) buf new"
proof -
  define w where "w = Suc (right q) - left q"
  define h where "h = Suc (bottom q) - top q"
  define o' where "o' = off + top q * (wd * d) + left q * d"
  define rows where "rows = map (\<lambda>i. concat (map enc (row pic (left q) (Suc (right q)) (top q + i)))) [0..<h]"
  have conv: "map (\<lambda>i. convert (slice (i * (w * 3)) (w * 3) (block pic q))) [0..<h] = rows"
    using block_rows [OF q(1)] by (auto simp: rows_def w_def h_def)
  have row_length: "length r = w * d" if "r \<in> set rows" for r
    using that by (auto simp: rows_def length_encs w_def)
  have place: "o' + i * (wd * d) = off + ((top q + i) * wd + left q) * d" for i
    by (simp add: o'_def algebra_simps)
  have right: "Suc (right q) = left q + w" using q(1) by (simp add: w_def)
  have row_end: "o' + i * (wd * d) + w * d = off + ((top q + i) * wd + Suc (right q)) * d" for i
    unfolding place using right by (simp add: algebra_simps flip: right)
  have cell_bound: "(top q + i) * wd + Suc (right q) \<le> (top q + i + 1) * wd" for i using q(2) by simp
  have room: "o' + i * (wd * d) + w * d \<le> off + wd * ht * d" if "i < h" for i
  proof -
    have "(top q + i + 1) * wd \<le> ht * wd" using that q(4) by (intro mult_le_mono1) (simp add: h_def)
    with cell_bound [of i] have "((top q + i) * wd + Suc (right q)) * d \<le> ht * wd * d" by (intro mult_le_mono1) linarith
    then show ?thesis unfolding row_end by (simp add: mult.commute)
  qed
  obtain new where new: "run_state (store_rows o' (wd * d) rows) s = ((), s\<lparr>rj_output := Some new\<rparr>)"
    "holds_rows o' (wd * d) (w * d) rows buf new"
    using store_rows_run [of s buf rows "w * d" "wd * d" o'] s(3,4) row_length room right q(2)
    by (fastforce simp: rows_def intro: mult_le_mono1 order.trans)
  have run: "run_state (jpg_output writer q (block pic q)) s = (True, s\<lparr>rj_output := Some new\<rparr>)"
  proof -
    have "length (block pic q) = h * (w * 3)" by (simp add: length_block w_def h_def)
    moreover have "(top q + h + 1) * (rj_width s * 3) < 2 ^ 32"
      using mult_le_mono1 [of "top q + h + 1" "ht + 1" "wd * 3"] q small(1) s(1) by (simp add: h_def countable_rows_def)
    ultimately show ?thesis
      using wrote [of s w "block pic q" h "top q" "left q"] new(1) s(1,2) q(2) small
      by (simp add: run_jpg_output [OF q small(1)] conv o'_def flip: w_def h_def)
  qed
  have inside: "new ! (off + (y * wd + x) * d + k) = enc (pic x y) ! k" if xy: "(x, y) \<in> area q" and k: "k < d" for x y k
  proof -
    obtain i j where i: "y = top q + i" "i < h" and j: "x = left q + j" "j < w"
      using xy by (auto simp: area_def h_def w_def dest!: le_Suc_ex)
    have encs: "length r = d" if "r \<in> set (map enc (row pic (left q) (Suc (right q)) y))" for r using that by (auto simp: enc)
    have "j * d + k < w * d" using cells j(2) k by simp
    then have "new ! (o' + i * (wd * d) + (j * d + k)) = rows ! i ! (j * d + k)"
      using new(2) i(2) by (simp add: holds_rows_def rows_def)
    moreover have "rows ! i ! (j * d + k) = enc (pic x y) ! k"
      using nth_concat_equal [of "map enc (row pic (left q) (Suc (right q)) y)" d j k, OF encs] i j k right
      by (auto simp: rows_def enc row_def simp del: upt_Suc)
    moreover have "o' + i * (wd * d) + (j * d + k) = off + (y * wd + x) * d + k"
      by (simp add: o'_def i j algebra_simps)
    ultimately show ?thesis by simp
  qed
  have outside: "new ! (off + c * d + k) = buf ! (off + c * d + k)"
    if c: "\<And>i. i < h \<Longrightarrow> c < (top q + i) * wd + left q \<or> (top q + i) * wd + Suc (right q) \<le> c" "k < d" "c < wd * ht" for c k
  proof -
    have "off + c * d + k < off + ((top q + i) * wd + left q) * d \<or> off + ((top q + i) * wd + Suc (right q)) * d \<le> off + c * d + k" if "i < h" for i
      using c(1) [OF that] cells [OF _ c(2), of c] by (auto dest: mult_le_mono1 [of _ _ d])
    moreover have "off + c * d + k < length buf" using cells [OF c(3,2)] s(4) by simp
    ultimately show ?thesis using new(2) unfolding holds_rows_def row_end unfolding place by (simp add: rows_def)
  qed
  have "new ! (off + (y * wd + x) * d + k) = enc (pic x y) ! k" if xy: "(x, y) \<in> drawn" "(x, y) \<notin> area q" and k: "k < d" for x y k
  proof -
    have bounds: "x < wd" "y < ht" using old(2) xy(1) by auto
    have "y * wd + x < (top q + i) * wd + left q \<or> (top q + i) * wd + Suc (right q) \<le> y * wd + x" if "i < h" for i
    proof -
      have less: "a * wd + b < c * wd" if "a < c" "b < wd" for a b c :: nat
        using mult_le_mono1 [of "Suc a" c wd] that by simp
      consider "y < top q + i" | "top q + i < y" | "y = top q + i" by linarith
      then show ?thesis
      proof cases
        case 3
        then have "x < left q \<or> right q < x" using xy(2) that by (auto simp: area_def h_def)
        then show ?thesis using 3 by auto
      qed (use less [of y "top q + i" x] less [of "top q + i" y "right q"] bounds q(2) in auto)
    qed
    moreover have "y * wd + x < wd * ht" using mult_le_mono1 [of "Suc y" ht wd] bounds by (simp add: mult.commute)
    ultimately show ?thesis using outside [of "y * wd + x" k] old(1) xy(1) k by (auto simp: painted_def)
  qed
  with inside have "painted pic wd off (drawn \<union> area q) new" by (clarsimp simp: painted_def) blast
  moreover have "new ! j = buf ! j" if j: "j < length buf" "j < off \<or> off + wd * ht * d \<le> j" for j
  proof -
    have "j < o' + i * (wd * d) \<or> o' + i * (wd * d) + w * d \<le> j" if "i < h" for i
      using j(2) room [OF that] place [of i] by linarith
    then show ?thesis using new(2) j(1) by (simp add: holds_rows_def rows_def)
  qed
  then have "same_outside off (wd * ht) buf new" using new(2) by (simp add: same_outside_def holds_rows_def)
  ultimately show ?thesis using run by blast
qed

lemma same_outside_trans:
  "same_outside off n a b \<Longrightarrow> same_outside off n b c \<Longrightarrow> same_outside off n a c"
  by (auto simp: same_outside_def)

text \<open>The decoder draws the rest of the picture.\<close>

lemma run_draws:
  assumes "draws pic wd ht src t idx drawn" "jd_len s = length src" "src \<noteq> []" "jd_index s = idx" "idx \<le> length src" "rj_input s = src"
    "rj_width s = wd" "rj_data_offset s = off" "rj_output s = Some buf" "off + wd * ht * d \<le> length buf"
    "painted pic wd off drawn buf" "drawn \<subseteq> {..<wd} \<times> {..<ht}" "countable_rows wd ht"
  shows "\<exists>new idx'. run_state (run_jd jpg_read writer t) s = (JDR_OK, s\<lparr>rj_output := Some new, jd_index := idx'\<rparr>) \<and>
     idx' \<le> length src \<and> painted pic wd off ({..<wd} \<times> {..<ht}) new \<and> same_outside off (wd * ht) buf new"
  using assms
proof (induction t arbitrary: idx s drawn buf)
  case (Jd_done r)
  then have "drawn = {..<wd} \<times> {..<ht}" by auto
  with Jd_done show ?case by (intro exI [of _ buf] exI [of _ idx]) (auto simp: run_simps same_outside_def)
next
  case (Jd_input b n k)
  define a where "a = file_answer src idx b n"
  have "idx + snd a \<le> length src" using Jd_input.prems(5) by (simp add: a_def snd_file_answer)
  then obtain new idx' where "run_state (run_jd jpg_read writer (k a)) (s\<lparr>jd_index := idx + snd a\<rparr>) =
      (JDR_OK, s\<lparr>rj_output := Some new, jd_index := idx'\<rparr>)"
    "idx' \<le> length src" "painted pic wd off ({..<wd} \<times> {..<ht}) new" "same_outside off (wd * ht) buf new"
    using Jd_input.IH [OF rangeI, of a "idx + snd a" drawn "s\<lparr>jd_index := idx + snd a\<rparr>" buf] Jd_input.prems by (auto simp: a_def)
  then show ?case using run_jpg_input [of s src b n] Jd_input.prems by (auto simp: run_simps a_def)
next
  case (Jd_output q bm k)
  then have q: "left q \<le> right q" "right q < wd" "top q \<le> bottom q" "bottom q < ht"
    "Suc (right q) - left q \<le> MAX_BLOCK_WIDTH" "bm = block pic q" by simp_all
  obtain b1 where b1: "run_state (jpg_output writer q (block pic q)) s = (True, s\<lparr>rj_output := Some b1\<rparr>)"
    "painted pic wd off (drawn \<union> area q) b1" "same_outside off (wd * ht) buf b1"
    using write_block [OF q(1-4) Jd_output.prems(7-13) q(5)] by blast
  have "drawn \<union> area q \<subseteq> {..<wd} \<times> {..<ht}" using Jd_output.prems(12) q by (auto simp: area_def)
  moreover have "off + wd * ht * d \<le> length b1" using Jd_output.prems(10) b1(3) by (simp add: same_outside_def)
  ultimately obtain new idx' where "run_state (run_jd jpg_read writer (k True)) (s\<lparr>rj_output := Some b1\<rparr>) =
      (JDR_OK, s\<lparr>rj_output := Some new, jd_index := idx'\<rparr>)"
    "idx' \<le> length src" "painted pic wd off ({..<wd} \<times> {..<ht}) new" "same_outside off (wd * ht) b1 new"
    using Jd_output.IH [OF rangeI, of True idx "drawn \<union> area q" "s\<lparr>rj_output := Some b1\<rparr>" b1] Jd_output.prems b1(2) by auto
  then show ?case using b1(1) same_outside_trans [OF b1(3)] q(6) by (auto simp: run_simps)
qed

text \<open>A picture that is drawn completely is in the buffer row by row.\<close>

lemma painted_bytes:
  assumes "painted pic wd off ({..<wd} \<times> {..<ht}) new" "same_outside off (wd * ht) buf new" "off + wd * ht * d \<le> length buf"
  shows "new = write_at off (concat (map enc (pixel_list pic wd ht))) buf"
proof (rule nth_equalityI)
  let ?bs = "concat (map enc (pixel_list pic wd ht))"
  have len: "length ?bs = wd * ht * d" by (simp add: length_encs)
  show "length new = length (write_at off ?bs buf)" using assms(2,3) by (simp add: length_write_at len same_outside_def)
  fix j assume "j < length new"
  then have j: "j < length buf" using assms(2) by (simp add: same_outside_def)
  show "new ! j = write_at off ?bs buf ! j"
  proof (cases "off \<le> j \<and> j < off + wd * ht * d")
    case True
    define c where "c = (j - off) div d"
    define k where "k = (j - off) mod d"
    have d: "0 < d" using True by (cases d) auto
    have jo: "j - off = c * d + k" "k < d" using d by (simp_all add: c_def k_def)
    have c: "c < wd * ht" using True d unfolding c_def by (subst div_less_iff_less_mult) auto
    then have "0 < wd" by (cases wd) auto
    then have xy: "c mod wd < wd" "c div wd < ht" using c by (simp_all add: div_less_iff_less_mult mult.commute)
    have "new ! (off + (c div wd * wd + c mod wd) * d + k) = enc (pic (c mod wd) (c div wd)) ! k"
      using assms(1) xy jo(2) unfolding painted_def by blast
    moreover have "?bs ! (c * d + k) = enc (pic (c mod wd) (c div wd)) ! k"
    proof -
      have encs: "length r = d" if "r \<in> set (map enc (pixel_list pic wd ht))" for r using that by (auto simp: enc)
      show ?thesis using nth_concat_equal [of "map enc (pixel_list pic wd ht)" d c k, OF encs] c jo(2) by (simp add: pixel_list_def)
    qed
    moreover have "off + (c * d + k) = j" using jo(1) True by linarith
    ultimately show ?thesis using True assms(3) jo(1) len by (simp add: nth_write_at add.assoc)
  next
    case False
    then have "new ! j = buf ! j" using assms(2) j unfolding same_outside_def by (metis linorder_not_le)
    then show ?thesis using False assms(3) len by (auto simp: nth_write_at)
  qed
qed

text \<open>The whole of \<open>esp_jpg_decode\<close>, where \<open>u\<close> is the state after the start of the output and \<open>Q\<close> what drawing achieves.\<close>

lemma decode_steps:
  assumes jpeg: "jpeg_of prepare scale src wd ht pic" "0 < wd"
    and start: "rj_input s = src" "\<And>i. run_state (write_start env wd ht) (s\<lparr>jd_len := length src, jd_index := i\<rparr>) = (b, u\<lparr>jd_index := i\<rparr>)"
    and draw: "\<And>t idx. draws pic wd ht src t idx {} \<Longrightarrow> idx \<le> length src \<Longrightarrow> src \<noteq> [] \<Longrightarrow>
      \<exists>v i. run_state (run_jd jpg_read writer t) (u\<lparr>jd_index := idx\<rparr>) = (JDR_OK, v\<lparr>jd_index := i\<rparr>) \<and> i \<le> length src \<and>
        jd_len v = length src \<and> rj_input v = src \<and> Q v"
  shows "\<exists>v i. run_state (esp_jpg_decode prepare (length src) scale jpg_read writer) s = (ESP_OK, v\<lparr>jd_index := i\<rparr>) \<and> Q v"
proof -
  obtain dec idx where parse: "parses src prepare 0 = Some ((JDR_OK, dec), idx)"
    and size: "jd_width dec div 2 ^ jpg_scale_value scale = wd" "jd_height dec div 2 ^ jpg_scale_value scale = ht"
    and drawn: "draws pic wd ht src (jd_decomp dec (jpg_scale_value scale)) idx {}" and src: "src \<noteq> []"
    and bound: "jd_width dec < 2 ^ 16" "jd_height dec < 2 ^ 16"
    using jpeg(1) by (auto simp: jpeg_of_def split: option.splits prod.splits)
  have out: "as_uint16 (int (jd_width dec div 2 ^ jpg_scale_value scale)) = wd" "as_uint16 (int (jd_height dec div 2 ^ jpg_scale_value scale)) = ht"
    unfolding size by (rule as_uint16_id, use size bound div_le_dividend le_less_trans in blast)+
  let ?s = "s\<lparr>jd_len := length src, jd_index := 0\<rparr>"
  have p: "run_state (run_jd jpg_read writer prepare) ?s = ((JDR_OK, dec), ?s\<lparr>jd_index := idx\<rparr>)" "idx \<le> length src"
    using run_parses [OF parse, of ?s] src start(1) by simp_all
  have w: "run_state (writer 0 0 wd ht None) (s\<lparr>jd_len := length src, jd_index := idx\<rparr>) = (b, u\<lparr>jd_index := idx\<rparr>)"
    using start(2) by (simp add: started)
  obtain v i where dr: "run_state (run_jd jpg_read writer (jd_decomp dec (jpg_scale_value scale))) (u\<lparr>jd_index := idx\<rparr>) =
      (JDR_OK, v\<lparr>jd_index := i\<rparr>)" "i \<le> length src" "jd_len v = length src" "rj_input v = src" "Q v"
    using draw [OF drawn p(2) src] by blast
  have e: "run_state (writer wd ht wd ht None) t = (True, t)" for t using jpeg(2) by (simp add: started run_simps)
  have "\<exists>i'. run_state (esp_jpg_decode prepare (length src) scale jpg_read writer) s = (ESP_OK, v\<lparr>jd_index := i'\<rparr>)"
    using p(1) w dr(1-4) e src run_jpg_input [of "v\<lparr>jd_index := i\<rparr>" src False "length src - i"]
    by (auto simp: esp_jpg_decode_def run_simps out Let_def)
  then show ?thesis using dr(5) by blast
qed

lemma decode_picture:
  assumes jpeg: "jpeg_of prepare scale src wd ht pic" "0 < wd"
    and start: "rj_input s = src" "\<And>i. run_state (write_start env wd ht) (s\<lparr>jd_len := length src, jd_index := i\<rparr>) = (b, u\<lparr>jd_index := i\<rparr>)"
    and u: "jd_len u = length src" "rj_input u = src" "rj_width u = wd" "rj_data_offset u = off" "rj_output u = Some buf"
      "off + wd * ht * d \<le> length buf" "countable_rows wd ht"
  shows "\<exists>i. run_state (esp_jpg_decode prepare (length src) scale jpg_read writer) s =
    (ESP_OK, u\<lparr>rj_output := Some (write_at off (concat (map enc (pixel_list pic wd ht))) buf), jd_index := i\<rparr>)"
proof -
  have "\<exists>v i. run_state (esp_jpg_decode prepare (length src) scale jpg_read writer) s = (ESP_OK, v\<lparr>jd_index := i\<rparr>) \<and>
      v = u\<lparr>rj_output := Some (write_at off (concat (map enc (pixel_list pic wd ht))) buf)\<rparr>"
  proof (rule decode_steps [OF jpeg start])
    fix t idx assume t: "draws pic wd ht src t idx {}" "idx \<le> length src" "src \<noteq> []"
    obtain new i where "run_state (run_jd jpg_read writer t) (u\<lparr>jd_index := idx\<rparr>) = (JDR_OK, u\<lparr>rj_output := Some new, jd_index := i\<rparr>)"
      "i \<le> length src" "painted pic wd off ({..<wd} \<times> {..<ht}) new" "same_outside off (wd * ht) buf new"
      using run_draws [OF t(1), of "u\<lparr>jd_index := idx\<rparr>" off buf] t(2,3) u by (auto simp: painted_def)
    with painted_bytes [OF this(3,4) u(6)] u
    show "\<exists>v i. run_state (run_jd jpg_read writer t) (u\<lparr>jd_index := idx\<rparr>) = (JDR_OK, v\<lparr>jd_index := i\<rparr>) \<and> i \<le> length src \<and>
        jd_len v = length src \<and> rj_input v = src \<and> v = u\<lparr>rj_output := Some (write_at off (concat (map enc (pixel_list pic wd ht))) buf)\<rparr>"
      by auto
  qed
  then show ?thesis by auto
qed

end

section \<open>The two writers\<close>

text \<open>The two bytes of a pixel in the result of \<open>jpg2rgb565\<close>.\<close>

definition enc565 :: "byte \<times> byte \<times> byte \<Rightarrow> byte list" where
  "enc565 p = pack_rgb565 (rgb p)"

lemma length_enc565 [simp]: "length (enc565 p) = 2"
  by (simp add: enc565_def rgb_def Let_def split: prod.split)

lemma swap_rgb_pixels: "swap_rgb (concat (map rgb ps)) = concat (map bgr ps)"
  by (induction ps) (auto simp: rgb_def bgr_def)

lemma pack_rgb565_pixels: "pack_rgb565 (concat (map rgb ps)) = concat (map enc565 ps)"
  by (induction ps) (auto simp: rgb_def enc565_def Let_def)

lemma rgb_write_block:
  "0 < rj_width s \<Longrightarrow> w \<le> MAX_BLOCK_WIDTH \<Longrightarrow> length bm = h * (w * 3) \<Longrightarrow> (y + h + 1) * (rj_width s * 3) < 2 ^ 32 \<Longrightarrow>
   run_state (rgb_write env x y w h (Some bm)) s =
     (True, snd (run_state (store_rows (rj_data_offset s + y * (rj_width s * 3) + x * 3) (rj_width s * 3)
        (map (\<lambda>i. swap_rgb (slice (i * (w * 3)) (w * 3) bm)) [0..<h])) s))"
  unfolding rgb_write_def Let_def option.case run_basic prod.case
  by (simp only: no_overrun block_row_id row_count_def) (simp split: prod.split)

lemma writers_start:
  "rgb_write env x y w h None = (if x = 0 \<and> y = 0 then write_start env w h else return True)"
  "rgb565_write env x y w h None = (if x = 0 \<and> y = 0 then write_start env w h else return True)"
  by (simp_all add: rgb_write_def rgb565_write_def)

lemma rgb565_write_block:
  "0 < rj_width s \<Longrightarrow> w \<le> MAX_BLOCK_WIDTH \<Longrightarrow> length bm = h * (w * 3) \<Longrightarrow> (y + h + 1) * (rj_width s * 3) < 2 ^ 32 \<Longrightarrow>
   run_state (rgb565_write env x y w h (Some bm)) s =
     (True, snd (run_state (store_rows (rj_data_offset s + y * (rj_width s * 2) + x * 2) (rj_width s * 2)
        (map (\<lambda>i. pack_rgb565 (slice (i * (w * 3)) (w * 3) bm)) [0..<h])) s))"
  unfolding rgb565_write_def Let_def option.case run_basic prod.case
  by (simp only: no_overrun block_row_id row_count_def) (simp split: prod.split)

interpretation rgb888: picture_writer env "rgb_write env" swap_rgb bgr 3 for env
  by unfold_locales (simp_all add: writers_start swap_rgb_pixels rgb_write_block)

interpretation rgb565: picture_writer env "rgb565_write env" pack_rgb565 enc565 2 for env
  by unfold_locales (simp_all add: writers_start pack_rgb565_pixels rgb565_write_block)

section \<open>Conversions of JPEG pictures\<close>

lemma run_write_start:
  "rj_output s = Some buf \<Longrightarrow> run_state (write_start env w h) s = (True, s\<lparr>rj_width := w, rj_height := h\<rparr>)"
  by (simp add: write_start_def run_simps)

lemma run_write_start_new:
  fixes env :: fw_env and s :: "'z jpg_vars_scheme" and w h :: nat
  assumes "rj_output s = None"
  defines "c \<equiv> Os (Malloc (w * h * 3 + rj_data_offset s) MALLOC_DEFAULT)"
  defines "r \<equiv> env (length (trace s)) c"
  shows "run_state (write_start env w h) s =
    (if rval r = 0 then (False, s\<lparr>rj_width := w, rj_height := h, trace := trace s @ [(c, r)]\<rparr>)
     else (True, s\<lparr>rj_width := w, rj_height := h, trace := trace s @ [(c, r)],
                  rj_output := Some (fit (w * h * 3 + rj_data_offset s) (rdata r))\<rparr>))"
  using assms by (simp add: write_start_def run_simps Let_def)

lemma jpg2rgb565_picture:
  assumes "jpeg_of prepare scale src wd ht pic" "0 < wd" "countable_rows wd ht" "wd * ht * 2 \<le> length out"
    "run_state (jpg2rgb565 env prepare src (length src) (Some out) scale) s = (ok, t)"
  shows "ok \<and> rj_output t = Some (write_at 0 (concat (map enc565 (pixel_list pic wd ht))) out) \<and>
    out_of_bounds t = out_of_bounds s \<and> trace t = trace s"
proof -
  let ?s = "s\<lparr>rj_width := 0, rj_height := 0, rj_input := src, rj_output := Some out, rj_data_offset := 0\<rparr>"
  obtain i where "run_state (esp_jpg_decode prepare (length src) scale jpg_read (rgb565_write env)) ?s =
      (ESP_OK, s\<lparr>rj_input := src, rj_data_offset := 0, rj_width := wd, rj_height := ht, jd_len := length src,
         rj_output := Some (write_at 0 (concat (map enc565 (pixel_list pic wd ht))) out), jd_index := i\<rparr>)"
    using rgb565.decode_picture [OF assms(1,2), of ?s env True
        "?s\<lparr>rj_width := wd, rj_height := ht, jd_len := length src\<rparr>" 0 out] assms(3,4)
    by (auto simp: run_write_start)
  with assms(5) show ?thesis by (auto simp: jpg2rgb565_def new_decoder_def run_simps)
qed

text \<open>C34 (functional) Converting a JPEG picture to RGB888: whatever blocks the decoder delivers the picture in, the conversion
  succeeds, writes every pixel of the picture to its place in the buffer, row by row, with the bytes blue, green, red,
  and leaves the rest of the buffer alone; no access is outside a buffer and no memory is allocated.\<close>

theorem fmt2rgb888_jpeg_complete:
  assumes "jpeg_of prepare JPG_SCALE_NONE src wd ht pic" "0 < wd" "wd * ht \<le> 2 ^ 28" "wd * ht * 3 \<le> length rgb_buf"
    "run_state (fmt2rgb888 env prepare src (length src) PIXFORMAT_JPEG rgb_buf) s = (ok, t)"
  shows "ok \<and> rj_output t = Some (write_at 0 (concat (map bgr (pixel_list pic wd ht))) rgb_buf) \<and>
    out_of_bounds t = out_of_bounds s \<and> trace t = trace s"
proof -
  let ?s = "s\<lparr>rj_width := 0, rj_height := 0, rj_input := src, rj_output := Some rgb_buf, rj_data_offset := 0\<rparr>"
  obtain i where "run_state (esp_jpg_decode prepare (length src) JPG_SCALE_NONE jpg_read (rgb_write env)) ?s =
      (ESP_OK, s\<lparr>rj_input := src, rj_data_offset := 0, rj_width := wd, rj_height := ht, jd_len := length src,
         rj_output := Some (write_at 0 (concat (map bgr (pixel_list pic wd ht))) rgb_buf), jd_index := i\<rparr>)"
    using rgb888.decode_picture [OF assms(1,2), of ?s env True
        "?s\<lparr>rj_width := wd, rj_height := ht, jd_len := length src\<rparr>" 0 rgb_buf] jpeg_countable_rows [OF assms(1,3)] assms(4)
    by (auto simp: run_write_start)
  with assms(5) show ?thesis by (auto simp: fmt2rgb888_def jpg2rgb888_def new_decoder_def run_simps)
qed

text \<open>Without memory for the picture, the writer stores through \<open>NULL\<close>.\<close>

lemma store_rows_null:
  "rj_output s = None \<Longrightarrow> \<exists>oob. run_state (store_rows off stride rows) s = ((), s\<lparr>out_of_bounds := oob\<rparr>)"
proof (induction rows arbitrary: off s)
  case Nil
  then show ?case by (intro exI [of _ "out_of_bounds s"]) simp
next
  case (Cons r rows)
  obtain b where b: "run_state (store_bytes off r) s = ((), s\<lparr>out_of_bounds := b\<rparr>)"
    using Cons.prems that [of "out_of_bounds s"] that [of True] by (cases "r = []") (auto simp: store_bytes_def)
  show ?case using Cons.IH [of "s\<lparr>out_of_bounds := b\<rparr>" "off + stride"] Cons.prems b by (auto simp: run_simps)
qed

lemma rgb_write_null:
  assumes "rj_output s = None"
  shows "\<exists>oob. run_state (rgb_write env x y w h (Some bm)) s = (True, s\<lparr>out_of_bounds := oob\<rparr>)"
proof -
  let ?rows = "map (\<lambda>i. swap_rgb (block_row w bm i)) [0..<row_count (rj_width s * 3) h]"
  let ?off = "rj_data_offset s + y * (rj_width s * 3) + x * 3"
  define t where "t = (if block_overrun (rj_width s * 3) y w h bm then s\<lparr>out_of_bounds := True\<rparr> else s)"
  have "rj_output t = None" using assms by (simp add: t_def)
  then obtain b where "run_state (store_rows ?off (rj_width s * 3) ?rows) t = ((), t\<lparr>out_of_bounds := b\<rparr>)"
    using store_rows_null by blast
  moreover have "t\<lparr>out_of_bounds := b\<rparr> = s\<lparr>out_of_bounds := b\<rparr>" by (simp add: t_def)
  ultimately show ?thesis
    unfolding rgb_write_def Let_def by (auto simp: run_simps t_def split: if_splits)
qed

lemma run_draws_null:
  assumes "draws pic wd ht src t idx drawn" "jd_len s = length src" "src \<noteq> []" "jd_index s = idx" "idx \<le> length src" "rj_input s = src"
    "rj_output s = None"
  shows "\<exists>oob i. run_state (run_jd jpg_read (rgb_write env) t) s = (JDR_OK, s\<lparr>out_of_bounds := oob, jd_index := i\<rparr>) \<and> i \<le> length src"
  using assms
proof (induction t arbitrary: idx s drawn)
  case (Jd_done r)
  then show ?case by (intro exI [of _ "out_of_bounds s"] exI [of _ idx]) (auto simp: run_simps)
next
  case (Jd_input b n k)
  define a where "a = file_answer src idx b n"
  have "idx + snd a \<le> length src" using Jd_input.prems(5) by (simp add: a_def snd_file_answer)
  then have "\<exists>oob i. run_state (run_jd jpg_read (rgb_write env) (k a)) (s\<lparr>jd_index := idx + snd a\<rparr>) =
      (JDR_OK, s\<lparr>out_of_bounds := oob, jd_index := i\<rparr>) \<and> i \<le> length src"
    using Jd_input.IH [OF rangeI, of a "idx + snd a" drawn "s\<lparr>jd_index := idx + snd a\<rparr>"] Jd_input.prems by (auto simp: a_def)
  then show ?case using run_jpg_input [of s src b n] Jd_input.prems by (auto simp: run_simps a_def)
next
  case (Jd_output q bm k)
  obtain b where b: "run_state (jpg_output (rgb_write env) q bm) s = (True, s\<lparr>out_of_bounds := b\<rparr>)"
    using rgb_write_null [OF Jd_output.prems(7)] unfolding jpg_output_def Let_def by blast
  have "\<exists>oob i. run_state (run_jd jpg_read (rgb_write env) (k True)) (s\<lparr>out_of_bounds := b\<rparr>) =
      (JDR_OK, s\<lparr>out_of_bounds := oob, jd_index := i\<rparr>) \<and> i \<le> length src"
    using Jd_output.IH [OF rangeI, of True idx "drawn \<union> area q" "s\<lparr>out_of_bounds := b\<rparr>"] Jd_output.prems by auto
  then show ?case using b by (auto simp: run_simps)
qed

lemma jpg2bmp_no_memory:
  assumes "jpeg_of prepare JPG_SCALE_NONE src wd ht pic" "0 < wd"
    "rval (env (length (trace s)) (Os (Malloc (wd * ht * 3 + BMP_HEADER_LEN) MALLOC_DEFAULT))) = 0"
    "run_state (jpg2bmp env prepare src (length src)) s = ((ok, out, len), t)"
  shows "out_of_bounds t"
proof -
  let ?s = "s\<lparr>rj_width := 0, rj_height := 0, rj_input := src, rj_output := None, rj_data_offset := BMP_HEADER_LEN\<rparr>"
  define c where "c = Os (Malloc (wd * ht * 3 + BMP_HEADER_LEN) MALLOC_DEFAULT)"
  define r where "r = env (length (trace s)) c"
  let ?u = "?s\<lparr>rj_width := wd, rj_height := ht, jd_len := length src, trace := trace s @ [(c, r)]\<rparr>"
  note start = run_write_start_new [where s = "?s\<lparr>jd_len := length src, jd_index := i\<rparr>" for i, where w = wd and h = ht and env = env]
  have "\<exists>v i. run_state (esp_jpg_decode prepare (length src) JPG_SCALE_NONE jpg_read (rgb_write env)) ?s = (ESP_OK, v\<lparr>jd_index := i\<rparr>) \<and>
      rj_output v = None"
  proof (rule rgb888.decode_steps [OF assms(1,2)])
    show "run_state (write_start env wd ht) (?s\<lparr>jd_len := length src, jd_index := i\<rparr>) = (False, ?u\<lparr>jd_index := i\<rparr>)" for i
      using start assms(3) by (simp add: c_def r_def)
    fix t idx assume t: "draws pic wd ht src t idx {}" "idx \<le> length src" "src \<noteq> []"
    show "\<exists>v i. run_state (run_jd jpg_read (rgb_write env) t) (?u\<lparr>jd_index := idx\<rparr>) = (JDR_OK, v\<lparr>jd_index := i\<rparr>) \<and> i \<le> length src \<and>
        jd_len v = length src \<and> rj_input v = src \<and> rj_output v = None"
      using run_draws_null [OF t(1) _ t(3), of "?u\<lparr>jd_index := idx\<rparr>" env] t(2) by fastforce
  qed simp
  then obtain v i where "run_state (esp_jpg_decode prepare (length src) JPG_SCALE_NONE jpg_read (rgb_write env)) ?s = (ESP_OK, v\<lparr>jd_index := i\<rparr>)"
    "rj_output v = None" by blast
  then show ?thesis
    using assms(4) by (auto simp: jpg2bmp_def new_decoder_def run_simps Let_def store_bytes_def bmp_header_def)
qed

lemma pixels_of_bytes:
  assumes "n = length ps"
  shows "pixels PIXFORMAT_RGB888 (concat (map bgr ps)) n = ps"
proof (rule nth_equalityI)
  fix i assume "i < length (pixels PIXFORMAT_RGB888 (concat (map bgr ps)) n)"
  then have i: "i < length ps" using assms by (simp add: pixels_def)
  have bgrs: "length x = 3" if "x \<in> set (map bgr ps)" for x using that by auto
  have byte: "concat (map bgr ps) ! (i * 3 + k) = bgr (ps ! i) ! k" if "k < 3" for k
    using nth_concat_equal [of "map bgr ps" 3 i k, OF bgrs] i that by simp
  show "pixels PIXFORMAT_RGB888 (concat (map bgr ps)) n ! i = ps ! i"
    using byte [of 0] byte [of 1] byte [of 2] i assms by (simp add: pixels_def bgr_nth mult.commute)
qed (simp add: pixels_def assms)

text \<open>C33 (roundtrip) BMP files of JPEG pictures: when the memory for the file can be had, \<open>jpg2bmp\<close> of a JPEG picture whose width is a
  multiple of four succeeds without an access outside a buffer, and a reader of the BMP format gets back its size and
  every pixel; when it cannot be had, decoding goes on and ends with an access through \<open>NULL\<close>.\<close>

theorem jpg2bmp_outcome:
  assumes "jpeg_of prepare JPG_SCALE_NONE src wd ht pic" "0 < wd" "4 dvd wd" "wd * ht \<le> 2 ^ 28"
    "run_state (jpg2bmp env prepare src (length src)) s = ((ok, out, len), t)"
  shows "if rval (env (length (trace s)) (Os (Malloc (wd * ht * 3 + BMP_HEADER_LEN) MALLOC_DEFAULT))) = 0 then out_of_bounds t
     else ok \<and> out_of_bounds t = out_of_bounds s \<and>
       (\<exists>f. out = Some f \<and> len = length f \<and> read_bmp f = Some (wd, ht, pixel_list pic wd ht))"
proof -
  let ?s = "s\<lparr>rj_width := 0, rj_height := 0, rj_input := src, rj_output := None, rj_data_offset := BMP_HEADER_LEN\<rparr>"
  let ?n = "wd * ht * 3 + BMP_HEADER_LEN"
  define c where "c = Os (Malloc ?n MALLOC_DEFAULT)"
  define r where "r = env (length (trace s)) c"
  let ?u = "?s\<lparr>rj_width := wd, rj_height := ht, jd_len := length src, trace := trace s @ [(c, r)]\<rparr>"
  note start = run_write_start_new [where s = "?s\<lparr>jd_len := length src, jd_index := i\<rparr>" for i, where w = wd and h = ht and env = env]
  show ?thesis
  proof (cases "rval r = 0")
    case True
    then show ?thesis using jpg2bmp_no_memory [OF assms(1,2) _ assms(5)] by (simp add: c_def r_def)
  next
    case False
    let ?b0 = "fit ?n (rdata r)" and ?bs = "concat (map bgr (pixel_list pic wd ht))"
    obtain i where dec: "run_state (esp_jpg_decode prepare (length src) JPG_SCALE_NONE jpg_read (rgb_write env)) ?s =
        (ESP_OK, ?u\<lparr>rj_output := Some (write_at BMP_HEADER_LEN ?bs ?b0), jd_index := i\<rparr>)"
      using rgb888.decode_picture [OF assms(1,2), of ?s env True "?u\<lparr>rj_output := Some ?b0\<rparr>" BMP_HEADER_LEN ?b0] start False jpeg_countable_rows [OF assms(1,4)]
      by (auto simp: c_def r_def)
    let ?f = "bmp_file PIXFORMAT_RGB888 ?bs wd ht"
    have bs: "length ?bs = 3 * (wd * ht)" by (simp add: length_pixel_bytes)
    have data: "bmp_data PIXFORMAT_RGB888 ?bs (wd * ht) = ?bs"
      by (simp add: bmp_data_def rgb888_bytes_def source_bytes_def bs)
    have "write_at 0 (bmp_header (bmp_head PIXFORMAT_RGB888 wd ht)) (write_at BMP_HEADER_LEN ?bs ?b0) = ?f"
      by (simp add: bmp_file_def data write_at_def bs)
    moreover have "length (write_at BMP_HEADER_LEN ?bs ?b0) = ?n" by (simp add: length_write_at bs)
    ultimately have "ok" "out = Some ?f" "len = ?n" "out_of_bounds t = out_of_bounds s"
      using assms(5) dec
      by (auto simp: jpg2bmp_def new_decoder_def run_simps Let_def run_store_bytes bmp_head_def)
    moreover have "read_bmp ?f = Some (wd, ht, pixel_list pic wd ht)"
      using read_bmp_bmp_file [of PIXFORMAT_RGB888 wd ht ?bs] jpeg_of_size [OF assms(1)] assms(3,4)
      by (simp add: raw_formats_def source_bytes_def bs pixels_of_bytes)
    moreover have "length ?f = ?n" by (simp add: bmp_file_def data bs)
    ultimately show ?thesis using False by (simp add: c_def r_def)
  qed
qed

section \<open>Examples\<close>

text \<open>A decoder that reads one byte and delivers a picture of four pixels in two blocks.\<close>

definition demo_picture :: picture where
  "demo_picture x y = (of_nat x, of_nat y, 7)"

definition demo_decomp :: "JRESULT jd" where
  "demo_decomp = Jd_output \<lparr>left = 2, right = 3, top = 0, bottom = 0\<rparr> [2, 0, 7, 3, 0, 7]
     (\<lambda>_. Jd_output \<lparr>left = 0, right = 1, top = 0, bottom = 0\<rparr> [0, 0, 7, 1, 0, 7] (\<lambda>_. Jd_done JDR_OK))"

definition demo_prepare :: jd_prepare where
  "demo_prepare = Jd_input True 512 (\<lambda>_. Jd_done (JDR_OK, \<lparr>jd_width = 4, jd_height = 1, jd_decomp = \<lambda>_. demo_decomp\<rparr>))"

lemma demo_blocks:
  "block demo_picture \<lparr>left = 2, right = 3, top = 0, bottom = 0\<rparr> = [2, 0, 7, 3, 0, 7]"
  "block demo_picture \<lparr>left = 0, right = Suc 0, top = 0, bottom = 0\<rparr> = [0, 0, 7, 1, 0, 7]"
  by (simp_all add: block_def row_def demo_picture_def rgb_def upt_rec)

lemma demo_jpeg: "jpeg_of demo_prepare JPG_SCALE_NONE [0xFF] 4 1 demo_picture"
proof -
  have "{..<4} \<times> {..<1} \<subseteq> area \<lparr>left = 2, right = 3, top = 0, bottom = 0\<rparr> \<union> area \<lparr>left = 0, right = 1, top = 0, bottom = 0\<rparr>"
    by (auto simp: area_def)
  then show ?thesis
    by (simp add: jpeg_of_def demo_prepare_def demo_decomp_def demo_blocks MAX_BLOCK_WIDTH_def Un_commute)
qed

lemma demo_pixels: "pixel_list demo_picture 4 (Suc 0) = [(0, 0, 7), (1, 0, 7), (2, 0, 7), (3, 0, 7)]"
  by code_simp

theorem fmt2rgb888_jpeg_complete_witness:
  "let (ok, t) = run_state (fmt2rgb888 heap_left demo_prepare [0xFF] 1 PIXFORMAT_JPEG (replicate 13 9)) no_conversion
   in ok \<and> rj_output t = Some [7, 0, 0, 7, 0, 1, 7, 0, 2, 7, 0, 3, 9] \<and> \<not> out_of_bounds t"
proof -
  obtain ok t where run: "run_state (fmt2rgb888 heap_left demo_prepare [0xFF] (length [0xFF :: byte]) PIXFORMAT_JPEG (replicate 13 9)) no_conversion = (ok, t)"
    by (meson surj_pair)
  have "write_at 0 (concat (map bgr (pixel_list demo_picture 4 1))) (replicate 13 9) = [7, 0, 0, 7, 0, 1, 7, 0, 2, 7, 0, 3, 9]"
    by (simp add: demo_pixels bgr_def write_at_def)
  then show ?thesis
    using fmt2rgb888_jpeg_complete [OF demo_jpeg _ _ _ run] run by (simp add: no_conversion_def)
qed

theorem jpg2bmp_outcome_witness:
  "let ((ok, out, _), t) = run_state (jpg2bmp heap_left demo_prepare [0xFF] 1) no_conversion
   in ok \<and> \<not> out_of_bounds t \<and> read_bmp (the out) = Some (4, 1, [(0, 0, 7), (1, 0, 7), (2, 0, 7), (3, 0, 7)])"
proof -
  obtain ok out len t where run: "run_state (jpg2bmp heap_left demo_prepare [0xFF] (length [0xFF :: byte])) no_conversion = ((ok, out, len), t)"
    by (metis surj_pair)
  show ?thesis
    using jpg2bmp_outcome [OF demo_jpeg _ _ _ run] run by (auto simp: demo_pixels heap_left_def no_conversion_def)
qed

end
