(* ===== verification/TakeDeadline.thy ===== *)
theory TakeDeadline
  imports Video
begin

text \<open>
  The time limit of \<open>cam_take\<close> (\<open>cam_hal.c\<close>): how long it retries frames without an end marker, measured by its own readings
  of the tick counter, and that it returns.
\<close>

section \<open>Readings of the tick counter\<close>

fun tick_of :: "fw_call \<times> ret \<Rightarrow> u32 option" where
  "tick_of (Os Tick_count, r) = Some (word_of_int (rval r))"
| "tick_of _ = None"

definition ticks :: "(fw_call \<times> ret) list \<Rightarrow> u32 list" where
  "ticks tr = List.map_filter tick_of tr"

text \<open>Every attempt reads the counter when it starts, and again when it has given back a frame without end marker.\<close>

fun attempt_times :: "u32 list \<Rightarrow> nat list" where
  "attempt_times (start # now # ts) = unat (now - start) # attempt_times ts"
| "attempt_times _ = []"

lemma ticks_simps [simp]:
  "ticks [] = []" "ticks (xs @ ys) = ticks xs @ ticks ys"
  "ticks (x # xs) = (case tick_of x of None \<Rightarrow> ticks xs | Some t \<Rightarrow> t # ticks xs)"
  by (auto simp: ticks_def map_filter_def split: option.splits)

fun untimed :: "fw_call \<Rightarrow> bool" where
  "untimed (Os Tick_count) \<longleftrightarrow> False"
| "untimed _ \<longleftrightarrow> True"

lemma untimed_ticks: "list_all (\<lambda>e. untimed (fst e)) tr \<Longrightarrow> ticks tr = []"
proof (induction tr)
  case (Cons e tr)
  then show ?case by (cases e rule: tick_of.cases) auto
qed simp

section \<open>The driver does not read the tick counter\<close>

lemma untimed_writes [simp]:
  "list_all untimed (dma_reset_writes c)" "list_all untimed (stop_writes c)" "list_all untimed (start_writes c p)"
  by (simp_all add: dma_reset_writes_def stop_writes_def start_writes_def gdma_reg_def lcd_reg_def)

lemma untimed_ll_cam [only_intros]:
  "only untimed (ll_cam_dma_reset env)" "only untimed (ll_cam_stop env)" "only untimed (ll_cam_start env p)"
  "only untimed (ll_cam_do_vsync env)"
  unfolding ll_cam_dma_reset_def ll_cam_stop_def ll_cam_start_def ll_cam_do_vsync_def by (intro only_intros; simp)+

lemma untimed_isr [only_intros]: "only untimed (ll_cam_vsync_isr env)" "only untimed (ll_cam_dma_isr env)"
  unfolding ll_cam_vsync_isr_def ll_cam_dma_isr_def ll_cam_send_event_def lcd_cam_def gdma_def by (intro only_intros; simp)+

lemma untimed_frames [only_intros]: "only untimed (cam_start_frame env)" "only untimed (finish_frame env p)"
  unfolding cam_start_frame_def cam_get_next_frame_def finish_frame_def send_frame_def copy_half_def
  by (intro only_intros; simp)+

lemma untimed_task [only_intros]: "only untimed (cam_task env ev)"
  unfolding cam_task_def task_eof_def task_vsync_def copy_half_def dma_fills_frame_def
  by (cases ev) (auto intro!: only_intros split: cam_state_t.split)

lemma untimed_step [only_intros]: "only untimed (do_step env st)"
  by (cases st) (auto intro!: only_intros)

lemma untimed_wait: "only untimed (wait_frame env arrive t)"
proof -
  have "only untimed (do_steps env sts)" for sts by (induction sts) (auto intro!: only_intros)
  then show ?thesis unfolding wait_frame_def receive_frame_def background_def by (auto intro!: only_intros split: option.split)
qed

section \<open>The deadline\<close>

lemma take_rest_time:
  assumes "run_state (take_rest env arrive fuel timeout start y) u = (res, s')"
  obtains (returned) x where "res = Some x" "trace s' = trace u"
    | (late) r where "res = Some None" "trace s' = trace u @ [(Os Tick_count, r)]"
    | (again) r v where "timeout > word_of_int (rval r) - word_of_int (rval start)" "trace v = trace u @ [(Os Tick_count, r)]"
        "run_state (cam_take env arrive fuel (timeout - (word_of_int (rval r) - word_of_int (rval start)))) v = (res, s')"
  using assms
  by (auto simp: take_rest_def run_simps Let_def run_cam_give put_def not_le split: option.splits if_splits)
    (erule again [rotated 2], assumption, simp)+

lemma cam_take_time:
  assumes "run_state (cam_take env arrive fuel timeout) s = (res, s')"
  shows "\<exists>tr. trace s' = trace s @ tr \<and> sum_list (butlast (attempt_times (ticks tr))) \<le> unat timeout \<and>
    (res = None \<longrightarrow> length (attempt_times (ticks tr)) = fuel \<and> (0 < fuel \<longrightarrow> sum_list (attempt_times (ticks tr)) < unat timeout))"
  using assms
proof (induction fuel arbitrary: s timeout)
  case 0
  then show ?case by (auto simp: run_simps intro!: exI [of _ "[]"])
next
  case (Suc fuel)
  obtain start s0 where s0: "run_state (call env (Os Tick_count)) s = (start, s0)" by (meson surj_pair)
  obtain y u where u: "run_state (wait_frame env arrive timeout) s0 = (y, u)" by (meson surj_pair)
  have rest: "run_state (take_rest env arrive fuel timeout start y) u = (res, s')"
    using Suc.prems s0 u by (simp add: cam_take_Suc run_basic)
  obtain tr1 where tr1: "trace u = trace s0 @ tr1" "list_all (\<lambda>e. untimed (fst e)) tr1" by (rule onlyD [OF untimed_wait u])
  have tu: "trace u = trace s @ (Os Tick_count, start) # tr1" using s0 tr1(1) by (auto simp: run_simps)
  note none = untimed_ticks [OF tr1(2)]
  from rest show ?case
  proof (cases rule: take_rest_time)
    case (returned x)
    then show ?thesis using tu none by (intro exI [of _ "(Os Tick_count, start) # tr1"]) simp
  next
    case (late r)
    then show ?thesis using tu none by (intro exI [of _ "(Os Tick_count, start) # tr1 @ [(Os Tick_count, r)]"]) simp
  next
    case (again r v)
    define spent where "spent = (word_of_int (rval r) - word_of_int (rval start) :: u32)"
    obtain tr2 where tr2: "trace s' = trace v @ tr2" "sum_list (butlast (attempt_times (ticks tr2))) \<le> unat (timeout - spent)"
      "res = None \<longrightarrow> length (attempt_times (ticks tr2)) = fuel \<and> (0 < fuel \<longrightarrow> sum_list (attempt_times (ticks tr2)) < unat (timeout - spent))"
      using Suc.IH [OF again(3) [folded spent_def]] by blast
    have less: "unat spent < unat timeout" using again(1) by (simp add: spent_def word_less_nat_alt)
    then have left: "unat (timeout - spent) = unat timeout - unat spent" by (simp add: unat_sub word_le_nat_alt)
    let ?tr = "(Os Tick_count, start) # tr1 @ (Os Tick_count, r) # tr2"
    have ts: "attempt_times (ticks ?tr) = unat spent # attempt_times (ticks tr2)" by (simp add: none spent_def)
    show ?thesis
    proof (intro exI conjI impI)
      show "trace s' = trace s @ ?tr" using tr2(1) again(2) tu by simp
      show "sum_list (butlast (attempt_times (ticks ?tr))) \<le> unat timeout" using tr2(2) less unfolding ts left by auto
      assume r: "res = None"
      then show "length (attempt_times (ticks ?tr)) = Suc fuel" using tr2(3) unfolding ts by simp
      show "sum_list (attempt_times (ticks ?tr)) < unat timeout"
        using tr2(3) r less left unfolding ts by (cases "fuel = 0") auto
    qed
  qed
qed


text \<open>A driver that always has a frame without end marker, and a clock that advances with every call.\<close>

definition garbage_frames :: fw_env where
  "garbage_frames k c = (case c of Cam (Queue_receive q t) \<Rightarrow> ret_int 1 | _ \<Rightarrow> ret_int (int k))"

lemma garbage_run:
  "fst (run_state (cam_take garbage_frames (\<lambda>k. []) 5 5) demo_state) = Some None \<and>
   attempt_times (ticks (drop 1 (trace (snd (run_state (cam_take garbage_frames (\<lambda>k. []) 5 5) demo_state))))) = [2, 2, 2]"
  by code_simp


end
